(* ===== verification/ERP_Prelude.thy ===== *)
theory ERP_Prelude
  imports Complex_Main "HOL-Library.Word" "HOL-Library.Char_ord" "HOL-Library.List_Lexorder"
begin

text \<open>
  Shared vocabulary of the development: the names of the model's basic types, the error
  type of \<^verbatim>\<open>zavora-erp-core/src/error.rs\<close> and its sequencing combinator, decimal
  formatting of counters, and generic facts about sums over lists.

  \<^item> \<open>decimal\<close> is the value of a \<^verbatim>\<open>rust_decimal::Decimal\<close>. Sums, differences and products
    are exact (rust\_decimal is exact while the result fits its 28 digits; amounts beyond
    that panic and are outside the model). Rounding and division belong to the package
    and are parameters (theory Money).
  \<^item> \<open>naive_date\<close> is a calendar day as its number of days from the common era, the order and
    the day arithmetic of \<^verbatim>\<open>chrono::NaiveDate\<close>. How a day number splits into year, month and
    day is a parameter (theory Periods).
  \<^item> \<open>uuid\<close> is the value of a UUID. Fresh UUIDs and the clock are arguments of the
    operations that draw them.
\<close>

section \<open>Basic types\<close>

type_synonym decimal = rat
type_synonym uuid = nat
type_synonym naive_date = int
type_synonym timestamp = int
type_synonym currency_code = string
type_synonym account_code = string

datatype agent_or_user_id = User uuid | AgentId string

section \<open>Errors and their sequencing\<close>

text \<open>
  \<open>ErpError\<close>. A message is the source's text; numbers, dates and ids that the source
  interpolates into a message are left out, strings are kept.
\<close>

datatype erp_error =
    Unbalanced decimal decimal
  | PeriodClosed uuid naive_date
  | PeriodClosedDetailed string string uuid
  | AccountNotFound account_code
  | AccountInactive account_code
  | DuplicateReference string
  | ControlAccountViolation account_code
  | FxRateNotFound currency_code currency_code naive_date
  | ValidationFailed string
  | NotFound string uuid
  | Duplicate string
  | CreditLimitExceeded string uuid decimal decimal decimal
  | InsufficientStock string decimal decimal
  | Unauthorized string
  | PermissionDenied string string
  | PaymentError string
  | Overpayment uuid decimal decimal
  | Database string
  | Internal string

type_synonym 'a erp_result = "erp_error + 'a"

text \<open>The \<open>?\<close> operator: go on with the value, or return the error.\<close>

definition and_then :: "'a erp_result \<Rightarrow> ('a \<Rightarrow> 'b erp_result) \<Rightarrow> 'b erp_result" where
  "and_then r k = (case r of Inl e \<Rightarrow> Inl e | Inr x \<Rightarrow> k x)"

lemma and_then_Inl [simp]: "and_then (Inl e) k = Inl e"
  by (simp add: and_then_def)

lemma and_then_Inr [simp]: "and_then (Inr x) k = k x"
  by (simp add: and_then_def)

lemma and_then_eq_Inr [simp]: "and_then r k = Inr y \<longleftrightarrow> (\<exists>x. r = Inr x \<and> k x = Inr y)"
  by (cases r) auto

lemma and_then_eq_InrE:
  assumes "and_then r k = Inr y"
  obtains x where "r = Inr x" and "k x = Inr y"
  using assms by auto

text \<open>\<open>fetch_optional(..).ok_or_else(..)\<close>.\<close>

definition ok_or :: "'a option \<Rightarrow> erp_error \<Rightarrow> 'a erp_result" where
  "ok_or x e = (case x of None \<Rightarrow> Inl e | Some v \<Rightarrow> Inr v)"

lemma ok_or_simps [simp]: "ok_or None e = Inl e" "ok_or (Some v) e = Inr v"
  by (simp_all add: ok_or_def)

lemma ok_or_eq_Inr [simp]: "ok_or x e = Inr v \<longleftrightarrow> x = Some v"
  by (cases x) auto

text \<open>\<open>Option::unwrap_or\<close>.\<close>

definition unwrap_or :: "'a option \<Rightarrow> 'a \<Rightarrow> 'a" where
  "unwrap_or x d = (case x of None \<Rightarrow> d | Some v \<Rightarrow> v)"

lemma unwrap_or_simps [simp]: "unwrap_or None d = d" "unwrap_or (Some v) d = v"
  by (simp_all add: unwrap_or_def)

text \<open>A loop over a list whose body may fail, threading a state.\<close>

fun try_fold :: "('a \<Rightarrow> 's \<Rightarrow> 's erp_result) \<Rightarrow> 'a list \<Rightarrow> 's \<Rightarrow> 's erp_result" where
  "try_fold f [] s = Inr s"
| "try_fold f (x # xs) s = and_then (f x s) (try_fold f xs)"

lemma try_fold_append:
  "try_fold f (xs @ ys) s = and_then (try_fold f xs s) (try_fold f ys)"
  by (induction xs arbitrary: s) (auto simp: and_then_def split: sum.splits)

lemma try_fold_invariant:
  assumes "try_fold f xs s = Inr s'" and "I s"
    and "\<And>x s s'. x \<in> set xs \<Longrightarrow> I s \<Longrightarrow> f x s = Inr s' \<Longrightarrow> I s'"
  shows "I s'"
  using assms
proof (induction xs arbitrary: s)
  case Nil
  then show ?case by simp
next
  case (Cons x xs)
  from Cons.prems(1) obtain t where t: "f x s = Inr t" and rest: "try_fold f xs t = Inr s'"
    by auto
  have "I t" by (rule Cons.prems(3) [OF _ Cons.prems(2) t]) simp
  show ?case
    by (rule Cons.IH [OF rest \<open>I t\<close>]) (use Cons.prems(3) in auto)
qed

text \<open>A loop that builds a list and stops at the first error.\<close>

fun try_map :: "('a \<Rightarrow> 'b erp_result) \<Rightarrow> 'a list \<Rightarrow> 'b list erp_result" where
  "try_map f [] = Inr []"
| "try_map f (x # xs) = and_then (f x) (\<lambda>y. and_then (try_map f xs) (\<lambda>ys. Inr (y # ys)))"

lemma try_map_InrD: "try_map f xs = Inr ys \<Longrightarrow> list_all2 (\<lambda>x y. f x = Inr y) xs ys"
  by (induction xs arbitrary: ys) auto

lemma try_map_all:
  "try_map f xs = Inr ys \<Longrightarrow> (\<And>x y. x \<in> set xs \<Longrightarrow> f x = Inr y \<Longrightarrow> P y) \<Longrightarrow> y \<in> set ys \<Longrightarrow> P y"
proof (induction xs arbitrary: ys)
  case Nil
  then show ?case by simp
next
  case (Cons x xs)
  from Cons.prems(1) obtain z zs where z: "f x = Inr z" "try_map f xs = Inr zs" "ys = z # zs" by auto
  show ?case
  proof (cases "y = z")
    case True
    with z(1) Cons.prems(2) [of x z] show ?thesis by simp
  next
    case False
    with z Cons.prems(3) have rest: "y \<in> set zs" by simp
    show ?thesis by (rule Cons.IH [OF z(2) _ rest]) (rule Cons.prems(2); simp)
  qed
qed

section \<open>Formatting of counters\<close>

text \<open>\<open>format!\<close> of an unsigned integer, and zero padding to a minimal width.\<close>

definition digit_char :: "int \<Rightarrow> char" where
  "digit_char d = ''0123456789'' ! nat d"

function show_digits :: "int \<Rightarrow> string" where
  "show_digits n = (if n < 10 then [digit_char n] else show_digits (n div 10) @ [digit_char (n mod 10)])"
  by auto
termination
  by (relation "measure nat") auto

declare show_digits.simps [simp del]

definition show_nat :: "nat \<Rightarrow> string" where
  "show_nat n = show_digits (int n)"

definition show_int :: "int \<Rightarrow> string" where
  "show_int i = (if i < 0 then CHR ''-'' # show_digits (- i) else show_digits i)"

definition pad_zero :: "nat \<Rightarrow> string \<Rightarrow> string" where
  "pad_zero w s = replicate (w - length s) CHR ''0'' @ s"

text \<open>Reading a padded counter back gives the counter: the formatting loses nothing.\<close>

definition read_digits :: "string \<Rightarrow> int" where
  "read_digits s = foldl (\<lambda>a c. 10 * a + (of_char c - 48)) 0 s"

lemma small_digit: "0 \<le> d \<Longrightarrow> d < 10 \<Longrightarrow> d \<in> set [0, 1, 2, 3, 4, 5, 6, 7, 8, 9]" for d :: int
  by simp presburger

lemma of_char_digit_char:
  assumes "0 \<le> d" "d < 10"
  shows "of_char (digit_char d) - 48 = (d :: int)"
proof -
  have "list_all (\<lambda>d. of_char (digit_char d) - 48 = (d :: int)) [0, 1, 2, 3, 4, 5, 6, 7, 8, 9]"
    by code_simp
  then show ?thesis using small_digit [OF assms] unfolding list_all_iff by blast
qed

lemma read_digits_snoc: "read_digits (s @ [c]) = 10 * read_digits s + (of_char c - 48)"
  by (simp add: read_digits_def)

lemma read_digits_show: "0 \<le> n \<Longrightarrow> read_digits (show_digits n) = n"
proof (induction n rule: show_digits.induct)
  case (1 n)
  show ?case
  proof (cases "n < 10")
    case True
    then have "show_digits n = [digit_char n]" by (subst show_digits.simps) simp
    then show ?thesis
      using of_char_digit_char [OF 1(2) True] by (simp add: read_digits_def)
  next
    case False
    then have eq: "show_digits n = show_digits (n div 10) @ [digit_char (n mod 10)]"
      by (subst show_digits.simps) simp
    have "read_digits (show_digits n) = 10 * (n div 10) + n mod 10"
      unfolding eq read_digits_snoc
      using 1(1) [OF False] 1(2) of_char_digit_char [of "n mod 10"] False by simp
    then show ?thesis by simp
  qed
qed

lemma read_digits_replicate_zero: "read_digits (replicate k CHR ''0'' @ s) = read_digits s"
proof -
  have "foldl (\<lambda>a c. 10 * a + (of_char c - 48)) 0 (replicate k CHR ''0'') = (0 :: int)"
    by (induction k) auto
  then show ?thesis by (simp add: read_digits_def)
qed

lemma read_digits_padded: "read_digits (pad_zero w (show_nat n)) = int n"
  by (simp add: pad_zero_def read_digits_replicate_zero show_nat_def read_digits_show)

lemma padded_inject [simp]:
  "pad_zero w (show_nat n) = pad_zero w (show_nat m) \<longleftrightarrow> n = m"
  by (metis read_digits_padded of_nat_eq_iff)

text \<open>\<open>Vec<String>::join\<close>.\<close>

fun join_with :: "string \<Rightarrow> string list \<Rightarrow> string" where
  "join_with sep [] = []"
| "join_with sep [s] = s"
| "join_with sep (s # t # ts) = s @ sep @ join_with sep (t # ts)"

text \<open>\<open>to_lowercase\<close> and SQL's \<open>lower\<close>, on ASCII letters.\<close>

definition lower_char :: "char \<Rightarrow> char" where
  "lower_char c = (let n = of_char c :: int in if 65 \<le> n \<and> n \<le> 90 then char_of (n + 32) else c)"

definition lower :: "string \<Rightarrow> string" where
  "lower s = map lower_char s"

text \<open>\<open>to_uppercase\<close> and \<open>trim\<close>, on ASCII text.\<close>

definition upper_char :: "char \<Rightarrow> char" where
  "upper_char c = (let n = of_char c :: int in if 97 \<le> n \<and> n \<le> 122 then char_of (n - 32) else c)"

definition upper :: "string \<Rightarrow> string" where
  "upper s = map upper_char s"

definition is_space :: "char \<Rightarrow> bool" where
  "is_space c \<longleftrightarrow> (let n = of_char c :: int in n = 32 \<or> (9 \<le> n \<and> n \<le> 13))"

definition trim :: "string \<Rightarrow> string" where
  "trim s = rev (dropWhile is_space (rev (dropWhile is_space s)))"

text \<open>\<open>Option<String>::filter(|s| !s.trim().is_empty())\<close>.\<close>

definition non_blank :: "string option \<Rightarrow> string option" where
  "non_blank s = (case s of None \<Rightarrow> None | Some t \<Rightarrow> if trim t = [] then None else Some t)"

section \<open>Sums over lists\<close>

text \<open>\<open>iter().filter_map(f).sum()\<close>.\<close>

definition opt_sum :: "('a \<Rightarrow> decimal option) \<Rightarrow> 'a list \<Rightarrow> decimal" where
  "opt_sum f xs = sum_list (List.map_filter f xs)"

lemma opt_sum_Nil [simp]: "opt_sum f [] = 0"
  by (simp add: opt_sum_def map_filter_simps)

lemma opt_sum_Cons [simp]: "opt_sum f (x # xs) = unwrap_or (f x) 0 + opt_sum f xs"
  by (simp add: opt_sum_def map_filter_simps unwrap_or_def split: option.splits)

lemma opt_sum_append [simp]: "opt_sum f (xs @ ys) = opt_sum f xs + opt_sum f ys"
  by (induction xs) auto

lemma opt_sum_eq_sum_list: "opt_sum f xs = sum_list (map (\<lambda>x. unwrap_or (f x) 0) xs)"
  by (induction xs) auto

lemma opt_sum_map [simp]: "opt_sum f (map g xs) = opt_sum (f \<circ> g) xs"
  by (induction xs) auto

text \<open>\<open>iter().filter(p).map(f).sum()\<close>, the form of every aggregate query as well.\<close>

definition sum_where :: "('a \<Rightarrow> bool) \<Rightarrow> ('a \<Rightarrow> decimal) \<Rightarrow> 'a list \<Rightarrow> decimal" where
  "sum_where p f xs = sum_list (map f (filter p xs))"

lemma sum_where_Nil [simp]: "sum_where p f [] = 0"
  by (simp add: sum_where_def)

lemma sum_where_Cons [simp]:
  "sum_where p f (x # xs) = (if p x then f x else 0) + sum_where p f xs"
  by (simp add: sum_where_def)

lemma sum_where_append [simp]: "sum_where p f (xs @ ys) = sum_where p f xs + sum_where p f ys"
  by (simp add: sum_where_def)

lemma sum_where_cong:
  "(\<And>x. x \<in> set xs \<Longrightarrow> p x = q x) \<Longrightarrow> (\<And>x. x \<in> set xs \<Longrightarrow> q x \<Longrightarrow> f x = g x) \<Longrightarrow>
    sum_where p f xs = sum_where q g xs"
  by (induction xs) auto

lemma sum_where_split:
  "sum_where p f xs = sum_where (\<lambda>x. p x \<and> q x) f xs + sum_where (\<lambda>x. p x \<and> \<not> q x) f xs"
  by (induction xs) auto

lemma sum_where_map: "sum_where p f (map g xs) = sum_where (p \<circ> g) (f \<circ> g) xs"
  by (induction xs) auto

lemma sum_where_diff:
  "sum_where p (\<lambda>x. f x - g x) xs = sum_where p f xs - sum_where p g xs"
  by (induction xs) auto

lemma sum_where_none: "(\<And>x. x \<in> set xs \<Longrightarrow> \<not> p x) \<Longrightarrow> sum_where p f xs = 0"
  by (induction xs) auto

lemma sum_where_nonneg: "(\<And>x. x \<in> set xs \<Longrightarrow> p x \<Longrightarrow> 0 \<le> f x) \<Longrightarrow> 0 \<le> sum_where p f xs"
  by (induction xs) (auto intro: add_nonneg_nonneg)

text \<open>Updating the row with a given key changes a sum by that row only.\<close>

lemma sum_where_update_none:
  "(\<And>x. x \<in> set xs \<Longrightarrow> key x \<noteq> k) \<Longrightarrow>
    sum_where p f (map (\<lambda>x. if key x = k then g x else x) xs) = sum_where p f xs"
  by (induction xs) auto

lemma sum_where_update_one:
  assumes "distinct (map key xs)" and "r \<in> set xs"
  shows "sum_where p f (map (\<lambda>x. if key x = key r then g x else x) xs)
    = sum_where p f xs - (if p r then f r else 0) + (if p (g r) then f (g r) else 0)"
  using assms
proof (induction xs)
  case Nil
  then show ?case by simp
next
  case (Cons x xs)
  show ?case
  proof (cases "x = r")
    case True
    have "key y \<noteq> key r" if "y \<in> set xs" for y
      using Cons.prems(1) True that by (metis distinct.simps(2) image_eqI list.simps(9) set_map)
    from sum_where_update_none [where key = key and k = "key r", OF this] True show ?thesis by simp
  next
    case False
    with Cons.prems have "r \<in> set xs" "key x \<noteq> key r" by auto
    with Cons show ?thesis by simp
  qed
qed

lemma map_update_keys:
  "(\<And>x. key (g x) = key x) \<Longrightarrow> map key (map (\<lambda>x. if c x then g x else x) xs) = map key xs"
  by simp

text \<open>Two rows with the same key of a keyed table are the same.\<close>

lemma keyed_eq: "distinct (map key xs) \<Longrightarrow> x \<in> set xs \<Longrightarrow> y \<in> set xs \<Longrightarrow> key x = key y \<Longrightarrow> x = y"
  unfolding distinct_map by (meson inj_onD)

text \<open>Looking a row up by its key.\<close>

lemma find_SomeD: "List.find p xs = Some x \<Longrightarrow> x \<in> set xs \<and> p x"
  by (auto simp: find_Some_iff)

text \<open>Grouping by a key loses nothing: the groups of the distinct keys add up to the whole.\<close>

lemma sum_list_distinct_single:
  "distinct ks \<Longrightarrow> sum_list (map (\<lambda>k. if k = a then v else 0) ks) = (if a \<in> set ks then v else (0::decimal))"
  by (induction ks) auto

lemma sum_where_group_by:
  assumes "distinct ks"
  shows "sum_list (map (\<lambda>k. sum_where (\<lambda>x. p x \<and> key x = k) f xs) ks)
    = sum_where (\<lambda>x. p x \<and> key x \<in> set ks) f xs"
proof (induction xs)
  case Nil
  then show ?case by (simp add: sum_list_0)
next
  case (Cons x xs)
  have "(\<lambda>k. sum_where (\<lambda>x. p x \<and> key x = k) f (x # xs))
      = (\<lambda>k. (if k = key x then if p x then f x else 0 else 0)
          + sum_where (\<lambda>x. p x \<and> key x = k) f xs)"
    by auto
  then show ?case
    using Cons sum_list_distinct_single [OF assms, of "key x" "if p x then f x else 0"]
    by (simp add: sum_list_addf)
qed

lemma sum_list_all_zero: "(\<And>x. x \<in> set xs \<Longrightarrow> f x = 0) \<Longrightarrow> sum_list (map f xs) = (0 :: decimal)"
  by (induction xs) auto

text \<open>The collections of facts that carry the component proofs.\<close>

named_theorems ledger_defs \<open>definitions unfolded by proofs about the ledger state\<close>
named_theorems frame_simps \<open>what an operation leaves unchanged\<close>

end
