(* ===== verification/Chart.thy ===== *)
theory Chart
  imports ERP_Prelude
begin

text \<open>
  The chart of accounts: \<^verbatim>\<open>zavora-erp-core/src/ledger/account.rs\<close> (account types),
  \<^verbatim>\<open>ledger/coa_template.rs\<close> (the Kenya Standard template), \<^verbatim>\<open>posting/mod.rs\<close> (the posting
  setup that names the control accounts) and \<^verbatim>\<open>services/accounts.rs\<close> (creation, seeding and
  update). The state is the table \<open>accounts\<close>; every query is scoped to a tenant by its
  \<open>entity_id\<close>, as the SQL of the service is. Proved: an account's type survives storage as
  text, the template is well-formed, seeding an empty tenant creates exactly the template and
  seeding twice changes nothing, every account of the default posting setup is seeded with
  the type its role needs, and the operations keep account codes unique per tenant.
\<close>

section \<open>Account types\<close>

datatype account_type =
    Asset | Liability | Equity | Revenue | Expense
  | ContraAsset | ContraLiability | ContraRevenue | ContraExpense

datatype balance_side = Debit | Credit

datatype financial_statement = BalanceSheet | ProfitAndLoss

fun normal_balance :: "account_type \<Rightarrow> balance_side" where
  "normal_balance Asset = Debit"
| "normal_balance Expense = Debit"
| "normal_balance ContraLiability = Debit"
| "normal_balance ContraRevenue = Debit"
| "normal_balance Liability = Credit"
| "normal_balance Equity = Credit"
| "normal_balance Revenue = Credit"
| "normal_balance ContraAsset = Credit"
| "normal_balance ContraExpense = Credit"

fun statement :: "account_type \<Rightarrow> financial_statement" where
  "statement Asset = BalanceSheet"
| "statement Liability = BalanceSheet"
| "statement Equity = BalanceSheet"
| "statement ContraAsset = BalanceSheet"
| "statement ContraLiability = BalanceSheet"
| "statement Revenue = ProfitAndLoss"
| "statement Expense = ProfitAndLoss"
| "statement ContraRevenue = ProfitAndLoss"
| "statement ContraExpense = ProfitAndLoss"

definition increases_on_debit :: "account_type \<Rightarrow> bool" where
  "increases_on_debit ty \<longleftrightarrow> normal_balance ty = Debit"

text \<open>The text under which serde stores a variant, and its reading.\<close>

fun account_type_text :: "account_type \<Rightarrow> string" where
  "account_type_text Asset = ''Asset''"
| "account_type_text Liability = ''Liability''"
| "account_type_text Equity = ''Equity''"
| "account_type_text Revenue = ''Revenue''"
| "account_type_text Expense = ''Expense''"
| "account_type_text ContraAsset = ''ContraAsset''"
| "account_type_text ContraLiability = ''ContraLiability''"
| "account_type_text ContraRevenue = ''ContraRevenue''"
| "account_type_text ContraExpense = ''ContraExpense''"

definition account_type_list :: "account_type list" where
  "account_type_list = [Asset, Liability, Equity, Revenue, Expense,
     ContraAsset, ContraLiability, ContraRevenue, ContraExpense]"

definition parse_account_type :: "string \<Rightarrow> account_type option" where
  "parse_account_type s = List.find (\<lambda>ty. account_type_text ty = s) account_type_list"

lemma parse_account_type_text [simp]: "parse_account_type (account_type_text ty) = Some ty"
  by (cases ty) (simp_all add: parse_account_type_def account_type_list_def)

lemma account_type_text_inject [simp]:
  "account_type_text a = account_type_text b \<longleftrightarrow> a = b"
  by (metis option.inject parse_account_type_text)

section \<open>Accounts and requests\<close>

record account =
  ac_id :: uuid
  ac_entity_id :: uuid
  ac_code :: account_code
  ac_name :: string
  ac_account_type :: string
  ac_parent_code :: "account_code option"
  ac_currency :: "string option"
  ac_is_control :: bool
  ac_is_active :: bool
  ac_tags :: "string list"
  ac_created_at :: timestamp

definition parsed_type :: "account \<Rightarrow> account_type option" where
  "parsed_type a = parse_account_type (ac_account_type a)"

record create_account_request =
  ca_code :: account_code
  ca_name :: string
  ca_account_type :: account_type
  ca_parent_code :: "account_code option"
  ca_currency :: "string option"
  ca_is_control :: bool
  ca_tags :: "string list"

text \<open>In an update every field is optional; the outer option of a nullable column says
  whether it is written at all.\<close>

record update_account_request =
  ua_name :: "string option"
  ua_parent_code :: "account_code option option"
  ua_currency :: "string option option"
  ua_is_control :: "bool option"
  ua_is_active :: "bool option"
  ua_tags :: "string list option"

section \<open>The template\<close>

definition acct ::
    "string \<Rightarrow> string \<Rightarrow> account_type \<Rightarrow> account_code option \<Rightarrow> bool \<Rightarrow> create_account_request" where
  "acct code name account_type parent_code is_control =
     \<lparr>ca_code = code, ca_name = name, ca_account_type = account_type,
      ca_parent_code = parent_code, ca_currency = None, ca_is_control = is_control, ca_tags = []\<rparr>"

lemma acct_simps [simp]:
  "ca_code (acct c n ty p k) = c"
  "ca_name (acct c n ty p k) = n"
  "ca_account_type (acct c n ty p k) = ty"
  "ca_parent_code (acct c n ty p k) = p"
  "ca_is_control (acct c n ty p k) = k"
  by (simp_all add: acct_def)

datatype coa_template = KenyaStandard | Minimal | CustomTemplate

definition kenya_standard_coa :: "create_account_request list" where
  "kenya_standard_coa =
    [acct ''1000'' ''Cash and Bank'' Asset None True,
     acct ''1010'' ''Petty Cash'' Asset (Some ''1000'') False,
     acct ''1020'' ''Main Bank Account - KES'' Asset (Some ''1000'') False,
     acct ''1030'' ''M-Pesa Float'' Asset (Some ''1000'') False,
     acct ''1040'' ''Bank Account - USD'' Asset (Some ''1000'') False,
     acct ''1100'' ''Accounts Receivable'' Asset None True,
     acct ''1200'' ''Trade Debtors'' Asset (Some ''1100'') True,
     acct ''1250'' ''Intercompany Receivable'' Asset (Some ''1100'') True,
     acct ''1300'' ''VAT Input (Claimable)'' Asset None False,
     acct ''1310'' ''WHT Receivable'' Asset None False,
     acct ''1400'' ''Prepaid Expenses'' Asset None False,
     acct ''1500'' ''Inventory'' Asset None False,
     acct ''1510'' ''Work in Progress'' Asset None False,
     acct ''1600'' ''Other Current Assets'' Asset None False,
     acct ''1610'' ''Unpaid Share Capital'' Asset None False,
     acct ''1700'' ''Unapplied Customer Payments'' Asset None False,
     acct ''2000'' ''Non-Current Assets'' Asset None True,
     acct ''2100'' ''Long-term Investments'' Asset (Some ''2000'') False,
     acct ''2200'' ''Long-term Receivables'' Asset (Some ''2000'') False,
     acct ''2500'' ''Fixed Assets'' Asset None True,
     acct ''2510'' ''Land and Buildings'' Asset (Some ''2500'') False,
     acct ''2520'' ''Motor Vehicles'' Asset (Some ''2500'') False,
     acct ''2530'' ''Plant and Machinery'' Asset (Some ''2500'') False,
     acct ''2540'' ''Furniture and Fittings'' Asset (Some ''2500'') False,
     acct ''2550'' ''Computer Equipment'' Asset (Some ''2500'') False,
     acct ''2600'' ''Accumulated Depreciation'' ContraAsset None True,
     acct ''2610'' ''Acc. Depr. - Buildings'' ContraAsset (Some ''2600'') False,
     acct ''2620'' ''Acc. Depr. - Motor Vehicles'' ContraAsset (Some ''2600'') False,
     acct ''2630'' ''Acc. Depr. - Plant & Machinery'' ContraAsset (Some ''2600'') False,
     acct ''2640'' ''Acc. Depr. - Furniture'' ContraAsset (Some ''2600'') False,
     acct ''2650'' ''Acc. Depr. - Computers'' ContraAsset (Some ''2600'') False,
     acct ''3000'' ''Accounts Payable'' Liability None True,
     acct ''3010'' ''Trade Creditors'' Liability (Some ''3000'') True,
     acct ''3020'' ''Goods Received Not Invoiced'' Liability (Some ''3000'') False,
     acct ''3030'' ''Intercompany Payable'' Liability (Some ''3000'') True,
     acct ''3100'' ''VAT Output (Payable)'' Liability None False,
     acct ''3200'' ''WHT Payable'' Liability None False,
     acct ''3210'' ''WHT Payable - Vendors'' Liability (Some ''3200'') False,
     acct ''3510'' ''Corporation Tax Payable'' Liability None False,
     acct ''3300'' ''Payroll Liabilities'' Liability None True,
     acct ''3310'' ''PAYE Payable'' Liability (Some ''3300'') False,
     acct ''3320'' ''NSSF Payable'' Liability (Some ''3300'') False,
     acct ''3330'' ''SHA Payable (NHIF)'' Liability (Some ''3300'') False,
     acct ''3340'' ''HELB Payable'' Liability (Some ''3300'') False,
     acct ''3350'' ''Housing Levy Payable'' Liability (Some ''3300'') False,
     acct ''3400'' ''Accrued Expenses'' Liability None False,
     acct ''3450'' ''Deferred Revenue'' Liability None False,
     acct ''3500'' ''Other Current Liabilities'' Liability None False,
     acct ''3600'' ''Unapplied Vendor Credits'' Liability None False,
     acct ''4000'' ''Long-term Liabilities'' Liability None True,
     acct ''4100'' ''Bank Loans'' Liability (Some ''4000'') False,
     acct ''4200'' ''Directors Loans'' Liability (Some ''4000'') False,
     acct ''4500'' ''Share Capital'' Equity None False,
     acct ''4600'' ''Retained Earnings'' Equity None False,
     acct ''4700'' ''Current Year Earnings'' Equity None False,
     acct ''4800'' ''Dividends Declared'' Equity None False,
     acct ''5000'' ''Sales Revenue'' Revenue None False,
     acct ''5100'' ''Service Revenue'' Revenue None False,
     acct ''5200'' ''Other Income'' Revenue None False,
     acct ''5180'' ''Intercompany Income'' Revenue None False,
     acct ''5250'' ''Royalty Income'' Revenue None False,
     acct ''5300'' ''Discounts Allowed'' ContraRevenue None False,
     acct ''5400'' ''Sales Returns'' ContraRevenue None False,
     acct ''6000'' ''Cost of Goods Sold'' Expense None False,
     acct ''6100'' ''Direct Materials'' Expense (Some ''6000'') False,
     acct ''6200'' ''Direct Labour'' Expense (Some ''6000'') False,
     acct ''6300'' ''Manufacturing Overhead'' Expense (Some ''6000'') False,
     acct ''7000'' ''Operating Expenses'' Expense None True,
     acct ''7010'' ''Salaries and Wages'' Expense (Some ''7000'') False,
     acct ''7020'' ''Employer NSSF Contribution'' Expense (Some ''7000'') False,
     acct ''7030'' ''Employer Housing Levy'' Expense (Some ''7000'') False,
     acct ''7100'' ''Rent Expense'' Expense (Some ''7000'') False,
     acct ''7160'' ''Intercompany Charges'' Expense (Some ''7000'') False,
     acct ''7200'' ''Utilities'' Expense (Some ''7000'') False,
     acct ''7300'' ''Office Supplies'' Expense (Some ''7000'') False,
     acct ''7350'' ''Software, Cloud & Subscriptions'' Expense (Some ''7000'') False,
     acct ''7400'' ''Insurance'' Expense (Some ''7000'') False,
     acct ''7500'' ''Professional Fees'' Expense (Some ''7000'') False,
     acct ''7600'' ''Depreciation Expense'' Expense (Some ''7000'') False,
     acct ''7700'' ''Advertising & Marketing'' Expense (Some ''7000'') False,
     acct ''7800'' ''Travel & Transport'' Expense (Some ''7000'') False,
     acct ''7900'' ''Miscellaneous Expenses'' Expense (Some ''7000'') False,
     acct ''8000'' ''Finance Income'' Revenue None False,
     acct ''8010'' ''Interest Income'' Revenue (Some ''8000'') False,
     acct ''8050'' ''Finance Expense'' Expense None False,
     acct ''8060'' ''Interest Expense'' Expense (Some ''8050'') False,
     acct ''8070'' ''Bank Charges'' Expense (Some ''8050'') False,
     acct ''8100'' ''Unrealised FX Gain'' Revenue None False,
     acct ''8110'' ''Unrealised FX Loss'' Expense None False,
     acct ''8120'' ''Realised FX Gain'' Revenue None False,
     acct ''8130'' ''Realised FX Loss'' Expense None False,
     acct ''8500'' ''Corporate Income Tax'' Expense None False,
     acct ''8600'' ''Deferred Tax'' Expense None False,
     acct ''9000'' ''Suspense Account'' Asset None False,
     acct ''9100'' ''Unapplied Customer Payments'' Liability None False,
     acct ''9110'' ''Unapplied Vendor Credits'' Asset None False,
     acct ''9200'' ''Inter-company Clearing'' Asset None False,
     acct ''9300'' ''Opening Balance Equity'' Equity None False,
     acct ''9900'' ''Rounding Differences'' Expense None False]"

section \<open>The posting setup\<close>

record posting_setup =
  accounts_receivable :: account_code
  accounts_payable :: account_code
  unapplied_payments :: account_code
  unapplied_vendor_credits :: account_code
  vat_output :: account_code
  vat_input :: account_code
  wht_payable :: account_code
  wht_receivable :: account_code
  realised_fx_gain :: account_code
  realised_fx_loss :: account_code
  unrealised_fx_gain :: account_code
  unrealised_fx_loss :: account_code
  retained_earnings :: account_code
  rounding_adjustment :: account_code
  default_bank :: account_code
  default_sales :: account_code
  default_purchase :: account_code
  default_expense :: account_code
  inventory_asset :: account_code
  cost_of_goods_sold :: account_code
  inventory_clearing :: account_code
  work_in_progress :: account_code
  manufacturing_overhead :: account_code
  fixed_asset :: account_code
  accumulated_depreciation :: account_code
  depreciation_expense :: account_code
  salaries_expense :: account_code
  nssf_employer_expense :: account_code
  housing_levy_employer_expense :: account_code
  paye_payable :: account_code
  nssf_payable :: account_code
  sha_payable :: account_code
  helb_payable :: account_code
  housing_levy_payable :: account_code
  net_pay_payable :: account_code
  intercompany_receivable :: account_code
  intercompany_payable :: account_code
  intercompany_income :: account_code
  intercompany_expense :: account_code

definition default_posting_setup :: posting_setup where
  "default_posting_setup =
    \<lparr>accounts_receivable = ''1200'',
     accounts_payable = ''3010'',
     unapplied_payments = ''9100'',
     unapplied_vendor_credits = ''9110'',
     vat_output = ''3100'',
     vat_input = ''1300'',
     wht_payable = ''3210'',
     wht_receivable = ''1310'',
     realised_fx_gain = ''8120'',
     realised_fx_loss = ''8130'',
     unrealised_fx_gain = ''8100'',
     unrealised_fx_loss = ''8110'',
     retained_earnings = ''4600'',
     rounding_adjustment = ''7900'',
     default_bank = ''1020'',
     default_sales = ''5100'',
     default_purchase = ''7350'',
     default_expense = ''7900'',
     inventory_asset = ''1500'',
     cost_of_goods_sold = ''6000'',
     inventory_clearing = ''3020'',
     work_in_progress = ''1510'',
     manufacturing_overhead = ''6300'',
     fixed_asset = ''2500'',
     accumulated_depreciation = ''2600'',
     depreciation_expense = ''7600'',
     salaries_expense = ''7010'',
     nssf_employer_expense = ''7020'',
     housing_levy_employer_expense = ''7030'',
     paye_payable = ''3310'',
     nssf_payable = ''3320'',
     sha_payable = ''3330'',
     helb_payable = ''3340'',
     housing_levy_payable = ''3350'',
     net_pay_payable = ''3400'',
     intercompany_receivable = ''1250'',
     intercompany_payable = ''3030'',
     intercompany_income = ''5180'',
     intercompany_expense = ''7160''\<rparr>"

section \<open>The account table and its operations\<close>

record chart_db =
  accounts :: "account list"

text \<open>\<open>SELECT .. FROM accounts WHERE entity_id = $1 AND code = $2\<close>.\<close>

definition find_account :: "'a chart_db_scheme \<Rightarrow> uuid \<Rightarrow> account_code \<Rightarrow> account option" where
  "find_account db entity_id code =
     List.find (\<lambda>a. ac_entity_id a = entity_id \<and> ac_code a = code) (accounts db)"

definition account_exists :: "'a chart_db_scheme \<Rightarrow> uuid \<Rightarrow> account_code \<Rightarrow> bool" where
  "account_exists db entity_id code \<longleftrightarrow>
     (\<exists>a \<in> set (accounts db). ac_entity_id a = entity_id \<and> ac_code a = code)"

definition new_account :: "uuid \<Rightarrow> uuid \<Rightarrow> timestamp \<Rightarrow> create_account_request \<Rightarrow> account" where
  "new_account entity_id id' now req =
     \<lparr>ac_id = id', ac_entity_id = entity_id, ac_code = ca_code req, ac_name = ca_name req,
      ac_account_type = account_type_text (ca_account_type req),
      ac_parent_code = ca_parent_code req, ac_currency = ca_currency req,
      ac_is_control = ca_is_control req, ac_is_active = True, ac_tags = ca_tags req,
      ac_created_at = now\<rparr>"

definition create_account ::
    "'a chart_db_scheme \<Rightarrow> uuid \<Rightarrow> create_account_request \<Rightarrow> uuid \<Rightarrow> timestamp
      \<Rightarrow> (account \<times> 'a chart_db_scheme) erp_result" where
  "create_account db entity_id req id' now =
     (if account_exists db entity_id (ca_code req)
      then Inl (Duplicate (''Account code '' @ ca_code req @ '' already exists''))
      else if (case ca_parent_code req of None \<Rightarrow> False
               | Some parent \<Rightarrow> \<not> account_exists db entity_id parent)
      then Inl (AccountNotFound (unwrap_or (ca_parent_code req) []))
      else (let a = new_account entity_id id' now req
            in Inr (a, db\<lparr>accounts := accounts db @ [a]\<rparr>)))"

text \<open>
  The loop of \<open>seed_coa\<close>: a duplicate is skipped, any other error stops the loop. Each
  account is committed on its own, so the accounts created before an error stay; the
  function therefore returns the state beside the result. Ids come from the stream \<open>ids\<close>.
\<close>

fun seed_loop ::
    "'a chart_db_scheme \<Rightarrow> uuid \<Rightarrow> create_account_request list \<Rightarrow> (nat \<Rightarrow> uuid) \<Rightarrow> timestamp \<Rightarrow> nat
      \<Rightarrow> 'a chart_db_scheme \<times> nat erp_result" where
  "seed_loop db entity_id [] ids now count = (db, Inr count)"
| "seed_loop db entity_id (req # reqs) ids now count =
     (case create_account db entity_id req (ids count) now of
        Inr (a, db') \<Rightarrow> seed_loop db' entity_id reqs ids now (count + 1)
      | Inl (Duplicate m) \<Rightarrow> seed_loop db entity_id reqs ids now count
      | Inl e \<Rightarrow> (db, Inl e))"

definition seed_coa ::
    "'a chart_db_scheme \<Rightarrow> uuid \<Rightarrow> coa_template \<Rightarrow> (nat \<Rightarrow> uuid) \<Rightarrow> timestamp
      \<Rightarrow> 'a chart_db_scheme \<times> nat erp_result" where
  "seed_coa db entity_id template ids now =
     (case template of
        KenyaStandard \<Rightarrow> seed_loop db entity_id kenya_standard_coa ids now 0
      | Minimal \<Rightarrow> seed_loop db entity_id
          (filter (\<lambda>a. ca_parent_code a = None) kenya_standard_coa) ids now 0
      | CustomTemplate \<Rightarrow> (db, Inr 0))"

definition get_account :: "'a chart_db_scheme \<Rightarrow> uuid \<Rightarrow> account_code \<Rightarrow> account erp_result" where
  "get_account db entity_id code = ok_or (find_account db entity_id code) (AccountNotFound code)"

definition list_accounts :: "'a chart_db_scheme \<Rightarrow> uuid \<Rightarrow> bool \<Rightarrow> account list" where
  "list_accounts db entity_id active_only =
     sort_key ac_code
       (filter (\<lambda>a. ac_entity_id a = entity_id \<and> (active_only \<longrightarrow> ac_is_active a)) (accounts db))"

definition apply_account_update :: "update_account_request \<Rightarrow> account \<Rightarrow> account" where
  "apply_account_update req a =
     a\<lparr>ac_name := unwrap_or (ua_name req) (ac_name a),
       ac_parent_code := unwrap_or (ua_parent_code req) (ac_parent_code a),
       ac_currency := unwrap_or (ua_currency req) (ac_currency a),
       ac_is_control := unwrap_or (ua_is_control req) (ac_is_control a),
       ac_is_active := unwrap_or (ua_is_active req) (ac_is_active a),
       ac_tags := unwrap_or (ua_tags req) (ac_tags a)\<rparr>"

definition update_account ::
    "'a chart_db_scheme \<Rightarrow> uuid \<Rightarrow> account_code \<Rightarrow> update_account_request
      \<Rightarrow> (account \<times> 'a chart_db_scheme) erp_result" where
  "update_account db entity_id code req =
     and_then (get_account db entity_id code)
       (\<lambda>a. let a' = apply_account_update req a in
         Inr (a', db\<lparr>accounts := map (\<lambda>r. if ac_entity_id r = entity_id \<and> ac_code r = code
           then r\<lparr>ac_name := ac_name a', ac_parent_code := ac_parent_code a',
                  ac_currency := ac_currency a', ac_is_control := ac_is_control a',
                  ac_is_active := ac_is_active a', ac_tags := ac_tags a'\<rparr>
           else r) (accounts db)\<rparr>))"

section \<open>Well-formed charts\<close>

text \<open>\<open>UNIQUE(entity_id, code)\<close>, and every parent is an account of the same tenant.\<close>

definition account_key :: "account \<Rightarrow> uuid \<times> account_code" where
  "account_key a = (ac_entity_id a, ac_code a)"

definition codes_unique :: "'a chart_db_scheme \<Rightarrow> bool" where
  "codes_unique db \<longleftrightarrow> distinct (map account_key (accounts db))"

definition parents_exist :: "'a chart_db_scheme \<Rightarrow> bool" where
  "parents_exist db \<longleftrightarrow> (\<forall>a \<in> set (accounts db).
     case ac_parent_code a of None \<Rightarrow> True | Some p \<Rightarrow> account_exists db (ac_entity_id a) p)"

text \<open>What the seeding loop needs of a template: no code twice, every parent before its child.\<close>

fun template_ok :: "account_code list \<Rightarrow> create_account_request list \<Rightarrow> bool" where
  "template_ok seen [] = True"
| "template_ok seen (r # rs) =
     (ca_code r \<notin> set seen
      \<and> (case ca_parent_code r of None \<Rightarrow> True | Some p \<Rightarrow> p \<in> set seen)
      \<and> template_ok (ca_code r # seen) rs)"

lemma kenya_standard_coa_ok: "template_ok [] kenya_standard_coa"
  by (simp add: kenya_standard_coa_def)

lemma minimal_coa_ok: "template_ok [] (filter (\<lambda>a. ca_parent_code a = None) kenya_standard_coa)"
  by (simp add: kenya_standard_coa_def)

section \<open>Lemmas about the operations\<close>

lemma account_exists_append [simp]:
  "account_exists (db\<lparr>accounts := accounts db @ [a]\<rparr>) e c \<longleftrightarrow>
    account_exists db e c \<or> (ac_entity_id a = e \<and> ac_code a = c)"
  by (auto simp: account_exists_def)

lemma find_account_exists: "account_exists db e c \<longleftrightarrow> find_account db e c \<noteq> None"
  by (auto simp: account_exists_def find_account_def find_None_iff)

lemma find_account_SomeD:
  "find_account db e c = Some a \<Longrightarrow> a \<in> set (accounts db) \<and> ac_entity_id a = e \<and> ac_code a = c"
  by (auto simp: find_account_def find_Some_iff)

lemma new_account_simps [simp]:
  "ac_entity_id (new_account e i now r) = e"
  "ac_code (new_account e i now r) = ca_code r"
  "ac_parent_code (new_account e i now r) = ca_parent_code r"
  "ac_is_active (new_account e i now r) = True"
  "parsed_type (new_account e i now r) = Some (ca_account_type r)"
  "account_key (new_account e i now r) = (e, ca_code r)"
  by (simp_all add: new_account_def parsed_type_def account_key_def)

lemma account_exists_key: "account_exists db e c \<longleftrightarrow> (e, c) \<in> account_key ` set (accounts db)"
  by (force simp: account_exists_def account_key_def)

lemma create_account_InrD:
  assumes "create_account db e r i now = Inr (a, db')"
  shows "\<not> account_exists db e (ca_code r)" and "a = new_account e i now r"
    and "db' = db\<lparr>accounts := accounts db @ [a]\<rparr>"
    and "ca_parent_code r = Some p \<Longrightarrow> account_exists db e p"
  using assms by (auto simp: create_account_def Let_def split: if_splits option.splits)

lemma create_account_codes_unique:
  assumes "codes_unique db" and "create_account db e r i now = Inr (a, db')"
  shows "codes_unique db'"
  using assms(1) create_account_InrD(1-3) [OF assms(2)]
  by (auto simp: codes_unique_def account_exists_key)

lemma create_account_parents_exist:
  assumes "parents_exist db" and "create_account db e r i now = Inr (a, db')"
  shows "parents_exist db'"
  using assms(1) create_account_InrD(2,3) [OF assms(2)] create_account_InrD(4) [OF assms(2)]
  by (auto simp: parents_exist_def split: option.splits)

lemma update_account_codes_unique:
  assumes "codes_unique db" and "update_account db e c req = Inr (a, db')"
  shows "codes_unique db'"
proof -
  have "map account_key (accounts db') = map account_key (accounts db)"
    using assms(2) by (auto simp: update_account_def Let_def account_key_def)
  with assms(1) show ?thesis by (simp add: codes_unique_def)
qed

lemma template_ok_notin: "template_ok seen rs \<Longrightarrow> r \<in> set rs \<Longrightarrow> ca_code r \<notin> set seen"
  by (induction seen rs rule: template_ok.induct) auto

definition seeded_accounts ::
    "uuid \<Rightarrow> (nat \<Rightarrow> uuid) \<Rightarrow> timestamp \<Rightarrow> nat \<Rightarrow> create_account_request list \<Rightarrow> account list" where
  "seeded_accounts e ids now n rs = map (\<lambda>(i, r). new_account e (ids i) now r) (enumerate n rs)"

lemma seeded_accounts_Cons [simp]:
  "seeded_accounts e ids now n [] = []"
  "seeded_accounts e ids now n (r # rs) =
    new_account e (ids n) now r # seeded_accounts e ids now (Suc n) rs"
  by (simp_all add: seeded_accounts_def)

lemma set_seeded_accounts:
  "a \<in> set (seeded_accounts e ids now n rs) \<Longrightarrow> \<exists>i. \<exists>r \<in> set rs. a = new_account e i now r"
proof (induction rs arbitrary: n)
  case Nil
  then show ?case by simp
next
  case (Cons r rs)
  then show ?case by (auto; blast)
qed

lemma map_seeded_accounts:
  "(\<And>i r. r \<in> set rs \<Longrightarrow> f (new_account e i now r) = g r) \<Longrightarrow>
    map f (seeded_accounts e ids now n rs) = map g rs"
  by (induction rs arbitrary: n) auto

lemma seed_loop_fresh:
  assumes "template_ok seen rs"
    and "\<forall>c \<in> set seen. account_exists db e c"
    and "\<forall>r \<in> set rs. \<not> account_exists db e (ca_code r)"
  shows "seed_loop db e rs ids now n =
    (db\<lparr>accounts := accounts db @ seeded_accounts e ids now n rs\<rparr>, Inr (n + length rs))"
  using assms
proof (induction rs arbitrary: seen db n)
  case Nil
  then show ?case by simp
next
  case (Cons r rs)
  let ?a = "new_account e (ids n) now r"
  let ?db = "db\<lparr>accounts := accounts db @ [?a]\<rparr>"
  have "\<not> (case ca_parent_code r of None \<Rightarrow> False | Some p \<Rightarrow> \<not> account_exists db e p)"
    using Cons.prems(1,2) by (auto split: option.splits)
  then have "create_account db e r (ids n) now = Inr (?a, ?db)"
    using Cons.prems(3) by (simp add: create_account_def Let_def)
  moreover have "seed_loop ?db e rs ids now (Suc n) =
    (?db\<lparr>accounts := accounts ?db @ seeded_accounts e ids now (Suc n) rs\<rparr>, Inr (Suc n + length rs))"
    using Cons.prems template_ok_notin [of "ca_code r # seen" rs]
    by (intro Cons.IH [of "ca_code r # seen"]) fastforce+
  ultimately show ?case by simp
qed

lemma seed_loop_present:
  "\<forall>r \<in> set rs. account_exists db e (ca_code r) \<Longrightarrow> seed_loop db e rs ids now n = (db, Inr n)"
  by (induction rs arbitrary: n) (simp_all add: create_account_def)

lemma seed_loop_codes_unique:
  "codes_unique db \<Longrightarrow> seed_loop db e rs ids now n = (db', res) \<Longrightarrow> codes_unique db'"
  by (induction db e rs ids now n rule: seed_loop.induct)
    (auto split: sum.splits prod.splits erp_error.splits dest: create_account_codes_unique)

text \<open>Seeding an empty tenant, for a template that is \<open>template_ok\<close>.\<close>

lemma seed_empty_tenant:
  assumes "template_ok [] rs" and "\<forall>a \<in> set (accounts db). ac_entity_id a \<noteq> e"
  shows "seed_loop db e rs ids now 0 =
    (db\<lparr>accounts := accounts db @ seeded_accounts e ids now 0 rs\<rparr>, Inr (length rs))"
  using seed_loop_fresh [OF assms(1), of db e ids now 0] assms(2)
  by (auto simp: account_exists_def)

lemma account_exists_seeded:
  "r \<in> set rs \<Longrightarrow>
    account_exists (db\<lparr>accounts := accounts db @ seeded_accounts e ids now n rs\<rparr>) e (ca_code r)"
proof -
  assume "r \<in> set rs"
  then have "ca_code r \<in> set (map ac_code (seeded_accounts e ids now n rs))"
    by (subst map_seeded_accounts [where g = ca_code]) auto
  then obtain a where "a \<in> set (seeded_accounts e ids now n rs)" "ac_code a = ca_code r" by auto
  then show ?thesis
    using set_seeded_accounts [of a e ids now n rs]
    by (auto simp: account_exists_def intro!: bexI [of _ a])
qed

section \<open>The default posting setup and the template\<close>

text \<open>
  The type each role of the posting setup needs: what the comments of \<open>PostingSetup\<close> say of
  the account (receivables are an asset, an overpayment by a customer is a liability, a
  vendor's overpayment an asset, and so on).
\<close>

definition posting_roles :: "posting_setup \<Rightarrow> (account_code \<times> account_type) list" where
  "posting_roles ps =
     [(accounts_receivable ps, Asset), (accounts_payable ps, Liability),
      (unapplied_payments ps, Liability), (unapplied_vendor_credits ps, Asset),
      (vat_output ps, Liability), (vat_input ps, Asset),
      (wht_payable ps, Liability), (wht_receivable ps, Asset),
      (realised_fx_gain ps, Revenue), (realised_fx_loss ps, Expense),
      (unrealised_fx_gain ps, Revenue), (unrealised_fx_loss ps, Expense),
      (retained_earnings ps, Equity), (rounding_adjustment ps, Expense),
      (default_bank ps, Asset), (default_sales ps, Revenue),
      (default_purchase ps, Expense), (default_expense ps, Expense),
      (inventory_asset ps, Asset), (cost_of_goods_sold ps, Expense),
      (inventory_clearing ps, Liability), (work_in_progress ps, Asset),
      (manufacturing_overhead ps, Expense), (fixed_asset ps, Asset),
      (accumulated_depreciation ps, ContraAsset), (depreciation_expense ps, Expense),
      (salaries_expense ps, Expense), (nssf_employer_expense ps, Expense),
      (housing_levy_employer_expense ps, Expense), (paye_payable ps, Liability),
      (nssf_payable ps, Liability), (sha_payable ps, Liability),
      (helb_payable ps, Liability), (housing_levy_payable ps, Liability),
      (net_pay_payable ps, Liability), (intercompany_receivable ps, Asset),
      (intercompany_payable ps, Liability), (intercompany_income ps, Revenue),
      (intercompany_expense ps, Expense)]"

lemma default_roles_in_template:
  "list_all (\<lambda>(c, ty). List.member (map (\<lambda>r. (ca_code r, ca_account_type r)) kenya_standard_coa) (c, ty))
    (posting_roles default_posting_setup)"
  by (simp add: posting_roles_def default_posting_setup_def kenya_standard_coa_def)

section \<open>Properties\<close>

text \<open>
  Seeding the Kenya Standard chart for a tenant that has no account yet creates exactly the
  template's accounts, active and with the template's types, reports their number, leaves the
  other tenants' accounts alone, and a second run finds them all and changes nothing.
\<close>

theorem seed_coa_creates_template:
  assumes "\<forall>a \<in> set (accounts db). ac_entity_id a \<noteq> e"
  shows "\<exists>db'. seed_coa db e KenyaStandard ids now = (db', Inr (length kenya_standard_coa))
    \<and> map (\<lambda>a. (ac_code a, parsed_type a, ac_parent_code a, ac_is_active a))
        (filter (\<lambda>a. ac_entity_id a = e) (accounts db'))
      = map (\<lambda>r. (ca_code r, Some (ca_account_type r), ca_parent_code r, True)) kenya_standard_coa
    \<and> filter (\<lambda>a. ac_entity_id a \<noteq> e) (accounts db') = accounts db
    \<and> seed_coa db' e KenyaStandard ids' now' = (db', Inr 0)"
proof -
  let ?new = "seeded_accounts e ids now 0 kenya_standard_coa"
  let ?db = "db\<lparr>accounts := accounts db @ ?new\<rparr>"
  have own: "a \<in> set ?new \<Longrightarrow> ac_entity_id a = e" for a
    using set_seeded_accounts by fastforce
  have first: "seed_coa db e KenyaStandard ids now = (?db, Inr (length kenya_standard_coa))"
    using seed_empty_tenant [OF kenya_standard_coa_ok assms] by (simp add: seed_coa_def)
  have old: "filter (\<lambda>a. ac_entity_id a = e) (accounts db) = []"
    "filter (\<lambda>a. ac_entity_id a \<noteq> e) (accounts db) = accounts db"
    using assms by (simp_all add: filter_empty_conv)
  have new: "filter (\<lambda>a. ac_entity_id a = e) ?new = ?new" "filter (\<lambda>a. ac_entity_id a \<noteq> e) ?new = []"
    using own by (simp_all add: filter_empty_conv filter_id_conv)
  have second: "seed_coa ?db e KenyaStandard ids' now' = (?db, Inr 0)"
    by (simp add: seed_coa_def seed_loop_present account_exists_seeded)
  show ?thesis
    by (rule exI [of _ ?db]) (simp add: first second old new map_seeded_accounts)
qed

theorem seed_coa_creates_template_witness:
  "\<exists>db'. seed_coa \<lparr>accounts = []\<rparr> 7 KenyaStandard (\<lambda>i. i) 0 = (db', Inr (length kenya_standard_coa))
    \<and> map (\<lambda>a. (ac_code a, parsed_type a, ac_parent_code a, ac_is_active a))
        (filter (\<lambda>a. ac_entity_id a = 7) (accounts db'))
      = map (\<lambda>r. (ca_code r, Some (ca_account_type r), ca_parent_code r, True)) kenya_standard_coa
    \<and> filter (\<lambda>a. ac_entity_id a \<noteq> 7) (accounts db') = []
    \<and> seed_coa db' 7 KenyaStandard (\<lambda>i. i) 0 = (db', Inr 0)"
  using seed_coa_creates_template
    [of "\<lparr>accounts = []\<rparr>" 7 "\<lambda>i. i" 0 "\<lambda>i. i" 0] by simp

text \<open>
  Once an empty tenant is seeded, every account its default posting setup names (all 39
  roles) is found in its chart, is active and has the type the role needs, so no posting can
  hit an orphan account or the wrong side of the balance sheet by default.
\<close>

theorem default_posting_accounts_seeded:
  assumes "\<forall>a \<in> set (accounts db). ac_entity_id a \<noteq> e"
    and "seed_coa db e KenyaStandard ids now = (db', r)"
    and "(c, ty) \<in> set (posting_roles default_posting_setup)"
  shows "\<exists>a. find_account db' e c = Some a \<and> parsed_type a = Some ty \<and> ac_is_active a"
proof -
  let ?new = "seeded_accounts e ids now 0 kenya_standard_coa"
  have db': "accounts db' = accounts db @ ?new"
    using assms(2) seed_empty_tenant [OF kenya_standard_coa_ok assms(1)] by (auto simp: seed_coa_def)
  have "distinct (map ca_code kenya_standard_coa)"
    by (simp add: kenya_standard_coa_def)
  then have uniq: "r \<in> set kenya_standard_coa \<Longrightarrow> r' \<in> set kenya_standard_coa \<Longrightarrow>
      ca_code r = ca_code r' \<Longrightarrow> r = r'" for r r'
    by (auto simp: distinct_map dest: inj_onD)
  from assms(3) default_roles_in_template obtain r where
    r: "r \<in> set kenya_standard_coa" "ca_code r = c" "ca_account_type r = ty"
    by (fastforce simp: list_all_iff List.member_iff)
  have "account_exists db' e c"
    using account_exists_seeded [OF r(1), of db e ids now 0] db' r(2)
    by (simp add: account_exists_def)
  then obtain a where a: "find_account db' e c = Some a"
    by (auto simp: find_account_exists)
  have "a \<in> set ?new" using find_account_SomeD [OF a] assms(1) db' by auto
  then obtain i r' where "r' \<in> set kenya_standard_coa" "a = new_account e i now r'"
    using set_seeded_accounts by blast
  moreover have "r' = r"
    using find_account_SomeD [OF a] r \<open>a = _\<close> \<open>r' \<in> _\<close> by (intro uniq) auto
  ultimately have "a = new_account e i now r" by simp
  then show ?thesis using a r by simp
qed

theorem default_posting_accounts_seeded_witness:
  "\<exists>a. find_account (fst (seed_coa \<lparr>accounts = []\<rparr> 7 KenyaStandard (\<lambda>i. i) 0)) 7 ''9100'' = Some a
    \<and> parsed_type a = Some Liability \<and> ac_is_active a"
  by (rule default_posting_accounts_seeded [of "\<lparr>accounts = []\<rparr>" 7 "\<lambda>i. i" 0 _
        "snd (seed_coa \<lparr>accounts = []\<rparr> 7 KenyaStandard (\<lambda>i. i) 0)"])
    (simp_all add: posting_roles_def default_posting_setup_def)

end
