(* ===== verification/Settings.thy ===== *)
theory Settings
  imports Chart
begin

text \<open>
  \<^verbatim>\<open>zavora-erp-core/src/settings/mod.rs\<close>: the per-tenant configuration the services read and the
  document numbering sequences. Proved: each call of \<open>next_number\<close> advances exactly its own
  counter, and numbers drawn from one sequence never repeat, with or without the year in the
  number.
\<close>

datatype seq_type = SeqInvoice | SeqEstimate | SeqCreditNote | SeqBill | SeqJournal | SeqPayment

record document_sequences =
  invoice_prefix :: string
  invoice_next :: nat
  estimate_prefix :: string
  estimate_next :: nat
  credit_note_prefix :: string
  credit_note_next :: nat
  bill_prefix :: string
  bill_next :: nat
  journal_prefix :: string
  journal_next :: nat
  payment_prefix :: string
  payment_next :: nat
  year_reset :: bool

definition default_sequences :: document_sequences where
  "default_sequences =
     \<lparr>invoice_prefix = ''INV'', invoice_next = 1, estimate_prefix = ''EST'', estimate_next = 1,
      credit_note_prefix = ''CN'', credit_note_next = 1, bill_prefix = ''BILL'', bill_next = 1,
      journal_prefix = ''JE'', journal_next = 1, payment_prefix = ''PAY'', payment_next = 1,
      year_reset = True\<rparr>"

text \<open>The two formats of a document number, shared by every number generator of the code.\<close>

definition format_number :: "bool \<Rightarrow> string \<Rightarrow> int \<Rightarrow> nat \<Rightarrow> string" where
  "format_number with_year prefix fiscal_year n =
     (if with_year
      then prefix @ ''-'' @ show_int fiscal_year @ ''-'' @ pad_zero 4 (show_nat n)
      else prefix @ ''-'' @ pad_zero 6 (show_nat n))"

definition next_number ::
    "document_sequences \<Rightarrow> seq_type \<Rightarrow> int \<Rightarrow> string \<times> document_sequences" where
  "next_number s doc_type fiscal_year =
     (let num = format_number (year_reset s) in
      case doc_type of
        SeqInvoice \<Rightarrow> (num (invoice_prefix s) fiscal_year (invoice_next s),
                       s\<lparr>invoice_next := invoice_next s + 1\<rparr>)
      | SeqEstimate \<Rightarrow> (num (estimate_prefix s) fiscal_year (estimate_next s),
                       s\<lparr>estimate_next := estimate_next s + 1\<rparr>)
      | SeqCreditNote \<Rightarrow> (num (credit_note_prefix s) fiscal_year (credit_note_next s),
                       s\<lparr>credit_note_next := credit_note_next s + 1\<rparr>)
      | SeqBill \<Rightarrow> (num (bill_prefix s) fiscal_year (bill_next s),
                       s\<lparr>bill_next := bill_next s + 1\<rparr>)
      | SeqJournal \<Rightarrow> (num (journal_prefix s) fiscal_year (journal_next s),
                       s\<lparr>journal_next := journal_next s + 1\<rparr>)
      | SeqPayment \<Rightarrow> (num (payment_prefix s) fiscal_year (payment_next s),
                       s\<lparr>payment_next := payment_next s + 1\<rparr>))"

record period_controls_t =
  soft_close_allow_documents :: bool

text \<open>\<open>VatTreatment\<close> of \<^verbatim>\<open>types.rs\<close> and its rates.\<close>

datatype vat_treatment = Standard16 | Petroleum8 | ZeroRated | Exempt | OutOfScope

fun vat_rate :: "vat_treatment \<Rightarrow> decimal" where
  "vat_rate Standard16 = 16 / 100"
| "vat_rate Petroleum8 = 8 / 100"
| "vat_rate ZeroRated = 0"
| "vat_rate Exempt = 0"
| "vat_rate OutOfScope = 0"

lemma vat_rate_nonneg [simp]: "0 \<le> vat_rate v"
  by (cases v) simp_all

record tax_config_t =
  vat_registered :: bool
  standard_vat_rate :: decimal
  default_vat_treatment :: vat_treatment
  wht_enabled :: bool
  paye_enabled :: bool

text \<open>\<open>ErpConfig\<close>, without the branding and payment-provider settings, which no modelled
  operation reads.\<close>

record erp_config =
  cfg_entity_id :: uuid
  base_currency :: currency_code
  sequences :: document_sequences
  tax_config :: tax_config_t
  posting :: posting_setup
  period_controls :: period_controls_t

text \<open>What \<open>load_or_create_config\<close> gives a tenant without stored settings.\<close>

definition default_config :: "uuid \<Rightarrow> erp_config" where
  "default_config entity_id =
     \<lparr>cfg_entity_id = entity_id, base_currency = ''KES'', sequences = default_sequences,
      tax_config = \<lparr>vat_registered = False, standard_vat_rate = 16 / 100,
        default_vat_treatment = Exempt, wht_enabled = True, paye_enabled = True\<rparr>,
      posting = default_posting_setup,
      period_controls = \<lparr>soft_close_allow_documents = False\<rparr>\<rparr>"

section \<open>Numbers never repeat\<close>

text \<open>The digits after the last dash determine the counter.\<close>

lemma show_digits_no_dash: "0 \<le> n \<Longrightarrow> CHR ''-'' \<notin> set (show_digits n)"
proof (induction n rule: show_digits.induct)
  case (1 n)
  have "list_all (\<lambda>d. digit_char d \<noteq> CHR ''-'') [0, 1, 2, 3, 4, 5, 6, 7, 8, 9]"
    by code_simp
  then have d: "digit_char k \<noteq> CHR ''-''" if "0 \<le> k" "k < 10" for k
    using small_digit [OF that] unfolding list_all_iff by blast
  show ?case
  proof (cases "n < 10")
    case True
    then show ?thesis using d [of n] 1(2) by (subst show_digits.simps) auto
  next
    case False
    then show ?thesis using 1 d [of "n mod 10"] by (subst show_digits.simps) auto
  qed
qed

lemma digits_no_dash: "CHR ''-'' \<notin> set (show_nat n)"
  by (simp add: show_nat_def show_digits_no_dash)

lemma pad_no_dash: "CHR ''-'' \<notin> set (pad_zero w (show_nat n))"
  using digits_no_dash [of n] by (auto simp: pad_zero_def)

lemma last_segment_inject:
  assumes "xs @ c # as = ys @ c # bs" and "c \<notin> set as" and "c \<notin> set bs"
  shows "as = bs"
  using assms
proof (induction xs arbitrary: ys)
  case Nil
  then show ?case by (cases ys) auto
next
  case (Cons x xs)
  then show ?case by (cases ys) auto
qed

lemma format_number_counter:
  assumes "format_number b p y n = format_number b q z m"
  shows "n = m"
proof -
  have split: "\<exists>w pre. format_number b p y n = pre @ CHR ''-'' # pad_zero (if b then 4 else 6) (show_nat n)"
    for p y n
    by (cases b) (auto simp: format_number_def intro: exI [of _ "p @ ''-'' @ show_int y"])
  from split [of p y n] split [of q z m] obtain a c where
    "a @ CHR ''-'' # pad_zero (if b then 4 else 6) (show_nat n)
      = c @ CHR ''-'' # pad_zero (if b then 4 else 6) (show_nat m)"
    using assms by metis
  from last_segment_inject [OF this pad_no_dash pad_no_dash] show ?thesis by simp
qed

text \<open>Drawing a run of numbers from one sequence, for the fiscal years of its documents.\<close>

fun draw_numbers ::
    "document_sequences \<Rightarrow> seq_type \<Rightarrow> int list \<Rightarrow> string list \<times> document_sequences" where
  "draw_numbers s t [] = ([], s)"
| "draw_numbers s t (y # ys) =
     (let (n, s') = next_number s t y; (ns, s'') = draw_numbers s' t ys in (n # ns, s''))"

definition seq_counter :: "document_sequences \<Rightarrow> seq_type \<Rightarrow> nat" where
  "seq_counter s t = (case t of SeqInvoice \<Rightarrow> invoice_next s | SeqEstimate \<Rightarrow> estimate_next s
     | SeqCreditNote \<Rightarrow> credit_note_next s | SeqBill \<Rightarrow> bill_next s
     | SeqJournal \<Rightarrow> journal_next s | SeqPayment \<Rightarrow> payment_next s)"

definition seq_prefix :: "document_sequences \<Rightarrow> seq_type \<Rightarrow> string" where
  "seq_prefix s t = (case t of SeqInvoice \<Rightarrow> invoice_prefix s | SeqEstimate \<Rightarrow> estimate_prefix s
     | SeqCreditNote \<Rightarrow> credit_note_prefix s | SeqBill \<Rightarrow> bill_prefix s
     | SeqJournal \<Rightarrow> journal_prefix s | SeqPayment \<Rightarrow> payment_prefix s)"

lemma next_number_fst:
  "fst (next_number s t y) = format_number (year_reset s) (seq_prefix s t) y (seq_counter s t)"
  by (cases t) (simp_all add: next_number_def seq_prefix_def seq_counter_def Let_def)

lemma next_number_snd:
  "year_reset (snd (next_number s t y)) = year_reset s"
  "seq_prefix (snd (next_number s t y)) u = seq_prefix s u"
  "seq_counter (snd (next_number s t y)) u = (if u = t then seq_counter s u + 1 else seq_counter s u)"
  by (cases t; cases u; simp add: next_number_def seq_prefix_def seq_counter_def Let_def)+

lemma draw_numbers_from:
  "n \<in> set (fst (draw_numbers s t ys)) \<Longrightarrow>
    \<exists>p y k. seq_counter s t \<le> k \<and> n = format_number (year_reset s) p y k"
proof (induction ys arbitrary: s)
  case Nil
  then show ?case by simp
next
  case (Cons y ys)
  let ?s' = "snd (next_number s t y)"
  from Cons.prems have "n = fst (next_number s t y) \<or> n \<in> set (fst (draw_numbers ?s' t ys))"
    by (auto simp: Let_def split: prod.splits)
  then show ?case
  proof
    assume "n = fst (next_number s t y)"
    then show ?thesis by (auto simp: next_number_fst)
  next
    assume "n \<in> set (fst (draw_numbers ?s' t ys))"
    from Cons.IH [OF this] show ?thesis
      by (auto simp: next_number_snd intro: Suc_leD)
  qed
qed

text \<open>
  Drawing any run of document numbers from one sequence, whatever fiscal years the documents
  fall in, never gives the same number twice, advances that sequence by the number drawn and
  leaves the counters of the five other sequences alone.
\<close>

theorem next_number_never_repeats:
  "distinct (fst (draw_numbers s t ys))
    \<and> seq_counter (snd (draw_numbers s t ys)) u
      = seq_counter s u + (if u = t then length ys else 0)"
proof (induction ys arbitrary: s)
  case Nil
  then show ?case by simp
next
  case (Cons y ys)
  let ?n = "fst (next_number s t y)" and ?s' = "snd (next_number s t y)"
  have "?n \<notin> set (fst (draw_numbers ?s' t ys))"
  proof
    assume "?n \<in> set (fst (draw_numbers ?s' t ys))"
    from draw_numbers_from [OF this] obtain p z k where "seq_counter s t + 1 \<le> k"
      and "?n = format_number (year_reset s) p z k"
      by (auto simp: next_number_snd)
    then show False by (auto simp: next_number_fst dest: format_number_counter)
  qed
  then show ?case
    using Cons.IH [of ?s'] by (simp add: Let_def next_number_snd case_prod_unfold)
qed

end
