(* ===== verification/Calendar.thy ===== *)
theory Calendar
  imports ERP_Prelude
begin

text \<open>
  Dates as the code uses them. \<^verbatim>\<open>chrono\<close> is not part of the repository: splitting a day into
  year, month and day, building a day from them, stepping by months and the day of the week
  (days from Monday) are the record
  \<open>calendar\<close>, an argument of the definitions that use it. The locale \<open>calendar_laws\<close> states the
  documented behaviour the period logic relies on; \<open>gregorian\<close> is a concrete calendar with these
  laws, on which witnesses evaluate.
\<close>

record calendar =
  from_ymd_opt :: "int \<Rightarrow> nat \<Rightarrow> nat \<Rightarrow> naive_date option"
  year :: "naive_date \<Rightarrow> int"
  month :: "naive_date \<Rightarrow> nat"
  day :: "naive_date \<Rightarrow> nat"
  add_months :: "naive_date \<Rightarrow> nat \<Rightarrow> naive_date"
  weekday :: "naive_date \<Rightarrow> nat"

text \<open>Everything an operation takes from outside the repository or from the machine: the decimal
  package and the calendar are passed where they are used; the clock and the source of fresh
  UUIDs travel in this record. \<open>evens\<close> and \<open>odds\<close> split the source for an operation that
  calls two others.\<close>

record environment =
  now :: timestamp
  today :: naive_date
  uuids :: "nat \<Rightarrow> uuid"

definition evens :: "environment \<Rightarrow> environment" where
  "evens E = E\<lparr>uuids := (\<lambda>n. uuids E (2 * n))\<rparr>"

definition odds :: "environment \<Rightarrow> environment" where
  "odds E = E\<lparr>uuids := (\<lambda>n. uuids E (2 * n + 1))\<rparr>"

text \<open>A loop that draws fresh ids gives the body of its \<open>i\<close>-th round a source of its own.\<close>

definition branch_env :: "environment \<Rightarrow> nat \<Rightarrow> environment" where
  "branch_env E i = E\<lparr>uuids := (\<lambda>n. uuids E (2 ^ i * (2 * n + 1)))\<rparr>"

lemma branch_env_simps [simp]: "now (branch_env E i) = now E" "today (branch_env E i) = today E"
  by (simp_all add: branch_env_def)

lemma env_split_simps [simp]:
  "now (evens E) = now E" "today (evens E) = today E" "uuids (evens E) n = uuids E (2 * n)"
  "now (odds E) = now E" "today (odds E) = today E" "uuids (odds E) n = uuids E (2 * n + 1)"
  by (simp_all add: evens_def odds_def)

text \<open>Months counted through the years: the first days of months are ordered like this count.\<close>

definition month_index :: "int \<Rightarrow> nat \<Rightarrow> int" where
  "month_index y m = 12 * y + int m"

locale calendar_laws =
  fixes C :: calendar
  assumes first_defined: "\<bar>y\<bar> < 262000 \<Longrightarrow> 1 \<le> m \<Longrightarrow> m \<le> 12 \<Longrightarrow> from_ymd_opt C y m 1 \<noteq> None"
    and year_end_defined: "\<bar>y\<bar> < 262000 \<Longrightarrow> from_ymd_opt C y 12 31 \<noteq> None"
    and month_valid: "from_ymd_opt C y m d = Some t \<Longrightarrow> 1 \<le> m \<and> m \<le> 12"
    and first_order: "from_ymd_opt C y m 1 = Some a \<Longrightarrow> from_ymd_opt C y' m' 1 = Some b \<Longrightarrow>
      month_index y m < month_index y' m' \<Longrightarrow> a < b"
    and year_end_next: "from_ymd_opt C y 12 31 = Some a \<Longrightarrow> from_ymd_opt C (y + 1) 1 1 = Some b \<Longrightarrow>
      b = a + 1"
    and year_end_after: "from_ymd_opt C y 12 31 = Some a \<Longrightarrow> from_ymd_opt C y 12 1 = Some b \<Longrightarrow> b \<le> a"
    and year_end_order: "from_ymd_opt C y 12 31 = Some a \<Longrightarrow> from_ymd_opt C y' m 1 = Some b \<Longrightarrow>
      y < y' \<Longrightarrow> a < b"
    and year_of_first: "from_ymd_opt C y m 1 = Some a \<Longrightarrow> year C a = y"
begin

lemma first_order_le:
  assumes "from_ymd_opt C y m 1 = Some a" and "from_ymd_opt C y' m' 1 = Some b"
    and "month_index y m \<le> month_index y' m'"
  shows "a \<le> b"
proof (cases "month_index y m = month_index y' m'")
  case True
  moreover from month_valid [OF assms(1)] month_valid [OF assms(2)]
  have "1 \<le> m" "m \<le> 12" "1 \<le> m'" "m' \<le> 12" by auto
  ultimately have "y = y'" "m = m'" by (auto simp: month_index_def; presburger)+
  with assms show ?thesis by simp
next
  case False
  with assms first_order [OF assms(1,2)] show ?thesis by simp
qed

end

section \<open>A concrete calendar\<close>

text \<open>The proleptic Gregorian calendar, days counted from the common era (1 = 0001-01-01).\<close>

definition leap :: "int \<Rightarrow> bool" where
  "leap y \<longleftrightarrow> y mod 4 = 0 \<and> (y mod 100 \<noteq> 0 \<or> y mod 400 = 0)"

definition days_before_year :: "int \<Rightarrow> int" where
  "days_before_year y = 365 * (y - 1) + (y - 1) div 4 - (y - 1) div 100 + (y - 1) div 400"

definition month_lengths :: "int \<Rightarrow> int list" where
  "month_lengths y = [31, if leap y then 29 else 28, 31, 30, 31, 30, 31, 31, 30, 31, 30, 31]"

definition days_before_month :: "int \<Rightarrow> nat \<Rightarrow> int" where
  "days_before_month y m =
     [0, 31, 59, 90, 120, 151, 181, 212, 243, 273, 304, 334] ! (m - 1)
     + (if leap y \<and> 2 < m then 1 else 0)"

definition gregorian_from_ymd :: "int \<Rightarrow> nat \<Rightarrow> nat \<Rightarrow> naive_date option" where
  "gregorian_from_ymd y m d =
     (if \<bar>y\<bar> < 262000 \<and> 1 \<le> m \<and> m \<le> 12 \<and> 1 \<le> d \<and> int d \<le> month_lengths y ! (m - 1)
      then Some (days_before_year y + days_before_month y m + int d) else None)"

text \<open>The year of a day: start from the estimate that is never too large and step up to it.\<close>

definition gregorian_year :: "naive_date \<Rightarrow> int" where
  "gregorian_year t =
     (let y = (t * 400) div 146097 in
      if t \<le> days_before_year y then y - 1
      else if t \<le> days_before_year (y + 1) then y
      else if t \<le> days_before_year (y + 2) then y + 1 else y + 2)"

definition gregorian_month :: "naive_date \<Rightarrow> nat" where
  "gregorian_month t =
     (let y = gregorian_year t; r = t - days_before_year y in
      length (filter (\<lambda>m. days_before_month y m < r) [1..<13]))"

definition gregorian_day :: "naive_date \<Rightarrow> nat" where
  "gregorian_day t =
     (let y = gregorian_year t in
      nat (t - days_before_year y - days_before_month y (gregorian_month t)))"

definition gregorian_add_months :: "naive_date \<Rightarrow> nat \<Rightarrow> naive_date" where
  "gregorian_add_months t n =
     (let i = gregorian_month t - 1 + n; y = gregorian_year t + int (i div 12); m = i mod 12 + 1
      in days_before_year y + days_before_month y m
         + min (int (gregorian_day t)) (month_lengths y ! (m - 1)))"

definition gregorian :: calendar where
  "gregorian = \<lparr>from_ymd_opt = gregorian_from_ymd, year = gregorian_year,
     month = gregorian_month, day = gregorian_day, add_months = gregorian_add_months,
     weekday = (\<lambda>t. nat ((t - 1) mod 7))\<rparr>"

lemma gregorian_simps [simp]:
  "from_ymd_opt gregorian = gregorian_from_ymd" "year gregorian = gregorian_year"
  "month gregorian = gregorian_month" "day gregorian = gregorian_day"
  "add_months gregorian = gregorian_add_months" "weekday gregorian t = nat ((t - 1) mod 7)"
  by (simp_all add: gregorian_def)

lemma month_cases: "1 \<le> m \<Longrightarrow> m \<le> 12 \<Longrightarrow>
    m = 1 \<or> m = 2 \<or> m = 3 \<or> m = 4 \<or> m = 5 \<or> m = 6 \<or> m = 7 \<or> m = 8 \<or> m = 9 \<or> m = 10 \<or> m = 11
    \<or> m = (12::nat)"
  by presburger

lemma div_pred:
  assumes "0 < (k::int)"
  shows "(y - 1) div k = (if y mod k = 0 then y div k - 1 else y div k)"
proof -
  have y: "y = k * (y div k) + y mod k" by simp
  have r: "0 \<le> y mod k" "y mod k < k" using assms by simp_all
  show ?thesis
  proof (cases "y mod k = 0")
    case True
    then have "y - 1 = k * (y div k - 1) + (k - 1)" using y by (simp add: algebra_simps)
    then have "(y - 1) div k = y div k - 1" by (rule int_div_pos_eq) (use assms in simp_all)
    then show ?thesis using True by simp
  next
    case False
    then have "y - 1 = k * (y div k) + (y mod k - 1)" using y by simp
    then have "(y - 1) div k = y div k" by (rule int_div_pos_eq) (use False r in simp_all)
    with False show ?thesis by simp
  qed
qed

lemma div_pred_diff: "0 < (k::int) \<Longrightarrow> y div k - (y - 1) div k = (if y mod k = 0 then 1 else 0)"
  by (simp add: div_pred)

lemma div_bounds:
  assumes "0 < (k::int)"
  shows "k * (x div k) \<le> x" "x < k * (x div k) + k"
  using mult_div_mod_eq [of k x] pos_mod_bound [OF assms, of x] pos_mod_sign [OF assms, of x]
  by linarith+

lemma leap_mods: "(y::int) mod 400 = 0 \<Longrightarrow> y mod 100 = 0" "(y::int) mod 100 = 0 \<Longrightarrow> y mod 4 = 0"
  using dvd_trans [of 100 400 y] dvd_trans [of 4 100 y] by (simp_all add: mod_eq_0_iff_dvd)

lemma year_length: "days_before_year (y + 1) - days_before_year y = (if leap y then 366 else 365)"
proof -
  have "days_before_year (y + 1) - days_before_year y
      = 365 + (y div 4 - (y - 1) div 4) - (y div 100 - (y - 1) div 100)
        + (y div 400 - (y - 1) div 400)"
    by (simp add: days_before_year_def)
  also have "\<dots> = 365 + (if y mod 4 = 0 then 1 else 0) - (if y mod 100 = 0 then 1 else 0)
        + (if y mod 400 = 0 then 1 else 0)"
    by (simp only: div_pred_diff [OF zero_less_numeral])
  also have "\<dots> = (if leap y then 366 else 365)"
    unfolding leap_def using leap_mods [of y]
    by (cases "y mod 400 = 0"; cases "y mod 100 = 0"; cases "y mod 4 = 0";
        simp only: simp_thms if_True if_False; simp)
  finally show ?thesis .
qed

lemma days_before_year_mono: "y \<le> y' \<Longrightarrow> days_before_year y \<le> days_before_year y'"
proof (induction "nat (y' - y)" arbitrary: y')
  case 0
  then show ?case by simp
next
  case (Suc n)
  then have "days_before_year y \<le> days_before_year (y' - 1)" by (intro Suc.hyps(1)) auto
  also have "\<dots> \<le> days_before_year y'" using year_length [of "y' - 1"] by (simp split: if_splits)
  finally show ?case .
qed

lemma month_lengths_ge: "1 \<le> m \<Longrightarrow> m \<le> 12 \<Longrightarrow> 28 \<le> month_lengths y ! (m - 1)"
  by (drule (1) month_cases) (auto simp: month_lengths_def)

lemma days_before_month_step:
  "1 \<le> m \<Longrightarrow> m < 12 \<Longrightarrow> days_before_month y m < days_before_month y (m + 1)"
  using month_cases [of m] by (auto simp: days_before_month_def)

lemma days_before_month_less:
  assumes "1 \<le> m" "m < m'" "m' \<le> 12"
  shows "days_before_month y m < days_before_month y m'"
proof -
  have "m + k + 1 \<le> 12 \<Longrightarrow> days_before_month y m < days_before_month y (m + k + 1)" for k
  proof (induction k)
    case 0
    with assms(1) show ?case using days_before_month_step [of m y] by simp
  next
    case (Suc k)
    then show ?case using days_before_month_step [of "m + k + 1" y] assms(1) by simp
  qed
  from this [of "m' - m - 1"] assms show ?thesis by simp
qed

lemma days_before_month_bound: "1 \<le> m \<Longrightarrow> m \<le> 12 \<Longrightarrow>
    0 \<le> days_before_month y m \<and> days_before_month y m < (if leap y then 366 else 365)"
  by (drule (1) month_cases) (auto simp: days_before_month_def)

lemma scaled_less: "400 * d < K \<Longrightarrow> K \<le> 400 * t \<Longrightarrow> d < (t::int)"
  by (drule (1) less_le_trans) simp

lemma scaled_le: "400 * t < K \<Longrightarrow> K \<le> 400 * d \<Longrightarrow> t \<le> (d::int)"
  by (drule (1) less_le_trans) simp

lemma days_before_year_bounds:
  "400 * days_before_year z < 146097 * (z - 1) + 400"
  "146097 * (z - 1) - 800 \<le> 400 * days_before_year z"
proof -
  define x a b c where "x = z - 1" and "a = x div 4" and "b = x div 100" and "c = x div 400"
  have a: "4 * a \<le> x" "x < 4 * a + 4"
    unfolding a_def by (rule div_bounds; simp)+
  have b: "100 * b \<le> x" "x < 100 * b + 100"
    unfolding b_def by (rule div_bounds; simp)+
  have c: "400 * c \<le> x" "x < 400 * c + 400"
    unfolding c_def by (rule div_bounds; simp)+
  have up: "400 * a \<le> 100 * x" "400 * b > 4 * x - 400" using a(1) b(2) by simp_all
  have lo: "100 * x - 400 \<le> 400 * a" "400 * b \<le> 4 * x" using a(2) b(1) by simp_all
  have d: "400 * days_before_year z = 146000 * x + 400 * a - 400 * b + 400 * c"
    by (simp add: days_before_year_def x_def a_def b_def c_def)
  have "400 * days_before_year z < 146000 * x + 100 * x - (4 * x - 400) + x"
    unfolding d using up c(1) by linarith
  then show "400 * days_before_year z < 146097 * (z - 1) + 400"
    by (simp add: x_def)
  have "146000 * x + (100 * x - 400) - 4 * x + (x - 400) \<le> 400 * days_before_year z"
    unfolding d using lo c(2) by linarith
  then show "146097 * (z - 1) - 800 \<le> 400 * days_before_year z"
    by (simp add: x_def)
qed

lemma gregorian_year_first:
  assumes "days_before_year y < t" and "t \<le> days_before_year (y + 1)"
  shows "gregorian_year t = y"
proof -
  define e where "e = (t * 400) div 146097"
  have inside: "z = y" if "days_before_year z < t" "t \<le> days_before_year (z + 1)" for z
    using that assms days_before_year_mono [of "z + 1" y] days_before_year_mono [of "y + 1" z]
    by linarith
  have e: "146097 * e \<le> t * 400" "t * 400 < 146097 * e + 146097"
    unfolding e_def by (rule div_bounds; simp)+
  have lo: "days_before_year (e - 1) < t"
  proof (rule scaled_less)
    show "400 * days_before_year (e - 1) < 146097 * (e - 1 - 1) + 400"
      by (rule days_before_year_bounds)
    show "146097 * (e - 1 - 1) + 400 \<le> 400 * t"
      using e(1) by (simp add: mult.commute)
  qed
  have hi: "t \<le> days_before_year (e + 3)"
  proof (rule scaled_le)
    show "400 * t < 146097 * e + 146097" using e(2) by (simp add: mult.commute)
    show "146097 * e + 146097 \<le> 400 * days_before_year (e + 3)"
      by (rule order_trans [OF _ days_before_year_bounds(2)]) simp
  qed
  show ?thesis
    unfolding gregorian_year_def Let_def e_def [symmetric]
    using lo hi inside [of "e - 1"] inside [of e] inside [of "e + 1"] inside [of "e + 2"]
    by (auto simp: add.commute)
qed

lemma gregorian_first_SomeD:
  assumes "gregorian_from_ymd y m 1 = Some a"
  shows "1 \<le> m" "m \<le> 12" "a = days_before_year y + days_before_month y m + 1"
    "days_before_year y < a" "a \<le> days_before_year (y + 1)"
  using assms days_before_month_bound [of m y] year_length [of y]
  by (auto simp: gregorian_from_ymd_def split: if_splits)

interpretation greg: calendar_laws gregorian
proof
  fix y y' :: int and m m' d :: nat and a b t :: naive_date
  show "\<bar>y\<bar> < 262000 \<Longrightarrow> 1 \<le> m \<Longrightarrow> m \<le> 12 \<Longrightarrow> from_ymd_opt gregorian y m 1 \<noteq> None"
    using month_lengths_ge [of m y] by (simp add: gregorian_from_ymd_def)
  show "\<bar>y\<bar> < 262000 \<Longrightarrow> from_ymd_opt gregorian y 12 31 \<noteq> None"
    by (simp add: gregorian_from_ymd_def month_lengths_def)
  show "from_ymd_opt gregorian y m d = Some t \<Longrightarrow> 1 \<le> m \<and> m \<le> 12"
    by (simp add: gregorian_from_ymd_def split: if_splits)
  show "from_ymd_opt gregorian y 12 31 = Some a \<Longrightarrow> from_ymd_opt gregorian (y + 1) 1 1 = Some b \<Longrightarrow>
      b = a + 1"
    using year_length [of y] by (auto simp: gregorian_from_ymd_def days_before_month_def split: if_splits)
  show "from_ymd_opt gregorian y 12 31 = Some a \<Longrightarrow> from_ymd_opt gregorian y 12 1 = Some b \<Longrightarrow> b \<le> a"
    by (auto simp: gregorian_from_ymd_def split: if_splits)
  show "a < b" if "from_ymd_opt gregorian y 12 31 = Some a" "from_ymd_opt gregorian y' m 1 = Some b" "y < y'"
  proof -
    from that(1) have "a \<le> days_before_year (y + 1)"
      using year_length [of y] by (auto simp: gregorian_from_ymd_def days_before_month_def split: if_splits)
    also have "\<dots> \<le> days_before_year y'" using that(3) by (intro days_before_year_mono) simp
    also have "\<dots> < b" using gregorian_first_SomeD [of y' m b] that(2) by simp
    finally show ?thesis .
  qed
  show "from_ymd_opt gregorian y m 1 = Some a \<Longrightarrow> year gregorian a = y"
    using gregorian_first_SomeD [of y m a] gregorian_year_first [of y a] by simp
  show "a < b" if "from_ymd_opt gregorian y m 1 = Some a" "from_ymd_opt gregorian y' m' 1 = Some b"
    "month_index y m < month_index y' m'"
  proof (cases "y = y'")
    case True
    with that gregorian_first_SomeD [of y m a] gregorian_first_SomeD [of y' m' b]
      days_before_month_less [of m m' y] show ?thesis
      by (simp add: month_index_def)
  next
    case False
    with that gregorian_first_SomeD [of y m a] gregorian_first_SomeD [of y' m' b]
    have "y + 1 \<le> y'" by (auto simp: month_index_def)
    with that gregorian_first_SomeD [of y m a] gregorian_first_SomeD [of y' m' b]
      days_before_year_mono [of "y + 1" y'] show ?thesis by simp
  qed
qed

text \<open>The conventions of the source's own tests: 2025-01-01 plus 60 days is 2025-03-02.\<close>

lemma gregorian_example:
  "map_option (\<lambda>t. t + 60) (gregorian_from_ymd 2025 1 1) = gregorian_from_ymd 2025 3 2"
  "gregorian_year 739252 = 2025" "gregorian_month 739252 = 1" "gregorian_day 739252 = 1"
  by code_simp+

end
