(* ===== verification/Period.thy ===== *)
theory Period
  imports Settings Calendar
begin

text \<open>
  \<^verbatim>\<open>zavora-erp-core/src/period/mod.rs\<close>: fiscal periods, their status as stored text and what
  each status admits, together with the table of the periods and its queries by id and by date
  (\<open>get_period\<close>, \<open>period_for_date\<close> of \<^verbatim>\<open>services/periods.rs\<close>). The state extends the chart of
  accounts by the tenants' configurations (\<open>ErpEngine::config_for\<close>) and the periods.
\<close>

datatype period_status = Future | Open | SoftClosed | HardClosed

record fiscal_period =
  fp_id :: uuid
  fp_entity_id :: uuid
  fp_name :: string
  start_date :: naive_date
  end_date :: naive_date
  fp_status :: string
  fiscal_year :: int
  period_number :: int
  closed_by :: "agent_or_user_id option"
  closed_at :: "timestamp option"
  fp_created_at :: timestamp

definition parsed_status :: "fiscal_period \<Rightarrow> period_status" where
  "parsed_status p =
     (if fp_status p = ''future'' then Future
      else if fp_status p = ''open'' then Open
      else if fp_status p = ''soft_closed'' then SoftClosed
      else if fp_status p = ''hard_closed'' then HardClosed
      else Future)"

definition allows_posting :: "fiscal_period \<Rightarrow> bool" where
  "allows_posting p \<longleftrightarrow> parsed_status p = Open"

definition allows_adjustment :: "fiscal_period \<Rightarrow> bool" where
  "allows_adjustment p \<longleftrightarrow> parsed_status p = Open \<or> parsed_status p = SoftClosed"

definition contains_date :: "fiscal_period \<Rightarrow> naive_date \<Rightarrow> bool" where
  "contains_date p d \<longleftrightarrow> start_date p \<le> d \<and> d \<le> end_date p"

record period_db = chart_db +
  configs :: "uuid \<Rightarrow> erp_config"
  fiscal_periods :: "fiscal_period list"

text \<open>The primary key decides the row; the tenant must match as well.\<close>

definition find_period :: "'a period_db_scheme \<Rightarrow> uuid \<Rightarrow> uuid \<Rightarrow> fiscal_period option" where
  "find_period db entity_id period_id =
     List.find (\<lambda>p. fp_id p = period_id \<and> fp_entity_id p = entity_id) (fiscal_periods db)"

definition get_period :: "'a period_db_scheme \<Rightarrow> uuid \<Rightarrow> uuid \<Rightarrow> fiscal_period erp_result" where
  "get_period db entity_id period_id =
     ok_or (find_period db entity_id period_id) (NotFound ''FiscalPeriod'' period_id)"

definition period_for_date :: "'a period_db_scheme \<Rightarrow> uuid \<Rightarrow> naive_date \<Rightarrow> fiscal_period erp_result" where
  "period_for_date db entity_id date =
     ok_or (List.find (\<lambda>p. fp_entity_id p = entity_id \<and> start_date p \<le> date \<and> date \<le> end_date p)
              (fiscal_periods db))
       (ValidationFailed ''No fiscal period found for date '')"

definition fiscal_year_for_date :: "calendar \<Rightarrow> 'a period_db_scheme \<Rightarrow> uuid \<Rightarrow> naive_date \<Rightarrow> int" where
  "fiscal_year_for_date C db entity_id date =
     (case period_for_date db entity_id date of Inr p \<Rightarrow> fiscal_year p | Inl _ \<Rightarrow> year C date)"

definition list_periods :: "'a period_db_scheme \<Rightarrow> uuid \<Rightarrow> fiscal_period list" where
  "list_periods db entity_id =
     sort_key start_date (filter (\<lambda>p. fp_entity_id p = entity_id) (fiscal_periods db))"

text \<open>
  The shape of the table every operation keeps: ids are unique (the primary key) and two
  periods of one tenant never share a day.
\<close>

definition periods_apart :: "fiscal_period \<Rightarrow> fiscal_period \<Rightarrow> bool" where
  "periods_apart p q \<longleftrightarrow>
     fp_entity_id p \<noteq> fp_entity_id q \<or> end_date p < start_date q \<or> end_date q < start_date p"

definition periods_ok :: "fiscal_period list \<Rightarrow> bool" where
  "periods_ok ps \<longleftrightarrow> distinct (map fp_id ps)
     \<and> (\<forall>p \<in> set ps. start_date p \<le> end_date p)
     \<and> (\<forall>p \<in> set ps. \<forall>q \<in> set ps. p \<noteq> q \<longrightarrow> periods_apart p q)"

lemma find_period_SomeD:
  "find_period db e i = Some p \<Longrightarrow> p \<in> set (fiscal_periods db) \<and> fp_id p = i \<and> fp_entity_id p = e"
  by (auto simp: find_period_def find_Some_iff)

lemma period_for_date_InrD:
  "period_for_date db e d = Inr p \<Longrightarrow>
    p \<in> set (fiscal_periods db) \<and> fp_entity_id p = e \<and> contains_date p d"
  by (auto simp: period_for_date_def find_Some_iff contains_date_def)

lemma periods_ok_same_day:
  "periods_ok ps \<Longrightarrow> p \<in> set ps \<Longrightarrow> q \<in> set ps \<Longrightarrow> fp_entity_id p = fp_entity_id q \<Longrightarrow>
    contains_date p d \<Longrightarrow> contains_date q d \<Longrightarrow> p = q"
  by (fastforce simp: periods_ok_def periods_apart_def contains_date_def)

lemma periods_ok_id: "periods_ok ps \<Longrightarrow> p \<in> set ps \<Longrightarrow> q \<in> set ps \<Longrightarrow> fp_id p = fp_id q \<Longrightarrow> p = q"
  by (auto simp: periods_ok_def distinct_map dest: inj_onD)

lemma periods_okD: "periods_ok ps \<Longrightarrow> p \<in> set ps \<Longrightarrow> start_date p \<le> end_date p"
  by (auto simp: periods_ok_def)

lemma period_for_date_unique:
  assumes "periods_ok (fiscal_periods db)" and "p \<in> set (fiscal_periods db)"
    and "fp_entity_id p = e" and "contains_date p d"
  shows "period_for_date db e d = Inr p"
proof -
  have "List.find (\<lambda>p. fp_entity_id p = e \<and> start_date p \<le> d \<and> d \<le> end_date p) (fiscal_periods db) \<noteq> None"
    using assms by (auto simp: find_None_iff contains_date_def)
  then obtain q where q: "period_for_date db e d = Inr q"
    by (auto simp: period_for_date_def)
  with period_for_date_InrD [OF q] assms show ?thesis
    using periods_ok_same_day [of "fiscal_periods db" p q d] by simp
qed

lemma find_period_present:
  assumes "periods_ok (fiscal_periods db)" and "p \<in> set (fiscal_periods db)"
  shows "find_period db (fp_entity_id p) (fp_id p) = Some p"
proof -
  have "find_period db (fp_entity_id p) (fp_id p) \<noteq> None"
    using assms by (auto simp: find_period_def find_None_iff)
  then obtain q where q: "find_period db (fp_entity_id p) (fp_id p) = Some q" by auto
  with find_period_SomeD [OF q] periods_ok_id [OF assms(1)] assms(2) show ?thesis by metis
qed

end
