(* ===== verification/Money.thy ===== *)
theory Money
  imports ERP_Prelude
begin

text \<open>
  \<^verbatim>\<open>zavora-erp-core/src/money.rs\<close>: the rounding policy of monetary amounts and the
  classification of a journal's residual imbalance.

  \<^verbatim>\<open>rust_decimal\<close> is not part of the repository. What the code calls of it is the record
  \<open>decimal_lib\<close>, an argument of every definition that rounds or divides; what the code relies
  on is the locale \<open>decimal_laws\<close>, the package's documented behaviour: a rounded value has at
  most the requested number of decimal places, it is a nearest such value, and ties go where
  the strategy says. \<open>std_decimal\<close> is a concrete record with these laws; the witnesses
  of the development evaluate on it.
\<close>

section \<open>The decimal package\<close>

datatype rounding_strategy = MidpointNearestEven | MidpointAwayFromZero

record decimal_lib =
  round_dp_with_strategy :: "decimal \<Rightarrow> nat \<Rightarrow> rounding_strategy \<Rightarrow> decimal"
  div_dec :: "decimal \<Rightarrow> decimal \<Rightarrow> decimal"

text \<open>\<open>Decimal::round_dp\<close> is documented as rounding with the banker's strategy.\<close>

definition round_dp :: "decimal_lib \<Rightarrow> decimal \<Rightarrow> nat \<Rightarrow> decimal" where
  "round_dp L x n = round_dp_with_strategy L x n MidpointNearestEven"

text \<open>A value has at most \<open>n\<close> decimal places.\<close>

definition has_dp :: "nat \<Rightarrow> decimal \<Rightarrow> bool" where
  "has_dp n x \<longleftrightarrow> x * 10 ^ n \<in> \<int>"

lemma has_dpI: "x * 10 ^ n = of_int k \<Longrightarrow> has_dp n x"
  by (simp add: has_dp_def)

lemma has_dp_closed [intro, simp]:
  "has_dp n 0"
  "has_dp n x \<Longrightarrow> has_dp n y \<Longrightarrow> has_dp n (x + y)"
  "has_dp n x \<Longrightarrow> has_dp n y \<Longrightarrow> has_dp n (x - y)"
  "has_dp n x \<Longrightarrow> has_dp n (- x)"
  "has_dp n x \<Longrightarrow> has_dp n \<bar>x\<bar>"
  by (auto simp: has_dp_def algebra_simps abs_if)

lemma has_dp_sum_list [intro]: "(\<And>x. x \<in> set xs \<Longrightarrow> has_dp n x) \<Longrightarrow> has_dp n (sum_list xs)"
  by (induction xs) auto

lemma has_dp_sum_where: "(\<And>x. x \<in> set xs \<Longrightarrow> has_dp n (f x)) \<Longrightarrow> has_dp n (sum_where p f xs)"
  by (induction xs) auto

lemma has_dp_of_int [intro, simp]: "has_dp n (of_int k)" "has_dp n (numeral m)" "has_dp n 1"
  by (auto simp: has_dp_def)

lemma has_dp_le_mono: "has_dp n x \<Longrightarrow> n \<le> m \<Longrightarrow> has_dp m x"
proof -
  assume "has_dp n x" "n \<le> m"
  then have "x * 10 ^ n * 10 ^ (m - n) \<in> \<int>" by (simp add: has_dp_def)
  moreover have "x * 10 ^ n * 10 ^ (m - n) = x * 10 ^ m"
    using \<open>n \<le> m\<close> by (simp add: mult.assoc flip: power_add)
  ultimately show "has_dp m x" by (simp add: has_dp_def)
qed

text \<open>Two values on the grid that differ by less than one unit are equal.\<close>

lemma has_dp_eqI:
  assumes "has_dp n x" and "has_dp n y" and "\<bar>x - y\<bar> * 10 ^ n < 1"
  shows "x = y"
proof -
  obtain k where k: "(x - y) * 10 ^ n = of_int k"
    using has_dp_closed(3) [OF assms(1,2)] by (auto simp: has_dp_def elim: Ints_cases)
  have "\<bar>of_int k :: rat\<bar> < 1"
    using assms(3) by (simp flip: k add: abs_mult)
  then have "k = 0" by linarith
  with k show ?thesis by simp
qed

locale decimal_laws =
  fixes L :: decimal_lib
  assumes round_grid: "has_dp n (round_dp_with_strategy L x n s)"
    and round_near: "\<bar>round_dp_with_strategy L x n s - x\<bar> * 10 ^ n \<le> 1 / 2"
    and round_tie_even: "x * 10 ^ n - of_int k = 1 / 2 \<Longrightarrow>
      round_dp_with_strategy L x n MidpointNearestEven * 10 ^ n = of_int (if even k then k else k + 1)"
    and round_tie_away: "x * 10 ^ n - of_int k = 1 / 2 \<Longrightarrow>
      round_dp_with_strategy L x n MidpointAwayFromZero * 10 ^ n = of_int (if 0 \<le> x then k + 1 else k)"
    and div_nonneg: "0 \<le> a \<Longrightarrow> 0 < b \<Longrightarrow> 0 \<le> div_dec L a b"
    and div_exact: "has_dp 20 q \<Longrightarrow> b \<noteq> 0 \<Longrightarrow> div_dec L (q * b) b = q"
begin

text \<open>What already has the places is kept: rounding is idempotent.\<close>

lemma round_exact: "has_dp n x \<Longrightarrow> round_dp_with_strategy L x n s = x"
proof -
  assume x: "has_dp n x"
  have "\<bar>round_dp_with_strategy L x n s - x\<bar> * 10 ^ n < 1"
    using round_near [of x n s] by linarith
  with round_grid x show ?thesis by (rule has_dp_eqI)
qed

lemma round_idem:
  "round_dp_with_strategy L (round_dp_with_strategy L x n s) n t = round_dp_with_strategy L x n s"
  by (rule round_exact) (rule round_grid)

lemma round_zero [simp]: "round_dp_with_strategy L 0 n s = 0"
  by (rule round_exact) simp

lemma round_mono: "x \<le> y \<Longrightarrow> round_dp_with_strategy L x n s \<le> round_dp_with_strategy L y n s"
proof (rule ccontr)
  let ?r = "\<lambda>x. round_dp_with_strategy L x n s"
  assume "x \<le> y" and "\<not> ?r x \<le> ?r y"
  then have gt: "?r y < ?r x" and "x \<noteq> y" by auto
  obtain k where k: "(?r x - ?r y) * 10 ^ n = of_int k"
    using has_dp_closed(3) [OF round_grid [of n x s] round_grid [of n y s]]
    by (auto simp: has_dp_def elim: Ints_cases)
  have "0 < (?r x - ?r y) * 10 ^ n" using gt by simp
  then have "0 < k" using k by simp
  then have "1 \<le> k" by simp
  then have one: "1 \<le> (?r x - ?r y) * 10 ^ n" by (simp add: k)
  have "\<bar>(?r x - x) * 10 ^ n\<bar> \<le> 1 / 2" "\<bar>(?r y - y) * 10 ^ n\<bar> \<le> 1 / 2"
    using round_near [of x n s] round_near [of y n s] by (simp_all add: abs_mult)
  then have "(?r x - ?r y) * 10 ^ n - (x - y) * 10 ^ n \<le> 1"
    by (simp only: left_diff_distrib)
  moreover have "(x - y) * 10 ^ n < 0"
    using \<open>x \<le> y\<close> \<open>x \<noteq> y\<close> by (simp add: mult_less_0_iff)
  ultimately show False using one \<open>1 \<le> (?r x - ?r y) * 10 ^ n\<close> by linarith
qed

lemma round_nonneg: "0 \<le> x \<Longrightarrow> 0 \<le> round_dp_with_strategy L x n s"
  using round_mono [of 0 x n s] by simp

lemma round_nonpos: "x \<le> 0 \<Longrightarrow> round_dp_with_strategy L x n s \<le> 0"
  using round_mono [of x 0 n s] by simp

lemma round_le_grid: "x \<le> g \<Longrightarrow> has_dp n g \<Longrightarrow> round_dp_with_strategy L x n s \<le> g"
  using round_mono [of x g n s] round_exact [of n g s] by simp

lemma round_ge_grid: "g \<le> x \<Longrightarrow> has_dp n g \<Longrightarrow> g \<le> round_dp_with_strategy L x n s"
  using round_mono [of g x n s] round_exact [of n g s] by simp

lemma round_add_grid:
  assumes "has_dp n g"
  shows "\<bar>round_dp_with_strategy L (x + g) n s - g - x\<bar> * 10 ^ n \<le> 1 / 2"
  using round_near [of "x + g" n s] by (simp add: algebra_simps)

end

section \<open>A concrete decimal package\<close>

definition std_round :: "decimal \<Rightarrow> nat \<Rightarrow> rounding_strategy \<Rightarrow> decimal" where
  "std_round x n s =
     (let y = x * 10 ^ n; f = floor y; r = y - of_int f in
      of_int (if r < 1 / 2 then f
              else if 1 / 2 < r then f + 1
              else (case s of MidpointNearestEven \<Rightarrow> if even f then f else f + 1
                            | MidpointAwayFromZero \<Rightarrow> if 0 \<le> x then f + 1 else f)) / 10 ^ n)"

definition std_decimal :: decimal_lib where
  "std_decimal = \<lparr>round_dp_with_strategy = std_round, div_dec = (\<lambda>a b. a / b)\<rparr>"

lemma std_decimal_simps [simp]:
  "round_dp_with_strategy std_decimal = std_round"
  "div_dec std_decimal a b = a / b"
  by (simp_all add: std_decimal_def)

lemma std_round_scaled:
  "std_round x n s * 10 ^ n =
     (let y = x * 10 ^ n; f = floor y; r = y - of_int f in
      of_int (if r < 1 / 2 then f
              else if 1 / 2 < r then f + 1
              else (case s of MidpointNearestEven \<Rightarrow> if even f then f else f + 1
                            | MidpointAwayFromZero \<Rightarrow> if 0 \<le> x then f + 1 else f)))"
  by (simp add: std_round_def Let_def)

lemma std_round_near: "\<bar>std_round x n s - x\<bar> * 10 ^ n \<le> 1 / 2"
proof -
  have "\<bar>std_round x n s - x\<bar> * 10 ^ n = \<bar>std_round x n s * 10 ^ n - x * 10 ^ n\<bar>"
    by (simp add: abs_mult flip: left_diff_distrib)
  also have "\<dots> \<le> 1 / 2"
    unfolding std_round_scaled Let_def
    using floor_correct [of "x * 10 ^ n"]
    by (auto simp: abs_le_iff split: rounding_strategy.split)
  finally show ?thesis .
qed

lemma std_round_tie:
  assumes "x * 10 ^ n - of_int k = 1 / 2"
  shows "std_round x n s * 10 ^ n = of_int (case s of MidpointNearestEven \<Rightarrow> if even k then k else k + 1
                            | MidpointAwayFromZero \<Rightarrow> if 0 \<le> x then k + 1 else k)"
proof -
  have "floor (x * 10 ^ n) = k"
    using assms by (intro floor_unique) auto
  with assms show ?thesis
    unfolding std_round_scaled Let_def by (auto split: rounding_strategy.split)
qed

interpretation std: decimal_laws std_decimal
proof
  fix n :: nat and x :: decimal and s :: rounding_strategy and k :: int
  show "has_dp n (round_dp_with_strategy std_decimal x n s)"
    unfolding std_decimal_simps by (rule has_dpI) (simp add: std_round_scaled Let_def)
  show "\<bar>round_dp_with_strategy std_decimal x n s - x\<bar> * 10 ^ n \<le> 1 / 2"
    using std_round_near [of x n s] by simp
  show "round_dp_with_strategy std_decimal x n MidpointNearestEven * 10 ^ n
      = of_int (if even k then k else k + 1)"
    if "x * 10 ^ n - of_int k = 1 / 2"
    using std_round_tie [OF that] by simp
  show "round_dp_with_strategy std_decimal x n MidpointAwayFromZero * 10 ^ n
      = of_int (if 0 \<le> x then k + 1 else k)"
    if "x * 10 ^ n - of_int k = 1 / 2"
    using std_round_tie [OF that] by simp
  show "0 \<le> a \<Longrightarrow> 0 < b \<Longrightarrow> 0 \<le> div_dec std_decimal a b" for a b :: decimal
    by simp
  show "has_dp 20 q \<Longrightarrow> b \<noteq> 0 \<Longrightarrow> div_dec std_decimal (q * b) b = q" for b q :: decimal
    by simp
qed

section \<open>Columns of fixed scale\<close>

text \<open>
  A \<^verbatim>\<open>NUMERIC(p, s)\<close> column of the database stores a value rounded to \<open>s\<close> places, ties away from
  zero, as PostgreSQL documents it. A value too large for the column is not modelled.
\<close>

definition numeric_column :: "nat \<Rightarrow> decimal \<Rightarrow> decimal" where
  "numeric_column s x = std_round x s MidpointAwayFromZero"

lemma numeric_column_grid [simp]: "has_dp s (numeric_column s x)"
  using std.round_grid [of s x MidpointAwayFromZero] by (simp add: numeric_column_def)

lemma numeric_column_exact: "has_dp s x \<Longrightarrow> numeric_column s x = x"
  using std.round_exact [of s x MidpointAwayFromZero] by (simp add: numeric_column_def)

lemma numeric_column_whole [simp]:
  "numeric_column s 0 = 0" "numeric_column s 1 = 1" "numeric_column s (numeral n) = numeral n"
  by (rule numeric_column_exact, simp)+

section \<open>The rounding policy of \<open>money.rs\<close>\<close>

definition ROUNDING_TOLERANCE :: decimal where
  "ROUNDING_TOLERANCE = 1 / 100"

definition round_money :: "decimal_lib \<Rightarrow> decimal \<Rightarrow> decimal" where
  "round_money L value = round_dp_with_strategy L value 2 MidpointNearestEven"

definition round_paye :: "decimal_lib \<Rightarrow> decimal \<Rightarrow> decimal" where
  "round_paye L value = round_dp_with_strategy L value 0 MidpointNearestEven"

datatype rounding_outcome_t = Balanced | Adjust bool decimal | RoundingUnbalanced

definition rounding_outcome :: "decimal \<Rightarrow> decimal \<Rightarrow> rounding_outcome_t" where
  "rounding_outcome total_debits total_credits =
     (let diff = total_debits - total_credits in
      if diff = 0 then Balanced
      else if \<bar>diff\<bar> \<le> ROUNDING_TOLERANCE then Adjust (diff < 0) \<bar>diff\<bar>
      else RoundingUnbalanced)"

lemma rounding_outcome_Balanced [simp]: "rounding_outcome d c = Balanced \<longleftrightarrow> d = c"
  by (auto simp: rounding_outcome_def Let_def)

lemma rounding_outcome_AdjustD:
  "rounding_outcome d c = Adjust b a \<Longrightarrow>
    0 < a \<and> a \<le> ROUNDING_TOLERANCE \<and> (if b then d + a = c else d = c + a)"
  by (auto simp: rounding_outcome_def Let_def split: if_splits)

lemma rounding_outcome_RoundingUnbalanced:
  "rounding_outcome d c = RoundingUnbalanced \<longleftrightarrow> ROUNDING_TOLERANCE < \<bar>d - c\<bar>"
  by (auto simp: rounding_outcome_def Let_def ROUNDING_TOLERANCE_def)

context decimal_laws
begin

lemma round_money_grid [simp]: "has_dp 2 (round_money L x)"
  by (simp add: round_money_def round_grid)

lemma round_money_exact: "has_dp 2 x \<Longrightarrow> round_money L x = x"
  by (simp add: round_money_def round_exact)

lemma round_money_idem [simp]: "round_money L (round_money L x) = round_money L x"
  by (simp add: round_money_exact)

lemma round_money_nonneg: "0 \<le> x \<Longrightarrow> 0 \<le> round_money L x"
  by (simp add: round_money_def round_nonneg)

lemma round_money_mono: "x \<le> y \<Longrightarrow> round_money L x \<le> round_money L y"
  by (simp add: round_money_def round_mono)

end

end
