(* ===== verification/Journal.thy ===== *)
theory Journal
  imports Period Money
begin

text \<open>
  The double-entry journal: \<^verbatim>\<open>zavora-erp-core/src/ledger/journal.rs\<close> (entries, lines,
  requests) and \<^verbatim>\<open>services/journal.rs\<close> (validation, period enforcement, posting, reversal), with
  the posting entry point of the agents in \<^verbatim>\<open>engine.rs\<close>. The state extends the periods by the
  tables \<open>journal_entries\<close>, \<open>journal_lines\<close> and \<open>account_period_balances\<close> and by the journal
  counter of each tenant's settings row. The tables' keys and the hard-close trigger of
  \<^verbatim>\<open>migrations/026\<close> are part of the inserts. A transaction that fails returns the error only: the
  database rolls it back, so the caller goes on from the state it passed in.
\<close>

section \<open>Data\<close>

datatype journal_source =
    Manual | Invoice | CreditNote | Bill | SupplierCreditNote | Payment | Payroll
  | Depreciation | FixedAsset | FxRevaluation | InventoryAdjustment | BankFee
  | OpeningBalance | YearEndClose | Agent string

datatype entry_status = EntryDraft | EntryPosted | EntryReversed

type_synonym dimension_map = "(string \<times> string) list"

record journal_line =
  jl_id :: uuid
  jl_account :: account_code
  jl_debit :: "decimal option"
  jl_credit :: "decimal option"
  jl_currency :: currency_code
  jl_fx_rate :: decimal
  functional_debit :: "decimal option"
  functional_credit :: "decimal option"
  jl_description :: "string option"
  jl_dimensions :: dimension_map

definition compute_functional :: "journal_line \<Rightarrow> journal_line" where
  "compute_functional l = l\<lparr>functional_debit := map_option (\<lambda>d. d * jl_fx_rate l) (jl_debit l),
     functional_credit := map_option (\<lambda>c. c * jl_fx_rate l) (jl_credit l)\<rparr>"

definition functional_net :: "journal_line \<Rightarrow> decimal" where
  "functional_net l = unwrap_or (functional_debit l) 0 - unwrap_or (functional_credit l) 0"

record journal_entry =
  en_id :: uuid
  en_entity_id :: uuid
  en_number :: string
  en_date :: naive_date
  en_period_id :: uuid
  en_source :: journal_source
  en_reference :: string
  en_description :: string
  en_lines :: "journal_line list"
  en_status :: entry_status
  en_created_by :: agent_or_user_id
  en_created_at :: timestamp
  en_posted_at :: "timestamp option"

definition totals :: "journal_entry \<Rightarrow> decimal \<times> decimal" where
  "totals e = (opt_sum functional_debit (en_lines e), opt_sum functional_credit (en_lines e))"

definition is_balanced :: "journal_entry \<Rightarrow> bool" where
  "is_balanced e \<longleftrightarrow> opt_sum functional_debit (en_lines e) = opt_sum functional_credit (en_lines e)"

record journal_line_request =
  rl_account :: account_code
  rl_debit :: "decimal option"
  rl_credit :: "decimal option"
  rl_currency :: currency_code
  rl_fx_rate :: "decimal option"
  rl_description :: "string option"
  rl_dimensions :: "dimension_map option"

record journal_entry_request =
  rq_date :: naive_date
  rq_source :: journal_source
  rq_source_id :: "uuid option"
  rq_reference :: string
  rq_description :: string
  rq_lines :: "journal_line_request list"
  rq_post_immediately :: bool

record validation_report =
  is_valid :: bool
  report_errors :: "string list"
  report_warnings :: "string list"

text \<open>The rows of the tables.\<close>

record journal_entry_row =
  je_id :: uuid
  je_entity_id :: uuid
  je_number :: string
  je_date :: naive_date
  je_period_id :: uuid
  je_source :: journal_source
  je_source_id :: "uuid option"
  je_reference :: string
  je_description :: string
  je_status :: entry_status
  je_created_by :: agent_or_user_id
  je_created_at :: timestamp
  je_posted_at :: "timestamp option"

record journal_line_row =
  row_entry_id :: uuid
  row_entity_id :: uuid
  row_entry_date :: naive_date
  row_line :: journal_line

record period_balance =
  pb_entity_id :: uuid
  pb_account :: account_code
  pb_period_id :: uuid
  pb_period_end :: naive_date
  debit_total :: decimal
  credit_total :: decimal

record ledger_db = period_db +
  journal_counter :: "uuid \<Rightarrow> nat option"
  journal_entries :: "journal_entry_row list"
  journal_lines :: "journal_line_row list"
  account_period_balances :: "period_balance list"

section \<open>Validation\<close>

text \<open>Rule 2: the match over a line's debit and credit, in the order of its arms.\<close>

definition line_shape_error :: "nat \<Rightarrow> journal_line_request \<Rightarrow> string list" where
  "line_shape_error i l =
     (let pre = ''Line '' @ show_nat (i + 1) in
      case (rl_debit l, rl_credit l) of
        (Some d, Some c) \<Rightarrow>
          if 0 < d \<and> 0 < c then [pre @ '' has both debit and credit; use separate lines'']
          else if d < 0 then [pre @ '' has negative debit'']
          else if c < 0 then [pre @ '' has negative credit'']
          else []
      | (None, None) \<Rightarrow> [pre @ '' has neither debit nor credit'']
      | (Some d, None) \<Rightarrow> if d < 0 then [pre @ '' has negative debit''] else []
      | (None, Some c) \<Rightarrow> if c < 0 then [pre @ '' has negative credit''] else [])"

definition request_debits :: "decimal_lib \<Rightarrow> journal_line_request list \<Rightarrow> decimal" where
  "request_debits L ls =
     opt_sum (\<lambda>l. map_option (\<lambda>d. round_money L (d * unwrap_or (rl_fx_rate l) 1)) (rl_debit l)) ls"

definition request_credits :: "decimal_lib \<Rightarrow> journal_line_request list \<Rightarrow> decimal" where
  "request_credits L ls =
     opt_sum (\<lambda>l. map_option (\<lambda>c. round_money L (c * unwrap_or (rl_fx_rate l) 1)) (rl_credit l)) ls"

definition account_errors :: "'a chart_db_scheme \<Rightarrow> uuid \<Rightarrow> journal_line_request \<Rightarrow> string list" where
  "account_errors db entity_id l =
     (case find_account db entity_id (rl_account l) of
        None \<Rightarrow> [''Account '' @ rl_account l @ '' not found'']
      | Some a \<Rightarrow> (if ac_is_active a then [] else [''Account '' @ rl_account l @ '' is inactive'']))
     @ (case find_account db entity_id (rl_account l) of
        Some a \<Rightarrow> (if ac_is_control a
          then [''Account '' @ rl_account l @ '' is a control account and cannot be posted directly'']
          else [])
      | None \<Rightarrow> [])"

definition reference_exists :: "'a ledger_db_scheme \<Rightarrow> uuid \<Rightarrow> string \<Rightarrow> bool" where
  "reference_exists db entity_id ref \<longleftrightarrow>
     (\<exists>e \<in> set (journal_entries db). je_entity_id e = entity_id \<and> je_reference e = ref)"

definition validate_entry ::
    "decimal_lib \<Rightarrow> 'a ledger_db_scheme \<Rightarrow> uuid \<Rightarrow> journal_entry_request \<Rightarrow> validation_report" where
  "validate_entry L db entity_id req =
     (let base_ccy = base_currency (configs db entity_id);
          errors =
            (if length (rq_lines req) < 2 then [''Journal entry must have at least 2 lines''] else [])
            @ concat (map (\<lambda>(i, l). line_shape_error i l) (enumerate 0 (rq_lines req)))
            @ (case rounding_outcome (request_debits L (rq_lines req)) (request_credits L (rq_lines req)) of
                 RoundingUnbalanced \<Rightarrow> [''Entry is unbalanced: functional debits, credits'']
               | _ \<Rightarrow> [])
            @ concat (map (account_errors db entity_id) (rq_lines req))
            @ (if rq_reference req \<noteq> [] \<and> reference_exists db entity_id (rq_reference req)
               then [''Reference '' @ rq_reference req @ '' already exists''] else []);
          warnings = map (\<lambda>l. ''Line with account '' @ rl_account l @ '' in '' @ rl_currency l
              @ '' has no FX rate; will use rate of 1.0'')
            (filter (\<lambda>l. rl_currency l \<noteq> base_ccy \<and> rl_fx_rate l = None) (rq_lines req))
      in \<lparr>is_valid = (errors = []), report_errors = errors, report_warnings = warnings\<rparr>)"

section \<open>Period enforcement\<close>

definition is_year_end_source :: "journal_source \<Rightarrow> bool" where
  "is_year_end_source s \<longleftrightarrow> s = YearEndClose \<or> s = OpeningBalance"

definition is_document_source :: "journal_source \<Rightarrow> bool" where
  "is_document_source s \<longleftrightarrow>
     s = Invoice \<or> s = CreditNote \<or> s = Bill \<or> s = SupplierCreditNote \<or> s = Payment"

definition enforce_period_status ::
    "'a period_db_scheme \<Rightarrow> uuid \<Rightarrow> uuid \<Rightarrow> journal_source \<Rightarrow> unit erp_result" where
  "enforce_period_status db entity_id period_id source =
     and_then (ok_or (find_period db entity_id period_id) (NotFound ''fiscal_period'' period_id))
       (\<lambda>p. case parsed_status p of
          HardClosed \<Rightarrow>
            if \<not> is_year_end_source source
            then Inl (PeriodClosedDetailed (fp_name p) ''HardClosed'' (fp_id p)) else Inr ()
        | SoftClosed \<Rightarrow>
            (let docs_ok = is_document_source source
                 \<and> soft_close_allow_documents (period_controls (configs db entity_id)) in
             if source \<noteq> Manual \<and> \<not> docs_ok
             then Inl (PeriodClosedDetailed (fp_name p) ''SoftClosed'' (fp_id p)) else Inr ())
        | Open \<Rightarrow> Inr ()
        | Future \<Rightarrow> Inr ())"

text \<open>The second copy of the rule, on the transaction: its match arms carry the guards.\<close>

definition enforce_period_status_in_tx ::
    "'a period_db_scheme \<Rightarrow> uuid \<Rightarrow> uuid \<Rightarrow> journal_source \<Rightarrow> unit erp_result" where
  "enforce_period_status_in_tx db entity_id period_id source =
     and_then (ok_or (find_period db entity_id period_id) (NotFound ''fiscal_period'' period_id))
       (\<lambda>p. if parsed_status p = HardClosed \<and> \<not> is_year_end_source source
            then Inl (PeriodClosedDetailed (fp_name p) ''HardClosed'' (fp_id p))
            else if parsed_status p = SoftClosed \<and> source \<noteq> Manual
            then (let docs_ok = is_document_source source
                    \<and> soft_close_allow_documents (period_controls (configs db entity_id)) in
                  if docs_ok then Inr ()
                  else Inl (PeriodClosedDetailed (fp_name p) ''SoftClosed'' (fp_id p)))
            else Inr ())"

section \<open>Posting\<close>

text \<open>The account check of \<open>create_and_post_in_tx\<close>: every distinct code, in order.\<close>

definition account_problems :: "'a chart_db_scheme \<Rightarrow> uuid \<Rightarrow> account_code list \<Rightarrow> string list" where
  "account_problems db entity_id codes =
     concat (map (\<lambda>c. case find_account db entity_id c of
         None \<Rightarrow> [c @ '' (not found)'']
       | Some a \<Rightarrow> (if ac_is_active a then [] else [c @ '' (inactive)''])) codes)"

definition check_accounts ::
    "'a chart_db_scheme \<Rightarrow> uuid \<Rightarrow> journal_line_request list \<Rightarrow> unit erp_result" where
  "check_accounts db entity_id lines =
     (let problems = account_problems db entity_id (remdups (sort (map rl_account lines))) in
      if problems \<noteq> []
      then Inl (ValidationFailed (''Journal lines reference invalid accounts: ''
        @ join_with '', '' problems))
      else Inr ())"

text \<open>\<open>generate_journal_number_in_tx\<close>: the counter's row must exist; its old value is the number.\<close>

definition generate_journal_number ::
    "calendar \<Rightarrow> 'a ledger_db_scheme \<Rightarrow> uuid \<Rightarrow> naive_date
      \<Rightarrow> (string \<times> 'a ledger_db_scheme) erp_result" where
  "generate_journal_number C db entity_id date =
     (case journal_counter db entity_id of
        None \<Rightarrow> Inl (Database ''no rows returned'')
      | Some n \<Rightarrow>
          (let s = sequences (configs db entity_id)
           in Inr (format_number (year_reset s) (journal_prefix s)
                     (fiscal_year_for_date C db entity_id date) n,
                   db\<lparr>journal_counter := (journal_counter db)(entity_id := Some (n + 1))\<rparr>)))"

definition build_line :: "decimal_lib \<Rightarrow> uuid \<Rightarrow> journal_line_request \<Rightarrow> journal_line" where
  "build_line L line_id l =
     (let fx_rate = unwrap_or (rl_fx_rate l) 1 in
      \<lparr>jl_id = line_id, jl_account = rl_account l,
       jl_debit = map_option (round_money L) (rl_debit l),
       jl_credit = map_option (round_money L) (rl_credit l),
       jl_currency = rl_currency l, jl_fx_rate = fx_rate,
       functional_debit = map_option (\<lambda>d. round_money L (d * fx_rate)) (rl_debit l),
       functional_credit = map_option (\<lambda>c. round_money L (c * fx_rate)) (rl_credit l),
       jl_description = rl_description l, jl_dimensions = unwrap_or (rl_dimensions l) []\<rparr>)"

definition adjustment_line :: "uuid \<Rightarrow> erp_config \<Rightarrow> bool \<Rightarrow> decimal \<Rightarrow> journal_line" where
  "adjustment_line line_id cfg is_debit amount =
     (let debit_amt = (if is_debit then Some amount else None);
          credit_amt = (if is_debit then None else Some amount) in
      \<lparr>jl_id = line_id, jl_account = rounding_adjustment (posting cfg),
       jl_debit = debit_amt, jl_credit = credit_amt, jl_currency = base_currency cfg,
       jl_fx_rate = 1, functional_debit = debit_amt, functional_credit = credit_amt,
       jl_description = Some ''Rounding adjustment'', jl_dimensions = []\<rparr>)"

definition balance_lines ::
    "erp_config \<Rightarrow> uuid \<Rightarrow> journal_line list \<Rightarrow> journal_line list erp_result" where
  "balance_lines cfg line_id lines =
     (let total_debits = opt_sum functional_debit lines;
          total_credits = opt_sum functional_credit lines in
      case rounding_outcome total_debits total_credits of
        Balanced \<Rightarrow> Inr lines
      | Adjust is_debit amount \<Rightarrow> Inr (lines @ [adjustment_line line_id cfg is_debit amount])
      | RoundingUnbalanced \<Rightarrow> Inl (Unbalanced total_debits total_credits))"

text \<open>The header insert: primary key, and \<open>UNIQUE(entity_id, number)\<close>.\<close>

definition insert_entry ::
    "'a ledger_db_scheme \<Rightarrow> journal_entry_row \<Rightarrow> 'a ledger_db_scheme erp_result" where
  "insert_entry db r =
     (if \<exists>e \<in> set (journal_entries db). je_id e = je_id r
         \<or> (je_entity_id e = je_entity_id r \<and> je_number e = je_number r)
      then Inl (Database ''duplicate key value violates unique constraint'')
      else Inr (db\<lparr>journal_entries := journal_entries db @ [r]\<rparr>))"

text \<open>The trigger \<open>prevent_hardclosed_period_insert\<close> on every line insert.\<close>

definition hardclosed_trigger :: "'a ledger_db_scheme \<Rightarrow> uuid \<Rightarrow> bool" where
  "hardclosed_trigger db entry_id \<longleftrightarrow>
     (\<exists>e \<in> set (journal_entries db). \<exists>p \<in> set (fiscal_periods db).
        je_id e = entry_id \<and> je_period_id e = fp_id p
        \<and> fp_status p = ''hard_closed'' \<and> \<not> is_year_end_source (je_source e))"

definition insert_line ::
    "journal_line_row \<Rightarrow> 'a ledger_db_scheme \<Rightarrow> 'a ledger_db_scheme erp_result" where
  "insert_line r db =
     (if hardclosed_trigger db (row_entry_id r)
      then Inl (Database ''Cannot insert journal lines into a hard-closed period'')
      else if \<exists>x \<in> set (journal_lines db). jl_id (row_line x) = jl_id (row_line r)
      then Inl (Database ''duplicate key value violates unique constraint'')
      else Inr (db\<lparr>journal_lines := journal_lines db @ [r]\<rparr>))"

text \<open>\<open>INSERT .. ON CONFLICT (entity_id, account_code, period_id) DO UPDATE\<close>.\<close>

definition same_key :: "period_balance \<Rightarrow> period_balance \<Rightarrow> bool" where
  "same_key a b \<longleftrightarrow> pb_entity_id a = pb_entity_id b \<and> pb_account a = pb_account b
     \<and> pb_period_id a = pb_period_id b"

fun upsert_balance :: "period_balance \<Rightarrow> period_balance list \<Rightarrow> period_balance list" where
  "upsert_balance r [] = [r]"
| "upsert_balance r (x # xs) =
     (if same_key x r
      then x\<lparr>debit_total := debit_total x + debit_total r,
             credit_total := credit_total x + credit_total r\<rparr> # xs
      else x # upsert_balance r xs)"

text \<open>
  \<open>by_account\<close>: the movement of each account of the entry. The source collects it in a hash
  map and upserts in the map's order, which is not specified; the model takes the accounts
  in the order of the lines.
\<close>

definition account_movement :: "uuid \<Rightarrow> uuid \<Rightarrow> naive_date \<Rightarrow> journal_line list \<Rightarrow> account_code \<Rightarrow> period_balance" where
  "account_movement entity_id period_id period_end lines code =
     \<lparr>pb_entity_id = entity_id, pb_account = code, pb_period_id = period_id,
      pb_period_end = period_end,
      debit_total = sum_where (\<lambda>l. jl_account l = code) (\<lambda>l. unwrap_or (functional_debit l) 0) lines,
      credit_total = sum_where (\<lambda>l. jl_account l = code) (\<lambda>l. unwrap_or (functional_credit l) 0) lines\<rparr>"

definition update_snapshots ::
    "uuid \<Rightarrow> uuid \<Rightarrow> naive_date \<Rightarrow> journal_line list \<Rightarrow> period_balance list \<Rightarrow> period_balance list" where
  "update_snapshots entity_id period_id period_end lines pbs =
     fold (\<lambda>code. upsert_balance (account_movement entity_id period_id period_end lines code))
       (remdups (map jl_account lines)) pbs"

definition entry_row ::
    "environment \<Rightarrow> uuid \<Rightarrow> journal_entry_request \<Rightarrow> uuid \<Rightarrow> agent_or_user_id \<Rightarrow> string \<Rightarrow> journal_entry_row" where
  "entry_row E entity_id req period_id posted_by number =
     \<lparr>je_id = uuids E 0, je_entity_id = entity_id, je_number = number, je_date = rq_date req,
      je_period_id = period_id, je_source = rq_source req, je_source_id = rq_source_id req,
      je_reference = rq_reference req, je_description = rq_description req,
      je_status = EntryPosted, je_created_by = posted_by, je_created_at = now E,
      je_posted_at = Some (now E)\<rparr>"

definition line_row :: "uuid \<Rightarrow> uuid \<Rightarrow> naive_date \<Rightarrow> journal_line \<Rightarrow> journal_line_row" where
  "line_row entry_id entity_id date l =
     \<lparr>row_entry_id = entry_id, row_entity_id = entity_id, row_entry_date = date, row_line = l\<rparr>"

definition posted_entry ::
    "environment \<Rightarrow> uuid \<Rightarrow> journal_entry_request \<Rightarrow> uuid \<Rightarrow> agent_or_user_id \<Rightarrow> string
      \<Rightarrow> journal_line list \<Rightarrow> journal_entry" where
  "posted_entry E entity_id req period_id posted_by number lines =
     \<lparr>en_id = uuids E 0, en_entity_id = entity_id, en_number = number, en_date = rq_date req,
      en_period_id = period_id, en_source = rq_source req, en_reference = rq_reference req,
      en_description = rq_description req, en_lines = lines, en_status = EntryPosted,
      en_created_by = posted_by, en_created_at = now E, en_posted_at = Some (now E)\<rparr>"

text \<open>
  \<open>create_and_post_in_tx\<close>. The entry takes the first fresh id, its lines the following ones.
\<close>

definition create_and_post_in_tx ::
    "decimal_lib \<Rightarrow> calendar \<Rightarrow> environment \<Rightarrow> 'a ledger_db_scheme \<Rightarrow> uuid \<Rightarrow> journal_entry_request
      \<Rightarrow> uuid \<Rightarrow> agent_or_user_id \<Rightarrow> (journal_entry \<times> 'a ledger_db_scheme) erp_result" where
  "create_and_post_in_tx L C E db entity_id req period_id posted_by =
     and_then (enforce_period_status_in_tx db entity_id period_id (rq_source req)) (\<lambda>_.
     and_then (check_accounts db entity_id (rq_lines req)) (\<lambda>_.
     and_then (generate_journal_number C db entity_id (rq_date req)) (\<lambda>(number, db1).
     and_then (balance_lines (configs db1 entity_id) (uuids E (length (rq_lines req) + 1))
         (map (\<lambda>(i, l). build_line L (uuids E (i + 1)) l) (enumerate 0 (rq_lines req)))) (\<lambda>lines.
     and_then (insert_entry db1 (entry_row E entity_id req period_id posted_by number)) (\<lambda>db2.
     and_then (try_fold insert_line
         (map (line_row (uuids E 0) entity_id (rq_date req)) lines) db2) (\<lambda>db3.
     and_then (ok_or (List.find (\<lambda>p. fp_id p = period_id) (fiscal_periods db3))
         (Database ''no rows returned'')) (\<lambda>p.
       Inr (posted_entry E entity_id req period_id posted_by number lines,
            db3\<lparr>account_period_balances :=
              update_snapshots entity_id period_id (end_date p) lines
                (account_period_balances db3)\<rparr>))))))))"

text \<open>\<open>create_and_post\<close>: its own transaction around the above (the audit event goes to Redis).\<close>

definition create_and_post ::
    "decimal_lib \<Rightarrow> calendar \<Rightarrow> environment \<Rightarrow> 'a ledger_db_scheme \<Rightarrow> uuid \<Rightarrow> journal_entry_request
      \<Rightarrow> uuid \<Rightarrow> agent_or_user_id \<Rightarrow> (journal_entry \<times> 'a ledger_db_scheme) erp_result" where
  "create_and_post L C E db entity_id req period_id posted_by =
     create_and_post_in_tx L C E db entity_id req period_id posted_by"

section \<open>Reversal\<close>

text \<open>The trigger \<open>prevent_posted_journal_update\<close> (\<^verbatim>\<open>migrations/023\<close>) on a row update.\<close>

definition posted_update_allowed :: "journal_entry_row \<Rightarrow> journal_entry_row \<Rightarrow> bool" where
  "posted_update_allowed old new' \<longleftrightarrow>
     je_status old \<noteq> EntryPosted
     \<or> (je_status new' = je_status old \<and> je_number new' = je_number old \<and> je_date new' = je_date old
        \<and> je_period_id new' = je_period_id old \<and> je_source new' = je_source old
        \<and> je_source_id new' = je_source_id old \<and> je_reference new' = je_reference old
        \<and> je_description new' = je_description old \<and> je_entity_id new' = je_entity_id old)
     \<or> (je_status new' = EntryReversed \<and> je_number new' = je_number old \<and> je_date new' = je_date old
        \<and> je_reference new' = je_reference old \<and> je_description new' = je_description old)"

definition update_entry_status ::
    "'a ledger_db_scheme \<Rightarrow> uuid \<Rightarrow> uuid \<Rightarrow> entry_status \<Rightarrow> 'a ledger_db_scheme erp_result" where
  "update_entry_status db entity_id entry_id st =
     (let upd = (\<lambda>e. if je_id e = entry_id \<and> je_entity_id e = entity_id then e\<lparr>je_status := st\<rparr> else e) in
      if list_all (\<lambda>e. posted_update_allowed e (upd e)) (journal_entries db)
      then Inr (db\<lparr>journal_entries := map upd (journal_entries db)\<rparr>)
      else Inl (Database ''Cannot modify a posted journal entry. Use reversal instead.''))"

definition find_entry :: "'a ledger_db_scheme \<Rightarrow> uuid \<Rightarrow> uuid \<Rightarrow> journal_entry_row option" where
  "find_entry db entity_id entry_id =
     List.find (\<lambda>e. je_id e = entry_id \<and> je_entity_id e = entity_id) (journal_entries db)"

definition entry_lines :: "'a ledger_db_scheme \<Rightarrow> uuid \<Rightarrow> journal_line list" where
  "entry_lines db entry_id = map row_line (filter (\<lambda>r. row_entry_id r = entry_id) (journal_lines db))"

definition reversal_line :: "journal_line \<Rightarrow> journal_line_request" where
  "reversal_line l =
     \<lparr>rl_account = jl_account l, rl_debit = jl_credit l, rl_credit = jl_debit l,
      rl_currency = jl_currency l, rl_fx_rate = Some (jl_fx_rate l),
      rl_description = jl_description l, rl_dimensions = None\<rparr>"

definition reversal_request ::
    "naive_date \<Rightarrow> string \<Rightarrow> string option \<Rightarrow> journal_line list \<Rightarrow> journal_entry_request" where
  "reversal_request date original_number reason stored =
     \<lparr>rq_date = date, rq_source = Manual, rq_source_id = None,
      rq_reference = ''REV-'' @ original_number,
      rq_description = ''Reversal of '' @ original_number
        @ unwrap_or (map_option (\<lambda>r. '' - '' @ r) reason) [],
      rq_lines = map reversal_line stored, rq_post_immediately = True\<rparr>"

definition reverse_journal_entry ::
    "decimal_lib \<Rightarrow> calendar \<Rightarrow> environment \<Rightarrow> 'a ledger_db_scheme \<Rightarrow> uuid \<Rightarrow> uuid \<Rightarrow> string option
      \<Rightarrow> naive_date option \<Rightarrow> agent_or_user_id \<Rightarrow> (journal_entry \<times> 'a ledger_db_scheme) erp_result" where
  "reverse_journal_entry L C E db entity_id entry_id reason reversal_date reversed_by =
     and_then (ok_or (find_entry db entity_id entry_id) (NotFound ''JournalEntry'' entry_id)) (\<lambda>orig.
     if je_status orig \<noteq> EntryPosted
     then Inl (ValidationFailed ''Only posted journal entries can be reversed'')
     else if reference_exists db entity_id (''REV-'' @ je_number orig)
     then Inl (ValidationFailed (''Journal entry '' @ je_number orig @ '' has already been reversed''))
     else if entry_lines db entry_id = []
     then Inl (ValidationFailed ''Original entry has no lines to reverse'')
     else (let date = unwrap_or reversal_date (today E);
               req = reversal_request date (je_number orig) reason (entry_lines db entry_id) in
       and_then (period_for_date db entity_id date) (\<lambda>p.
       and_then (create_and_post_in_tx L C E db entity_id req (fp_id p) reversed_by) (\<lambda>(entry, db1).
       and_then (update_entry_status db1 entity_id entry_id EntryReversed) (\<lambda>db2.
         Inr (entry, db2))))))"

section \<open>The agents' entry point\<close>

record agent_posting_result =
  ap_entry :: journal_entry
  ap_report :: validation_report

text \<open>\<open>ErpEngine::post_from_agent_for\<close>; the natural-language summary is not modelled.\<close>

definition post_from_agent_for ::
    "decimal_lib \<Rightarrow> calendar \<Rightarrow> environment \<Rightarrow> 'a ledger_db_scheme \<Rightarrow> uuid \<Rightarrow> journal_entry_request
      \<Rightarrow> agent_or_user_id \<Rightarrow> (agent_posting_result \<times> 'a ledger_db_scheme) erp_result" where
  "post_from_agent_for L C E db entity_id req posted_by =
     (let validation = validate_entry L db entity_id req in
      if \<not> is_valid validation
      then Inl (ValidationFailed (join_with ''; '' (report_errors validation)))
      else and_then (period_for_date db entity_id (rq_date req)) (\<lambda>p.
        if \<not> allows_posting p then Inl (PeriodClosed (fp_id p) (rq_date req))
        else and_then (create_and_post L C E db entity_id req (fp_id p) posted_by) (\<lambda>(entry, db1).
          Inr (\<lparr>ap_entry = entry, ap_report = validation\<rparr>, db1))))"

end
