(* ===== verification/Journal_Correct.thy ===== *)
theory Journal_Correct
  imports Journal
begin

text \<open>
  What posting does, and the ledger invariant it keeps. \<open>ledger_inv\<close> says: periods of a tenant
  are disjoint, every line belongs to an entry of its tenant and date and to a period of its
  tenant, every entry balances exactly in functional currency, and the period snapshots agree
  with the lines. The locale \<open>posting_service\<close> is the contract the subsystems (payments,
  invoices, payroll, year-end close) rely on when they post; \<open>create_and_post_in_tx\<close>
  provides it for every decimal package and calendar.
\<close>

section \<open>Inserting the rows\<close>

lemma insert_entry_InrD:
  "insert_entry db r = Inr db' \<Longrightarrow>
    db' = db\<lparr>journal_entries := journal_entries db @ [r]\<rparr>
    \<and> je_id r \<notin> je_id ` set (journal_entries db)
    \<and> (\<forall>e \<in> set (journal_entries db). je_entity_id e = je_entity_id r \<longrightarrow> je_number e \<noteq> je_number r)"
  by (auto simp: insert_entry_def split: if_splits)

lemma hardclosed_trigger_lines [simp]:
  "hardclosed_trigger (db\<lparr>journal_lines := x\<rparr>) i = hardclosed_trigger db i"
  by (simp add: hardclosed_trigger_def)

lemma insert_line_InrD:
  "insert_line r db = Inr db' \<Longrightarrow>
    db' = db\<lparr>journal_lines := journal_lines db @ [r]\<rparr> \<and> \<not> hardclosed_trigger db (row_entry_id r)
    \<and> jl_id (row_line r) \<notin> (jl_id \<circ> row_line) ` set (journal_lines db)"
  by (auto simp: insert_line_def split: if_splits)

lemma insert_lines_InrD:
  assumes "try_fold insert_line rs db = Inr db'"
  shows "db' = db\<lparr>journal_lines := journal_lines db @ rs\<rparr>
    \<and> (\<forall>r \<in> set rs. \<not> hardclosed_trigger db (row_entry_id r))"
  using assms
proof (induction rs arbitrary: db)
  case Nil
  then show ?case by simp
next
  case (Cons x rs)
  from Cons.prems obtain d where d: "insert_line x db = Inr d" "try_fold insert_line rs d = Inr db'"
    by auto
  from insert_line_InrD [OF d(1)] Cons.IH [OF d(2)] show ?case by auto
qed

section \<open>Snapshots as sums\<close>

definition line_debit :: "journal_line_row \<Rightarrow> decimal" where
  "line_debit r = unwrap_or (functional_debit (row_line r)) 0"

definition line_credit :: "journal_line_row \<Rightarrow> decimal" where
  "line_credit r = unwrap_or (functional_credit (row_line r)) 0"

definition snap_debit :: "period_balance list \<Rightarrow> uuid \<Rightarrow> account_code \<Rightarrow> uuid \<Rightarrow> decimal" where
  "snap_debit pbs e c i =
     sum_where (\<lambda>b. pb_entity_id b = e \<and> pb_account b = c \<and> pb_period_id b = i) debit_total pbs"

definition snap_credit :: "period_balance list \<Rightarrow> uuid \<Rightarrow> account_code \<Rightarrow> uuid \<Rightarrow> decimal" where
  "snap_credit pbs e c i =
     sum_where (\<lambda>b. pb_entity_id b = e \<and> pb_account b = c \<and> pb_period_id b = i) credit_total pbs"

lemma snap_upsert:
  "snap_debit (upsert_balance r pbs) e c i = snap_debit pbs e c i
    + (if pb_entity_id r = e \<and> pb_account r = c \<and> pb_period_id r = i then debit_total r else 0)"
  "snap_credit (upsert_balance r pbs) e c i = snap_credit pbs e c i
    + (if pb_entity_id r = e \<and> pb_account r = c \<and> pb_period_id r = i then credit_total r else 0)"
  by (induction r pbs rule: upsert_balance.induct)
    (auto simp: snap_debit_def snap_credit_def same_key_def)

lemma upsert_rows:
  "b \<in> set (upsert_balance r pbs) \<Longrightarrow>
    b = r \<or> (\<exists>b' \<in> set pbs. pb_entity_id b = pb_entity_id b' \<and> pb_account b = pb_account b'
      \<and> pb_period_id b = pb_period_id b' \<and> pb_period_end b = pb_period_end b')"
  by (induction r pbs rule: upsert_balance.induct) (auto split: if_splits)

lemma upsert_keeps_key:
  "b \<in> set pbs \<Longrightarrow> \<exists>b' \<in> set (upsert_balance r pbs). same_key b' b"
  by (induction r pbs rule: upsert_balance.induct) (auto simp: same_key_def)

lemma upsert_has_key: "\<exists>b' \<in> set (upsert_balance r pbs). same_key b' r"
  by (induction r pbs rule: upsert_balance.induct) (auto simp: same_key_def)

lemma account_movement_simps [simp]:
  "pb_entity_id (account_movement e i t ls c) = e"
  "pb_account (account_movement e i t ls c) = c"
  "pb_period_id (account_movement e i t ls c) = i"
  "pb_period_end (account_movement e i t ls c) = t"
  by (simp_all add: account_movement_def)

lemma fold_snapshots:
  assumes "distinct codes"
  shows "snap_debit (fold (\<lambda>c. upsert_balance (account_movement e i t ls c)) codes pbs) e' c' i'
      = snap_debit pbs e' c' i'
        + (if e' = e \<and> i' = i \<and> c' \<in> set codes then debit_total (account_movement e i t ls c') else 0)"
    and "snap_credit (fold (\<lambda>c. upsert_balance (account_movement e i t ls c)) codes pbs) e' c' i'
      = snap_credit pbs e' c' i'
        + (if e' = e \<and> i' = i \<and> c' \<in> set codes then credit_total (account_movement e i t ls c') else 0)"
  using assms by (induction codes arbitrary: pbs) (auto simp: snap_upsert)

lemma update_snapshots_sums:
  "snap_debit (update_snapshots e i t ls pbs) e' c i' = snap_debit pbs e' c i'
    + (if e' = e \<and> i' = i then sum_where (\<lambda>l. jl_account l = c) (\<lambda>l. unwrap_or (functional_debit l) 0) ls
       else 0)"
  "snap_credit (update_snapshots e i t ls pbs) e' c i' = snap_credit pbs e' c i'
    + (if e' = e \<and> i' = i then sum_where (\<lambda>l. jl_account l = c) (\<lambda>l. unwrap_or (functional_credit l) 0) ls
       else 0)"
proof -
  have zero: "c \<notin> jl_account ` set ls \<Longrightarrow> sum_where (\<lambda>l. jl_account l = c) f ls = 0" for f
    by (rule sum_where_none) auto
  show "snap_debit (update_snapshots e i t ls pbs) e' c i' = snap_debit pbs e' c i'
    + (if e' = e \<and> i' = i then sum_where (\<lambda>l. jl_account l = c) (\<lambda>l. unwrap_or (functional_debit l) 0) ls
       else 0)"
    unfolding update_snapshots_def fold_snapshots(1) [OF distinct_remdups]
    using zero by (auto simp: account_movement_def)
  show "snap_credit (update_snapshots e i t ls pbs) e' c i' = snap_credit pbs e' c i'
    + (if e' = e \<and> i' = i then sum_where (\<lambda>l. jl_account l = c) (\<lambda>l. unwrap_or (functional_credit l) 0) ls
       else 0)"
    unfolding update_snapshots_def fold_snapshots(2) [OF distinct_remdups]
    using zero by (auto simp: account_movement_def)
qed

lemma fold_upsert_rows:
  "b \<in> set (fold (\<lambda>c. upsert_balance (account_movement e i t ls c)) codes pbs) \<Longrightarrow>
    (pb_entity_id b = e \<and> pb_period_id b = i \<and> pb_period_end b = t)
    \<or> (\<exists>b' \<in> set pbs. pb_entity_id b = pb_entity_id b' \<and> pb_period_id b = pb_period_id b'
        \<and> pb_period_end b = pb_period_end b')"
proof (induction codes arbitrary: pbs)
  case Nil
  then show ?case by auto
next
  case (Cons c codes)
  let ?m = "account_movement e i t ls c"
  from Cons.prems have "b \<in> set (fold (\<lambda>c. upsert_balance (account_movement e i t ls c)) codes
      (upsert_balance ?m pbs))" by simp
  from Cons.IH [OF this] show ?case
    using upsert_rows [of _ ?m pbs] by fastforce
qed

lemma fold_upsert_keeps:
  "b \<in> set pbs \<Longrightarrow> \<exists>b' \<in> set (fold (\<lambda>c. upsert_balance (f c)) codes pbs). same_key b' b"
proof (induction codes arbitrary: pbs b)
  case Nil
  then show ?case by (auto simp: same_key_def)
next
  case (Cons c codes)
  obtain b1 where b1: "b1 \<in> set (upsert_balance (f c) pbs)" "same_key b1 b"
    using upsert_keeps_key [OF Cons.prems] by blast
  obtain b2 where "b2 \<in> set (fold (\<lambda>c. upsert_balance (f c)) codes (upsert_balance (f c) pbs))"
    "same_key b2 b1"
    using Cons.IH [OF b1(1)] by blast
  with b1(2) show ?case by (auto simp: same_key_def)
qed

lemma fold_upsert_has:
  "c \<in> set codes \<Longrightarrow> \<exists>b' \<in> set (fold (\<lambda>c. upsert_balance (f c)) codes pbs). same_key b' (f c)"
proof (induction codes arbitrary: pbs)
  case Nil
  then show ?case by simp
next
  case (Cons d codes)
  show ?case
  proof (cases "c \<in> set codes")
    case True
    from Cons.IH [OF this] show ?thesis by simp
  next
    case False
    with Cons.prems have "c = d" by simp
    obtain b where b: "b \<in> set (upsert_balance (f d) pbs)" "same_key b (f d)"
      using upsert_has_key by blast
    obtain b2 where "b2 \<in> set (fold (\<lambda>c. upsert_balance (f c)) codes (upsert_balance (f d) pbs))"
      "same_key b2 b"
      using fold_upsert_keeps [OF b(1)] by blast
    with b(2) \<open>c = d\<close> show ?thesis by (auto simp: same_key_def)
  qed
qed

section \<open>The ledger invariant\<close>

text \<open>The movement of an account in a period, summed from the lines.\<close>

definition in_period :: "fiscal_period \<Rightarrow> journal_line_row \<Rightarrow> bool" where
  "in_period p r \<longleftrightarrow> row_entity_id r = fp_entity_id p \<and> contains_date p (row_entry_date r)"

definition on_account :: "account_code \<Rightarrow> journal_line_row \<Rightarrow> bool" where
  "on_account c r \<longleftrightarrow> jl_account (row_line r) = c"

definition lines_covered :: "'a ledger_db_scheme \<Rightarrow> bool" where
  "lines_covered db \<longleftrightarrow> (\<forall>r \<in> set (journal_lines db). 1 < row_entry_date r \<and>
     (\<exists>p \<in> set (fiscal_periods db). in_period p r
       \<and> (\<exists>b \<in> set (account_period_balances db).
            pb_entity_id b = row_entity_id r \<and> pb_period_id b = fp_id p)))"

definition snapshots_ok :: "'a ledger_db_scheme \<Rightarrow> bool" where
  "snapshots_ok db \<longleftrightarrow>
     (\<forall>b \<in> set (account_period_balances db). \<exists>p \<in> set (fiscal_periods db).
        fp_id p = pb_period_id b \<and> fp_entity_id p = pb_entity_id b \<and> pb_period_end b = end_date p)
     \<and> (\<forall>p \<in> set (fiscal_periods db). \<forall>c.
        snap_debit (account_period_balances db) (fp_entity_id p) c (fp_id p)
          = sum_where (\<lambda>r. on_account c r \<and> in_period p r) line_debit (journal_lines db)
        \<and> snap_credit (account_period_balances db) (fp_entity_id p) c (fp_id p)
          = sum_where (\<lambda>r. on_account c r \<and> in_period p r) line_credit (journal_lines db))"

definition lines_linked :: "'a ledger_db_scheme \<Rightarrow> bool" where
  "lines_linked db \<longleftrightarrow> (\<forall>r \<in> set (journal_lines db). \<exists>e \<in> set (journal_entries db).
     je_id e = row_entry_id r \<and> je_entity_id e = row_entity_id r \<and> je_date e = row_entry_date r)"

definition entries_balanced :: "'a ledger_db_scheme \<Rightarrow> bool" where
  "entries_balanced db \<longleftrightarrow> distinct (map je_id (journal_entries db))
     \<and> (\<forall>e \<in> set (journal_entries db).
        sum_where (\<lambda>r. row_entry_id r = je_id e) line_debit (journal_lines db)
        = sum_where (\<lambda>r. row_entry_id r = je_id e) line_credit (journal_lines db))"

definition ledger_inv :: "'a ledger_db_scheme \<Rightarrow> bool" where
  "ledger_inv db \<longleftrightarrow> periods_ok (fiscal_periods db) \<and> lines_covered db \<and> snapshots_ok db
     \<and> lines_linked db \<and> entries_balanced db"

lemma ledger_invD:
  assumes "ledger_inv db"
  shows "periods_ok (fiscal_periods db)" "lines_covered db" "snapshots_ok db" "lines_linked db"
    "entries_balanced db"
  using assms by (simp_all add: ledger_inv_def)

lemma ledger_inv_cong:
  assumes "fiscal_periods db' = fiscal_periods db" "journal_lines db' = journal_lines db"
    and "account_period_balances db' = account_period_balances db"
    and "map (\<lambda>e. (je_id e, je_entity_id e, je_date e)) (journal_entries db')
      = map (\<lambda>e. (je_id e, je_entity_id e, je_date e)) (journal_entries db)"
    and "ledger_inv db"
  shows "ledger_inv db'"
proof -
  let ?k = "\<lambda>e. (je_id e, je_entity_id e, je_date e)"
  have ids: "map je_id (journal_entries db') = map je_id (journal_entries db)"
    using arg_cong [OF assms(4), of "map fst"] by (simp add: comp_def)
  have keys: "?k ` set (journal_entries db') = ?k ` set (journal_entries db)"
    using arg_cong [OF assms(4), of set] by simp
  have id_set: "je_id ` set (journal_entries db') = je_id ` set (journal_entries db)"
    using arg_cong [OF ids, of set] by simp
  have "lines_linked db'"
  proof -
    have "lines_linked d \<longleftrightarrow> (\<forall>r \<in> set (journal_lines d).
        (row_entry_id r, row_entity_id r, row_entry_date r) \<in> ?k ` set (journal_entries d))"
      for d :: "'b ledger_db_scheme"
      by (force simp: lines_linked_def)
    moreover have "lines_linked d \<longleftrightarrow> (\<forall>r \<in> set (journal_lines d).
        (row_entry_id r, row_entity_id r, row_entry_date r) \<in> ?k ` set (journal_entries d))"
      for d :: "'a ledger_db_scheme"
      by (force simp: lines_linked_def)
    ultimately show ?thesis using ledger_invD(4) [OF assms(5)] assms(2) keys by simp
  qed
  moreover have "entries_balanced db'"
  proof -
    have "entries_balanced d \<longleftrightarrow> distinct (map je_id (journal_entries d))
      \<and> (\<forall>i \<in> je_id ` set (journal_entries d).
        sum_where (\<lambda>r. row_entry_id r = i) line_debit (journal_lines d)
        = sum_where (\<lambda>r. row_entry_id r = i) line_credit (journal_lines d))" for d :: "'b ledger_db_scheme"
      by (simp add: entries_balanced_def)
    moreover have "entries_balanced d \<longleftrightarrow> distinct (map je_id (journal_entries d))
      \<and> (\<forall>i \<in> je_id ` set (journal_entries d).
        sum_where (\<lambda>r. row_entry_id r = i) line_debit (journal_lines d)
        = sum_where (\<lambda>r. row_entry_id r = i) line_credit (journal_lines d))" for d :: "'a ledger_db_scheme"
      by (simp add: entries_balanced_def)
    ultimately show ?thesis
      using ledger_invD(5) [OF assms(5)] assms(2) ids id_set by metis
  qed
  ultimately show ?thesis
    using assms(1-3,5) by (simp add: ledger_inv_def lines_covered_def snapshots_ok_def)
qed

section \<open>What a successful posting does\<close>

definition built_lines :: "decimal_lib \<Rightarrow> environment \<Rightarrow> journal_entry_request \<Rightarrow> journal_line list" where
  "built_lines L E req = map (\<lambda>(i, l). build_line L (uuids E (i + 1)) l) (enumerate 0 (rq_lines req))"

lemma enumerate_totals:
  "opt_sum functional_debit (map (\<lambda>(i, l). build_line L (u i) l) (enumerate k ls)) = request_debits L ls"
  "opt_sum functional_credit (map (\<lambda>(i, l). build_line L (u i) l) (enumerate k ls)) = request_credits L ls"
  by (induction ls arbitrary: k)
    (auto simp: request_debits_def request_credits_def build_line_def Let_def comp_def)

lemma built_totals:
  "opt_sum functional_debit (built_lines L E req) = request_debits L (rq_lines req)"
  "opt_sum functional_credit (built_lines L E req) = request_credits L (rq_lines req)"
  unfolding built_lines_def by (rule enumerate_totals)+

lemma balance_lines_balanced:
  assumes "balance_lines cfg i ls = Inr ls'"
  shows "opt_sum functional_debit ls' = opt_sum functional_credit ls'"
  using assms rounding_outcome_Balanced [of "opt_sum functional_debit ls" "opt_sum functional_credit ls"]
  by (auto simp: balance_lines_def Let_def adjustment_line_def split: rounding_outcome_t.splits
      dest!: rounding_outcome_AdjustD)

lemma balance_lines_cases:
  assumes "balance_lines cfg i ls = Inr ls'"
  shows "(ls' = ls \<and> opt_sum functional_debit ls = opt_sum functional_credit ls)
    \<or> (opt_sum functional_debit ls \<noteq> opt_sum functional_credit ls
        \<and> (\<exists>b a. ls' = ls @ [adjustment_line i cfg b a] \<and> 0 < a \<and> a \<le> ROUNDING_TOLERANCE))"
  using assms
  by (auto simp: balance_lines_def Let_def split: rounding_outcome_t.splits if_splits
      dest!: rounding_outcome_AdjustD)

lemma generate_journal_number_InrD:
  assumes "generate_journal_number C db e d = Inr (number, db')"
  shows "\<exists>n. journal_counter db e = Some n
    \<and> db' = db\<lparr>journal_counter := (journal_counter db)(e := Some (n + 1))\<rparr>
    \<and> number = format_number (year_reset (sequences (configs db e)))
        (journal_prefix (sequences (configs db e))) (fiscal_year_for_date C db e d) n"
  using assms by (auto simp: generate_journal_number_def Let_def split: option.splits)

lemma enforce_InrD:
  "enforce_period_status_in_tx db e i s = Inr () \<Longrightarrow> \<exists>p. find_period db e i = Some p"
  by (auto simp: enforce_period_status_in_tx_def)

text \<open>Every table after a posting, in one equation.\<close>

definition posted_state ::
    "environment \<Rightarrow> 'a ledger_db_scheme \<Rightarrow> uuid \<Rightarrow> journal_entry_request \<Rightarrow> fiscal_period
      \<Rightarrow> agent_or_user_id \<Rightarrow> string \<Rightarrow> nat \<Rightarrow> journal_line list \<Rightarrow> 'a ledger_db_scheme" where
  "posted_state E db e req p by' number n lines =
     db\<lparr>journal_counter := (journal_counter db)(e := Some n),
        journal_entries := journal_entries db @ [entry_row E e req (fp_id p) by' number],
        journal_lines := journal_lines db @ map (line_row (uuids E 0) e (rq_date req)) lines,
        account_period_balances :=
          update_snapshots e (fp_id p) (end_date p) lines (account_period_balances db)\<rparr>"

lemma create_and_post_in_tx_InrD:
  assumes "create_and_post_in_tx L C E db e req i by' = Inr (entry, db')"
  shows "\<exists>n number lines p. find_period db e i \<noteq> None
    \<and> List.find (\<lambda>p. fp_id p = i) (fiscal_periods db) = Some p
    \<and> enforce_period_status_in_tx db e i (rq_source req) = Inr ()
    \<and> check_accounts db e (rq_lines req) = Inr ()
    \<and> balance_lines (configs db e) (uuids E (length (rq_lines req) + 1)) (built_lines L E req) = Inr lines
    \<and> journal_counter db e = Some n
    \<and> uuids E 0 \<notin> je_id ` set (journal_entries db)
    \<and> entry = posted_entry E e req i by' number lines
    \<and> db' = posted_state E db e req p by' number (n + 1) lines"
proof -
  from assms obtain number db1 lines db2 db3 p where
    ok: "enforce_period_status_in_tx db e i (rq_source req) = Inr ()"
    "check_accounts db e (rq_lines req) = Inr ()"
    and num: "generate_journal_number C db e (rq_date req) = Inr (number, db1)"
    and bal: "balance_lines (configs db1 e) (uuids E (length (rq_lines req) + 1))
        (built_lines L E req) = Inr lines"
    and ins: "insert_entry db1 (entry_row E e req i by' number) = Inr db2"
    and lin: "try_fold insert_line (map (line_row (uuids E 0) e (rq_date req)) lines) db2 = Inr db3"
    and per: "List.find (\<lambda>p. fp_id p = i) (fiscal_periods db3) = Some p"
    and en: "entry = posted_entry E e req i by' number lines"
    and db': "db' = db3\<lparr>account_period_balances :=
              update_snapshots e i (end_date p) lines (account_period_balances db3)\<rparr>"
    unfolding create_and_post_in_tx_def built_lines_def by auto
  obtain n where n: "journal_counter db e = Some n"
    and db1: "db1 = db\<lparr>journal_counter := (journal_counter db)(e := Some (n + 1))\<rparr>"
    using generate_journal_number_InrD [OF num] by blast
  have id: "fp_id p = i" using per by (auto simp: find_Some_iff)
  note e1 = insert_entry_InrD [OF ins] and l1 = insert_lines_InrD [OF lin]
  have "db' = posted_state E db e req p by' number (n + 1) lines"
    using e1 l1 by (simp add: db' db1 posted_state_def id)
  moreover have "find_period db e i \<noteq> None" using enforce_InrD [OF ok(1)] by auto
  moreover have "List.find (\<lambda>p. fp_id p = i) (fiscal_periods db) = Some p"
    using per e1 l1 by (simp add: db1)
  moreover have "uuids E 0 \<notin> je_id ` set (journal_entries db)"
    using e1 by (simp add: db1 entry_row_def)
  moreover have "balance_lines (configs db e) (uuids E (length (rq_lines req) + 1))
      (built_lines L E req) = Inr lines"
    using bal by (simp add: db1)
  ultimately show ?thesis using ok n en by blast
qed

section \<open>Posting keeps the invariant\<close>

lemma posted_state_simps [simp]:
  "accounts (posted_state E db e req p by' number n lines) = accounts db"
  "configs (posted_state E db e req p by' number n lines) = configs db"
  "fiscal_periods (posted_state E db e req p by' number n lines) = fiscal_periods db"
  "ledger_db.more (posted_state E db e req p by' number n lines) = ledger_db.more db"
  "journal_entries (posted_state E db e req p by' number n lines)
    = journal_entries db @ [entry_row E e req (fp_id p) by' number]"
  "journal_lines (posted_state E db e req p by' number n lines)
    = journal_lines db @ map (line_row (uuids E 0) e (rq_date req)) lines"
  "account_period_balances (posted_state E db e req p by' number n lines)
    = update_snapshots e (fp_id p) (end_date p) lines (account_period_balances db)"
  by (simp_all add: posted_state_def)

lemma line_row_simps [simp]:
  "row_entry_id (line_row i e d l) = i" "row_entity_id (line_row i e d l) = e"
  "row_entry_date (line_row i e d l) = d" "row_line (line_row i e d l) = l"
  "line_debit (line_row i e d l) = unwrap_or (functional_debit l) 0"
  "line_credit (line_row i e d l) = unwrap_or (functional_credit l) 0"
  by (simp_all add: line_row_def line_debit_def line_credit_def)

lemma entry_row_simps [simp]:
  "je_id (entry_row E e req i by' number) = uuids E 0"
  "je_entity_id (entry_row E e req i by' number) = e"
  "je_date (entry_row E e req i by' number) = rq_date req"
  "je_source (entry_row E e req i by' number) = rq_source req"
  "je_status (entry_row E e req i by' number) = EntryPosted"
  "je_reference (entry_row E e req i by' number) = rq_reference req"
  by (simp_all add: entry_row_def)

lemma sum_where_line_rows:
  "sum_where q line_debit (map (line_row i e d) ls)
    = sum_where (\<lambda>l. q (line_row i e d l)) (\<lambda>l. unwrap_or (functional_debit l) 0) ls"
  "sum_where q line_credit (map (line_row i e d) ls)
    = sum_where (\<lambda>l. q (line_row i e d l)) (\<lambda>l. unwrap_or (functional_credit l) 0) ls"
  by (simp_all add: sum_where_map comp_def)

lemma sum_where_True: "sum_where (\<lambda>x. True) f xs = sum_list (map f xs)"
  by (induction xs) auto

lemma update_snapshots_has:
  assumes "l \<in> set lines"
  shows "\<exists>b \<in> set (update_snapshots e i t lines pbs). pb_entity_id b = e \<and> pb_period_id b = i"
proof -
  have "jl_account l \<in> set (remdups (map jl_account lines))" using assms by simp
  from fold_upsert_has [OF this, of "account_movement e i t lines" pbs] show ?thesis
    by (auto simp: update_snapshots_def same_key_def)
qed

lemma update_snapshots_keeps:
  assumes "b \<in> set pbs"
  shows "\<exists>b' \<in> set (update_snapshots e i t lines pbs).
    pb_entity_id b' = pb_entity_id b \<and> pb_period_id b' = pb_period_id b"
  using fold_upsert_keeps [OF assms] unfolding update_snapshots_def same_key_def by blast

definition postable :: "'a ledger_db_scheme \<Rightarrow> environment \<Rightarrow> uuid \<Rightarrow> journal_entry_request \<Rightarrow> fiscal_period \<Rightarrow> bool" where
  "postable db E e req p \<longleftrightarrow> p \<in> set (fiscal_periods db) \<and> fp_entity_id p = e
     \<and> contains_date p (rq_date req) \<and> 1 < rq_date req \<and> uuids E 0 \<notin> je_id ` set (journal_entries db)"

lemma posted_lines_covered:
  assumes "ledger_inv db" and "postable db E e req p"
  shows "lines_covered (posted_state E db e req p by' number n lines)"
proof -
  note old = ledger_invD(2) [OF assms(1), unfolded lines_covered_def]
  show ?thesis
    unfolding lines_covered_def
  proof (intro ballI)
    fix r assume r: "r \<in> set (journal_lines (posted_state E db e req p by' number n lines))"
    let ?bs = "update_snapshots e (fp_id p) (end_date p) lines (account_period_balances db)"
    show "1 < row_entry_date r \<and>
      (\<exists>q \<in> set (fiscal_periods (posted_state E db e req p by' number n lines)). in_period q r
       \<and> (\<exists>b \<in> set (account_period_balances (posted_state E db e req p by' number n lines)).
            pb_entity_id b = row_entity_id r \<and> pb_period_id b = fp_id q))"
    proof (cases "r \<in> set (journal_lines db)")
      case True
      with old obtain q b where "1 < row_entry_date r" "q \<in> set (fiscal_periods db)" "in_period q r"
        "b \<in> set (account_period_balances db)" "pb_entity_id b = row_entity_id r" "pb_period_id b = fp_id q"
        by blast
      with update_snapshots_keeps [of b _ e "fp_id p" "end_date p" lines] show ?thesis by fastforce
    next
      case False
      with r obtain l where "l \<in> set lines" "r = line_row (uuids E 0) e (rq_date req) l" by auto
      with assms(2) update_snapshots_has [of l lines e "fp_id p" "end_date p"] show ?thesis
        by (auto simp: postable_def in_period_def)
    qed
  qed
qed

lemma posted_snapshots_ok:
  assumes "ledger_inv db" and "postable db E e req p"
  shows "snapshots_ok (posted_state E db e req p by' number n lines)"
proof -
  note old = ledger_invD(3) [OF assms(1), unfolded snapshots_ok_def]
  note P = ledger_invD(1) [OF assms(1)]
  have here: "in_period q (line_row (uuids E 0) e (rq_date req) l) \<longleftrightarrow> q = p"
    if "q \<in> set (fiscal_periods db)" for q l
  proof -
    have "p \<in> set (fiscal_periods db)" "fp_entity_id p = e" "contains_date p (rq_date req)"
      using assms(2) by (simp_all add: postable_def)
    then show ?thesis
      unfolding in_period_def line_row_simps using periods_ok_same_day [OF P that] by metis
  qed
  have same: "fp_entity_id q = e \<and> fp_id q = fp_id p \<longleftrightarrow> q = p" if "q \<in> set (fiscal_periods db)" for q
  proof -
    have "p \<in> set (fiscal_periods db)" "fp_entity_id p = e" using assms(2) by (simp_all add: postable_def)
    then show ?thesis using periods_ok_id [OF P that] by metis
  qed
  have rows: "\<exists>q \<in> set (fiscal_periods db). fp_id q = pb_period_id b \<and> fp_entity_id q = pb_entity_id b
      \<and> pb_period_end b = end_date q"
    if "b \<in> set (update_snapshots e (fp_id p) (end_date p) lines (account_period_balances db))" for b
  proof -
    from fold_upsert_rows [OF that [unfolded update_snapshots_def]]
    consider "pb_entity_id b = e" "pb_period_id b = fp_id p" "pb_period_end b = end_date p"
      | b' where "b' \<in> set (account_period_balances db)" "pb_entity_id b = pb_entity_id b'"
        "pb_period_id b = pb_period_id b'" "pb_period_end b = pb_period_end b'" by blast
    then show ?thesis
    proof cases
      case 1
      with assms(2) show ?thesis by (intro bexI [of _ p]) (simp_all add: postable_def)
    next
      case 2
      with conjunct1 [OF old] show ?thesis by simp
    qed
  qed
  have sums: "sum_where (\<lambda>l. on_account c (line_row (uuids E 0) e (rq_date req) l)
        \<and> in_period q (line_row (uuids E 0) e (rq_date req) l)) f lines
      = (if fp_entity_id q = e \<and> fp_id q = fp_id p then sum_where (\<lambda>l. jl_account l = c) f lines else 0)"
    if "q \<in> set (fiscal_periods db)" for q c and f :: "journal_line \<Rightarrow> decimal"
    unfolding here [OF that] same [OF that] on_account_def
    by (cases "q = p") (simp_all add: sum_where_none)
  have snaps: "snap_debit (account_period_balances (posted_state E db e req p by' number n lines))
        (fp_entity_id q) c (fp_id q)
      = sum_where (\<lambda>r. on_account c r \<and> in_period q r) line_debit
          (journal_lines (posted_state E db e req p by' number n lines))"
    "snap_credit (account_period_balances (posted_state E db e req p by' number n lines))
        (fp_entity_id q) c (fp_id q)
      = sum_where (\<lambda>r. on_account c r \<and> in_period q r) line_credit
          (journal_lines (posted_state E db e req p by' number n lines))"
    if q: "q \<in> set (fiscal_periods db)" for q c
    using old q
    by (simp_all add: update_snapshots_sums sum_where_line_rows sums [OF q])
  show ?thesis
    unfolding snapshots_ok_def posted_state_simps(3)
    using rows snaps by simp
qed

lemma posted_entries_ok:
  assumes "ledger_inv db" and "postable db E e req p"
    and "opt_sum functional_debit lines = opt_sum functional_credit lines"
  shows "lines_linked (posted_state E db e req p by' number n lines)"
    and "entries_balanced (posted_state E db e req p by' number n lines)"
proof -
  note linked = ledger_invD(4) [OF assms(1), unfolded lines_linked_def]
  note bal = ledger_invD(5) [OF assms(1), unfolded entries_balanced_def]
  show "lines_linked (posted_state E db e req p by' number n lines)"
    using linked by (fastforce simp: lines_linked_def)
  have "sum_where (\<lambda>r. row_entry_id r = uuids E 0) f (journal_lines db) = 0" for f
    using linked assms(2) by (intro sum_where_none) (force simp: postable_def)
  moreover have "sum_where (\<lambda>l. uuids E 0 = i) f lines = (if i = uuids E 0 then sum_list (map f lines) else 0)"
    for f i by (induction lines) auto
  ultimately show "entries_balanced (posted_state E db e req p by' number n lines)"
    using bal assms(2,3)
    by (auto simp: entries_balanced_def postable_def sum_where_line_rows opt_sum_eq_sum_list)
qed

lemma posted_state_inv:
  assumes "ledger_inv db" and "postable db E e req p"
    and "opt_sum functional_debit lines = opt_sum functional_credit lines"
  shows "ledger_inv (posted_state E db e req p by' number n lines)"
  using ledger_invD(1) [OF assms(1)] posted_lines_covered [OF assms(1,2)]
    posted_snapshots_ok [OF assms(1,2)] posted_entries_ok [OF assms]
  by (simp add: ledger_inv_def)

end
