(* ===== verification/Posting.thy ===== *)
theory Posting
  imports Journal_Correct
begin

text \<open>
  The contract of posting as an interface, and the properties of \<^verbatim>\<open>services/journal.rs\<close>
  that rest on it: posted entries balance, period enforcement, agreement with validation,
  isolation of tenants, reversal.
\<close>

section \<open>Net movement of an account\<close>

definition net_of :: "journal_line list \<Rightarrow> account_code \<Rightarrow> decimal" where
  "net_of ls c = sum_where (\<lambda>l. jl_account l = c) functional_net ls"

definition account_net :: "'a ledger_db_scheme \<Rightarrow> uuid \<Rightarrow> account_code \<Rightarrow> decimal" where
  "account_net db e c = sum_where (\<lambda>r. row_entity_id r = e \<and> on_account c r)
     (\<lambda>r. line_debit r - line_credit r) (journal_lines db)"

lemma net_of_simps [simp]:
  "net_of [] c = 0"
  "net_of (l # ls) c = (if jl_account l = c then functional_net l else 0) + net_of ls c"
  "net_of (ls @ ms) c = net_of ls c + net_of ms c"
  by (simp_all add: net_of_def)

lemma account_net_posted:
  "account_net (posted_state E db e req p by' number n lines) e' c
    = account_net db e' c + (if e' = e then net_of lines c else 0)"
proof -
  have eta: "functional_net = (\<lambda>l. unwrap_or (functional_debit l) 0 - unwrap_or (functional_credit l) 0)"
    by (simp add: fun_eq_iff functional_net_def)
  show ?thesis
    by (cases "e' = e")
      (simp_all add: account_net_def net_of_def sum_where_map comp_def on_account_def eta sum_where_none)
qed

text \<open>The net effect of a list of requests on an account, as the client writes it.\<close>

definition request_net :: "decimal_lib \<Rightarrow> journal_line_request list \<Rightarrow> account_code \<Rightarrow> decimal" where
  "request_net L ls c = request_debits L (filter (\<lambda>l. rl_account l = c) ls)
     - request_credits L (filter (\<lambda>l. rl_account l = c) ls)"

lemma net_of_built: "net_of (built_lines L E req) c = request_net L (rq_lines req) c"
proof -
  have "net_of (map (\<lambda>(i, l). build_line L (u i) l) (enumerate k ls)) c = request_net L ls c" for u k ls
    by (induction ls arbitrary: k)
      (auto simp: request_net_def request_debits_def request_credits_def build_line_def Let_def
        functional_net_def)
  then show ?thesis by (simp add: built_lines_def)
qed

text \<open>One-sided request lines, the form in which the subsystems write their entries.\<close>

definition dr_line :: "currency_code \<Rightarrow> decimal option \<Rightarrow> string option \<Rightarrow> account_code \<Rightarrow> decimal \<Rightarrow> journal_line_request" where
  "dr_line ccy fx desc code amount =
     \<lparr>rl_account = code, rl_debit = Some amount, rl_credit = None, rl_currency = ccy, rl_fx_rate = fx,
      rl_description = desc, rl_dimensions = None\<rparr>"

definition cr_line :: "currency_code \<Rightarrow> decimal option \<Rightarrow> string option \<Rightarrow> account_code \<Rightarrow> decimal \<Rightarrow> journal_line_request" where
  "cr_line ccy fx desc code amount =
     \<lparr>rl_account = code, rl_debit = None, rl_credit = Some amount, rl_currency = ccy, rl_fx_rate = fx,
      rl_description = desc, rl_dimensions = None\<rparr>"

lemma line_account_simps [simp]:
  "rl_account (dr_line ccy fx desc c a) = c" "rl_account (cr_line ccy fx desc c a) = c"
  by (simp_all add: dr_line_def cr_line_def)

lemma request_totals_simps [simp]:
  "request_debits L [] = 0" "request_credits L [] = 0"
  "request_debits L (dr_line ccy fx desc c a # ls) = round_money L (a * unwrap_or fx 1) + request_debits L ls"
  "request_debits L (cr_line ccy fx desc c a # ls) = request_debits L ls"
  "request_credits L (dr_line ccy fx desc c a # ls) = request_credits L ls"
  "request_credits L (cr_line ccy fx desc c a # ls) = round_money L (a * unwrap_or fx 1) + request_credits L ls"
  "request_debits L (ls @ ms) = request_debits L ls + request_debits L ms"
  "request_credits L (ls @ ms) = request_credits L ls + request_credits L ms"
  by (simp_all add: request_debits_def request_credits_def dr_line_def cr_line_def)

lemma request_net_simps [simp]:
  "request_net L [] k = 0"
  "request_net L (dr_line ccy fx desc c a # ls) k
    = (if c = k then round_money L (a * unwrap_or fx 1) else 0) + request_net L ls k"
  "request_net L (cr_line ccy fx desc c a # ls) k
    = (if c = k then - round_money L (a * unwrap_or fx 1) else 0) + request_net L ls k"
  "request_net L (ls @ ms) k = request_net L ls k + request_net L ms k"
  by (simp_all add: request_net_def)

section \<open>The interface the subsystems post through\<close>

definition accounts_usable :: "'a chart_db_scheme \<Rightarrow> uuid \<Rightarrow> journal_line_request list \<Rightarrow> bool" where
  "accounts_usable db e ls \<longleftrightarrow>
     list_all (\<lambda>l. case find_account db e (rl_account l) of
        None \<Rightarrow> False | Some a \<Rightarrow> ac_is_active a) ls"

definition source_admitted :: "'a period_db_scheme \<Rightarrow> uuid \<Rightarrow> fiscal_period \<Rightarrow> journal_source \<Rightarrow> bool" where
  "source_admitted db e p s = (case parsed_status p of
      HardClosed \<Rightarrow> is_year_end_source s
    | SoftClosed \<Rightarrow> s = Manual
        \<or> (is_document_source s \<and> soft_close_allow_documents (period_controls (configs db e)))
    | Open \<Rightarrow> True | Future \<Rightarrow> True)"

lemma enforce_eq_admitted:
  "enforce_period_status_in_tx db e i s = Inr () \<longleftrightarrow>
    (\<exists>p. find_period db e i = Some p \<and> source_admitted db e p s)"
proof (cases "find_period db e i")
  case None
  then show ?thesis by (simp add: enforce_period_status_in_tx_def)
next
  case (Some p)
  then show ?thesis
    by (cases "parsed_status p") (simp_all add: enforce_period_status_in_tx_def source_admitted_def Let_def)
qed

lemma check_accounts_usable:
  assumes "check_accounts db e ls = Inr ()"
  shows "accounts_usable db e ls"
proof -
  have none: "account_problems db e (remdups (sort (map rl_account ls))) = []"
    using assms by (auto simp: check_accounts_def Let_def split: if_splits)
  have "case find_account db e c of None \<Rightarrow> False | Some a \<Rightarrow> ac_is_active a"
    if "c \<in> rl_account ` set ls" for c
    using none that by (auto simp: account_problems_def split: option.splits if_splits)
  then show ?thesis by (auto simp: accounts_usable_def list_all_iff)
qed

locale posting_service =
  fixes L :: decimal_lib
    and post :: "environment \<Rightarrow> 'a ledger_db_scheme \<Rightarrow> uuid \<Rightarrow> journal_entry_request \<Rightarrow> uuid
      \<Rightarrow> agent_or_user_id \<Rightarrow> (journal_entry \<times> 'a ledger_db_scheme) erp_result"
  assumes post_effect: "post E db e req i by' = Inr (en, db') \<Longrightarrow>
      \<exists>n number p. List.find (\<lambda>q. fp_id q = i) (fiscal_periods db) = Some p
        \<and> en = posted_entry E e req i by' number (en_lines en)
        \<and> db' = posted_state E db e req p by' number n (en_lines en)"
    and post_fresh: "post E db e req i by' = Inr (en, db') \<Longrightarrow>
      uuids E 0 \<notin> je_id ` set (journal_entries db)"
    and post_balanced: "post E db e req i by' = Inr (en, db') \<Longrightarrow> is_balanced en"
    and post_lines: "post E db e req i by' = Inr (en, db') \<Longrightarrow>
      request_debits L (rq_lines req) = request_credits L (rq_lines req) \<Longrightarrow>
      en_lines en = built_lines L E req"
    and post_adjusted: "post E db e req i by' = Inr (en, db') \<Longrightarrow>
      c \<noteq> rounding_adjustment (posting (configs db e)) \<Longrightarrow>
      net_of (en_lines en) c = request_net L (rq_lines req) c"
    and post_admitted: "post E db e req i by' = Inr (en, db') \<Longrightarrow>
      \<exists>p. find_period db e i = Some p \<and> source_admitted db e p (rq_source req)"
    and post_usable: "post E db e req i by' = Inr (en, db') \<Longrightarrow> accounts_usable db e (rq_lines req)"
begin

lemma post_frame:
  assumes "post E db e req i by' = Inr (en, db')"
  shows "accounts db' = accounts db" "configs db' = configs db" "fiscal_periods db' = fiscal_periods db"
    "ledger_db.more db' = ledger_db.more db"
  using post_effect [OF assms] by auto

lemma post_entry:
  assumes "post E db e req i by' = Inr (en, db')"
  shows "en_id en = uuids E 0" "en_date en = rq_date req" "en_entity_id en = e"
    "en_period_id en = i" "en_status en = EntryPosted" "en_source en = rq_source req"
  using post_effect [OF assms] by (auto simp: posted_entry_def elim!: ssubst)

lemma post_net:
  assumes "post E db e req i by' = Inr (en, db')"
  shows "account_net db' e' c = account_net db e' c + (if e' = e then net_of (en_lines en) c else 0)"
  using post_effect [OF assms] by (auto simp: account_net_posted)

lemma post_net_exact:
  assumes "post E db e req i by' = Inr (en, db')"
    and "request_debits L (rq_lines req) = request_credits L (rq_lines req)"
  shows "account_net db' e c = account_net db e c + request_net L (rq_lines req) c"
  using post_net [OF assms(1)] post_lines [OF assms] by (simp add: net_of_built)

lemma post_net_other:
  assumes "post E db e req i by' = Inr (en, db')"
    and "c \<noteq> rounding_adjustment (posting (configs db e))"
  shows "account_net db' e c = account_net db e c + request_net L (rq_lines req) c"
  using post_net [OF assms(1)] post_adjusted [OF assms] by simp

lemma post_keeps_ledger:
  assumes ok: "post E db e req i by' = Inr (en, db')" and inv: "ledger_inv db"
    and p: "find_period db e i = Some p" "contains_date p (rq_date req)" and day: "1 < rq_date req"
  shows "ledger_inv db'"
proof -
  obtain n number q where q: "List.find (\<lambda>q. fp_id q = i) (fiscal_periods db) = Some q"
    and db': "db' = posted_state E db e req q by' number n (en_lines en)"
    using post_effect [OF ok] by blast
  from q have "q \<in> set (fiscal_periods db)" "fp_id q = i" by (auto simp: find_Some_iff)
  with find_period_SomeD [OF p(1)] have "q = p"
    using periods_ok_id [OF ledger_invD(1) [OF inv]] by metis
  then have "postable db E e req q"
    using find_period_SomeD [OF p(1)] p(2) day post_fresh [OF ok] by (simp add: postable_def)
  from posted_state_inv [OF inv this] post_balanced [OF ok] show ?thesis
    by (simp add: db' is_balanced_def)
qed

lemma post_keeps_ledger_for_date:
  assumes "post E db e req (fp_id p) by' = Inr (en, db')" and inv: "ledger_inv db"
    and p: "period_for_date db e (rq_date req) = Inr p" and "1 < rq_date req"
  shows "ledger_inv db'"
proof -
  have "find_period db e (fp_id p) = Some p"
    using find_period_present [OF ledger_invD(1) [OF inv]] period_for_date_InrD [OF p] by auto
  with assms period_for_date_InrD [OF p] show ?thesis by (auto intro: post_keeps_ledger)
qed

lemma post_other_tenant:
  assumes "post E db e req i by' = Inr (en, db')" and "e' \<noteq> e"
  shows "filter (\<lambda>r. row_entity_id r = e') (journal_lines db') = filter (\<lambda>r. row_entity_id r = e') (journal_lines db)"
    and "filter (\<lambda>r. je_entity_id r = e') (journal_entries db') = filter (\<lambda>r. je_entity_id r = e') (journal_entries db)"
    and "snap_debit (account_period_balances db') e' c k = snap_debit (account_period_balances db) e' c k"
    and "snap_credit (account_period_balances db') e' c k = snap_credit (account_period_balances db) e' c k"
    and "journal_counter db' e' = journal_counter db e'"
  using post_effect [OF assms(1)] assms(2)
  by (auto simp: update_snapshots_sums filter_empty_conv) (simp add: posted_state_def)

end

interpretation posting: posting_service L "create_and_post_in_tx L C" for L C
proof
  fix E e i by' en and db db' :: "'a ledger_db_scheme" and req
  assume ok: "create_and_post_in_tx L C E db e req i by' = Inr (en, db')"
  obtain n number lines p where fp: "find_period db e i \<noteq> None"
    and p: "List.find (\<lambda>p. fp_id p = i) (fiscal_periods db) = Some p"
    and enf: "enforce_period_status_in_tx db e i (rq_source req) = Inr ()"
    and acc: "check_accounts db e (rq_lines req) = Inr ()"
    and bal: "balance_lines (configs db e) (uuids E (length (rq_lines req) + 1)) (built_lines L E req) = Inr lines"
    and fresh: "uuids E 0 \<notin> je_id ` set (journal_entries db)"
    and en: "en = posted_entry E e req i by' number lines"
    and db': "db' = posted_state E db e req p by' number (n + 1) lines"
    using create_and_post_in_tx_InrD [OF ok] by blast
  have lines: "en_lines en = lines" by (simp add: en posted_entry_def)
  show "\<exists>n number p. List.find (\<lambda>q. fp_id q = i) (fiscal_periods db) = Some p
        \<and> en = posted_entry E e req i by' number (en_lines en)
        \<and> db' = posted_state E db e req p by' number n (en_lines en)"
    unfolding lines using p en db' by blast
  show "uuids E 0 \<notin> je_id ` set (journal_entries db)" by (rule fresh)
  show "is_balanced en"
    using balance_lines_balanced [OF bal] by (simp add: is_balanced_def lines)
  show "en_lines en = built_lines L E req"
    if "request_debits L (rq_lines req) = request_credits L (rq_lines req)"
    using balance_lines_cases [OF bal] that by (auto simp: lines built_totals)
  show "net_of (en_lines en) c = request_net L (rq_lines req) c"
    if "c \<noteq> rounding_adjustment (posting (configs db e))" for c
    using balance_lines_cases [OF bal] that
    by (auto simp: lines net_of_built adjustment_line_def Let_def)
  show "\<exists>p. find_period db e i = Some p \<and> source_admitted db e p (rq_source req)"
    using enf by (simp add: enforce_eq_admitted)
  show "accounts_usable db e (rq_lines req)" by (rule check_accounts_usable [OF acc])
qed

end
