(* ===== verification/Samples.thy ===== *)
theory Samples
  imports Posting
begin

text \<open>
  A small concrete ledger on which the properties of the development are applied: tenant 1 with
  five accounts, the periods January (open) and February (soft closed) of 2025, and the entry
  requests the witnesses post into it.
\<close>

definition sample_account :: "account_code \<Rightarrow> string \<Rightarrow> bool \<Rightarrow> account" where
  "sample_account code ty control =
     \<lparr>ac_id = 0, ac_entity_id = 1, ac_code = code, ac_name = code, ac_account_type = ty,
      ac_parent_code = None, ac_currency = None, ac_is_control = control, ac_is_active = True,
      ac_tags = [], ac_created_at = 0\<rparr>"

definition sample_period :: "uuid \<Rightarrow> naive_date \<Rightarrow> naive_date \<Rightarrow> string \<Rightarrow> fiscal_period" where
  "sample_period i a b status =
     \<lparr>fp_id = i, fp_entity_id = 1, fp_name = ''P'', start_date = a, end_date = b, fp_status = status,
      fiscal_year = 2025, period_number = int i, closed_by = None, closed_at = None, fp_created_at = 0\<rparr>"

definition sample_accounts :: "account list" where
  "sample_accounts =
     [sample_account ''1100'' ''Asset'' True, sample_account ''1000'' ''Asset'' False,
      sample_account ''3100'' ''Equity'' False, sample_account ''4000'' ''Revenue'' False,
      sample_account ''6000'' ''Expense'' False, sample_account ''7900'' ''Expense'' False]"

definition sample_db :: ledger_db where
  "sample_db =
     \<lparr>accounts = sample_accounts, configs = default_config,
      fiscal_periods = [sample_period 1 739252 739282 ''open'', sample_period 2 739283 739310 ''soft_closed''],
      journal_counter = (\<lambda>_. Some 1), journal_entries = [], journal_lines = [],
      account_period_balances = []\<rparr>"

definition sample_env :: environment where
  "sample_env = \<lparr>now = 0, today = 739260, uuids = (\<lambda>n. 1000 + n)\<rparr>"

definition sample_env2 :: environment where
  "sample_env2 = \<lparr>now = 1, today = 739265, uuids = (\<lambda>n. 2000 + n)\<rparr>"

definition sample_line :: "account_code \<Rightarrow> decimal option \<Rightarrow> decimal option \<Rightarrow> journal_line_request" where
  "sample_line code d c =
     \<lparr>rl_account = code, rl_debit = d, rl_credit = c, rl_currency = ''KES'', rl_fx_rate = None,
      rl_description = None, rl_dimensions = None\<rparr>"

definition sample_request :: journal_entry_request where
  "sample_request =
     \<lparr>rq_date = 739255, rq_source = Manual, rq_source_id = None, rq_reference = ''R1'',
      rq_description = ''sale'', rq_lines = [sample_line ''1000'' (Some 500) None,
        sample_line ''4000'' None (Some 500)], rq_post_immediately = True\<rparr>"

definition sample_result :: "(journal_entry \<times> ledger_db) erp_result" where
  "sample_result = create_and_post_in_tx std_decimal gregorian sample_env sample_db 1 sample_request 1 (User 9)"

definition sample_entry :: journal_entry where
  "sample_entry = fst (projr sample_result)"

definition sample_db2 :: ledger_db where
  "sample_db2 = snd (projr sample_result)"

lemma sample_posts:
  "create_and_post_in_tx std_decimal gregorian sample_env sample_db 1 sample_request 1 (User 9)
    = Inr (sample_entry, sample_db2)"
proof -
  have "\<not> isl sample_result" by code_simp
  then show ?thesis
    by (cases sample_result) (auto simp: sample_entry_def sample_db2_def sample_result_def)
qed

lemma sample_ledger_inv: "ledger_inv sample_db"
  by (auto simp: ledger_inv_def lines_covered_def snapshots_ok_def lines_linked_def entries_balanced_def
      periods_ok_def periods_apart_def sample_db_def sample_period_def snap_debit_def snap_credit_def)

lemma sample_finds:
  "find_period sample_db 1 1 = Some (sample_period 1 739252 739282 ''open'')"
  "contains_date (sample_period 1 739252 739282 ''open'') 739255"
  "rq_date sample_request = 739255"
  by (simp_all add: find_period_def sample_db_def sample_period_def contains_date_def sample_request_def)

lemma sample_day: "1 < rq_date sample_request"
  by (simp add: sample_request_def)

lemma sample_db2_inv: "ledger_inv sample_db2"
  by (rule posting.post_keeps_ledger [OF sample_posts sample_ledger_inv sample_finds(1)])
    (simp_all only: sample_finds sample_day)

end
