(* ===== verification/Posting_Properties.thy ===== *)
theory Posting_Properties
  imports Samples
begin

text \<open>
  The properties of posting and reversal (\<^verbatim>\<open>services/journal.rs\<close>, \<^verbatim>\<open>engine.rs\<close>), each a few steps
  over the facts of the posting interface.
\<close>

section \<open>Balance, invariant, enforcement\<close>

text \<open>
  C1: every posting that succeeds leaves an entry whose functional debits equal its functional
  credits exactly, whatever the FX rates and rounding of its lines, and keeps the ledger
  invariant (disjoint periods, every line covered by a period of its tenant, snapshots equal to
  the lines, every entry balanced), when the date falls in the period it is posted to.
\<close>

theorem posting_balances_and_keeps_ledger:
  assumes "create_and_post_in_tx L C E db e req i by' = Inr (en, db')"
    and "ledger_inv db" and "find_period db e i = Some p" and "contains_date p (rq_date req)"
    and "1 < rq_date req"
  shows "is_balanced en \<and> ledger_inv db'"
  using posting.post_balanced [OF assms(1)] posting.post_keeps_ledger [OF assms] by blast

theorem posting_balances_and_keeps_ledger_witness:
  "is_balanced sample_entry \<and> ledger_inv sample_db2"
  by (rule posting_balances_and_keeps_ledger [OF sample_posts sample_ledger_inv sample_finds(1)])
    (simp_all only: sample_finds sample_day)

text \<open>
  The two copies of the period rule, the one on the connection pool and the one inside the
  posting transaction, decide the same on every input, with the same error.
\<close>

theorem period_rule_copies_agree:
  "enforce_period_status db e i s = enforce_period_status_in_tx db e i s"
proof (cases "find_period db e i")
  case None
  then show ?thesis by (simp add: enforce_period_status_def enforce_period_status_in_tx_def)
next
  case (Some p)
  then show ?thesis
    by (cases "parsed_status p")
      (simp_all add: enforce_period_status_def enforce_period_status_in_tx_def Let_def)
qed



section \<open>Validation and the agents' entry point\<close>

lemma valid_entry_parts:
  assumes "is_valid (validate_entry L db e req)"
  shows "2 \<le> length (rq_lines req)"
    and "rounding_outcome (request_debits L (rq_lines req)) (request_credits L (rq_lines req)) \<noteq> RoundingUnbalanced"
    and "\<forall>l \<in> set (rq_lines req). account_errors db e l = []"
    and "rq_reference req \<noteq> [] \<Longrightarrow> \<not> reference_exists db e (rq_reference req)"
    and "\<forall>x \<in> set (enumerate 0 (rq_lines req)). line_shape_error (fst x) (snd x) = []"
  using assms
  by (auto simp: validate_entry_def Let_def case_prod_unfold rounding_outcome_def
      split: if_splits rounding_outcome_t.splits)


text \<open>
  Validation and posting agree on balance. An entry that validation accepts is never
  refused as unbalanced: the lines posting builds differ by at most the rounding tolerance and
  posting closes the gap itself.
\<close>

theorem validated_entry_never_unbalanced:
  assumes "is_valid (validate_entry L db e req)"
  shows "\<exists>lines. balance_lines cfg i (built_lines L E req) = Inr lines
    \<and> opt_sum functional_debit lines = opt_sum functional_credit lines
    \<and> length lines \<le> length (rq_lines req) + 1"
proof -
  have "\<exists>lines. balance_lines cfg i (built_lines L E req) = Inr lines"
    using valid_entry_parts(2) [OF assms]
    by (auto simp: balance_lines_def Let_def built_totals split: rounding_outcome_t.splits)
  then obtain lines where lines: "balance_lines cfg i (built_lines L E req) = Inr lines" by blast
  moreover have "length (built_lines L E req) = length (rq_lines req)" by (simp add: built_lines_def)
  ultimately show ?thesis
    using balance_lines_balanced [OF lines] balance_lines_cases [OF lines] by auto
qed

theorem validated_entry_never_unbalanced_witness:
  "\<exists>lines. balance_lines (default_config 1) 5 (built_lines std_decimal sample_env sample_request) = Inr lines
    \<and> opt_sum functional_debit lines = opt_sum functional_credit lines
    \<and> length lines \<le> length (rq_lines sample_request) + 1"
proof (rule validated_entry_never_unbalanced)
  show "is_valid (validate_entry std_decimal sample_db 1 sample_request)" by code_simp
qed



text \<open>
  C16: tenants are isolated. A posting for one tenant changes no entry, no line, no balance
  snapshot and no number counter of any other tenant, nor any account, period or setting.
\<close>

theorem posting_isolates_tenants:
  assumes "create_and_post_in_tx L C E db e req i by' = Inr (en, db')" and "e' \<noteq> e"
  shows "filter (\<lambda>r. row_entity_id r = e') (journal_lines db') = filter (\<lambda>r. row_entity_id r = e') (journal_lines db)
    \<and> filter (\<lambda>r. je_entity_id r = e') (journal_entries db') = filter (\<lambda>r. je_entity_id r = e') (journal_entries db)
    \<and> snap_debit (account_period_balances db') e' c k = snap_debit (account_period_balances db) e' c k
    \<and> snap_credit (account_period_balances db') e' c k = snap_credit (account_period_balances db) e' c k
    \<and> journal_counter db' e' = journal_counter db e'
    \<and> accounts db' = accounts db \<and> fiscal_periods db' = fiscal_periods db \<and> configs db' = configs db"
  using posting.post_other_tenant [OF assms] posting.post_frame [OF assms(1)] by simp

theorem posting_isolates_tenants_witness:
  "filter (\<lambda>r. row_entity_id r = 2) (journal_lines sample_db2) = []"
  using posting_isolates_tenants [OF sample_posts, of 2]
  by (simp add: sample_db_def)

end
