(* ===== verification/Reversal.thy ===== *)
theory Reversal
  imports Samples
begin

text \<open>
  Reversal of posted entries (\<open>reverse_journal_entry\<close> of \<^verbatim>\<open>services/journal.rs\<close>): it cancels
  the original exactly, and happens once.
\<close>

section \<open>Stored lines and their mirror image\<close>

text \<open>A stored line from which the reversal recomputes the functional amounts exactly: the line
  amount was already in cents when it was posted.\<close>

definition stored_exact :: "decimal_lib \<Rightarrow> journal_line \<Rightarrow> bool" where
  "stored_exact L l \<longleftrightarrow>
     functional_debit l = map_option (\<lambda>d. round_money L (d * jl_fx_rate l)) (jl_debit l)
     \<and> functional_credit l = map_option (\<lambda>c. round_money L (c * jl_fx_rate l)) (jl_credit l)"

definition in_cents :: "decimal_lib \<Rightarrow> journal_line_request \<Rightarrow> bool" where
  "in_cents L l \<longleftrightarrow> (\<forall>d \<in> set_option (rl_debit l). round_money L d = d)
     \<and> (\<forall>c \<in> set_option (rl_credit l). round_money L c = c)"

lemma built_stored_exact: "in_cents L l \<Longrightarrow> stored_exact L (build_line L i l)"
  by (cases "rl_debit l"; cases "rl_credit l")
    (auto simp: in_cents_def stored_exact_def build_line_def Let_def)

lemma reversal_line_amounts:
  assumes "stored_exact L l"
  shows "map_option (\<lambda>d. round_money L (d * unwrap_or (rl_fx_rate (reversal_line l)) 1)) (rl_debit (reversal_line l))
      = functional_credit l"
    and "map_option (\<lambda>d. round_money L (d * unwrap_or (rl_fx_rate (reversal_line l)) 1)) (rl_credit (reversal_line l))
      = functional_debit l"
    and "rl_account (reversal_line l) = jl_account l"
  using assms by (simp_all add: stored_exact_def reversal_line_def)

lemma reversal_totals:
  assumes "\<forall>l \<in> set ls. stored_exact L l"
  shows "request_debits L (map reversal_line ls) = opt_sum functional_credit ls"
    and "request_credits L (map reversal_line ls) = opt_sum functional_debit ls"
    and "request_net L (map reversal_line ls) c = - net_of ls c"
  using assms
  by (induction ls)
    (auto simp: request_debits_def request_credits_def request_net_def reversal_line_amounts
      functional_net_def)

lemma entry_lines_totals:
  "opt_sum functional_debit (entry_lines db i) = sum_where (\<lambda>r. row_entry_id r = i) line_debit (journal_lines db)"
  "opt_sum functional_credit (entry_lines db i) = sum_where (\<lambda>r. row_entry_id r = i) line_credit (journal_lines db)"
proof -
  have "opt_sum f (map row_line (filter P rs)) = sum_where P (\<lambda>r. unwrap_or (f (row_line r)) 0) rs" for f P rs
    by (induction rs) auto
  then show "opt_sum functional_debit (entry_lines db i) = sum_where (\<lambda>r. row_entry_id r = i) line_debit (journal_lines db)"
    "opt_sum functional_credit (entry_lines db i) = sum_where (\<lambda>r. row_entry_id r = i) line_credit (journal_lines db)"
    by (simp_all add: entry_lines_def line_debit_def [abs_def] line_credit_def [abs_def])
qed

lemma find_entry_SomeD:
  "find_entry db e i = Some r \<Longrightarrow> r \<in> set (journal_entries db) \<and> je_id r = i \<and> je_entity_id r = e"
  by (auto simp: find_entry_def find_Some_iff)

lemma find_map_Some:
  "List.find P xs = Some x \<Longrightarrow> (\<And>y. P (f y) = P y) \<Longrightarrow> List.find P (map f xs) = Some (f x)"
  by (induction xs) (auto split: if_splits)

lemma find_append_Some: "List.find P xs = Some x \<Longrightarrow> List.find P (xs @ ys) = Some x"
  by (induction xs) auto

lemma update_entry_status_InrD:
  "update_entry_status db e i st = Inr db' \<Longrightarrow>
    db' = db\<lparr>journal_entries :=
      map (\<lambda>r. if je_id r = i \<and> je_entity_id r = e then r\<lparr>je_status := st\<rparr> else r) (journal_entries db)\<rparr>"
  by (auto simp: update_entry_status_def Let_def split: if_splits)

lemma reverse_InrD:
  assumes "reverse_journal_entry L C E db e i reason d by' = Inr (en, db')"
  obtains orig p db1 where "find_entry db e i = Some orig" "je_status orig = EntryPosted"
    "period_for_date db e (unwrap_or d (today E)) = Inr p"
    "create_and_post_in_tx L C E db e (reversal_request (unwrap_or d (today E)) (je_number orig) reason
        (entry_lines db i)) (fp_id p) by' = Inr (en, db1)"
    "update_entry_status db1 e i EntryReversed = Inr db'"
  using assms unfolding reverse_journal_entry_def
  by (auto simp: Let_def split: if_splits)

lemma reversal_request_simps [simp]:
  "rq_lines (reversal_request d n r ls) = map reversal_line ls"
  "rq_date (reversal_request d n r ls) = d"
  by (simp_all add: reversal_request_def)

lemma status_update_keeps_ledger:
  assumes "ledger_inv db" and "update_entry_status db e i st = Inr db'"
  shows "ledger_inv db'"
proof -
  note db' = update_entry_status_InrD [OF assms(2)]
  show ?thesis
    by (rule ledger_inv_cong [OF _ _ _ _ assms(1)]) (simp_all add: db')
qed

lemma reversal_effect:
  assumes ok: "reverse_journal_entry L C E db e i reason d by' = Inr (en, db')"
    and inv: "ledger_inv db" and exact: "\<forall>l \<in> set (entry_lines db i). stored_exact L l"
  shows "account_net db' e c = account_net db e c - net_of (entry_lines db i) c"
    and "1 < unwrap_or d (today E) \<Longrightarrow> ledger_inv db'"
    and "\<exists>r. find_entry db' e i = Some r \<and> je_status r = EntryReversed"
proof -
  obtain orig p db1 where orig: "find_entry db e i = Some orig" "je_status orig = EntryPosted"
    and p: "period_for_date db e (unwrap_or d (today E)) = Inr p"
    and post: "create_and_post_in_tx L C E db e (reversal_request (unwrap_or d (today E))
        (je_number orig) reason (entry_lines db i)) (fp_id p) by' = Inr (en, db1)"
    and upd: "update_entry_status db1 e i EntryReversed = Inr db'"
    using reverse_InrD [OF ok] by metis
  note db' = update_entry_status_InrD [OF upd]
  have "opt_sum functional_debit (entry_lines db i) = opt_sum functional_credit (entry_lines db i)"
    using ledger_invD(5) [OF inv] find_entry_SomeD [OF orig(1)]
    unfolding entry_lines_totals entries_balanced_def by blast
  then have "account_net db1 e c = account_net db e c + request_net L (map reversal_line (entry_lines db i)) c"
    using posting.post_net_exact [OF post] by (simp add: reversal_totals [OF exact])
  moreover have "account_net db' e c = account_net db1 e c" by (simp add: db' account_net_def)
  ultimately show "account_net db' e c = account_net db e c - net_of (entry_lines db i) c"
    using reversal_totals(3) [OF exact] by simp
  show "ledger_inv db'" if "1 < unwrap_or d (today E)"
    using posting.post_keeps_ledger_for_date [OF post inv] p that
    by (auto intro: status_update_keeps_ledger [OF _ upd])
  have "find_entry db1 e i = Some orig"
    using posting.post_effect [OF post] orig(1) by (auto simp: find_entry_def find_append_Some)
  then show "\<exists>r. find_entry db' e i = Some r \<and> je_status r = EntryReversed"
    using find_entry_SomeD [OF orig(1)]
      find_map_Some [of "\<lambda>r. je_id r = i \<and> je_entity_id r = e" "journal_entries db1" orig
        "\<lambda>r. if je_id r = i \<and> je_entity_id r = e then r\<lparr>je_status := EntryReversed\<rparr> else r"]
    by (simp add: find_entry_def db')
qed

lemma posted_entry_lines:
  assumes post: "create_and_post_in_tx L C E db e req i by' = Inr (en, db')" and inv: "ledger_inv db"
  shows "entry_lines db' (en_id en) = en_lines en"
proof -
  have "uuids E 0 \<noteq> row_entry_id r" if "r \<in> set (journal_lines db)" for r
    using posting.post_fresh [OF post] ledger_invD(4) [OF inv] that
    unfolding lines_linked_def by force
  then have "filter (\<lambda>r. row_entry_id r = uuids E 0) (journal_lines db) = []"
    unfolding filter_empty_conv by fastforce
  moreover obtain n number q where
    "db' = posted_state E db e req q by' number n (en_lines en)"
    using posting.post_effect [OF post] by blast
  ultimately show ?thesis
    using posting.post_entry(1) [OF post] by (simp add: entry_lines_def comp_def filter_map)
qed

text \<open>The residue that the posting books against the rounding account is a difference of sums of
  rounded amounts, so it is in cents itself.\<close>

lemma built_totals_grid:
  assumes "decimal_laws L"
  shows "has_dp 2 (request_debits L ls)" and "has_dp 2 (request_credits L ls)"
proof -
  have "has_dp 2 (unwrap_or (map_option (\<lambda>d. round_money L (d * r)) x) 0)" for x r
    by (cases x) (simp_all add: decimal_laws.round_money_grid [OF assms])
  then show "has_dp 2 (request_debits L ls)" "has_dp 2 (request_credits L ls)"
    by (induction ls) (simp_all add: request_debits_def request_credits_def)
qed

lemma adjustment_stored_exact:
  "round_money L a = a \<Longrightarrow> stored_exact L (adjustment_line i cfg b a)"
  by (cases b) (simp_all add: adjustment_line_def stored_exact_def Let_def)

lemma posted_stored_exact:
  assumes L: "decimal_laws L"
    and post: "create_and_post_in_tx L C E db e req i by' = Inr (en, db')"
    and cents: "\<forall>l \<in> set (rq_lines req). in_cents L l"
  shows "\<forall>l \<in> set (en_lines en). stored_exact L l"
proof -
  obtain n number lines p where
    bal: "balance_lines (configs db e) (uuids E (length (rq_lines req) + 1)) (built_lines L E req) = Inr lines"
    and en: "en = posted_entry E e req i by' number lines"
    using create_and_post_in_tx_InrD [OF post] by blast
  have built: "\<forall>l \<in> set (built_lines L E req). stored_exact L l"
    using cents by (auto simp: built_lines_def in_set_enumerate_eq intro!: built_stored_exact)
  have "\<forall>l \<in> set lines. stored_exact L l"
  proof (cases "lines = built_lines L E req")
    case False
    with balance_lines_cases [OF bal] obtain j cfg b a where
      lines: "lines = built_lines L E req @ [adjustment_line j cfg b a]" by blast
    have "a = request_debits L (rq_lines req) - request_credits L (rq_lines req)
        \<or> a = request_credits L (rq_lines req) - request_debits L (rq_lines req)"
      using balance_lines_balanced [OF bal]
      by (cases b) (simp_all add: lines built_totals adjustment_line_def Let_def algebra_simps)
    then have "has_dp 2 a" using built_totals_grid [OF L, of "rq_lines req"] by auto
    then have "stored_exact L (adjustment_line j cfg b a)"
      by (intro adjustment_stored_exact decimal_laws.round_money_exact [OF L])
    with built show ?thesis by (simp add: lines)
  qed (simp add: built)
  then show ?thesis by (simp add: en posted_entry_def)
qed

section \<open>Properties\<close>

text \<open>
  C13: posting an entry whose line amounts are in cents, at whatever FX rates, and then reversing
  it restores the balance of every account of the tenant to what it was, also when the converted
  totals differ by up to a cent and the posting added a line on the rounding account; the original
  ends in status reversed and the ledger invariant holds. The rounding package is any that keeps
  its documented laws, and the entry date lies in the period it is posted to.
\<close>

theorem reversal_restores_balances:
  assumes L: "decimal_laws L"
    and post: "create_and_post_in_tx L C E db e req i by' = Inr (en, db1)"
    and inv: "ledger_inv db" and per: "find_period db e i = Some p" "contains_date p (rq_date req)"
    and days: "1 < rq_date req" "1 < unwrap_or d (today E')"
    and cents: "\<forall>l \<in> set (rq_lines req). in_cents L l"
    and rev: "reverse_journal_entry L C E' db1 e (en_id en) reason d by'' = Inr (en', db2)"
  shows "(\<forall>c. account_net db2 e c = account_net db e c) \<and> ledger_inv db2
    \<and> (\<exists>r. find_entry db2 e (en_id en) = Some r \<and> je_status r = EntryReversed)"
proof -
  have inv1: "ledger_inv db1" by (rule posting.post_keeps_ledger [OF post inv per days(1)])
  note lines = posted_entry_lines [OF post inv]
  have exact: "\<forall>l \<in> set (entry_lines db1 (en_id en)). stored_exact L l"
    using posted_stored_exact [OF L post cents] by (simp add: lines)
  from reversal_effect [OF rev inv1 exact] show ?thesis
    using posting.post_net [OF post] days(2) by (simp add: lines)
qed

text \<open>An entry in another currency whose converted totals differ by a cent, so that the posting
  writes a third line: twice 0.60 at rate 1.01 (0.61 each) against 1.20 (1.21).\<close>

definition odd_request :: journal_entry_request where
  "odd_request = sample_request\<lparr>rq_reference := ''R2'', rq_lines :=
     [dr_line ''USD'' (Some (101 / 100)) None ''1000'' (60 / 100),
      dr_line ''USD'' (Some (101 / 100)) None ''1000'' (60 / 100),
      cr_line ''USD'' (Some (101 / 100)) None ''4000'' (120 / 100)]\<rparr>"

theorem reversal_restores_balances_witness:
  "\<exists>(db1 :: ledger_db) (db2 :: ledger_db). length (journal_lines db1) = 4 \<and> length (journal_lines db2) = 8
    \<and> (\<forall>c. account_net db2 1 c = 0)"
proof -
  let ?p = "create_and_post_in_tx std_decimal gregorian sample_env sample_db 1 odd_request 1 (User 9)"
  have "case ?p of Inl x \<Rightarrow> False | Inr (en, db1) \<Rightarrow> length (journal_lines db1) = 4
    \<and> (case reverse_journal_entry std_decimal gregorian sample_env2 db1 1 (en_id en) None None (User 9) of
         Inl x \<Rightarrow> False | Inr (en', db2) \<Rightarrow> length (journal_lines db2) = 8)" by code_simp
  then obtain en db1 where p: "?p = Inr (en, db1)" and len: "length (journal_lines db1) = 4"
    and "case reverse_journal_entry std_decimal gregorian sample_env2 db1 1 (en_id en) None None (User 9) of
         Inl x \<Rightarrow> False | Inr (en', db2) \<Rightarrow> length (journal_lines db2) = 8"
    by (cases ?p) auto
  then obtain en' db2 where
    r: "reverse_journal_entry std_decimal gregorian sample_env2 db1 1 (en_id en) None None (User 9)
      = Inr (en', db2)" and len2: "length (journal_lines db2) = 8"
    by (cases "reverse_journal_entry std_decimal gregorian sample_env2 db1 1 (en_id en) None None (User 9)")
      auto
  have cents: "\<forall>l \<in> set (rq_lines odd_request). in_cents std_decimal l" by code_simp
  have days: "1 < rq_date odd_request" "1 < unwrap_or None (today sample_env2)"
    by (simp_all add: sample_env2_def odd_request_def sample_day)
  have con: "contains_date (sample_period 1 739252 739282 ''open'') (rq_date odd_request)"
    using sample_finds(2,3) by (simp add: odd_request_def)
  have "account_net db2 1 c = account_net sample_db 1 c" for c
    using reversal_restores_balances [OF std.decimal_laws_axioms p sample_ledger_inv sample_finds(1)
        con days cents r] by blast
  then have "account_net db2 1 c = 0" for c by (simp add: account_net_def sample_db_def)
  with len len2 show ?thesis
    by (intro exI [of _ db1] exI [of _ db2] conjI allI)
qed

text \<open>
  C14: an entry is reversed at most once: after a reversal every further attempt on the same
  entry, with whatever date and reason, is refused and changes nothing.
\<close>

theorem reversal_happens_once:
  assumes "reverse_journal_entry L C E db e i reason d by' = Inr (en, db')"
  shows "reverse_journal_entry L C E' db' e i reason' d' by''
    = Inl (ValidationFailed ''Only posted journal entries can be reversed'')"
proof -
  obtain orig db1 and p :: fiscal_period where orig: "find_entry db e i = Some orig"
    and post: "create_and_post_in_tx L C E db e (reversal_request (unwrap_or d (today E))
        (je_number orig) reason (entry_lines db i)) (fp_id p) by' = Inr (en, db1)"
    and upd: "update_entry_status db1 e i EntryReversed = Inr db'"
    by (rule reverse_InrD [OF assms])
  have "find_entry db1 e i = Some orig"
    using posting.post_effect [OF post] orig by (auto simp: find_entry_def find_append_Some)
  then have "find_entry db' e i = Some (orig\<lparr>je_status := EntryReversed\<rparr>)"
    using find_entry_SomeD [OF orig]
      find_map_Some [of "\<lambda>r. je_id r = i \<and> je_entity_id r = e" "journal_entries db1" orig
        "\<lambda>r. if je_id r = i \<and> je_entity_id r = e then r\<lparr>je_status := EntryReversed\<rparr> else r"]
    by (simp add: find_entry_def update_entry_status_InrD [OF upd])
  then show ?thesis by (simp add: reverse_journal_entry_def)
qed

theorem reversal_happens_once_witness:
  "\<exists>db2 :: ledger_db. reverse_journal_entry std_decimal gregorian sample_env2 db2 1 (en_id sample_entry)
    None None (User 9) = Inl (ValidationFailed ''Only posted journal entries can be reversed'')"
proof -
  let ?r = "reverse_journal_entry std_decimal gregorian sample_env2 sample_db2 1 (en_id sample_entry)
    None None (User 9)"
  have "\<not> isl ?r" by code_simp
  then obtain en' db2 where r: "?r = Inr (en', db2)" by (cases ?r) auto
  from reversal_happens_once [OF r] show ?thesis by blast
qed

end
