(* ===== verification/Periods.thy ===== *)
theory Periods
  imports Posting
begin

text \<open>
  The operations on fiscal periods of \<^verbatim>\<open>zavora-erp-core/src/services/periods.rs\<close>: generation of a
  year, the pre-close checklist, soft and hard close, reopening. Month numbers are \<^verbatim>\<open>u32\<close> and
  wrap. \<open>generate_periods\<close> runs outside a transaction, so an error in a later month leaves the
  earlier months inserted: it returns the database next to its result.
\<close>

section \<open>Requests\<close>

record generate_periods_request =
  gp_fiscal_year :: int
  year_start_month :: "32 word"

datatype period_close_type = Soft | Hard

record close_period_request =
  cp_period_id :: uuid
  close_type :: period_close_type
  cp_closed_by :: agent_or_user_id
  force :: bool

record reopen_period_request =
  ro_period_id :: uuid
  reopened_by :: agent_or_user_id
  ro_reason :: string

section \<open>Generating a year\<close>

definition period_month :: "32 word \<Rightarrow> 32 word \<Rightarrow> 32 word" where
  "period_month start month_offset = (start - 1 + month_offset) mod 12 + 1"

definition period_year :: "int \<Rightarrow> 32 word \<Rightarrow> 32 word \<Rightarrow> int" where
  "period_year fy start month_offset =
     (if period_month start month_offset < start then fy + 1 else fy)"

text \<open>An \<open>unwrap()\<close> of \<open>None\<close> panics; the panic is an error value here.\<close>

definition period_dates ::
    "calendar \<Rightarrow> int \<Rightarrow> 32 word \<Rightarrow> 32 word \<Rightarrow> (naive_date \<times> naive_date) erp_result" where
  "period_dates C fy start month_offset =
     (let m = unat (period_month start month_offset); y = period_year fy start month_offset in
      and_then (ok_or (from_ymd_opt C y m 1) (ValidationFailed ''Invalid date'')) (\<lambda>s.
      and_then (ok_or (if m = 12 then from_ymd_opt C y 12 31
                       else map_option (\<lambda>d. d - 1) (from_ymd_opt C y (m + 1) 1))
                 (Internal ''panic: unwrap on None'')) (\<lambda>t. Inr (s, t))))"

definition month_names :: "string list" where
  "month_names = [''January'', ''February'', ''March'', ''April'', ''May'', ''June'', ''July'',
     ''August'', ''September'', ''October'', ''November'', ''December'']"

text \<open>chrono's \<open>%B %Y\<close>.\<close>

definition period_name :: "int \<Rightarrow> nat \<Rightarrow> string" where
  "period_name y m = month_names ! (m - 1) @ '' '' @ pad_zero 4 (show_int y)"

definition new_period ::
    "environment \<Rightarrow> uuid \<Rightarrow> uuid \<Rightarrow> int \<Rightarrow> 32 word \<Rightarrow> 32 word \<Rightarrow> naive_date \<times> naive_date \<Rightarrow> fiscal_period" where
  "new_period E i entity_id fy start month_offset dates =
     \<lparr>fp_id = i, fp_entity_id = entity_id,
      fp_name = period_name (period_year fy start month_offset) (unat (period_month start month_offset)),
      start_date = fst dates, end_date = snd dates,
      fp_status = (if today E < fst dates then ''future'' else ''open''),
      fiscal_year = fy, period_number = uint month_offset + 1,
      closed_by = None, closed_at = None, fp_created_at = now E\<rparr>"

text \<open>\<open>INSERT .. ON CONFLICT (entity_id, start_date) DO NOTHING\<close>, with the primary key.\<close>

definition insert_period :: "fiscal_period \<Rightarrow> fiscal_period list \<Rightarrow> fiscal_period list erp_result" where
  "insert_period p ps =
     (if \<exists>q \<in> set ps. fp_entity_id q = fp_entity_id p \<and> start_date q = start_date p then Inr ps
      else if \<exists>q \<in> set ps. fp_id q = fp_id p
      then Inl (Database ''duplicate key value violates unique constraint'')
      else Inr (ps @ [p]))"

fun generate_loop ::
    "calendar \<Rightarrow> environment \<Rightarrow> uuid \<Rightarrow> int \<Rightarrow> 32 word \<Rightarrow> nat list \<Rightarrow> fiscal_period list
      \<Rightarrow> fiscal_period list \<Rightarrow> fiscal_period list \<times> fiscal_period list erp_result" where
  "generate_loop C E entity_id fy start [] ps acc = (ps, Inr acc)"
| "generate_loop C E entity_id fy start (k # ks) ps acc =
     (case period_dates C fy start (of_nat k) of
        Inl e \<Rightarrow> (ps, Inl e)
      | Inr dates \<Rightarrow>
          (let p = new_period E (uuids E k) entity_id fy start (of_nat k) dates in
           case insert_period p ps of
             Inl e \<Rightarrow> (ps, Inl e)
           | Inr ps' \<Rightarrow> generate_loop C E entity_id fy start ks ps' (acc @ [p])))"

definition generate_periods ::
    "calendar \<Rightarrow> environment \<Rightarrow> 'a period_db_scheme \<Rightarrow> uuid \<Rightarrow> generate_periods_request
      \<Rightarrow> 'a period_db_scheme \<times> fiscal_period list erp_result" where
  "generate_periods C E db entity_id req =
     (let (ps, r) = generate_loop C E entity_id (gp_fiscal_year req) (year_start_month req) [0..<12]
            (fiscal_periods db) []
      in (db\<lparr>fiscal_periods := ps\<rparr>, r))"

section \<open>Closing and reopening\<close>

text \<open>
  What the checklist reads of the document tables: tenant, date and status of every invoice and
  bill, and of every asset the tenant, status, acquisition date and depreciation mark.
\<close>

record close_documents =
  inv_dates :: "(uuid \<times> naive_date \<times> string) list"
  bill_dates :: "(uuid \<times> naive_date \<times> string) list"
  asset_marks :: "(uuid \<times> string \<times> naive_date \<times> naive_date option) list"

definition pre_close_checklist ::
    "'a ledger_db_scheme \<Rightarrow> close_documents \<Rightarrow> uuid \<Rightarrow> fiscal_period \<Rightarrow> string list" where
  "pre_close_checklist db docs entity_id p =
     (let draft_invoices = length (filter (\<lambda>(e, d, s). e = entity_id \<and> contains_date p d \<and> s = ''draft'')
            (inv_dates docs));
          unposted_bills = length (filter (\<lambda>(e, d, s). e = entity_id \<and> contains_date p d
              \<and> s \<in> {''draft'', ''pending_approval'', ''approved''}) (bill_dates docs));
          draft_journals = length (filter (\<lambda>j. je_entity_id j = entity_id \<and> contains_date p (je_date j)
              \<and> je_status j = EntryDraft) (journal_entries db));
          behind_assets = length (filter (\<lambda>(e, s, acq, through). e = entity_id \<and> s = ''active''
              \<and> acq \<le> end_date p
              \<and> (case through of None \<Rightarrow> True | Some t \<Rightarrow> t < end_date p)) (asset_marks docs))
      in (if draft_invoices > 0 then [show_nat draft_invoices @ '' draft invoice(s) dated in the period (post or re-date them)''] else [])
       @ (if unposted_bills > 0 then [show_nat unposted_bills @ '' unposted bill(s) dated in the period (post, cancel or re-date them)''] else [])
       @ (if draft_journals > 0 then [show_nat draft_journals @ '' draft journal entry(ies) dated in the period''] else [])
       @ (if behind_assets > 0 then [''depreciation not run through the period end for '' @ show_nat behind_assets @ '' active asset(s)''] else []))"

text \<open>The match over current state and requested close.\<close>

fun close_allowed :: "string \<Rightarrow> period_status \<Rightarrow> period_close_type \<Rightarrow> unit erp_result" where
  "close_allowed name Open Soft = Inr ()"
| "close_allowed name Future Soft = Inr ()"
| "close_allowed name SoftClosed Hard = Inr ()"
| "close_allowed name Open Hard = Inl (ValidationFailed (''Period '' @ name @ '' is not soft-closed; you must soft-close it before hard-closing''))"
| "close_allowed name Future Hard = Inl (ValidationFailed (''Period '' @ name @ '' is not soft-closed; you must soft-close it before hard-closing''))"
| "close_allowed name SoftClosed Soft = Inl (ValidationFailed ''Period is already soft-closed'')"
| "close_allowed name HardClosed t = Inl (ValidationFailed ''Period is already hard-closed and cannot be modified'')"

fun close_status :: "period_close_type \<Rightarrow> string" where
  "close_status Soft = ''soft_closed''"
| "close_status Hard = ''hard_closed''"

definition set_period ::
    "'a period_db_scheme \<Rightarrow> uuid \<Rightarrow> (fiscal_period \<Rightarrow> fiscal_period) \<Rightarrow> 'a period_db_scheme" where
  "set_period db i f =
     db\<lparr>fiscal_periods := map (\<lambda>p. if fp_id p = i then f p else p) (fiscal_periods db)\<rparr>"

text \<open>The warning to accountants after a soft close and the audit event are not modelled.\<close>

definition close_period ::
    "environment \<Rightarrow> 'a ledger_db_scheme \<Rightarrow> close_documents \<Rightarrow> uuid \<Rightarrow> close_period_request
      \<Rightarrow> (fiscal_period \<times> 'a ledger_db_scheme) erp_result" where
  "close_period E db docs entity_id req =
     and_then (get_period db entity_id (cp_period_id req)) (\<lambda>p.
     and_then (close_allowed (fp_name p) (parsed_status p) (close_type req)) (\<lambda>_.
       let blockers = (if close_type req = Hard \<and> \<not> force req
             then pre_close_checklist db docs entity_id p else []);
           upd = (\<lambda>q. q\<lparr>fp_status := close_status (close_type req),
             closed_by := Some (cp_closed_by req), closed_at := Some (now E)\<rparr>) in
       if blockers \<noteq> []
       then Inl (ValidationFailed (''Pre-close checklist failed for '' @ fp_name p @ '': ''
         @ join_with ''; '' blockers @ ''. Resolve these or pass force=true to close anyway.''))
       else Inr (upd p, set_period db (cp_period_id req) upd)))"

text \<open>\<open>str::trim\<close> is empty exactly when every character is white space.\<close>

definition reopen_period ::
    "'a ledger_db_scheme \<Rightarrow> uuid \<Rightarrow> reopen_period_request
      \<Rightarrow> (fiscal_period \<times> 'a ledger_db_scheme) erp_result" where
  "reopen_period db entity_id req =
     and_then (get_period db entity_id (ro_period_id req)) (\<lambda>p.
       let upd = (\<lambda>q. q\<lparr>fp_status := ''open'', closed_by := None, closed_at := None\<rparr>) in
       if parsed_status p \<noteq> SoftClosed
       then Inl (ValidationFailed ''Only soft-closed periods can be reopened'')
       else if list_all is_space (ro_reason req)
       then Inl (ValidationFailed ''A reason is required to reopen a period'')
       else Inr (upd p, set_period db (ro_period_id req) upd))"

end
