(* ===== verification/Periods_Correct.thy ===== *)
theory Periods_Correct
  imports Periods
begin

text \<open>
  Correctness of the period operations: the months of a generated year are consecutive and
  cover it, the table stays a set of disjoint months whatever is generated before or after, and
  the life cycle of a period (future or open, soft closed, hard closed).
\<close>

section \<open>Month arithmetic on 32-bit words\<close>

lemma period_month_table:
  "\<forall>n \<in> set [1..<13]. \<forall>k \<in> set [0..<12].
    unat (period_month (of_nat n) (of_nat k)) = (n - 1 + k) mod 12 + 1"
  by code_simp

lemma unat_period_month:
  assumes "1 \<le> unat start" "unat start \<le> 12" "k < 12"
  shows "unat (period_month start (of_nat k)) = (unat start - 1 + k) mod 12 + 1"
proof -
  have "unat start \<in> set [1..<13]" "k \<in> set [0..<12]" using assms by auto
  from period_month_table [THEN bspec, OF this(1), THEN bspec, OF this(2)] show ?thesis
    by simp
qed

lemma period_slot:
  assumes "1 \<le> unat start" "unat start \<le> 12" "k < 12"
  shows "1 \<le> unat (period_month start (of_nat k))" "unat (period_month start (of_nat k)) \<le> 12"
    and "month_index (period_year fy start (of_nat k)) (unat (period_month start (of_nat k)))
      = 12 * fy + int (unat start) + int k"
    and "fy \<le> period_year fy start (of_nat k)" "period_year fy start (of_nat k) \<le> fy + 1"
proof -
  note m = unat_period_month [OF assms]
  show "1 \<le> unat (period_month start (of_nat k))" "unat (period_month start (of_nat k)) \<le> 12"
    by (simp_all add: m Suc_leI)
  show "fy \<le> period_year fy start (of_nat k)" "period_year fy start (of_nat k) \<le> fy + 1"
    by (simp_all add: period_year_def)
  have less: "period_month start (of_nat k) < start \<longleftrightarrow> 12 \<le> unat start - 1 + k"
  proof -
    have "(unat start - 1 + k) mod 12 + 1 < unat start \<longleftrightarrow> 12 \<le> unat start - 1 + k"
      using assms by (cases "unat start - 1 + k < 12") (auto simp: mod_if)
    then show ?thesis by (simp add: word_less_nat_alt m)
  qed
  show "month_index (period_year fy start (of_nat k)) (unat (period_month start (of_nat k)))
      = 12 * fy + int (unat start) + int k"
  proof (cases "12 \<le> unat start - 1 + k")
    case True
    then have "(unat start - 1 + k) mod 12 = unat start - 1 + k - 12"
      using assms by (simp add: mod_if)
    with True assms less m show ?thesis by (simp add: month_index_def period_year_def of_nat_diff)
  next
    case False
    with assms less m show ?thesis by (simp add: month_index_def period_year_def of_nat_diff)
  qed
qed

section \<open>Calendar months as spans of days\<close>

definition month_span :: "calendar \<Rightarrow> int \<Rightarrow> nat \<Rightarrow> (naive_date \<times> naive_date) option" where
  "month_span C y m = (case (from_ymd_opt C y m 1, if m = 12 then from_ymd_opt C y 12 31
      else map_option (\<lambda>d. d - 1) (from_ymd_opt C y (m + 1) 1)) of
     (Some s, Some t) \<Rightarrow> Some (s, t) | _ \<Rightarrow> None)"

lemma period_dates_span:
  "period_dates C fy start k = Inr d \<longleftrightarrow>
    month_span C (period_year fy start k) (unat (period_month start k)) = Some d"
  by (cases d) (auto simp: period_dates_def month_span_def Let_def split: option.splits)

context calendar_laws
begin

lemma span_SomeD:
  assumes "month_span C y m = Some (s, t)"
  shows "from_ymd_opt C y m 1 = Some s"
    and "if m = 12 then from_ymd_opt C y 12 31 = Some t else from_ymd_opt C y (m + 1) 1 = Some (t + 1)"
  using assms by (auto simp: month_span_def split: option.splits if_splits)

lemma span_defined:
  assumes "\<bar>y\<bar> < 262000" "1 \<le> m" "m \<le> 12"
  shows "\<exists>d. month_span C y m = Some d"
proof -
  obtain s where s: "from_ymd_opt C y m 1 = Some s" using first_defined [OF assms] by blast
  show ?thesis
  proof (cases "m = 12")
    case True
    with s year_end_defined [OF assms(1)] show ?thesis by (auto simp: month_span_def)
  next
    case False
    with assms have "from_ymd_opt C y (m + 1) 1 \<noteq> None" by (intro first_defined) auto
    with False s show ?thesis by (auto simp: month_span_def)
  qed
qed

lemma span_order:
  assumes "month_span C y m = Some (s, t)" shows "s \<le> t"
proof (cases "m = 12")
  case True
  with span_SomeD [OF assms] show ?thesis using year_end_after [of y t s] by simp
next
  case False
  with span_SomeD [OF assms] show ?thesis
    using first_order [of y m s y "m + 1" "t + 1"] by (simp add: month_index_def)
qed

lemma span_before:
  assumes a: "month_span C y m = Some (s, t)" and b: "month_span C y' m' = Some (s', t')"
    and less: "month_index y m < month_index y' m'"
  shows "t < s'"
proof -
  note A = span_SomeD [OF a] and B = span_SomeD [OF b]
  from month_valid [OF A(1)] month_valid [OF B(1)] have m: "1 \<le> m" "m \<le> 12" "1 \<le> m'" "m' \<le> 12" by auto
  show ?thesis
  proof (cases "m = 12")
    case True
    with less m have "y < y'" by (simp add: month_index_def)
    with True A(2) B(1) year_end_order [of y t y' m' s'] show ?thesis by simp
  next
    case False
    with less have "month_index y (m + 1) \<le> month_index y' m'" by (simp add: month_index_def)
    with False A(2) B(1) first_order_le [of y "m + 1" "t + 1" y' m' s'] show ?thesis by simp
  qed
qed

lemma span_next:
  assumes a: "month_span C y m = Some (s, t)" and b: "month_span C y' m' = Some (s', t')"
    and succ: "month_index y' m' = month_index y m + 1"
  shows "s' = t + 1"
proof -
  note A = span_SomeD [OF a] and B = span_SomeD [OF b]
  from month_valid [OF A(1)] month_valid [OF B(1)] have m: "1 \<le> m" "m \<le> 12" "1 \<le> m'" "m' \<le> 12" by auto
  show ?thesis
  proof (cases "m = 12")
    case True
    with succ m have "y' = y + 1" "m' = 1" by (auto simp: month_index_def; presburger)+
    with True A(2) B(1) year_end_next [of y t s'] show ?thesis by simp
  next
    case False
    with succ m have "y' = y" "m' = m + 1" by (auto simp: month_index_def; presburger)+
    with False A(2) B(1) show ?thesis by simp
  qed
qed

lemma span_start_unique:
  assumes a: "month_span C y m = Some (s, t)" and b: "month_span C y' m' = Some (s, t')"
  shows "t = t'"
proof -
  note A = span_SomeD [OF a] and B = span_SomeD [OF b]
  have "month_index y m = month_index y' m'"
    using first_order [OF A(1) B(1)] first_order [OF B(1) A(1)] by linarith
  moreover from month_valid [OF A(1)] month_valid [OF B(1)]
  have "1 \<le> m" "m \<le> 12" "1 \<le> m'" "m' \<le> 12" by auto
  ultimately have "y = y'" "m = m'" by (auto simp: month_index_def; presburger)+
  with a b show ?thesis by simp
qed

end

section \<open>The table is a set of months\<close>

definition is_month :: "calendar \<Rightarrow> fiscal_period \<Rightarrow> bool" where
  "is_month C p \<longleftrightarrow> (\<exists>y m. month_span C y m = Some (start_date p, end_date p))"

definition months_ok :: "calendar \<Rightarrow> fiscal_period list \<Rightarrow> bool" where
  "months_ok C ps \<longleftrightarrow> distinct (map fp_id ps) \<and> (\<forall>p \<in> set ps. is_month C p)
     \<and> (\<forall>p \<in> set ps. \<forall>q \<in> set ps. fp_entity_id p = fp_entity_id q \<longrightarrow> start_date p = start_date q \<longrightarrow> p = q)"

lemma months_okD:
  assumes "months_ok C ps"
  shows "p \<in> set ps \<Longrightarrow> is_month C p"
    and "p \<in> set ps \<Longrightarrow> q \<in> set ps \<Longrightarrow> fp_entity_id p = fp_entity_id q \<Longrightarrow> start_date p = start_date q \<Longrightarrow> p = q"
  using assms by (auto simp: months_ok_def)

lemma insert_period_InrD:
  assumes "insert_period p ps = Inr ps'" and "months_ok C ps" and "is_month C p"
  shows "months_ok C ps'" and "set ps \<subseteq> set ps'"
    and "\<exists>q \<in> set ps'. fp_entity_id q = fp_entity_id p \<and> start_date q = start_date p"
    and "fp_id ` set ps' \<subseteq> insert (fp_id p) (fp_id ` set ps)"
proof -
  have "months_ok C ps' \<and> set ps \<subseteq> set ps'
    \<and> (\<exists>q \<in> set ps'. fp_entity_id q = fp_entity_id p \<and> start_date q = start_date p)
    \<and> fp_id ` set ps' \<subseteq> insert (fp_id p) (fp_id ` set ps)"
  proof (cases "\<exists>q \<in> set ps. fp_entity_id q = fp_entity_id p \<and> start_date q = start_date p")
    case True
    with assms(1) have "ps' = ps" by (simp add: insert_period_def)
    with True assms(2) show ?thesis by blast
  next
    case False
    then have new: "fp_id p \<notin> fp_id ` set ps" and ps': "ps' = ps @ [p]"
      using assms(1) by (auto simp: insert_period_def split: if_splits)
    have "months_ok C ps'"
      unfolding months_ok_def
    proof (intro conjI)
      show "distinct (map fp_id ps')" using assms(2) new by (simp add: ps' months_ok_def)
      show "\<forall>p \<in> set ps'. is_month C p" using assms(2,3) by (simp add: ps' months_ok_def)
      show "\<forall>a \<in> set ps'. \<forall>b \<in> set ps'. fp_entity_id a = fp_entity_id b \<longrightarrow>
          start_date a = start_date b \<longrightarrow> a = b"
        using False months_okD(2) [OF assms(2)] unfolding ps' by fastforce
    qed
    then show ?thesis by (auto simp: ps')
  qed
  then show "months_ok C ps'" "set ps \<subseteq> set ps'"
    "\<exists>q \<in> set ps'. fp_entity_id q = fp_entity_id p \<and> start_date q = start_date p"
    "fp_id ` set ps' \<subseteq> insert (fp_id p) (fp_id ` set ps)" by blast+
qed

lemma insert_period_defined:
  assumes "fp_id p \<notin> fp_id ` set ps"
  shows "\<exists>ps'. insert_period p ps = Inr ps'"
proof -
  have "\<not> (\<exists>q \<in> set ps. fp_id q = fp_id p)" using assms by (metis imageI)
  then show ?thesis by (simp add: insert_period_def)
qed

context calendar_laws
begin

lemma months_periods_ok:
  assumes "months_ok C ps" shows "periods_ok ps"
proof -
  have "periods_apart p q" if "p \<in> set ps" "q \<in> set ps" "p \<noteq> q" for p q
  proof (cases "fp_entity_id p = fp_entity_id q")
    case False
    then show ?thesis by (simp add: periods_apart_def)
  next
    case True
    from months_okD(1) [OF assms that(1)] months_okD(1) [OF assms that(2)]
    obtain y m y' m' where sp: "month_span C y m = Some (start_date p, end_date p)"
      "month_span C y' m' = Some (start_date q, end_date q)" by (auto simp: is_month_def)
    have "start_date p \<noteq> start_date q" using months_okD(2) [OF assms that(1,2) True] that(3) by blast
    then have "month_index y m \<noteq> month_index y' m'"
      using first_order_le [OF span_SomeD(1) [OF sp(1)] span_SomeD(1) [OF sp(2)]]
        first_order_le [OF span_SomeD(1) [OF sp(2)] span_SomeD(1) [OF sp(1)]] by auto
    then consider "month_index y m < month_index y' m'" | "month_index y' m' < month_index y m"
      by linarith
    then show ?thesis
      using span_before [OF sp] span_before [OF sp(2) sp(1)] by cases (simp_all add: periods_apart_def)
  qed
  moreover have "start_date p \<le> end_date p" if "p \<in> set ps" for p
    using months_okD(1) [OF assms that] span_order by (auto simp: is_month_def)
  ultimately show ?thesis using assms by (simp add: periods_ok_def months_ok_def)
qed

end

lemma new_period_simps [simp]:
  "fp_id (new_period E i e fy s k d) = i" "fp_entity_id (new_period E i e fy s k d) = e"
  "start_date (new_period E i e fy s k d) = fst d" "end_date (new_period E i e fy s k d) = snd d"
  "fiscal_year (new_period E i e fy s k d) = fy"
  "period_number (new_period E i e fy s k d) = uint k + 1"
  by (simp_all add: new_period_def)

lemma generate_loop_ok:
  assumes "\<forall>k \<in> set ks. period_dates C fy start (of_nat k) = Inr (d k)"
    and "months_ok C ps" and "distinct ks" and "inj_on (uuids E) (set ks)"
    and "\<forall>k \<in> set ks. uuids E k \<notin> fp_id ` set ps"
  shows "\<exists>ps'. generate_loop C E e fy start ks ps acc
      = (ps', Inr (acc @ map (\<lambda>k. new_period E (uuids E k) e fy start (of_nat k) (d k)) ks))
    \<and> months_ok C ps' \<and> set ps \<subseteq> set ps'
    \<and> (\<forall>k \<in> set ks. \<exists>q \<in> set ps'. fp_entity_id q = e \<and> start_date q = fst (d k))"
  using assms
proof (induction ks arbitrary: ps acc)
  case Nil
  then show ?case by simp
next
  case (Cons k ks)
  let ?p = "new_period E (uuids E k) e fy start (of_nat k) (d k)"
  from Cons.prems(1) have d: "period_dates C fy start (of_nat k) = Inr (d k)" by simp
  then have month: "is_month C ?p" by (auto simp: is_month_def period_dates_span)
  from Cons.prems(5) have "fp_id ?p \<notin> fp_id ` set ps" by simp
  then obtain ps1 where ps1: "insert_period ?p ps = Inr ps1"
    using insert_period_defined by blast
  note ins = insert_period_InrD [OF ps1 Cons.prems(2) month]
  have "\<forall>j \<in> set ks. uuids E j \<notin> fp_id ` set ps1"
  proof
    fix j assume j: "j \<in> set ks"
    with Cons.prems(3) have "j \<noteq> k" by auto
    with inj_onD [OF Cons.prems(4), of j k] j have "uuids E j \<noteq> uuids E k" by auto
    moreover have "uuids E j \<notin> fp_id ` set ps" using Cons.prems(5) j by simp
    ultimately show "uuids E j \<notin> fp_id ` set ps1" using ins(4) unfolding new_period_simps by blast
  qed
  moreover have "\<forall>k \<in> set ks. period_dates C fy start (of_nat k) = Inr (d k)" "distinct ks"
    "inj_on (uuids E) (set ks)"
    using Cons.prems(1,3,4) by simp_all
  ultimately obtain ps' where
    "generate_loop C E e fy start ks ps1 (acc @ [?p])
      = (ps', Inr ((acc @ [?p]) @ map (\<lambda>k. new_period E (uuids E k) e fy start (of_nat k) (d k)) ks))"
    and rest: "months_ok C ps'" "set ps1 \<subseteq> set ps'"
      "\<forall>k \<in> set ks. \<exists>q \<in> set ps'. fp_entity_id q = e \<and> start_date q = fst (d k)"
    using Cons.IH [of ps1 "acc @ [?p]"] ins(1) by blast
  then have "generate_loop C E e fy start (k # ks) ps acc
      = (ps', Inr (acc @ map (\<lambda>k. new_period E (uuids E k) e fy start (of_nat k) (d k)) (k # ks)))"
    using d ps1 by (simp add: Let_def)
  moreover have "\<exists>q \<in> set ps'. fp_entity_id q = e \<and> start_date q = fst (d k)"
    using ins(3) rest(2) by auto
  ultimately show ?case using rest ins(2) by auto
qed

section \<open>A generated year\<close>

definition year_dates :: "calendar \<Rightarrow> int \<Rightarrow> 32 word \<Rightarrow> nat \<Rightarrow> naive_date \<times> naive_date" where
  "year_dates C fy start k = the (month_span C (period_year fy start (of_nat k))
     (unat (period_month start (of_nat k))))"

definition fresh_ids :: "environment \<Rightarrow> fiscal_period list \<Rightarrow> bool" where
  "fresh_ids E ps \<longleftrightarrow> inj_on (uuids E) {..<12} \<and> (\<forall>k < 12. uuids E k \<notin> fp_id ` set ps)"

context calendar_laws
begin

lemma year_dates_span:
  assumes "1 \<le> unat start" "unat start \<le> 12" "\<bar>fy\<bar> < 261999" "k < 12"
  shows "month_span C (period_year fy start (of_nat k)) (unat (period_month start (of_nat k)))
    = Some (year_dates C fy start k)"
proof -
  note slot = period_slot [OF assms(1,2,4)]
  have "\<bar>period_year fy start (of_nat k)\<bar> < 262000" using slot(4,5) [of fy] assms(3) by linarith
  from span_defined [OF this slot(1,2)] show ?thesis by (auto simp: year_dates_def)
qed

lemma year_dates_order:
  assumes "1 \<le> unat start" "unat start \<le> 12" "\<bar>fy\<bar> < 261999" "k < 12"
  shows "fst (year_dates C fy start k) \<le> snd (year_dates C fy start k)"
  using span_order year_dates_span [OF assms] by (metis prod.collapse)

lemma year_dates_next:
  assumes "1 \<le> unat start" "unat start \<le> 12" "\<bar>fy\<bar> < 261999" "Suc k < 12"
  shows "fst (year_dates C fy start (Suc k)) = snd (year_dates C fy start k) + 1"
proof -
  have k: "k < 12" using assms(4) by simp
  obtain s t where st: "year_dates C fy start k = (s, t)" by fastforce
  obtain s' t' where st': "year_dates C fy start (Suc k) = (s', t')" by fastforce
  note a = year_dates_span [OF assms(1-3) k, unfolded st]
  note b = year_dates_span [OF assms, unfolded st']
  have "s' = t + 1"
    by (rule span_next [OF a b])
      (use period_slot(3) [OF assms(1,2) k] period_slot(3) [OF assms(1,2,4)] in simp)
  then show ?thesis by (simp add: st st')
qed

lemma year_days_covered:
  assumes "1 \<le> unat start" "unat start \<le> 12" "\<bar>fy\<bar> < 261999" "n < 12"
    and "fst (year_dates C fy start 0) \<le> d" "d \<le> snd (year_dates C fy start n)"
  shows "\<exists>k \<le> n. fst (year_dates C fy start k) \<le> d \<and> d \<le> snd (year_dates C fy start k)"
  using assms(4,6)
proof (induction n)
  case 0
  with assms(5) show ?case by auto
next
  case (Suc n)
  show ?case
  proof (cases "d \<le> snd (year_dates C fy start n)")
    case True
    with Suc show ?thesis by (meson Suc_lessD le_SucI)
  next
    case False
    then have "fst (year_dates C fy start (Suc n)) \<le> d"
      using year_dates_next [OF assms(1-3) Suc.prems(1)] by simp
    with Suc.prems(2) show ?thesis by auto
  qed
qed

lemma generate_periods_result:
  assumes start: "1 \<le> unat (year_start_month req)" "unat (year_start_month req) \<le> 12"
    and fy: "\<bar>gp_fiscal_year req\<bar> < 261999"
    and ok: "months_ok C (fiscal_periods db)" and fresh: "fresh_ids E (fiscal_periods db)"
  shows "\<exists>ps. generate_periods C E db e req = (db\<lparr>fiscal_periods := ps\<rparr>,
      Inr (map (\<lambda>k. new_period E (uuids E k) e (gp_fiscal_year req) (year_start_month req) (of_nat k)
        (year_dates C (gp_fiscal_year req) (year_start_month req) k)) [0..<12]))
    \<and> months_ok C ps \<and> set (fiscal_periods db) \<subseteq> set ps
    \<and> (\<forall>k < 12. \<exists>q \<in> set ps. fp_entity_id q = e
        \<and> start_date q = fst (year_dates C (gp_fiscal_year req) (year_start_month req) k))"
proof -
  have ids: "inj_on (uuids E) (set [0..<12])" "\<forall>k \<in> set [0..<12]. uuids E k \<notin> fp_id ` set (fiscal_periods db)"
    using fresh by (auto simp: fresh_ids_def lessThan_atLeast0)
  have "\<forall>k \<in> set [0..<12]. period_dates C (gp_fiscal_year req) (year_start_month req) (of_nat k)
      = Inr (year_dates C (gp_fiscal_year req) (year_start_month req) k)"
    using year_dates_span [OF start fy] by (simp add: period_dates_span)
  from generate_loop_ok [OF this ok distinct_upt ids, of e "[]"] show ?thesis
    by (auto simp: generate_periods_def simp del: upt_Suc)
qed

lemma generated_covers:
  assumes start: "1 \<le> unat (year_start_month req)" "unat (year_start_month req) \<le> 12"
    and fy: "\<bar>gp_fiscal_year req\<bar> < 261999"
    and ok: "months_ok C ps"
    and has: "\<forall>k < 12. \<exists>q \<in> set ps. fp_entity_id q = e
        \<and> start_date q = fst (year_dates C (gp_fiscal_year req) (year_start_month req) k)"
    and d: "fst (year_dates C (gp_fiscal_year req) (year_start_month req) 0) \<le> d"
      "d \<le> snd (year_dates C (gp_fiscal_year req) (year_start_month req) 11)"
    and ps: "fiscal_periods db = ps"
  shows "\<exists>p. period_for_date db e d = Inr p \<and> contains_date p d"
proof -
  obtain k where "k \<le> 11" and k': "fst (year_dates C (gp_fiscal_year req) (year_start_month req) k) \<le> d"
    "d \<le> snd (year_dates C (gp_fiscal_year req) (year_start_month req) k)"
    using year_days_covered [OF start fy _ d] by auto
  then have k: "k < 12" "fst (year_dates C (gp_fiscal_year req) (year_start_month req) k) \<le> d"
    "d \<le> snd (year_dates C (gp_fiscal_year req) (year_start_month req) k)" by simp_all
  obtain q where q: "q \<in> set ps" "fp_entity_id q = e"
    "start_date q = fst (year_dates C (gp_fiscal_year req) (year_start_month req) k)"
    using has k(1) by blast
  obtain y m where "month_span C y m = Some (start_date q, end_date q)"
    using months_okD(1) [OF ok q(1)] by (auto simp: is_month_def)
  moreover obtain s t where st: "year_dates C (gp_fiscal_year req) (year_start_month req) k = (s, t)"
    by fastforce
  ultimately have "end_date q = t"
    using span_start_unique year_dates_span [OF start fy k(1)] q(3) by fastforce
  with k q st have "contains_date q d" by (simp add: contains_date_def)
  with period_for_date_unique [of db q e d] months_periods_ok [OF ok] q ps show ?thesis by auto
qed

end

end
