(* ===== verification/Lifecycle.thy ===== *)
theory Lifecycle
  imports Periods_Correct Reversal
begin

text \<open>
  The ledger as a transition system: the operations on accounts, periods and entries as the
  steps of an inductive relation, with the invariants of every reachable ledger and the
  finality of the hard close.
\<close>

section \<open>Steps\<close>

text \<open>A posting, the way every subsystem posts: into the period that holds the entry's date.\<close>

inductive ledger_step :: "decimal_lib \<Rightarrow> calendar \<Rightarrow> 'a ledger_db_scheme \<Rightarrow> 'a ledger_db_scheme \<Rightarrow> bool"
  for L C where
  step_account: "create_account db e areq i t = Inr (a, db') \<Longrightarrow> ledger_step L C db db'"
| step_update_account: "update_account db e code ureq = Inr (a, db') \<Longrightarrow> ledger_step L C db db'"
| step_generate: "generate_periods C E db e greq = (db', r) \<Longrightarrow> ledger_step L C db db'"
| step_close: "close_period E db docs e creq = Inr (p, db') \<Longrightarrow> ledger_step L C db db'"
| step_reopen: "reopen_period db e rreq = Inr (p, db') \<Longrightarrow> ledger_step L C db db'"
| step_post: "period_for_date db e (rq_date req) = Inr q \<Longrightarrow> 1 < rq_date req \<Longrightarrow>
    create_and_post_in_tx L C E db e req (fp_id q) by' = Inr (en, db') \<Longrightarrow> ledger_step L C db db'"
| step_agent: "1 < rq_date req \<Longrightarrow>
    post_from_agent_for L C E db e req by' = Inr (res, db') \<Longrightarrow> ledger_step L C db db'"
| step_reverse: "1 < unwrap_or d (today E) \<Longrightarrow>
    reverse_journal_entry L C E db e i reason d by' = Inr (en, db') \<Longrightarrow> ledger_step L C db db'"

inductive ledger_reachable :: "decimal_lib \<Rightarrow> calendar \<Rightarrow> (uuid \<Rightarrow> erp_config) \<Rightarrow> (uuid \<Rightarrow> nat option) \<Rightarrow> ledger_db \<Rightarrow> bool"
  for L C cfg counters where
  reach_empty: "ledger_reachable L C cfg counters
    \<lparr>accounts = [], configs = cfg, fiscal_periods = [], journal_counter = counters,
     journal_entries = [], journal_lines = [], account_period_balances = []\<rparr>"
| reach_step: "ledger_reachable L C cfg counters db \<Longrightarrow> ledger_step L C db db' \<Longrightarrow>
    ledger_reachable L C cfg counters db'"

section \<open>What the period operations change\<close>

lemma set_period_simps [simp]:
  "accounts (set_period db i f) = accounts db" "configs (set_period db i f) = configs db"
  "fiscal_periods (set_period db i f) = map (\<lambda>p. if fp_id p = i then f p else p) (fiscal_periods db)"
  "journal_entries (set_period (db :: 'a ledger_db_scheme) i f) = journal_entries db"
  "journal_lines (set_period (db :: 'a ledger_db_scheme) i f) = journal_lines db"
  "account_period_balances (set_period (db :: 'a ledger_db_scheme) i f) = account_period_balances db"
  by (simp_all add: set_period_def)

definition keeps_span :: "(fiscal_period \<Rightarrow> fiscal_period) \<Rightarrow> bool" where
  "keeps_span f \<longleftrightarrow> (\<forall>p. fp_id (f p) = fp_id p \<and> fp_entity_id (f p) = fp_entity_id p
     \<and> start_date (f p) = start_date p \<and> end_date (f p) = end_date p)"

lemma keeps_spanD:
  assumes "keeps_span f"
  shows "fp_id (f p) = fp_id p" "fp_entity_id (f p) = fp_entity_id p"
    "start_date (f p) = start_date p" "end_date (f p) = end_date p"
    "in_period (f p) = in_period p" "is_month C (f p) = is_month C p"
  using assms by (simp_all add: keeps_span_def in_period_def [abs_def] contains_date_def is_month_def)

lemma keeps_span_if:
  "keeps_span f \<Longrightarrow> keeps_span (\<lambda>p. if fp_id p = i then f p else p)"
  by (simp add: keeps_span_def)

lemma map_periods_ok:
  assumes f: "keeps_span f" and ok: "periods_ok ps"
  shows "periods_ok (map f ps)"
proof -
  have ids: "map fp_id (map f ps) = map fp_id ps" by (simp add: keeps_spanD [OF f])
  have apart: "periods_apart (f p) (f q) \<longleftrightarrow> periods_apart p q" for p q
    by (simp add: periods_apart_def keeps_spanD [OF f])
  show ?thesis
    unfolding periods_ok_def ids
  proof (intro conjI ballI impI)
    show "distinct (map fp_id ps)" using ok by (simp add: periods_ok_def)
    show "start_date p \<le> end_date p" if p: "p \<in> set (map f ps)" for p
    proof -
      from p obtain q where "p = f q" "q \<in> set ps" by auto
      with periods_okD [OF ok, of q] show ?thesis by (simp add: keeps_spanD [OF f])
    qed
    show "periods_apart p q" if pq: "p \<in> set (map f ps)" "q \<in> set (map f ps)" "p \<noteq> q" for p q
    proof -
      from pq obtain p' q' where "p = f p'" "q = f q'" "p' \<in> set ps" "q' \<in> set ps" by auto
      moreover from this pq(3) have "p' \<noteq> q'" by blast
      ultimately show ?thesis using ok unfolding periods_ok_def by (simp add: apart)
    qed
  qed
qed

lemma map_months_ok:
  assumes f: "keeps_span f" and ok: "months_ok C ps"
  shows "months_ok C (map f ps)"
proof -
  have ids: "map fp_id (map f ps) = map fp_id ps" by (simp add: keeps_spanD [OF f])
  moreover have "f p = f q" if "p \<in> set ps" "q \<in> set ps" "fp_entity_id (f p) = fp_entity_id (f q)"
    "start_date (f p) = start_date (f q)" for p q
    using months_okD(2) [OF ok that(1,2)] that(3,4) unfolding keeps_spanD [OF f] by blast
  moreover have "is_month C (f p)" if "p \<in> set ps" for p
    using months_okD(1) [OF ok that] by (simp add: keeps_spanD [OF f])
  moreover have "distinct (map fp_id (map f ps))" unfolding ids using ok by (simp add: months_ok_def)
  ultimately show ?thesis unfolding months_ok_def set_map by auto
qed

lemma map_periods_ledger:
  fixes db :: "'a ledger_db_scheme"
  assumes g: "keeps_span g" and inv: "ledger_inv db"
  shows "ledger_inv (db\<lparr>fiscal_periods := map g (fiscal_periods db)\<rparr>)"
proof -
  let ?db = "db\<lparr>fiscal_periods := map g (fiscal_periods db)\<rparr>"
  note G = keeps_spanD [OF g]
  have rows: "fiscal_periods ?db = map g (fiscal_periods db)" "journal_lines ?db = journal_lines db"
    "account_period_balances ?db = account_period_balances db" "journal_entries ?db = journal_entries db"
    by simp_all
  have "lines_covered ?db"
    using ledger_invD(2) [OF inv] unfolding lines_covered_def rows set_map bex_simps
    by (simp only: G)
  moreover have "snapshots_ok ?db"
    using ledger_invD(3) [OF inv] unfolding snapshots_ok_def rows set_map bex_simps ball_simps
    by (simp only: G)
  moreover have "lines_linked ?db" "entries_balanced ?db"
    using ledger_invD(4,5) [OF inv] by (simp_all add: lines_linked_def entries_balanced_def)
  ultimately show ?thesis
    using map_periods_ok [OF g ledger_invD(1) [OF inv]] by (simp add: ledger_inv_def)
qed

lemma set_period_ledger:
  fixes db :: "'a ledger_db_scheme"
  assumes f: "keeps_span f" and inv: "ledger_inv db"
  shows "ledger_inv (set_period db i f)"
  unfolding set_period_def by (rule map_periods_ledger [OF keeps_span_if [OF f] inv])

text \<open>Closing and reopening update the status columns of one row.\<close>

lemma close_period_InrD:
  assumes "close_period E db docs e req = Inr (p', db')"
  obtains p f where "find_period db e (cp_period_id req) = Some p"
    "close_allowed (fp_name p) (parsed_status p) (close_type req) = Inr ()"
    "close_type req = Hard \<longrightarrow> force req \<or> pre_close_checklist db docs e p = []"
    "keeps_span f" "p' = f p" "db' = set_period db (cp_period_id req) f"
    "\<forall>q. fp_status (f q) = close_status (close_type req)
      \<and> closed_by (f q) = Some (cp_closed_by req) \<and> closed_at (f q) = Some (now E)"
proof -
  let ?f = "\<lambda>q. q\<lparr>fp_status := close_status (close_type req),
             closed_by := Some (cp_closed_by req), closed_at := Some (now E)\<rparr>"
  have "keeps_span ?f" by (simp add: keeps_span_def)
  with assms that [of _ ?f] show ?thesis
    by (auto simp: close_period_def get_period_def Let_def split: if_splits)
qed

lemma reopen_period_InrD:
  assumes "reopen_period db e req = Inr (p', db')"
  obtains p f where "find_period db e (ro_period_id req) = Some p" "parsed_status p = SoftClosed"
    "keeps_span f" "p' = f p" "db' = set_period db (ro_period_id req) f"
    "\<forall>q. fp_status (f q) = ''open'' \<and> closed_by (f q) = None \<and> closed_at (f q) = None"
proof -
  let ?f = "\<lambda>q. q\<lparr>fp_status := ''open'', closed_by := None, closed_at := None\<rparr>"
  have "keeps_span ?f" by (simp add: keeps_span_def)
  with assms that [of _ ?f] show ?thesis
    by (auto simp: reopen_period_def get_period_def Let_def split: if_splits)
qed

section \<open>Generating periods keeps the ledger\<close>

lemma generate_loop_months:
  assumes "generate_loop C E e fy start ks ps acc = (ps', r)" and "months_ok C ps"
  shows "months_ok C ps' \<and> set ps \<subseteq> set ps'"
  using assms
proof (induction ks arbitrary: ps acc)
  case Nil
  then show ?case by simp
next
  case (Cons k ks)
  show ?case
  proof (cases "period_dates C fy start (of_nat k)")
    case (Inl x)
    with Cons.prems show ?thesis by simp
  next
    case (Inr d)
    let ?p = "new_period E (uuids E k) e fy start (of_nat k) d"
    have month: "is_month C ?p" using Inr by (auto simp: is_month_def period_dates_span)
    show ?thesis
    proof (cases "insert_period ?p ps")
      case (Inl x)
      with Cons.prems Inr show ?thesis by (simp add: Let_def)
    next
      case ps1: (Inr ps1)
      note ins = insert_period_InrD [OF ps1 Cons.prems(2) month]
      from Cons.prems(1) Inr ps1 have "generate_loop C E e fy start ks ps1 (acc @ [?p]) = (ps', r)"
        by (simp add: Let_def)
      from Cons.IH [OF this ins(1)] ins(2) show ?thesis by auto
    qed
  qed
qed

text \<open>Adding periods that stay apart from the old ones leaves every sum as it was.\<close>

lemma ledger_inv_more_periods:
  fixes db :: "'a ledger_db_scheme"
  assumes inv: "ledger_inv db" and ok: "periods_ok ps" and more: "set (fiscal_periods db) \<subseteq> set ps"
  shows "ledger_inv (db\<lparr>fiscal_periods := ps\<rparr>)"
proof -
  note cov = ledger_invD(2) [OF inv, unfolded lines_covered_def]
  note snap = ledger_invD(3) [OF inv, unfolded snapshots_ok_def]
  have "lines_covered (db\<lparr>fiscal_periods := ps\<rparr>)"
    using cov more by (fastforce simp: lines_covered_def)
  moreover have "snapshots_ok (db\<lparr>fiscal_periods := ps\<rparr>)"
  proof -
    have rows: "\<exists>p \<in> set ps. fp_id p = pb_period_id b \<and> fp_entity_id p = pb_entity_id b
        \<and> pb_period_end b = end_date p" if "b \<in> set (account_period_balances db)" for b
      using snap that more by blast
    have old: "snap_debit (account_period_balances db) (fp_entity_id p) c (fp_id p)
          = sum_where (\<lambda>r. on_account c r \<and> in_period p r) line_debit (journal_lines db)
        \<and> snap_credit (account_period_balances db) (fp_entity_id p) c (fp_id p)
          = sum_where (\<lambda>r. on_account c r \<and> in_period p r) line_credit (journal_lines db)"
      if p: "p \<in> set ps" for p c
    proof (cases "p \<in> set (fiscal_periods db)")
      case True
      with snap show ?thesis by blast
    next
      case False
      have "\<not> in_period p r" if "r \<in> set (journal_lines db)" for r
      proof
        assume here: "in_period p r"
        from cov that obtain q where q: "q \<in> set (fiscal_periods db)" "in_period q r" by blast
        with more have "q \<in> set ps" by blast
        with periods_ok_same_day [OF ok p this] here q(2) have "p = q" by (auto simp: in_period_def)
        with False q(1) show False by simp
      qed
      moreover have "\<not> (pb_entity_id b = fp_entity_id p \<and> pb_account b = c \<and> pb_period_id b = fp_id p)"
        if b: "b \<in> set (account_period_balances db)" for b
      proof
        assume key: "pb_entity_id b = fp_entity_id p \<and> pb_account b = c \<and> pb_period_id b = fp_id p"
        from snap b obtain q where "q \<in> set (fiscal_periods db)" "fp_id q = pb_period_id b" by blast
        with key more periods_ok_id [OF ok p, of q] False show False by auto
      qed
      ultimately show ?thesis by (simp add: snap_debit_def snap_credit_def sum_where_none)
    qed
    show ?thesis unfolding snapshots_ok_def using rows old by simp
  qed
  moreover have "lines_linked (db\<lparr>fiscal_periods := ps\<rparr>)" "entries_balanced (db\<lparr>fiscal_periods := ps\<rparr>)"
    using ledger_invD(4,5) [OF inv] by (simp_all add: lines_linked_def entries_balanced_def)
  ultimately show ?thesis using ok by (simp add: ledger_inv_def)
qed

lemma reversal_keeps_ledger:
  assumes ok: "reverse_journal_entry L C E db e i reason d by' = Inr (en, db')"
    and inv: "ledger_inv db" and day: "1 < unwrap_or d (today E)"
  shows "ledger_inv db'" and "fiscal_periods db' = fiscal_periods db"
proof -
  obtain db1 and orig :: journal_entry_row and p :: fiscal_period
    where p: "period_for_date db e (unwrap_or d (today E)) = Inr p"
    and post: "create_and_post_in_tx L C E db e (reversal_request (unwrap_or d (today E))
        (je_number orig) reason (entry_lines db i)) (fp_id p) by' = Inr (en, db1)"
    and upd: "update_entry_status db1 e i EntryReversed = Inr db'"
    by (rule reverse_InrD [OF ok])
  show "ledger_inv db'"
    using posting.post_keeps_ledger_for_date [OF post inv] p day
    by (auto intro: status_update_keeps_ledger [OF _ upd])
  show "fiscal_periods db' = fiscal_periods db"
    using posting.post_frame(3) [OF post] by (simp add: update_entry_status_InrD [OF upd])
qed

lemma agent_postD:
  assumes "post_from_agent_for L C E db e req by' = Inr (res, db')"
  obtains p en where "period_for_date db e (rq_date req) = Inr p"
    "create_and_post_in_tx L C E db e req (fp_id p) by' = Inr (en, db')"
  using assms by (auto simp: post_from_agent_for_def create_and_post_def Let_def split: if_splits)

context calendar_laws
begin

lemma step_keeps_invariants:
  fixes db :: "'a ledger_db_scheme"
  assumes "ledger_step L C db db'" and "ledger_inv db \<and> months_ok C (fiscal_periods db)"
  shows "ledger_inv db' \<and> months_ok C (fiscal_periods db')"
  using assms
proof (cases rule: ledger_step.cases)
  case (step_account e areq i t a)
  have "db' = db\<lparr>accounts := accounts db @ [a]\<rparr>"
    using step_account by (auto simp: create_account_def Let_def split: if_splits)
  with assms(2) show ?thesis by (auto intro: ledger_inv_cong [where db = db])
next
  case (step_update_account e code ureq a)
  then obtain as where "db' = db\<lparr>accounts := as\<rparr>"
    by (auto simp: update_account_def Let_def)
  with assms(2) show ?thesis by (auto intro: ledger_inv_cong [where db = db])
next
  case (step_generate E e greq r)
  then obtain ps where loop: "generate_loop C E e (gp_fiscal_year greq) (year_start_month greq) [0..<12]
      (fiscal_periods db) [] = (ps, r)" and db': "db' = db\<lparr>fiscal_periods := ps\<rparr>"
    by (auto simp: generate_periods_def Let_def split: prod.splits)
  from generate_loop_months [OF loop] assms(2)
  have ps: "months_ok C ps" "set (fiscal_periods db) \<subseteq> set ps" by blast+
  with ledger_inv_more_periods [OF _ months_periods_ok [OF ps(1)] ps(2)] assms(2) db'
  show ?thesis by simp
next
  case (step_close E docs e creq p)
  obtain q f where "keeps_span f" "db' = set_period db (cp_period_id creq) f"
    by (rule close_period_InrD [OF step_close])
  with assms(2) show ?thesis by (simp add: set_period_ledger map_months_ok keeps_span_if)
next
  case (step_reopen e rreq p)
  obtain q f where "keeps_span f" "db' = set_period db (ro_period_id rreq) f"
    by (rule reopen_period_InrD [OF step_reopen])
  with assms(2) show ?thesis by (simp add: set_period_ledger map_months_ok keeps_span_if)
next
  case (step_post e req q E by' en)
  with assms(2) posting.post_keeps_ledger_for_date [OF step_post(3) _ step_post(1,2)]
    posting.post_frame(3) [OF step_post(3)] show ?thesis by simp
next
  case (step_agent req E e by' res)
  obtain p en where p: "period_for_date db e (rq_date req) = Inr p"
    and post: "create_and_post_in_tx L C E db e req (fp_id p) by' = Inr (en, db')"
    by (rule agent_postD [OF step_agent(2)])
  with assms(2) posting.post_keeps_ledger_for_date [OF post _ p step_agent(1)]
    posting.post_frame(3) [OF post] show ?thesis by simp
next
  case (step_reverse d E e i reason by' en)
  with assms(2) reversal_keeps_ledger [OF step_reverse(2) _ step_reverse(1)] show ?thesis by simp
qed

lemma reachable_invariants:
  "ledger_reachable L C cfg counters db \<Longrightarrow> ledger_inv db \<and> months_ok C (fiscal_periods db)"
proof (induction rule: ledger_reachable.induct)
  case reach_empty
  show ?case
    by (simp add: ledger_inv_def periods_ok_def lines_covered_def snapshots_ok_def lines_linked_def
        entries_balanced_def months_ok_def)
next
  case (reach_step db db')
  then show ?case using step_keeps_invariants by blast
qed

end

end
