(* ===== verification/Period_Properties.thy ===== *)
theory Period_Properties
  imports Lifecycle Samples
begin

text \<open>
  The properties of the fiscal periods and of the ledger as a transition system.
\<close>

section \<open>Steps and a hard-closed period\<close>

lemma generate_loop_ids:
  assumes "generate_loop C E e fy start ks ps acc = (ps', r)" and "distinct (map fp_id ps)"
  shows "distinct (map fp_id ps') \<and> set ps \<subseteq> set ps'"
  using assms
proof (induction ks arbitrary: ps acc)
  case Nil
  then show ?case by simp
next
  case (Cons k ks)
  show ?case
  proof (cases "period_dates C fy start (of_nat k)")
    case (Inl x)
    with Cons.prems show ?thesis by simp
  next
    case (Inr d)
    let ?p = "new_period E (uuids E k) e fy start (of_nat k) d"
    show ?thesis
    proof (cases "insert_period ?p ps")
      case (Inl x)
      with Cons.prems Inr show ?thesis by (simp add: Let_def)
    next
      case ps1: (Inr ps1)
      then have "distinct (map fp_id ps1) \<and> set ps \<subseteq> set ps1"
        using Cons.prems(2) by (auto simp: insert_period_def split: if_splits; blast)
      moreover from Cons.prems(1) Inr ps1
      have "generate_loop C E e fy start ks ps1 (acc @ [?p]) = (ps', r)" by (simp add: Let_def)
      ultimately show ?thesis using Cons.IH by blast
    qed
  qed
qed

text \<open>What a step leaves of a hard-closed period: its row, and its entries but for year-end ones.\<close>

definition still_hard_closed :: "'a ledger_db_scheme \<Rightarrow> fiscal_period \<Rightarrow> uuid set \<Rightarrow> bool" where
  "still_hard_closed db p olds \<longleftrightarrow> distinct (map fp_id (fiscal_periods db)) \<and> p \<in> set (fiscal_periods db)
     \<and> (\<forall>e \<in> set (journal_entries db). je_period_id e = fp_id p \<longrightarrow>
          is_year_end_source (je_source e) \<or> je_id e \<in> olds)"

lemma find_period_by_id:
  assumes "distinct (map fp_id (fiscal_periods db))" and "p \<in> set (fiscal_periods db)"
    and "find_period db e (fp_id p) = Some q"
  shows "q = p"
  using find_period_SomeD [OF assms(3)] assms(1,2) by (auto simp: distinct_map dest: inj_onD)

lemma post_still_hard_closed:
  assumes post: "create_and_post_in_tx L C E db e req i by' = Inr (en, db')"
    and hard: "fp_status p = ''hard_closed''" and ok: "still_hard_closed db p olds"
  shows "still_hard_closed db' p olds"
proof -
  obtain n number q where q: "List.find (\<lambda>q. fp_id q = i) (fiscal_periods db) = Some q"
    and db': "db' = posted_state E db e req q by' number n (en_lines en)"
    using posting.post_effect [OF post] by blast
  have q_id: "fp_id q = i" using q by (auto simp: find_Some_iff)
  have "is_year_end_source (rq_source req)" if "fp_id q = fp_id p"
  proof -
    obtain p' where p': "find_period db e i = Some p'" "source_admitted db e p' (rq_source req)"
      using posting.post_admitted [OF post] by blast
    then have "p' = p" using find_period_by_id [of db p e p'] ok that q_id
      by (simp add: still_hard_closed_def)
    with p'(2) hard show ?thesis by (simp add: source_admitted_def parsed_status_def)
  qed
  with ok show ?thesis
    by (auto simp: still_hard_closed_def db' entry_row_def)
qed

lemma set_period_still_hard_closed:
  assumes ok: "still_hard_closed db p olds" and f: "keeps_span f" and i: "fp_id p \<noteq> i"
  shows "still_hard_closed (set_period db i f) p olds"
proof -
  let ?g = "\<lambda>p. if fp_id p = i then f p else p"
  have ids: "map fp_id (map ?g (fiscal_periods db)) = map fp_id (fiscal_periods db)"
    by (simp add: keeps_spanD [OF f])
  have "p \<in> ?g ` set (fiscal_periods db)" using ok i by (force simp: still_hard_closed_def)
  then show ?thesis using ok
    unfolding still_hard_closed_def set_period_simps ids set_map by blast
qed

lemma still_hard_closed_cong:
  fixes db :: "'a ledger_db_scheme" and db' :: "'c ledger_db_scheme"
  assumes "fiscal_periods db' = fiscal_periods db"
    and "map (\<lambda>e. (je_id e, je_period_id e, je_source e)) (journal_entries db')
      = map (\<lambda>e. (je_id e, je_period_id e, je_source e)) (journal_entries db)"
    and "still_hard_closed db p olds"
  shows "still_hard_closed db' p olds"
proof -
  let ?k = "\<lambda>e. (je_id e, je_period_id e, je_source e)"
  let ?ok = "\<lambda>(i, q, s). q = fp_id p \<longrightarrow> is_year_end_source s \<or> i \<in> olds"
  have "still_hard_closed d p olds \<longleftrightarrow> distinct (map fp_id (fiscal_periods d))
      \<and> p \<in> set (fiscal_periods d) \<and> list_all ?ok (map ?k (journal_entries d))"
    for d :: "'c ledger_db_scheme"
    by (simp add: still_hard_closed_def list_all_iff)
  moreover have "still_hard_closed d p olds \<longleftrightarrow> distinct (map fp_id (fiscal_periods d))
      \<and> p \<in> set (fiscal_periods d) \<and> list_all ?ok (map ?k (journal_entries d))"
    for d :: "'a ledger_db_scheme"
    by (simp add: still_hard_closed_def list_all_iff)
  ultimately show ?thesis using assms by simp
qed

lemma step_still_hard_closed:
  fixes db :: "'a ledger_db_scheme"
  assumes "ledger_step L C db db'" and hard: "fp_status p = ''hard_closed''"
    and ok: "still_hard_closed db p olds"
  shows "still_hard_closed db' p olds"
  using assms(1)
proof (cases rule: ledger_step.cases)
  case (step_account e areq i t a)
  then have "db' = db\<lparr>accounts := accounts db @ [a]\<rparr>"
    by (auto simp: create_account_def Let_def split: if_splits)
  with ok show ?thesis by (simp add: still_hard_closed_def)
next
  case (step_update_account e code ureq a)
  then obtain as where "db' = db\<lparr>accounts := as\<rparr>" by (auto simp: update_account_def Let_def)
  with ok show ?thesis by (simp add: still_hard_closed_def)
next
  case (step_generate E e greq r)
  then obtain ps where loop: "generate_loop C E e (gp_fiscal_year greq) (year_start_month greq) [0..<12]
      (fiscal_periods db) [] = (ps, r)" and db': "db' = db\<lparr>fiscal_periods := ps\<rparr>"
    by (auto simp: generate_periods_def Let_def split: prod.splits)
  from generate_loop_ids [OF loop] ok show ?thesis by (auto simp: still_hard_closed_def db')
next
  case (step_close E docs e creq p')
  obtain q f where q: "find_period db e (cp_period_id creq) = Some q"
    "close_allowed (fp_name q) (parsed_status q) (close_type creq) = Inr ()"
    and f: "keeps_span f" and db': "db' = set_period db (cp_period_id creq) f"
    by (rule close_period_InrD [OF step_close])
  have "fp_id p \<noteq> cp_period_id creq"
  proof
    assume "fp_id p = cp_period_id creq"
    then have "q = p" using find_period_by_id [of db p e q] ok q(1) by (simp add: still_hard_closed_def)
    with q(2) hard show False by (simp add: parsed_status_def)
  qed
  from set_period_still_hard_closed [OF ok f this] show ?thesis by (simp add: db')
next
  case (step_reopen e rreq p')
  obtain q f where q: "find_period db e (ro_period_id rreq) = Some q" "parsed_status q = SoftClosed"
    and f: "keeps_span f" and db': "db' = set_period db (ro_period_id rreq) f"
    by (rule reopen_period_InrD [OF step_reopen])
  have "fp_id p \<noteq> ro_period_id rreq"
  proof
    assume "fp_id p = ro_period_id rreq"
    then have "q = p" using find_period_by_id [of db p e q] ok q(1) by (simp add: still_hard_closed_def)
    with q(2) hard show False by (simp add: parsed_status_def)
  qed
  from set_period_still_hard_closed [OF ok f this] show ?thesis by (simp add: db')
next
  case (step_post e req q E by' en)
  then show ?thesis using post_still_hard_closed [OF _ hard ok] by blast
next
  case (step_agent req E e by' res)
  obtain en :: journal_entry and q :: fiscal_period where "create_and_post_in_tx L C E db e req (fp_id q) by' = Inr (en, db')"
    by (rule agent_postD [OF step_agent(2)])
  then show ?thesis using post_still_hard_closed [OF _ hard ok] by blast
next
  case (step_reverse d E e i reason by' en)
  obtain db1 and orig :: journal_entry_row and q :: fiscal_period
    where post: "create_and_post_in_tx L C E db e (reversal_request (unwrap_or d (today E))
        (je_number orig) reason (entry_lines db i)) (fp_id q) by' = Inr (en, db1)"
    and upd: "update_entry_status db1 e i EntryReversed = Inr db'"
    by (rule reverse_InrD [OF step_reverse(2)])
  show ?thesis
    by (rule still_hard_closed_cong [OF _ _ post_still_hard_closed [OF post hard ok]])
      (simp_all add: update_entry_status_InrD [OF upd])
qed

section \<open>Properties\<close>

text \<open>
  C2: every ledger reachable from the empty one by creating and changing accounts, generating,
  closing and reopening periods, posting (directly or through the agents' entry point) and
  reversing satisfies the ledger invariant: the period snapshots of every tenant equal the sums
  of its lines, every entry balances, no two periods of a tenant overlap and every line lies in
  exactly one of them. The hypotheses on the calendar are the order of the first days of months.
\<close>

theorem reachable_ledger_consistent:
  assumes "calendar_laws C" and "ledger_reachable L C cfg counters db"
  shows "ledger_inv db \<and> periods_ok (fiscal_periods db)"
  using calendar_laws.reachable_invariants [OF assms]
    calendar_laws.months_periods_ok [OF assms(1)] by blast

definition empty_ledger :: ledger_db where
  "empty_ledger = \<lparr>accounts = [], configs = default_config, fiscal_periods = [],
     journal_counter = (\<lambda>_. Some 1), journal_entries = [], journal_lines = [],
     account_period_balances = []\<rparr>"

definition year_ledger :: "ledger_db \<times> fiscal_period list erp_result" where
  "year_ledger = generate_periods gregorian sample_env empty_ledger 1
     \<lparr>gp_fiscal_year = 2025, year_start_month = 7\<rparr>"

lemma reachable_generated:
  "ledger_reachable std_decimal gregorian default_config (\<lambda>_. Some 1) (fst year_ledger)"
proof -
  have "generate_periods gregorian sample_env empty_ledger 1 \<lparr>gp_fiscal_year = 2025, year_start_month = 7\<rparr>
      = (fst year_ledger, snd year_ledger)" by (simp add: year_ledger_def)
  then have s: "ledger_step std_decimal gregorian empty_ledger (fst year_ledger)" by (rule step_generate)
  have r: "ledger_reachable std_decimal gregorian default_config (\<lambda>_. Some 1) empty_ledger"
    unfolding empty_ledger_def by (rule reach_empty)
  show "ledger_reachable std_decimal gregorian default_config (\<lambda>_. Some 1) (fst year_ledger)"
    by (rule reach_step [OF r s])
qed

theorem reachable_ledger_consistent_witness:
  "ledger_inv (fst year_ledger) \<and> periods_ok (fiscal_periods (fst year_ledger))"
  by (rule reachable_ledger_consistent [OF greg.calendar_laws_axioms reachable_generated])

text \<open>
  C3: the hard close is final. From a ledger with a hard-closed period, no sequence of
  operations, of any length and on any tenant, changes the period's row (status, dates, who
  closed it), and every entry they add to the period is a year-end closing or opening entry.
\<close>

theorem hard_close_is_final:
  assumes "(ledger_step L C)\<^sup>*\<^sup>* db db'" and "distinct (map fp_id (fiscal_periods db))"
    and "p \<in> set (fiscal_periods db)" and "fp_status p = ''hard_closed''"
  shows "p \<in> set (fiscal_periods db') \<and> (\<forall>e \<in> set (journal_entries db'). je_period_id e = fp_id p \<longrightarrow>
    je_source e = YearEndClose \<or> je_source e = OpeningBalance \<or> je_id e \<in> je_id ` set (journal_entries db))"
proof -
  have "still_hard_closed db' p (je_id ` set (journal_entries db))"
    using assms(1)
  proof (induction rule: rtranclp_induct)
    case base
    show ?case using assms(2,3) by (simp add: still_hard_closed_def)
  next
    case (step y z)
    then show ?case using step_still_hard_closed [OF _ assms(4)] by blast
  qed
  then show ?thesis by (auto simp: still_hard_closed_def is_year_end_source_def)
qed

definition closed_db :: ledger_db where
  "closed_db = set_period (set_period sample_db 1 (\<lambda>p. p\<lparr>fp_status := ''soft_closed''\<rparr>)) 2
     (\<lambda>p. p\<lparr>fp_status := ''hard_closed''\<rparr>)"

lemma closed_db_reopens:
  "\<exists>db'. ledger_step std_decimal gregorian closed_db db'"
proof -
  let ?r = "reopen_period closed_db 1 \<lparr>ro_period_id = 1, reopened_by = User 9, ro_reason = ''late bill''\<rparr>"
  have "\<not> isl ?r" by code_simp
  then obtain p db' where "?r = Inr (p, db')" by (cases ?r) auto
  then show ?thesis using step_reopen by blast
qed

theorem hard_close_is_final_witness:
  "\<exists>db'. (ledger_step std_decimal gregorian)\<^sup>*\<^sup>* closed_db db'
    \<and> sample_period 2 739283 739310 ''hard_closed'' \<in> set (fiscal_periods db')"
proof -
  obtain db' where "ledger_step std_decimal gregorian closed_db db'" using closed_db_reopens by blast
  then have "(ledger_step std_decimal gregorian)\<^sup>*\<^sup>* closed_db db'" by blast
  moreover from this have "sample_period 2 739283 739310 ''hard_closed'' \<in> set (fiscal_periods db')"
    using hard_close_is_final [of std_decimal gregorian closed_db db'
        "sample_period 2 739283 739310 ''hard_closed''"]
    by (simp add: closed_db_def sample_db_def sample_period_def)
  ultimately show ?thesis by blast
qed

text \<open>
  C15: what closing a period takes and does. A soft close succeeds only from open or future, a
  hard close only from soft closed and, unless forced, only when no invoice of the period is a
  draft, no bill is unposted, no journal entry is a draft and no active asset is behind with
  its depreciation; it changes the status, the closer and the time of that row and nothing else.
\<close>

lemma checklist_empty:
  "pre_close_checklist db docs e p = [] \<longleftrightarrow>
    (\<forall>(t, d, s) \<in> set (inv_dates docs). t = e \<and> contains_date p d \<longrightarrow> s \<noteq> ''draft'')
    \<and> (\<forall>(t, d, s) \<in> set (bill_dates docs). t = e \<and> contains_date p d \<longrightarrow>
        s \<notin> {''draft'', ''pending_approval'', ''approved''})
    \<and> (\<forall>j \<in> set (journal_entries db). je_entity_id j = e \<and> contains_date p (je_date j) \<longrightarrow>
        je_status j \<noteq> EntryDraft)
    \<and> (\<forall>(t, s, acq, through) \<in> set (asset_marks docs). t = e \<and> s = ''active'' \<and> acq \<le> end_date p \<longrightarrow>
        (\<exists>m. through = Some m \<and> end_date p \<le> m))"
proof -
  have four: "((if 0 < a then [A] else []) @ (if 0 < b then [B] else []) @ (if 0 < c then [C] else [])
      @ (if 0 < (d::nat) then [D] else []) = []) \<longleftrightarrow> a = (0::nat) \<and> b = (0::nat) \<and> c = (0::nat) \<and> d = 0"
    for a b c d and A B C D :: string by auto
  have asset: "(case through of None \<Rightarrow> True | Some t \<Rightarrow> t < x) \<longleftrightarrow> \<not> (\<exists>m. through = Some m \<and> x \<le> m)"
    for through :: "int option" and x by (cases through) auto
  show ?thesis
    unfolding pre_close_checklist_def Let_def four length_0_conv filter_empty_conv asset
      case_prod_beta by (intro arg_cong2 [where f = "(\<and>)"] ball_cong refl) auto
qed

theorem close_period_rules:
  assumes "close_period E db docs e req = Inr (p', db')"
  shows "\<exists>p f. find_period db e (cp_period_id req) = Some p
    \<and> (close_type req = Soft \<longrightarrow> parsed_status p = Open \<or> parsed_status p = Future)
    \<and> (close_type req = Hard \<longrightarrow> parsed_status p = SoftClosed \<and> (force req \<or>
        ((\<forall>(t, d, s) \<in> set (inv_dates docs). t = e \<and> contains_date p d \<longrightarrow> s \<noteq> ''draft'')
        \<and> (\<forall>(t, d, s) \<in> set (bill_dates docs). t = e \<and> contains_date p d \<longrightarrow>
            s \<notin> {''draft'', ''pending_approval'', ''approved''})
        \<and> (\<forall>j \<in> set (journal_entries db). je_entity_id j = e \<and> contains_date p (je_date j) \<longrightarrow>
            je_status j \<noteq> EntryDraft)
        \<and> (\<forall>(t, s, acq, through) \<in> set (asset_marks docs). t = e \<and> s = ''active''
            \<and> acq \<le> end_date p \<longrightarrow> (\<exists>m. through = Some m \<and> end_date p \<le> m)))))
    \<and> parsed_status p' = (if close_type req = Soft then SoftClosed else HardClosed)
    \<and> db' = set_period db (cp_period_id req) f \<and> p' = f p
    \<and> (\<forall>q. fp_id (f q) = fp_id q \<and> fp_entity_id (f q) = fp_entity_id q
        \<and> start_date (f q) = start_date q \<and> end_date (f q) = end_date q)"
proof -
  obtain p f where p: "find_period db e (cp_period_id req) = Some p"
    and ok: "close_allowed (fp_name p) (parsed_status p) (close_type req) = Inr ()"
    and chk: "close_type req = Hard \<longrightarrow> force req \<or> pre_close_checklist db docs e p = []"
    and f: "keeps_span f" and db': "p' = f p" "db' = set_period db (cp_period_id req) f"
    and st: "\<forall>q. fp_status (f q) = close_status (close_type req)
      \<and> closed_by (f q) = Some (cp_closed_by req) \<and> closed_at (f q) = Some (now E)"
    by (rule close_period_InrD [OF assms])
  have "close_type req = Soft \<longrightarrow> parsed_status p = Open \<or> parsed_status p = Future"
    "close_type req = Hard \<longrightarrow> parsed_status p = SoftClosed"
    using ok by (cases "parsed_status p"; cases "close_type req"; simp)+
  moreover have "parsed_status p' = (if close_type req = Soft then SoftClosed else HardClosed)"
    by (cases "close_type req") (simp_all add: parsed_status_def db' st)
  ultimately show ?thesis
    using p chk db' f unfolding checklist_empty keeps_span_def by blast
qed

theorem close_period_rules_witness:
  "\<exists>p' db'. close_period sample_env sample_db \<lparr>inv_dates = [(1, 739285, ''sent'')], bill_dates = [],
      asset_marks = [(1, ''active'', 700000, Some 739310)]\<rparr> 1
      \<lparr>cp_period_id = 2, close_type = Hard, cp_closed_by = User 9, force = False\<rparr> = Inr (p', db')
    \<and> parsed_status p' = HardClosed"
proof -
  let ?req = "\<lparr>cp_period_id = 2, close_type = Hard, cp_closed_by = User 9, force = False\<rparr>"
  let ?r = "close_period sample_env sample_db \<lparr>inv_dates = [(1, 739285, ''sent'')], bill_dates = [],
      asset_marks = [(1, ''active'', 700000, Some 739310)]\<rparr> 1 ?req"
  have "\<not> isl ?r" by code_simp
  then obtain p' db' where r: "?r = Inr (p', db')" by (cases ?r) auto
  with close_period_rules [OF r] show ?thesis by auto
qed

text \<open>
  Generating a fiscal year that starts in any month 1..12 returns twelve periods numbered
  1..12, each the calendar month after the one before, ending the day before the next begins;
  afterwards every day of that year resolves to a period of the tenant that contains it, even
  when some months existed already, nothing that was in the table is lost, and the table is
  still free of overlaps.
\<close>

theorem generated_year_is_covered:
  assumes "calendar_laws C" and "1 \<le> unat (year_start_month req)" and "unat (year_start_month req) \<le> 12"
    and "\<bar>gp_fiscal_year req\<bar> < 261999" and "months_ok C (fiscal_periods db)"
    and "fresh_ids E (fiscal_periods db)"
  shows "\<exists>ps db'. generate_periods C E db e req = (db', Inr ps) \<and> length ps = 12
    \<and> (\<forall>k < 12. period_number (ps ! k) = int k + 1 \<and> fiscal_year (ps ! k) = gp_fiscal_year req)
    \<and> (\<forall>k < 11. start_date (ps ! Suc k) = end_date (ps ! k) + 1)
    \<and> (\<forall>d. start_date (ps ! 0) \<le> d \<and> d \<le> end_date (ps ! 11) \<longrightarrow>
        (\<exists>p. period_for_date db' e d = Inr p \<and> contains_date p d))
    \<and> set (fiscal_periods db) \<subseteq> set (fiscal_periods db') \<and> periods_ok (fiscal_periods db')"
proof -
  let ?d = "year_dates C (gp_fiscal_year req) (year_start_month req)"
  let ?n = "\<lambda>k. new_period E (uuids E k) e (gp_fiscal_year req) (year_start_month req) (of_nat k) (?d k)"
  obtain ps where gen: "generate_periods C E db e req = (db\<lparr>fiscal_periods := ps\<rparr>, Inr (map ?n [0..<12]))"
    and ok: "months_ok C ps" and old: "set (fiscal_periods db) \<subseteq> set ps"
    and has: "\<forall>k < 12. \<exists>q \<in> set ps. fp_entity_id q = e \<and> start_date q = fst (?d k)"
    using calendar_laws.generate_periods_result [OF assms, of e] by blast
  have nth: "map ?n [0..<12] ! k = ?n k" if "k < 12" for k
    using that by (simp del: upt_Suc)
  have num: "uint (of_nat k :: 32 word) = int k" if "k < 12" for k
    using that by (simp add: unsigned_of_nat take_bit_nat_eq_self)
  have next_day: "start_date (map ?n [0..<12] ! Suc k) = end_date (map ?n [0..<12] ! k) + 1"
    if "k < 11" for k
    using that calendar_laws.year_dates_next [OF assms(1-4), of k] nth [of k] nth [of "Suc k"] by simp
  have cover: "\<exists>p. period_for_date (db\<lparr>fiscal_periods := ps\<rparr>) e d = Inr p \<and> contains_date p d"
    if "start_date (map ?n [0..<12] ! 0) \<le> d" "d \<le> end_date (map ?n [0..<12] ! 11)" for d
    by (rule calendar_laws.generated_covers [OF assms(1-4) ok has])
      (use that nth [of 0] nth [of 11] in simp_all)
  have ok': "periods_ok (fiscal_periods (db\<lparr>fiscal_periods := ps\<rparr>))"
    using calendar_laws.months_periods_ok [OF assms(1) ok] by simp
  have numbers: "period_number (map ?n [0..<12] ! k) = int k + 1
      \<and> fiscal_year (map ?n [0..<12] ! k) = gp_fiscal_year req" if "k < 12" for k
    using nth [OF that] num [OF that] by simp
  show ?thesis
    by (rule exI [of _ "map ?n [0..<12]"], rule exI [of _ "db\<lparr>fiscal_periods := ps\<rparr>"])
      (intro conjI gen; use numbers next_day cover old ok' in simp)
qed

theorem generated_year_is_covered_witness:
  "\<exists>ps db'. generate_periods gregorian sample_env empty_ledger 1
      \<lparr>gp_fiscal_year = 2025, year_start_month = 7\<rparr> = (db', Inr ps) \<and> length ps = 12
    \<and> (\<forall>k < 11. start_date (ps ! Suc k) = end_date (ps ! k) + 1) \<and> periods_ok (fiscal_periods db')"
proof -
  let ?req = "\<lparr>gp_fiscal_year = 2025, year_start_month = 7\<rparr>"
  have "months_ok gregorian (fiscal_periods empty_ledger)"
    "fresh_ids sample_env (fiscal_periods empty_ledger)"
    by (simp_all add: empty_ledger_def months_ok_def fresh_ids_def sample_env_def inj_on_def)
  with generated_year_is_covered [OF greg.calendar_laws_axioms, of ?req empty_ledger sample_env 1]
  show ?thesis by auto
qed

end
