(* ===== verification/Reporting.thy ===== *)
theory Reporting
  imports Journal
begin

text \<open>
  The ledger reports of \<^verbatim>\<open>zavora-erp-core/src/services/reporting.rs\<close>: the as-at movements
  query over period snapshots and the open tail, trial balance, balance sheet, profit and loss,
  and the VAT return. A query is a function of the tables; \<open>ORDER BY code\<close> is the order of
  the codes' characters.
\<close>

section \<open>Parameters and results\<close>

record report_parameters =
  rp_as_at :: "naive_date option"
  rp_period_from :: "naive_date option"
  rp_period_to :: "naive_date option"
  rp_compare_to :: "naive_date option"
  rp_comparative :: "bool option"

record trial_balance_line =
  tl_account_code :: account_code
  tl_account_name :: string
  opening_debit :: decimal
  opening_credit :: decimal
  movement_debit :: decimal
  movement_credit :: decimal
  closing_debit :: decimal
  closing_credit :: decimal

record trial_balance_report =
  tb_as_at :: naive_date
  tb_lines :: "trial_balance_line list"
  total_debits :: decimal
  total_credits :: decimal
  tb_is_balanced :: bool
  tb_difference :: decimal

text \<open>A line of a section of the balance sheet or the profit and loss report.\<close>

record statement_line =
  sl_account_code :: account_code
  sl_account_name :: string
  sl_amount :: decimal
  sl_comparative :: "decimal option"

record statement_section =
  ss_name :: string
  ss_lines :: "statement_line list"
  ss_total :: decimal

record balance_sheet_report =
  bs_as_at :: naive_date
  bs_assets :: "statement_section list"
  bs_liabilities :: "statement_section list"
  bs_equity :: "statement_section list"
  total_assets :: decimal
  total_liabilities :: decimal
  total_equity :: decimal
  current_year_earnings :: decimal
  comparative_as_at :: "naive_date option"
  total_assets_comparative :: "decimal option"
  total_liabilities_comparative :: "decimal option"
  total_equity_comparative :: "decimal option"
  bs_is_balanced :: bool
  bs_difference :: decimal

record profit_and_loss_report =
  pl_period_from :: naive_date
  pl_period_to :: naive_date
  pl_revenue :: "statement_section list"
  cost_of_sales :: "statement_section list"
  operating_expenses :: "statement_section list"
  other_income_expense :: "statement_section list"
  total_revenue :: decimal
  total_cost_of_sales :: decimal
  gross_profit :: decimal
  total_operating_expenses :: decimal
  operating_profit :: decimal
  net_profit :: decimal
  comparative_from :: "naive_date option"
  comparative_to :: "naive_date option"
  total_revenue_comparative :: "decimal option"
  gross_profit_comparative :: "decimal option"
  operating_profit_comparative :: "decimal option"
  net_profit_comparative :: "decimal option"

section \<open>As-at movements\<close>

definition day_one :: naive_date where
  "day_one = 1"

definition asat_cutoff :: "'a ledger_db_scheme \<Rightarrow> uuid \<Rightarrow> naive_date \<Rightarrow> naive_date" where
  "asat_cutoff db e d =
     (let ends = map pb_period_end (filter (\<lambda>b. pb_entity_id b = e \<and> pb_period_end b \<le> d)
            (account_period_balances db)) in
      if ends = [] then day_one else Max (set ends))"

text \<open>The rows of the inner query, account, debit and credit: snapshots and tail.\<close>

definition asat_rows :: "'a ledger_db_scheme \<Rightarrow> uuid \<Rightarrow> naive_date \<Rightarrow> (account_code \<times> decimal \<times> decimal) list" where
  "asat_rows db e d =
     map (\<lambda>b. (pb_account b, debit_total b, credit_total b))
       (filter (\<lambda>b. pb_entity_id b = e \<and> pb_period_end b \<le> d) (account_period_balances db))
     @ map (\<lambda>r. (jl_account (row_line r), unwrap_or (functional_debit (row_line r)) 0,
                 unwrap_or (functional_credit (row_line r)) 0))
       (filter (\<lambda>r. row_entity_id r = e \<and> row_entry_date r \<le> d \<and> asat_cutoff db e d < row_entry_date r)
         (journal_lines db))"

definition asat_movements :: "'a ledger_db_scheme \<Rightarrow> uuid \<Rightarrow> naive_date \<Rightarrow> (account_code \<times> decimal \<times> decimal) list" where
  "asat_movements db e d =
     (let rows = asat_rows db e d in
      map (\<lambda>c. (c, sum_where (\<lambda>(a, _, _). a = c) (\<lambda>(_, x, _). x) rows,
                   sum_where (\<lambda>(a, _, _). a = c) (\<lambda>(_, _, x). x) rows))
        (remdups (map fst rows)))"

text \<open>The movement joined to an account, \<open>COALESCE(m.total_debit, 0)\<close> and the same for credit.\<close>

definition movement_of :: "(account_code \<times> decimal \<times> decimal) list \<Rightarrow> account_code \<Rightarrow> decimal \<times> decimal" where
  "movement_of ms c = unwrap_or (map_of ms c) (0, 0)"

definition entity_accounts :: "'a chart_db_scheme \<Rightarrow> uuid \<Rightarrow> account list" where
  "entity_accounts db e = sort_key ac_code (filter (\<lambda>a. ac_entity_id a = e) (accounts db))"

section \<open>Trial balance\<close>

definition trial_balance_line_of :: "account \<Rightarrow> decimal \<times> decimal \<Rightarrow> trial_balance_line" where
  "trial_balance_line_of a m =
     (let net = fst m - snd m in
      \<lparr>tl_account_code = ac_code a, tl_account_name = ac_name a, opening_debit = 0, opening_credit = 0,
       movement_debit = fst m, movement_credit = snd m,
       closing_debit = (if 0 < net then net else 0), closing_credit = (if net < 0 then - net else 0)\<rparr>)"

definition trial_balance :: "environment \<Rightarrow> 'a ledger_db_scheme \<Rightarrow> uuid \<Rightarrow> report_parameters \<Rightarrow> trial_balance_report" where
  "trial_balance E db e params =
     (let as_at = unwrap_or (rp_as_at params) (today E);
          ms = asat_movements db e as_at;
          rows = filter (\<lambda>a. ac_is_active a
              \<and> (fst (movement_of ms (ac_code a)) \<noteq> 0 \<or> snd (movement_of ms (ac_code a)) \<noteq> 0))
            (entity_accounts db e);
          ls = map (\<lambda>a. trial_balance_line_of a (movement_of ms (ac_code a))) rows;
          td = sum_list (map closing_debit ls);
          tc = sum_list (map closing_credit ls);
          difference = td - tc in
      \<lparr>tb_as_at = as_at, tb_lines = ls, total_debits = td, total_credits = tc,
       tb_is_balanced = (\<bar>difference\<bar> \<le> ROUNDING_TOLERANCE), tb_difference = difference\<rparr>)"

section \<open>Balance sheet\<close>

definition prior_year :: "calendar \<Rightarrow> naive_date \<Rightarrow> naive_date" where
  "prior_year C d =
     unwrap_or (from_ymd_opt C (year C d - 1) (month C d) (day C d))
       (the (from_ymd_opt C (year C d - 1) (month C d) 28))"

definition is_asset_type :: "string \<Rightarrow> bool" where
  "is_asset_type s \<longleftrightarrow> s = ''Asset'' \<or> s = ''ContraAsset''"

definition is_liability_type :: "string \<Rightarrow> bool" where
  "is_liability_type s \<longleftrightarrow> s = ''Liability'' \<or> s = ''ContraLiability''"

definition is_revenue_type :: "string \<Rightarrow> bool" where
  "is_revenue_type s \<longleftrightarrow> s = ''Revenue'' \<or> s = ''ContraRevenue''"

definition is_expense_type :: "string \<Rightarrow> bool" where
  "is_expense_type s \<longleftrightarrow> s = ''Expense'' \<or> s = ''ContraExpense''"

definition statement_line_of :: "account \<Rightarrow> decimal \<Rightarrow> statement_line" where
  "statement_line_of a amount =
     \<lparr>sl_account_code = ac_code a, sl_account_name = ac_name a, sl_amount = amount, sl_comparative = None\<rparr>"

definition one_section :: "string \<Rightarrow> statement_line list \<Rightarrow> statement_section list" where
  "one_section name ls = [\<lparr>ss_name = name, ss_lines = ls, ss_total = sum_list (map sl_amount ls)\<rparr>]"

definition balance_sheet_at :: "'a ledger_db_scheme \<Rightarrow> uuid \<Rightarrow> naive_date \<Rightarrow> balance_sheet_report" where
  "balance_sheet_at db e as_at =
     (let ms = asat_movements db e as_at;
          balance = (\<lambda>a. fst (movement_of ms (ac_code a)) - snd (movement_of ms (ac_code a)));
          rows = filter (\<lambda>a. ac_is_active a \<and> ac_code a \<in> set (map fst ms)
              \<and> (is_asset_type (ac_account_type a) \<or> is_liability_type (ac_account_type a)
                 \<or> ac_account_type a = ''Equity'')
              \<and> balance a \<noteq> 0) (entity_accounts db e);
          assets = map (\<lambda>a. statement_line_of a (balance a))
            (filter (\<lambda>a. is_asset_type (ac_account_type a)) rows);
          liabilities = map (\<lambda>a. statement_line_of a (- balance a))
            (filter (\<lambda>a. is_liability_type (ac_account_type a)) rows);
          equity0 = map (\<lambda>a. statement_line_of a (- balance a))
            (filter (\<lambda>a. ac_account_type a = ''Equity'') rows);
          pnl_net = sum_list (map (\<lambda>(c, d, cr). sum_where
              (\<lambda>a. ac_code a = c \<and> (is_revenue_type (ac_account_type a) \<or> is_expense_type (ac_account_type a)))
              (\<lambda>_. d - cr) (entity_accounts db e)) ms);
          earnings = - pnl_net;
          equity = equity0 @ (if earnings \<noteq> 0
            then [\<lparr>sl_account_code = ''-'', sl_account_name = ''Current Year Earnings'',
                   sl_amount = earnings, sl_comparative = None\<rparr>] else []);
          ta = sum_list (map sl_amount assets);
          tl = sum_list (map sl_amount liabilities);
          te = sum_list (map sl_amount equity);
          difference = ta - (tl + te) in
      \<lparr>bs_as_at = as_at, bs_assets = one_section ''Assets'' assets,
       bs_liabilities = one_section ''Liabilities'' liabilities, bs_equity = one_section ''Equity'' equity,
       total_assets = ta, total_liabilities = tl, total_equity = te, current_year_earnings = earnings,
       comparative_as_at = None, total_assets_comparative = None, total_liabilities_comparative = None,
       total_equity_comparative = None, bs_is_balanced = (\<bar>difference\<bar> \<le> ROUNDING_TOLERANCE),
       bs_difference = difference\<rparr>)"

text \<open>
  The comparative column: prior amounts by section and account code; a later line of the same
  code overwrites an earlier one, as collecting into a hash map does.
\<close>

definition section_amounts :: "statement_section list \<Rightarrow> account_code \<Rightarrow> decimal option" where
  "section_amounts secs =
     map_of (rev (map (\<lambda>l. (sl_account_code l, sl_amount l)) (concat (map ss_lines secs))))"

definition attach_comparative ::
    "(account_code \<Rightarrow> decimal option) \<Rightarrow> statement_section list \<Rightarrow> statement_section list" where
  "attach_comparative prior secs =
     map (\<lambda>s. s\<lparr>ss_lines := map (\<lambda>l. l\<lparr>sl_comparative := prior (sl_account_code l)\<rparr>) (ss_lines s)\<rparr>) secs"

definition balance_sheet ::
    "calendar \<Rightarrow> environment \<Rightarrow> 'a ledger_db_scheme \<Rightarrow> uuid \<Rightarrow> report_parameters \<Rightarrow> balance_sheet_report" where
  "balance_sheet C E db e params =
     (let as_at = unwrap_or (rp_as_at params) (today E);
          report = balance_sheet_at db e as_at in
      if rp_comparative params = Some True
      then (let cmp_at = unwrap_or (rp_compare_to params) (prior_year C as_at);
                cmp = balance_sheet_at db e cmp_at in
            report\<lparr>comparative_as_at := Some cmp_at,
              total_assets_comparative := Some (total_assets cmp),
              total_liabilities_comparative := Some (total_liabilities cmp),
              total_equity_comparative := Some (total_equity cmp),
              bs_assets := attach_comparative (section_amounts (bs_assets cmp)) (bs_assets report),
              bs_liabilities := attach_comparative (section_amounts (bs_liabilities cmp)) (bs_liabilities report),
              bs_equity := attach_comparative (section_amounts (bs_equity cmp)) (bs_equity report)\<rparr>)
      else report)"

section \<open>Profit and loss\<close>

text \<open>\<open>str::parse::<u32>\<close>: an optional plus sign and at least one digit, no overflow.\<close>

definition is_digit :: "char \<Rightarrow> bool" where
  "is_digit c \<longleftrightarrow> (48::int) \<le> of_char c \<and> of_char c \<le> (57::int)"

definition parse_u32 :: "string \<Rightarrow> int option" where
  "parse_u32 s =
     (let ds = (case s of CHR ''+'' # t \<Rightarrow> t | _ \<Rightarrow> s) in
      if ds \<noteq> [] \<and> list_all is_digit ds \<and> read_digits ds < 2 ^ 32 then Some (read_digits ds) else None)"

definition line_in_range :: "uuid \<Rightarrow> naive_date \<Rightarrow> naive_date \<Rightarrow> journal_line_row \<Rightarrow> bool" where
  "line_in_range e from till r \<longleftrightarrow>
     row_entity_id r = e \<and> from \<le> row_entry_date r \<and> row_entry_date r \<le> till"

definition row_net :: "journal_line_row \<Rightarrow> decimal" where
  "row_net r = unwrap_or (functional_debit (row_line r)) 0 - unwrap_or (functional_credit (row_line r)) 0"

definition pnl_totals :: "'a ledger_db_scheme \<Rightarrow> uuid \<Rightarrow> naive_date \<Rightarrow> naive_date \<Rightarrow> decimal \<times> decimal" where
  "pnl_totals db e from till =
     (let joined = concat (map (\<lambda>r. map (Pair r)
            (filter (\<lambda>a. ac_entity_id a = row_entity_id r \<and> ac_code a = jl_account (row_line r)) (accounts db)))
          (filter (line_in_range e from till) (journal_lines db))) in
      (sum_where (\<lambda>(r, a). is_revenue_type (ac_account_type a)) (\<lambda>(r, a). - row_net r) joined,
       sum_where (\<lambda>(r, a). is_expense_type (ac_account_type a)) (\<lambda>(r, a). row_net r) joined))"

definition profit_and_loss_period ::
    "'a ledger_db_scheme \<Rightarrow> uuid \<Rightarrow> naive_date \<Rightarrow> naive_date \<Rightarrow> profit_and_loss_report" where
  "profit_and_loss_period db e from till =
     (let lines = filter (line_in_range e from till) (journal_lines db);
          balance = (\<lambda>a. sum_where (\<lambda>r. jl_account (row_line r) = ac_code a) row_net lines);
          rows = filter (\<lambda>a. (is_revenue_type (ac_account_type a) \<or> is_expense_type (ac_account_type a))
              \<and> ac_code a \<in> set (map (\<lambda>r. jl_account (row_line r)) lines) \<and> balance a \<noteq> 0)
            (entity_accounts db e);
          code_num = (\<lambda>a. unwrap_or (parse_u32 (ac_code a)) 0);
          is_cogs = (\<lambda>a. 6000 \<le> code_num a \<and> code_num a < 7000);
          is_opex = (\<lambda>a. 7000 \<le> code_num a \<and> code_num a < 8000);
          revenue = map (\<lambda>a. statement_line_of a (- balance a))
            (filter (\<lambda>a. is_revenue_type (ac_account_type a)) rows);
          expense = filter (\<lambda>a. is_expense_type (ac_account_type a)) rows;
          cogs = map (\<lambda>a. statement_line_of a (balance a)) (filter is_cogs expense);
          opex = map (\<lambda>a. statement_line_of a (balance a))
            (filter (\<lambda>a. \<not> is_cogs a \<and> is_opex a) expense);
          other = map (\<lambda>a. statement_line_of a (balance a))
            (filter (\<lambda>a. \<not> is_cogs a \<and> \<not> is_opex a) expense);
          tr = sum_list (map sl_amount revenue); tc = sum_list (map sl_amount cogs);
          gp = tr - tc; tox = sum_list (map sl_amount opex); op = gp - tox;
          tot = sum_list (map sl_amount other) in
      \<lparr>pl_period_from = from, pl_period_to = till, pl_revenue = one_section ''Revenue'' revenue,
       cost_of_sales = one_section ''Cost of Sales'' cogs,
       operating_expenses = one_section ''Operating Expenses'' opex,
       other_income_expense = one_section ''Other'' other,
       total_revenue = tr, total_cost_of_sales = tc, gross_profit = gp,
       total_operating_expenses = tox, operating_profit = op, net_profit = op - tot,
       comparative_from = None, comparative_to = None, total_revenue_comparative = None,
       gross_profit_comparative = None, operating_profit_comparative = None,
       net_profit_comparative = None\<rparr>)"

definition profit_and_loss ::
    "calendar \<Rightarrow> environment \<Rightarrow> 'a ledger_db_scheme \<Rightarrow> uuid \<Rightarrow> report_parameters \<Rightarrow> profit_and_loss_report" where
  "profit_and_loss C E db e params =
     (let from = unwrap_or (rp_period_from params) (the (from_ymd_opt C (year C (today E)) 1 1));
          till = unwrap_or (rp_period_to params) (today E);
          report = profit_and_loss_period db e from till in
      if rp_comparative params = Some True
      then (let cfrom = prior_year C from; cto = prior_year C till;
                cmp = profit_and_loss_period db e cfrom cto;
                prior = section_amounts (pl_revenue cmp @ cost_of_sales cmp @ operating_expenses cmp
                  @ other_income_expense cmp) in
            report\<lparr>comparative_from := Some cfrom, comparative_to := Some cto,
              total_revenue_comparative := Some (total_revenue cmp),
              gross_profit_comparative := Some (gross_profit cmp),
              operating_profit_comparative := Some (operating_profit cmp),
              net_profit_comparative := Some (net_profit cmp),
              pl_revenue := attach_comparative prior (pl_revenue report),
              cost_of_sales := attach_comparative prior (cost_of_sales report),
              operating_expenses := attach_comparative prior (operating_expenses report),
              other_income_expense := attach_comparative prior (other_income_expense report)\<rparr>)
      else report)"

section \<open>VAT return\<close>

record vat_return_report =
  vr_period_from :: naive_date
  vr_period_to :: naive_date
  output_vat :: decimal
  input_vat :: decimal
  net_vat :: decimal
  is_payable :: bool
  vat_output_accounts :: string
  vat_input_accounts :: string

definition account_range_movement ::
    "'a ledger_db_scheme \<Rightarrow> uuid \<Rightarrow> account_code \<Rightarrow> naive_date \<Rightarrow> naive_date \<Rightarrow> decimal \<times> decimal" where
  "account_range_movement db e code from till =
     (sum_where (\<lambda>r. line_in_range e from till r \<and> jl_account (row_line r) = code)
        (\<lambda>r. unwrap_or (functional_debit (row_line r)) 0) (journal_lines db),
      sum_where (\<lambda>r. line_in_range e from till r \<and> jl_account (row_line r) = code)
        (\<lambda>r. unwrap_or (functional_credit (row_line r)) 0) (journal_lines db))"

definition not_blank :: "string \<Rightarrow> bool" where
  "not_blank s \<longleftrightarrow> \<not> list_all (\<lambda>c. c \<in> set [CHR '' '', CHR 0x09, CHR 0x0A, CHR 0x0B, CHR 0x0C, CHR 0x0D]) s"

text \<open>The tenant's rows of \<open>vat_posting_matrix\<close> are an argument.\<close>

definition vat_accounts :: "account_code \<Rightarrow> account_code option list \<Rightarrow> account_code list" where
  "vat_accounts flat routed =
     remdups (sort (flat # filter not_blank (List.map_filter (\<lambda>x. x) routed)))"

definition vat_return ::
    "calendar \<Rightarrow> environment \<Rightarrow> 'a ledger_db_scheme \<Rightarrow> uuid
      \<Rightarrow> (account_code option \<times> account_code option) list \<Rightarrow> report_parameters \<Rightarrow> vat_return_report" where
  "vat_return C E db e matrix params =
     (let from = unwrap_or (rp_period_from params) (the (from_ymd_opt C (year C (today E)) 1 1));
          till = unwrap_or (rp_period_to params) (today E);
          outs = vat_accounts (vat_output (posting (configs db e))) (map fst matrix);
          ins = vat_accounts (vat_input (posting (configs db e))) (map snd matrix);
          ov = sum_list (map (\<lambda>a. snd (account_range_movement db e a from till)
              - fst (account_range_movement db e a from till)) outs);
          iv = sum_list (map (\<lambda>a. fst (account_range_movement db e a from till)
              - snd (account_range_movement db e a from till)) ins);
          nv = ov - iv in
      \<lparr>vr_period_from = from, vr_period_to = till, output_vat = ov, input_vat = iv, net_vat = nv,
       is_payable = (0 < nv), vat_output_accounts = join_with '', '' outs,
       vat_input_accounts = join_with '', '' ins\<rparr>)"

end
