(* ===== verification/Reporting_Correct.thy ===== *)
theory Reporting_Correct
  imports Reporting Journal_Correct "HOL-Library.Multiset"
begin

text \<open>
  The reports agree with the ledger: the as-at query over snapshots and tail computes the sums
  of all lines up to the date, and the totals of trial balance, balance sheet and profit and
  loss follow from it.
\<close>

section \<open>Sums over disjoint classes\<close>

lemma sum_list_one:
  assumes "distinct ps" and "\<And>p q. p \<in> set ps \<Longrightarrow> q \<in> set ps \<Longrightarrow> R p \<Longrightarrow> R q \<Longrightarrow> p = q"
  shows "sum_list (map (\<lambda>p. if R p then v else 0) ps) = (if \<exists>p \<in> set ps. R p then v else (0::decimal))"
  using assms
proof (induction ps)
  case Nil
  then show ?case by simp
next
  case (Cons p ps)
  show ?case
  proof (cases "R p")
    case True
    with Cons.prems have "\<forall>q \<in> set ps. \<not> R q" by auto
    then have "sum_list (map (\<lambda>p. if R p then v else 0) ps) = 0" by (intro sum_list_all_zero) auto
    with True show ?thesis by simp
  next
    case False
    with Cons show ?thesis by simp
  qed
qed

lemma sum_where_disjoint:
  assumes "distinct ps"
    and "\<And>x p q. x \<in> set xs \<Longrightarrow> p \<in> set ps \<Longrightarrow> q \<in> set ps \<Longrightarrow> R p x \<Longrightarrow> R q x \<Longrightarrow> p = q"
  shows "sum_list (map (\<lambda>p. sum_where (\<lambda>x. Q x \<and> R p x) f xs) ps)
    = sum_where (\<lambda>x. Q x \<and> (\<exists>p \<in> set ps. R p x)) f xs"
  using assms(2)
proof (induction xs)
  case Nil
  then show ?case by (simp add: sum_list_0)
next
  case (Cons x xs)
  have "sum_list (map (\<lambda>p. if Q x \<and> R p x then f x else 0) ps)
      = (if Q x \<and> (\<exists>p \<in> set ps. R p x) then f x else 0)"
    using sum_list_one [OF assms(1), of "\<lambda>p. R p x" "f x"] Cons.prems [of x]
    by (cases "Q x") (auto simp: sum_list_0)
  moreover have "sum_list (map (\<lambda>p. sum_where (\<lambda>x. Q x \<and> R p x) f xs) ps)
      = sum_where (\<lambda>x. Q x \<and> (\<exists>p \<in> set ps. R p x)) f xs"
    by (rule Cons.IH, rule Cons.prems) simp_all
  ultimately show ?case by (simp add: sum_list_addf)
qed

section \<open>The as-at query\<close>

definition ledger_sum :: "'a ledger_db_scheme \<Rightarrow> uuid \<Rightarrow> account_code \<Rightarrow> naive_date \<Rightarrow> (journal_line_row \<Rightarrow> decimal) \<Rightarrow> decimal" where
  "ledger_sum db e c d f = sum_where (\<lambda>r. on_account c r \<and> row_entity_id r = e \<and> row_entry_date r \<le> d)
     f (journal_lines db)"

lemma asat_rows_sums:
  "sum_where (\<lambda>(a, _, _). a = c) (\<lambda>(_, x, _). x) (asat_rows db e d)
    = sum_where (\<lambda>b. pb_entity_id b = e \<and> pb_account b = c \<and> pb_period_end b \<le> d) debit_total (account_period_balances db)
      + sum_where (\<lambda>r. on_account c r \<and> row_entity_id r = e \<and> row_entry_date r \<le> d \<and> asat_cutoff db e d < row_entry_date r)
          line_debit (journal_lines db)"
  "sum_where (\<lambda>(a, _, _). a = c) (\<lambda>(_, _, x). x) (asat_rows db e d)
    = sum_where (\<lambda>b. pb_entity_id b = e \<and> pb_account b = c \<and> pb_period_end b \<le> d) credit_total (account_period_balances db)
      + sum_where (\<lambda>r. on_account c r \<and> row_entity_id r = e \<and> row_entry_date r \<le> d \<and> asat_cutoff db e d < row_entry_date r)
          line_credit (journal_lines db)"
proof -
  have two: "sum_where p f (map g (filter q xs)) = sum_where (\<lambda>x. q x \<and> p (g x)) (f \<circ> g) xs"
    for p :: "'x \<Rightarrow> bool" and f g q and xs :: "'y list"
    by (induction xs) auto
  show "sum_where (\<lambda>(a, _, _). a = c) (\<lambda>(_, x, _). x) (asat_rows db e d)
    = sum_where (\<lambda>b. pb_entity_id b = e \<and> pb_account b = c \<and> pb_period_end b \<le> d) debit_total (account_period_balances db)
      + sum_where (\<lambda>r. on_account c r \<and> row_entity_id r = e \<and> row_entry_date r \<le> d \<and> asat_cutoff db e d < row_entry_date r)
          line_debit (journal_lines db)"
    by (simp add: asat_rows_def two comp_def on_account_def line_debit_def [abs_def] conj_ac)
  show "sum_where (\<lambda>(a, _, _). a = c) (\<lambda>(_, _, x). x) (asat_rows db e d)
    = sum_where (\<lambda>b. pb_entity_id b = e \<and> pb_account b = c \<and> pb_period_end b \<le> d) credit_total (account_period_balances db)
      + sum_where (\<lambda>r. on_account c r \<and> row_entity_id r = e \<and> row_entry_date r \<le> d \<and> asat_cutoff db e d < row_entry_date r)
          line_credit (journal_lines db)"
    by (simp add: asat_rows_def two comp_def on_account_def line_credit_def [abs_def] conj_ac)
qed

definition ended_periods :: "'a period_db_scheme \<Rightarrow> uuid \<Rightarrow> naive_date \<Rightarrow> fiscal_period list" where
  "ended_periods db e d = filter (\<lambda>p. fp_entity_id p = e \<and> end_date p \<le> d) (fiscal_periods db)"

lemma asat_cutoff_cases:
  obtains "\<forall>b \<in> set (account_period_balances db). pb_entity_id b = e \<longrightarrow> \<not> pb_period_end b \<le> d"
      "asat_cutoff db e d = day_one"
  | b where "b \<in> set (account_period_balances db)" "pb_entity_id b = e" "pb_period_end b \<le> d"
      "asat_cutoff db e d = pb_period_end b"
      "\<forall>b' \<in> set (account_period_balances db). pb_entity_id b' = e \<longrightarrow> pb_period_end b' \<le> d \<longrightarrow>
        pb_period_end b' \<le> asat_cutoff db e d"
proof (cases "filter (\<lambda>b. pb_entity_id b = e \<and> pb_period_end b \<le> d) (account_period_balances db) = []")
  case True
  then show ?thesis
    by (intro that(1)) (auto simp: filter_empty_conv asat_cutoff_def)
next
  case False
  let ?ends = "pb_period_end ` {b \<in> set (account_period_balances db). pb_entity_id b = e \<and> pb_period_end b \<le> d}"
  have eq: "asat_cutoff db e d = Max ?ends"
    using False by (simp add: asat_cutoff_def Let_def)
  have fin: "finite ?ends" "?ends \<noteq> {}" using False by (auto simp: filter_empty_conv)
  obtain b where "b \<in> set (account_period_balances db)" "pb_entity_id b = e" "pb_period_end b \<le> d"
    "asat_cutoff db e d = pb_period_end b"
    using Max_in [OF fin] unfolding eq by auto
  moreover have "\<forall>b' \<in> set (account_period_balances db). pb_entity_id b' = e \<longrightarrow> pb_period_end b' \<le> d \<longrightarrow>
        pb_period_end b' \<le> asat_cutoff db e d"
    unfolding eq using fin(1) by auto
  ultimately show ?thesis by (rule that(2))
qed

lemma ended_iff_cutoff:
  assumes inv: "ledger_inv db" and r: "r \<in> set (journal_lines db)"
  shows "(\<exists>p \<in> set (ended_periods db e d). in_period p r)
    \<longleftrightarrow> row_entity_id r = e \<and> row_entry_date r \<le> asat_cutoff db e d" (is "?L \<longleftrightarrow> ?R")
proof -
  note P = ledger_invD(1) [OF inv]
  obtain p b where p: "1 < row_entry_date r" "p \<in> set (fiscal_periods db)" "in_period p r"
    and b: "b \<in> set (account_period_balances db)" "pb_entity_id b = row_entity_id r" "pb_period_id b = fp_id p"
    using ledger_invD(2) [OF inv] r unfolding lines_covered_def by blast
  have rows: "\<exists>q \<in> set (fiscal_periods db). fp_id q = pb_period_id x \<and> fp_entity_id q = pb_entity_id x
      \<and> pb_period_end x = end_date q" if "x \<in> set (account_period_balances db)" for x
    using ledger_invD(3) [OF inv] that unfolding snapshots_ok_def by blast
  from rows [OF b(1)] obtain q where "q \<in> set (fiscal_periods db)" "fp_id q = fp_id p"
    "pb_period_end b = end_date q" using b(3) by auto
  with periods_ok_id [OF P _ p(2)] have b_end: "pb_period_end b = end_date p" by metis
  have p_r: "fp_entity_id p = row_entity_id r" "start_date p \<le> row_entry_date r" "row_entry_date r \<le> end_date p"
    using p(3) by (auto simp: in_period_def contains_date_def)
  show ?thesis
  proof
    assume ?L
    then obtain q where q: "q \<in> set (fiscal_periods db)" "fp_entity_id q = e" "end_date q \<le> d" "in_period q r"
      by (auto simp: ended_periods_def)
    with periods_ok_same_day [OF P q(1) p(2)] p_r p(3) have "q = p" by (auto simp: in_period_def)
    have e: "row_entity_id r = e" using q by (simp add: in_period_def)
    show ?R
    proof (cases rule: asat_cutoff_cases [of db e d])
      case 1
      with b(1,2) e q(3) \<open>q = p\<close> b_end show ?thesis by auto
    next
      case (2 b')
      with b(1,2) e q(3) \<open>q = p\<close> b_end have "end_date p \<le> asat_cutoff db e d" by auto
      with p_r(3) e show ?thesis by simp
    qed
  next
    assume R: ?R
    show ?L
    proof (cases rule: asat_cutoff_cases [of db e d])
      case 1
      with R p(1) show ?thesis by (simp add: day_one_def)
    next
      case (2 b')
      from rows [OF 2(1)] obtain q where q: "q \<in> set (fiscal_periods db)" "fp_entity_id q = e"
        "end_date q = asat_cutoff db e d" using 2(2,4) by auto
      have "end_date p \<le> d"
      proof (cases "p = q")
        case True
        with q(3) 2(3,4) show ?thesis by simp
      next
        case False
        with P p(2) q(1) have "periods_apart p q" by (auto simp: periods_ok_def)
        with R q p_r periods_okD [OF P q(1)] 2(3,4) show ?thesis by (auto simp: periods_apart_def)
      qed
      with p(2,3) p_r(1) R show ?thesis by (auto simp: ended_periods_def)
    qed
  qed
qed

lemma snapshot_part:
  assumes inv: "ledger_inv db"
    and row: "\<And>p. p \<in> set (fiscal_periods db) \<Longrightarrow>
      sum_where (\<lambda>b. pb_entity_id b = fp_entity_id p \<and> pb_account b = c \<and> pb_period_id b = fp_id p) f
        (account_period_balances db)
      = sum_where (\<lambda>r. on_account c r \<and> in_period p r) g (journal_lines db)"
  shows "sum_where (\<lambda>b. pb_entity_id b = e \<and> pb_account b = c \<and> pb_period_end b \<le> d) f (account_period_balances db)
    = sum_where (\<lambda>r. on_account c r \<and> row_entity_id r = e \<and> row_entry_date r \<le> asat_cutoff db e d) g (journal_lines db)"
proof -
  let ?ps = "ended_periods db e d" and ?bs = "account_period_balances db"
  note P = ledger_invD(1) [OF inv]
  have sub: "p \<in> set (fiscal_periods db)" "fp_entity_id p = e" "end_date p \<le> d" if "p \<in> set ?ps" for p
    using that by (auto simp: ended_periods_def)
  have rows: "\<exists>q \<in> set (fiscal_periods db). fp_id q = pb_period_id x \<and> fp_entity_id q = pb_entity_id x
      \<and> pb_period_end x = end_date q" if "x \<in> set ?bs" for x
    using ledger_invD(3) [OF inv] that unfolding snapshots_ok_def by blast
  have dist: "distinct (map fp_id ?ps)" "distinct ?ps"
  proof -
    have ids: "distinct (map fp_id (fiscal_periods db))" using P by (simp add: periods_ok_def)
    then show "distinct (map fp_id ?ps)" unfolding ended_periods_def by (rule distinct_map_filter)
    then show "distinct ?ps" by (simp add: distinct_map)
  qed
  have ended: "pb_period_end b \<le> d \<longleftrightarrow> pb_period_id b \<in> set (map fp_id ?ps)"
    if b: "b \<in> set ?bs" "pb_entity_id b = e" for b
  proof -
    from rows [OF b(1)] obtain q where q: "q \<in> set (fiscal_periods db)" "fp_id q = pb_period_id b"
      "fp_entity_id q = pb_entity_id b" "pb_period_end b = end_date q" by blast
    have "pb_period_id b \<in> set (map fp_id ?ps) \<longleftrightarrow> q \<in> set ?ps"
    proof
      assume "pb_period_id b \<in> set (map fp_id ?ps)"
      then obtain p where "p \<in> set ?ps" "fp_id p = pb_period_id b" by auto
      with sub(1) [of p] q(1,2) periods_ok_id [OF P, of p q] show "q \<in> set ?ps" by simp
    next
      assume "q \<in> set ?ps"
      then show "pb_period_id b \<in> set (map fp_id ?ps)" using q(2) by force
    qed
    with q b(2) show ?thesis by (auto simp: ended_periods_def)
  qed
  have "sum_where (\<lambda>b. pb_entity_id b = e \<and> pb_account b = c \<and> pb_period_end b \<le> d) f ?bs
      = sum_where (\<lambda>b. (pb_entity_id b = e \<and> pb_account b = c) \<and> pb_period_id b \<in> set (map fp_id ?ps)) f ?bs"
    using ended by (intro sum_where_cong) auto
  also have "\<dots> = sum_list (map (\<lambda>k. sum_where (\<lambda>b. (pb_entity_id b = e \<and> pb_account b = c)
      \<and> pb_period_id b = k) f ?bs) (map fp_id ?ps))"
    by (rule sum_where_group_by [OF dist(1), symmetric])
  also have "\<dots> = sum_list (map (\<lambda>p. sum_where (\<lambda>r. on_account c r \<and> in_period p r) g (journal_lines db)) ?ps)"
  proof -
    have "sum_where (\<lambda>b. (pb_entity_id b = e \<and> pb_account b = c) \<and> pb_period_id b = fp_id p) f ?bs
        = sum_where (\<lambda>r. on_account c r \<and> in_period p r) g (journal_lines db)" if "p \<in> set ?ps" for p
      using row [OF sub(1) [OF that]] sub(2) [OF that] by (simp add: conj_assoc)
    then show ?thesis by (simp add: comp_def cong: map_cong)
  qed
  also have "\<dots> = sum_where (\<lambda>r. on_account c r \<and> (\<exists>p \<in> set ?ps. in_period p r)) g (journal_lines db)"
  proof (rule sum_where_disjoint [OF dist(2)])
    fix r p q assume "p \<in> set ?ps" "q \<in> set ?ps" "in_period p r" "in_period q r"
    with periods_ok_same_day [OF P sub(1) sub(1), of p q] show "p = q" by (auto simp: in_period_def)
  qed
  also have "\<dots> = sum_where (\<lambda>r. on_account c r \<and> row_entity_id r = e
      \<and> row_entry_date r \<le> asat_cutoff db e d) g (journal_lines db)"
    using ended_iff_cutoff [OF inv] by (intro sum_where_cong) auto
  finally show ?thesis .
qed

lemma asat_sums:
  assumes inv: "ledger_inv db"
  shows "sum_where (\<lambda>(a, _, _). a = c) (\<lambda>(_, x, _). x) (asat_rows db e d) = ledger_sum db e c d line_debit"
    and "sum_where (\<lambda>(a, _, _). a = c) (\<lambda>(_, _, x). x) (asat_rows db e d) = ledger_sum db e c d line_credit"
proof -
  have snap: "snap_debit (account_period_balances db) (fp_entity_id p) c (fp_id p)
          = sum_where (\<lambda>r. on_account c r \<and> in_period p r) line_debit (journal_lines db)"
    "snap_credit (account_period_balances db) (fp_entity_id p) c (fp_id p)
          = sum_where (\<lambda>r. on_account c r \<and> in_period p r) line_credit (journal_lines db)"
    if "p \<in> set (fiscal_periods db)" for p
    using ledger_invD(3) [OF inv] that unfolding snapshots_ok_def by blast+
  have below: "row_entry_date r \<le> asat_cutoff db e d \<Longrightarrow> row_entry_date r \<le> d"
    if "r \<in> set (journal_lines db)" for r
  proof (cases rule: asat_cutoff_cases [of db e d])
    case 1
    moreover have "1 < row_entry_date r" using ledger_invD(2) [OF inv] that by (auto simp: lines_covered_def)
    moreover assume "row_entry_date r \<le> asat_cutoff db e d"
    ultimately show ?thesis by (simp add: day_one_def)
  next
    case (2 b)
    moreover assume "row_entry_date r \<le> asat_cutoff db e d"
    ultimately show ?thesis by simp
  qed
  have split: "ledger_sum db e c d f
      = sum_where (\<lambda>r. on_account c r \<and> row_entity_id r = e \<and> row_entry_date r \<le> asat_cutoff db e d) f (journal_lines db)
      + sum_where (\<lambda>r. on_account c r \<and> row_entity_id r = e \<and> row_entry_date r \<le> d
          \<and> asat_cutoff db e d < row_entry_date r) f (journal_lines db)" for f
    unfolding ledger_sum_def
    by (subst sum_where_split [of _ _ _ "\<lambda>r. row_entry_date r \<le> asat_cutoff db e d"],
        intro arg_cong2 [where f = "(+)"] sum_where_cong) (use below in auto)
  show "sum_where (\<lambda>(a, _, _). a = c) (\<lambda>(_, x, _). x) (asat_rows db e d) = ledger_sum db e c d line_debit"
    unfolding asat_rows_sums split
    by (simp add: snapshot_part [OF inv snap(1) [unfolded snap_debit_def]])
  show "sum_where (\<lambda>(a, _, _). a = c) (\<lambda>(_, _, x). x) (asat_rows db e d) = ledger_sum db e c d line_credit"
    unfolding asat_rows_sums split
    by (simp add: snapshot_part [OF inv snap(2) [unfolded snap_credit_def]])
qed

lemma map_of_keyed: "map_of (map (\<lambda>c. (c, f c)) cs) c = (if c \<in> set cs then Some (f c) else None)"
  by (induction cs) auto

lemma asat_movement:
  assumes "ledger_inv db"
  shows "movement_of (asat_movements db e d) c = (ledger_sum db e c d line_debit, ledger_sum db e c d line_credit)"
proof -
  have "c \<notin> set (map fst (asat_rows db e d)) \<Longrightarrow>
      sum_where (\<lambda>(a, _, _). a = c) f (asat_rows db e d) = 0" for f
    by (rule sum_where_none) (force simp: image_iff)
  then show ?thesis
    using asat_sums [OF assms, of c e d]
    by (auto simp: movement_of_def asat_movements_def Let_def map_of_keyed simp del: set_map)
qed

section \<open>The ledger sums to zero\<close>

lemma row_net_eq: "row_net r = line_debit r - line_credit r"
  by (simp add: row_net_def line_debit_def line_credit_def)

lemma row_net_sum:
  "sum_where q row_net rs = sum_where q line_debit rs - sum_where q line_credit rs"
  unfolding row_net_eq [abs_def] by (rule sum_where_diff)

lemma ledger_total_zero:
  assumes inv: "ledger_inv db"
  shows "sum_where (\<lambda>r. Q (row_entity_id r) (row_entry_date r)) row_net (journal_lines db) = 0"
proof -
  let ?ks = "map je_id (journal_entries db)"
  have dist: "distinct ?ks" using ledger_invD(5) [OF inv] by (simp add: entries_balanced_def)
  have linked: "\<exists>x \<in> set (journal_entries db). je_id x = row_entry_id r
      \<and> je_entity_id x = row_entity_id r \<and> je_date x = row_entry_date r" if "r \<in> set (journal_lines db)" for r
    using ledger_invD(4) [OF inv] that unfolding lines_linked_def by blast
  have group: "sum_where (\<lambda>r. Q (row_entity_id r) (row_entry_date r) \<and> row_entry_id r = je_id x)
      row_net (journal_lines db) = 0" if x: "x \<in> set (journal_entries db)" for x
  proof -
    have same: "row_entity_id r = je_entity_id x \<and> row_entry_date r = je_date x"
      if "r \<in> set (journal_lines db)" "row_entry_id r = je_id x" for r
      using linked [OF that(1)] that(2) x dist by (metis distinct_map inj_onD)
    show ?thesis
    proof (cases "Q (je_entity_id x) (je_date x)")
      case True
      then have "sum_where (\<lambda>r. Q (row_entity_id r) (row_entry_date r) \<and> row_entry_id r = je_id x)
          row_net (journal_lines db) = sum_where (\<lambda>r. row_entry_id r = je_id x) row_net (journal_lines db)"
        using same by (intro sum_where_cong) auto
      also have "\<dots> = 0"
        using ledger_invD(5) [OF inv] x by (simp add: row_net_sum entries_balanced_def)
      finally show ?thesis .
    next
      case False
      then show ?thesis using same by (intro sum_where_none) auto
    qed
  qed
  have "sum_where (\<lambda>r. Q (row_entity_id r) (row_entry_date r)) row_net (journal_lines db)
      = sum_where (\<lambda>r. Q (row_entity_id r) (row_entry_date r) \<and> row_entry_id r \<in> set ?ks) row_net (journal_lines db)"
    using linked by (intro sum_where_cong) force+
  also have "\<dots> = sum_list (map (\<lambda>k. sum_where (\<lambda>r. Q (row_entity_id r) (row_entry_date r)
      \<and> row_entry_id r = k) row_net (journal_lines db)) ?ks)"
    by (rule sum_where_group_by [OF dist, symmetric])
  also have "\<dots> = 0" by (rule sum_list_all_zero) (use group in auto)
  finally show ?thesis .
qed

section \<open>Summing over the chart\<close>

definition ledger_net :: "'a ledger_db_scheme \<Rightarrow> uuid \<Rightarrow> account_code \<Rightarrow> naive_date \<Rightarrow> decimal" where
  "ledger_net db e c d = ledger_sum db e c d row_net"

lemma ledger_net_eq: "ledger_net db e c d = ledger_sum db e c d line_debit - ledger_sum db e c d line_credit"
  by (simp add: ledger_net_def ledger_sum_def row_net_sum)

lemma sum_list_sort_key: "sum_list (map f (sort_key k xs)) = (sum_list (map f xs) :: decimal)"
  by (metis mset_map mset_sort sum_mset_sum_list)

lemma sum_list_filter_zero:
  "(\<And>x. x \<in> set xs \<Longrightarrow> \<not> P x \<Longrightarrow> f x = 0) \<Longrightarrow> sum_list (map f (filter P xs)) = (sum_list (map f xs) :: decimal)"
  by (induction xs) auto

lemma chart_nets_zero:
  assumes inv: "ledger_inv db" and dist: "distinct cs"
    and all: "\<forall>r \<in> set (journal_lines db). row_entity_id r = e \<longrightarrow> row_entry_date r \<le> d \<longrightarrow>
      jl_account (row_line r) \<in> set cs"
  shows "sum_list (map (\<lambda>c. ledger_net db e c d) cs) = 0"
proof -
  have "sum_list (map (\<lambda>c. ledger_net db e c d) cs)
      = sum_list (map (\<lambda>c. sum_where (\<lambda>r. (row_entity_id r = e \<and> row_entry_date r \<le> d)
          \<and> jl_account (row_line r) = c) row_net (journal_lines db)) cs)"
    by (simp add: ledger_net_def ledger_sum_def on_account_def conj_ac)
  also have "\<dots> = sum_where (\<lambda>r. (row_entity_id r = e \<and> row_entry_date r \<le> d)
      \<and> jl_account (row_line r) \<in> set cs) row_net (journal_lines db)"
    by (rule sum_where_group_by [OF dist])
  also have "\<dots> = sum_where (\<lambda>r. row_entity_id r = e \<and> row_entry_date r \<le> d) row_net (journal_lines db)"
    using all by (intro sum_where_cong) auto
  also have "\<dots> = 0"
    using ledger_total_zero [OF inv, of "\<lambda>x t. x = e \<and> t \<le> d"] by simp
  finally show ?thesis .
qed

section \<open>The reports in closed form\<close>

definition typed_accounts :: "'a chart_db_scheme \<Rightarrow> uuid \<Rightarrow> (string \<Rightarrow> bool) \<Rightarrow> account list" where
  "typed_accounts db e P = filter (\<lambda>a. P (ac_account_type a)) (entity_accounts db e)"

lemma trial_balance_difference:
  assumes inv: "ledger_inv db"
  shows "tb_difference (trial_balance E db e params)
    = sum_list (map (\<lambda>a. ledger_net db e (ac_code a) (unwrap_or (rp_as_at params) (today E)))
        (filter ac_is_active (entity_accounts db e)))"
proof -
  let ?d = "unwrap_or (rp_as_at params) (today E)"
  let ?m = "\<lambda>a. movement_of (asat_movements db e ?d) (ac_code a)"
  have m: "?m a = (ledger_sum db e (ac_code a) ?d line_debit, ledger_sum db e (ac_code a) ?d line_credit)" for a
    by (rule asat_movement [OF inv])
  have diff: "sum_list (map closing_debit (map (\<lambda>a. trial_balance_line_of a (?m a)) as))
      - sum_list (map closing_credit (map (\<lambda>a. trial_balance_line_of a (?m a)) as))
      = sum_list (map (\<lambda>a. fst (?m a) - snd (?m a)) as)" for as
    by (induction as) (auto simp: trial_balance_line_of_def Let_def)
  have "tb_difference (trial_balance E db e params)
      = sum_list (map (\<lambda>a. fst (?m a) - snd (?m a)) (filter (\<lambda>a. ac_is_active a
          \<and> (fst (?m a) \<noteq> 0 \<or> snd (?m a) \<noteq> 0)) (entity_accounts db e)))"
    unfolding diff [symmetric] by (simp add: trial_balance_def Let_def)
  also have "\<dots> = sum_list (map (\<lambda>a. fst (?m a) - snd (?m a)) (filter ac_is_active (entity_accounts db e)))"
  proof -
    have "filter (\<lambda>a. ac_is_active a \<and> (fst (?m a) \<noteq> 0 \<or> snd (?m a) \<noteq> 0)) (entity_accounts db e)
        = filter (\<lambda>a. fst (?m a) \<noteq> 0 \<or> snd (?m a) \<noteq> 0) (filter ac_is_active (entity_accounts db e))"
      by (simp add: conj_commute)
    then show ?thesis by (simp only:) (rule sum_list_filter_zero, simp)
  qed
  also have "\<dots> = sum_list (map (\<lambda>a. ledger_net db e (ac_code a) ?d) (filter ac_is_active (entity_accounts db e)))"
    by (simp add: m ledger_net_eq)
  finally show ?thesis .
qed

lemma entity_codes_distinct:
  assumes "codes_unique db"
  shows "distinct (map ac_code (entity_accounts db e))"
proof -
  let ?as = "filter (\<lambda>a. ac_entity_id a = e) (accounts db)"
  have keys: "distinct (map account_key ?as)"
    using assms unfolding codes_unique_def by (rule distinct_map_filter)
  have "distinct (map ac_code ?as)"
    unfolding distinct_map
  proof
    show "distinct ?as" using keys by (simp add: distinct_map)
    show "inj_on ac_code (set ?as)"
    proof (rule inj_onI)
      fix a b assume ab: "a \<in> set ?as" "b \<in> set ?as" "ac_code a = ac_code b"
      then have "account_key a = account_key b" by (simp add: account_key_def)
      with keys ab(1,2) show "a = b" unfolding distinct_map by (meson inj_onD)
    qed
  qed
  then have "distinct (map ac_code (sort_key ac_code ?as))"
    unfolding distinct_map by (simp only: distinct_sort set_sort)
  then show ?thesis by (simp only: entity_accounts_def)
qed

text \<open>The lines a report leaves out: those of the tenant, up to the date, that are on no account of
  the kind the report shows.\<close>

definition on_shown :: "'a chart_db_scheme \<Rightarrow> uuid \<Rightarrow> (account \<Rightarrow> bool) \<Rightarrow> account_code \<Rightarrow> bool" where
  "on_shown db e P c \<longleftrightarrow> (\<exists>a \<in> set (accounts db). ac_entity_id a = e \<and> ac_code a = c \<and> P a)"

definition left_out :: "'a ledger_db_scheme \<Rightarrow> uuid \<Rightarrow> (account \<Rightarrow> bool) \<Rightarrow> naive_date \<Rightarrow> decimal" where
  "left_out db e P d = sum_where (\<lambda>r. row_entity_id r = e \<and> row_entry_date r \<le> d
     \<and> \<not> on_shown db e P (jl_account (row_line r))) row_net (journal_lines db)"

lemma left_out_none:
  assumes "\<forall>r \<in> set (journal_lines db). row_entity_id r = e \<longrightarrow> on_shown db e P (jl_account (row_line r))"
  shows "left_out db e P d = 0"
  unfolding left_out_def by (rule sum_where_none) (use assms in auto)

lemma shown_total:
  assumes inv: "ledger_inv db" and uniq: "codes_unique db"
  shows "sum_list (map (\<lambda>a. ledger_net db e (ac_code a) d) (filter P (entity_accounts db e))) = - left_out db e P d"
proof -
  let ?cs = "map ac_code (filter P (entity_accounts db e))"
  have dist: "distinct ?cs" using entity_codes_distinct [OF uniq] by (rule distinct_map_filter)
  have mem: "c \<in> set ?cs \<longleftrightarrow> on_shown db e P c" for c
    by (auto simp: on_shown_def entity_accounts_def)
  let ?all = "\<lambda>r. row_entity_id r = e \<and> row_entry_date r \<le> d"
  have "sum_list (map (\<lambda>c. ledger_net db e c d) ?cs)
      = sum_list (map (\<lambda>c. sum_where (\<lambda>r. ?all r \<and> jl_account (row_line r) = c) row_net (journal_lines db)) ?cs)"
    by (simp add: ledger_net_def ledger_sum_def on_account_def conj_ac)
  also have "\<dots> = sum_where (\<lambda>r. ?all r \<and> jl_account (row_line r) \<in> set ?cs) row_net (journal_lines db)"
    by (rule sum_where_group_by [OF dist])
  also have "\<dots> = sum_where (\<lambda>r. ?all r \<and> on_shown db e P (jl_account (row_line r))) row_net (journal_lines db)"
    unfolding mem ..
  also have "\<dots> = sum_where ?all row_net (journal_lines db) - left_out db e P d"
    using sum_where_split [of ?all row_net "journal_lines db" "\<lambda>r. on_shown db e P (jl_account (row_line r))"]
    by (simp add: left_out_def conj_assoc)
  also have "sum_where ?all row_net (journal_lines db) = 0"
    using ledger_total_zero [OF inv, of "\<lambda>x t. x = e \<and> t \<le> d"] by simp
  finally show ?thesis by (simp add: comp_def)
qed

section \<open>Balance sheet and profit and loss in closed form\<close>

lemma movements_fst_distinct: "distinct (map fst (asat_movements db e d))"
  by (simp add: asat_movements_def Let_def comp_def)

lemma movements_sum_accounts:
  assumes "distinct (map fst ms)"
  shows "sum_list (map (\<lambda>(c, d, cr). sum_where (\<lambda>a. ac_code a = c \<and> P a) (\<lambda>_. d - cr) as) ms)
    = sum_list (map (\<lambda>a. fst (movement_of ms (ac_code a)) - snd (movement_of ms (ac_code a))) (filter P as))"
  using assms
proof (induction "as")
  case Nil
  then show ?case by (simp add: sum_list_0 case_prod_unfold)
next
  case (Cons a as)
  have one: "sum_list (map (\<lambda>(c, d, cr). if ac_code a = c \<and> P a then d - cr else 0) ms)
      = (if P a then fst (movement_of ms (ac_code a)) - snd (movement_of ms (ac_code a)) else 0)"
    using Cons.prems
  proof (induction ms)
    case Nil
    then show ?case by (simp add: movement_of_def)
  next
    case (Cons m ms)
    obtain c d cr where m: "m = (c, d, cr)" by (cases m) auto
    show ?case
    proof (cases "ac_code a = c")
      case True
      with Cons.prems m have "\<forall>x \<in> set ms. fst x \<noteq> ac_code a" by (force simp: image_iff)
      then have "sum_list (map (\<lambda>(c, d, cr). if ac_code a = c \<and> P a then d - cr else 0) ms) = 0"
        by (intro sum_list_all_zero) auto
      with True m show ?thesis by (simp add: movement_of_def)
    next
      case False
      with Cons m show ?thesis by (simp add: movement_of_def)
    qed
  qed
  have "sum_list (map (\<lambda>(c, d, cr). sum_where (\<lambda>a. ac_code a = c \<and> P a) (\<lambda>_. d - cr) (a # as)) ms)
      = sum_list (map (\<lambda>(c, d, cr). if ac_code a = c \<and> P a then d - cr else 0) ms)
        + sum_list (map (\<lambda>(c, d, cr). sum_where (\<lambda>a. ac_code a = c \<and> P a) (\<lambda>_. d - cr) as) ms)"
    by (simp add: sum_list_addf [symmetric] case_prod_unfold)
  with one Cons show ?case by simp
qed

definition is_pnl_type :: "string \<Rightarrow> bool" where
  "is_pnl_type s \<longleftrightarrow> is_revenue_type s \<or> is_expense_type s"

definition type_net :: "'a ledger_db_scheme \<Rightarrow> uuid \<Rightarrow> (string \<Rightarrow> bool) \<Rightarrow> naive_date \<Rightarrow> decimal" where
  "type_net db e P d = sum_list (map (\<lambda>a. ledger_net db e (ac_code a) d) (typed_accounts db e P))"

lemma balance_sheet_earnings:
  assumes "ledger_inv db"
  shows "current_year_earnings (balance_sheet_at db e d) = - type_net db e is_pnl_type d"
  using movements_sum_accounts [OF movements_fst_distinct, of
      "\<lambda>a. is_revenue_type (ac_account_type a) \<or> is_expense_type (ac_account_type a)" "entity_accounts db e" db e d]
  by (simp add: balance_sheet_at_def Let_def asat_movement [OF assms] ledger_net_eq type_net_def
      typed_accounts_def is_pnl_type_def)

lemma absent_movement: "c \<notin> set (map fst ms) \<Longrightarrow> movement_of ms c = (0, 0)"
  by (simp add: movement_of_def map_of_eq_None_iff [symmetric])

lemma section_total:
  assumes inv: "ledger_inv db" and P: "\<And>s. P s \<Longrightarrow> T s"
  shows "sum_list (map (\<lambda>a. fst (movement_of (asat_movements db e d) (ac_code a))
        - snd (movement_of (asat_movements db e d) (ac_code a)))
      (filter (\<lambda>a. P (ac_account_type a)) (filter (\<lambda>a. ac_is_active a
        \<and> ac_code a \<in> set (map fst (asat_movements db e d)) \<and> T (ac_account_type a)
        \<and> fst (movement_of (asat_movements db e d) (ac_code a))
          - snd (movement_of (asat_movements db e d) (ac_code a)) \<noteq> 0) (entity_accounts db e))))
    = sum_list (map (\<lambda>a. ledger_net db e (ac_code a) d)
        (filter (\<lambda>a. ac_is_active a \<and> P (ac_account_type a)) (entity_accounts db e)))"
proof -
  let ?ms = "asat_movements db e d"
  let ?b = "\<lambda>a. fst (movement_of ?ms (ac_code a)) - snd (movement_of ?ms (ac_code a))"
  let ?Q = "\<lambda>a. ac_code a \<in> set (map fst ?ms) \<and> ?b a \<noteq> 0"
  have b: "?b a = ledger_net db e (ac_code a) d" for a
    by (simp add: asat_movement [OF inv] ledger_net_eq)
  have "filter (\<lambda>a. P (ac_account_type a)) (filter (\<lambda>a. ac_is_active a \<and> ac_code a \<in> set (map fst ?ms)
        \<and> T (ac_account_type a) \<and> ?b a \<noteq> 0) (entity_accounts db e))
      = filter ?Q (filter (\<lambda>a. ac_is_active a \<and> P (ac_account_type a)) (entity_accounts db e))"
    unfolding filter_filter by (rule filter_cong) (use P in auto)
  moreover have "?b a = 0" if "\<not> ?Q a" for a
    using that absent_movement [of "ac_code a" ?ms] by auto
  ultimately have "sum_list (map ?b (filter (\<lambda>a. P (ac_account_type a)) (filter (\<lambda>a. ac_is_active a \<and> ac_code a \<in> set (map fst ?ms)
        \<and> T (ac_account_type a) \<and> ?b a \<noteq> 0) (entity_accounts db e))))
      = sum_list (map ?b (filter (\<lambda>a. ac_is_active a \<and> P (ac_account_type a)) (entity_accounts db e)))"
    by (simp only:) (rule sum_list_filter_zero, blast)
  then show ?thesis unfolding b .
qed

definition shown_net :: "'a ledger_db_scheme \<Rightarrow> uuid \<Rightarrow> (string \<Rightarrow> bool) \<Rightarrow> naive_date \<Rightarrow> decimal" where
  "shown_net db e P d = sum_list (map (\<lambda>a. ledger_net db e (ac_code a) d)
     (filter (\<lambda>a. ac_is_active a \<and> P (ac_account_type a)) (entity_accounts db e)))"

lemma balance_sheet_totals:
  assumes inv: "ledger_inv db"
  shows "total_assets (balance_sheet_at db e d) = shown_net db e is_asset_type d"
    and "total_liabilities (balance_sheet_at db e d) = - shown_net db e is_liability_type d"
    and "total_equity (balance_sheet_at db e d) = - shown_net db e (\<lambda>s. s = ''Equity'') d - type_net db e is_pnl_type d"
proof -
  let ?T = "\<lambda>s. is_asset_type s \<or> is_liability_type s \<or> s = ''Equity''"
  have neg: "sum_list (map (\<lambda>a. - f a) as) = - (sum_list (map f as) :: decimal)" for f :: "account \<Rightarrow> decimal" and "as"
    by (induction "as") auto
  have sec: "(\<And>s. P s \<Longrightarrow> ?T s) \<Longrightarrow> sum_list (map (\<lambda>a. fst (movement_of (asat_movements db e d) (ac_code a))
        - snd (movement_of (asat_movements db e d) (ac_code a)))
      (filter (\<lambda>a. P (ac_account_type a)) (filter (\<lambda>a. ac_is_active a
        \<and> ac_code a \<in> set (map fst (asat_movements db e d)) \<and> ?T (ac_account_type a)
        \<and> fst (movement_of (asat_movements db e d) (ac_code a))
          - snd (movement_of (asat_movements db e d) (ac_code a)) \<noteq> 0) (entity_accounts db e))))
    = shown_net db e P d" for P
    unfolding shown_net_def by (rule section_total [OF inv])
  show "total_assets (balance_sheet_at db e d) = shown_net db e is_asset_type d"
    using sec [of is_asset_type, OF disjI1]
    by (simp add: balance_sheet_at_def Let_def statement_line_of_def comp_def)
  show "total_liabilities (balance_sheet_at db e d) = - shown_net db e is_liability_type d"
    using sec [of is_liability_type, OF disjI2 [OF disjI1]]
    by (simp add: balance_sheet_at_def Let_def statement_line_of_def comp_def neg)
  have earn: "total_equity (balance_sheet_at db e d)
      = sum_list (map (\<lambda>a. - (fst (movement_of (asat_movements db e d) (ac_code a))
        - snd (movement_of (asat_movements db e d) (ac_code a))))
        (filter (\<lambda>a. ac_account_type a = ''Equity'') (filter (\<lambda>a. ac_is_active a
        \<and> ac_code a \<in> set (map fst (asat_movements db e d)) \<and> ?T (ac_account_type a)
        \<and> fst (movement_of (asat_movements db e d) (ac_code a))
          - snd (movement_of (asat_movements db e d) (ac_code a)) \<noteq> 0) (entity_accounts db e))))
      + current_year_earnings (balance_sheet_at db e d)"
    by (simp add: balance_sheet_at_def Let_def statement_line_of_def comp_def)
  show "total_equity (balance_sheet_at db e d) = - shown_net db e (\<lambda>s. s = ''Equity'') d - type_net db e is_pnl_type d"
    unfolding earn balance_sheet_earnings [OF inv] neg
    using sec [of "\<lambda>s. s = ''Equity''", OF disjI2 [OF disjI2]] by simp
qed

text \<open>The accounts whose balances enter the balance sheet: the active ones of its sections, and every
  account of the profit and loss, active or not, in the earnings of the year.\<close>

definition on_balance_sheet :: "account \<Rightarrow> bool" where
  "on_balance_sheet a \<longleftrightarrow> is_pnl_type (ac_account_type a)
     \<or> ac_is_active a \<and> (is_asset_type (ac_account_type a) \<or> is_liability_type (ac_account_type a) \<or> ac_account_type a = ''Equity'')"

lemma balance_sheet_sum:
  assumes inv: "ledger_inv db"
  shows "total_assets (balance_sheet_at db e d) - (total_liabilities (balance_sheet_at db e d) + total_equity (balance_sheet_at db e d))
    = sum_list (map (\<lambda>a. ledger_net db e (ac_code a) d) (filter on_balance_sheet (entity_accounts db e)))"
proof -
  let ?n = "\<lambda>a. ledger_net db e (ac_code a) d"
  have split: "sum_list (map ?n (filter P as)) = sum_list (map (\<lambda>a. if P a then ?n a else 0) as)" for P "as"
    by (induction "as") auto
  have parts: "(if on_balance_sheet a then ?n a else 0)
    = (if ac_is_active a \<and> is_asset_type (ac_account_type a) then ?n a else 0)
      + (if ac_is_active a \<and> is_liability_type (ac_account_type a) then ?n a else 0)
      + (if ac_is_active a \<and> ac_account_type a = ''Equity'' then ?n a else 0)
      + (if is_pnl_type (ac_account_type a) then ?n a else 0)" for a
    by (auto simp: on_balance_sheet_def is_asset_type_def is_liability_type_def is_pnl_type_def is_revenue_type_def
        is_expense_type_def)
  have "sum_list (map ?n (filter on_balance_sheet (entity_accounts db e)))
    = shown_net db e is_asset_type d + shown_net db e is_liability_type d
      + shown_net db e (\<lambda>s. s = ''Equity'') d + type_net db e is_pnl_type d"
    unfolding shown_net_def type_net_def typed_accounts_def split parts sum_list_addf ..
  then show ?thesis using balance_sheet_totals [OF inv, of e d] by linarith
qed

definition range_net :: "'a ledger_db_scheme \<Rightarrow> uuid \<Rightarrow> account_code \<Rightarrow> naive_date \<Rightarrow> naive_date \<Rightarrow> decimal" where
  "range_net db e c from till =
     sum_where (\<lambda>r. line_in_range e from till r \<and> jl_account (row_line r) = c) row_net (journal_lines db)"

lemma range_net_diff:
  assumes "from \<le> till + 1"
  shows "range_net db e c from till = ledger_net db e c till - ledger_net db e c (from - 1)"
proof -
  have "ledger_net db e c till = sum_where (\<lambda>r. (on_account c r \<and> row_entity_id r = e \<and> row_entry_date r \<le> till)
        \<and> from \<le> row_entry_date r) row_net (journal_lines db)
      + sum_where (\<lambda>r. (on_account c r \<and> row_entity_id r = e \<and> row_entry_date r \<le> till)
        \<and> \<not> from \<le> row_entry_date r) row_net (journal_lines db)"
    unfolding ledger_net_def ledger_sum_def by (rule sum_where_split)
  also have "sum_where (\<lambda>r. (on_account c r \<and> row_entity_id r = e \<and> row_entry_date r \<le> till)
        \<and> from \<le> row_entry_date r) row_net (journal_lines db) = range_net db e c from till"
    unfolding range_net_def by (rule sum_where_cong) (auto simp: line_in_range_def on_account_def)
  also have "sum_where (\<lambda>r. (on_account c r \<and> row_entity_id r = e \<and> row_entry_date r \<le> till)
        \<and> \<not> from \<le> row_entry_date r) row_net (journal_lines db) = ledger_net db e c (from - 1)"
    unfolding ledger_net_def ledger_sum_def using assms by (intro sum_where_cong) auto
  finally show ?thesis by simp
qed

definition typed_range :: "'a ledger_db_scheme \<Rightarrow> uuid \<Rightarrow> (string \<Rightarrow> bool) \<Rightarrow> naive_date \<Rightarrow> naive_date \<Rightarrow> decimal" where
  "typed_range db e P from till = sum_list (map (\<lambda>a. range_net db e (ac_code a) from till) (typed_accounts db e P))"

lemma range_net_filter:
  "range_net db e c from till = sum_where (\<lambda>r. jl_account (row_line r) = c) row_net
    (filter (line_in_range e from till) (journal_lines db))"
proof -
  have "sum_where (\<lambda>x. q x \<and> p x) f xs = sum_where p f (filter q xs)" for q p f and xs :: "journal_line_row list"
    by (induction xs) auto
  then show ?thesis by (simp add: range_net_def)
qed

lemma three_way_split:
  "sum_list (map f xs) = sum_list (map f (filter P xs))
    + (sum_list (map f (filter (\<lambda>a. \<not> P a \<and> Q a) xs)) + sum_list (map f (filter (\<lambda>a. \<not> P a \<and> \<not> Q a) xs)))"
  for f :: "account \<Rightarrow> decimal"
  by (induction xs) auto

lemma net_profit_eq:
  "net_profit (profit_and_loss_period db e from till)
    = - typed_range db e is_revenue_type from till - typed_range db e is_expense_type from till"
proof -
  let ?lines = "filter (line_in_range e from till) (journal_lines db)"
  let ?b = "\<lambda>a. sum_where (\<lambda>r. jl_account (row_line r) = ac_code a) row_net ?lines"
  let ?T = "\<lambda>a. (is_revenue_type (ac_account_type a) \<or> is_expense_type (ac_account_type a))
              \<and> ac_code a \<in> set (map (\<lambda>r. jl_account (row_line r)) ?lines) \<and> ?b a \<noteq> 0"
  let ?rows = "filter ?T (entity_accounts db e)"
  let ?num = "\<lambda>a. unwrap_or (parse_u32 (ac_code a)) 0"
  let ?cogs = "\<lambda>a. 6000 \<le> ?num a \<and> ?num a < 7000" and ?opex = "\<lambda>a. 7000 \<le> ?num a \<and> ?num a < 8000"
  have neg: "sum_list (map (\<lambda>a. - f a) as) = - (sum_list (map f as) :: decimal)" for f :: "account \<Rightarrow> decimal" and "as"
    by (induction "as") auto
  have total: "sum_list (map ?b (filter (\<lambda>a. P (ac_account_type a)) ?rows)) = typed_range db e P from till"
    if P: "\<And>s. P s \<Longrightarrow> is_revenue_type s \<or> is_expense_type s" for P
  proof -
    have "filter (\<lambda>a. P (ac_account_type a)) ?rows = filter ?T (typed_accounts db e P)"
      by (simp add: typed_accounts_def conj_commute)
    moreover have "sum_list (map ?b (filter ?T (typed_accounts db e P))) = sum_list (map ?b (typed_accounts db e P))"
    proof (rule sum_list_filter_zero)
      fix a assume a: "a \<in> set (typed_accounts db e P)" and not: "\<not> ?T a"
      then have "is_revenue_type (ac_account_type a) \<or> is_expense_type (ac_account_type a)"
        using P by (simp add: typed_accounts_def)
      with not consider "?b a = 0" | "ac_code a \<notin> set (map (\<lambda>r. jl_account (row_line r)) ?lines)" by blast
      then show "?b a = 0"
      proof cases
        case 2
        then show ?thesis by (intro sum_where_none) (force simp: image_iff)
      qed
    qed
    ultimately show ?thesis by (simp add: typed_range_def range_net_filter)
  qed
  have "net_profit (profit_and_loss_period db e from till)
      = - sum_list (map ?b (filter (\<lambda>a. is_revenue_type (ac_account_type a)) ?rows))
        - sum_list (map ?b (filter ?cogs (filter (\<lambda>a. is_expense_type (ac_account_type a)) ?rows)))
        - sum_list (map ?b (filter (\<lambda>a. \<not> ?cogs a \<and> ?opex a) (filter (\<lambda>a. is_expense_type (ac_account_type a)) ?rows)))
        - sum_list (map ?b (filter (\<lambda>a. \<not> ?cogs a \<and> \<not> ?opex a) (filter (\<lambda>a. is_expense_type (ac_account_type a)) ?rows)))"
    unfolding profit_and_loss_period_def Let_def profit_and_loss_report.simps
      statement_line_of_def map_map comp_def statement_line.simps neg by (rule refl)
  also have "\<dots> = - sum_list (map ?b (filter (\<lambda>a. is_revenue_type (ac_account_type a)) ?rows))
        - sum_list (map ?b (filter (\<lambda>a. is_expense_type (ac_account_type a)) ?rows))"
    using three_way_split [of ?b "filter (\<lambda>a. is_expense_type (ac_account_type a)) ?rows" ?cogs ?opex] by linarith
  also have "\<dots> = - typed_range db e is_revenue_type from till - typed_range db e is_expense_type from till"
    using total [of is_revenue_type, OF disjI1] total [of is_expense_type, OF disjI2] by simp
  finally show ?thesis .
qed

lemma pnl_type_split:
  "sum_list (map f (typed_accounts db e is_pnl_type))
    = sum_list (map f (typed_accounts db e is_revenue_type)) + (sum_list (map f (typed_accounts db e is_expense_type)) :: decimal)"
proof -
  have disjoint: "\<not> (is_revenue_type s \<and> is_expense_type s)" for s
    by (auto simp: is_revenue_type_def is_expense_type_def)
  have "sum_list (map f (filter (\<lambda>a. is_pnl_type (ac_account_type a)) as))
      = sum_list (map f (filter (\<lambda>a. is_revenue_type (ac_account_type a)) as))
        + sum_list (map f (filter (\<lambda>a. is_expense_type (ac_account_type a)) as))" for "as"
  proof (induction "as")
    case (Cons a as)
    with disjoint [of "ac_account_type a"] show ?case by (auto simp: is_pnl_type_def)
  qed simp
  then show ?thesis by (simp add: typed_accounts_def)
qed

lemma pnl_totals_net:
  "fst (pnl_totals db e from till) - snd (pnl_totals db e from till)
    = - typed_range db e is_revenue_type from till - typed_range db e is_expense_type from till"
proof -
  let ?lines = "filter (line_in_range e from till) (journal_lines db)"
  let ?acc = "\<lambda>r. filter (\<lambda>a. ac_entity_id a = row_entity_id r \<and> ac_code a = jl_account (row_line r)) (accounts db)"
  have swap: "sum_where (\<lambda>(r, a). P (ac_account_type a)) (\<lambda>(r, a). row_net r) (concat (map (\<lambda>r. map (Pair r) (?acc r)) rs))
      = sum_list (map (\<lambda>a. sum_where (\<lambda>r. jl_account (row_line r) = ac_code a) row_net rs)
          (filter (\<lambda>a. P (ac_account_type a)) (filter (\<lambda>a. ac_entity_id a = e) (accounts db))))"
    if "\<forall>r \<in> set rs. row_entity_id r = e" for P rs
    using that
  proof (induction rs)
    case Nil
    then show ?case by (simp add: sum_list_0)
  next
    case (Cons r rs)
    have "sum_where (\<lambda>(r, a). P (ac_account_type a)) (\<lambda>(r, a). row_net r) (map (Pair r) (?acc r))
        = sum_list (map (\<lambda>a. if jl_account (row_line r) = ac_code a then row_net r else 0)
            (filter (\<lambda>a. P (ac_account_type a)) (filter (\<lambda>a. ac_entity_id a = e) (accounts db))))"
    proof -
      have "row_entity_id r = e" using Cons.prems by simp
      moreover have "sum_where (\<lambda>(r, a). P (ac_account_type a)) (\<lambda>(r, a). row_net r)
          (map (Pair r) (filter (\<lambda>a. ac_entity_id a = e \<and> ac_code a = jl_account (row_line r)) as))
        = sum_list (map (\<lambda>a. if jl_account (row_line r) = ac_code a then row_net r else 0)
            (filter (\<lambda>a. P (ac_account_type a)) (filter (\<lambda>a. ac_entity_id a = e) as)))" for "as"
        by (induction "as") auto
      ultimately show ?thesis by simp
    qed
    with Cons show ?case by (simp add: sum_list_addf)
  qed
  have sorted: "sum_list (map f (filter (\<lambda>a. P (ac_account_type a)) (filter (\<lambda>a. ac_entity_id a = e) (accounts db))))
      = sum_list (map f (typed_accounts db e P))" for f :: "account \<Rightarrow> decimal" and P
    unfolding typed_accounts_def entity_accounts_def filter_sort by (simp add: sum_list_sort_key)
  have ent: "\<forall>r \<in> set ?lines. row_entity_id r = e" by (simp add: line_in_range_def)
  have neg: "sum_where p (\<lambda>(r, a). - row_net r) xs = - sum_where p (\<lambda>(r, a). row_net r) xs"
    for p and xs :: "(journal_line_row \<times> account) list"
    by (induction xs) auto
  show ?thesis
    unfolding pnl_totals_def Let_def fst_conv snd_conv neg swap [OF ent] sorted
    by (simp add: typed_range_def range_net_filter)
qed

end
