(* ===== verification/Report_Properties.thy ===== *)
theory Report_Properties
  imports Reporting_Correct Samples
begin

text \<open>
  The properties of the ledger reports, on every ledger that satisfies the ledger invariant.
\<close>

lemma sample_shown:
  "codes_unique sample_db2"
  "\<forall>r \<in> set (journal_lines sample_db2). row_entity_id r = 1 \<longrightarrow> on_shown sample_db2 1 ac_is_active (jl_account (row_line r))"
  "\<forall>r \<in> set (journal_lines sample_db2). row_entity_id r = 1 \<longrightarrow> on_shown sample_db2 1 on_balance_sheet (jl_account (row_line r))"
  by (code_simp, code_simp, code_simp)

text \<open>
  C6: the as-at query, which adds the snapshots of the periods that ended by the date and scans
  only the lines after the last of them, gives for every account exactly the sums of all the
  tenant's lines dated up to the date. No line is counted twice or missed, at any date.
\<close>

theorem asat_query_is_ledger_sum:
  assumes "ledger_inv db"
  shows "movement_of (asat_movements db e d) c =
    (sum_where (\<lambda>r. jl_account (row_line r) = c \<and> row_entity_id r = e \<and> row_entry_date r \<le> d)
       (\<lambda>r. unwrap_or (functional_debit (row_line r)) 0) (journal_lines db),
     sum_where (\<lambda>r. jl_account (row_line r) = c \<and> row_entity_id r = e \<and> row_entry_date r \<le> d)
       (\<lambda>r. unwrap_or (functional_credit (row_line r)) 0) (journal_lines db))"
  unfolding asat_movement [OF assms]
  by (simp add: ledger_sum_def on_account_def line_debit_def [abs_def] line_credit_def [abs_def])

theorem asat_query_is_ledger_sum_witness:
  "movement_of (asat_movements sample_db2 1 739400) ''4000'' = (0, 500)"
  unfolding asat_query_is_ledger_sum [OF sample_db2_inv] by code_simp

text \<open>
  C4: what the trial balance shows and when it balances. On every ledger that satisfies the
  invariants of posting, with one account per code, the difference the report states between its
  closing debits and credits is, up to sign, the net of the tenant's lines up to the date on accounts
  that are not active (or do not exist), which the report leaves out; so the totals are equal exactly when these lines
  cancel, in particular when every account with lines is active, and the flag says whether the
  difference is within the tolerance.
\<close>

theorem trial_balance_balances:
  assumes "ledger_inv db" and "codes_unique db"
  shows "total_debits (trial_balance E db e params) - total_credits (trial_balance E db e params)
      = tb_difference (trial_balance E db e params)
    \<and> tb_difference (trial_balance E db e params) = - left_out db e ac_is_active (unwrap_or (rp_as_at params) (today E))
    \<and> (tb_is_balanced (trial_balance E db e params)
        \<longleftrightarrow> \<bar>left_out db e ac_is_active (unwrap_or (rp_as_at params) (today E))\<bar> \<le> ROUNDING_TOLERANCE)
    \<and> ((\<forall>r \<in> set (journal_lines db). row_entity_id r = e \<longrightarrow> on_shown db e ac_is_active (jl_account (row_line r)))
        \<longrightarrow> total_debits (trial_balance E db e params) = total_credits (trial_balance E db e params))"
proof -
  have diff: "tb_difference (trial_balance E db e params) = - left_out db e ac_is_active (unwrap_or (rp_as_at params) (today E))"
    unfolding trial_balance_difference [OF assms(1)] by (rule shown_total [OF assms])
  have parts: "tb_difference r = total_debits r - total_credits r \<and> tb_is_balanced r = (\<bar>tb_difference r\<bar> \<le> ROUNDING_TOLERANCE)"
    if "r = trial_balance E db e params" for r
    by (simp add: that trial_balance_def Let_def)
  from parts [OF refl] diff left_out_none [of db e ac_is_active "unwrap_or (rp_as_at params) (today E)"] show ?thesis by auto
qed

text \<open>The same ledger with its bank account deactivated: the report is off by the account's balance.\<close>

definition inactive_db :: ledger_db where
  "inactive_db = sample_db2\<lparr>accounts := map (\<lambda>a. if ac_code a = ''1000'' then a\<lparr>ac_is_active := False\<rparr> else a) (accounts sample_db2)\<rparr>"

definition year_end_params :: report_parameters where
  "year_end_params = \<lparr>rp_as_at = Some 739400, rp_period_from = None, rp_period_to = None, rp_compare_to = None, rp_comparative = None\<rparr>"

theorem trial_balance_balances_witness:
  "total_debits (trial_balance sample_env sample_db2 1 year_end_params) = total_credits (trial_balance sample_env sample_db2 1 year_end_params)
    \<and> tb_difference (trial_balance sample_env inactive_db 1 year_end_params) = - 500"
proof -
  have inv: "ledger_inv inactive_db"
    by (rule ledger_inv_cong [OF _ _ _ _ sample_db2_inv]) (simp_all add: inactive_db_def)
  have uniq: "codes_unique inactive_db" and out: "left_out inactive_db 1 ac_is_active 739400 = 500"
    by (code_simp, code_simp)
  from trial_balance_balances [OF inv uniq, of sample_env 1 year_end_params] out
    trial_balance_balances [OF sample_db2_inv sample_shown(1), of sample_env 1 year_end_params] sample_shown(2)
  show ?thesis by (simp add: year_end_params_def)
qed

text \<open>
  C5: the accounting equation. On every ledger that satisfies the invariants of posting, with one
  account per code, assets less liabilities and equity (the earnings of the year included) is at any
  date, up to sign, the net of the tenant's lines that the balance sheet leaves out: those on inactive
  accounts of its sections, on accounts of unknown type and on codes without an account. So the
  equation holds exactly when these cancel, in particular when every account with lines is of a known
  type and, unless it is a profit and loss account, active; before and after any closing of the books.
\<close>

theorem balance_sheet_equation:
  assumes "ledger_inv db" and "codes_unique db"
  shows "total_assets (balance_sheet_at db e d)
      = total_liabilities (balance_sheet_at db e d) + total_equity (balance_sheet_at db e d) - left_out db e on_balance_sheet d
    \<and> bs_difference (balance_sheet_at db e d) = - left_out db e on_balance_sheet d
    \<and> (bs_is_balanced (balance_sheet_at db e d) \<longleftrightarrow> \<bar>left_out db e on_balance_sheet d\<bar> \<le> ROUNDING_TOLERANCE)
    \<and> ((\<forall>r \<in> set (journal_lines db). row_entity_id r = e \<longrightarrow> on_shown db e on_balance_sheet (jl_account (row_line r)))
        \<longrightarrow> total_assets (balance_sheet_at db e d)
          = total_liabilities (balance_sheet_at db e d) + total_equity (balance_sheet_at db e d))"
proof -
  have sum: "total_assets (balance_sheet_at db e d) - (total_liabilities (balance_sheet_at db e d) + total_equity (balance_sheet_at db e d))
      = - left_out db e on_balance_sheet d"
    unfolding balance_sheet_sum [OF assms(1)] by (rule shown_total [OF assms])
  have parts: "bs_difference r = total_assets r - (total_liabilities r + total_equity r)
      \<and> bs_is_balanced r = (\<bar>bs_difference r\<bar> \<le> ROUNDING_TOLERANCE)"
    if "r = balance_sheet_at db e d" for r
    by (simp add: that balance_sheet_at_def Let_def)
  from parts [OF refl] sum left_out_none [of db e on_balance_sheet d] show ?thesis by auto
qed

theorem balance_sheet_equation_witness:
  "total_assets (balance_sheet_at sample_db2 1 739400)
    = total_liabilities (balance_sheet_at sample_db2 1 739400) + total_equity (balance_sheet_at sample_db2 1 739400)"
  using balance_sheet_equation [OF sample_db2_inv sample_shown(1), of 1 739400] sample_shown(3) by simp

text \<open>
  C7: the statements articulate. The net profit of the profit and loss report over any range of
  days is exactly the change of the balance sheet's current-year earnings between the day
  before the range and its last day, although one report scans lines and the other snapshots.
\<close>

theorem profit_is_change_of_earnings:
  assumes "ledger_inv db" and "from \<le> till + 1"
  shows "net_profit (profit_and_loss_period db e from till)
    = current_year_earnings (balance_sheet_at db e till)
      - current_year_earnings (balance_sheet_at db e (from - 1))"
proof -
  have "sum_list (map (\<lambda>a. range_net db e (ac_code a) from till) (typed_accounts db e is_pnl_type))
      = type_net db e is_pnl_type till - type_net db e is_pnl_type (from - 1)"
    unfolding type_net_def range_net_diff [OF assms(2)] by (rule sum_list_subtractf)
  then show ?thesis
    unfolding net_profit_eq balance_sheet_earnings [OF assms(1)] typed_range_def
    using pnl_type_split [of "\<lambda>a. range_net db e (ac_code a) from till" db e] by linarith
qed

theorem profit_is_change_of_earnings_witness:
  "net_profit (profit_and_loss_period sample_db2 1 739252 739282)
    = current_year_earnings (balance_sheet_at sample_db2 1 739282)
      - current_year_earnings (balance_sheet_at sample_db2 1 739251)"
  using profit_is_change_of_earnings [OF sample_db2_inv, of 739252 739282 1] by simp

text \<open>
  The dashboard's income and expense totals and the profit and loss report are two
  different queries; income less expense is the report's net profit on every database.
\<close>

theorem dashboard_agrees_with_report:
  "fst (pnl_totals db e from till) - snd (pnl_totals db e from till)
    = net_profit (profit_and_loss_period db e from till)"
  by (simp add: pnl_totals_net net_profit_eq)

end
