(* ===== verification/YearEnd.thy ===== *)
theory YearEnd
  imports Posting
begin

text \<open>
  \<^verbatim>\<open>zavora-erp-core/src/services/period_close.rs\<close>: the year-end close. The closing entry moves
  the year's revenue and expense balances into retained earnings, the opening entry carries the
  balance-sheet balances into the first period of the next year; both are posted in one
  transaction. The order of the groups of a \<open>GROUP BY\<close> query is not specified; the model takes
  the order of the first lines. The two posts take their fresh ids from the even and the odd
  positions of the source.
\<close>

section \<open>Requests and balances\<close>

record year_end_close_request =
  yc_fiscal_year :: int
  yc_executed_by :: agent_or_user_id

record year_end_close_result =
  ycr_fiscal_year :: int
  closing_entry_id :: uuid
  opening_entry_id :: uuid
  ycr_net_income :: decimal

record account_balance =
  ab_account_code :: account_code
  ab_account_type :: string
  ab_balance :: decimal

definition get_fiscal_year_periods ::
    "'a period_db_scheme \<Rightarrow> uuid \<Rightarrow> int \<Rightarrow> fiscal_period list erp_result" where
  "get_fiscal_year_periods db e fy =
     (let ps = sort_key period_number
            (filter (\<lambda>p. fp_entity_id p = e \<and> fiscal_year p = fy) (fiscal_periods db)) in
      if ps = [] then Inl (ValidationFailed ''No fiscal periods found for year'') else Inr ps)"

definition validate_all_periods_hard_closed :: "fiscal_period list \<Rightarrow> unit erp_result" where
  "validate_all_periods_hard_closed ps =
     (if length ps \<noteq> 12 then Inl (ValidationFailed ''Expected 12 periods for the fiscal year'')
      else let open_ps = filter (\<lambda>p. parsed_status p \<noteq> HardClosed) ps in
        if open_ps \<noteq> []
        then Inl (ValidationFailed (''Year-end close requires all periods to be hard-closed. The following periods are not: ''
          @ join_with '', '' (map (\<lambda>p. fp_name p @ '' (status: '' @ fp_status p @ '')'') open_ps)))
        else Inr ())"

section \<open>The aggregate queries\<close>

text \<open>A line joined with its entry (by primary key) and with the accounts of its code.\<close>

definition entry_of :: "'a ledger_db_scheme \<Rightarrow> journal_line_row \<Rightarrow> journal_entry_row option" where
  "entry_of db r = List.find (\<lambda>x. je_id x = row_entry_id r) (journal_entries db)"

definition entry_matches ::
    "'a ledger_db_scheme \<Rightarrow> uuid \<Rightarrow> (journal_entry_row \<Rightarrow> bool) \<Rightarrow> journal_line_row \<Rightarrow> bool" where
  "entry_matches db e P r =
     (case entry_of db r of None \<Rightarrow> False
      | Some x \<Rightarrow> je_entity_id x = e \<and> je_status x = EntryPosted \<and> P x)"

definition joined_lines ::
    "'a ledger_db_scheme \<Rightarrow> uuid \<Rightarrow> (journal_entry_row \<Rightarrow> bool) \<Rightarrow> (string \<Rightarrow> bool)
      \<Rightarrow> (journal_line \<times> account) list" where
  "joined_lines db e P T =
     concat (map (\<lambda>r. map (Pair (row_line r))
         (filter (\<lambda>a. ac_code a = jl_account (row_line r) \<and> ac_entity_id a = e \<and> T (lower (ac_account_type a)))
           (accounts db)))
       (filter (entry_matches db e P) (journal_lines db)))"

definition group_balance ::
    "(string \<Rightarrow> bool) \<Rightarrow> (journal_line \<times> account) list \<Rightarrow> account_code \<times> string \<Rightarrow> account_balance" where
  "group_balance debit_normal rows key =
     (let ls = map fst (filter (\<lambda>(l, a). jl_account l = fst key \<and> ac_account_type a = snd key) rows);
          d = opt_sum functional_debit ls; cr = opt_sum functional_credit ls in
      \<lparr>ab_account_code = fst key, ab_account_type = snd key,
       ab_balance = (if debit_normal (lower (snd key)) then d - cr else cr - d)\<rparr>)"

definition grouped_balances ::
    "(string \<Rightarrow> bool) \<Rightarrow> (journal_line \<times> account) list \<Rightarrow> account_balance list" where
  "grouped_balances debit_normal rows =
     filter (\<lambda>b. ab_balance b \<noteq> 0)
       (map (group_balance debit_normal rows)
         (remdups (map (\<lambda>(l, a). (jl_account l, ac_account_type a)) rows)))"

definition compute_pnl_balances ::
    "'a ledger_db_scheme \<Rightarrow> uuid \<Rightarrow> fiscal_period list \<Rightarrow> account_balance list" where
  "compute_pnl_balances db e ps =
     grouped_balances (\<lambda>t. t = ''expense'')
       (joined_lines db e (\<lambda>x. je_period_id x \<in> set (map fp_id ps))
          (\<lambda>t. t = ''revenue'' \<or> t = ''expense''))"

definition compute_balance_sheet_balances ::
    "'a ledger_db_scheme \<Rightarrow> uuid \<Rightarrow> fiscal_period list \<Rightarrow> account_balance list erp_result" where
  "compute_balance_sheet_balances db e ps =
     (if ps = [] then Inl (ValidationFailed ''No periods available'')
      else Inr (grouped_balances (\<lambda>t. t = ''asset'' \<or> t = ''contraliability'')
        (joined_lines db e (\<lambda>x. je_date x \<le> end_date (last ps))
          (\<lambda>t. t = ''asset'' \<or> t = ''liability'' \<or> t = ''equity'' \<or> t = ''contraasset''
             \<or> t = ''contraliability''))))"

definition compute_net_income :: "account_balance list \<Rightarrow> decimal" where
  "compute_net_income bs =
     sum_where (\<lambda>b. lower (ab_account_type b) = ''revenue'') ab_balance bs
     - sum_where (\<lambda>b. lower (ab_account_type b) = ''expense'') ab_balance bs"

section \<open>The two entries\<close>

definition close_desc :: "string \<Rightarrow> int \<Rightarrow> string \<Rightarrow> string option" where
  "close_desc pre fy suf = Some (pre @ show_int fy @ suf)"

definition closing_account_lines :: "currency_code \<Rightarrow> int \<Rightarrow> account_balance \<Rightarrow> journal_line_request list" where
  "closing_account_lines ccy fy b =
     (if ab_balance b = 0 then []
      else if lower (ab_account_type b) = ''revenue''
      then [dr_line ccy (Some 1) (close_desc ''Year-end close FY'' fy '': close revenue account'')
              (ab_account_code b) (ab_balance b)]
      else if lower (ab_account_type b) = ''expense''
      then [cr_line ccy (Some 1) (close_desc ''Year-end close FY'' fy '': close expense account'')
              (ab_account_code b) (ab_balance b)]
      else [])"

definition retained_line :: "currency_code \<Rightarrow> int \<Rightarrow> account_code \<Rightarrow> decimal \<Rightarrow> journal_line_request list" where
  "retained_line ccy fy re net_income =
     (if 0 < net_income
      then [cr_line ccy (Some 1) (close_desc ''Year-end close FY'' fy '': net income to retained earnings'')
              re net_income]
      else if net_income < 0
      then [dr_line ccy (Some 1) (close_desc ''Year-end close FY'' fy '': net loss to retained earnings'')
              re \<bar>net_income\<bar>]
      else [])"

definition build_closing_entry ::
    "erp_config \<Rightarrow> account_balance list \<Rightarrow> fiscal_period \<Rightarrow> year_end_close_request
      \<Rightarrow> journal_entry_request erp_result" where
  "build_closing_entry cfg bs last_period req =
     (let ccy = base_currency cfg; fy = yc_fiscal_year req;
          lines = concat (map (closing_account_lines ccy fy) bs)
            @ retained_line ccy fy (retained_earnings (posting cfg)) (compute_net_income bs) in
      if lines = [] then Inl (ValidationFailed ''No revenue or expense balances to close for this fiscal year'')
      else Inr \<lparr>rq_date = end_date last_period, rq_source = YearEndClose, rq_source_id = None,
             rq_reference = ''YEC-'' @ show_int fy,
             rq_description = ''Year-end closing entry for fiscal year '' @ show_int fy,
             rq_lines = lines, rq_post_immediately = True\<rparr>)"

text \<open>The first balance of the account takes the net income, or a new one is added.\<close>

fun fold_net_income :: "account_code \<Rightarrow> decimal \<Rightarrow> account_balance list \<Rightarrow> account_balance list" where
  "fold_net_income re n [] = [\<lparr>ab_account_code = re, ab_account_type = ''Equity'', ab_balance = n\<rparr>]"
| "fold_net_income re n (b # bs) =
     (if ab_account_code b = re then b\<lparr>ab_balance := ab_balance b + n\<rparr> # bs
      else b # fold_net_income re n bs)"

definition opening_account_lines :: "currency_code \<Rightarrow> int \<Rightarrow> account_balance \<Rightarrow> journal_line_request list" where
  "opening_account_lines ccy fy b =
     (let desc = close_desc ''Opening balance FY'' (fy + 1) '': carry forward'';
          is_debit_normal = (lower (ab_account_type b) = ''asset''
            \<or> lower (ab_account_type b) = ''contraliability'') in
      if ab_balance b = 0 then []
      else if is_debit_normal
      then (if 0 < ab_balance b then [dr_line ccy (Some 1) desc (ab_account_code b) (ab_balance b)]
            else [cr_line ccy (Some 1) desc (ab_account_code b) \<bar>ab_balance b\<bar>])
      else (if 0 < ab_balance b then [cr_line ccy (Some 1) desc (ab_account_code b) (ab_balance b)]
            else [dr_line ccy (Some 1) desc (ab_account_code b) \<bar>ab_balance b\<bar>]))"

definition build_opening_entry ::
    "erp_config \<Rightarrow> account_balance list \<Rightarrow> fiscal_period \<Rightarrow> year_end_close_request \<Rightarrow> decimal
      \<Rightarrow> journal_entry_request erp_result" where
  "build_opening_entry cfg bs first_period req net_income =
     (let ccy = base_currency cfg; fy = yc_fiscal_year req;
          carried = (if net_income \<noteq> 0
            then fold_net_income (retained_earnings (posting cfg)) net_income bs else bs);
          lines = concat (map (opening_account_lines ccy fy) carried) in
      if lines = [] then Inl (ValidationFailed ''No balance sheet balances to carry forward'')
      else Inr \<lparr>rq_date = start_date first_period, rq_source = OpeningBalance, rq_source_id = None,
             rq_reference = ''OB-'' @ show_int (fy + 1),
             rq_description = ''Opening balances for fiscal year '' @ show_int (fy + 1)
               @ '' (carried forward from FY'' @ show_int fy @ '')'',
             rq_lines = lines, rq_post_immediately = True\<rparr>)"

section \<open>The close\<close>

definition execute_year_end_close ::
    "decimal_lib \<Rightarrow> calendar \<Rightarrow> environment \<Rightarrow> 'a ledger_db_scheme \<Rightarrow> uuid \<Rightarrow> year_end_close_request
      \<Rightarrow> (year_end_close_result \<times> 'a ledger_db_scheme) erp_result" where
  "execute_year_end_close L C E db e req =
     and_then (get_fiscal_year_periods db e (yc_fiscal_year req)) (\<lambda>ps.
     and_then (validate_all_periods_hard_closed ps) (\<lambda>_.
     let last_period = last ps in
     and_then (get_fiscal_year_periods db e (yc_fiscal_year req + 1)) (\<lambda>next_ps.
     let first_next = hd next_ps in
     if reference_exists db e (''YEC-'' @ show_int (yc_fiscal_year req))
     then Inl (ValidationFailed ''Fiscal year has already been closed'')
     else
       (let pnl = compute_pnl_balances db e ps; net_income = compute_net_income pnl;
            cfg = configs db e in
        and_then (build_closing_entry cfg pnl last_period req) (\<lambda>closing.
        and_then (compute_balance_sheet_balances db e ps) (\<lambda>bs.
        and_then (build_opening_entry cfg bs first_next req net_income) (\<lambda>opening.
        and_then (create_and_post_in_tx L C (evens E) db e closing (fp_id last_period)
            (yc_executed_by req)) (\<lambda>(closing_je, db1).
        and_then (create_and_post_in_tx L C (odds E) db1 e opening (fp_id first_next)
            (yc_executed_by req)) (\<lambda>(opening_je, db2).
          Inr (\<lparr>ycr_fiscal_year = yc_fiscal_year req, closing_entry_id = en_id closing_je,
                opening_entry_id = en_id opening_je, ycr_net_income = net_income\<rparr>, db2))))))))))"

end
