(* ===== verification/YearEnd_Correct.thy ===== *)
theory YearEnd_Correct
  imports YearEnd Samples
begin

text \<open>
  The year-end close: what the two entries do to the accounts, that it runs once, and what
  carrying balances forward means for the cumulative reports.
\<close>

section \<open>The joined query per account\<close>

definition matched_net ::
    "'a ledger_db_scheme \<Rightarrow> uuid \<Rightarrow> (journal_entry_row \<Rightarrow> bool) \<Rightarrow> account_code \<Rightarrow> decimal" where
  "matched_net db e P c = sum_where (\<lambda>r. jl_account (row_line r) = c \<and> entry_matches db e P r)
     (\<lambda>r. line_debit r - line_credit r) (journal_lines db)"

definition all_in_cents :: "'a ledger_db_scheme \<Rightarrow> bool" where
  "all_in_cents db \<longleftrightarrow> (\<forall>r \<in> set (journal_lines db). has_dp 2 (line_debit r) \<and> has_dp 2 (line_credit r))"

lemma account_by_code:
  assumes "codes_unique db" and "a \<in> set (accounts db)" and "ac_entity_id a = e" and "T (lower (ac_account_type a))"
  shows "filter (\<lambda>x. ac_code x = ac_code a \<and> ac_entity_id x = e \<and> T (lower (ac_account_type x))) (accounts db) = [a]"
proof -
  have "filter (\<lambda>x. ac_code x = ac_code a \<and> ac_entity_id x = e \<and> T (lower (ac_account_type x))) as = [a]"
    if "distinct (map account_key as)" "a \<in> set as" for "as"
    using that
  proof (induction "as")
    case Nil
    then show ?case by simp
  next
    case (Cons x as)
    show ?case
    proof (cases "x = a")
      case True
      have "account_key y \<noteq> account_key a" if "y \<in> set as" for y
        using Cons.prems(1) True that by (metis distinct.simps(2) image_eqI list.simps(9) set_map)
      then have "filter (\<lambda>x. ac_code x = ac_code a \<and> ac_entity_id x = e \<and> T (lower (ac_account_type x))) as = []"
        using assms(3) by (auto simp: filter_empty_conv account_key_def)
      with True assms(3,4) show ?thesis by simp
    next
      case False
      with Cons.prems have "a \<in> set as" by simp
      moreover from this Cons.prems(1) have "account_key x \<noteq> account_key a" by auto
      ultimately show ?thesis
        using Cons.IH Cons.prems(1) assms(3) by (auto simp: account_key_def)
    qed
  qed
  with assms(1,2) show ?thesis by (simp add: codes_unique_def)
qed

lemma joined_on_account:
  assumes "codes_unique db" and "a \<in> set (accounts db)" and "ac_entity_id a = e" and "T (lower (ac_account_type a))"
  shows "map fst (filter (\<lambda>(l, x). jl_account l = ac_code a \<and> ac_account_type x = ac_account_type a)
      (joined_lines db e P T))
    = map row_line (filter (\<lambda>r. jl_account (row_line r) = ac_code a \<and> entry_matches db e P r) (journal_lines db))"
proof -
  let ?acc = "\<lambda>r. filter (\<lambda>x. ac_code x = jl_account (row_line r) \<and> ac_entity_id x = e
      \<and> T (lower (ac_account_type x))) (accounts db)"
  let ?sel = "\<lambda>(l, x). jl_account l = ac_code a \<and> ac_account_type x = ac_account_type a"
  have one: "map fst (filter ?sel (map (Pair (row_line r)) (?acc r)))
      = (if jl_account (row_line r) = ac_code a then [row_line r] else [])" for r
  proof (cases "jl_account (row_line r) = ac_code a")
    case True
    then have "?acc r = [a]" using account_by_code [of db a e T, OF assms] by simp
    with True show ?thesis by simp
  next
    case False
    then have "filter ?sel (map (Pair (row_line r)) (?acc r)) = []" by (auto simp: filter_empty_conv)
    with False show ?thesis by simp
  qed
  have "map fst (filter ?sel (concat (map (\<lambda>r. map (Pair (row_line r)) (?acc r)) (filter m rs))))
      = map row_line (filter (\<lambda>r. jl_account (row_line r) = ac_code a \<and> m r) rs)" for m rs
  proof (induction rs)
    case (Cons r rs)
    have "map fst (filter ?sel (concat (map (\<lambda>r. map (Pair (row_line r)) (?acc r)) (filter m (r # rs)))))
        = (if m r then map fst (filter ?sel (map (Pair (row_line r)) (?acc r))) else [])
          @ map fst (filter ?sel (concat (map (\<lambda>r. map (Pair (row_line r)) (?acc r)) (filter m rs))))"
      by simp
    then show ?case unfolding one Cons.IH by simp
  qed simp
  then show ?thesis by (simp add: joined_lines_def)
qed

lemma joined_key:
  assumes "(l, x) \<in> set (joined_lines db e P T)"
  shows "x \<in> set (accounts db)" "ac_entity_id x = e" "ac_code x = jl_account l" "T (lower (ac_account_type x))"
  using assms by (auto simp: joined_lines_def)

lemma same_code_account:
  "codes_unique db \<Longrightarrow> a \<in> set (accounts db) \<Longrightarrow> b \<in> set (accounts db) \<Longrightarrow>
    ac_entity_id a = ac_entity_id b \<Longrightarrow> ac_code a = ac_code b \<Longrightarrow> a = b"
  unfolding codes_unique_def distinct_map inj_on_def account_key_def by simp

definition side :: "bool \<Rightarrow> decimal \<Rightarrow> decimal" where
  "side debit_normal x = (if debit_normal then x else - x)"

lemma matched_lines_net:
  "opt_sum functional_debit (map row_line (filter q rs)) - opt_sum functional_credit (map row_line (filter q rs))
    = sum_where q (\<lambda>r. line_debit r - line_credit r) rs"
  by (induction rs) (auto simp: line_debit_def line_credit_def)

text \<open>What the grouped query says of one account: its balance when that is not zero.\<close>

lemma grouped_member:
  assumes "codes_unique db" and "b \<in> set (grouped_balances D (joined_lines db e P T))"
  shows "\<exists>a \<in> set (accounts db). ac_entity_id a = e \<and> ac_code a = ab_account_code b
    \<and> ac_account_type a = ab_account_type b \<and> T (lower (ac_account_type a))
    \<and> ab_balance b = side (D (lower (ac_account_type a))) (matched_net db e P (ac_code a)) \<and> ab_balance b \<noteq> 0"
proof -
  from assms(2) obtain l x where lx: "(l, x) \<in> set (joined_lines db e P T)"
    and b: "b = group_balance D (joined_lines db e P T) (jl_account l, ac_account_type x)"
    and nz: "ab_balance b \<noteq> 0"
    unfolding grouped_balances_def by auto
  note x = joined_key [OF lx]
  have "ab_balance b = side (D (lower (ac_account_type x))) (matched_net db e P (ac_code x))"
    unfolding b group_balance_def Let_def fst_conv snd_conv x(3) [symmetric]
      joined_on_account [of db x e T, OF assms(1) x(1,2,4), of P] account_balance.simps
    using matched_lines_net [of "\<lambda>r. jl_account (row_line r) = ac_code x \<and> entry_matches db e P r" "journal_lines db"]
    by (simp add: matched_net_def side_def)
  moreover have "ab_account_code b = ac_code x" "ab_account_type b = ac_account_type x"
    by (simp_all add: b group_balance_def Let_def x(3))
  ultimately show ?thesis using x(1,2,4) nz by auto
qed

lemma grouped_complete:
  assumes "codes_unique db" and "a \<in> set (accounts db)" and "ac_entity_id a = e" and "T (lower (ac_account_type a))"
    and "matched_net db e P (ac_code a) \<noteq> 0"
  shows "\<exists>b \<in> set (grouped_balances D (joined_lines db e P T)). ab_account_code b = ac_code a"
proof -
  let ?ls = "filter (\<lambda>(l, x). jl_account l = ac_code a \<and> ac_account_type x = ac_account_type a) (joined_lines db e P T)"
  note on = joined_on_account [of db a e T, OF assms(1-4), of P]
  have net: "opt_sum functional_debit (map fst ?ls) - opt_sum functional_credit (map fst ?ls) = matched_net db e P (ac_code a)"
    unfolding on matched_lines_net matched_net_def ..
  have "?ls \<noteq> []"
  proof
    assume "?ls = []"
    with net have "matched_net db e P (ac_code a) = 0" by simp
    with assms(5) show False by simp
  qed
  then obtain l x where lx: "(l, x) \<in> set ?ls" by (cases ?ls) auto
  then have key: "(ac_code a, ac_account_type a) \<in> set (map (\<lambda>(l, a). (jl_account l, ac_account_type a)) (joined_lines db e P T))"
    by force
  let ?b = "group_balance D (joined_lines db e P T) (ac_code a, ac_account_type a)"
  have "ab_balance ?b \<noteq> 0" using net assms(5) by (simp add: group_balance_def Let_def)
  then have "?b \<in> set (grouped_balances D (joined_lines db e P T))"
    unfolding grouped_balances_def set_filter set_map set_remdups using key by auto
  then show ?thesis by (intro bexI [of _ ?b]) (simp_all add: group_balance_def Let_def)
qed

lemma grouped_distinct:
  assumes "codes_unique db"
  shows "distinct (map ab_account_code (grouped_balances D (joined_lines db e P T)))"
proof -
  let ?rows = "joined_lines db e P T"
  let ?keys = "remdups (map (\<lambda>(l, a). (jl_account l, ac_account_type a)) ?rows)"
  have inj: "inj_on fst (set ?keys)"
  proof (rule inj_onI)
    fix k k' assume k: "k \<in> set ?keys" "k' \<in> set ?keys" "fst k = fst k'"
    then obtain l x l' x' where lx: "(l, x) \<in> set ?rows" "(l', x') \<in> set ?rows"
      "k = (jl_account l, ac_account_type x)" "k' = (jl_account l', ac_account_type x')" by auto
    note X = joined_key [OF lx(1)] and X' = joined_key [OF lx(2)]
    have "x = x'" using same_code_account [OF assms X(1) X'(1)] X X' k(3) lx by simp
    with lx k(3) show "k = k'" by simp
  qed
  have "distinct (map fst ?keys)" using inj by (simp add: distinct_map)
  then show ?thesis
    unfolding grouped_balances_def
    by (intro distinct_map_filter) (simp add: comp_def group_balance_def Let_def)
qed

section \<open>Sums of cents\<close>

lemma matched_net_cents: "all_in_cents db \<Longrightarrow> has_dp 2 (matched_net db e P c)"
  unfolding matched_net_def by (rule has_dp_sum_where) (auto simp: all_in_cents_def)

lemma grouped_cents:
  assumes "codes_unique db" and "all_in_cents db" and "b \<in> set (grouped_balances D (joined_lines db e P T))"
  shows "has_dp 2 (ab_balance b)"
  using grouped_member [OF assms(1,3)] matched_net_cents [OF assms(2)] by (auto simp: side_def)

lemma concat_request_net:
  "request_net L (concat (map f bs)) c = sum_list (map (\<lambda>b. request_net L (f b) c) bs)"
  by (induction bs) simp_all

lemma sum_list_only:
  assumes "distinct (map k bs)" and "b \<in> set bs" and "\<And>x. x \<in> set bs \<Longrightarrow> k x \<noteq> k b \<Longrightarrow> f x = 0"
  shows "sum_list (map f bs) = (f b :: decimal)"
  using assms
proof (induction bs)
  case Nil
  then show ?case by simp
next
  case (Cons x bs)
  show ?case
  proof (cases "x = b")
    case True
    have "f y = 0" if "y \<in> set bs" for y
    proof (rule Cons.prems(3))
      show "y \<in> set (x # bs)" using that by simp
      show "k y \<noteq> k b" using Cons.prems(1) that True by (metis distinct.simps(2) image_eqI list.simps(9) set_map)
    qed
    then have "sum_list (map f bs) = 0" by (rule sum_list_all_zero)
    with True show ?thesis by simp
  next
    case False
    with Cons.prems(2) have b: "b \<in> set bs" by simp
    have "k x \<noteq> k b" using Cons.prems(1) b by (metis distinct.simps(2) image_eqI list.simps(9) set_map)
    then have "f x = 0" by (intro Cons.prems(3)) simp
    moreover have "sum_list (map f bs) = f b"
      using Cons.IH [OF _ b] Cons.prems(1,3) by simp
    ultimately show ?thesis by simp
  qed
qed

text \<open>A sum over the grouped balances of something that only the account's own balance feeds.\<close>

lemma grouped_sum_on:
  assumes uniq: "codes_unique db" and a: "a \<in> set (accounts db)" "ac_entity_id a = e"
    and low: "T (lower (ac_account_type a))"
    and other: "\<And>b. ab_account_code b \<noteq> ac_code a \<Longrightarrow> f b = 0"
    and own: "\<And>b. b \<in> set (grouped_balances D (joined_lines db e P T)) \<Longrightarrow> ab_account_code b = ac_code a \<Longrightarrow>
      ab_account_type b = ac_account_type a \<Longrightarrow>
      ab_balance b = side (D (lower (ac_account_type a))) (matched_net db e P (ac_code a)) \<Longrightarrow>
      f b = g (matched_net db e P (ac_code a))"
    and zero: "g 0 = 0"
  shows "sum_list (map f (grouped_balances D (joined_lines db e P T))) = (g (matched_net db e P (ac_code a)) :: decimal)"
proof (cases "\<exists>b \<in> set (grouped_balances D (joined_lines db e P T)). ab_account_code b = ac_code a")
  case True
  then obtain b where b: "b \<in> set (grouped_balances D (joined_lines db e P T))" "ab_account_code b = ac_code a"
    by blast
  have total: "sum_list (map f (grouped_balances D (joined_lines db e P T))) = f b"
    by (rule sum_list_only [where k = ab_account_code])
      (use grouped_distinct [OF uniq] b other in auto)
  from grouped_member [OF uniq b(1)] obtain x where x: "x \<in> set (accounts db)"
    "ac_entity_id x = e" "ac_code x = ac_code a" "ac_account_type x = ab_account_type b"
    "ab_balance b = side (D (lower (ac_account_type x))) (matched_net db e P (ac_code x))"
    unfolding b(2) by blast
  have "x = a" using same_code_account [OF uniq x(1) a(1)] x(2,3) a(2) by simp
  with x total own [OF b] show ?thesis by simp
next
  case False
  then have "matched_net db e P (ac_code a) = 0"
    using grouped_complete [of db a e T, OF uniq a low] by blast
  moreover have "sum_list (map f (grouped_balances D (joined_lines db e P T))) = 0"
    by (rule sum_list_all_zero) (use False other in blast)
  ultimately show ?thesis by (simp add: zero)
qed

text \<open>An account of another type has no balance in the query.\<close>

lemma grouped_sum_off:
  assumes uniq: "codes_unique db" and a: "a \<in> set (accounts db)" "ac_entity_id a = e"
    and low: "\<not> T (lower (ac_account_type a))"
    and other: "\<And>b. ab_account_code b \<noteq> ac_code a \<Longrightarrow> f b = 0"
  shows "sum_list (map f (grouped_balances D (joined_lines db e P T))) = (0 :: decimal)"
proof (rule sum_list_all_zero)
  fix b assume b: "b \<in> set (grouped_balances D (joined_lines db e P T))"
  obtain x where x: "x \<in> set (accounts db)" "ac_entity_id x = e" "ac_code x = ab_account_code b"
    "T (lower (ac_account_type x))"
    using grouped_member [OF uniq b] by blast
  have "ab_account_code b \<noteq> ac_code a"
  proof
    assume "ab_account_code b = ac_code a"
    then have "x = a" using same_code_account [OF uniq x(1) a(1)] x(2,3) a(2) by simp
    with low x(4) show False by simp
  qed
  then show "f b = 0" by (rule other)
qed

section \<open>The closing entry\<close>

abbreviation in_periods :: "fiscal_period list \<Rightarrow> journal_entry_row \<Rightarrow> bool" where
  "in_periods ps x \<equiv> je_period_id x \<in> set (map fp_id ps)"

lemma lower_types:
  "lower ''Revenue'' = ''revenue''" "lower ''Expense'' = ''expense''" "lower ''Equity'' = ''equity''"
  "lower ''Asset'' = ''asset''" "lower ''Liability'' = ''liability''"
  "lower ''ContraAsset'' = ''contraasset''" "lower ''ContraLiability'' = ''contraliability''"
  by code_simp+

context decimal_laws
begin

lemma closing_lines_other:
  "ab_account_code b \<noteq> c \<Longrightarrow> request_net L (closing_account_lines ccy fy b) c = 0"
  by (simp add: closing_account_lines_def)

lemma closing_lines_net:
  "has_dp 2 (ab_balance b) \<Longrightarrow> request_net L (closing_account_lines ccy fy b) (ab_account_code b)
    = (if lower (ab_account_type b) = ''revenue'' then ab_balance b
       else if lower (ab_account_type b) = ''expense'' then - ab_balance b else 0)"
  by (simp add: closing_account_lines_def round_money_exact)

lemma closing_totals:
  assumes "\<forall>b \<in> set bs. has_dp 2 (ab_balance b)"
  shows "request_debits L (concat (map (closing_account_lines ccy fy) bs))
      = sum_where (\<lambda>b. lower (ab_account_type b) = ''revenue'') ab_balance bs"
    and "request_credits L (concat (map (closing_account_lines ccy fy) bs))
      = sum_where (\<lambda>b. lower (ab_account_type b) = ''expense'') ab_balance bs"
  using assms by (induction bs) (auto simp: closing_account_lines_def round_money_exact)

lemma net_income_cents:
  "\<forall>b \<in> set bs. has_dp 2 (ab_balance b) \<Longrightarrow> has_dp 2 (compute_net_income bs)"
  unfolding compute_net_income_def by (intro has_dp_closed(3) has_dp_sum_where) auto

lemma retained_totals:
  assumes "has_dp 2 n"
  shows "request_debits L (retained_line ccy fy re n) - request_credits L (retained_line ccy fy re n) = - n"
    and "request_net L (retained_line ccy fy re n) c = (if c = re then - n else 0)"
  using assms by (auto simp: retained_line_def round_money_exact)

lemma closing_balanced:
  assumes "build_closing_entry cfg bs p req = Inr rq" and "\<forall>b \<in> set bs. has_dp 2 (ab_balance b)"
  shows "request_debits L (rq_lines rq) = request_credits L (rq_lines rq)"
proof -
  from assms(1) have lines: "rq_lines rq = concat (map (closing_account_lines (base_currency cfg) (yc_fiscal_year req)) bs)
      @ retained_line (base_currency cfg) (yc_fiscal_year req) (retained_earnings (posting cfg)) (compute_net_income bs)"
    by (auto simp: build_closing_entry_def Let_def split: if_splits)
  have "request_debits L (rq_lines rq) - request_credits L (rq_lines rq) = 0"
    unfolding lines
    using closing_totals [OF assms(2)] retained_totals(1) [OF net_income_cents [OF assms(2)]]
    by (simp add: compute_net_income_def algebra_simps)
  then show ?thesis by simp
qed

text \<open>The closing entry takes exactly the year's balance off every revenue and expense account
  and puts the net income on retained earnings.\<close>

lemma closing_request_net:
  assumes build: "build_closing_entry cfg (compute_pnl_balances db e ps) p req = Inr rq"
    and uniq: "codes_unique db" and cents: "all_in_cents db"
  shows "request_net L (rq_lines rq) c
    = sum_list (map (\<lambda>b. request_net L (closing_account_lines (base_currency cfg) (yc_fiscal_year req) b) c)
        (compute_pnl_balances db e ps))
      + (if c = retained_earnings (posting cfg) then - compute_net_income (compute_pnl_balances db e ps) else 0)"
proof -
  let ?bs = "compute_pnl_balances db e ps"
  have dp: "\<forall>b \<in> set ?bs. has_dp 2 (ab_balance b)"
    using grouped_cents [OF uniq cents] unfolding compute_pnl_balances_def by blast
  from build have "rq_lines rq = concat (map (closing_account_lines (base_currency cfg) (yc_fiscal_year req)) ?bs)
      @ retained_line (base_currency cfg) (yc_fiscal_year req) (retained_earnings (posting cfg)) (compute_net_income ?bs)"
    by (auto simp: build_closing_entry_def Let_def split: if_splits)
  then show ?thesis
    using retained_totals(2) [OF net_income_cents [OF dp]] by (simp add: concat_request_net)
qed

lemma closing_net:
  assumes build: "build_closing_entry cfg (compute_pnl_balances db e ps) p req = Inr rq"
    and uniq: "codes_unique db" and cents: "all_in_cents db"
    and a: "a \<in> set (accounts db)" "ac_entity_id a = e"
  shows "request_net L (rq_lines rq) (ac_code a)
    = (if lower (ac_account_type a) = ''revenue'' \<or> lower (ac_account_type a) = ''expense''
       then - matched_net db e (in_periods ps) (ac_code a) else 0)
      + (if ac_code a = retained_earnings (posting cfg) then - compute_net_income (compute_pnl_balances db e ps) else 0)"
proof -
  let ?T = "\<lambda>t. t = ''revenue'' \<or> t = ''expense''" and ?D = "\<lambda>t. t = ''expense''"
  let ?f = "\<lambda>b. request_net L (closing_account_lines (base_currency cfg) (yc_fiscal_year req) b) (ac_code a)"
  have bs: "compute_pnl_balances db e ps = grouped_balances ?D (joined_lines db e (in_periods ps) ?T)"
    by (simp add: compute_pnl_balances_def)
  have "sum_list (map ?f (grouped_balances ?D (joined_lines db e (in_periods ps) ?T)))
    = (if ?T (lower (ac_account_type a)) then - matched_net db e (in_periods ps) (ac_code a) else 0)"
  proof (cases "?T (lower (ac_account_type a))")
    case True
    have "sum_list (map ?f (grouped_balances ?D (joined_lines db e (in_periods ps) ?T)))
      = - matched_net db e (in_periods ps) (ac_code a)"
    proof (rule grouped_sum_on [of db a e ?T ?f ?D "in_periods ps" uminus, OF uniq a True])
      fix b assume b: "b \<in> set (grouped_balances ?D (joined_lines db e (in_periods ps) ?T))"
        "ab_account_code b = ac_code a" "ab_account_type b = ac_account_type a"
        "ab_balance b = side (?D (lower (ac_account_type a))) (matched_net db e (in_periods ps) (ac_code a))"
      show "?f b = - matched_net db e (in_periods ps) (ac_code a)"
        using closing_lines_net [OF grouped_cents [OF uniq cents b(1)]] b(2-4) True by (auto simp: side_def)
    qed (simp_all add: closing_lines_other)
    with True show ?thesis by simp
  next
    case False
    then show ?thesis
      using grouped_sum_off [of db a e ?T ?f, OF uniq a False closing_lines_other] by simp
  qed
  with closing_request_net [OF build uniq cents, of "ac_code a"] show ?thesis
    unfolding bs by simp
qed

text \<open>The opening lines of an account whose balance the query found.\<close>

lemma opening_lines_other:
  "ab_account_code b \<noteq> c \<Longrightarrow> request_net L (opening_account_lines ccy fy b) c = 0"
  by (simp add: opening_account_lines_def Let_def)

lemma opening_lines_net:
  "has_dp 2 (ab_balance b) \<Longrightarrow> request_net L (opening_account_lines ccy fy b) (ab_account_code b)
    = side (lower (ab_account_type b) = ''asset'' \<or> lower (ab_account_type b) = ''contraliability'') (ab_balance b)"
  by (simp add: opening_account_lines_def Let_def side_def round_money_exact)

lemma folded_sum:
  "(\<And>b. ab_account_code b = re \<Longrightarrow> f b = 0) \<Longrightarrow>
    sum_list (map f (fold_net_income re n bs)) = (sum_list (map f bs) :: decimal)"
  by (induction bs) auto

lemma opening_net:
  assumes bs: "compute_balance_sheet_balances db e ps = Inr bs"
    and build: "build_opening_entry cfg bs p req n = Inr rq"
    and uniq: "codes_unique db" and cents: "all_in_cents db"
    and a: "a \<in> set (accounts db)" "ac_entity_id a = e" and re: "ac_code a \<noteq> retained_earnings (posting cfg)"
    and type: "lower (ac_account_type a) \<in> {''asset'', ''liability'', ''equity'', ''contraasset'', ''contraliability''}"
  shows "request_net L (rq_lines rq) (ac_code a) = matched_net db e (\<lambda>x. je_date x \<le> end_date (last ps)) (ac_code a)"
proof -
  let ?T = "\<lambda>t. t = ''asset'' \<or> t = ''liability'' \<or> t = ''equity'' \<or> t = ''contraasset'' \<or> t = ''contraliability''"
  let ?D = "\<lambda>t. t = ''asset'' \<or> t = ''contraliability''"
  let ?P = "\<lambda>x. je_date x \<le> end_date (last ps)"
  let ?f = "\<lambda>b. request_net L (opening_account_lines (base_currency cfg) (yc_fiscal_year req) b) (ac_code a)"
  have bs: "bs = grouped_balances ?D (joined_lines db e ?P ?T)"
    using bs by (auto simp: compute_balance_sheet_balances_def split: if_splits)
  have low: "?T (lower (ac_account_type a))" using type by auto
  let ?carried = "if n \<noteq> 0 then fold_net_income (retained_earnings (posting cfg)) n bs else bs"
  have lines: "rq_lines rq = concat (map (opening_account_lines (base_currency cfg) (yc_fiscal_year req)) ?carried)"
    using build unfolding build_opening_entry_def Let_def by (simp split: if_split_asm) auto
  have "?f b = 0" if "ab_account_code b = retained_earnings (posting cfg)" for b
    by (rule opening_lines_other) (use that re in simp)
  then have "request_net L (rq_lines rq) (ac_code a) = sum_list (map ?f bs)"
    unfolding lines concat_request_net by (simp add: folded_sum)
  also have "\<dots> = matched_net db e ?P (ac_code a)"
    unfolding bs
  proof (rule grouped_sum_on [of db a e ?T ?f ?D ?P "\<lambda>x. x", OF uniq a low])
    fix b assume b: "b \<in> set (grouped_balances ?D (joined_lines db e ?P ?T))"
      "ab_account_code b = ac_code a" "ab_account_type b = ac_account_type a"
      "ab_balance b = side (?D (lower (ac_account_type a))) (matched_net db e ?P (ac_code a))"
    show "?f b = matched_net db e ?P (ac_code a)"
      using opening_lines_net [OF grouped_cents [OF uniq cents b(1)]] b(2-4) by (simp add: side_def)
  qed (simp_all add: opening_lines_other)
  finally show ?thesis .
qed

end

section \<open>Posting and the joined query\<close>

lemma entry_of_posted_old:
  assumes "lines_linked db" and "r \<in> set (journal_lines db)"
  shows "entry_of (posted_state E db e req p by' number n lines) r = entry_of db r"
proof -
  obtain x where "x \<in> set (journal_entries db)" "je_id x = row_entry_id r"
    using assms by (auto simp: lines_linked_def)
  then have "List.find (\<lambda>x. je_id x = row_entry_id r) (journal_entries db) \<noteq> None"
    by (auto simp: find_None_iff)
  then obtain y where "List.find (\<lambda>x. je_id x = row_entry_id r) (journal_entries db) = Some y" by auto
  moreover have "List.find P xs = Some y \<Longrightarrow> List.find P (xs @ ys) = Some y" for P y and xs ys :: "journal_entry_row list"
    by (induction xs) auto
  ultimately show ?thesis by (simp add: entry_of_def)
qed

lemma entry_of_posted_new:
  assumes "uuids E 0 \<notin> je_id ` set (journal_entries db)" and "row_entry_id r = uuids E 0"
  shows "entry_of (posted_state E db e req p by' number n lines) r = Some (entry_row E e req (fp_id p) by' number)"
proof -
  have none: "x \<in> set (journal_entries db) \<Longrightarrow> je_id x \<noteq> uuids E 0" for x using assms(1) by force
  have "(\<And>x. x \<in> set xs \<Longrightarrow> \<not> P x) \<Longrightarrow> P y \<Longrightarrow> List.find P (xs @ [y]) = Some y" for P y and xs :: "journal_entry_row list"
    by (induction xs) auto
  with none show ?thesis by (simp add: entry_of_def assms(2))
qed

text \<open>The same sums over any condition on the entry, its status included.\<close>

definition entry_sum ::
    "'a ledger_db_scheme \<Rightarrow> uuid \<Rightarrow> (journal_entry_row \<Rightarrow> bool) \<Rightarrow> account_code \<Rightarrow> decimal" where
  "entry_sum db e P c = sum_where (\<lambda>r. jl_account (row_line r) = c
       \<and> (case entry_of db r of None \<Rightarrow> False | Some x \<Rightarrow> je_entity_id x = e \<and> P x))
     (\<lambda>r. line_debit r - line_credit r) (journal_lines db)"

lemma matched_net_entry_sum: "matched_net db e P c = entry_sum db e (\<lambda>x. je_status x = EntryPosted \<and> P x) c"
  by (simp add: matched_net_def entry_sum_def entry_matches_def)

lemma entry_sum_posted:
  assumes link: "lines_linked db" and fresh: "uuids E 0 \<notin> je_id ` set (journal_entries db)"
  shows "entry_sum (posted_state E db e req p by' number n lines) e P c
    = entry_sum db e P c + (if P (entry_row E e req (fp_id p) by' number) then net_of lines c else 0)"
proof -
  let ?db = "posted_state E db e req p by' number n lines"
  let ?ok = "\<lambda>r. case entry_of ?db r of None \<Rightarrow> False | Some x \<Rightarrow> je_entity_id x = e \<and> P x"
  have old: "sum_where (\<lambda>r. jl_account (row_line r) = c \<and> ?ok r)
        (\<lambda>r. line_debit r - line_credit r) (journal_lines db) = entry_sum db e P c"
    unfolding entry_sum_def
    by (rule sum_where_cong) (simp_all add: entry_of_posted_old [OF link])
  have eta: "functional_net = (\<lambda>l. unwrap_or (functional_debit l) 0 - unwrap_or (functional_credit l) 0)"
    by (simp add: fun_eq_iff functional_net_def)
  have new: "sum_where (\<lambda>r. jl_account (row_line r) = c \<and> ?ok r)
        (\<lambda>r. line_debit r - line_credit r) (map (line_row (uuids E 0) e (rq_date req)) lines)
      = (if P (entry_row E e req (fp_id p) by' number) then net_of lines c else 0)"
    by (simp add: sum_where_map comp_def entry_of_posted_new [OF fresh] net_of_def eta
        sum_where_none)
  show ?thesis using old new by (simp add: entry_sum_def)
qed

lemma posted_linked:
  "lines_linked db \<Longrightarrow> lines_linked (posted_state E db e req p by' number n lines)"
  by (fastforce simp: lines_linked_def)

lemma entry_sum_after_post:
  assumes post: "create_and_post_in_tx L C E db e req i by' = Inr (en, db')" and link: "lines_linked db"
  shows "lines_linked db'"
    and "entry_sum db' e (\<lambda>x. je_period_id x \<in> S) c
      = entry_sum db e (\<lambda>x. je_period_id x \<in> S) c + (if i \<in> S then net_of (en_lines en) c else 0)"
proof -
  obtain n number p where p: "List.find (\<lambda>q. fp_id q = i) (fiscal_periods db) = Some p"
    and db': "db' = posted_state E db e req p by' number n (en_lines en)"
    using posting.post_effect [OF post] by blast
  have "fp_id p = i" using p by (auto simp: find_Some_iff)
  then show "entry_sum db' e (\<lambda>x. je_period_id x \<in> S) c
      = entry_sum db e (\<lambda>x. je_period_id x \<in> S) c + (if i \<in> S then net_of (en_lines en) c else 0)"
    unfolding db' entry_sum_posted [OF link posting.post_fresh [OF post]] by (simp add: entry_row_def)
  show "lines_linked db'" unfolding db' by (rule posted_linked [OF link])
qed

text \<open>What the tenant's ledger holds on an account for the periods of a year, and the part of it that
  the closing queries do not see: the entries that have been reversed.\<close>

definition year_net :: "'a ledger_db_scheme \<Rightarrow> uuid \<Rightarrow> fiscal_period list \<Rightarrow> account_code \<Rightarrow> decimal" where
  "year_net db e ps c = entry_sum db e (in_periods ps) c"

definition year_reversed :: "'a ledger_db_scheme \<Rightarrow> uuid \<Rightarrow> fiscal_period list \<Rightarrow> account_code \<Rightarrow> decimal" where
  "year_reversed db e ps c = entry_sum db e (\<lambda>x. je_status x \<noteq> EntryPosted \<and> in_periods ps x) c"

lemma year_net_split: "year_net db e ps c = matched_net db e (in_periods ps) c + year_reversed db e ps c"
proof -
  let ?in = "\<lambda>Q r. jl_account (row_line r) = c
    \<and> (case entry_of db r of None \<Rightarrow> False | Some x \<Rightarrow> je_entity_id x = e \<and> Q x \<and> in_periods ps x)"
  have "sum_where (?in (\<lambda>_. True)) f xs = sum_where (?in (\<lambda>x. je_status x = EntryPosted)) f xs
      + sum_where (?in (\<lambda>x. je_status x \<noteq> EntryPosted)) f xs" for f :: "journal_line_row \<Rightarrow> decimal" and xs
    by (induction xs) (auto split: option.splits)
  from this [of "\<lambda>r. line_debit r - line_credit r" "journal_lines db"] show ?thesis
    unfolding year_net_def year_reversed_def matched_net_entry_sum entry_sum_def simp_thms .
qed

lemma year_reversed_none:
  assumes "\<forall>x \<in> set (journal_entries db). je_entity_id x = e \<longrightarrow> in_periods ps x \<longrightarrow> je_status x = EntryPosted"
  shows "year_reversed db e ps c = 0"
  unfolding year_reversed_def entry_sum_def
proof (rule sum_where_none)
  fix r
  show "\<not> (jl_account (row_line r) = c
       \<and> (case entry_of db r of None \<Rightarrow> False | Some x \<Rightarrow> je_entity_id x = e \<and> je_status x \<noteq> EntryPosted \<and> in_periods ps x))"
  proof (cases "entry_of db r")
    case (Some x)
    then have "x \<in> set (journal_entries db)" by (auto simp: entry_of_def dest: find_SomeD)
    with assms Some show ?thesis by auto
  qed simp
qed

lemma entry_of_linked:
  assumes "ledger_inv db" and "r \<in> set (journal_lines db)"
  obtains x where "entry_of db r = Some x" "x \<in> set (journal_entries db)" "je_entity_id x = row_entity_id r"
proof -
  obtain x where x: "x \<in> set (journal_entries db)" "je_id x = row_entry_id r" "je_entity_id x = row_entity_id r"
    using ledger_invD(4) [OF assms(1)] assms(2) by (auto simp: lines_linked_def)
  have ids: "distinct (map je_id (journal_entries db))"
    using ledger_invD(5) [OF assms(1)] by (simp add: entries_balanced_def)
  obtain y where y: "entry_of db r = Some y"
    using x by (cases "entry_of db r") (auto simp: entry_of_def find_None_iff)
  then have "y \<in> set (journal_entries db)" "je_id y = row_entry_id r" by (auto simp: entry_of_def dest: find_SomeD)
  with keyed_eq [OF ids this(1) x(1)] x y that show thesis by simp
qed

text \<open>Of a ledger whose entries are all posted and meet the condition the query sees every line.\<close>

lemma matched_net_all:
  assumes inv: "ledger_inv db"
    and all: "\<forall>x \<in> set (journal_entries db). je_entity_id x = e \<longrightarrow> je_status x = EntryPosted \<and> P x"
  shows "matched_net db e P c = account_net db e c"
  unfolding matched_net_def account_net_def
proof (rule sum_where_cong)
  fix r assume r: "r \<in> set (journal_lines db)"
  obtain x where "entry_of db r = Some x" "x \<in> set (journal_entries db)" "je_entity_id x = row_entity_id r"
    by (rule entry_of_linked [OF inv r])
  with all show "(jl_account (row_line r) = c \<and> entry_matches db e P r) \<longleftrightarrow> (row_entity_id r = e \<and> on_account c r)"
    by (auto simp: entry_matches_def on_account_def)
qed simp

section \<open>The whole close\<close>

lemma year_end_close_InrD:
  assumes "execute_year_end_close L C E db e req = Inr (res, db')"
  obtains ps next_ps closing opn bs cj oj db1 where
    "get_fiscal_year_periods db e (yc_fiscal_year req) = Inr ps"
    "validate_all_periods_hard_closed ps = Inr ()"
    "get_fiscal_year_periods db e (yc_fiscal_year req + 1) = Inr next_ps"
    "build_closing_entry (configs db e) (compute_pnl_balances db e ps) (last ps) req = Inr closing"
    "compute_balance_sheet_balances db e ps = Inr bs"
    "build_opening_entry (configs db e) bs (hd next_ps) req (compute_net_income (compute_pnl_balances db e ps)) = Inr opn"
    "create_and_post_in_tx L C (evens E) db e closing (fp_id (last ps)) (yc_executed_by req) = Inr (cj, db1)"
    "create_and_post_in_tx L C (odds E) db1 e opn (fp_id (hd next_ps)) (yc_executed_by req) = Inr (oj, db')"
    "ycr_net_income res = compute_net_income (compute_pnl_balances db e ps)"
  using assms unfolding execute_year_end_close_def
  by (auto simp: Let_def split: if_splits)

lemma fiscal_year_periodsD:
  assumes "get_fiscal_year_periods db e fy = Inr ps"
  shows "ps \<noteq> []" and "p \<in> set ps \<Longrightarrow> p \<in> set (fiscal_periods db) \<and> fp_entity_id p = e \<and> fiscal_year p = fy"
proof -
  from assms have eq: "ps = sort_key period_number
            (filter (\<lambda>p. fp_entity_id p = e \<and> fiscal_year p = fy) (fiscal_periods db))" and "ps \<noteq> []"
    by (auto simp: get_fiscal_year_periods_def Let_def split: if_splits)
  then show "ps \<noteq> []" by simp
  show "p \<in> set ps \<Longrightarrow> p \<in> set (fiscal_periods db) \<and> fp_entity_id p = e \<and> fiscal_year p = fy"
    by (simp add: eq)
qed

lemma next_year_apart:
  assumes "distinct (map fp_id (fiscal_periods db))"
    and "get_fiscal_year_periods db e fy = Inr ps" and "get_fiscal_year_periods db e (fy + 1) = Inr qs"
  shows "fp_id (hd qs) \<notin> set (map fp_id ps)"
proof
  assume "fp_id (hd qs) \<in> set (map fp_id ps)"
  then obtain p where p: "p \<in> set ps" "fp_id p = fp_id (hd qs)" by auto
  note q = fiscal_year_periodsD [OF assms(3)]
  note P = fiscal_year_periodsD(2) [OF assms(2) p(1)] and Q = q(2) [OF hd_in_set [OF q(1)]]
  have "p = hd qs" using assms(1) p(2) P Q unfolding distinct_map by (meson inj_onD)
  with P Q show False by simp
qed

context decimal_laws
begin

lemma closing_effect:
  assumes ok: "execute_year_end_close L C E db e req = Inr (res, db')"
    and inv: "ledger_inv db" and uniq: "codes_unique db" and cents: "all_in_cents db"
    and ps: "get_fiscal_year_periods db e (yc_fiscal_year req) = Inr ps"
  shows "\<exists>closing. build_closing_entry (configs db e) (compute_pnl_balances db e ps) (last ps) req = Inr closing
    \<and> (\<forall>c. year_net db' e ps c = year_net db e ps c + request_net L (rq_lines closing) c)"
proof -
  obtain next_ps closing opn bs cj oj and db1 :: "'a ledger_db_scheme" where
    nxt: "get_fiscal_year_periods db e (yc_fiscal_year req + 1) = Inr next_ps"
    and build: "build_closing_entry (configs db e) (compute_pnl_balances db e ps) (last ps) req = Inr closing"
    and post1: "create_and_post_in_tx L C (evens E) db e closing (fp_id (last ps)) (yc_executed_by req) = Inr (cj, db1)"
    and post2: "create_and_post_in_tx L C (odds E) db1 e opn (fp_id (hd next_ps)) (yc_executed_by req) = Inr (oj, db')"
    by (rule year_end_close_InrD [OF ok]) (use ps in auto)
  note m1 = entry_sum_after_post [OF post1 ledger_invD(4) [OF inv]]
  note m2 = entry_sum_after_post [OF post2 m1(1)]
  have ids: "distinct (map fp_id (fiscal_periods db))" using ledger_invD(1) [OF inv] by (simp add: periods_ok_def)
  have last_in: "fp_id (last ps) \<in> set (map fp_id ps)" using fiscal_year_periodsD(1) [OF ps] by simp
  have not_in: "fp_id (hd next_ps) \<notin> set (map fp_id ps)" by (rule next_year_apart [OF ids ps nxt])
  have dp: "\<forall>b \<in> set (compute_pnl_balances db e ps). has_dp 2 (ab_balance b)"
    using grouped_cents [OF uniq cents] unfolding compute_pnl_balances_def by blast
  have "en_lines cj = built_lines L (evens E) closing"
    by (rule posting.post_lines [OF post1 closing_balanced [OF build dp]])
  then have "year_net db' e ps c = year_net db e ps c + request_net L (rq_lines closing) c" for c
    using m2(2) [of "set (map fp_id ps)" c] m1(2) [of "set (map fp_id ps)" c] last_in not_in
    by (simp add: net_of_built year_net_def)
  with build show ?thesis by blast
qed

text \<open>
  What the opening entry does to a balance-sheet account: the balance up to the end of the closed
  year is posted once more, and the closing entry did not touch the account.
\<close>

lemma opening_effect:
  assumes ok: "execute_year_end_close L C E db e req = Inr (res, db')"
    and uniq: "codes_unique db" and cents: "all_in_cents db"
    and ps: "get_fiscal_year_periods db e (yc_fiscal_year req) = Inr ps"
    and a: "a \<in> set (accounts db)" "ac_entity_id a = e"
    and type: "lower (ac_account_type a) \<in> {''asset'', ''liability'', ''equity'', ''contraasset'', ''contraliability''}"
    and re: "ac_code a \<noteq> retained_earnings (posting (configs db e))"
    and ra: "ac_code a \<noteq> rounding_adjustment (posting (configs db e))"
  shows "account_net db' e (ac_code a)
    = account_net db e (ac_code a) + matched_net db e (\<lambda>x. je_date x \<le> end_date (last ps)) (ac_code a)"
proof -
  obtain next_ps closing opn bs cj oj and db1 :: "'a ledger_db_scheme" where
    build: "build_closing_entry (configs db e) (compute_pnl_balances db e ps) (last ps) req = Inr closing"
    and bs: "compute_balance_sheet_balances db e ps = Inr bs"
    and bopen: "build_opening_entry (configs db e) bs (hd next_ps) req (compute_net_income (compute_pnl_balances db e ps)) = Inr opn"
    and post1: "create_and_post_in_tx L C (evens E) db e closing (fp_id (last ps)) (yc_executed_by req) = Inr (cj, db1)"
    and post2: "create_and_post_in_tx L C (odds E) db1 e opn (fp_id (hd next_ps)) (yc_executed_by req) = Inr (oj, db')"
    by (rule year_end_close_InrD [OF ok]) (use ps in auto)
  have "request_net L (rq_lines closing) (ac_code a) = 0"
    using closing_net [OF build uniq cents a] re type by auto
  then have "account_net db1 e (ac_code a) = account_net db e (ac_code a)"
    using posting.post_net_other [OF post1 ra] by simp
  moreover have "account_net db' e (ac_code a) = account_net db1 e (ac_code a) + request_net L (rq_lines opn) (ac_code a)"
    by (rule posting.post_net_other [OF post2]) (use ra posting.post_frame(2) [OF post1] in simp)
  ultimately show ?thesis using opening_net [OF bs bopen uniq cents a re type] by simp
qed

end

text \<open>The reference of the closing entry stays in the ledger.\<close>

lemma close_leaves_reference:
  assumes ok: "execute_year_end_close L C E db e req = Inr (res, db')"
  shows "reference_exists db' e (''YEC-'' @ show_int (yc_fiscal_year req))"
proof -
  obtain ps closing cj opn oj and next_ps :: "fiscal_period list" and db1 :: "'a ledger_db_scheme" where
    build: "build_closing_entry (configs db e) (compute_pnl_balances db e ps) (last ps) req = Inr closing"
    and post1: "create_and_post_in_tx L C (evens E) db e closing (fp_id (last ps)) (yc_executed_by req) = Inr (cj, db1)"
    and post2: "create_and_post_in_tx L C (odds E) db1 e opn (fp_id (hd next_ps)) (yc_executed_by req) = Inr (oj, db')"
    by (rule year_end_close_InrD [OF ok]) (rule that)
  have ref: "rq_reference closing = ''YEC-'' @ show_int (yc_fiscal_year req)"
    using build by (auto simp: build_closing_entry_def Let_def split: if_splits)
  have keep: "reference_exists d2 e r" if "create_and_post_in_tx L C E' d1 e q i by' = Inr (j, d2)"
    and "reference_exists d1 e r \<or> rq_reference q = r" for E' q i by' j r and d1 d2 :: "'a ledger_db_scheme"
    using posting.post_effect [OF that(1)] that(2)
    by (auto simp: reference_exists_def posted_state_def entry_row_def)
  have "reference_exists db1 e (''YEC-'' @ show_int (yc_fiscal_year req))"
    by (rule keep [OF post1]) (simp add: ref)
  then show ?thesis by (intro keep [OF post2]) simp
qed

end
