(* ===== verification/YearEnd_Properties.thy ===== *)
theory YearEnd_Properties
  imports YearEnd_Correct Lifecycle
begin

text \<open>
  The properties of the year-end close, applied to a year of twelve hard-closed periods.
\<close>

section \<open>A closed year\<close>

definition year_periods :: "fiscal_period list" where
  "year_periods = map (\<lambda>k. \<lparr>fp_id = k + 1, fp_entity_id = 1, fp_name = ''P'',
      start_date = 739252 + 30 * int k, end_date = 739281 + 30 * int k, fp_status = ''open'',
      fiscal_year = (if k < 12 then 2025 else 2026), period_number = (if k < 12 then int k + 1 else 1),
      closed_by = None, closed_at = None, fp_created_at = 0\<rparr>) [0..<13]"

definition year_db0 :: ledger_db where
  "year_db0 = sample_db\<lparr>fiscal_periods := year_periods,
     accounts := sample_accounts @ [sample_account ''4600'' ''Equity'' False]\<rparr>"

definition year_result :: "(journal_entry \<times> ledger_db) erp_result" where
  "year_result = create_and_post_in_tx std_decimal gregorian sample_env year_db0 1 sample_request 1 (User 9)"

definition close_12 :: "fiscal_period \<Rightarrow> fiscal_period" where
  "close_12 p = (if fiscal_year p = 2025 then p\<lparr>fp_status := ''hard_closed''\<rparr> else p)"

definition year_db :: ledger_db where
  "year_db = (snd (projr year_result))\<lparr>fiscal_periods := map close_12 (fiscal_periods (snd (projr year_result)))\<rparr>"

lemma year_posts:
  "create_and_post_in_tx std_decimal gregorian sample_env year_db0 1 sample_request 1 (User 9)
    = Inr (fst (projr year_result), snd (projr year_result))"
proof -
  have "\<not> isl year_result" by code_simp
  then show ?thesis by (cases year_result) (auto simp: year_result_def)
qed

lemma year_db0_inv: "ledger_inv year_db0"
proof -
  have "distinct (map fp_id year_periods)" "list_all (\<lambda>p. start_date p \<le> end_date p) year_periods"
    "list_all (\<lambda>p. list_all (\<lambda>q. fp_id p \<noteq> fp_id q \<longrightarrow> periods_apart p q) year_periods) year_periods"
    by code_simp+
  moreover from this(1) have "p = q" if "p \<in> set year_periods" "q \<in> set year_periods" "fp_id p = fp_id q" for p q
    using that unfolding distinct_map by (meson inj_onD)
  ultimately have "periods_ok year_periods" unfolding periods_ok_def list_all_iff by blast
  then show ?thesis
    by (simp add: ledger_inv_def lines_covered_def snapshots_ok_def lines_linked_def entries_balanced_def
        year_db0_def sample_db_def snap_debit_def snap_credit_def)
qed

lemma year_db_inv: "ledger_inv year_db"
  unfolding year_db_def
proof (rule map_periods_ledger)
  show "keeps_span close_12" by (simp add: keeps_span_def close_12_def)
  have p: "find_period year_db0 1 1 = Some (year_periods ! 0)"
    "contains_date (year_periods ! 0) (rq_date sample_request)" by code_simp+
  show "ledger_inv (snd (projr year_result))"
    by (rule posting.post_keeps_ledger [OF year_posts year_db0_inv p sample_day])
qed

definition year_request :: year_end_close_request where
  "year_request = \<lparr>yc_fiscal_year = 2025, yc_executed_by = User 9\<rparr>"

definition year_close :: "(year_end_close_result \<times> ledger_db) erp_result" where
  "year_close = execute_year_end_close std_decimal gregorian sample_env2 year_db 1 year_request"

lemma year_closes:
  "execute_year_end_close std_decimal gregorian sample_env2 year_db 1 year_request
    = Inr (fst (projr year_close), snd (projr year_close))"
proof -
  have "\<not> isl year_close" by code_simp
  then show ?thesis by (cases year_close) (auto simp: year_close_def)
qed

lemma year_db_facts:
  "codes_unique year_db" "all_in_cents year_db"
  "get_fiscal_year_periods year_db 1 2025 = Inr (map close_12 (take 12 year_periods))"
proof -
  show "codes_unique year_db" by code_simp
  have "list_all (\<lambda>r. line_debit r \<in> {0, 500} \<and> line_credit r \<in> {0, 500}) (journal_lines year_db)" by code_simp
  then show "all_in_cents year_db" by (auto simp: all_in_cents_def list_all_iff)
  show "get_fiscal_year_periods year_db 1 2025 = Inr (map close_12 (take 12 year_periods))" by code_simp
qed

lemma year_db_accounts:
  "sample_account ''4000'' ''Revenue'' False \<in> set (accounts year_db)"
  "sample_account ''1000'' ''Asset'' False \<in> set (accounts year_db)"
  "posting (configs year_db 1) = default_posting_setup"
  using posting.post_frame(1,2) [OF year_posts]
  by (simp_all add: year_db_def year_db0_def sample_db_def sample_accounts_def default_config_def)

lemma year_db_balances:
  "account_net year_db 1 ''1000'' = 500"
  "matched_net year_db 1 (\<lambda>x. je_date x \<le> end_date (last (map close_12 (take 12 year_periods)))) ''1000'' = 500"
  by code_simp+

lemma year_accounts:
  "ac_code (sample_account c t k) = c" "ac_account_type (sample_account c t k) = t"
  "ac_entity_id (sample_account c t k) = 1"
  by (simp_all add: sample_account_def)

lemma year_codes:
  "retained_earnings default_posting_setup = ''4600''" "rounding_adjustment default_posting_setup = ''7900''"
  by (simp_all add: default_posting_setup_def)

lemmas year_facts = year_db_facts year_db_accounts year_accounts year_codes lower_types

section \<open>The properties\<close>

text \<open>C8: what a successful year-end close does to the ledger of the closed year. It requires twelve
  hard-closed periods. Afterwards the lines of the year on an account of type revenue or expense sum up
  to what the entries that had been reversed put on it (the query that closes the accounts skips
  them): to zero when no entry of the year has been reversed. Retained earnings has taken exactly
  the net income the close reports, and every other account of the year is untouched. The ledger is one that
  satisfies the invariants of posting, with one account per code and its lines in cents, as posting
  stores them.\<close>

theorem year_end_closes_the_year:
  assumes "decimal_laws L" and "ledger_inv db" and "codes_unique db" and "all_in_cents db"
    and "execute_year_end_close L C E db e req = Inr (res, db')"
    and "get_fiscal_year_periods db e (yc_fiscal_year req) = Inr ps"
    and "a \<in> set (accounts db)" and "ac_entity_id a = e"
  shows "length ps = 12 \<and> list_all (\<lambda>p. parsed_status p = HardClosed) ps
    \<and> year_net db' e ps (ac_code a)
      = (if lower (ac_account_type a) = ''revenue'' \<or> lower (ac_account_type a) = ''expense''
         then year_reversed db e ps (ac_code a) else year_net db e ps (ac_code a))
        - (if ac_code a = retained_earnings (posting (configs db e)) then ycr_net_income res else 0)
    \<and> ((\<forall>x \<in> set (journal_entries db). je_entity_id x = e \<longrightarrow> je_period_id x \<in> set (map fp_id ps) \<longrightarrow> je_status x = EntryPosted)
        \<longrightarrow> year_reversed db e ps (ac_code a) = 0)"
proof -
  have hard: "validate_all_periods_hard_closed ps = Inr ()"
    and income: "ycr_net_income res = compute_net_income (compute_pnl_balances db e ps)"
    by (rule year_end_close_InrD [OF assms(5)], use assms(6) in auto)+
  obtain closing where
    build: "build_closing_entry (configs db e) (compute_pnl_balances db e ps) (last ps) req = Inr closing"
    and eff: "year_net db' e ps (ac_code a) = year_net db e ps (ac_code a) + request_net L (rq_lines closing) (ac_code a)"
    using decimal_laws.closing_effect [OF assms(1,5,2,3,4,6)] by blast
  have twelve: "length ps = 12 \<and> list_all (\<lambda>p. parsed_status p = HardClosed) ps"
    using hard by (auto simp: validate_all_periods_hard_closed_def Let_def list_all_iff filter_empty_conv split: if_splits)
  have "year_net db' e ps (ac_code a)
      = (if lower (ac_account_type a) = ''revenue'' \<or> lower (ac_account_type a) = ''expense''
         then year_reversed db e ps (ac_code a) else year_net db e ps (ac_code a))
        - (if ac_code a = retained_earnings (posting (configs db e)) then ycr_net_income res else 0)"
    using eff year_net_split [of db e ps "ac_code a"] decimal_laws.closing_net [OF assms(1) build assms(3,4,7,8)]
    unfolding income by (auto simp del: set_map)
  with twelve year_reversed_none [of db e ps "ac_code a"] show ?thesis by blast
qed

theorem year_end_closes_the_year_witness:
  "year_net (snd (projr year_close)) 1 (map close_12 (take 12 year_periods)) ''4000'' = 0"
proof -
  have "list_all (\<lambda>x. je_status x = EntryPosted) (journal_entries year_db)" by code_simp
  then have posted: "\<forall>x \<in> set (journal_entries year_db). je_entity_id x = 1
    \<longrightarrow> je_period_id x \<in> set (map fp_id (map close_12 (take 12 year_periods))) \<longrightarrow> je_status x = EntryPosted"
    by (simp only: list_all_iff) blast
  have ps: "get_fiscal_year_periods year_db 1 (yc_fiscal_year year_request) = Inr (map close_12 (take 12 year_periods))"
    by (simp add: year_facts year_request_def del: One_nat_def)
  have codes: "ac_code (sample_account ''4000'' ''Revenue'' False) = ''4000''"
    "lower (ac_account_type (sample_account ''4000'' ''Revenue'' False)) = ''revenue''"
    "''4000'' \<noteq> retained_earnings (posting (configs year_db 1))"
    by (simp_all add: year_facts del: One_nat_def)
  note closed = year_end_closes_the_year [OF std.decimal_laws_axioms year_db_inv year_db_facts(1,2) year_closes ps
      year_db_accounts(1) year_accounts(3), unfolded codes(1,2)]
  have none: "year_reversed year_db 1 (map close_12 (take 12 year_periods)) ''4000'' = 0"
    by (rule mp [OF closed [THEN conjunct2, THEN conjunct2, THEN conjunct2] posted])
  show ?thesis
    using closed [THEN conjunct2, THEN conjunct2, THEN conjunct1]
    by (simp only: none codes(3) simp_thms if_True if_False diff_zero)
qed

text \<open>C9: a fiscal year is closed once: after a successful close every further attempt for the same
  tenant and year fails, and it fails because the year has already been closed.\<close>

theorem year_end_runs_once:
  assumes "execute_year_end_close L C E db e req = Inr (res, db')"
    and "yc_fiscal_year req' = yc_fiscal_year req"
  shows "execute_year_end_close L' C' E' db' e req'
    = Inl (ValidationFailed ''Fiscal year has already been closed'')"
proof -
  obtain ps next_ps where ps: "get_fiscal_year_periods db e (yc_fiscal_year req) = Inr ps"
    "validate_all_periods_hard_closed ps = Inr ()"
    "get_fiscal_year_periods db e (yc_fiscal_year req + 1) = Inr next_ps"
    by (rule year_end_close_InrD [OF assms(1)]) (rule that)
  have "fiscal_periods db' = fiscal_periods db"
    by (rule year_end_close_InrD [OF assms(1)]) (simp add: posting.post_frame)
  then have "get_fiscal_year_periods db' = get_fiscal_year_periods db"
    by (intro ext) (simp add: get_fiscal_year_periods_def)
  with ps close_leaves_reference [OF assms(1)] show ?thesis
    by (simp add: execute_year_end_close_def assms(2))
qed

theorem year_end_runs_once_witness:
  "execute_year_end_close std_decimal gregorian sample_env (snd (projr year_close)) 1 year_request
    = Inl (ValidationFailed ''Fiscal year has already been closed'')"
  by (rule year_end_runs_once [OF year_closes]) simp

text \<open>C10: the year-end close posts carried balances a second time. For every account of a balance-sheet
  type other than retained earnings and the rounding account, the balance after the close is the one
  before it plus, once more, the net of its posted (not reversed) entries up to the last day of the
  year; when all entries of the tenant are posted and dated up to that day, the balance has doubled.
  The reports sum all entries up to a date, so they show it twice.\<close>

theorem opening_entry_doubles_balances:
  assumes "decimal_laws L" and "ledger_inv db" and "codes_unique db" and "all_in_cents db"
    and "execute_year_end_close L C E db e req = Inr (res, db')"
    and "get_fiscal_year_periods db e (yc_fiscal_year req) = Inr ps"
    and "a \<in> set (accounts db)" and "ac_entity_id a = e"
    and "lower (ac_account_type a) \<in> {''asset'', ''liability'', ''equity'', ''contraasset'', ''contraliability''}"
    and "ac_code a \<noteq> retained_earnings (posting (configs db e))"
    and "ac_code a \<noteq> rounding_adjustment (posting (configs db e))"
  shows "account_net db' e (ac_code a)
    = account_net db e (ac_code a) + matched_net db e (\<lambda>x. je_date x \<le> end_date (last ps)) (ac_code a)
    \<and> ((\<forall>x \<in> set (journal_entries db). je_entity_id x = e \<longrightarrow> je_status x = EntryPosted \<and> je_date x \<le> end_date (last ps))
        \<longrightarrow> account_net db' e (ac_code a) = 2 * account_net db e (ac_code a))"
  using decimal_laws.opening_effect [OF assms(1,5,3,4,6-11)] matched_net_all [OF assms(2), of e _ "ac_code a"] by simp

theorem opening_entry_doubles_balances_witness:
  "account_net year_db 1 ''1000'' = 500 \<and> account_net (snd (projr year_close)) 1 ''1000'' = 1000"
  using opening_entry_doubles_balances [OF std.decimal_laws_axioms year_db_inv year_db_facts(1,2) year_closes, of
      "map close_12 (take 12 year_periods)" "sample_account ''1000'' ''Asset'' False"]
  by (simp add: year_facts year_request_def year_db_balances del: One_nat_def)

end
