(* ===== verification/HR.thy ===== *)
theory HR
  imports Calendar Money Journal
begin

text \<open>
  \<^verbatim>\<open>zavora-erp-core/src/hr/mod.rs\<close> and \<^verbatim>\<open>parties/employee.rs\<close>: the employee record, leave types,
  balances, requests and holidays, the working-days count and the default leave types. The
  columns of the tables that no modelled operation reads (contact data, numbers of other
  registers, time stamps of the rows) are left out.
\<close>

section \<open>Data\<close>

datatype accrual_method = FixedAnnual | MonthlyAccrual | Unlimited

datatype leave_status = LeavePending | LeaveApproved | LeaveDeclined | LeaveCancelled

record allowance =
  al_name :: string
  al_amount :: decimal
  al_taxable :: bool

record employee =
  ep_id :: uuid
  ep_entity_id :: uuid
  ep_staff_number :: string
  ep_full_name :: string
  ep_kra_pin :: string
  ep_helb_deduction :: "decimal option"
  ep_basic_salary :: decimal
  ep_allowances :: "allowance list"
  ep_tax_relief :: decimal
  ep_disability_exemption :: bool
  ep_start_date :: naive_date
  ep_end_date :: "naive_date option"
  ep_is_active :: bool
  ep_department_id :: "uuid option"
  ep_approver_user_id :: "uuid option"

record leave_type =
  lt_id :: uuid
  lt_entity_id :: uuid
  lt_name :: string
  lt_code :: string
  lt_paid :: bool
  lt_accrual_method :: string
  days_per_year :: decimal
  carryover_max :: decimal
  requires_attachment :: bool
  is_statutory :: bool
  lt_active :: bool

record create_leave_type_request =
  clt_name :: string
  clt_code :: string
  clt_paid :: bool
  clt_accrual_method :: accrual_method
  clt_days_per_year :: decimal
  clt_carryover_max :: decimal
  clt_requires_attachment :: bool
  clt_is_statutory :: bool

record leave_balance =
  lb_id :: uuid
  lb_entity_id :: uuid
  lb_employee_id :: uuid
  lb_leave_type_id :: uuid
  lb_year :: int
  entitled_days :: decimal
  accrued_days :: decimal
  taken_days :: decimal
  pending_days :: decimal
  carried_over :: decimal

record leave_request_row =
  lr_id :: uuid
  lr_entity_id :: uuid
  lr_employee_id :: uuid
  lr_leave_type_id :: uuid
  lr_start_date :: naive_date
  lr_end_date :: naive_date
  lr_half_day_start :: bool
  lr_half_day_end :: bool
  lr_working_days :: decimal
  lr_reason :: "string option"
  lr_attachment_url :: "string option"
  lr_status :: leave_status
  lr_approver_id :: "uuid option"
  lr_decided_at :: "timestamp option"
  lr_decision_note :: "string option"
  lr_assigned_approver_id :: "uuid option"

record create_leave_request_t =
  cl_leave_type_id :: uuid
  cl_start_date :: naive_date
  cl_end_date :: naive_date
  cl_half_day_start :: bool
  cl_half_day_end :: bool
  cl_reason :: "string option"
  cl_attachment_url :: "string option"

record holiday =
  ho_id :: uuid
  ho_entity_id :: uuid
  ho_date :: naive_date
  ho_name :: string
  ho_recurring :: bool

section \<open>Accrual methods\<close>

fun accrual_as_str :: "accrual_method \<Rightarrow> string" where
  "accrual_as_str FixedAnnual = ''FixedAnnual''"
| "accrual_as_str MonthlyAccrual = ''MonthlyAccrual''"
| "accrual_as_str Unlimited = ''Unlimited''"

definition accrual_parse :: "string \<Rightarrow> accrual_method" where
  "accrual_parse s = (if s = ''FixedAnnual'' then FixedAnnual
     else if s = ''Unlimited'' then Unlimited else MonthlyAccrual)"

lemma accrual_roundtrip [simp]: "accrual_parse (accrual_as_str m) = m"
  by (cases m) (simp_all add: accrual_parse_def)

definition leave_type_request ::
    "string \<Rightarrow> string \<Rightarrow> bool \<Rightarrow> accrual_method \<Rightarrow> decimal \<Rightarrow> bool \<Rightarrow> bool \<Rightarrow> create_leave_type_request" where
  "leave_type_request name code paid m d att stat =
     \<lparr>clt_name = name, clt_code = code, clt_paid = paid, clt_accrual_method = m,
      clt_days_per_year = d, clt_carryover_max = 0, clt_requires_attachment = att,
      clt_is_statutory = stat\<rparr>"

definition kenyan_default_leave_types :: "create_leave_type_request list" where
  "kenyan_default_leave_types =
     [leave_type_request ''Annual Leave'' ''ANNUAL'' True MonthlyAccrual 21 False True,
      leave_type_request ''Sick Leave'' ''SICK'' True FixedAnnual 14 True True,
      leave_type_request ''Maternity Leave'' ''MATERNITY'' True FixedAnnual 90 True True,
      leave_type_request ''Paternity Leave'' ''PATERNITY'' True FixedAnnual 14 False True,
      leave_type_request ''Compassionate Leave'' ''COMPASSIONATE'' True FixedAnnual 3 False False,
      leave_type_request ''Unpaid Leave'' ''UNPAID'' False Unlimited 0 False False]"

section \<open>Working days\<close>

definition is_working :: "calendar \<Rightarrow> naive_date list \<Rightarrow> naive_date \<Rightarrow> bool" where
  "is_working C holidays d \<longleftrightarrow> \<not> (weekday C d = 5 \<or> weekday C d = 6) \<and> d \<notin> set holidays"

text \<open>The loop over the days; it ends because every step moves the day towards the end.\<close>

function count_days :: "calendar \<Rightarrow> naive_date list \<Rightarrow> naive_date \<Rightarrow> naive_date \<Rightarrow> decimal \<Rightarrow> decimal" where
  "count_days C holidays d till acc =
     (if d \<le> till
      then count_days C holidays (d + 1) till (if is_working C holidays d then acc + 1 else acc)
      else acc)"
  by auto
termination
  by (relation "measure (\<lambda>(C, holidays, d, till, acc). nat (till - d + 1))") auto

declare count_days.simps [simp del]

definition working_days ::
    "calendar \<Rightarrow> naive_date \<Rightarrow> naive_date \<Rightarrow> bool \<Rightarrow> bool \<Rightarrow> naive_date list \<Rightarrow> decimal" where
  "working_days C start till half_day_start half_day_end holidays =
     (if till < start then 0
      else let acc = count_days C holidays start till 0;
               t1 = (if half_day_start \<and> is_working C holidays start then acc - 1 / 2 else acc);
               t2 = (if half_day_end \<and> till \<noteq> start \<and> is_working C holidays till then t1 - 1 / 2 else t1)
           in if t2 < 0 then 0 else t2)"

text \<open>The loop counts the working days of the range.\<close>

lemma count_days_count:
  "count_days C hs d till t = t + of_nat (length (filter (is_working C hs) [d..till]))"
proof (induction C hs d till t rule: count_days.induct)
  case (1 C hs d till t)
  show ?case
  proof (cases "d \<le> till")
    case True
    then have "[d..till] = d # [d + 1..till]" by (simp add: upto.simps)
    with True 1 show ?thesis by (subst count_days.simps) simp
  next
    case False
    then show ?thesis by (subst count_days.simps) simp
  qed
qed

lemma working_days_nonneg: "0 \<le> working_days C a b hs he holidays"
  by (simp add: working_days_def Let_def)

lemma working_days_full:
  "working_days C a b False False holidays = of_nat (length (filter (is_working C holidays) [a..b]))"
  by (simp add: working_days_def Let_def count_days_count)

lemma working_days_le_full: "working_days C a b hs he holidays \<le> working_days C a b False False holidays"
  by (simp add: working_days_def Let_def)

lemma working_days_le_span: "a \<le> b + 1 \<Longrightarrow> working_days C a b hs he holidays \<le> of_int (b - a + 1)"
proof -
  assume "a \<le> b + 1"
  have "length (filter (is_working C holidays) [a..b]) \<le> nat (b - a + 1)"
    using length_filter_le [of "is_working C holidays" "[a..b]"] by simp
  then have "(of_nat (length (filter (is_working C holidays) [a..b])) :: decimal) \<le> of_nat (nat (b - a + 1))"
    by (simp only: of_nat_le_iff)
  also have "\<dots> = of_int (b - a + 1)" using \<open>a \<le> b + 1\<close> by (simp add: of_nat_nat)
  finally show ?thesis using working_days_le_full [of C a b hs he holidays] by (simp add: working_days_full)
qed

text \<open>Full days are additive over a split of the range.\<close>

lemma working_days_split:
  assumes "a \<le> m" and "m \<le> b"
  shows "working_days C a b False False hs
    = working_days C a m False False hs + working_days C (m + 1) b False False hs"
proof -
  have "[a..b] = [a..m] @ [m + 1..b]" by (rule upto_split2) (use assms in auto)
  then show ?thesis by (simp add: working_days_full)
qed

section \<open>The state\<close>

record people_db = ledger_db +
  employees :: "employee list"
  leave_types :: "leave_type list"
  leave_requests :: "leave_request_row list"
  leave_balances :: "leave_balance list"
  holidays :: "holiday list"

end
