(* ===== verification/Leave.thy ===== *)
theory Leave
  imports HR
begin

text \<open>
  \<^verbatim>\<open>zavora-erp-core/src/services/leave.rs\<close>: leave types, holidays, balances and the life of a
  leave request. An operation that commits in several steps returns the state it leaves behind
  with its result, since a late failure keeps what was committed before. Notifications, the
  look-ups of e-mail addresses and foreign keys are not modelled.
\<close>

section \<open>Leave types and holidays\<close>

definition list_leave_types :: "'a people_db_scheme \<Rightarrow> uuid \<Rightarrow> leave_type list" where
  "list_leave_types db e =
     sort_key (\<lambda>t. \<not> is_statutory t)
       (sort_key lt_name (filter (\<lambda>t. lt_entity_id t = e) (leave_types db)))"

definition new_leave_type :: "uuid \<Rightarrow> uuid \<Rightarrow> create_leave_type_request \<Rightarrow> leave_type" where
  "new_leave_type i e req =
     \<lparr>lt_id = i, lt_entity_id = e, lt_name = clt_name req, lt_code = clt_code req,
      lt_paid = clt_paid req, lt_accrual_method = accrual_as_str (clt_accrual_method req),
      days_per_year = numeric_column 2 (clt_days_per_year req),
      carryover_max = numeric_column 2 (clt_carryover_max req),
      requires_attachment = clt_requires_attachment req, is_statutory = clt_is_statutory req,
      lt_active = True\<rparr>"

definition create_leave_type ::
    "'a people_db_scheme \<Rightarrow> uuid \<Rightarrow> uuid \<Rightarrow> create_leave_type_request \<Rightarrow> 'a people_db_scheme \<times> uuid" where
  "create_leave_type db i e req =
     ((if \<exists>t \<in> set (leave_types db). lt_entity_id t = e \<and> lt_code t = clt_code req then db
       else db\<lparr>leave_types := leave_types db @ [new_leave_type i e req]\<rparr>), i)"

definition set_leave_type_active ::
    "'a people_db_scheme \<Rightarrow> uuid \<Rightarrow> uuid \<Rightarrow> bool \<Rightarrow> 'a people_db_scheme" where
  "set_leave_type_active db e i active =
     db\<lparr>leave_types := map (\<lambda>t. if lt_id t = i \<and> lt_entity_id t = e then t\<lparr>lt_active := active\<rparr> else t)
       (leave_types db)\<rparr>"

fun create_leave_types ::
    "'a people_db_scheme \<Rightarrow> (nat \<Rightarrow> uuid) \<Rightarrow> uuid \<Rightarrow> create_leave_type_request list \<Rightarrow> 'a people_db_scheme" where
  "create_leave_types db ids e [] = db"
| "create_leave_types db ids e (t # ts) =
     create_leave_types (fst (create_leave_type db (ids 0) e t)) (\<lambda>n. ids (n + 1)) e ts"

definition seed_default_leave_types ::
    "environment \<Rightarrow> 'a people_db_scheme \<Rightarrow> uuid \<Rightarrow> 'a people_db_scheme" where
  "seed_default_leave_types E db e =
     (if filter (\<lambda>t. lt_entity_id t = e) (leave_types db) = []
      then create_leave_types db (uuids E) e kenyan_default_leave_types else db)"

text \<open>A second holiday on the same day of the tenant renames the first.\<close>

definition create_holiday ::
    "'a people_db_scheme \<Rightarrow> uuid \<Rightarrow> uuid \<Rightarrow> naive_date \<Rightarrow> string \<Rightarrow> bool \<Rightarrow> 'a people_db_scheme" where
  "create_holiday db i e date name recurring =
     (if \<exists>h \<in> set (holidays db). ho_entity_id h = e \<and> ho_date h = date
      then db\<lparr>holidays := map (\<lambda>h. if ho_entity_id h = e \<and> ho_date h = date then h\<lparr>ho_name := name\<rparr> else h)
        (holidays db)\<rparr>
      else db\<lparr>holidays := holidays db @
        [\<lparr>ho_id = i, ho_entity_id = e, ho_date = date, ho_name = name, ho_recurring = recurring\<rparr>]\<rparr>)"

definition delete_holiday :: "'a people_db_scheme \<Rightarrow> uuid \<Rightarrow> uuid \<Rightarrow> 'a people_db_scheme" where
  "delete_holiday db e i =
     db\<lparr>holidays := filter (\<lambda>h. \<not> (ho_id h = i \<and> ho_entity_id h = e)) (holidays db)\<rparr>"

definition in_range :: "naive_date \<Rightarrow> naive_date \<Rightarrow> naive_date \<Rightarrow> bool" where
  "in_range a b d \<longleftrightarrow> a \<le> d \<and> d \<le> b"

definition holiday_occurrences :: "calendar \<Rightarrow> naive_date \<Rightarrow> naive_date \<Rightarrow> holiday \<Rightarrow> naive_date list" where
  "holiday_occurrences C from till h =
     (if ho_recurring h
      then filter (in_range from till)
        (List.map_filter (\<lambda>y. from_ymd_opt C y (month C (ho_date h)) (day C (ho_date h)))
          [year C from..year C till])
      else if in_range from till (ho_date h) then [ho_date h] else [])"

definition holiday_dates ::
    "calendar \<Rightarrow> 'a people_db_scheme \<Rightarrow> uuid \<Rightarrow> naive_date \<Rightarrow> naive_date \<Rightarrow> naive_date list" where
  "holiday_dates C db e from till =
     concat (map (holiday_occurrences C from till) (filter (\<lambda>h. ho_entity_id h = e) (holidays db)))"

section \<open>Balances\<close>

definition entitlement_from ::
    "decimal_lib \<Rightarrow> calendar \<Rightarrow> decimal \<Rightarrow> accrual_method \<Rightarrow> int \<Rightarrow> int \<Rightarrow> naive_date \<Rightarrow> decimal" where
  "entitlement_from L C dpy m y start_month as_of =
     (case m of
        MonthlyAccrual \<Rightarrow>
          let elapsed_to = (if y < year C as_of then 12 else if year C as_of < y then 0
                else int (month C as_of));
              months = min (max (elapsed_to - start_month + 1) 0) 12
          in round_dp L (div_dec L (dpy * of_int months) 12) 2
      | _ \<Rightarrow> dpy)"

definition entitlement_at ::
    "decimal_lib \<Rightarrow> calendar \<Rightarrow> decimal \<Rightarrow> accrual_method \<Rightarrow> int \<Rightarrow> naive_date option \<Rightarrow> naive_date \<Rightarrow> decimal" where
  "entitlement_at L C dpy m y emp_start as_of =
     (case emp_start of
        Some d \<Rightarrow> if y < year C d then 0
          else entitlement_from L C dpy m y (if year C d = y then int (month C d) else 1) as_of
      | None \<Rightarrow> entitlement_from L C dpy m y 1 as_of)"

definition find_leave_type :: "'a people_db_scheme \<Rightarrow> uuid \<Rightarrow> uuid \<Rightarrow> leave_type option" where
  "find_leave_type db e i = List.find (\<lambda>t. lt_id t = i \<and> lt_entity_id t = e) (leave_types db)"

definition find_employee :: "'a people_db_scheme \<Rightarrow> uuid \<Rightarrow> uuid \<Rightarrow> employee option" where
  "find_employee db e i = List.find (\<lambda>x. ep_id x = i \<and> ep_entity_id x = e) (employees db)"

definition balance_key :: "leave_balance \<Rightarrow> uuid \<times> uuid \<times> int" where
  "balance_key b = (lb_employee_id b, lb_leave_type_id b, lb_year b)"

definition find_balance :: "'a people_db_scheme \<Rightarrow> uuid \<Rightarrow> uuid \<Rightarrow> int \<Rightarrow> leave_balance option" where
  "find_balance db emp t y = List.find (\<lambda>b. balance_key b = (emp, t, y)) (leave_balances db)"

definition update_balance ::
    "uuid \<times> uuid \<times> int \<Rightarrow> (leave_balance \<Rightarrow> leave_balance) \<Rightarrow> 'a people_db_scheme \<Rightarrow> 'a people_db_scheme" where
  "update_balance k f db =
     db\<lparr>leave_balances := map (\<lambda>b. if balance_key b = k then f b else b) (leave_balances db)\<rparr>"

definition upsert_leave_balance ::
    "uuid \<Rightarrow> uuid \<Rightarrow> uuid \<times> uuid \<times> int \<Rightarrow> decimal \<Rightarrow> decimal \<Rightarrow> decimal \<Rightarrow> 'a people_db_scheme \<Rightarrow> 'a people_db_scheme" where
  "upsert_leave_balance i e k entitled accrued carried db =
     (if \<exists>b \<in> set (leave_balances db). balance_key b = k
      then update_balance k (\<lambda>b. b\<lparr>entitled_days := entitled, accrued_days := accrued, carried_over := carried\<rparr>) db
      else db\<lparr>leave_balances := leave_balances db @
        [\<lparr>lb_id = i, lb_entity_id = e, lb_employee_id = fst k, lb_leave_type_id = fst (snd k),
          lb_year = snd (snd k), entitled_days = entitled, accrued_days = accrued, taken_days = 0,
          pending_days = 0, carried_over = carried\<rparr>]\<rparr>)"

definition carried_from :: "leave_type \<Rightarrow> leave_balance option \<Rightarrow> decimal" where
  "carried_from t prior =
     (if 0 < carryover_max t
      then (case prior of
          Some b \<Rightarrow> min (max (accrued_days b + carried_over b - taken_days b) 0) (carryover_max t)
        | None \<Rightarrow> 0)
      else 0)"

definition ensure_balance ::
    "decimal_lib \<Rightarrow> calendar \<Rightarrow> environment \<Rightarrow> 'a people_db_scheme \<Rightarrow> uuid \<Rightarrow> uuid \<Rightarrow> uuid \<Rightarrow> int
      \<Rightarrow> (leave_balance \<times> 'a people_db_scheme) erp_result" where
  "ensure_balance L C E db e emp t y =
     and_then (ok_or (find_leave_type db e t) (NotFound ''LeaveType'' t)) (\<lambda>lt.
       let accrued = entitlement_at L C (days_per_year lt) (accrual_parse (lt_accrual_method lt)) y
             (map_option ep_start_date (find_employee db e emp)) (today E);
           carried = carried_from lt (find_balance db emp t (y - 1));
           db' = upsert_leave_balance (uuids E 0) e (emp, t, y) (days_per_year lt) accrued carried db in
       Inr (the (find_balance db' emp t y), db'))"

text \<open>\<open>list_balances\<close>: every active type gets its row, then the rows of the year are listed.\<close>

fun ensure_balances ::
    "decimal_lib \<Rightarrow> calendar \<Rightarrow> environment \<Rightarrow> 'a people_db_scheme \<Rightarrow> uuid \<Rightarrow> uuid \<Rightarrow> int \<Rightarrow> uuid list
      \<Rightarrow> 'a people_db_scheme erp_result" where
  "ensure_balances L C E db e emp y [] = Inr db"
| "ensure_balances L C E db e emp y (t # ts) =
     and_then (ensure_balance L C (evens E) db e emp t y) (\<lambda>(_, db').
       ensure_balances L C (odds E) db' e emp y ts)"

definition list_balances ::
    "decimal_lib \<Rightarrow> calendar \<Rightarrow> environment \<Rightarrow> 'a people_db_scheme \<Rightarrow> uuid \<Rightarrow> uuid \<Rightarrow> int
      \<Rightarrow> (leave_balance list \<times> 'a people_db_scheme) erp_result" where
  "list_balances L C E db e emp y =
     and_then (ensure_balances L C E db e emp y (map lt_id (filter lt_active (list_leave_types db e)))) (\<lambda>db'.
       Inr (filter (\<lambda>b. lb_entity_id b = e \<and> lb_employee_id b = emp \<and> lb_year b = y) (leave_balances db'), db'))"

section \<open>Requests\<close>

definition leave_overlap :: "'a people_db_scheme \<Rightarrow> uuid \<Rightarrow> uuid \<Rightarrow> naive_date \<Rightarrow> naive_date \<Rightarrow> bool" where
  "leave_overlap db e emp a b \<longleftrightarrow>
     (\<exists>r \<in> set (leave_requests db). lr_entity_id r = e \<and> lr_employee_id r = emp
        \<and> (lr_status r = LeavePending \<or> lr_status r = LeaveApproved)
        \<and> \<not> (lr_end_date r < a \<or> b < lr_start_date r))"

definition resolve_approver :: "'a people_db_scheme \<Rightarrow> uuid \<Rightarrow> uuid \<Rightarrow> uuid option" where
  "resolve_approver db e emp = Option.bind (find_employee db e emp) ep_approver_user_id"

definition new_request ::
    "uuid \<Rightarrow> uuid \<Rightarrow> uuid \<Rightarrow> create_leave_request_t \<Rightarrow> decimal \<Rightarrow> uuid option \<Rightarrow> leave_request_row" where
  "new_request i e emp req days approver =
     \<lparr>lr_id = i, lr_entity_id = e, lr_employee_id = emp, lr_leave_type_id = cl_leave_type_id req,
      lr_start_date = cl_start_date req, lr_end_date = cl_end_date req,
      lr_half_day_start = cl_half_day_start req, lr_half_day_end = cl_half_day_end req,
      lr_working_days = days, lr_reason = cl_reason req, lr_attachment_url = cl_attachment_url req,
      lr_status = LeavePending, lr_approver_id = None, lr_decided_at = None,
      lr_decision_note = None, lr_assigned_approver_id = approver\<rparr>"

definition available_days :: "leave_balance \<Rightarrow> decimal" where
  "available_days b = accrued_days b + carried_over b - taken_days b - pending_days b"

text \<open>The balance check of paid, capped types; the refreshed balance row stays also when it fails.\<close>

definition check_available ::
    "decimal_lib \<Rightarrow> calendar \<Rightarrow> environment \<Rightarrow> 'a people_db_scheme \<Rightarrow> uuid \<Rightarrow> uuid \<Rightarrow> leave_type \<Rightarrow> int \<Rightarrow> decimal
      \<Rightarrow> 'a people_db_scheme \<times> unit erp_result" where
  "check_available L C E db e emp lt y days =
     (if lt_paid lt \<and> accrual_parse (lt_accrual_method lt) \<noteq> Unlimited
      then (case ensure_balance L C E db e emp (lt_id lt) y of
          Inl err \<Rightarrow> (db, Inl err)
        | Inr (bal, db') \<Rightarrow>
            if available_days bal < days
            then (db', Inl (ValidationFailed (''Insufficient '' @ lt_name lt @ '' balance'')))
            else (db', Inr ()))
      else (db, Inr ()))"

definition reserve_request ::
    "calendar \<Rightarrow> leave_request_row \<Rightarrow> 'a people_db_scheme \<Rightarrow> 'a people_db_scheme" where
  "reserve_request C r db =
     update_balance (lr_employee_id r, lr_leave_type_id r, year C (lr_start_date r))
       (\<lambda>b. b\<lparr>pending_days := pending_days b + lr_working_days r\<rparr>)
       (db\<lparr>leave_requests := leave_requests db @ [r]\<rparr>)"

definition request_days ::
    "calendar \<Rightarrow> 'a people_db_scheme \<Rightarrow> uuid \<Rightarrow> create_leave_request_t \<Rightarrow> decimal" where
  "request_days C db e req =
     working_days C (cl_start_date req) (cl_end_date req) (cl_half_day_start req) (cl_half_day_end req)
       (holiday_dates C db e (cl_start_date req) (cl_end_date req))"

definition create_leave_request ::
    "decimal_lib \<Rightarrow> calendar \<Rightarrow> environment \<Rightarrow> 'a people_db_scheme \<Rightarrow> uuid \<Rightarrow> uuid \<Rightarrow> create_leave_request_t
      \<Rightarrow> 'a people_db_scheme \<times> uuid erp_result" where
  "create_leave_request L C E db e emp req =
     (if cl_end_date req < cl_start_date req
      then (db, Inl (ValidationFailed ''End date is before start date''))
      else case find_leave_type db e (cl_leave_type_id req) of
        None \<Rightarrow> (db, Inl (NotFound ''LeaveType'' (cl_leave_type_id req)))
      | Some lt \<Rightarrow>
          if requires_attachment lt \<and> unwrap_or (cl_attachment_url req) [] = []
          then (db, Inl (ValidationFailed (lt_name lt @ '' requires a supporting document'')))
          else if leave_overlap db e emp (cl_start_date req) (cl_end_date req)
          then (db, Inl (ValidationFailed ''This overlaps an existing leave request''))
          else if request_days C db e req \<le> 0
          then (db, Inl (ValidationFailed ''The selected dates contain no working days''))
          else (case check_available L C (evens E) db e emp lt (year C (cl_start_date req)) (request_days C db e req) of
              (db1, Inl err) \<Rightarrow> (db1, Inl err)
            | (db1, Inr _) \<Rightarrow>
                (reserve_request C (new_request (uuids E 1) e emp req (request_days C db e req)
                   (resolve_approver db1 e emp)) db1, Inr (uuids E 1))))"

definition fetch_request :: "'a people_db_scheme \<Rightarrow> uuid \<Rightarrow> uuid \<Rightarrow> leave_request_row erp_result" where
  "fetch_request db e i =
     ok_or (List.find (\<lambda>r. lr_id r = i \<and> lr_entity_id r = e) (leave_requests db)) (NotFound ''LeaveRequest'' i)"

definition update_request ::
    "uuid \<Rightarrow> uuid \<Rightarrow> (leave_request_row \<Rightarrow> leave_request_row) \<Rightarrow> 'a people_db_scheme \<Rightarrow> 'a people_db_scheme" where
  "update_request e i f db =
     db\<lparr>leave_requests := map (\<lambda>r. if lr_id r = i \<and> lr_entity_id r = e then f r else r) (leave_requests db)\<rparr>"

definition request_balance :: "calendar \<Rightarrow> leave_request_row \<Rightarrow> uuid \<times> uuid \<times> int" where
  "request_balance C r = (lr_employee_id r, lr_leave_type_id r, year C (lr_start_date r))"

definition decide ::
    "leave_status \<Rightarrow> uuid \<Rightarrow> timestamp \<Rightarrow> string option \<Rightarrow> leave_request_row \<Rightarrow> leave_request_row" where
  "decide s approver t note r =
     r\<lparr>lr_status := s, lr_approver_id := Some approver, lr_decided_at := Some t, lr_decision_note := note\<rparr>"

fun status_name :: "leave_status \<Rightarrow> string" where
  "status_name LeavePending = ''Pending''"
| "status_name LeaveApproved = ''Approved''"
| "status_name LeaveDeclined = ''Declined''"
| "status_name LeaveCancelled = ''Cancelled''"

definition release_pending :: "decimal \<Rightarrow> leave_balance \<Rightarrow> leave_balance" where
  "release_pending d b = b\<lparr>pending_days := max (pending_days b - d) 0\<rparr>"

definition take_pending :: "decimal \<Rightarrow> leave_balance \<Rightarrow> leave_balance" where
  "take_pending d b = b\<lparr>pending_days := max (pending_days b - d) 0, taken_days := taken_days b + d\<rparr>"

definition restore_taken :: "decimal \<Rightarrow> leave_balance \<Rightarrow> leave_balance" where
  "restore_taken d b = b\<lparr>taken_days := max (taken_days b - d) 0\<rparr>"

definition approve_leave ::
    "calendar \<Rightarrow> environment \<Rightarrow> 'a people_db_scheme \<Rightarrow> uuid \<Rightarrow> uuid \<Rightarrow> uuid \<Rightarrow> string option
      \<Rightarrow> 'a people_db_scheme erp_result" where
  "approve_leave C E db e i approver note =
     and_then (fetch_request db e i) (\<lambda>r.
       if lr_status r \<noteq> LeavePending
       then Inl (ValidationFailed (''Request is '' @ status_name (lr_status r)))
       else Inr (update_balance (request_balance C r) (take_pending (lr_working_days r))
         (update_request e i (decide LeaveApproved approver (now E) note) db)))"

definition decline_leave ::
    "calendar \<Rightarrow> environment \<Rightarrow> 'a people_db_scheme \<Rightarrow> uuid \<Rightarrow> uuid \<Rightarrow> uuid \<Rightarrow> string option
      \<Rightarrow> 'a people_db_scheme erp_result" where
  "decline_leave C E db e i approver note =
     and_then (fetch_request db e i) (\<lambda>r.
       if lr_status r \<noteq> LeavePending
       then Inl (ValidationFailed (''Request is '' @ status_name (lr_status r)))
       else Inr (update_balance (request_balance C r) (release_pending (lr_working_days r))
         (update_request e i (decide LeaveDeclined approver (now E) note) db)))"

definition cancel_leave ::
    "calendar \<Rightarrow> 'a people_db_scheme \<Rightarrow> uuid \<Rightarrow> uuid \<Rightarrow> 'a people_db_scheme erp_result" where
  "cancel_leave C db e i =
     and_then (fetch_request db e i) (\<lambda>r.
       if lr_status r \<noteq> LeavePending \<and> lr_status r \<noteq> LeaveApproved
       then Inl (ValidationFailed (''Cannot cancel a '' @ status_name (lr_status r) @ '' request''))
       else Inr (update_balance (request_balance C r)
         (if lr_status r = LeaveApproved then restore_taken (lr_working_days r)
          else release_pending (lr_working_days r))
         (update_request e i (\<lambda>r. r\<lparr>lr_status := LeaveCancelled\<rparr>) db)))"

definition list_leave_requests ::
    "'a people_db_scheme \<Rightarrow> uuid \<Rightarrow> uuid option \<Rightarrow> leave_status option \<Rightarrow> uuid option \<Rightarrow> leave_request_row list" where
  "list_leave_requests db e emp status assigned =
     rev (filter (\<lambda>r. lr_entity_id r = e \<and> (emp = None \<or> emp = Some (lr_employee_id r))
        \<and> (status = None \<or> status = Some (lr_status r))
        \<and> (assigned = None \<or> assigned = lr_assigned_approver_id r)) (leave_requests db))"

text \<open>What payroll deducts: the days of approved unpaid requests that touch the period.\<close>

definition is_unpaid_type :: "'a people_db_scheme \<Rightarrow> uuid \<Rightarrow> bool" where
  "is_unpaid_type db t \<longleftrightarrow> (\<exists>x \<in> set (leave_types db). lt_id x = t \<and> \<not> lt_paid x)"

definition unpaid_leave_days ::
    "'a people_db_scheme \<Rightarrow> uuid \<Rightarrow> uuid \<Rightarrow> naive_date \<Rightarrow> naive_date \<Rightarrow> decimal" where
  "unpaid_leave_days db e emp from till =
     sum_where (\<lambda>r. lr_entity_id r = e \<and> lr_employee_id r = emp \<and> lr_status r = LeaveApproved
        \<and> is_unpaid_type db (lr_leave_type_id r) \<and> lr_start_date r \<le> till \<and> from \<le> lr_end_date r)
       lr_working_days (leave_requests db)"

end
