(* ===== verification/Leave_Correct.thy ===== *)
theory Leave_Correct
  imports Leave
begin

text \<open>
  What the leave operations keep: the reserved and the taken days of a balance are the days of the
  pending and the approved requests behind it, and the active requests of an employee do not
  overlap.
\<close>

section \<open>The invariant\<close>

definition days_in :: "calendar \<Rightarrow> 'a people_db_scheme \<Rightarrow> leave_status \<Rightarrow> uuid \<times> uuid \<times> int \<Rightarrow> decimal" where
  "days_in C db s k = sum_where (\<lambda>r. lr_status r = s \<and> request_balance C r = k) lr_working_days (leave_requests db)"

definition active_request :: "leave_request_row \<Rightarrow> bool" where
  "active_request r \<longleftrightarrow> lr_status r = LeavePending \<or> lr_status r = LeaveApproved"

definition capped :: "'a people_db_scheme \<Rightarrow> uuid \<Rightarrow> bool" where
  "capped db t \<longleftrightarrow> (\<exists>x \<in> set (leave_types db). lt_id x = t \<and> lt_paid x
     \<and> accrual_parse (lt_accrual_method x) \<noteq> Unlimited)"

definition leave_apart :: "leave_request_row \<Rightarrow> leave_request_row \<Rightarrow> bool" where
  "leave_apart r s \<longleftrightarrow> lr_end_date r < lr_start_date s \<or> lr_end_date s < lr_start_date r"

definition leave_keys :: "'a people_db_scheme \<Rightarrow> bool" where
  "leave_keys db \<longleftrightarrow> distinct (map lr_id (leave_requests db)) \<and> distinct (map lt_id (leave_types db))
     \<and> distinct (map balance_key (leave_balances db))
     \<and> (\<forall>r \<in> set (leave_requests db). lr_leave_type_id r \<in> lt_id ` set (leave_types db))
     \<and> (\<forall>b \<in> set (leave_balances db). lb_leave_type_id b \<in> lt_id ` set (leave_types db))"

definition balances_exact :: "calendar \<Rightarrow> 'a people_db_scheme \<Rightarrow> bool" where
  "balances_exact C db \<longleftrightarrow>
     (\<forall>b \<in> set (leave_balances db). capped db (lb_leave_type_id b) \<longrightarrow>
        pending_days b = days_in C db LeavePending (balance_key b)
        \<and> taken_days b = days_in C db LeaveApproved (balance_key b))
     \<and> (\<forall>r \<in> set (leave_requests db). capped db (lr_leave_type_id r) \<and> active_request r \<longrightarrow>
        request_balance C r \<in> balance_key ` set (leave_balances db))"

definition requests_apart :: "'a people_db_scheme \<Rightarrow> bool" where
  "requests_apart db \<longleftrightarrow>
     (\<forall>r \<in> set (leave_requests db). \<forall>s \<in> set (leave_requests db).
        lr_id r \<noteq> lr_id s \<and> active_request r \<and> active_request s \<and> lr_entity_id r = lr_entity_id s
        \<and> lr_employee_id r = lr_employee_id s \<longrightarrow> leave_apart r s)"

definition leave_inv :: "calendar \<Rightarrow> 'a people_db_scheme \<Rightarrow> bool" where
  "leave_inv C db \<longleftrightarrow> leave_keys db \<and> balances_exact C db \<and> requests_apart db
     \<and> (\<forall>r \<in> set (leave_requests db). 0 \<le> lr_working_days r)"

lemma leave_invD:
  assumes "leave_inv C db"
  shows "leave_keys db" "balances_exact C db" "requests_apart db"
    "r \<in> set (leave_requests db) \<Longrightarrow> 0 \<le> lr_working_days r"
  using assms by (simp_all add: leave_inv_def)

lemma leave_keysD:
  assumes "leave_keys db"
  shows "distinct (map lr_id (leave_requests db))" "distinct (map lt_id (leave_types db))"
    "distinct (map balance_key (leave_balances db))"
  using assms by (simp_all add: leave_keys_def)

text \<open>Operations that leave requests, balances and the terms of the types alone.\<close>

lemma leave_inv_frame:
  assumes "leave_inv C db" and "leave_requests db' = leave_requests db" and "leave_balances db' = leave_balances db"
    and "leave_types db' = leave_types db"
  shows "leave_inv C db'"
  using assms
  by (simp add: leave_inv_def leave_keys_def balances_exact_def requests_apart_def capped_def days_in_def)

section \<open>Types\<close>

lemma capped_new_type:
  assumes "lt_id x \<notin> lt_id ` set (leave_types db)" and "t \<in> lt_id ` set (leave_types db)"
  shows "capped (db\<lparr>leave_types := leave_types db @ [x]\<rparr>) t = capped db t"
  using assms by (auto simp: capped_def)

lemma create_leave_type_inv:
  assumes inv: "leave_inv C db" and fresh: "i \<notin> lt_id ` set (leave_types db)"
  shows "leave_inv C (fst (create_leave_type db i e req))"
proof (cases "\<exists>t \<in> set (leave_types db). lt_entity_id t = e \<and> lt_code t = clt_code req")
  case True
  with inv show ?thesis by (simp add: create_leave_type_def)
next
  case False
  let ?x = "new_leave_type i e req"
  let ?db = "db\<lparr>leave_types := leave_types db @ [?x]\<rparr>"
  have i: "lt_id ?x = i" by (simp add: new_leave_type_def)
  have cap: "t \<in> lt_id ` set (leave_types db) \<Longrightarrow> capped ?db t = capped db t" for t
    using capped_new_type [of ?x db t] fresh i by simp
  note K = leave_invD(1) [OF inv, unfolded leave_keys_def] and B = leave_invD(2) [OF inv, unfolded balances_exact_def]
  have "leave_keys ?db" using K fresh i by (auto simp: leave_keys_def)
  moreover have "balances_exact C ?db"
    unfolding balances_exact_def using K B cap by (simp add: days_in_def)
  moreover have "requests_apart ?db" using leave_invD(3) [OF inv] by (simp add: requests_apart_def)
  ultimately have "leave_inv C ?db" using inv by (simp add: leave_inv_def)
  moreover have "fst (create_leave_type db i e req) = ?db" using False by (auto simp: create_leave_type_def)
  ultimately show ?thesis by simp
qed

lemma set_leave_type_active_inv:
  assumes "leave_inv C db"
  shows "leave_inv C (set_leave_type_active db e i a)"
proof -
  define f :: "leave_type \<Rightarrow> leave_type" where "f = (\<lambda>t. if lt_id t = i \<and> lt_entity_id t = e then t\<lparr>lt_active := a\<rparr> else t)"
  have same: "lt_id (f t) = lt_id t" "lt_paid (f t) = lt_paid t" "lt_accrual_method (f t) = lt_accrual_method t" for t
    by (simp_all add: f_def)
  have types: "set_leave_type_active db e i a = db\<lparr>leave_types := map f (leave_types db)\<rparr>"
    by (simp add: set_leave_type_active_def f_def)
  have cap: "capped (db\<lparr>leave_types := map f (leave_types db)\<rparr>) t = capped db t" for t
    by (auto simp: capped_def same)
  show ?thesis
    using assms
    unfolding types leave_inv_def leave_keys_def balances_exact_def requests_apart_def days_in_def cap
    by (simp add: image_image same comp_def)
qed

section \<open>Balances\<close>

lemma update_balance_frame [simp]:
  "leave_requests (update_balance k f db) = leave_requests db"
  "leave_types (update_balance k f db) = leave_types db"
  "days_in C (update_balance k f db) = days_in C db"
  "capped (update_balance k f db) = capped db"
  by (auto simp: update_balance_def days_in_def capped_def fun_eq_iff)

lemma update_balance_keys:
  assumes "\<And>b. balance_key (f b) = balance_key b"
  shows "map balance_key (leave_balances (update_balance k f db)) = map balance_key (leave_balances db)"
  using assms by (simp add: update_balance_def)

lemma upsert_balance_frame [simp]:
  "leave_requests (upsert_leave_balance i e k x y z db) = leave_requests db"
  "leave_types (upsert_leave_balance i e k x y z db) = leave_types db"
  by (auto simp: upsert_leave_balance_def)

lemma days_in_none:
  assumes "balances_exact C db" and "capped db t" and "(emp, t, y) \<notin> balance_key ` set (leave_balances db)"
    and "s = LeavePending \<or> s = LeaveApproved"
  shows "days_in C db s (emp, t, y) = 0"
  unfolding days_in_def
proof (rule sum_where_none)
  fix r assume r: "r \<in> set (leave_requests db)"
  show "\<not> (lr_status r = s \<and> request_balance C r = (emp, t, y))"
  proof
    assume a: "lr_status r = s \<and> request_balance C r = (emp, t, y)"
    with assms(4) have "active_request r" "lr_leave_type_id r = t"
      by (auto simp: active_request_def request_balance_def)
    with assms(1,2) r have "request_balance C r \<in> balance_key ` set (leave_balances db)"
      by (simp add: balances_exact_def)
    with a assms(3) show False by simp
  qed
qed

lemma upsert_balance_inv:
  assumes inv: "leave_inv C db" and t: "t \<in> lt_id ` set (leave_types db)"
  shows "leave_inv C (upsert_leave_balance i e (emp, t, y) en ac ca db)"
proof -
  let ?k = "(emp, t, y)" and ?db = "upsert_leave_balance i e (emp, t, y) en ac ca db"
  note K = leave_invD(1) [OF inv, unfolded leave_keys_def] and B = leave_invD(2) [OF inv, unfolded balances_exact_def]
  have days: "days_in C ?db = days_in C db" and cap: "capped ?db = capped db"
    by (simp_all add: fun_eq_iff days_in_def capped_def)
  have "requests_apart ?db" using leave_invD(3) [OF inv] by (simp add: requests_apart_def)
  moreover have "leave_keys ?db \<and> balances_exact C ?db"
  proof (cases "\<exists>b \<in> set (leave_balances db). balance_key b = ?k")
    case True
    let ?f = "\<lambda>b. b\<lparr>entitled_days := en, accrued_days := ac, carried_over := ca\<rparr>"
    have db: "?db = update_balance ?k ?f db" using True by (simp add: upsert_leave_balance_def)
    have fk: "balance_key (?f b) = balance_key b" for b by (simp add: balance_key_def)
    note keys = update_balance_keys [of ?f, OF fk, of ?k db]
    have bal: "\<exists>b' \<in> set (leave_balances db). balance_key b = balance_key b' \<and> lb_leave_type_id b = lb_leave_type_id b'
        \<and> pending_days b = pending_days b' \<and> taken_days b = taken_days b'"
      if "b \<in> set (leave_balances ?db)" for b
      using that by (auto simp: db update_balance_def balance_key_def)
    have "leave_keys ?db"
      unfolding leave_keys_def using K keys bal by (fastforce simp: db)
    moreover have "balances_exact C ?db"
      unfolding balances_exact_def days cap using B bal arg_cong [where f = set, OF keys]
      by (fastforce simp: db)
    ultimately show ?thesis by simp
  next
    case False
    then have new: "?k \<notin> balance_key ` set (leave_balances db)" by auto
    note zero = days_in_none [OF leave_invD(2) [OF inv] _ new]
    have bal: "leave_balances ?db = leave_balances db @ [\<lparr>lb_id = i, lb_entity_id = e, lb_employee_id = emp,
        lb_leave_type_id = t, lb_year = y, entitled_days = en, accrued_days = ac, taken_days = 0,
        pending_days = 0, carried_over = ca\<rparr>]"
      using False by (auto simp: upsert_leave_balance_def)
    have "leave_keys ?db"
      unfolding leave_keys_def bal using K new t by (auto simp: balance_key_def)
    moreover have "balances_exact C ?db"
      unfolding balances_exact_def days cap bal using B zero by (auto simp: balance_key_def)
    ultimately show ?thesis by simp
  qed
  ultimately show ?thesis using inv by (simp add: leave_inv_def)
qed

lemma ensure_balance_InrD:
  assumes "ensure_balance L C E db e emp t y = Inr (b, db')"
  obtains lt ac ca where "find_leave_type db e t = Some lt"
    "db' = upsert_leave_balance (uuids E 0) e (emp, t, y) (days_per_year lt) ac ca db"
    "find_balance db' emp t y = Some b"
proof -
  obtain lt ac ca where lt: "find_leave_type db e t = Some lt"
    and db': "db' = upsert_leave_balance (uuids E 0) e (emp, t, y) (days_per_year lt) ac ca db"
    and b: "b = the (find_balance db' emp t y)"
    using assms by (auto simp: ensure_balance_def Let_def)
  have "\<exists>b \<in> set (leave_balances db'). balance_key b = (emp, t, y)"
  proof (cases "\<exists>b \<in> set (leave_balances db). balance_key b = (emp, t, y)")
    case True
    then obtain b where b: "b \<in> set (leave_balances db)" "balance_key b = (emp, t, y)" by blast
    then have "b\<lparr>entitled_days := days_per_year lt, accrued_days := ac, carried_over := ca\<rparr> \<in> set (leave_balances db')"
      using True by (force simp: db' upsert_leave_balance_def update_balance_def)
    with b(2) show ?thesis by (intro bexI) (simp_all add: balance_key_def)
  next
    case False
    then show ?thesis by (auto simp: db' upsert_leave_balance_def balance_key_def)
  qed
  then have "find_balance db' emp t y \<noteq> None" by (auto simp: find_balance_def find_None_iff)
  with b have "find_balance db' emp t y = Some b" by auto
  with lt db' show thesis by (rule that)
qed

lemma ensure_balance_inv:
  assumes "ensure_balance L C E db e emp t y = Inr (b, db')" and "leave_inv C db"
  shows "leave_inv C db'"
proof -
  obtain lt ac ca where lt: "find_leave_type db e t = Some lt"
    and db': "db' = upsert_leave_balance (uuids E 0) e (emp, t, y) (days_per_year lt) ac ca db"
    by (rule ensure_balance_InrD [OF assms(1)])
  have "t \<in> lt_id ` set (leave_types db)"
    using lt by (auto simp: find_leave_type_def find_Some_iff)
  with assms(2) show ?thesis unfolding db' by (rule upsert_balance_inv)
qed

lemma ensure_balances_inv:
  "ensure_balances L C E db e emp y ts = Inr db' \<Longrightarrow> leave_inv C db \<Longrightarrow> leave_inv C db'"
  by (induction ts arbitrary: E db) (auto dest: ensure_balance_inv)

section \<open>Requests\<close>

lemma fetch_requestD:
  "fetch_request db e i = Inr r \<Longrightarrow> r \<in> set (leave_requests db) \<and> lr_id r = i \<and> lr_entity_id r = e"
  by (auto simp: fetch_request_def find_Some_iff)

lemma update_request_by_id:
  assumes "leave_keys db" and "fetch_request db e i = Inr r"
  shows "leave_requests (update_request e i g db) = map (\<lambda>x. if lr_id x = lr_id r then g x else x) (leave_requests db)"
proof -
  note r = fetch_requestD [OF assms(2)]
  have "(lr_id x = i \<and> lr_entity_id x = e) = (lr_id x = lr_id r)" if "x \<in> set (leave_requests db)" for x
    using keyed_eq [OF leave_keysD(1) [OF assms(1)] that, of r] r by auto
  then show ?thesis by (auto simp: update_request_def)
qed

lemma days_in_new:
  "days_in C (db\<lparr>leave_requests := leave_requests db @ [r]\<rparr>) s k
    = days_in C db s k + (if lr_status r = s \<and> request_balance C r = k then lr_working_days r else 0)"
  by (simp add: days_in_def)

lemma days_in_ge:
  assumes "leave_inv C db" and "r \<in> set (leave_requests db)"
  shows "lr_working_days r \<le> days_in C db (lr_status r) (request_balance C r)"
proof -
  let ?p = "\<lambda>x. lr_status x = lr_status r \<and> request_balance C x = request_balance C r"
  have "x \<in> set (leave_requests db) \<Longrightarrow> 0 \<le> lr_working_days x" for x by (rule leave_invD(4) [OF assms(1)])
  moreover have "r \<in> set xs \<Longrightarrow> (\<And>x. x \<in> set xs \<Longrightarrow> 0 \<le> lr_working_days x) \<Longrightarrow>
      lr_working_days r \<le> sum_where ?p lr_working_days xs" for xs
  proof (induction xs)
    case Nil
    then show ?case by simp
  next
    case (Cons x xs)
    have rest: "0 \<le> sum_where ?p lr_working_days xs" by (rule sum_where_nonneg) (use Cons.prems(2) in simp)
    show ?case
    proof (cases "x = r")
      case True
      with rest show ?thesis by simp
    next
      case False
      with Cons.prems have "lr_working_days r \<le> sum_where ?p lr_working_days xs"
        by (intro Cons.IH) auto
      moreover have "0 \<le> lr_working_days x" using Cons.prems(2) by simp
      ultimately show ?thesis by simp
    qed
  qed
  ultimately show ?thesis using assms(2) unfolding days_in_def by blast
qed

lemma days_in_nonneg: "leave_inv C db \<Longrightarrow> 0 \<le> days_in C db s k"
  unfolding days_in_def by (rule sum_where_nonneg) (rule leave_invD(4))

text \<open>
  Every decision has one shape: a request leaves its status for one that is not pending, and its
  balance row gives up the days reserved or taken for the old status and books them for the new.
\<close>

definition moves_days :: "leave_status \<Rightarrow> leave_status \<Rightarrow> decimal \<Rightarrow> (leave_balance \<Rightarrow> leave_balance) \<Rightarrow> bool" where
  "moves_days s s' d f \<longleftrightarrow> (\<forall>b. balance_key (f b) = balance_key b \<and> lb_leave_type_id (f b) = lb_leave_type_id b
     \<and> pending_days (f b) = (if s = LeavePending then max (pending_days b - d) 0 else pending_days b)
     \<and> taken_days (f b) = (if s = LeaveApproved then max (taken_days b - d) 0
         else if s' = LeaveApproved then taken_days b + d else taken_days b))"

lemma moves_daysI:
  "moves_days LeavePending LeaveApproved d (take_pending d)"
  "moves_days LeavePending LeaveDeclined d (release_pending d)"
  "moves_days LeavePending LeaveCancelled d (release_pending d)"
  "moves_days LeaveApproved LeaveCancelled d (restore_taken d)"
  by (simp_all add: moves_days_def take_pending_def release_pending_def restore_taken_def balance_key_def)

definition restates :: "leave_status \<Rightarrow> (leave_request_row \<Rightarrow> leave_request_row) \<Rightarrow> bool" where
  "restates s' g \<longleftrightarrow> (\<forall>r. lr_status (g r) = s' \<and> lr_id (g r) = lr_id r \<and> lr_entity_id (g r) = lr_entity_id r
     \<and> lr_employee_id (g r) = lr_employee_id r \<and> lr_leave_type_id (g r) = lr_leave_type_id r
     \<and> lr_start_date (g r) = lr_start_date r \<and> lr_end_date (g r) = lr_end_date r
     \<and> lr_working_days (g r) = lr_working_days r)"

lemma restatesI:
  "restates s (decide s a t n)" "restates LeaveCancelled (\<lambda>r. r\<lparr>lr_status := LeaveCancelled\<rparr>)"
  by (simp_all add: restates_def decide_def)

lemma decision_inv:
  assumes inv: "leave_inv C db" and r: "fetch_request db e i = Inr r" and g: "restates s' g"
    and f: "moves_days (lr_status r) s' (lr_working_days r) f"
    and s: "lr_status r = LeavePending \<and> s' \<noteq> LeavePending \<or> lr_status r = LeaveApproved \<and> s' = LeaveCancelled"
  shows "leave_inv C (update_balance (request_balance C r) f (update_request e i g db))"
proof -
  let ?db = "update_balance (request_balance C r) f (update_request e i g db)"
  define rs where "rs = map (\<lambda>x. if lr_id x = lr_id r then g x else x) (leave_requests db)"
  note K = leave_invD(1) [OF inv] and mem = fetch_requestD [OF r]
  have reqs: "leave_requests ?db = rs" using update_request_by_id [OF K r] by (simp add: rs_def)
  have types: "leave_types ?db = leave_types db" by (simp add: update_request_def)
  have cap: "capped ?db = capped db" by (simp add: capped_def fun_eq_iff update_request_def)
  have old: "\<exists>y \<in> set (leave_requests db). lr_id x = lr_id y \<and> lr_entity_id x = lr_entity_id y
      \<and> lr_employee_id x = lr_employee_id y \<and> lr_leave_type_id x = lr_leave_type_id y
      \<and> lr_start_date x = lr_start_date y \<and> lr_end_date x = lr_end_date y
      \<and> lr_working_days x = lr_working_days y \<and> (active_request x \<longrightarrow> active_request y)" if x: "x \<in> set rs" for x
  proof -
    obtain y :: leave_request_row where y: "y \<in> set (leave_requests db)" "x = (if lr_id y = lr_id r then g y else y)"
      using x unfolding rs_def set_map by blast
    have "lr_id y = lr_id r \<Longrightarrow> y = r" by (rule keyed_eq [OF leave_keysD(1) [OF K] y(1)]) (use mem in auto)
    with y g s show ?thesis by (intro bexI [of _ y]) (auto simp: restates_def active_request_def)
  qed
  have days: "days_in C ?db t k = days_in C db t k - (if lr_status r = t \<and> request_balance C r = k then lr_working_days r else 0)
      + (if s' = t \<and> request_balance C r = k then lr_working_days r else 0)" for t k
    unfolding days_in_def reqs rs_def
    using sum_where_update_one [OF leave_keysD(1) [OF K], of r "\<lambda>x. lr_status x = t \<and> request_balance C x = k" lr_working_days g] mem g
    by (simp add: restates_def request_balance_def)
  have fk: "balance_key (f b) = balance_key b" for b using f by (simp add: moves_days_def)
  have bal: "leave_balances ?db = map (\<lambda>b. if balance_key b = request_balance C r then f b else b) (leave_balances db)"
    by (simp add: update_balance_def update_request_def)
  have keys: "map balance_key (leave_balances ?db) = map balance_key (leave_balances db)"
    unfolding bal by (rule map_update_keys) (rule fk)
  have ids: "map lr_id (leave_requests ?db) = map lr_id (leave_requests db)"
    unfolding reqs rs_def by (rule map_update_keys) (use g in \<open>simp add: restates_def\<close>)
  have types_b: "\<exists>b' \<in> set (leave_balances db). lb_leave_type_id b = lb_leave_type_id b'" if "b \<in> set (leave_balances ?db)" for b
    using that f unfolding bal by (auto simp: moves_days_def)
  have "leave_keys ?db"
    unfolding leave_keys_def keys ids types
  proof (intro conjI ballI)
    fix x assume "x \<in> set (leave_requests ?db)"
    then obtain y where "y \<in> set (leave_requests db)" "lr_leave_type_id x = lr_leave_type_id y"
      using old unfolding reqs by blast
    then show "lr_leave_type_id x \<in> lt_id ` set (leave_types db)" using K by (simp add: leave_keys_def)
  next
    fix b assume "b \<in> set (leave_balances ?db)"
    then obtain b' where "b' \<in> set (leave_balances db)" "lb_leave_type_id b = lb_leave_type_id b'"
      using types_b by blast
    then show "lb_leave_type_id b \<in> lt_id ` set (leave_types db)" using K by (simp add: leave_keys_def)
  qed (use K in \<open>simp_all add: leave_keys_def\<close>)
  moreover have "balances_exact C ?db"
    unfolding balances_exact_def cap
  proof (intro conjI ballI impI)
    fix b assume b: "b \<in> set (leave_balances ?db)" "capped db (lb_leave_type_id b)"
    obtain b0 where b0: "b0 \<in> set (leave_balances db)" "b = (if balance_key b0 = request_balance C r then f b0 else b0)"
      using b(1) unfolding bal by auto
    have "lb_leave_type_id b = lb_leave_type_id b0" using b0(2) f by (simp add: moves_days_def)
    with b(2) have cap0: "capped db (lb_leave_type_id b0)" by simp
    have exact: "pending_days b0 = days_in C db LeavePending (balance_key b0)"
      "taken_days b0 = days_in C db LeaveApproved (balance_key b0)"
      using leave_invD(2) [OF inv] b0(1) cap0 by (simp_all add: balances_exact_def)
    have key: "balance_key b = balance_key b0" using b0(2) fk by simp
    have ge: "lr_working_days r \<le> days_in C db (lr_status r) (request_balance C r)"
      using days_in_ge [OF inv] mem by blast
    show "pending_days b = days_in C ?db LeavePending (balance_key b)"
      unfolding key days using b0(2) exact ge f s by (auto simp: moves_days_def)
    show "taken_days b = days_in C ?db LeaveApproved (balance_key b)"
      unfolding key days using b0(2) exact ge f s by (auto simp: moves_days_def)
  next
    fix x assume x: "x \<in> set (leave_requests ?db)" "capped db (lr_leave_type_id x) \<and> active_request x"
    obtain y :: leave_request_row where y: "y \<in> set (leave_requests db)" "lr_employee_id x = lr_employee_id y"
      "lr_leave_type_id x = lr_leave_type_id y" "lr_start_date x = lr_start_date y" "active_request y"
      using old x unfolding reqs by blast
    then have "request_balance C y \<in> balance_key ` set (leave_balances db)"
      using leave_invD(2) [OF inv] x(2) by (simp add: balances_exact_def)
    moreover have "request_balance C x = request_balance C y" by (simp add: request_balance_def y)
    ultimately show "request_balance C x \<in> balance_key ` set (leave_balances ?db)"
      using arg_cong [where f = set, OF keys] by simp
  qed
  moreover have "requests_apart ?db"
    unfolding requests_apart_def reqs
  proof (intro ballI impI)
    fix x y assume xy: "x \<in> set rs" "y \<in> set rs" "lr_id x \<noteq> lr_id y \<and> active_request x \<and> active_request y
      \<and> lr_entity_id x = lr_entity_id y \<and> lr_employee_id x = lr_employee_id y"
    from old [OF xy(1)] old [OF xy(2)] xy(3) leave_invD(3) [OF inv] show "leave_apart x y"
      unfolding requests_apart_def leave_apart_def by metis
  qed
  moreover have "0 \<le> lr_working_days x" if "x \<in> set (leave_requests ?db)" for x
    using old [of x] that leave_invD(4) [OF inv] unfolding reqs by metis
  ultimately show ?thesis by (simp add: leave_inv_def)
qed

lemma approve_leave_InrD:
  assumes "approve_leave C E db e i a n = Inr db'"
  obtains r where "fetch_request db e i = Inr r" "lr_status r = LeavePending"
    "db' = update_balance (request_balance C r) (take_pending (lr_working_days r))
      (update_request e i (decide LeaveApproved a (now E) n) db)"
  using assms by (auto simp: approve_leave_def split: if_splits)

lemma decline_leave_InrD:
  assumes "decline_leave C E db e i a n = Inr db'"
  obtains r where "fetch_request db e i = Inr r" "lr_status r = LeavePending"
    "db' = update_balance (request_balance C r) (release_pending (lr_working_days r))
      (update_request e i (decide LeaveDeclined a (now E) n) db)"
  using assms by (auto simp: decline_leave_def split: if_splits)

lemma approve_leave_inv:
  assumes "approve_leave C E db e i a n = Inr db'" and "leave_inv C db"
  shows "leave_inv C db'"
  by (rule approve_leave_InrD [OF assms(1)])
    (simp add: decision_inv [OF assms(2) _ restatesI(1), where s' = LeaveApproved] moves_daysI)

lemma decline_leave_inv:
  assumes "decline_leave C E db e i a n = Inr db'" and "leave_inv C db"
  shows "leave_inv C db'"
  by (rule decline_leave_InrD [OF assms(1)])
    (simp add: decision_inv [OF assms(2) _ restatesI(1), where s' = LeaveDeclined] moves_daysI)

lemma cancel_leave_inv:
  assumes "cancel_leave C db e i = Inr db'" and "leave_inv C db"
  shows "leave_inv C db'"
proof -
  obtain r where r: "fetch_request db e i = Inr r" "lr_status r = LeavePending \<or> lr_status r = LeaveApproved"
    "db' = update_balance (request_balance C r)
         (if lr_status r = LeaveApproved then restore_taken (lr_working_days r)
          else release_pending (lr_working_days r))
         (update_request e i (\<lambda>r. r\<lparr>lr_status := LeaveCancelled\<rparr>) db)"
    using assms(1) by (auto simp: cancel_leave_def split: if_split_asm)
  show ?thesis
    unfolding r(3) by (rule decision_inv [OF assms(2) r(1) restatesI(2)]) (use r(2) moves_daysI in auto)
qed

text \<open>Creating a request.\<close>

lemma check_available_inv:
  assumes "check_available L C E db e emp lt y d = (db', res)" and "leave_inv C db"
  shows "leave_inv C db'" and "leave_requests db' = leave_requests db" and "leave_types db' = leave_types db"
proof -
  have "leave_inv C db' \<and> leave_requests db' = leave_requests db \<and> leave_types db' = leave_types db"
  proof (cases "ensure_balance L C E db e emp (lt_id lt) y")
    case (Inl err)
    with assms show ?thesis by (auto simp: check_available_def split: if_splits)
  next
    case (Inr p)
    obtain b d2 where p: "p = (b, d2)" by (cases p)
    note ens = Inr [unfolded p]
    have "leave_inv C d2" by (rule ensure_balance_inv [OF ens assms(2)])
    moreover have "leave_requests d2 = leave_requests db" "leave_types d2 = leave_types db"
      by (rule ensure_balance_InrD [OF ens], simp)+
    ultimately show ?thesis using assms ens by (auto simp: check_available_def split: if_splits)
  qed
  then show "leave_inv C db'" "leave_requests db' = leave_requests db" "leave_types db' = leave_types db" by auto
qed

lemma check_available_ok:
  assumes "check_available L C E db e emp lt y d = (db', Inr ())"
    and "lt_paid lt" and "accrual_parse (lt_accrual_method lt) \<noteq> Unlimited"
  obtains b where "b \<in> set (leave_balances db')" "balance_key b = (emp, lt_id lt, y)" "d \<le> available_days b"
proof -
  from assms obtain b where b: "ensure_balance L C E db e emp (lt_id lt) y = Inr (b, db')" "d \<le> available_days b"
    by (auto simp: check_available_def split: sum.splits if_splits)
  from ensure_balance_InrD [OF b(1)] have "find_balance db' emp (lt_id lt) y = Some b" by metis
  then have "b \<in> set (leave_balances db')" "balance_key b = (emp, lt_id lt, y)"
    by (auto simp: find_balance_def find_Some_iff)
  with b(2) that show thesis by blast
qed

lemma create_leave_request_InrD:
  assumes "create_leave_request L C E db e emp req = (db', Inr i)"
  obtains lt db1 where "find_leave_type db e (cl_leave_type_id req) = Some lt"
    "cl_start_date req \<le> cl_end_date req"
    "\<not> leave_overlap db e emp (cl_start_date req) (cl_end_date req)" "0 < request_days C db e req"
    "check_available L C (evens E) db e emp lt (year C (cl_start_date req)) (request_days C db e req) = (db1, Inr ())"
    "db' = reserve_request C (new_request (uuids E 1) e emp req (request_days C db e req) (resolve_approver db1 e emp)) db1"
    "i = uuids E 1"
proof -
  have dates: "cl_start_date req \<le> cl_end_date req"
    using assms by (auto simp: create_leave_request_def split: if_split_asm)
  with assms obtain lt where lt: "find_leave_type db e (cl_leave_type_id req) = Some lt"
    by (auto simp: create_leave_request_def split: option.split_asm)
  obtain db1 c where c: "check_available L C (evens E) db e emp lt (year C (cl_start_date req)) (request_days C db e req) = (db1, c)"
    by (meson surj_pair)
  from assms dates lt have free: "\<not> leave_overlap db e emp (cl_start_date req) (cl_end_date req)"
    and days: "0 < request_days C db e req"
    by (auto simp: create_leave_request_def split: if_split_asm)
  from assms dates lt c have "c = Inr ()"
    "db' = reserve_request C (new_request (uuids E 1) e emp req (request_days C db e req) (resolve_approver db1 e emp)) db1"
    "i = uuids E 1"
    by (cases c, auto simp: create_leave_request_def split: if_split_asm)+
  with that lt dates free days c show thesis by blast
qed

lemma create_leave_request_InlD:
  assumes "create_leave_request L C E db e emp req = (db', Inl err)" and inv: "leave_inv C db"
  shows "leave_inv C db'"
proof (cases "find_leave_type db e (cl_leave_type_id req)")
  case None
  with assms show ?thesis by (auto simp: create_leave_request_def split: if_split_asm)
next
  case (Some lt)
  obtain db1 c where c: "check_available L C (evens E) db e emp lt (year C (cl_start_date req)) (request_days C db e req) = (db1, c)"
    by (meson surj_pair)
  with check_available_inv(1) [OF c inv] Some assms show ?thesis
    by (cases c) (auto simp: create_leave_request_def split: if_split_asm)
qed

lemma reserve_request_inv:
  assumes inv: "leave_inv C db" and fresh: "lr_id r \<notin> lr_id ` set (leave_requests db)"
    and type: "lr_leave_type_id r \<in> lt_id ` set (leave_types db)"
    and r: "lr_status r = LeavePending" "0 \<le> lr_working_days r"
    and bal: "capped db (lr_leave_type_id r) \<Longrightarrow> request_balance C r \<in> balance_key ` set (leave_balances db)"
    and free: "\<not> leave_overlap db (lr_entity_id r) (lr_employee_id r) (lr_start_date r) (lr_end_date r)"
  shows "leave_inv C (reserve_request C r db)"
proof -
  let ?f = "\<lambda>b. b\<lparr>pending_days := pending_days b + lr_working_days r\<rparr>"
  let ?db = "reserve_request C r db"
  have fk: "balance_key (?f b) = balance_key b" for b by (simp add: balance_key_def)
  have reqs: "leave_requests ?db = leave_requests db @ [r]" by (simp add: reserve_request_def)
  have types: "leave_types ?db = leave_types db" by (simp add: reserve_request_def)
  have cap: "capped ?db = capped db" by (simp add: capped_def fun_eq_iff types)
  have bals: "leave_balances ?db = map (\<lambda>b. if balance_key b = request_balance C r then ?f b else b) (leave_balances db)"
    by (simp add: reserve_request_def update_balance_def request_balance_def)
  have keys: "map balance_key (leave_balances ?db) = map balance_key (leave_balances db)"
    unfolding bals by (rule map_update_keys) (rule fk)
  have days: "days_in C ?db s k = days_in C db s k + (if s = LeavePending \<and> request_balance C r = k then lr_working_days r else 0)" for s k
    by (auto simp: days_in_def reqs r)
  note K = leave_invD(1) [OF inv, unfolded leave_keys_def] and B = leave_invD(2) [OF inv, unfolded balances_exact_def]
  have "leave_keys ?db"
    unfolding leave_keys_def keys types reqs using K fresh type by (auto simp: bals)
  moreover have "balances_exact C ?db"
    unfolding balances_exact_def cap
  proof (intro conjI ballI impI)
    fix b assume b: "b \<in> set (leave_balances ?db)" "capped db (lb_leave_type_id b)"
    obtain b0 where b0: "b0 \<in> set (leave_balances db)" "b = (if balance_key b0 = request_balance C r then ?f b0 else b0)"
      using b(1) unfolding bals set_map by blast
    have same: "lb_leave_type_id b0 = lb_leave_type_id b" "balance_key b = balance_key b0" "taken_days b = taken_days b0"
      using b0(2) by (simp_all add: balance_key_def)
    have exact: "pending_days b0 = days_in C db LeavePending (balance_key b0)"
      "taken_days b0 = days_in C db LeaveApproved (balance_key b0)"
      using B b0(1) b(2) same(1) by simp_all
    show "pending_days b = days_in C ?db LeavePending (balance_key b)"
      unfolding days same(2) using b0(2) exact(1) by simp
    show "taken_days b = days_in C ?db LeaveApproved (balance_key b)"
      unfolding days same(2,3) using exact(2) by simp
  next
    fix x assume x: "x \<in> set (leave_requests ?db)" "capped db (lr_leave_type_id x) \<and> active_request x"
    then have "request_balance C x \<in> balance_key ` set (leave_balances db)"
      using B bal by (auto simp: reqs)
    then show "request_balance C x \<in> balance_key ` set (leave_balances ?db)"
      using arg_cong [where f = set, OF keys] by simp
  qed
  moreover have "requests_apart ?db"
    unfolding requests_apart_def reqs
    using leave_invD(3) [OF inv] free
    by (auto simp: requests_apart_def leave_overlap_def leave_apart_def active_request_def)
  moreover have "0 \<le> lr_working_days x" if "x \<in> set (leave_requests ?db)" for x
    using that leave_invD(4) [OF inv] r(2) by (auto simp: reqs)
  ultimately show ?thesis by (simp add: leave_inv_def)
qed

end
