(* ===== verification/Leave_Properties.thy ===== *)
theory Leave_Properties
  imports Leave_Correct
begin

text \<open>
  The leave module as a transition system, and its properties.
\<close>

section \<open>Steps\<close>

inductive leave_step :: "decimal_lib \<Rightarrow> calendar \<Rightarrow> 'a people_db_scheme \<Rightarrow> 'a people_db_scheme \<Rightarrow> bool"
  for L C where
  type_created: "i \<notin> lt_id ` set (leave_types db) \<Longrightarrow>
    leave_step L C db (fst (create_leave_type db i e treq))"
| type_switched: "leave_step L C db (set_leave_type_active db e i active)"
| holiday_created: "leave_step L C db (create_holiday db i e date name recurring)"
| holiday_deleted: "leave_step L C db (delete_holiday db e i)"
| balances_listed: "list_balances L C E db e emp y = Inr (bs, db') \<Longrightarrow> leave_step L C db db'"
| requested: "create_leave_request L C E db e emp req = (db', res) \<Longrightarrow>
    uuids E 1 \<notin> lr_id ` set (leave_requests db) \<Longrightarrow> leave_step L C db db'"
| approved: "approve_leave C E db e i approver note = Inr db' \<Longrightarrow> leave_step L C db db'"
| declined: "decline_leave C E db e i approver note = Inr db' \<Longrightarrow> leave_step L C db db'"
| cancelled: "cancel_leave C db e i = Inr db' \<Longrightarrow> leave_step L C db db'"

inductive leave_reachable :: "decimal_lib \<Rightarrow> calendar \<Rightarrow> 'a people_db_scheme \<Rightarrow> bool"
  for L C where
  no_leave: "leave_types db = [] \<Longrightarrow> leave_requests db = [] \<Longrightarrow> leave_balances db = [] \<Longrightarrow>
    leave_reachable L C db"
| leave_more: "leave_reachable L C db \<Longrightarrow> leave_step L C db db' \<Longrightarrow> leave_reachable L C db'"

inductive_cases leave_stepE: "leave_step L C db db'"

lemma create_leave_request_inv:
  assumes call: "create_leave_request L C E db e emp req = (db', res)"
    and fresh: "uuids E 1 \<notin> lr_id ` set (leave_requests db)" and inv: "leave_inv C db"
  shows "leave_inv C db'"
proof (cases res)
  case (Inl err)
  with call inv show ?thesis by (auto dest: create_leave_request_InlD)
next
  case (Inr i)
  obtain lt db1 where lt: "find_leave_type db e (cl_leave_type_id req) = Some lt"
    and free: "\<not> leave_overlap db e emp (cl_start_date req) (cl_end_date req)"
    and days: "0 < request_days C db e req"
    and check: "check_available L C (evens E) db e emp lt (year C (cl_start_date req)) (request_days C db e req) = (db1, Inr ())"
    and db': "db' = reserve_request C (new_request (uuids E 1) e emp req (request_days C db e req) (resolve_approver db1 e emp)) db1"
    by (rule create_leave_request_InrD [OF call [unfolded Inr]])
  note c = check_available_inv [OF check inv]
  have l: "lt \<in> set (leave_types db)" "lt_id lt = cl_leave_type_id req"
    using lt by (auto simp: find_leave_type_def find_Some_iff)
  have bal: "(emp, lt_id lt, year C (cl_start_date req)) \<in> balance_key ` set (leave_balances db1)"
    if "capped db1 (lt_id lt)"
  proof -
    obtain x where x: "x \<in> set (leave_types db)" "lt_id x = lt_id lt" "lt_paid x"
      "accrual_parse (lt_accrual_method x) \<noteq> Unlimited"
      using \<open>capped db1 (lt_id lt)\<close> c(3) by (auto simp: capped_def)
    have "x = lt" by (rule keyed_eq [OF leave_keysD(2) [OF leave_invD(1) [OF inv]] x(1) l(1) x(2)])
    with x obtain b where "b \<in> set (leave_balances db1)" "balance_key b = (emp, lt_id lt, year C (cl_start_date req))"
      by (metis check_available_ok [OF check])
    then show ?thesis by force
  qed
  have "cl_leave_type_id req \<in> lt_id ` set (leave_types db)" using l by force
  then show ?thesis
    unfolding db'
    by (intro reserve_request_inv [OF c(1)])
      (use fresh free days l bal c in \<open>auto simp: new_request_def request_balance_def leave_overlap_def\<close>)
qed

lemma leave_step_inv: "leave_step L C db db' \<Longrightarrow> leave_inv C db \<Longrightarrow> leave_inv C db'"
proof (induction rule: leave_step.induct)
  case (type_created i db e treq)
  then show ?case by (rule create_leave_type_inv [rotated])
next
  case (type_switched db e i active)
  then show ?case by (rule set_leave_type_active_inv)
next
  case (holiday_created db i e date name recurring)
  then show ?case by (rule leave_inv_frame) (simp_all add: create_holiday_def)
next
  case (holiday_deleted db e i)
  then show ?case by (rule leave_inv_frame) (simp_all add: delete_holiday_def)
next
  case (balances_listed E db e emp y bs db')
  then show ?case by (auto simp: list_balances_def dest: ensure_balances_inv)
next
  case (requested E db e emp req db' res)
  then show ?case by (auto intro: create_leave_request_inv)
qed (auto intro: approve_leave_inv decline_leave_inv cancel_leave_inv)

lemma reachable_leave_inv: "leave_reachable L C db \<Longrightarrow> leave_inv C db"
proof (induction rule: leave_reachable.induct)
  case (no_leave db)
  then show ?case by (simp add: leave_inv_def leave_keys_def balances_exact_def requests_apart_def)
next
  case (leave_more db db')
  then show ?case by (blast intro: leave_step_inv)
qed

section \<open>A tenant with one employee\<close>

definition leave_start :: people_db where
  "leave_start = \<lparr>accounts = [], configs = default_config, fiscal_periods = [], journal_counter = (\<lambda>_. None),
     journal_entries = [], journal_lines = [], account_period_balances = [],
     employees = [\<lparr>ep_id = 7, ep_entity_id = 1, ep_staff_number = ''S1'', ep_full_name = ''A'',
       ep_kra_pin = ''P'', ep_helb_deduction = None, ep_basic_salary = 50000, ep_allowances = [],
       ep_tax_relief = 2400, ep_disability_exemption = False, ep_start_date = 735000, ep_end_date = None,
       ep_is_active = True, ep_department_id = None, ep_approver_user_id = Some 9\<rparr>],
     leave_types = [], leave_requests = [], leave_balances = [], holidays = []\<rparr>"

definition leave_env :: environment where
  "leave_env = \<lparr>now = 0, today = 739400, uuids = (\<lambda>n. 100 + n)\<rparr>"

definition leave_req :: create_leave_request_t where
  "leave_req = \<lparr>cl_leave_type_id = 50, cl_start_date = 739404, cl_end_date = 739408, cl_half_day_start = True,
     cl_half_day_end = False, cl_reason = None, cl_attachment_url = None\<rparr>"

definition leave_db1 :: people_db where
  "leave_db1 = fst (create_leave_type leave_start 50 1 (kenyan_default_leave_types ! 0))"

definition leave_db2 :: people_db where
  "leave_db2 = fst (create_leave_request std_decimal gregorian leave_env leave_db1 1 7 leave_req)"

definition leave_db3 :: people_db where
  "leave_db3 = projr (approve_leave gregorian leave_env leave_db2 1 101 9 None)"

lemma leave_db2_call:
  "create_leave_request std_decimal gregorian leave_env leave_db1 1 7 leave_req = (leave_db2, Inr 101)"
proof -
  have "snd (create_leave_request std_decimal gregorian leave_env leave_db1 1 7 leave_req) = Inr 101"
    by code_simp
  then show ?thesis by (metis leave_db2_def prod.collapse)
qed

lemma leave_db3_call: "approve_leave gregorian leave_env leave_db2 1 101 9 None = Inr leave_db3"
proof -
  have "\<not> isl (approve_leave gregorian leave_env leave_db2 1 101 9 None)" by code_simp
  then show ?thesis unfolding leave_db3_def by (cases "approve_leave gregorian leave_env leave_db2 1 101 9 None") auto
qed

lemma leave_db1_reachable: "leave_reachable std_decimal gregorian leave_db1"
proof -
  have "leave_reachable std_decimal gregorian leave_start"
    by (rule no_leave) (simp_all add: leave_start_def)
  moreover have "leave_step std_decimal gregorian leave_start leave_db1"
    unfolding leave_db1_def by (rule type_created) (simp add: leave_start_def)
  ultimately show ?thesis by (rule leave_more)
qed

lemma leave_db2_reachable: "leave_reachable std_decimal gregorian leave_db2"
proof (rule leave_more [OF leave_db1_reachable requested [OF leave_db2_call]])
  have "leave_requests leave_db1 = []" by code_simp
  then show "uuids leave_env 1 \<notin> lr_id ` set (leave_requests leave_db1)" by simp
qed

lemma leave_db3_reachable: "leave_reachable std_decimal gregorian leave_db3"
  by (rule leave_more [OF leave_db2_reachable approved [OF leave_db3_call]])

section \<open>The properties\<close>

text \<open>C23: in every state the leave module can reach, the balance row of a paid, capped leave type has
  reserved exactly the days of the employee's pending requests of the year and taken exactly the
  days of the approved ones (the clamping at zero in the updates never loses a day), neither is
  negative, and no two pending or approved requests of an employee overlap.\<close>

theorem leave_balances_exact:
  assumes "leave_reachable L C db"
  shows "(\<forall>b \<in> set (leave_balances db). capped db (lb_leave_type_id b) \<longrightarrow>
        pending_days b = days_in C db LeavePending (balance_key b) \<and> 0 \<le> pending_days b
        \<and> taken_days b = days_in C db LeaveApproved (balance_key b) \<and> 0 \<le> taken_days b)
    \<and> (\<forall>r \<in> set (leave_requests db). \<forall>s \<in> set (leave_requests db).
        lr_id r \<noteq> lr_id s \<and> active_request r \<and> active_request s \<and> lr_entity_id r = lr_entity_id s
        \<and> lr_employee_id r = lr_employee_id s \<longrightarrow> leave_apart r s)"
proof -
  note inv = reachable_leave_inv [OF assms]
  show ?thesis
    using leave_invD(2,3) [OF inv] days_in_nonneg [OF inv]
    by (auto simp: balances_exact_def requests_apart_def)
qed

theorem leave_balances_exact_witness:
  "map (\<lambda>b. (pending_days b, taken_days b)) (leave_balances leave_db2) = [(9 / 2, 0)]
   \<and> map (\<lambda>b. (pending_days b, taken_days b)) (leave_balances leave_db3) = [(0, 9 / 2)]
   \<and> list_all (\<lambda>b. taken_days b = days_in gregorian leave_db3 LeaveApproved (balance_key b))
       (leave_balances leave_db3)"
proof -
  have "map (\<lambda>b. (pending_days b, taken_days b)) (leave_balances leave_db2) = [(9 / 2, 0)]"
    "map (\<lambda>b. (pending_days b, taken_days b)) (leave_balances leave_db3) = [(0, 9 / 2)]"
    "list_all (\<lambda>b. capped leave_db3 (lb_leave_type_id b)) (leave_balances leave_db3)"
    by code_simp+
  with leave_balances_exact [OF leave_db3_reachable] show ?thesis by (simp add: list_all_iff)
qed

text \<open>C24: a request for a paid, capped leave type is only accepted when the employee's balance of the
  year still covers it: afterwards the balance row exists and what is taken and reserved does not
  exceed what has accrued and was carried over. The accepted request is pending, takes a positive
  number of days no larger than its span and starts no later than it ends.\<close>

theorem leave_never_overdrawn:
  assumes "create_leave_request L C E db e emp req = (db', Inr i)"
    and "find_leave_type db e (cl_leave_type_id req) = Some lt"
    and "lt_paid lt" and "accrual_parse (lt_accrual_method lt) \<noteq> Unlimited"
  shows "(\<exists>b \<in> set (leave_balances db'). balance_key b = (emp, lt_id lt, year C (cl_start_date req))
      \<and> taken_days b + pending_days b \<le> accrued_days b + carried_over b)
    \<and> (\<exists>r \<in> set (leave_requests db'). lr_id r = i \<and> lr_status r = LeavePending \<and> 0 < lr_working_days r
      \<and> lr_working_days r \<le> of_int (lr_end_date r - lr_start_date r + 1))"
proof -
  obtain db1 where dates: "cl_start_date req \<le> cl_end_date req" and days: "0 < request_days C db e req"
    and check: "check_available L C (evens E) db e emp lt (year C (cl_start_date req)) (request_days C db e req) = (db1, Inr ())"
    and db': "db' = reserve_request C (new_request (uuids E 1) e emp req (request_days C db e req) (resolve_approver db1 e emp)) db1"
    and i: "i = uuids E 1"
    by (rule create_leave_request_InrD [OF assms(1)]) (use assms(2) in auto)
  obtain b where b: "b \<in> set (leave_balances db1)" "balance_key b = (emp, lt_id lt, year C (cl_start_date req))"
    "request_days C db e req \<le> available_days b"
    by (rule check_available_ok [OF check assms(3,4)])
  have lt: "lt_id lt = cl_leave_type_id req" using assms(2) by (auto simp: find_leave_type_def find_Some_iff)
  let ?b = "b\<lparr>pending_days := pending_days b + request_days C db e req\<rparr>"
  have "?b \<in> set (leave_balances db')"
    using b(1,2) lt by (force simp: db' reserve_request_def update_balance_def new_request_def)
  moreover have "balance_key ?b = (emp, lt_id lt, year C (cl_start_date req))"
    "taken_days ?b + pending_days ?b \<le> accrued_days ?b + carried_over ?b"
    using b(2,3) by (simp_all add: balance_key_def available_days_def)
  moreover have "new_request (uuids E 1) e emp req (request_days C db e req) (resolve_approver db1 e emp) \<in> set (leave_requests db')"
    by (simp add: db' reserve_request_def)
  moreover have "request_days C db e req \<le> of_int (cl_end_date req - cl_start_date req + 1)"
    unfolding request_days_def by (rule working_days_le_span) (use dates in simp)
  ultimately show ?thesis
    using days i by (intro conjI) (force simp: new_request_def)+
qed

theorem leave_never_overdrawn_witness:
  "\<exists>b \<in> set (leave_balances leave_db2). taken_days b + pending_days b \<le> accrued_days b + carried_over b"
  using leave_never_overdrawn [OF leave_db2_call, of "new_leave_type 50 1 (kenyan_default_leave_types ! 0)"]
  by (auto simp: leave_db1_def leave_start_def create_leave_type_def find_leave_type_def leave_req_def
      kenyan_default_leave_types_def leave_type_request_def new_leave_type_def accrual_parse_def)

end
