(* ===== verification/Payroll_Compute.thy ===== *)
theory Payroll_Compute
  imports Money
begin

text \<open>
  The statutory payroll arithmetic: \<^verbatim>\<open>zavora-erp-core/src/payroll/config.rs\<close> (bands, rates and
  the levies), \<^verbatim>\<open>payroll/compute.rs\<close> (the itemised payslip the pay runs use) and
  \<^verbatim>\<open>payroll/statutory.rs\<close> (the classic payslip over the same configuration and its facade).
\<close>

section \<open>The statutory configuration\<close>

record paye_band =
  band_upper :: "decimal option"
  band_rate :: decimal

record statutory_config =
  sc_name :: string
  paye_bands :: "paye_band list"
  cfg_personal_relief :: decimal
  insurance_relief_cap :: decimal
  cfg_disability_exemption :: decimal
  nssf_tier1_limit :: decimal
  nssf_tier2_limit :: decimal
  nssf_rate :: decimal
  sha_rate :: decimal
  sha_minimum :: decimal
  housing_rate :: decimal
  nita_per_employee :: decimal

definition band :: "decimal option \<Rightarrow> decimal \<Rightarrow> paye_band" where
  "band u r = \<lparr>band_upper = u, band_rate = r\<rparr>"

definition finance_act_2024 :: statutory_config where
  "finance_act_2024 =
     \<lparr>sc_name = ''Finance Act 2024'',
      paye_bands = [band (Some 24000) (10 / 100), band (Some 32333) (25 / 100),
        band (Some 500000) (30 / 100), band (Some 800000) (325 / 1000), band None (35 / 100)],
      cfg_personal_relief = 2400, insurance_relief_cap = 5000, cfg_disability_exemption = 150000,
      nssf_tier1_limit = 7000, nssf_tier2_limit = 36000, nssf_rate = 6 / 100,
      sha_rate = 275 / 10000, sha_minimum = 0, housing_rate = 15 / 1000, nita_per_employee = 0\<rparr>"

text \<open>The loop over the bands: what is left to tax, the tax so far, the last upper bound.\<close>

fun paye_loop :: "paye_band list \<Rightarrow> decimal \<Rightarrow> decimal \<Rightarrow> decimal \<Rightarrow> decimal" where
  "paye_loop [] remaining tax prev_upper = tax"
| "paye_loop (b # bs) remaining tax prev_upper =
     (if remaining \<le> 0 then tax
      else let band_width = (case band_upper b of Some u \<Rightarrow> u - prev_upper | None \<Rightarrow> remaining);
               taxable_in_band = min remaining band_width
           in paye_loop bs (remaining - taxable_in_band) (tax + taxable_in_band * band_rate b)
                (unwrap_or (band_upper b) prev_upper))"

definition compute_paye :: "statutory_config \<Rightarrow> decimal \<Rightarrow> decimal" where
  "compute_paye cfg monthly_taxable_income = max (paye_loop (paye_bands cfg) monthly_taxable_income 0 0) 0"

definition nssf_employee_of :: "decimal_lib \<Rightarrow> statutory_config \<Rightarrow> decimal \<Rightarrow> decimal" where
  "nssf_employee_of L cfg gross = round_dp L (min gross (nssf_tier2_limit cfg) * nssf_rate cfg) 2"

definition nssf_employer_of :: "decimal_lib \<Rightarrow> statutory_config \<Rightarrow> decimal \<Rightarrow> decimal" where
  "nssf_employer_of L cfg gross = nssf_employee_of L cfg gross"

definition sha_of :: "decimal_lib \<Rightarrow> statutory_config \<Rightarrow> decimal \<Rightarrow> decimal" where
  "sha_of L cfg gross = max (round_dp L (gross * sha_rate cfg) 2) (sha_minimum cfg)"

definition housing_employee_of :: "decimal_lib \<Rightarrow> statutory_config \<Rightarrow> decimal \<Rightarrow> decimal" where
  "housing_employee_of L cfg gross = round_dp L (gross * housing_rate cfg) 2"

definition housing_employer_of :: "decimal_lib \<Rightarrow> statutory_config \<Rightarrow> decimal \<Rightarrow> decimal" where
  "housing_employer_of L cfg gross = housing_employee_of L cfg gross"

section \<open>The itemised payslip\<close>

record earning_line =
  el_code :: "string option"
  el_name :: string
  el_amount :: decimal
  taxable :: bool
  pensionable :: bool
  affects_shif :: bool

definition standard_earning :: "string \<Rightarrow> decimal \<Rightarrow> bool \<Rightarrow> earning_line" where
  "standard_earning name amount tx =
     \<lparr>el_code = None, el_name = name, el_amount = amount, taxable = tx, pensionable = True,
      affects_shif = True\<rparr>"

record deduction_line =
  dl_code :: "string option"
  dl_name :: string
  dl_amount :: decimal
  pre_tax :: bool
  dl_category :: string

record computed_payslip =
  cs_gross :: decimal
  cs_taxable_income :: decimal
  cs_paye :: decimal
  cs_personal_relief :: decimal
  cs_insurance_relief :: decimal
  cs_net_paye :: decimal
  cs_nssf_employee :: decimal
  cs_nssf_employer :: decimal
  cs_sha :: decimal
  cs_housing_employee :: decimal
  cs_housing_employer :: decimal
  cs_helb :: decimal
  cs_other_deductions :: decimal
  cs_total_deductions :: decimal
  cs_net_salary :: decimal
  cs_employer_cost :: decimal
  cs_nita :: decimal
  cs_earnings :: "earning_line list"
  cs_deductions :: "deduction_line list"

record payroll_inputs =
  pi_basic_salary :: decimal
  pi_earnings :: "earning_line list"
  pi_deductions :: "deduction_line list"
  pi_helb :: decimal
  pi_personal_relief :: decimal
  pi_insurance_relief :: decimal
  pi_disability_exemption :: bool

text \<open>
  \<open>compute_payslip\<close>, its intermediate results named: the earnings with the basic pay in front, the
  bases, the statutory amounts, the taxable income, the net tax, the deductions.
\<close>

definition all_earnings :: "payroll_inputs \<Rightarrow> earning_line list" where
  "all_earnings inp = standard_earning ''Basic Pay'' (pi_basic_salary inp) True # pi_earnings inp"

definition earnings_base :: "(earning_line \<Rightarrow> bool) \<Rightarrow> payroll_inputs \<Rightarrow> decimal" where
  "earnings_base p inp = sum_where p el_amount (all_earnings inp)"

definition slip_nssf :: "decimal_lib \<Rightarrow> statutory_config \<Rightarrow> payroll_inputs \<Rightarrow> decimal" where
  "slip_nssf L cfg inp = nssf_employee_of L cfg (earnings_base pensionable inp)"

definition slip_housing :: "decimal_lib \<Rightarrow> statutory_config \<Rightarrow> payroll_inputs \<Rightarrow> decimal" where
  "slip_housing L cfg inp = housing_employee_of L cfg (earnings_base affects_shif inp)"

definition slip_sha :: "decimal_lib \<Rightarrow> statutory_config \<Rightarrow> payroll_inputs \<Rightarrow> decimal" where
  "slip_sha L cfg inp = sha_of L cfg (earnings_base affects_shif inp)"

definition slip_taxable :: "decimal_lib \<Rightarrow> statutory_config \<Rightarrow> payroll_inputs \<Rightarrow> decimal" where
  "slip_taxable L cfg inp =
     (let base = earnings_base taxable inp - slip_nssf L cfg inp - slip_housing L cfg inp
            - sum_where pre_tax dl_amount (pi_deductions inp);
          exempted = (if pi_disability_exemption inp then max (base - cfg_disability_exemption cfg) 0 else base)
      in max exempted 0)"

definition slip_insurance_relief :: "statutory_config \<Rightarrow> payroll_inputs \<Rightarrow> decimal" where
  "slip_insurance_relief cfg inp = min (pi_insurance_relief inp) (insurance_relief_cap cfg)"

definition slip_net_paye :: "decimal_lib \<Rightarrow> statutory_config \<Rightarrow> payroll_inputs \<Rightarrow> decimal" where
  "slip_net_paye L cfg inp =
     round_dp_with_strategy L (max (compute_paye cfg (slip_taxable L cfg inp) - pi_personal_relief inp
       - slip_insurance_relief cfg inp) 0) 0 MidpointAwayFromZero"

definition slip_other_deductions :: "payroll_inputs \<Rightarrow> decimal" where
  "slip_other_deductions inp = sum_where (\<lambda>_. True) dl_amount (pi_deductions inp)"

definition slip_total_deductions :: "decimal_lib \<Rightarrow> statutory_config \<Rightarrow> payroll_inputs \<Rightarrow> decimal" where
  "slip_total_deductions L cfg inp =
     round_dp L (slip_net_paye L cfg inp + slip_nssf L cfg inp + slip_sha L cfg inp + slip_housing L cfg inp
       + pi_helb inp + slip_other_deductions inp) 2"

definition compute_payslip :: "decimal_lib \<Rightarrow> statutory_config \<Rightarrow> payroll_inputs \<Rightarrow> computed_payslip" where
  "compute_payslip L cfg inp =
     (let gross = earnings_base (\<lambda>_. True) inp;
          nssf_er = nssf_employer_of L cfg (earnings_base pensionable inp);
          housing_er = housing_employer_of L cfg (earnings_base affects_shif inp) in
      \<lparr>cs_gross = round_dp L gross 2, cs_taxable_income = round_dp L (slip_taxable L cfg inp) 2,
       cs_paye = round_dp L (compute_paye cfg (slip_taxable L cfg inp)) 2,
       cs_personal_relief = pi_personal_relief inp, cs_insurance_relief = slip_insurance_relief cfg inp,
       cs_net_paye = round_dp L (slip_net_paye L cfg inp) 2, cs_nssf_employee = slip_nssf L cfg inp,
       cs_nssf_employer = nssf_er, cs_sha = slip_sha L cfg inp,
       cs_housing_employee = slip_housing L cfg inp, cs_housing_employer = housing_er,
       cs_helb = pi_helb inp, cs_other_deductions = slip_other_deductions inp,
       cs_total_deductions = slip_total_deductions L cfg inp,
       cs_net_salary = round_dp L (gross - slip_total_deductions L cfg inp) 2,
       cs_employer_cost = round_dp L (gross + nssf_er + housing_er + nita_per_employee cfg) 2,
       cs_nita = nita_per_employee cfg, cs_earnings = all_earnings inp, cs_deductions = pi_deductions inp\<rparr>)"

lemma compute_payslip_simps [simp]:
  "cs_gross (compute_payslip L cfg inp) = round_dp L (earnings_base (\<lambda>_. True) inp) 2"
  "cs_net_paye (compute_payslip L cfg inp) = round_dp L (slip_net_paye L cfg inp) 2"
  "cs_paye (compute_payslip L cfg inp) = round_dp L (compute_paye cfg (slip_taxable L cfg inp)) 2"
  "cs_nssf_employee (compute_payslip L cfg inp) = slip_nssf L cfg inp"
  "cs_nssf_employer (compute_payslip L cfg inp) = slip_nssf L cfg inp"
  "cs_sha (compute_payslip L cfg inp) = slip_sha L cfg inp"
  "cs_housing_employee (compute_payslip L cfg inp) = slip_housing L cfg inp"
  "cs_housing_employer (compute_payslip L cfg inp) = slip_housing L cfg inp"
  "cs_helb (compute_payslip L cfg inp) = pi_helb inp"
  "cs_other_deductions (compute_payslip L cfg inp) = slip_other_deductions inp"
  "cs_total_deductions (compute_payslip L cfg inp) = slip_total_deductions L cfg inp"
  "cs_net_salary (compute_payslip L cfg inp)
    = round_dp L (earnings_base (\<lambda>_. True) inp - slip_total_deductions L cfg inp) 2"
  "cs_deductions (compute_payslip L cfg inp) = pi_deductions inp"
  by (simp_all add: compute_payslip_def Let_def nssf_employer_of_def slip_nssf_def housing_employer_of_def
      slip_housing_def)

section \<open>The classic payslip\<close>

record payslip_deductions =
  pd_gross_salary :: decimal
  pd_taxable_income :: decimal
  pd_paye :: decimal
  pd_personal_relief :: decimal
  pd_insurance_relief :: decimal
  pd_net_paye :: decimal
  pd_nssf_employee :: decimal
  pd_nssf_employer :: decimal
  pd_sha :: decimal
  pd_housing_employee :: decimal
  pd_housing_employer :: decimal
  pd_helb :: decimal
  pd_total_deductions :: decimal
  pd_net_salary :: decimal

definition compute_payslip_deductions_cfg ::
    "decimal_lib \<Rightarrow> statutory_config \<Rightarrow> decimal \<Rightarrow> decimal \<Rightarrow> decimal \<Rightarrow> decimal \<Rightarrow> bool \<Rightarrow> payslip_deductions" where
  "compute_payslip_deductions_cfg L cfg gross_salary allowances_total helb_deduction personal_relief disability =
     (let total_gross = gross_salary + allowances_total;
          nssf_ee = nssf_employee_of L cfg total_gross;
          nssf_er = nssf_employer_of L cfg total_gross;
          housing_ee = housing_employee_of L cfg total_gross;
          housing_er = housing_employer_of L cfg total_gross;
          base = total_gross - nssf_ee - housing_ee;
          taxable_income = (if disability then max (base - cfg_disability_exemption cfg) 0 else base);
          paye = compute_paye cfg taxable_income;
          net_paye = max (paye - personal_relief) 0;
          sha = sha_of L cfg total_gross;
          total_deductions = net_paye + nssf_ee + sha + housing_ee + helb_deduction;
          net_salary = total_gross - total_deductions in
      \<lparr>pd_gross_salary = total_gross, pd_taxable_income = taxable_income, pd_paye = paye,
       pd_personal_relief = personal_relief, pd_insurance_relief = 0, pd_net_paye = net_paye,
       pd_nssf_employee = nssf_ee, pd_nssf_employer = nssf_er, pd_sha = sha,
       pd_housing_employee = housing_ee, pd_housing_employer = housing_er, pd_helb = helb_deduction,
       pd_total_deductions = total_deductions, pd_net_salary = net_salary\<rparr>)"

definition compute_payslip_deductions ::
    "decimal_lib \<Rightarrow> decimal \<Rightarrow> decimal \<Rightarrow> decimal \<Rightarrow> decimal \<Rightarrow> bool \<Rightarrow> payslip_deductions" where
  "compute_payslip_deductions L gross_salary allowances_total helb_deduction personal_relief disability =
     compute_payslip_deductions_cfg L finance_act_2024 gross_salary allowances_total helb_deduction
       personal_relief disability"

section \<open>Progressive taxation\<close>

text \<open>
  A well-formed band table: the upper bounds increase from the lower bound of the table, only the
  last band is open, the rates are not negative. The reference: each band taxes the part of the
  income that lies between its bounds.
\<close>

fun bands_ok :: "decimal \<Rightarrow> paye_band list \<Rightarrow> bool" where
  "bands_ok lo [] = False"
| "bands_ok lo (b # bs) =
     (0 \<le> band_rate b \<and>
      (case band_upper b of None \<Rightarrow> bs = [] | Some u \<Rightarrow> lo \<le> u \<and> bands_ok u bs))"

fun marginal_tax :: "decimal \<Rightarrow> paye_band list \<Rightarrow> decimal \<Rightarrow> decimal" where
  "marginal_tax lo [] x = 0"
| "marginal_tax lo (b # bs) x =
     (case band_upper b of
        None \<Rightarrow> max 0 (x - lo) * band_rate b
      | Some u \<Rightarrow> max 0 (min x u - lo) * band_rate b + marginal_tax u bs x)"

fun top_rate :: "paye_band list \<Rightarrow> decimal" where
  "top_rate [] = 0"
| "top_rate (b # bs) = max (band_rate b) (top_rate bs)"

lemma marginal_tax_below: "bands_ok lo bs \<Longrightarrow> x \<le> lo \<Longrightarrow> marginal_tax lo bs x = 0"
proof (induction bs arbitrary: lo)
  case Nil
  then show ?case by simp
next
  case (Cons b bs)
  then show ?case by (auto split: option.splits)
qed

lemma paye_loop_marginal:
  "bands_ok lo bs \<Longrightarrow> lo \<le> x \<Longrightarrow> paye_loop bs (x - lo) t lo = t + marginal_tax lo bs x"
proof (induction bs arbitrary: lo t)
  case Nil
  then show ?case by simp
next
  case (Cons b bs)
  show ?case
  proof (cases "x - lo \<le> 0")
    case True
    with Cons.prems show ?thesis using marginal_tax_below [OF Cons.prems(1)] by simp
  next
    case False
    show ?thesis
    proof (cases "band_upper b")
      case None
      with Cons.prems False show ?thesis by (simp add: Let_def)
    next
      case (Some u)
      with Cons.prems have ok: "bands_ok u bs" "lo \<le> u" by simp_all
      show ?thesis
      proof (cases "x \<le> u")
        case True
        have "paye_loop bs 0 s u = s" for s by (cases bs) (simp_all add: Let_def)
        with True False Some marginal_tax_below [OF ok(1) True] show ?thesis
          by (simp add: Let_def)
      next
        case xu: False
        then have "min (x - lo) (u - lo) = u - lo" by simp
        with Cons.IH [OF ok(1), of "t + (u - lo) * band_rate b"] xu False Some ok(2) show ?thesis
          by (simp add: Let_def)
      qed
    qed
  qed
qed

lemma marginal_tax_nonneg: "bands_ok lo bs \<Longrightarrow> 0 \<le> marginal_tax lo bs x"
  by (induction bs arbitrary: lo) (auto split: option.splits)

lemma top_rate_nonneg: "bands_ok lo bs \<Longrightarrow> 0 \<le> top_rate bs"
  by (cases bs) (auto simp: le_max_iff_disj)

text \<open>Between two incomes the tax rises by at most the top rate on the difference, and never falls.\<close>

lemma marginal_tax_slope:
  assumes "bands_ok lo bs" and "x \<le> y" and "top_rate bs \<le> r"
  shows "0 \<le> marginal_tax lo bs y - marginal_tax lo bs x
    \<and> marginal_tax lo bs y - marginal_tax lo bs x \<le> r * (max lo y - max lo x)"
  using assms
proof (induction bs arbitrary: lo)
  case Nil
  then show ?case by simp
next
  case (Cons b bs)
  have rate: "0 \<le> band_rate b" "band_rate b \<le> r" using Cons.prems by auto
  show ?case
  proof (cases "band_upper b")
    case None
    have "max 0 (y - lo) - max 0 (x - lo) = max lo y - max lo x" by (simp add: max_def)
    then have eq: "marginal_tax lo (b # bs) y - marginal_tax lo (b # bs) x = (max lo y - max lo x) * band_rate b"
      using None Cons.prems(1) by (simp add: left_diff_distrib flip: left_diff_distrib)
    have "0 \<le> max lo y - max lo x" using Cons.prems(2) by (simp add: max_def)
    with rate show ?thesis
      unfolding eq by (simp add: mult_right_mono mult.commute [of r] mult_left_mono)
  next
    case (Some u)
    with Cons.prems have ok: "bands_ok u bs" "lo \<le> u" by simp_all
    let ?d = "max 0 (min y u - lo) - max 0 (min x u - lo)"
    have IH: "0 \<le> marginal_tax u bs y - marginal_tax u bs x"
      "marginal_tax u bs y - marginal_tax u bs x \<le> r * (max u y - max u x)"
      using Cons.IH [OF ok(1) Cons.prems(2)] Cons.prems(3) by simp_all
    have d: "0 \<le> ?d" using Cons.prems(2) by (simp add: max_def min_def)
    have split: "max lo y - max lo x = ?d + (max u y - max u x)"
      using ok(2) Cons.prems(2) by (simp add: max_def min_def)
    have eq: "marginal_tax lo (b # bs) y - marginal_tax lo (b # bs) x
        = ?d * band_rate b + (marginal_tax u bs y - marginal_tax u bs x)"
      using Some by (simp add: algebra_simps)
    have "?d * band_rate b \<le> r * ?d" using d rate by (simp add: mult.commute [of r] mult_left_mono)
    moreover have "0 \<le> ?d * band_rate b" using d rate by simp
    ultimately show ?thesis unfolding eq split using IH by (simp add: distrib_left)
  qed
qed

lemma compute_paye_marginal:
  assumes "bands_ok 0 (paye_bands cfg)" and "0 \<le> x"
  shows "compute_paye cfg x = marginal_tax 0 (paye_bands cfg) x"
  using paye_loop_marginal [OF assms, of 0] marginal_tax_nonneg [OF assms(1), of x]
  by (simp add: compute_paye_def)

lemma compute_paye_nonpos: "x \<le> 0 \<Longrightarrow> compute_paye cfg x = 0"
  by (cases "paye_bands cfg") (simp_all add: compute_paye_def)

end
