(* ===== verification/Payroll.thy ===== *)
theory Payroll
  imports Payroll_Compute Leave Posting
begin

text \<open>
  \<^verbatim>\<open>zavora-erp-core/src/services/payroll.rs\<close> (pay runs), \<^verbatim>\<open>services/payroll_masters.rs\<close> and
  \<^verbatim>\<open>payroll/masters.rs\<close> (earning and deduction types, recurring items, run inputs, loans),
  \<^verbatim>\<open>services/payroll_config.rs\<close> (effective-dated configuration) and \<^verbatim>\<open>payroll/pay_run.rs\<close>.

  A payslip row keeps the computed payslip (the columns \<open>deductions\<close>, \<open>earnings\<close> and
  \<open>deductions_detail\<close> are parts of it) and the amount columns that later queries read, which
  are \<open>NUMERIC(14,2)\<close>. The order of hash maps and of grouped queries is the order of first
  occurrence. The
  date in a reference is written as its day number. The text form of a UUID belongs to the package \<^verbatim>\<open>uuid\<close> and is a parameter. The PDF,
  the iTax file, e-mails and audit events are not modelled.
\<close>

section \<open>Data\<close>

record uuid_lib =
  uuid_to_string :: "uuid \<Rightarrow> string"
  uuid_parse_str :: "string \<Rightarrow> uuid option"

datatype pay_run_status = RunDraft | RunApproved | RunPosted | RunPaid

record pay_run =
  pr_id :: uuid
  pr_entity_id :: uuid
  pr_period_id :: uuid
  pr_pay_date :: naive_date
  total_gross :: decimal
  total_paye :: decimal
  total_nssf :: decimal
  total_sha :: decimal
  total_housing_levy :: decimal
  total_helb :: decimal
  total_net :: decimal
  employee_count :: int
  total_employer_cost :: decimal
  pr_status :: pay_run_status
  pr_journal_entry_id :: "uuid option"
  pr_approved_by :: "agent_or_user_id option"
  pr_approved_at :: "timestamp option"

record pay_amounts =
  pa_gross :: decimal
  pa_paye :: decimal
  pa_nssf :: decimal
  pa_sha :: decimal
  pa_housing :: decimal
  pa_helb :: decimal
  pa_net :: decimal

record payslip_row =
  ps_id :: uuid
  ps_pay_run_id :: uuid
  ps_employee_id :: uuid
  ps_employee_name :: string
  ps_department_id :: "uuid option"
  ps_slip :: computed_payslip
  ps_columns :: pay_amounts
  ps_ytd :: pay_amounts

record pay_item =
  it_id :: uuid
  it_entity_id :: uuid
  it_employee_id :: uuid
  it_kind :: string
  it_type_code :: "string option"
  it_name :: string
  it_amount :: decimal

record recurring_item = pay_item +
  it_taxable_override :: "bool option"
  it_start_date :: naive_date
  it_end_date :: "naive_date option"
  it_active :: bool

record pay_run_input = pay_item +
  it_pay_run_id :: uuid
  it_taxable :: bool
  it_note :: "string option"

record employee_loan =
  loan_id :: uuid
  loan_entity_id :: uuid
  loan_employee_id :: uuid
  loan_name :: string
  principal :: decimal
  loan_balance :: decimal
  installment :: decimal
  loan_interest_rate :: decimal
  loan_status :: string

record loan_repayment =
  rp_id :: uuid
  rp_loan_id :: uuid
  rp_pay_run_id :: uuid
  rp_amount :: decimal
  balance_after :: decimal

record pay_type =
  pt_id :: uuid
  pt_entity_id :: uuid
  pt_code :: string
  pt_name :: string
  pt_gl_account_code :: "string option"
  pt_active :: bool

record earning_type = pay_type +
  et_taxable :: bool
  et_pensionable :: bool
  et_affects_shif :: bool

record deduction_type = pay_type +
  dt_category :: string
  dt_pre_tax :: bool

record department =
  dep_id :: uuid
  dep_entity_id :: uuid
  dep_code :: string

record statutory_row =
  sr_entity_id :: uuid
  effective_from :: naive_date
  sr_config :: "statutory_config option"

record payroll_db = people_db +
  pay_runs :: "pay_run list"
  payslips :: "payslip_row list"
  recurring_items :: "recurring_item list"
  pay_run_inputs :: "pay_run_input list"
  employee_loans :: "employee_loan list"
  loan_repayments :: "loan_repayment list"
  earning_types :: "earning_type list"
  deduction_types :: "deduction_type list"
  departments :: "department list"
  statutory_rows :: "statutory_row list"

section \<open>Statutory configuration\<close>

text \<open>The latest configuration on or before the day; one that does not decode counts as the default.\<close>

definition resolve_config :: "'a payroll_db_scheme \<Rightarrow> uuid \<Rightarrow> naive_date \<Rightarrow> statutory_config" where
  "resolve_config db e as_of =
     (case rev (sort_key effective_from
         (filter (\<lambda>r. sr_entity_id r = e \<and> effective_from r \<le> as_of) (statutory_rows db))) of
        [] \<Rightarrow> finance_act_2024
      | r # _ \<Rightarrow> unwrap_or (sr_config r) finance_act_2024)"

definition upsert_config ::
    "'a payroll_db_scheme \<Rightarrow> uuid \<Rightarrow> naive_date \<Rightarrow> statutory_config \<Rightarrow> 'a payroll_db_scheme" where
  "upsert_config db e from cfg =
     (if \<exists>r \<in> set (statutory_rows db). sr_entity_id r = e \<and> effective_from r = from
      then db\<lparr>statutory_rows := map (\<lambda>r. if sr_entity_id r = e \<and> effective_from r = from
          then r\<lparr>sr_config := Some cfg\<rparr> else r) (statutory_rows db)\<rparr>
      else db\<lparr>statutory_rows := statutory_rows db @
        [\<lparr>sr_entity_id = e, effective_from = from, sr_config = Some cfg\<rparr>]\<rparr>)"

definition ensure_config_seeded :: "calendar \<Rightarrow> 'a payroll_db_scheme \<Rightarrow> uuid \<Rightarrow> 'a payroll_db_scheme" where
  "ensure_config_seeded C db e =
     (if filter (\<lambda>r. sr_entity_id r = e) (statutory_rows db) = []
      then db\<lparr>statutory_rows := statutory_rows db @
        [\<lparr>sr_entity_id = e, effective_from = the (from_ymd_opt C 2024 7 1), sr_config = Some finance_act_2024\<rparr>]\<rparr>
      else db)"

section \<open>Masters\<close>

definition create_earning_type ::
    "'a payroll_db_scheme \<Rightarrow> uuid \<Rightarrow> uuid \<Rightarrow> string \<times> string \<times> bool \<times> bool \<times> bool \<Rightarrow> string option \<Rightarrow> 'a payroll_db_scheme" where
  "create_earning_type db i e = (\<lambda>(code, name, tx, pens, shif) gl.
     if \<exists>t \<in> set (earning_types db). pt_entity_id t = e \<and> pt_code t = code then db
     else db\<lparr>earning_types := earning_types db @
       [\<lparr>pt_id = i, pt_entity_id = e, pt_code = code, pt_name = name, pt_gl_account_code = gl, pt_active = True,
         et_taxable = tx, et_pensionable = pens, et_affects_shif = shif\<rparr>]\<rparr>)"

definition create_deduction_type ::
    "'a payroll_db_scheme \<Rightarrow> uuid \<Rightarrow> uuid \<Rightarrow> string \<times> string \<times> string \<times> bool \<Rightarrow> string option \<Rightarrow> 'a payroll_db_scheme" where
  "create_deduction_type db i e = (\<lambda>(code, name, cat, pre) gl.
     if \<exists>t \<in> set (deduction_types db). pt_entity_id t = e \<and> pt_code t = code then db
     else db\<lparr>deduction_types := deduction_types db @
       [\<lparr>pt_id = i, pt_entity_id = e, pt_code = code, pt_name = name, pt_gl_account_code = gl, pt_active = True,
         dt_category = cat, dt_pre_tax = pre\<rparr>]\<rparr>)"

definition set_earning_type_active :: "'a payroll_db_scheme \<Rightarrow> uuid \<Rightarrow> uuid \<Rightarrow> bool \<Rightarrow> 'a payroll_db_scheme" where
  "set_earning_type_active db e i active =
     db\<lparr>earning_types := map (\<lambda>t. if pt_id t = i \<and> pt_entity_id t = e then t\<lparr>pt_active := active\<rparr> else t)
       (earning_types db)\<rparr>"

definition set_deduction_type_active :: "'a payroll_db_scheme \<Rightarrow> uuid \<Rightarrow> uuid \<Rightarrow> bool \<Rightarrow> 'a payroll_db_scheme" where
  "set_deduction_type_active db e i active =
     db\<lparr>deduction_types := map (\<lambda>t. if pt_id t = i \<and> pt_entity_id t = e then t\<lparr>pt_active := active\<rparr> else t)
       (deduction_types db)\<rparr>"

definition create_department :: "'a payroll_db_scheme \<Rightarrow> uuid \<Rightarrow> uuid \<Rightarrow> string \<Rightarrow> 'a payroll_db_scheme" where
  "create_department db i e code =
     (if \<exists>d \<in> set (departments db). dep_entity_id d = e \<and> dep_code d = code then db
      else db\<lparr>departments := departments db @ [\<lparr>dep_id = i, dep_entity_id = e, dep_code = code\<rparr>]\<rparr>)"

definition default_earning_types :: "(string \<times> string \<times> bool \<times> bool \<times> bool) list" where
  "default_earning_types =
     [(''HOUSING'', ''Housing Allowance'', True, True, True),
      (''TRANSPORT'', ''Transport Allowance'', True, True, True),
      (''OVERTIME'', ''Overtime'', True, True, True),
      (''BONUS'', ''Bonus'', True, True, True),
      (''COMMISSION'', ''Commission'', True, True, True),
      (''REIMBURSEMENT'', ''Reimbursement'', False, False, False)]"

definition default_deduction_types :: "(string \<times> string \<times> string \<times> bool) list" where
  "default_deduction_types =
     [(''PENSION'', ''Pension Contribution'', ''voluntary'', True),
      (''SACCO'', ''SACCO Contribution'', ''welfare'', False),
      (''INSURANCE'', ''Insurance Premium'', ''voluntary'', False),
      (''WELFARE'', ''Staff Welfare'', ''welfare'', False),
      (''ADVANCE'', ''Salary Advance'', ''loan'', False)]"

definition seed_default_types :: "environment \<Rightarrow> 'a payroll_db_scheme \<Rightarrow> uuid \<Rightarrow> 'a payroll_db_scheme" where
  "seed_default_types E db e =
     (let db1 = (if filter (\<lambda>t. pt_entity_id t = e) (earning_types db) = []
            then fold (\<lambda>(i, t) d. create_earning_type d (uuids E (2 * i)) e t None)
              (enumerate 0 default_earning_types) db else db) in
      if filter (\<lambda>t. pt_entity_id t = e) (deduction_types db1) = []
      then fold (\<lambda>(i, t) d. create_deduction_type d (uuids E (2 * i + 1)) e t None)
        (enumerate 0 default_deduction_types) db1 else db1)"

definition add_run_input :: "'a payroll_db_scheme \<Rightarrow> pay_run_input \<Rightarrow> 'a payroll_db_scheme" where
  "add_run_input db x = db\<lparr>pay_run_inputs := pay_run_inputs db @ [x]\<rparr>"

definition delete_run_input :: "'a payroll_db_scheme \<Rightarrow> uuid \<Rightarrow> uuid \<Rightarrow> 'a payroll_db_scheme" where
  "delete_run_input db e i =
     db\<lparr>pay_run_inputs := filter (\<lambda>x. \<not> (it_id x = i \<and> it_entity_id x = e)) (pay_run_inputs db)\<rparr>"

definition create_recurring_item :: "'a payroll_db_scheme \<Rightarrow> recurring_item \<Rightarrow> 'a payroll_db_scheme" where
  "create_recurring_item db x = db\<lparr>recurring_items := recurring_items db @ [x]\<rparr>"

definition delete_recurring_item :: "'a payroll_db_scheme \<Rightarrow> uuid \<Rightarrow> uuid \<Rightarrow> 'a payroll_db_scheme" where
  "delete_recurring_item db e i =
     db\<lparr>recurring_items := filter (\<lambda>x. \<not> (it_id x = i \<and> it_entity_id x = e)) (recurring_items db)\<rparr>"

definition create_loan ::
    "'a payroll_db_scheme \<Rightarrow> uuid \<Rightarrow> uuid \<Rightarrow> uuid \<Rightarrow> string \<Rightarrow> decimal \<Rightarrow> decimal \<Rightarrow> decimal \<Rightarrow> 'a payroll_db_scheme" where
  "create_loan db i e emp name amount inst rate =
     db\<lparr>employee_loans := employee_loans db @
       [\<lparr>loan_id = i, loan_entity_id = e, loan_employee_id = emp, loan_name = name, principal = amount,
         loan_balance = amount, installment = inst, loan_interest_rate = rate, loan_status = ''active''\<rparr>]\<rparr>"

text \<open>The grouped loaders, per employee.\<close>

definition recurring_for :: "'a payroll_db_scheme \<Rightarrow> uuid \<Rightarrow> naive_date \<Rightarrow> uuid \<Rightarrow> string \<Rightarrow> recurring_item list" where
  "recurring_for db e as_of emp kind =
     filter (\<lambda>x. it_entity_id x = e \<and> it_active x \<and> it_start_date x \<le> as_of
        \<and> (case it_end_date x of None \<Rightarrow> True | Some d \<Rightarrow> as_of \<le> d) \<and> it_employee_id x = emp \<and> it_kind x = kind)
       (recurring_items db)"

definition inputs_for :: "'a payroll_db_scheme \<Rightarrow> uuid \<Rightarrow> uuid \<Rightarrow> uuid \<Rightarrow> string \<Rightarrow> pay_run_input list" where
  "inputs_for db e run emp kind =
     filter (\<lambda>x. it_entity_id x = e \<and> it_pay_run_id x = run \<and> it_employee_id x = emp \<and> it_kind x = kind)
       (pay_run_inputs db)"

definition loans_for :: "'a payroll_db_scheme \<Rightarrow> uuid \<Rightarrow> uuid \<Rightarrow> employee_loan list" where
  "loans_for db e emp =
     filter (\<lambda>x. loan_entity_id x = e \<and> loan_status x = ''active'' \<and> 0 < loan_balance x \<and> loan_employee_id x = emp)
       (employee_loans db)"

section \<open>Computing a run\<close>

definition period_window ::
    "calendar \<Rightarrow> 'a payroll_db_scheme \<Rightarrow> uuid \<Rightarrow> uuid \<Rightarrow> naive_date \<Rightarrow> naive_date \<times> naive_date" where
  "period_window C db e period_id pay_date =
     (case find_period db e period_id of
        Some p \<Rightarrow> (start_date p, end_date p)
      | None \<Rightarrow>
          (the (from_ymd_opt C (year C pay_date) (month C pay_date) 1),
           if month C pay_date = 12 then the (from_ymd_opt C (year C pay_date) 12 31)
           else the (from_ymd_opt C (year C pay_date) (month C pay_date + 1) 1) - 1))"

definition prior_amounts ::
    "calendar \<Rightarrow> 'a payroll_db_scheme \<Rightarrow> uuid \<Rightarrow> uuid \<Rightarrow> naive_date \<Rightarrow> uuid \<Rightarrow> payslip_row list" where
  "prior_amounts C db e run pay_date emp =
     filter (\<lambda>s. ps_employee_id s = emp \<and> ps_pay_run_id s \<noteq> run \<and>
        (\<exists>r \<in> set (pay_runs db). pr_id r = ps_pay_run_id s \<and> pr_entity_id r = e \<and> pr_status r \<noteq> RunDraft
           \<and> the (from_ymd_opt C (year C pay_date) 1 1) \<le> pr_pay_date r \<and> pr_pay_date r < pay_date))
       (payslips db)"

definition sum_of :: "(pay_amounts \<Rightarrow> decimal) \<Rightarrow> payslip_row list \<Rightarrow> decimal" where
  "sum_of f ss = sum_where (\<lambda>_. True) (\<lambda>s. f (ps_columns s)) ss"

definition ytd_amounts :: "payslip_row list \<Rightarrow> computed_payslip \<Rightarrow> pay_amounts" where
  "ytd_amounts prior c =
     \<lparr>pa_gross = sum_of pa_gross prior + cs_gross c, pa_paye = sum_of pa_paye prior + cs_net_paye c,
      pa_nssf = sum_of pa_nssf prior + cs_nssf_employee c, pa_sha = sum_of pa_sha prior + cs_sha c,
      pa_housing = sum_of pa_housing prior + cs_housing_employee c,
      pa_helb = sum_of pa_helb prior + cs_helb c, pa_net = sum_of pa_net prior + cs_net_salary c\<rparr>"

definition numeric2 :: "decimal_lib \<Rightarrow> decimal \<Rightarrow> decimal" where
  "numeric2 L x = round_dp_with_strategy L x 2 MidpointAwayFromZero"

definition slip_columns :: "decimal_lib \<Rightarrow> computed_payslip \<Rightarrow> pay_amounts" where
  "slip_columns L c =
     \<lparr>pa_gross = numeric2 L (cs_gross c), pa_paye = numeric2 L (cs_net_paye c),
      pa_nssf = numeric2 L (cs_nssf_employee c), pa_sha = numeric2 L (cs_sha c),
      pa_housing = numeric2 L (cs_housing_employee c), pa_helb = numeric2 L (cs_helb c),
      pa_net = numeric2 L (cs_net_salary c)\<rparr>"

definition allowance_line :: "allowance \<Rightarrow> earning_line" where
  "allowance_line a = \<lparr>el_code = None, el_name = al_name a, el_amount = al_amount a, taxable = al_taxable a,
     pensionable = al_taxable a, affects_shif = al_taxable a\<rparr>"

definition item_earning :: "bool \<Rightarrow> 'a pay_item_scheme \<Rightarrow> earning_line" where
  "item_earning tx x = \<lparr>el_code = it_type_code x, el_name = it_name x, el_amount = it_amount x, taxable = tx,
     pensionable = tx, affects_shif = tx\<rparr>"

definition employee_earnings ::
    "'a payroll_db_scheme \<Rightarrow> uuid \<Rightarrow> uuid \<Rightarrow> naive_date \<Rightarrow> employee \<Rightarrow> earning_line list" where
  "employee_earnings db e run period_to emp =
     map allowance_line (ep_allowances emp)
     @ map (\<lambda>x. item_earning (unwrap_or (it_taxable_override x) True) x)
         (recurring_for db e period_to (ep_id emp) ''earning'')
     @ map (\<lambda>x. item_earning (it_taxable x) x) (inputs_for db e run (ep_id emp) ''earning'')"

definition prorated_basic ::
    "decimal_lib \<Rightarrow> calendar \<Rightarrow> naive_date list \<Rightarrow> naive_date \<Rightarrow> naive_date \<Rightarrow> decimal \<Rightarrow> employee \<Rightarrow> decimal" where
  "prorated_basic L C hs period_from period_to unpaid emp =
     (let period_working = working_days C period_from period_to False False hs;
          eff_from = max (ep_start_date emp) period_from;
          eff_to = (case ep_end_date emp of Some d \<Rightarrow> min d period_to | None \<Rightarrow> period_to);
          worked_working = (if eff_from \<le> eff_to then working_days C eff_from eff_to False False hs else 0);
          worked = max (worked_working - unpaid) 0 in
      if 0 < period_working \<and> worked < period_working
      then round_dp L (div_dec L (ep_basic_salary emp * worked) period_working) 2
      else ep_basic_salary emp)"

definition resolve_deduction :: "'a payroll_db_scheme \<Rightarrow> uuid \<Rightarrow> string option \<Rightarrow> bool \<times> string" where
  "resolve_deduction db e code =
     (case Option.bind code (\<lambda>c. List.find (\<lambda>t. pt_entity_id t = e \<and> pt_code t = c) (deduction_types db)) of
        Some t \<Rightarrow> (dt_pre_tax t, dt_category t) | None \<Rightarrow> (False, ''voluntary''))"

definition item_deduction :: "'a payroll_db_scheme \<Rightarrow> uuid \<Rightarrow> 'b pay_item_scheme \<Rightarrow> deduction_line" where
  "item_deduction db e x =
     \<lparr>dl_code = it_type_code x, dl_name = it_name x, dl_amount = it_amount x,
      pre_tax = fst (resolve_deduction db e (it_type_code x)),
      dl_category = snd (resolve_deduction db e (it_type_code x))\<rparr>"

definition loan_deduction :: "uuid_lib \<Rightarrow> employee_loan \<Rightarrow> deduction_line list" where
  "loan_deduction U loan =
     (let inst = min (installment loan) (loan_balance loan) in
      if 0 < inst then [\<lparr>dl_code = Some (uuid_to_string U (loan_id loan)), dl_name = loan_name loan, dl_amount = inst,
        pre_tax = False, dl_category = ''loan''\<rparr>] else [])"

definition employee_deductions ::
    "uuid_lib \<Rightarrow> 'a payroll_db_scheme \<Rightarrow> uuid \<Rightarrow> uuid \<Rightarrow> naive_date \<Rightarrow> employee \<Rightarrow> deduction_line list" where
  "employee_deductions U db e run period_to emp =
     map (item_deduction db e) (recurring_for db e period_to (ep_id emp) ''deduction'')
     @ map (item_deduction db e) (inputs_for db e run (ep_id emp) ''deduction'')
     @ concat (map (loan_deduction U) (loans_for db e (ep_id emp)))"

definition insurance_relief_of :: "decimal_lib \<Rightarrow> deduction_line list \<Rightarrow> decimal" where
  "insurance_relief_of L ds =
     round_dp L (sum_where (\<lambda>d. lower (dl_category d) = ''insurance'') dl_amount ds * (15 / 100)) 2"

definition employee_inputs ::
    "decimal_lib \<Rightarrow> calendar \<Rightarrow> uuid_lib \<Rightarrow> 'a payroll_db_scheme \<Rightarrow> uuid \<Rightarrow> uuid \<Rightarrow> naive_date \<times> naive_date
      \<Rightarrow> employee \<Rightarrow> payroll_inputs" where
  "employee_inputs L C U db e run window emp =
     (let hs = holiday_dates C db e (fst window) (snd window);
          ds = employee_deductions U db e run (snd window) emp in
      \<lparr>pi_basic_salary = prorated_basic L C hs (fst window) (snd window)
          (unpaid_leave_days db e (ep_id emp) (fst window) (snd window)) emp,
       pi_earnings = employee_earnings db e run (snd window) emp, pi_deductions = ds,
       pi_helb = unwrap_or (ep_helb_deduction emp) 0, pi_personal_relief = ep_tax_relief emp,
       pi_insurance_relief = insurance_relief_of L ds,
       pi_disability_exemption = ep_disability_exemption emp\<rparr>)"

definition employee_slip ::
    "decimal_lib \<Rightarrow> calendar \<Rightarrow> uuid_lib \<Rightarrow> 'a payroll_db_scheme \<Rightarrow> uuid \<Rightarrow> pay_run \<Rightarrow> employee \<Rightarrow> computed_payslip" where
  "employee_slip L C U db e run emp =
     compute_payslip L (resolve_config db e (pr_pay_date run))
       (employee_inputs L C U db e (pr_id run) (period_window C db e (pr_period_id run) (pr_pay_date run)) emp)"

definition slip_row ::
    "decimal_lib \<Rightarrow> pay_run \<Rightarrow> uuid \<Rightarrow> employee \<Rightarrow> payslip_row list \<Rightarrow> computed_payslip \<Rightarrow> payslip_row" where
  "slip_row L run i emp prior c =
     \<lparr>ps_id = i, ps_pay_run_id = pr_id run, ps_employee_id = ep_id emp, ps_employee_name = ep_full_name emp,
      ps_department_id = ep_department_id emp, ps_slip = c, ps_columns = slip_columns L c,
      ps_ytd = ytd_amounts prior c\<rparr>"

definition new_payslip ::
    "decimal_lib \<Rightarrow> calendar \<Rightarrow> uuid_lib \<Rightarrow> 'a payroll_db_scheme \<Rightarrow> uuid \<Rightarrow> pay_run \<Rightarrow> uuid \<Rightarrow> employee \<Rightarrow> payslip_row" where
  "new_payslip L C U db e run i emp =
     slip_row L run i emp (prior_amounts C db e (pr_id run) (pr_pay_date run) (ep_id emp))
       (employee_slip L C U db e run emp)"

fun new_payslips ::
    "decimal_lib \<Rightarrow> calendar \<Rightarrow> uuid_lib \<Rightarrow> environment \<Rightarrow> 'a payroll_db_scheme \<Rightarrow> uuid \<Rightarrow> pay_run \<Rightarrow> nat
      \<Rightarrow> employee list \<Rightarrow> payslip_row list" where
  "new_payslips L C U E db e run k [] = []"
| "new_payslips L C U E db e run k (emp # emps) =
     new_payslip L C U db e run (uuids E k) emp # new_payslips L C U E db e run (k + 1) emps"

definition run_totals :: "computed_payslip list \<Rightarrow> pay_run \<Rightarrow> pay_run" where
  "run_totals cs run =
     (let s = (\<lambda>f. sum_where (\<lambda>_. True) f cs) in
      run\<lparr>total_gross := s cs_gross, total_paye := s cs_net_paye,
        total_nssf := s (\<lambda>c. cs_nssf_employee c + cs_nssf_employer c), total_sha := s cs_sha,
        total_housing_levy := s (\<lambda>c. cs_housing_employee c + cs_housing_employer c),
        total_helb := s cs_helb, total_net := s cs_net_salary, employee_count := int (length cs),
        total_employer_cost := s cs_employer_cost\<rparr>)"

definition update_run :: "uuid \<Rightarrow> (pay_run \<Rightarrow> pay_run) \<Rightarrow> 'a payroll_db_scheme \<Rightarrow> 'a payroll_db_scheme" where
  "update_run i f db = db\<lparr>pay_runs := map (\<lambda>r. if pr_id r = i then f r else r) (pay_runs db)\<rparr>"

text \<open>\<open>compute_into_run\<close> and \<open>store_totals\<close>: the run's payslips are replaced and its totals stored.\<close>

definition store_payslips :: "pay_run \<Rightarrow> payslip_row list \<Rightarrow> 'a payroll_db_scheme \<Rightarrow> 'a payroll_db_scheme" where
  "store_payslips run slips db =
     update_run (pr_id run) (run_totals (map ps_slip slips))
       (db\<lparr>payslips := filter (\<lambda>s. ps_pay_run_id s \<noteq> pr_id run) (payslips db) @ slips,
           loan_repayments := filter (\<lambda>r. rp_pay_run_id r \<noteq> pr_id run) (loan_repayments db)\<rparr>)"

definition compute_into_run ::
    "decimal_lib \<Rightarrow> calendar \<Rightarrow> uuid_lib \<Rightarrow> environment \<Rightarrow> 'a payroll_db_scheme \<Rightarrow> uuid \<Rightarrow> pay_run \<Rightarrow> employee list
      \<Rightarrow> 'a payroll_db_scheme" where
  "compute_into_run L C U E db e run emps = store_payslips run (new_payslips L C U E db e run 1 emps) db"

section \<open>The life of a run\<close>

definition find_run :: "'a payroll_db_scheme \<Rightarrow> uuid \<Rightarrow> uuid \<Rightarrow> pay_run erp_result" where
  "find_run db e i = ok_or (List.find (\<lambda>r. pr_id r = i \<and> pr_entity_id r = e) (pay_runs db)) (NotFound ''PayRun'' i)"

definition new_run :: "uuid \<Rightarrow> uuid \<Rightarrow> uuid \<Rightarrow> naive_date \<Rightarrow> pay_run" where
  "new_run i e period pay_date =
     \<lparr>pr_id = i, pr_entity_id = e, pr_period_id = period, pr_pay_date = pay_date, total_gross = 0,
      total_paye = 0, total_nssf = 0, total_sha = 0, total_housing_levy = 0, total_helb = 0, total_net = 0,
      employee_count = 0, total_employer_cost = 0, pr_status = RunDraft, pr_journal_entry_id = None,
      pr_approved_by = None, pr_approved_at = None\<rparr>"

definition start_run ::
    "decimal_lib \<Rightarrow> calendar \<Rightarrow> uuid_lib \<Rightarrow> environment \<Rightarrow> 'a payroll_db_scheme \<Rightarrow> uuid \<Rightarrow> pay_run \<Rightarrow> employee list
      \<Rightarrow> 'a payroll_db_scheme" where
  "start_run L C U E db e run emps =
     compute_into_run L C U (odds E) (db\<lparr>pay_runs := pay_runs db @ [run]\<rparr>) e run emps"

definition run_payroll ::
    "decimal_lib \<Rightarrow> calendar \<Rightarrow> uuid_lib \<Rightarrow> environment \<Rightarrow> 'a payroll_db_scheme \<Rightarrow> uuid \<Rightarrow> uuid \<Rightarrow> naive_date
      \<Rightarrow> uuid list option \<Rightarrow> (uuid \<times> 'a payroll_db_scheme) erp_result" where
  "run_payroll L C U E db e period pay_date ids =
     (let emps = filter (\<lambda>x. ep_entity_id x = e \<and> ep_is_active x
            \<and> (case ids of None \<Rightarrow> True | Some is \<Rightarrow> ep_id x \<in> set is)) (employees db) in
      if \<exists>r \<in> set (pay_runs db). pr_entity_id r = e \<and> pr_period_id r = period \<and> pr_status r = RunDraft
      then Inl (ValidationFailed ''A draft pay run already exists for this period. Edit or delete it first.'')
      else if emps = [] then Inl (ValidationFailed ''No active employees found for payroll'')
      else Inr (uuids E 1, start_run L C U E (seed_default_types (evens E) (ensure_config_seeded C db e) e) e
             (new_run (uuids E 1) e period pay_date) emps))"

definition recompute_pay_run ::
    "decimal_lib \<Rightarrow> calendar \<Rightarrow> uuid_lib \<Rightarrow> environment \<Rightarrow> 'a payroll_db_scheme \<Rightarrow> uuid \<Rightarrow> uuid
      \<Rightarrow> 'a payroll_db_scheme erp_result" where
  "recompute_pay_run L C U E db e i =
     and_then (find_run db e i) (\<lambda>run.
       if pr_status run \<noteq> RunDraft then Inl (ValidationFailed ''Only draft pay runs can be recomputed'')
       else
         (let ids = map ps_employee_id (filter (\<lambda>s. ps_pay_run_id s = i) (payslips db));
              emps = filter (\<lambda>x. ep_entity_id x = e \<and> ep_id x \<in> set ids) (employees db) in
          Inr (compute_into_run L C U E db e run emps)))"

definition delete_draft_pay_run ::
    "'a payroll_db_scheme \<Rightarrow> uuid \<Rightarrow> uuid \<Rightarrow> 'a payroll_db_scheme erp_result" where
  "delete_draft_pay_run db e i =
     and_then (find_run db e i) (\<lambda>run.
       if pr_status run \<noteq> RunDraft then Inl (ValidationFailed ''Only draft pay runs can be deleted'')
       else Inr (db\<lparr>payslips := filter (\<lambda>s. ps_pay_run_id s \<noteq> i) (payslips db),
           loan_repayments := filter (\<lambda>r. rp_pay_run_id r \<noteq> i) (loan_repayments db),
           pay_run_inputs := filter (\<lambda>x. it_pay_run_id x \<noteq> i) (pay_run_inputs db),
           pay_runs := filter (\<lambda>r. \<not> (pr_id r = i \<and> pr_entity_id r = e)) (pay_runs db)\<rparr>))"

definition approve_pay_run ::
    "environment \<Rightarrow> 'a payroll_db_scheme \<Rightarrow> uuid \<Rightarrow> uuid \<Rightarrow> agent_or_user_id \<Rightarrow> 'a payroll_db_scheme erp_result" where
  "approve_pay_run E db e i by' =
     and_then (find_run db e i) (\<lambda>run.
       if pr_status run \<noteq> RunDraft then Inl (ValidationFailed ''Pay run must be in Draft status to approve'')
       else Inr (update_run i (\<lambda>r. r\<lparr>pr_status := RunApproved, pr_approved_by := Some by', pr_approved_at := Some (now E)\<rparr>) db))"

definition mark_pay_run_paid :: "'a payroll_db_scheme \<Rightarrow> uuid \<Rightarrow> uuid \<Rightarrow> 'a payroll_db_scheme erp_result" where
  "mark_pay_run_paid db e i =
     and_then (find_run db e i) (\<lambda>run.
       if pr_status run \<noteq> RunPosted then Inl (ValidationFailed ''Pay run must be in Posted status to mark as paid'')
       else Inr (update_run i (\<lambda>r. r\<lparr>pr_status := RunPaid\<rparr>) db))"

section \<open>Posting a run\<close>

definition run_slips :: "'a payroll_db_scheme \<Rightarrow> uuid \<Rightarrow> payslip_row list" where
  "run_slips db i = filter (\<lambda>s. ps_pay_run_id s = i) (payslips db)"

definition department_code :: "'a payroll_db_scheme \<Rightarrow> payslip_row \<Rightarrow> string option" where
  "department_code db s =
     Option.bind (ps_department_id s) (\<lambda>d. map_option dep_code (List.find (\<lambda>x. dep_id x = d) (departments db)))"

definition department_gross :: "'a payroll_db_scheme \<Rightarrow> uuid \<Rightarrow> (string option \<times> decimal) list" where
  "department_gross db i =
     map (\<lambda>k. (k, sum_where (\<lambda>s. department_code db s = k) (\<lambda>s. pa_gross (ps_columns s)) (run_slips db i)))
       (remdups (map (department_code db) (run_slips db i)))"

definition salary_line ::
    "currency_code \<Rightarrow> account_code \<Rightarrow> string option \<times> decimal \<Rightarrow> journal_line_request" where
  "salary_line ccy target = (\<lambda>(dept, amt).
     (dr_line ccy (Some 1)
        (Some (case dept of Some c \<Rightarrow> ''Gross salaries - '' @ c | None \<Rightarrow> ''Gross salaries'')) target amt)
       \<lparr>rl_dimensions := map_option (\<lambda>c. [(''Department'', c)]) dept\<rparr>)"

definition salary_lines ::
    "currency_code \<Rightarrow> posting_setup \<Rightarrow> 'a payroll_db_scheme \<Rightarrow> pay_run \<Rightarrow> journal_line_request list" where
  "salary_lines ccy P db run =
     (let ls = map (salary_line ccy (salaries_expense P))
            (filter (\<lambda>x. snd x \<noteq> 0) (department_gross db (pr_id run))) in
      if ls = [] then [dr_line ccy (Some 1) (Some ''Gross salaries'') (salaries_expense P) (total_gross run)]
      else ls)"

definition statutory_lines ::
    "decimal_lib \<Rightarrow> currency_code \<Rightarrow> posting_setup \<Rightarrow> pay_run \<Rightarrow> journal_line_request list" where
  "statutory_lines L ccy P run =
     [dr_line ccy (Some 1) (Some ''Employer NSSF contribution'') (nssf_employer_expense P) (div_dec L (total_nssf run) 2),
      dr_line ccy (Some 1) (Some ''Employer housing levy'') (housing_levy_employer_expense P)
        (div_dec L (total_housing_levy run) 2),
      cr_line ccy (Some 1) (Some ''PAYE payable'') (paye_payable P) (total_paye run),
      cr_line ccy (Some 1) (Some ''NSSF payable'') (nssf_payable P) (total_nssf run),
      cr_line ccy (Some 1) (Some ''SHA payable'') (sha_payable P) (total_sha run),
      cr_line ccy (Some 1) (Some ''HELB payable'') (helb_payable P) (total_helb run),
      cr_line ccy (Some 1) (Some ''Housing levy payable'') (housing_levy_payable P) (total_housing_levy run),
      cr_line ccy (Some 1) (Some ''Net salary payable'') (net_pay_payable P) (total_net run)]"

text \<open>The deduction lines of the run grouped by code and category, then by account.\<close>

definition run_deductions :: "'a payroll_db_scheme \<Rightarrow> uuid \<Rightarrow> deduction_line list" where
  "run_deductions db i = concat (map (\<lambda>s. cs_deductions (ps_slip s)) (run_slips db i))"

definition deduction_rows :: "'a payroll_db_scheme \<Rightarrow> uuid \<Rightarrow> (string option \<times> decimal) list" where
  "deduction_rows db i =
     map (\<lambda>(c, k). (c, sum_where (\<lambda>d. dl_code d = c \<and> dl_category d = k) dl_amount (run_deductions db i)))
       (remdups (map (\<lambda>d. (dl_code d, dl_category d)) (run_deductions db i)))"

definition deduction_account :: "posting_setup \<Rightarrow> 'a payroll_db_scheme \<Rightarrow> uuid \<Rightarrow> string option \<Rightarrow> account_code" where
  "deduction_account P db e code =
     unwrap_or (Option.bind code (\<lambda>c. Option.bind
         (List.find (\<lambda>t. pt_entity_id t = e \<and> pt_code t = c) (deduction_types db)) pt_gl_account_code))
       (net_pay_payable P)"

definition deduction_lines ::
    "currency_code \<Rightarrow> posting_setup \<Rightarrow> 'a payroll_db_scheme \<Rightarrow> uuid \<Rightarrow> uuid \<Rightarrow> journal_line_request list" where
  "deduction_lines ccy P db e i =
     (let rows = filter (\<lambda>r. 0 < snd r) (deduction_rows db i);
          target = (\<lambda>r. deduction_account P db e (fst r)) in
      map (\<lambda>a. cr_line ccy (Some 1) (Some ''Payroll deductions withheld'') a (sum_where (\<lambda>r. target r = a) snd rows))
        (remdups (map target rows)))"

definition payroll_request ::
    "decimal_lib \<Rightarrow> 'a payroll_db_scheme \<Rightarrow> uuid \<Rightarrow> pay_run \<Rightarrow> journal_entry_request" where
  "payroll_request L db e run =
     (let cfg = configs db e; ccy = base_currency cfg; P = posting cfg in
      \<lparr>rq_date = pr_pay_date run, rq_source = Payroll, rq_source_id = Some (pr_id run),
       rq_reference = ''PAYROLL-'' @ show_int (pr_pay_date run),
       rq_description = ''Payroll for '' @ show_int (pr_pay_date run),
       rq_lines = salary_lines ccy P db run @ statutory_lines L ccy P run @ deduction_lines ccy P db e (pr_id run),
       rq_post_immediately = True\<rparr>)"

text \<open>Loan amortisation after the post: the balance falls, at most to zero, and the repayment is recorded once.\<close>

definition loan_rows :: "'a payroll_db_scheme \<Rightarrow> uuid \<Rightarrow> (string option \<times> decimal) list" where
  "loan_rows db i =
     (let ds = filter (\<lambda>d. dl_category d = ''loan'') (run_deductions db i) in
      map (\<lambda>c. (c, sum_where (\<lambda>d. dl_code d = c) dl_amount ds)) (remdups (map dl_code ds)))"

definition repay_loan ::
    "uuid_lib \<Rightarrow> uuid \<Rightarrow> uuid \<Rightarrow> (uuid \<times> string option \<times> decimal) \<Rightarrow> 'a payroll_db_scheme \<Rightarrow> 'a payroll_db_scheme" where
  "repay_loan U e run = (\<lambda>(i, code, amt) db.
     case Option.bind code (uuid_parse_str U) of
       None \<Rightarrow> db
     | Some l \<Rightarrow>
         (case List.find (\<lambda>x. loan_id x = l \<and> loan_entity_id x = e) (employee_loans db) of
            None \<Rightarrow> db
          | Some loan \<Rightarrow>
              (let new_bal = max (loan_balance loan - amt) 0;
                   db1 = db\<lparr>employee_loans := map (\<lambda>x. if loan_id x = l
                       then x\<lparr>loan_balance := new_bal,
                              loan_status := (if new_bal \<le> 0 then ''settled'' else loan_status x)\<rparr>
                       else x) (employee_loans db)\<rparr> in
               if \<exists>r \<in> set (loan_repayments db1). rp_loan_id r = l \<and> rp_pay_run_id r = run then db1
               else db1\<lparr>loan_repayments := loan_repayments db1 @
                 [\<lparr>rp_id = i, rp_loan_id = l, rp_pay_run_id = run, rp_amount = amt, balance_after = new_bal\<rparr>]\<rparr>)))"

definition repay_loans ::
    "uuid_lib \<Rightarrow> environment \<Rightarrow> uuid \<Rightarrow> uuid \<Rightarrow> 'a payroll_db_scheme \<Rightarrow> 'a payroll_db_scheme" where
  "repay_loans U E e run db =
     fold (repay_loan U e run) (map (\<lambda>(k, r). (uuids E k, r)) (enumerate 0 (loan_rows db run))) db"

definition post_pay_run ::
    "decimal_lib \<Rightarrow> calendar \<Rightarrow> uuid_lib \<Rightarrow> environment \<Rightarrow> 'a payroll_db_scheme \<Rightarrow> uuid \<Rightarrow> uuid \<Rightarrow> agent_or_user_id
      \<Rightarrow> (uuid \<times> 'a payroll_db_scheme) erp_result" where
  "post_pay_run L C U E db e i posted_by =
     and_then (find_run db e i) (\<lambda>run.
       if pr_status run \<noteq> RunApproved then Inl (ValidationFailed ''Pay run must be approved before posting'')
       else and_then (period_for_date db e (pr_pay_date run)) (\<lambda>p.
         if parsed_status p \<noteq> Open
         then Inl (PeriodClosedDetailed (fp_name p) (fp_status p) (fp_id p))
         else and_then (create_and_post L C (evens E) db e (payroll_request L db e run) (fp_id p) posted_by)
           (\<lambda>(entry, db1).
             Inr (en_id entry, repay_loans U (odds E) e i
               (update_run i (\<lambda>r. r\<lparr>pr_status := RunPosted, pr_journal_entry_id := Some (en_id entry)\<rparr>) db1)))))"

end
