(* ===== verification/Payroll_Correct.thy ===== *)
theory Payroll_Correct
  imports Payroll
begin

text \<open>
  Payslips add up, the consolidated entry of a run balances to the cent, and what the operations on
  runs keep.
\<close>

section \<open>One payslip\<close>

definition inputs_in_cents :: "payroll_inputs \<Rightarrow> bool" where
  "inputs_in_cents inp \<longleftrightarrow> has_dp 2 (pi_basic_salary inp) \<and> has_dp 2 (pi_helb inp)
     \<and> (\<forall>x \<in> set (pi_earnings inp). has_dp 2 (el_amount x))
     \<and> (\<forall>d \<in> set (pi_deductions inp). has_dp 2 (dl_amount d))"

lemma has_dp_max_min [intro]: "has_dp n x \<Longrightarrow> has_dp n y \<Longrightarrow> has_dp n (max x y)"
  "has_dp n x \<Longrightarrow> has_dp n y \<Longrightarrow> has_dp n (min x y)"
  by (auto simp: max_def min_def)

context decimal_laws
begin

lemma round_dp_grid [simp]: "has_dp n (round_dp L x n)"
  by (simp add: round_dp_def round_grid)

lemma round_dp_exact: "has_dp n x \<Longrightarrow> round_dp L x n = x"
  by (simp add: round_dp_def round_exact)

lemma slip_amounts:
  "has_dp 2 (slip_nssf L cfg inp)" "has_dp 2 (slip_housing L cfg inp)"
  "has_dp 0 (slip_net_paye L cfg inp)" "has_dp 2 (slip_net_paye L cfg inp)" "0 \<le> slip_net_paye L cfg inp"
  "has_dp 2 (slip_total_deductions L cfg inp)"
proof -
  show "has_dp 0 (slip_net_paye L cfg inp)" by (simp add: slip_net_paye_def round_grid)
  then show "has_dp 2 (slip_net_paye L cfg inp)" by (rule has_dp_le_mono) simp
  show "0 \<le> slip_net_paye L cfg inp" by (simp add: slip_net_paye_def round_nonneg)
qed (simp_all add: slip_nssf_def nssf_employee_of_def slip_housing_def housing_employee_of_def slip_total_deductions_def)

lemma slip_sha_cents: "has_dp 2 (sha_minimum cfg) \<Longrightarrow> has_dp 2 (slip_sha L cfg inp)"
  by (auto simp: slip_sha_def sha_of_def)

lemma cents_gross: "inputs_in_cents inp \<Longrightarrow> has_dp 2 (earnings_base p inp)"
  unfolding earnings_base_def
  by (rule has_dp_sum_where) (auto simp: inputs_in_cents_def all_earnings_def standard_earning_def)

lemma cents_deductions: "inputs_in_cents inp \<Longrightarrow> has_dp 2 (slip_other_deductions inp)"
  unfolding slip_other_deductions_def by (rule has_dp_sum_where) (auto simp: inputs_in_cents_def)

text \<open>What is paid out and what is withheld make up the gross pay.\<close>

lemma slip_adds_up:
  assumes cents: "inputs_in_cents inp" and sha: "has_dp 2 (sha_minimum cfg)"
  defines "p \<equiv> compute_payslip L cfg inp"
  shows "cs_total_deductions p = cs_net_paye p + cs_nssf_employee p + cs_sha p + cs_housing_employee p
      + cs_helb p + cs_other_deductions p"
    and "cs_gross p = pi_basic_salary inp + sum_where (\<lambda>_. True) el_amount (pi_earnings inp)"
    and "cs_gross p = cs_net_salary p + cs_total_deductions p"
proof -
  have "has_dp 2 (slip_net_paye L cfg inp + slip_nssf L cfg inp + slip_sha L cfg inp + slip_housing L cfg inp
      + pi_helb inp + slip_other_deductions inp)"
    using slip_amounts slip_sha_cents [OF sha] cents_deductions [OF cents] cents
    by (intro has_dp_closed(2)) (simp_all add: inputs_in_cents_def)
  then show "cs_total_deductions p = cs_net_paye p + cs_nssf_employee p + cs_sha p + cs_housing_employee p
      + cs_helb p + cs_other_deductions p"
    by (simp add: p_def slip_total_deductions_def round_dp_exact slip_amounts)
  show "cs_gross p = pi_basic_salary inp + sum_where (\<lambda>_. True) el_amount (pi_earnings inp)"
    using cents_gross [OF cents, of "\<lambda>_. True"]
    by (simp add: p_def round_dp_exact earnings_base_def all_earnings_def standard_earning_def)
  show "cs_gross p = cs_net_salary p + cs_total_deductions p"
    using cents_gross [OF cents, of "\<lambda>_. True"]
    by (simp add: p_def round_dp_exact slip_amounts has_dp_closed(3))
qed

end

section \<open>The entry of a run\<close>

definition slip_ok :: "decimal_lib \<Rightarrow> payslip_row \<Rightarrow> bool" where
  "slip_ok L s \<longleftrightarrow> (\<exists>cfg inp. ps_slip s = compute_payslip L cfg inp \<and> has_dp 2 (sha_minimum cfg)
     \<and> inputs_in_cents inp \<and> (\<forall>d \<in> set (pi_deductions inp). 0 \<le> dl_amount d))
     \<and> ps_columns s = slip_columns L (ps_slip s)"

definition totals_exact :: "'a payroll_db_scheme \<Rightarrow> pay_run \<Rightarrow> bool" where
  "totals_exact db r \<longleftrightarrow> run_totals (map ps_slip (run_slips db (pr_id r))) r = r"

lemma sum_all: "sum_where (\<lambda>_. True) f xs = sum_list (map f xs)"
  by (simp add: sum_where_def)

lemma sum_list_doubled:
  "(\<And>x. x \<in> set xs \<Longrightarrow> g x = f x) \<Longrightarrow> sum_list (map (\<lambda>x. f x + g x) xs) = (sum_list (map f xs) * 2 :: decimal)"
  by (induction xs) (simp_all add: algebra_simps)

lemma sum_list_concat_lines: "sum_list (map f (concat xss)) = (sum_list (map (\<lambda>xs. sum_list (map f xs)) xss) :: decimal)"
  by (induction xss) simp_all

lemma sum_list_filter_nonzero:
  "sum_list (map f (filter (\<lambda>x. f x \<noteq> 0) xs)) = (sum_list (map f xs) :: decimal)"
  by (induction xs) auto

lemma department_gross_total:
  "sum_list (map snd (department_gross db i)) = sum_list (map (\<lambda>s. pa_gross (ps_columns s)) (run_slips db i))"
proof -
  have "sum_list (map snd (department_gross db i))
      = sum_list (map (\<lambda>k. sum_where (\<lambda>s. True \<and> department_code db s = k) (\<lambda>s. pa_gross (ps_columns s)) (run_slips db i))
          (remdups (map (department_code db) (run_slips db i))))"
    by (simp add: department_gross_def comp_def)
  also have "\<dots> = sum_where (\<lambda>s. True \<and> department_code db s \<in> set (remdups (map (department_code db) (run_slips db i))))
      (\<lambda>s. pa_gross (ps_columns s)) (run_slips db i)"
    by (rule sum_where_group_by) simp
  also have "\<dots> = sum_where (\<lambda>_. True) (\<lambda>s. pa_gross (ps_columns s)) (run_slips db i)"
    by (rule sum_where_cong) auto
  finally show ?thesis by (simp add: sum_all)
qed

lemma deduction_rows_total:
  "sum_list (map snd (deduction_rows db i)) = sum_list (map dl_amount (run_deductions db i))"
proof -
  let ?ds = "run_deductions db i" and ?key = "\<lambda>d. (dl_code d, dl_category d)"
  have "sum_list (map snd (deduction_rows db i))
      = sum_list (map (\<lambda>k. sum_where (\<lambda>d. True \<and> ?key d = k) dl_amount ?ds) (remdups (map ?key ?ds)))"
    by (auto simp: deduction_rows_def comp_def case_prod_beta intro!: arg_cong [where f = sum_list] sum_where_cong)
  also have "\<dots> = sum_where (\<lambda>d. True \<and> ?key d \<in> set (remdups (map ?key ?ds))) dl_amount ?ds"
    by (rule sum_where_group_by) simp
  also have "\<dots> = sum_where (\<lambda>_. True) dl_amount ?ds" by (rule sum_where_cong) auto
  finally show ?thesis by (simp add: sum_all)
qed

lemma sum_positive_only:
  "(\<And>x. x \<in> set xs \<Longrightarrow> 0 \<le> f x) \<Longrightarrow> sum_list (map f (filter (\<lambda>x. 0 < f x) xs)) = (sum_list (map f xs) :: decimal)"
  by (induction xs) (auto simp: order.order_iff_strict)

lemma grouped_lines_total:
  "sum_list (map (\<lambda>a. sum_where (\<lambda>r. g r = a) f rows) (remdups (map g rows))) = sum_list (map f rows)"
proof -
  have "sum_list (map (\<lambda>a. sum_where (\<lambda>r. True \<and> g r = a) f rows) (remdups (map g rows)))
      = sum_where (\<lambda>r. True \<and> g r \<in> set (remdups (map g rows))) f rows"
    by (rule sum_where_group_by) simp
  also have "\<dots> = sum_where (\<lambda>_. True) f rows" by (rule sum_where_cong) auto
  finally show ?thesis by (simp add: sum_all)
qed

context decimal_laws
begin

lemma credit_lines_total:
  assumes "\<And>a. a \<in> set as \<Longrightarrow> has_dp 2 (f a)"
  shows "request_credits L (map (\<lambda>a. cr_line ccy (Some 1) desc a (f a)) as) = sum_list (map f as)"
    and "request_debits L (map (\<lambda>a. cr_line ccy (Some 1) desc a (f a)) as) = 0"
  using assms by (induction "as") (auto simp: round_money_exact)

lemma salary_line_totals:
  assumes "\<forall>x \<in> set xs. has_dp 2 (snd x)"
  shows "request_debits L (map (salary_line ccy c) xs) = sum_list (map snd xs)"
    and "request_credits L (map (salary_line ccy c) xs) = 0"
  using assms
  by (induction xs)
    (simp_all add: request_debits_def request_credits_def salary_line_def dr_line_def case_prod_beta round_money_exact)

lemma slip_okD:
  assumes "slip_ok L s"
  shows "pa_gross (ps_columns s) = cs_gross (ps_slip s)"
    and "cs_nssf_employer (ps_slip s) = cs_nssf_employee (ps_slip s)"
    and "cs_housing_employer (ps_slip s) = cs_housing_employee (ps_slip s)"
    and "has_dp 2 (cs_gross (ps_slip s))" "has_dp 2 (cs_nssf_employee (ps_slip s))"
    "has_dp 2 (cs_housing_employee (ps_slip s))" "has_dp 2 (cs_net_paye (ps_slip s))" "has_dp 2 (cs_sha (ps_slip s))"
    "has_dp 2 (cs_helb (ps_slip s))" "has_dp 2 (cs_net_salary (ps_slip s))"
    and "cs_gross (ps_slip s) = cs_net_salary (ps_slip s) + cs_net_paye (ps_slip s) + cs_nssf_employee (ps_slip s)
      + cs_sha (ps_slip s) + cs_housing_employee (ps_slip s) + cs_helb (ps_slip s)
      + sum_list (map dl_amount (cs_deductions (ps_slip s)))"
    and "d \<in> set (cs_deductions (ps_slip s)) \<Longrightarrow> 0 \<le> dl_amount d \<and> has_dp 2 (dl_amount d)"
proof -
  obtain cfg inp where s: "ps_slip s = compute_payslip L cfg inp" "has_dp 2 (sha_minimum cfg)" "inputs_in_cents inp"
    "\<forall>d \<in> set (pi_deductions inp). 0 \<le> dl_amount d" "ps_columns s = slip_columns L (ps_slip s)"
    using assms by (auto simp: slip_ok_def)
  note amounts = slip_amounts [of cfg inp] slip_sha_cents [OF s(2), of inp]
  show "pa_gross (ps_columns s) = cs_gross (ps_slip s)"
    by (simp add: s(1,5) slip_columns_def numeric2_def round_exact)
  show "cs_gross (ps_slip s) = cs_net_salary (ps_slip s) + cs_net_paye (ps_slip s) + cs_nssf_employee (ps_slip s)
      + cs_sha (ps_slip s) + cs_housing_employee (ps_slip s) + cs_helb (ps_slip s)
      + sum_list (map dl_amount (cs_deductions (ps_slip s)))"
    using slip_adds_up(1,3) [OF s(3,2)] by (simp add: s(1) slip_other_deductions_def sum_all)
  show "d \<in> set (cs_deductions (ps_slip s)) \<Longrightarrow> 0 \<le> dl_amount d \<and> has_dp 2 (dl_amount d)"
    using s(3,4) by (auto simp: s(1) inputs_in_cents_def)
  show "has_dp 2 (cs_helb (ps_slip s))" using s(3) by (simp add: s(1) inputs_in_cents_def)
  show "cs_nssf_employer (ps_slip s) = cs_nssf_employee (ps_slip s)"
    "cs_housing_employer (ps_slip s) = cs_housing_employee (ps_slip s)"
    "has_dp 2 (cs_gross (ps_slip s))" "has_dp 2 (cs_nssf_employee (ps_slip s))"
    "has_dp 2 (cs_housing_employee (ps_slip s))" "has_dp 2 (cs_net_paye (ps_slip s))" "has_dp 2 (cs_sha (ps_slip s))"
    "has_dp 2 (cs_net_salary (ps_slip s))"
    using amounts by (simp_all add: s(1))
qed

text \<open>The entry of a run whose totals are those of its payslips balances to the cent.\<close>

lemma payroll_request_balanced:
  assumes ok: "\<forall>s \<in> set (run_slips db (pr_id run)). slip_ok L s" and tot: "totals_exact db run"
  shows "request_debits L (rq_lines (payroll_request L db e run)) = request_credits L (rq_lines (payroll_request L db e run))"
    and "request_debits L (rq_lines (payroll_request L db e run))
      = total_gross run + div_dec L (total_nssf run) 2 + div_dec L (total_housing_levy run) 2"
proof -
  let ?ss = "run_slips db (pr_id run)" and ?i = "pr_id run"
  let ?S = "\<lambda>f. sum_list (map (\<lambda>s. f (ps_slip s)) ?ss)"
  let ?ccy = "base_currency (configs db e)" and ?P = "posting (configs db e)"
  have T: "total_gross run = ?S cs_gross" "total_paye run = ?S cs_net_paye"
    "total_nssf run = ?S (\<lambda>c. cs_nssf_employee c + cs_nssf_employer c)" "total_sha run = ?S cs_sha"
    "total_housing_levy run = ?S (\<lambda>c. cs_housing_employee c + cs_housing_employer c)"
    "total_helb run = ?S cs_helb" "total_net run = ?S cs_net_salary"
    by (subst tot [unfolded totals_exact_def, symmetric], simp add: run_totals_def Let_def sum_all comp_def)+
  have cents: "has_dp 2 (?S f)" if "\<And>s. s \<in> set ?ss \<Longrightarrow> has_dp 2 (f (ps_slip s))" for f
    using that by (intro has_dp_sum_list) auto
  have D: "slip_ok L s" if "s \<in> set ?ss" for s using ok that by blast
  have halves: "sum_list (map (\<lambda>s. f s + g s) ?ss) = sum_list (map f ?ss) * 2"
    if "\<And>s. s \<in> set ?ss \<Longrightarrow> g s = f s" for f g :: "payslip_row \<Rightarrow> decimal"
    using sum_list_doubled [of ?ss g f] that by simp
  have half: "?S (\<lambda>c. cs_nssf_employee c + cs_nssf_employer c) = ?S cs_nssf_employee * 2"
    "?S (\<lambda>c. cs_housing_employee c + cs_housing_employer c) = ?S cs_housing_employee * 2"
    using slip_okD(2,3) [OF D] by (auto intro!: halves)
  have nssf2: "has_dp 2 (?S cs_nssf_employee)" and hl2: "has_dp 2 (?S cs_housing_employee)"
    using slip_okD(5,6) [OF D] by (auto intro!: cents)
  have div: "div_dec L (total_nssf run) 2 = ?S cs_nssf_employee"
    "div_dec L (total_housing_levy run) 2 = ?S cs_housing_employee"
    unfolding T half by (rule div_exact, rule has_dp_le_mono [OF nssf2], simp, simp)
      (rule div_exact, rule has_dp_le_mono [OF hl2], simp, simp)
  have all2: "has_dp 2 (total_gross run)" "has_dp 2 (total_paye run)" "has_dp 2 (total_nssf run)"
    "has_dp 2 (total_sha run)" "has_dp 2 (total_housing_levy run)" "has_dp 2 (total_helb run)" "has_dp 2 (total_net run)"
    unfolding T using slip_okD(2-10) [OF D] by (auto intro!: cents has_dp_closed(2))
  have gross: "sum_list (map (\<lambda>s. pa_gross (ps_columns s)) ?ss) = total_gross run"
    unfolding T using slip_okD(1) [OF D] by (intro arg_cong [where f = sum_list]) auto
  have dept2: "\<forall>x \<in> set (department_gross db ?i). has_dp 2 (snd x)"
    using slip_okD(1,4) [OF D] by (auto simp: department_gross_def intro!: has_dp_sum_where)
  have dept: "sum_list (map snd (filter (\<lambda>x. snd x \<noteq> 0) (department_gross db ?i))) = total_gross run"
    using department_gross_total [of db ?i] gross by (simp add: sum_list_filter_nonzero)
  have salary: "request_debits L (salary_lines ?ccy ?P db run) = total_gross run"
    "request_credits L (salary_lines ?ccy ?P db run) = 0"
    using dept dept2 all2(1) salary_line_totals [of "filter (\<lambda>x. snd x \<noteq> 0) (department_gross db ?i)" ?ccy "salaries_expense ?P"]
    by (auto simp: salary_lines_def Let_def round_money_exact)
  have statutory: "request_debits L (statutory_lines L ?ccy ?P run)
      = div_dec L (total_nssf run) 2 + div_dec L (total_housing_levy run) 2"
    "request_credits L (statutory_lines L ?ccy ?P run) = total_paye run + total_nssf run + total_sha run
      + total_helb run + total_housing_levy run + total_net run"
    using all2 nssf2 hl2 by (simp_all add: statutory_lines_def div round_money_exact)
  have amounts: "d \<in> set (run_deductions db ?i) \<Longrightarrow> 0 \<le> dl_amount d \<and> has_dp 2 (dl_amount d)" for d
    using slip_okD(12) [OF D] by (auto simp: run_deductions_def)
  have rows: "0 \<le> snd r \<and> has_dp 2 (snd r)" if "r \<in> set (deduction_rows db ?i)" for r
    using that amounts by (auto simp: deduction_rows_def intro!: sum_where_nonneg has_dp_sum_where)
  have dl: "sum_list (map dl_amount (run_deductions db ?i)) = ?S (\<lambda>c. sum_list (map dl_amount (cs_deductions c)))"
    by (simp add: run_deductions_def sum_list_concat_lines comp_def)
  let ?rows = "filter (\<lambda>r. 0 < snd r) (deduction_rows db ?i)" and ?g = "\<lambda>r. deduction_account ?P db e (fst r)"
  have deds: "request_credits L (deduction_lines ?ccy ?P db e ?i) = ?S (\<lambda>c. sum_list (map dl_amount (cs_deductions c)))"
    "request_debits L (deduction_lines ?ccy ?P db e ?i) = 0"
  proof -
    have "has_dp 2 (sum_where (\<lambda>r. ?g r = a) snd ?rows)" for a
      using rows by (intro has_dp_sum_where) auto
    note lines = credit_lines_total [of "remdups (map ?g ?rows)" "\<lambda>a. sum_where (\<lambda>r. ?g r = a) snd ?rows" ?ccy, OF this]
    show "request_debits L (deduction_lines ?ccy ?P db e ?i) = 0"
      using lines(2) by (simp add: deduction_lines_def Let_def)
    have "request_credits L (deduction_lines ?ccy ?P db e ?i) = sum_list (map snd ?rows)"
      using lines(1) grouped_lines_total [of ?g snd ?rows] by (simp add: deduction_lines_def Let_def)
    also have "\<dots> = sum_list (map snd (deduction_rows db ?i))" by (rule sum_positive_only) (use rows in blast)
    finally show "request_credits L (deduction_lines ?ccy ?P db e ?i) = ?S (\<lambda>c. sum_list (map dl_amount (cs_deductions c)))"
      by (simp add: deduction_rows_total dl)
  qed
  show debits: "request_debits L (rq_lines (payroll_request L db e run))
      = total_gross run + div_dec L (total_nssf run) 2 + div_dec L (total_housing_levy run) 2"
    using salary statutory deds by (simp add: payroll_request_def Let_def)
  have "?S cs_gross = ?S (\<lambda>c. cs_net_salary c + cs_net_paye c + cs_nssf_employee c + cs_sha c + cs_housing_employee c
      + cs_helb c + sum_list (map dl_amount (cs_deductions c)))"
    using slip_okD(11) [OF D] by (intro arg_cong [where f = sum_list]) auto
  also have "\<dots> = ?S cs_net_salary + ?S cs_net_paye + ?S cs_nssf_employee + ?S cs_sha + ?S cs_housing_employee
      + ?S cs_helb + ?S (\<lambda>c. sum_list (map dl_amount (cs_deductions c)))"
    by (simp add: sum_list_addf)
  finally have split: "?S cs_gross = \<dots>" .
  have "request_credits L (rq_lines (payroll_request L db e run))
      = total_paye run + total_nssf run + total_sha run + total_helb run + total_housing_levy run + total_net run
        + ?S (\<lambda>c. sum_list (map dl_amount (cs_deductions c)))"
    using salary statutory deds by (simp add: payroll_request_def Let_def)
  then show "request_debits L (rq_lines (payroll_request L db e run)) = request_credits L (rq_lines (payroll_request L db e run))"
    unfolding debits div unfolding T half using split by simp
qed

end

end
