(* ===== verification/Posting_Succeeds.thy ===== *)
theory Posting_Succeeds
  imports Posting
begin

text \<open>
  When posting goes through: the conditions under which \<open>create_and_post_in_tx\<close> commits, so that
  the subsystems' postings are known not to fail, and not only to be right when they do not.
\<close>

definition ids_fresh :: "environment \<Rightarrow> nat \<Rightarrow> 'a ledger_db_scheme \<Rightarrow> bool" where
  "ids_fresh E n db \<longleftrightarrow> distinct (map (uuids E) [0..<n + 1])
     \<and> uuids E 0 \<notin> je_id ` set (journal_entries db)
     \<and> (\<forall>r \<in> set (journal_lines db). jl_id (row_line r) \<notin> set (map (uuids E) [0..<n + 1]))"

definition number_unused :: "calendar \<Rightarrow> 'a ledger_db_scheme \<Rightarrow> uuid \<Rightarrow> naive_date \<Rightarrow> bool" where
  "number_unused C db e d =
     (case journal_counter db e of None \<Rightarrow> False
      | Some n \<Rightarrow> \<forall>r \<in> set (journal_entries db). je_entity_id r = e \<longrightarrow>
          je_number r \<noteq> format_number (year_reset (sequences (configs db e)))
            (journal_prefix (sequences (configs db e))) (fiscal_year_for_date C db e d) n)"

definition post_ready ::
    "calendar \<Rightarrow> environment \<Rightarrow> 'a ledger_db_scheme \<Rightarrow> uuid \<Rightarrow> journal_entry_request \<Rightarrow> uuid \<Rightarrow> bool" where
  "post_ready C E db e req i \<longleftrightarrow>
     (case find_period db e i of None \<Rightarrow> False | Some p \<Rightarrow> source_admitted db e p (rq_source req))
     \<and> accounts_usable db e (rq_lines req) \<and> number_unused C db e (rq_date req)
     \<and> ids_fresh E (length (rq_lines req) + 1) db"

lemma accounts_usable_check: "accounts_usable db e ls \<Longrightarrow> check_accounts db e ls = Inr ()"
proof -
  assume ok: "accounts_usable db e ls"
  have "(case find_account db e c of None \<Rightarrow> [c @ '' (not found)''] | Some a \<Rightarrow> (if ac_is_active a then [] else [c @ '' (inactive)''])) = []"
    if "c \<in> set (remdups (sort (map rl_account ls)))" for c
    using that ok by (auto simp: accounts_usable_def list_all_iff split: option.splits)
  then have "account_problems db e (remdups (sort (map rl_account ls))) = []"
    unfolding account_problems_def by (simp add: concat_eq_Nil_conv)
  then show ?thesis by (simp add: check_accounts_def)
qed

lemma insert_lines_ok:
  assumes "distinct (map (\<lambda>r. jl_id (row_line r)) rs)"
    and "\<forall>r \<in> set rs. \<forall>x \<in> set (journal_lines db). jl_id (row_line x) \<noteq> jl_id (row_line r)"
    and "\<forall>r \<in> set rs. \<not> hardclosed_trigger db (row_entry_id r)"
  shows "try_fold insert_line rs db = Inr (db\<lparr>journal_lines := journal_lines db @ rs\<rparr>)"
  using assms
proof (induction rs arbitrary: db)
  case Nil
  then show ?case by simp
next
  case (Cons r rs)
  let ?db = "db\<lparr>journal_lines := journal_lines db @ [r]\<rparr>"
  have ins: "insert_line r db = Inr ?db" using Cons.prems by (auto simp: insert_line_def)
  have "try_fold insert_line rs ?db = Inr (?db\<lparr>journal_lines := journal_lines ?db @ rs\<rparr>)"
    by (rule Cons.IH) (use Cons.prems in \<open>auto simp: hardclosed_trigger_def\<close>)
  with ins show ?case by simp
qed

lemma balance_lines_ok:
  assumes "\<bar>opt_sum functional_debit ls - opt_sum functional_credit ls\<bar> \<le> ROUNDING_TOLERANCE"
  shows "\<exists>ls'. balance_lines cfg i ls = Inr ls'"
proof -
  have "rounding_outcome (opt_sum functional_debit ls) (opt_sum functional_credit ls) \<noteq> RoundingUnbalanced"
    using assms unfolding rounding_outcome_RoundingUnbalanced by linarith
  then show ?thesis by (auto simp: balance_lines_def Let_def split: rounding_outcome_t.splits)
qed

lemma built_line_ids: "map jl_id (built_lines L E req) = map (uuids E) [1..<length (rq_lines req) + 1]"
proof -
  have "map jl_id (map (\<lambda>(i, l). build_line L (uuids E (i + 1)) l) (enumerate k ls)) = map (uuids E) [k + 1..<k + length ls + 1]" for k ls
    by (induction ls arbitrary: k) (auto simp: build_line_def Let_def upt_conv_Cons simp del: upt_Suc)
  from this [of 0 "rq_lines req"] show ?thesis by (simp add: built_lines_def)
qed

lemma balanced_line_ids:
  assumes "balance_lines cfg (uuids E (length (rq_lines req) + 1)) (built_lines L E req) = Inr lines"
  shows "\<exists>n \<le> length (rq_lines req) + 2. map jl_id lines = map (uuids E) [1..<n]"
proof -
  from balance_lines_cases [OF assms] consider "lines = built_lines L E req"
    | b a where "lines = built_lines L E req @ [adjustment_line (uuids E (length (rq_lines req) + 1)) cfg b a]"
    by blast
  then show ?thesis
  proof cases
    case 1
    then show ?thesis by (intro exI [of _ "length (rq_lines req) + 1"]) (simp add: built_line_ids del: upt_Suc)
  next
    case 2
    then show ?thesis
      by (intro exI [of _ "length (rq_lines req) + 2"]) (simp add: built_line_ids adjustment_line_def Let_def)
  qed
qed

lemma posting_succeeds:
  assumes keys: "periods_ok (fiscal_periods db)" and ready: "post_ready C E db e req i"
    and close: "\<bar>request_debits L (rq_lines req) - request_credits L (rq_lines req)\<bar> \<le> ROUNDING_TOLERANCE"
  shows "\<exists>en db'. create_and_post_in_tx L C E db e req i by' = Inr (en, db')"
proof -
  obtain p where p: "find_period db e i = Some p" "source_admitted db e p (rq_source req)"
    using ready by (auto simp: post_ready_def split: option.splits)
  have enf: "enforce_period_status_in_tx db e i (rq_source req) = Inr ()"
    using p by (simp add: enforce_eq_admitted)
  have acc: "check_accounts db e (rq_lines req) = Inr ()"
    using ready by (simp add: post_ready_def accounts_usable_check)
  obtain n where n: "journal_counter db e = Some n"
    and unused: "\<forall>r \<in> set (journal_entries db). je_entity_id r = e \<longrightarrow>
        je_number r \<noteq> format_number (year_reset (sequences (configs db e)))
            (journal_prefix (sequences (configs db e))) (fiscal_year_for_date C db e (rq_date req)) n"
    using ready by (auto simp: post_ready_def number_unused_def split: option.splits)
  obtain number where number: "generate_journal_number C db e (rq_date req)
      = Inr (number, db\<lparr>journal_counter := (journal_counter db)(e := Some (n + 1))\<rparr>)"
    "\<forall>r \<in> set (journal_entries db). je_entity_id r = e \<longrightarrow> je_number r \<noteq> number"
    using n unused by (simp add: generate_journal_number_def Let_def)
  obtain lines where lines: "balance_lines (configs db e) (uuids E (length (rq_lines req) + 1)) (built_lines L E req) = Inr lines"
    using balance_lines_ok [of "built_lines L E req"] close by (auto simp: built_totals)
  have fresh: "distinct (map (uuids E) [0..<length (rq_lines req) + 2])" "uuids E 0 \<notin> je_id ` set (journal_entries db)"
    "\<forall>r \<in> set (journal_lines db). jl_id (row_line r) \<notin> set (map (uuids E) [0..<length (rq_lines req) + 2])"
    using ready by (auto simp: post_ready_def ids_fresh_def)
  let ?row = "entry_row E e req i by' number"
  let ?db1 = "db\<lparr>journal_counter := (journal_counter db)(e := Some (n + 1))\<rparr>"
  let ?db2 = "?db1\<lparr>journal_entries := journal_entries db @ [?row]\<rparr>"
  let ?rows = "map (line_row (uuids E 0) e (rq_date req)) lines"
  have ins: "insert_entry ?db1 ?row = Inr ?db2"
    using fresh(2) number(2) by (force simp: insert_entry_def entry_row_def)
  obtain m where m: "m \<le> length (rq_lines req) + 2" "map jl_id lines = map (uuids E) [1..<m]"
    using balanced_line_ids [OF lines] by blast
  have rows_ids: "map (\<lambda>r. jl_id (row_line r)) ?rows = map (uuids E) [1..<m]"
    using m(2) by (simp add: line_row_def comp_def)
  have subset: "set [1..<m] \<subseteq> set [0..<length (rq_lines req) + 2]" using m(1) by auto
  have rows: "try_fold insert_line ?rows ?db2 = Inr (?db2\<lparr>journal_lines := journal_lines db @ ?rows\<rparr>)"
  proof -
    have "\<not> hardclosed_trigger ?db2 (uuids E 0)"
    proof
      assume "hardclosed_trigger ?db2 (uuids E 0)"
      then obtain q where q: "q \<in> set (fiscal_periods db)" "fp_id q = i" "fp_status q = ''hard_closed''" "\<not> is_year_end_source (rq_source req)"
        using fresh(2) by (force simp: hardclosed_trigger_def entry_row_def)
      with find_period_SomeD [OF p(1)] periods_ok_id [OF keys] have "q = p" by metis
      with q p(2) show False by (simp add: source_admitted_def parsed_status_def)
    qed
    moreover have "distinct (map (\<lambda>r. jl_id (row_line r)) ?rows)"
      unfolding rows_ids using fresh(1) subset
      by (simp add: distinct_map inj_on_subset del: upt_Suc)
    moreover have "\<forall>r \<in> set ?rows. \<forall>x \<in> set (journal_lines ?db2). jl_id (row_line x) \<noteq> jl_id (row_line r)"
    proof (intro ballI)
      fix r x assume r: "r \<in> set ?rows" and x: "x \<in> set (journal_lines ?db2)"
      have "jl_id (row_line r) \<in> set (map (\<lambda>r. jl_id (row_line r)) ?rows)" using r by force
      then have "jl_id (row_line r) \<in> set (map (uuids E) [0..<length (rq_lines req) + 2])"
        unfolding rows_ids using subset by auto
      with x fresh(3) show "jl_id (row_line x) \<noteq> jl_id (row_line r)" by auto
    qed
    ultimately show ?thesis by (subst insert_lines_ok) (auto simp: line_row_def)
  qed
  have "\<exists>q. List.find (\<lambda>q. fp_id q = i) (fiscal_periods db) = Some q"
    using find_period_SomeD [OF p(1)] by (cases "List.find (\<lambda>q. fp_id q = i) (fiscal_periods db)") (auto simp: find_None_iff)
  then obtain q where q: "List.find (\<lambda>q. fp_id q = i) (fiscal_periods db) = Some q" ..
  show ?thesis
    unfolding create_and_post_in_tx_def built_lines_def [symmetric]
    using rows lines ins by (simp add: enf acc number(1) q ok_or_def)
qed

end
