(* ===== verification/Payroll_Life.thy ===== *)
theory Payroll_Life
  imports Payroll_Correct Posting_Succeeds
begin

text \<open>
  The pay runs as a transition system: what every operation keeps of the runs and their payslips.
\<close>

section \<open>What the steps leave alone\<close>

lemma payroll_frame:
  assumes "ledger_db.more (d :: 'a payroll_db_scheme) = ledger_db.more d'"
  shows "pay_runs d = pay_runs d'" "payslips d = payslips d'" "employees d = employees d'"
    "employee_loans d = employee_loans d'" "loan_repayments d = loan_repayments d'"
  using assms by (cases d; cases d'; simp)+

lemma run_slips_frame: "payslips d' = payslips d \<Longrightarrow> run_slips d' i = run_slips d i"
  by (simp add: run_slips_def)

lemma update_run_simps [simp]:
  "payslips (update_run i f db) = payslips db"
  "pay_runs (update_run i f db) = map (\<lambda>r. if pr_id r = i then f r else r) (pay_runs db)"
  "accounts (update_run i f db) = accounts db" "configs (update_run i f db) = configs db"
  "fiscal_periods (update_run i f db) = fiscal_periods db"
  "journal_entries (update_run i f db) = journal_entries db"
  "journal_lines (update_run i f db) = journal_lines db"
  "account_period_balances (update_run i f db) = account_period_balances db"
  by (simp_all add: update_run_def)

lemma repay_loan_frame:
  "pay_runs (repay_loan U e run x db) = pay_runs db" "payslips (repay_loan U e run x db) = payslips db"
  "accounts (repay_loan U e run x db) = accounts db" "configs (repay_loan U e run x db) = configs db"
  "fiscal_periods (repay_loan U e run x db) = fiscal_periods db"
  "journal_entries (repay_loan U e run x db) = journal_entries db"
  "journal_lines (repay_loan U e run x db) = journal_lines db"
  "account_period_balances (repay_loan U e run x db) = account_period_balances db"
  by (auto simp: repay_loan_def Let_def split: prod.splits option.splits)

lemma fold_keeps:
  assumes "\<And>x d. g (f x d) = g d"
  shows "g (fold f xs d) = g d"
  by (induction xs arbitrary: d) (simp_all add: assms)

lemma repay_loans_frame [simp]:
  "pay_runs (repay_loans U E e run db) = pay_runs db" "payslips (repay_loans U E e run db) = payslips db"
  "accounts (repay_loans U E e run db) = accounts db" "configs (repay_loans U E e run db) = configs db"
  "fiscal_periods (repay_loans U E e run db) = fiscal_periods db"
  "journal_entries (repay_loans U E e run db) = journal_entries db"
  "journal_lines (repay_loans U E e run db) = journal_lines db"
  "account_period_balances (repay_loans U E e run db) = account_period_balances db"
  unfolding repay_loans_def by (rule fold_keeps, rule repay_loan_frame)+

lemma seed_frame:
  fixes db :: "'a payroll_db_scheme"
  assumes "\<And>d i t. g (create_earning_type d i e t None) = g d" "\<And>d i t. g (create_deduction_type d i e t None) = g d"
  shows "g (seed_default_types E db e) = g db"
  by (auto simp: seed_default_types_def Let_def fold_keeps assms case_prod_unfold)

lemma seeded_frame:
  fixes db :: "'a payroll_db_scheme" and E :: environment and C :: calendar and e :: uuid
  defines "db' \<equiv> seed_default_types E (ensure_config_seeded C db e) e"
  shows "pay_runs db' = pay_runs db" "payslips db' = payslips db" "employees db' = employees db"
    "recurring_items db' = recurring_items db" "pay_run_inputs db' = pay_run_inputs db"
    "employee_loans db' = employee_loans db" "statutory_rows db' = statutory_rows (ensure_config_seeded C db e)"
  unfolding db'_def
  by (subst seed_frame, simp add: create_earning_type_def case_prod_unfold,
      simp add: create_deduction_type_def case_prod_unfold, simp add: ensure_config_seeded_def)+

lemma new_payslips_in:
  "s \<in> set (new_payslips L C U E db e run k emps) \<Longrightarrow> \<exists>i. \<exists>emp \<in> set emps. s = new_payslip L C U db e run i emp"
  by (induction emps arbitrary: k) (simp, force)

section \<open>Amounts in cents\<close>

text \<open>
  The amounts payslips are computed from are in cents and no deduction is negative. The
  \<open>NUMERIC(14,2)\<close> columns round recurring items, one-off inputs and loan instalments to cents;
  salaries, allowances and the loans board deduction come from unconstrained columns, and no
  operation rejects a negative amount. So this is no part of the steps: it is a condition under which
  the payslips of a run are sound (\<open>slip_ok\<close>).
\<close>

definition item_ok :: "'a pay_item_scheme \<Rightarrow> bool" where
  "item_ok x \<longleftrightarrow> has_dp 2 (it_amount x) \<and> (it_kind x = ''deduction'' \<longrightarrow> 0 \<le> it_amount x)"

definition amounts_ok :: "'a payroll_db_scheme \<Rightarrow> bool" where
  "amounts_ok db \<longleftrightarrow>
     (\<forall>x \<in> set (employees db). has_dp 2 (ep_basic_salary x) \<and> has_dp 2 (unwrap_or (ep_helb_deduction x) 0)
        \<and> (\<forall>a \<in> set (ep_allowances x). has_dp 2 (al_amount a)))
     \<and> (\<forall>x \<in> set (recurring_items db). item_ok x) \<and> (\<forall>x \<in> set (pay_run_inputs db). item_ok x)
     \<and> (\<forall>l \<in> set (employee_loans db). has_dp 2 (installment l) \<and> has_dp 2 (loan_balance l))
     \<and> (\<forall>r \<in> set (statutory_rows db). case sr_config r of None \<Rightarrow> True | Some c \<Rightarrow> has_dp 2 (sha_minimum c))"

lemma resolve_config_cents: "amounts_ok db \<Longrightarrow> has_dp 2 (sha_minimum (resolve_config db e d))"
proof -
  assume ok: "amounts_ok db"
  let ?rows = "rev (sort_key effective_from
    (filter (\<lambda>r. sr_entity_id r = e \<and> effective_from r \<le> d) (statutory_rows db)))"
  have default: "has_dp 2 (sha_minimum finance_act_2024)" by (simp add: finance_act_2024_def)
  show "has_dp 2 (sha_minimum (resolve_config db e d))"
  proof (cases ?rows)
    case Nil
    then show ?thesis using default by (simp add: resolve_config_def)
  next
    case (Cons r rs)
    have "set ?rows \<subseteq> set (statutory_rows db)" by auto
    with Cons have "r \<in> set (statutory_rows db)" by auto
    with ok Cons default show ?thesis
      by (cases "sr_config r") (auto simp: resolve_config_def amounts_ok_def)
  qed
qed

context decimal_laws
begin

lemma employee_inputs_cents:
  assumes ok: "amounts_ok db" and emp: "emp \<in> set (employees db)"
  shows "inputs_in_cents (employee_inputs L C U db e run w emp)"
    and "\<forall>d \<in> set (pi_deductions (employee_inputs L C U db e run w emp)). 0 \<le> dl_amount d"
proof -
  have emp_ok: "has_dp 2 (ep_basic_salary emp)" "has_dp 2 (unwrap_or (ep_helb_deduction emp) 0)"
    "\<forall>a \<in> set (ep_allowances emp). has_dp 2 (al_amount a)"
    using ok emp by (auto simp: amounts_ok_def)
  have items: "\<forall>x \<in> set (recurring_items db). item_ok x" "\<forall>x \<in> set (pay_run_inputs db). item_ok x"
    and loans: "\<forall>l \<in> set (employee_loans db). has_dp 2 (installment l) \<and> has_dp 2 (loan_balance l)"
    using ok by (auto simp: amounts_ok_def)
  have basic: "has_dp 2 (prorated_basic L C hs a b u emp)" for hs a b u
    using emp_ok(1) by (simp add: prorated_basic_def Let_def)
  have earn: "has_dp 2 (el_amount x)" if "x \<in> set (employee_earnings db e run p emp)" for x p
    using that emp_ok(3) items
    by (auto simp: employee_earnings_def allowance_line_def item_earning_def recurring_for_def inputs_for_def item_ok_def)
  have ded: "has_dp 2 (dl_amount x) \<and> 0 \<le> dl_amount x" if "x \<in> set (employee_deductions U db e run p emp)" for x p
    using that items loans
    by (auto simp: employee_deductions_def item_deduction_def recurring_for_def inputs_for_def item_ok_def
        loan_deduction_def Let_def loans_for_def intro!: has_dp_max_min(2) split: if_splits)
  show "inputs_in_cents (employee_inputs L C U db e run w emp)"
    using basic emp_ok(2) earn ded by (simp add: inputs_in_cents_def employee_inputs_def Let_def)
  show "\<forall>d \<in> set (pi_deductions (employee_inputs L C U db e run w emp)). 0 \<le> dl_amount d"
    using ded by (simp add: employee_inputs_def Let_def)
qed

lemma new_payslip_ok:
  assumes "amounts_ok db" and "emp \<in> set (employees db)"
  shows "slip_ok L (new_payslip L C U db e run i emp)"
proof -
  let ?inp = "employee_inputs L C U db e (pr_id run) (period_window C db e (pr_period_id run) (pr_pay_date run)) emp"
  show ?thesis
    unfolding slip_ok_def
    by (intro conjI exI [of _ "resolve_config db e (pr_pay_date run)"] exI [of _ ?inp]
        employee_inputs_cents [OF assms] resolve_config_cents [OF assms(1)])
      (simp_all add: new_payslip_def slip_row_def employee_slip_def)
qed

end

section \<open>Steps\<close>

text \<open>
  The operations on runs, and any other change of the database that leaves the runs and their
  payslips alone (masters, employees, leave, the ledger): nothing else writes these two tables.
\<close>

inductive payroll_step ::
    "decimal_lib \<Rightarrow> calendar \<Rightarrow> uuid_lib \<Rightarrow> 'a payroll_db_scheme \<Rightarrow> 'a payroll_db_scheme \<Rightarrow> bool"
  for L C U where
  run_created: "run_payroll L C U E db e period pay_date ids = Inr (i, db') \<Longrightarrow>
    uuids E 1 \<notin> pr_id ` set (pay_runs db) \<Longrightarrow> payroll_step L C U db db'"
| run_recomputed: "recompute_pay_run L C U E db e i = Inr db' \<Longrightarrow> payroll_step L C U db db'"
| run_deleted: "delete_draft_pay_run db e i = Inr db' \<Longrightarrow> payroll_step L C U db db'"
| run_approved: "approve_pay_run E db e i by' = Inr db' \<Longrightarrow> payroll_step L C U db db'"
| run_posted: "post_pay_run L C U E db e i by' = Inr (j, db') \<Longrightarrow> payroll_step L C U db db'"
| run_paid: "mark_pay_run_paid db e i = Inr db' \<Longrightarrow> payroll_step L C U db db'"
| elsewhere: "pay_runs db' = pay_runs db \<Longrightarrow> payslips db' = payslips db \<Longrightarrow> payroll_step L C U db db'"

inductive payroll_reachable :: "decimal_lib \<Rightarrow> calendar \<Rightarrow> uuid_lib \<Rightarrow> 'a payroll_db_scheme \<Rightarrow> bool"
  for L C U where
  no_runs: "pay_runs db = [] \<Longrightarrow> payslips db = [] \<Longrightarrow> payroll_reachable L C U db"
| payroll_more: "payroll_reachable L C U db \<Longrightarrow> payroll_step L C U db db' \<Longrightarrow> payroll_reachable L C U db'"

inductive_cases payroll_stepE: "payroll_step L C U db db'"

definition run_kept :: "pay_run \<Rightarrow> bool" where
  "run_kept r \<longleftrightarrow> (pr_journal_entry_id r = None \<longleftrightarrow> pr_status r \<in> {RunDraft, RunApproved})"

definition payroll_inv :: "'a payroll_db_scheme \<Rightarrow> bool" where
  "payroll_inv db \<longleftrightarrow> distinct (map pr_id (pay_runs db))
     \<and> (\<forall>s \<in> set (payslips db). ps_pay_run_id s \<in> pr_id ` set (pay_runs db))
     \<and> (\<forall>r \<in> set (pay_runs db). totals_exact db r \<and> run_kept r)"

lemma find_run_InrD:
  "find_run db e i = Inr r \<Longrightarrow> r \<in> set (pay_runs db) \<and> pr_id r = i \<and> pr_entity_id r = e"
  by (auto simp: find_run_def ok_or_def find_Some_iff split: option.splits)

lemma find_run_unique:
  "payroll_inv db \<Longrightarrow> find_run db e i = Inr run \<Longrightarrow> r \<in> set (pay_runs db) \<Longrightarrow> pr_id r = i \<Longrightarrow> r = run"
  using keyed_eq [of pr_id "pay_runs db" r run] find_run_InrD [of db e i run] by (simp add: payroll_inv_def)

lemma payroll_inv_kept: "payroll_inv db \<Longrightarrow> r \<in> set (pay_runs db) \<Longrightarrow> run_kept r"
  by (simp add: payroll_inv_def)

lemma run_totals_simps [simp]:
  "pr_id (run_totals cs r) = pr_id r" "pr_status (run_totals cs r) = pr_status r"
  "pr_entity_id (run_totals cs r) = pr_entity_id r"
  "pr_journal_entry_id (run_totals cs r) = pr_journal_entry_id r"
  "run_totals cs (run_totals cs' r) = run_totals cs r"
  by (simp_all add: run_totals_def Let_def)

lemma run_totals_status [simp]:
  "run_totals cs (r\<lparr>pr_status := s\<rparr>) = (run_totals cs r)\<lparr>pr_status := s\<rparr>"
  "run_totals cs (r\<lparr>pr_status := s, pr_journal_entry_id := j\<rparr>) = (run_totals cs r)\<lparr>pr_status := s, pr_journal_entry_id := j\<rparr>"
  "run_totals cs (r\<lparr>pr_status := s, pr_approved_by := a, pr_approved_at := b\<rparr>)
    = (run_totals cs r)\<lparr>pr_status := s, pr_approved_by := a, pr_approved_at := b\<rparr>"
  by (simp_all add: run_totals_def Let_def)

lemma totals_exact_frame: "payslips db' = payslips db \<Longrightarrow> totals_exact db' r = totals_exact db r"
  by (simp add: totals_exact_def run_slips_def)

lemma payroll_inv_frame:
  "payroll_inv db \<Longrightarrow> pay_runs db' = pay_runs db \<Longrightarrow> payslips db' = payslips db \<Longrightarrow> payroll_inv db'"
  by (simp add: payroll_inv_def totals_exact_frame [of db' db])

text \<open>A change of one run that keeps its identity and is consistent with its status.\<close>

lemma payroll_inv_update:
  assumes inv: "payroll_inv db" and slips: "payslips db' = payslips db"
    and runs: "pay_runs db' = map (\<lambda>r. if pr_id r = i then f r else r) (pay_runs db)"
    and f: "\<And>r cs. r \<in> set (pay_runs db) \<Longrightarrow> pr_id r = i \<Longrightarrow>
      pr_id (f r) = i \<and> run_kept (f r) \<and> run_totals cs (f r) = f (run_totals cs r)"
  shows "payroll_inv db'"
proof -
  have ids: "map pr_id (pay_runs db') = map pr_id (pay_runs db)"
    using f by (auto simp: runs comp_def intro!: map_cong)
  then have set_ids: "pr_id ` set (pay_runs db') = pr_id ` set (pay_runs db)" by (metis set_map)
  have "totals_exact db' r \<and> run_kept r" if "r \<in> set (pay_runs db')" for r
  proof -
    from that obtain q where q: "q \<in> set (pay_runs db)" "r = (if pr_id q = i then f q else q)"
      by (auto simp: runs)
    with inv have "totals_exact db q" "run_kept q" by (auto simp: payroll_inv_def)
    with q f [OF q(1)] show ?thesis
      by (auto simp: run_slips_frame [OF slips] totals_exact_def)
  qed
  with inv show ?thesis by (simp add: payroll_inv_def ids set_ids slips)
qed

context decimal_laws
begin

text \<open>Payslips computed into a draft run of the database.\<close>

lemma compute_into_run_inv:
  fixes db :: "'a payroll_db_scheme"
  assumes inv: "payroll_inv db" and run: "run \<in> set (pay_runs db)"
  shows "payroll_inv (compute_into_run L C U E db e run emps)"
proof -
  let ?db = "compute_into_run L C U E db e run emps"
  define slips where "slips = new_payslips L C U E db e run 1 emps"
  have db: "pay_runs ?db = map (\<lambda>r. if pr_id r = pr_id run then run_totals (map ps_slip slips) r else r) (pay_runs db)"
    "payslips ?db = filter (\<lambda>s. ps_pay_run_id s \<noteq> pr_id run) (payslips db) @ slips"
    by (simp_all add: compute_into_run_def store_payslips_def slips_def)
  have slips: "ps_pay_run_id s = pr_id run" if mem: "s \<in> set slips" for s
    using new_payslips_in [OF mem [unfolded slips_def]] by (auto simp: new_payslip_def slip_row_def)
  have here: "run_slips ?db (pr_id run) = slips"
    using slips by (auto simp: run_slips_def db filter_empty_conv intro: filter_True)
  have other: "run_slips ?db i = run_slips db i" if "i \<noteq> pr_id run" for i
    using slips that by (auto simp: run_slips_def db filter_empty_conv intro!: filter_cong)
  have ids: "map pr_id (pay_runs ?db) = map pr_id (pay_runs db)" by (auto simp: db comp_def)
  then have set_ids: "pr_id ` set (pay_runs ?db) = pr_id ` set (pay_runs db)" by (metis set_map)
  have runs: "totals_exact ?db r \<and> run_kept r" if "r \<in> set (pay_runs ?db)" for r
  proof -
    from that obtain q where q: "q \<in> set (pay_runs db)"
      "r = (if pr_id q = pr_id run then run_totals (map ps_slip slips) q else q)"
      by (auto simp: db)
    with inv have "totals_exact db q" "run_kept q" by (auto simp: payroll_inv_def)
    with q show ?thesis by (cases "pr_id q = pr_id run") (auto simp: totals_exact_def here other run_kept_def)
  qed
  have "ps_pay_run_id s \<in> pr_id ` set (pay_runs db)" if "s \<in> set (payslips ?db)" for s
    using that inv slips run by (auto simp: db payroll_inv_def)
  with runs inv show ?thesis by (simp add: payroll_inv_def ids set_ids)
qed

lemma run_payroll_inv:
  fixes db :: "'a payroll_db_scheme"
  assumes call: "run_payroll L C U E db e period pay_date ids = Inr (i, db')"
    and fresh: "uuids E 1 \<notin> pr_id ` set (pay_runs db)" and inv: "payroll_inv db"
  shows "payroll_inv db'"
proof -
  define emps where "emps = filter (\<lambda>x. ep_entity_id x = e \<and> ep_is_active x
    \<and> (case ids of None \<Rightarrow> True | Some is \<Rightarrow> ep_id x \<in> set is)) (employees db)"
  define db1 where "db1 = seed_default_types (evens E) (ensure_config_seeded C db e) e"
  define run :: pay_run where "run = new_run (uuids E 1) e period pay_date"
  define db2 where "db2 = db1\<lparr>pay_runs := pay_runs db1 @ [run]\<rparr>"
  have db': "db' = compute_into_run L C U (odds E) db2 e run emps"
    using call by (auto simp: run_payroll_def Let_def start_run_def emps_def db1_def run_def db2_def split: if_splits)
  note seeded = seeded_frame [where db = db and C = C and E = "evens E" and e = e, folded db1_def]
  have "payroll_inv db2"
  proof -
    have none: "run_slips db (uuids E 1) = []"
      using inv fresh by (force simp: run_slips_def filter_empty_conv payroll_inv_def)
    have slips: "payslips db2 = payslips db" by (simp add: db2_def seeded)
    have "totals_exact db2 run"
      using none by (simp add: totals_exact_def run_slips_frame [OF slips] run_def new_run_def run_totals_def)
    moreover have "run_kept run" by (simp add: run_kept_def run_def new_run_def)
    moreover have "pr_id run = uuids E 1" by (simp add: run_def new_run_def)
    moreover have "pay_runs db2 = pay_runs db @ [run]" by (simp add: db2_def seeded)
    ultimately show ?thesis
      using inv fresh slips totals_exact_frame [OF slips] by (auto simp: payroll_inv_def)
  qed
  moreover have "run \<in> set (pay_runs db2)" by (simp add: db2_def)
  ultimately show ?thesis unfolding db' by (intro compute_into_run_inv)
qed

lemma payroll_step_inv:
  "payroll_step L C U db db' \<Longrightarrow> payroll_inv db \<Longrightarrow> payroll_inv db'"
proof (induction rule: payroll_step.induct)
  case (run_created E db e period pay_date ids i db')
  then show ?case by (auto intro: run_payroll_inv)
next
  case (run_recomputed E db e i db')
  then obtain run where "find_run db e i = Inr run" "db' = compute_into_run L C U E db e run
      (filter (\<lambda>x. ep_entity_id x = e \<and> ep_id x \<in> set (map ps_employee_id (filter (\<lambda>s. ps_pay_run_id s = i) (payslips db))))
        (employees db))"
    by (auto simp: recompute_pay_run_def Let_def split: if_splits)
  with run_recomputed find_run_InrD [of db e i run] show ?case by (auto intro!: compute_into_run_inv)
next
  case (run_deleted db e i db')
  then obtain run where run: "find_run db e i = Inr run"
    and runs: "pay_runs db' = filter (\<lambda>r. \<not> (pr_id r = i \<and> pr_entity_id r = e)) (pay_runs db)"
    and slips: "payslips db' = filter (\<lambda>s. ps_pay_run_id s \<noteq> i) (payslips db)"
    by (auto simp: delete_draft_pay_run_def split: if_splits)
  have keys: "distinct (map pr_id (pay_runs db))" using run_deleted by (simp add: payroll_inv_def)
  have runs: "pay_runs db' = filter (\<lambda>r. pr_id r \<noteq> i) (pay_runs db)"
    unfolding runs
    by (rule filter_cong [OF refl]) (use find_run_InrD [OF run] keyed_eq [OF keys, of _ run] in auto)
  have "totals_exact db' r = totals_exact db r" if "pr_id r \<noteq> i" for r
    using that by (auto simp: totals_exact_def run_slips_def slips conj_commute intro!: arg_cong [where f = "\<lambda>x. run_totals (map ps_slip x) r = r"] filter_cong)
  with run_deleted keys show ?case
    by (auto simp: payroll_inv_def runs slips distinct_map inj_on_def)
next
  case (run_approved E db e i by' db')
  then obtain run where run: "find_run db e i = Inr run" "pr_status run = RunDraft"
    and db': "db' = update_run i (\<lambda>r. r\<lparr>pr_status := RunApproved, pr_approved_by := Some by', pr_approved_at := Some (now E)\<rparr>) db"
    by (auto simp: approve_pay_run_def split: if_splits)
  show ?case
  proof (rule payroll_inv_update [OF run_approved(2), where i = i and f = "\<lambda>r. r\<lparr>pr_status := RunApproved, pr_approved_by := Some by', pr_approved_at := Some (now E)\<rparr>"])
    fix r cs assume r: "r \<in> set (pay_runs db)" "pr_id r = i"
    with find_run_unique [OF run_approved(2) run(1)] have "r = run" by blast
    with r run(2) payroll_inv_kept [OF run_approved(2) r(1)]
    show "pr_id ((\<lambda>r. r\<lparr>pr_status := RunApproved, pr_approved_by := Some by', pr_approved_at := Some (now E)\<rparr>) r) = i \<and> run_kept ((\<lambda>r. r\<lparr>pr_status := RunApproved, pr_approved_by := Some by', pr_approved_at := Some (now E)\<rparr>) r) \<and> run_totals cs ((\<lambda>r. r\<lparr>pr_status := RunApproved, pr_approved_by := Some by', pr_approved_at := Some (now E)\<rparr>) r) = (\<lambda>r. r\<lparr>pr_status := RunApproved, pr_approved_by := Some by', pr_approved_at := Some (now E)\<rparr>) (run_totals cs r)"
      by (simp add: run_kept_def)
  qed (simp_all add: db')
next
  case (run_posted E db e i by' j db')
  then obtain run en db1 p where run: "find_run db e i = Inr run"
    and post: "create_and_post L C (evens E) db e (payroll_request L db e run) p by' = Inr (en, db1)"
    and db': "db' = repay_loans U (odds E) e i
        (update_run i (\<lambda>r. r\<lparr>pr_status := RunPosted, pr_journal_entry_id := Some (en_id en)\<rparr>) db1)"
    by (auto simp: post_pay_run_def split: if_splits)
  have "ledger_db.more db1 = ledger_db.more db"
    using post posting.post_frame(4) by (auto simp: create_and_post_def)
  note frame = payroll_frame [OF this]
  show ?case
    by (rule payroll_inv_update [OF run_posted(2), where i = i and
          f = "\<lambda>r. r\<lparr>pr_status := RunPosted, pr_journal_entry_id := Some (en_id en)\<rparr>"])
      (simp_all add: db' frame run_kept_def)
next
  case (run_paid db e i db')
  then obtain run where run: "find_run db e i = Inr run" "pr_status run = RunPosted"
    and db': "db' = update_run i (\<lambda>r. r\<lparr>pr_status := RunPaid\<rparr>) db"
    by (auto simp: mark_pay_run_paid_def split: if_splits)
  show ?case
  proof (rule payroll_inv_update [OF run_paid(2), where i = i and f = "\<lambda>r. r\<lparr>pr_status := RunPaid\<rparr>"])
    fix r cs assume r: "r \<in> set (pay_runs db)" "pr_id r = i"
    with find_run_unique [OF run_paid(2) run(1)] have "r = run" by blast
    with r run(2) payroll_inv_kept [OF run_paid(2) r(1)]
    show "pr_id ((\<lambda>r. r\<lparr>pr_status := RunPaid\<rparr>) r) = i \<and> run_kept ((\<lambda>r. r\<lparr>pr_status := RunPaid\<rparr>) r) \<and> run_totals cs ((\<lambda>r. r\<lparr>pr_status := RunPaid\<rparr>) r) = (\<lambda>r. r\<lparr>pr_status := RunPaid\<rparr>) (run_totals cs r)"
      by (simp add: run_kept_def)
  qed (simp_all add: db')
next
  case (elsewhere db' db)
  then show ?case by (auto intro: payroll_inv_frame)
qed

lemma reachable_payroll_inv: "payroll_reachable L C U db \<Longrightarrow> payroll_inv db"
proof (induction rule: payroll_reachable.induct)
  case (no_runs db)
  then show ?case by (simp add: payroll_inv_def)
next
  case (payroll_more db db')
  then show ?case by (blast intro: payroll_step_inv)
qed

end

section \<open>Runs that have left the draft state\<close>

fun run_rank :: "pay_run_status \<Rightarrow> nat" where
  "run_rank RunDraft = 0"
| "run_rank RunApproved = 1"
| "run_rank RunPosted = 2"
| "run_rank RunPaid = 3"

text \<open>The same run further in its life: only the status and the journal entry may have moved.\<close>

definition run_advanced :: "pay_run \<Rightarrow> pay_run \<Rightarrow> bool" where
  "run_advanced r r' \<longleftrightarrow> r' = r\<lparr>pr_status := pr_status r', pr_journal_entry_id := pr_journal_entry_id r'\<rparr>
     \<and> run_rank (pr_status r) \<le> run_rank (pr_status r')
     \<and> (pr_journal_entry_id r \<noteq> None \<longrightarrow> pr_journal_entry_id r' = pr_journal_entry_id r)"

lemma run_advanced_refl [simp]: "run_advanced r r" by (simp add: run_advanced_def)

lemma run_advanced_trans: "run_advanced r s \<Longrightarrow> run_advanced s t \<Longrightarrow> run_advanced r t"
  by (cases r; cases s; cases t) (auto simp: run_advanced_def)

lemma run_advanced_id: "run_advanced r r' \<Longrightarrow> pr_id r' = pr_id r \<and> run_rank (pr_status r) \<le> run_rank (pr_status r')"
  by (cases r; cases r') (auto simp: run_advanced_def)

lemma not_draft_rank: "s \<noteq> RunDraft \<longleftrightarrow> 1 \<le> run_rank s"
  by (cases s) auto

lemma compute_into_run_other:
  assumes "i \<noteq> pr_id run"
  shows "run_slips (compute_into_run L C U E db e run emps) i = run_slips db i"
    and "r \<in> set (pay_runs db) \<Longrightarrow> pr_id r = i \<Longrightarrow> r \<in> set (pay_runs (compute_into_run L C U E db e run emps))"
proof -
  have "filter (\<lambda>s. ps_pay_run_id s = i) (new_payslips L C U E db e run k emps) = []" for k
    using assms by (auto simp: filter_empty_conv new_payslip_def slip_row_def dest!: new_payslips_in)
  then show "run_slips (compute_into_run L C U E db e run emps) i = run_slips db i"
    using assms by (auto simp: compute_into_run_def store_payslips_def run_slips_def intro!: filter_cong)
  show "r \<in> set (pay_runs db) \<Longrightarrow> pr_id r = i \<Longrightarrow> r \<in> set (pay_runs (compute_into_run L C U E db e run emps))"
    using assms by (auto simp: compute_into_run_def store_payslips_def)
qed

definition run_frozen :: "'a payroll_db_scheme \<Rightarrow> 'a payroll_db_scheme \<Rightarrow> pay_run \<Rightarrow> bool" where
  "run_frozen db db' r \<longleftrightarrow> run_slips db' (pr_id r) = run_slips db (pr_id r)
     \<and> (\<exists>r' \<in> set (pay_runs db'). run_advanced r r')"

lemma run_frozen_update:
  assumes "payslips db' = payslips db" and "pay_runs db' = map (\<lambda>r. if pr_id r = i then f r else r) (pay_runs db)"
    and "r \<in> set (pay_runs db)" and "pr_id r = i \<Longrightarrow> run_advanced r (f r)"
  shows "run_frozen db db' r"
proof -
  have "(if pr_id r = i then f r else r) \<in> set (pay_runs db')"
    using assms(3) unfolding assms(2) set_map by blast
  moreover have "run_advanced r (if pr_id r = i then f r else r)" using assms(4) by simp
  ultimately show ?thesis by (auto simp: run_frozen_def run_slips_frame [OF assms(1)])
qed

lemma step_freezes:
  fixes db db' :: "'a payroll_db_scheme"
  assumes "payroll_step L C U db db'" and inv: "payroll_inv db" and r: "r \<in> set (pay_runs db)" "pr_status r \<noteq> RunDraft"
  shows "run_frozen db db' r"
  using assms(1)
proof cases
  case (run_created E e period pay_date ids i)
  define db1 where "db1 = seed_default_types (evens E) (ensure_config_seeded C db e) e"
  define run :: pay_run where "run = new_run (uuids E 1) e period pay_date"
  obtain emps where db': "db' = compute_into_run L C U (odds E) (db1\<lparr>pay_runs := pay_runs db1 @ [run]\<rparr>) e run emps"
    using run_created(1) by (auto simp: run_payroll_def Let_def start_run_def db1_def run_def split: if_splits)
  note seeded = seeded_frame [where db = db and C = C and E = "evens E" and e = e, folded db1_def]
  have "pr_id r \<noteq> pr_id run" using run_created(2) r(1) by (force simp: run_def new_run_def)
  note other = compute_into_run_other [OF this, where L = L and C = C and U = U and E = "odds E" and db = "db1\<lparr>pay_runs := pay_runs db1 @ [run]\<rparr>" and e = e and emps = emps]
  have "run_slips (db1\<lparr>pay_runs := pay_runs db1 @ [run]\<rparr>) (pr_id r) = run_slips db (pr_id r)"
    by (rule run_slips_frame) (simp add: seeded)
  with other r(1) show ?thesis by (auto simp: run_frozen_def db' seeded intro!: bexI [of _ r])
next
  case (run_recomputed E e i)
  then obtain run emps where run: "find_run db e i = Inr run" "pr_status run = RunDraft"
    and db': "db' = compute_into_run L C U E db e run emps"
    by (auto simp: recompute_pay_run_def Let_def split: if_splits)
  have "pr_id r \<noteq> pr_id run"
    using find_run_unique [OF inv run(1) r(1)] find_run_InrD [OF run(1)] run(2) r(2) by auto
  from compute_into_run_other(1) [OF this] compute_into_run_other(2) [OF this r(1) refl]
  show ?thesis by (auto simp: run_frozen_def db' intro!: bexI [of _ r])
next
  case (run_deleted e i)
  then obtain run where run: "find_run db e i = Inr run" "pr_status run = RunDraft"
    and db': "pay_runs db' = filter (\<lambda>r. \<not> (pr_id r = i \<and> pr_entity_id r = e)) (pay_runs db)"
      "payslips db' = filter (\<lambda>s. ps_pay_run_id s \<noteq> i) (payslips db)"
    by (auto simp: delete_draft_pay_run_def split: if_splits)
  have "pr_id r \<noteq> i" using find_run_unique [OF inv run(1) r(1)] run(2) r(2) by auto
  then show ?thesis
    using r(1) by (auto simp: run_frozen_def db' run_slips_def intro!: bexI [of _ r] filter_cong)
next
  case (run_approved E e i by')
  then obtain run where run: "find_run db e i = Inr run" "pr_status run = RunDraft"
    and db': "db' = update_run i (\<lambda>r. r\<lparr>pr_status := RunApproved, pr_approved_by := Some by', pr_approved_at := Some (now E)\<rparr>) db"
    by (auto simp: approve_pay_run_def split: if_splits)
  have "pr_id r \<noteq> i" using find_run_unique [OF inv run(1) r(1)] run(2) r(2) by auto
  then show ?thesis
    by (intro run_frozen_update [OF _ _ r(1), where i = i and f = "\<lambda>r. r\<lparr>pr_status := RunApproved,
        pr_approved_by := Some by', pr_approved_at := Some (now E)\<rparr>"]) (simp_all add: db')
next
  case (run_posted E e i by' j)
  then obtain run en db1 p where run: "find_run db e i = Inr run" "pr_status run = RunApproved"
    and post: "create_and_post L C (evens E) db e (payroll_request L db e run) p by' = Inr (en, db1)"
    and db': "db' = repay_loans U (odds E) e i
        (update_run i (\<lambda>r. r\<lparr>pr_status := RunPosted, pr_journal_entry_id := Some (en_id en)\<rparr>) db1)"
    by (auto simp: post_pay_run_def split: if_splits)
  have "ledger_db.more db1 = ledger_db.more db"
    using post posting.post_frame(4) by (auto simp: create_and_post_def)
  note frame = payroll_frame [OF this]
  show ?thesis
  proof (rule run_frozen_update [OF _ _ r(1)])
    show "pay_runs db' = map (\<lambda>r. if pr_id r = i then r\<lparr>pr_status := RunPosted, pr_journal_entry_id := Some (en_id en)\<rparr> else r) (pay_runs db)"
      by (simp add: db' frame)
    assume "pr_id r = i"
    with find_run_unique [OF inv run(1) r(1)] run(2) payroll_inv_kept [OF inv r(1)]
    show "run_advanced r (r\<lparr>pr_status := RunPosted, pr_journal_entry_id := Some (en_id en)\<rparr>)"
      by (simp add: run_advanced_def run_kept_def)
  qed (simp add: db' frame)
next
  case (run_paid e i)
  then obtain run where run: "find_run db e i = Inr run" "pr_status run = RunPosted"
    and db': "db' = update_run i (\<lambda>r. r\<lparr>pr_status := RunPaid\<rparr>) db"
    by (auto simp: mark_pay_run_paid_def split: if_splits)
  show ?thesis
  proof (rule run_frozen_update [OF _ _ r(1)])
    assume "pr_id r = i"
    with find_run_unique [OF inv run(1) r(1)] run(2) show "run_advanced r (r\<lparr>pr_status := RunPaid\<rparr>)"
      by (simp add: run_advanced_def)
  qed (simp_all add: db')
next
  case elsewhere
  with r(1) run_slips_frame [OF elsewhere(2), of "pr_id r"] show ?thesis
    by (simp add: run_frozen_def) (blast intro: run_advanced_refl)
qed

section \<open>Posting an approved run\<close>

lemma compute_into_run_ledger [simp]:
  "accounts (store_payslips run slips db) = accounts db" "configs (store_payslips run slips db) = configs db"
  "fiscal_periods (store_payslips run slips db) = fiscal_periods db"
  "journal_counter (store_payslips run slips db) = journal_counter db"
  "journal_entries (store_payslips run slips db) = journal_entries db"
  "journal_lines (store_payslips run slips db) = journal_lines db"
  "account_period_balances (store_payslips run slips db) = account_period_balances db"
  "deduction_types (store_payslips run slips db) = deduction_types db"
  by (simp_all add: store_payslips_def update_run_def)

lemma payroll_request_accounts:
  "rl_account ` set (rq_lines (payroll_request L db e run)) \<subseteq>
     {salaries_expense (posting (configs db e)), nssf_employer_expense (posting (configs db e)),
      housing_levy_employer_expense (posting (configs db e)), paye_payable (posting (configs db e)),
      nssf_payable (posting (configs db e)), sha_payable (posting (configs db e)),
      helb_payable (posting (configs db e)), housing_levy_payable (posting (configs db e)),
      net_pay_payable (posting (configs db e))} \<union> range (deduction_account (posting (configs db e)) db e)"
proof -
  have a: "rl_account ` set (salary_lines ccy P db run) \<subseteq> {salaries_expense P}" for ccy P
    by (auto simp: salary_lines_def Let_def salary_line_def)
  have b: "rl_account ` set (statutory_lines L ccy P run) \<subseteq> {nssf_employer_expense P,
      housing_levy_employer_expense P, paye_payable P, nssf_payable P, sha_payable P,
      helb_payable P, housing_levy_payable P, net_pay_payable P}" for ccy P
    by (auto simp: statutory_lines_def)
  have c: "rl_account ` set (deduction_lines ccy P db e i) \<subseteq> range (deduction_account P db e)" for ccy P i
    by (auto simp: deduction_lines_def Let_def)
  show ?thesis
    unfolding payroll_request_def Let_def journal_entry_request.simps set_append image_Un
    by (intro Un_least order_trans [OF a] order_trans [OF b] order_trans [OF c]) auto
qed

lemma find_run_present:
  "payroll_inv db \<Longrightarrow> run \<in> set (pay_runs db) \<Longrightarrow> find_run db (pr_entity_id run) (pr_id run) = Inr run"
proof -
  assume inv: "payroll_inv db" and run: "run \<in> set (pay_runs db)"
  obtain r where r: "List.find (\<lambda>r. pr_id r = pr_id run \<and> pr_entity_id r = pr_entity_id run) (pay_runs db) = Some r"
    using run by (cases "List.find (\<lambda>r. pr_id r = pr_id run \<and> pr_entity_id r = pr_entity_id run) (pay_runs db)")
      (auto simp: find_None_iff)
  then have "find_run db (pr_entity_id run) (pr_id run) = Inr r" by (simp add: find_run_def ok_or_def)
  with find_run_unique [OF inv this run] show ?thesis by simp
qed

context decimal_laws
begin

lemma run_request_balanced:
  assumes inv: "payroll_inv db" and run: "run \<in> set (pay_runs db)"
    and ok: "\<forall>s \<in> set (run_slips db (pr_id run)). slip_ok L s"
  shows "request_debits L (rq_lines (payroll_request L db e run)) = request_credits L (rq_lines (payroll_request L db e run))"
    and "request_debits L (rq_lines (payroll_request L db e run))
      = total_gross run + div_dec L (total_nssf run) 2 + div_dec L (total_housing_levy run) 2"
  by (rule payroll_request_balanced [OF ok]; use inv run in \<open>simp add: payroll_inv_def\<close>)+

lemma post_pay_run_succeeds:
  assumes inv: "payroll_inv db" and ledger: "ledger_inv db"
    and run: "run \<in> set (pay_runs db)" "pr_status run = RunApproved"
    and ok: "\<forall>s \<in> set (run_slips db (pr_id run)). slip_ok L s"
    and period: "period_for_date db (pr_entity_id run) (pr_pay_date run) = Inr p" "parsed_status p = Open"
    and ready: "post_ready C (evens E) db (pr_entity_id run) (payroll_request L db (pr_entity_id run) run) (fp_id p)"
  shows "\<exists>j db'. post_pay_run L C U E db (pr_entity_id run) (pr_id run) by' = Inr (j, db')"
proof -
  have "\<exists>en db'. create_and_post_in_tx L C (evens E) db (pr_entity_id run)
      (payroll_request L db (pr_entity_id run) run) (fp_id p) by' = Inr (en, db')"
    by (rule posting_succeeds [OF ledger_invD(1) [OF ledger] ready])
      (simp add: run_request_balanced(1) [OF inv run(1) ok] ROUNDING_TOLERANCE_def)
  then obtain en db' where "create_and_post_in_tx L C (evens E) db (pr_entity_id run)
      (payroll_request L db (pr_entity_id run) run) (fp_id p) by' = Inr (en, db')"
    by blast
  with find_run_present [OF inv run(1)] run(2) period show ?thesis
    by (simp add: post_pay_run_def create_and_post_def)
qed

end

end
