(* ===== verification/Payroll_Properties.thy ===== *)
theory Payroll_Properties
  imports Payroll_Life Samples
begin

text \<open>
  The properties of payroll, and the sample tenant they are applied to.
\<close>

section \<open>The tax table\<close>

text \<open>
  C22: PAYE is progressive. For a well-formed band table the loop over the bands computes, for
  every income, the sum over the bands of the part of the income inside the band times the band's
  rate; the tax is never negative, never falls when the income rises, and rises by at most the top
  rate on the difference, so that no raise lowers what is left after tax.
\<close>

theorem paye_is_progressive:
  assumes "bands_ok 0 (paye_bands cfg)" and "0 \<le> x" and "x \<le> y"
  shows "compute_paye cfg x = marginal_tax 0 (paye_bands cfg) x
    \<and> 0 \<le> compute_paye cfg x \<and> compute_paye cfg x \<le> compute_paye cfg y
    \<and> compute_paye cfg y - compute_paye cfg x \<le> top_rate (paye_bands cfg) * (y - x)"
  using compute_paye_marginal [OF assms(1)] marginal_tax_nonneg [OF assms(1), of x]
    marginal_tax_slope [OF assms(1,3) order_refl] assms(2,3)
  by (simp add: max_absorb2)

theorem paye_is_progressive_witness:
  "compute_paye finance_act_2024 50000 = 978335 / 100 \<and> compute_paye finance_act_2024 100000 \<ge> 978335 / 100"
proof -
  have ok: "bands_ok 0 (paye_bands finance_act_2024)" by (simp add: finance_act_2024_def band_def)
  have "compute_paye finance_act_2024 50000 = 978335 / 100"
    by (simp add: compute_paye_def finance_act_2024_def band_def Let_def)
  then show ?thesis using paye_is_progressive [OF ok, of 50000 100000] by simp
qed

section \<open>Payslips\<close>

text \<open>
  C21: a payslip adds up to the cent. When its inputs are in cents, the gross pay is the basic pay
  and the earnings, every deduction is on the slip, and gross pay is what is paid out plus what is
  withheld; no tax is refunded.
\<close>

theorem payslip_adds_up:
  assumes "decimal_laws L" and "inputs_in_cents inp" and "has_dp 2 (sha_minimum cfg)"
  shows "let p = compute_payslip L cfg inp in
      cs_gross p = pi_basic_salary inp + sum_list (map el_amount (pi_earnings inp))
      \<and> cs_total_deductions p = cs_net_paye p + cs_nssf_employee p + cs_sha p + cs_housing_employee p
          + cs_helb p + sum_list (map dl_amount (pi_deductions inp))
      \<and> cs_gross p = cs_net_salary p + cs_total_deductions p \<and> 0 \<le> cs_net_paye p"
  using decimal_laws.slip_adds_up [OF assms] decimal_laws.slip_amounts [OF assms(1), of cfg inp]
    decimal_laws.round_dp_exact [OF assms(1)]
  by (simp add: Let_def slip_other_deductions_def sum_all)

definition sample_inputs :: payroll_inputs where
  "sample_inputs = \<lparr>pi_basic_salary = 100000, pi_earnings = [standard_earning ''Housing'' 20000 True],
     pi_deductions = [\<lparr>dl_code = None, dl_name = ''Sacco'', dl_amount = 5000, pre_tax = False, dl_category = ''welfare''\<rparr>],
     pi_helb = 0, pi_personal_relief = 2400, pi_insurance_relief = 0, pi_disability_exemption = False\<rparr>"

theorem payslip_adds_up_witness:
  "(let p = compute_payslip std_decimal finance_act_2024 sample_inputs in
     cs_gross p = cs_net_salary p + cs_total_deductions p)"
proof -
  have "inputs_in_cents sample_inputs" "has_dp 2 (sha_minimum finance_act_2024)"
    by (simp_all add: sample_inputs_def inputs_in_cents_def standard_earning_def finance_act_2024_def)
  from payslip_adds_up [OF std.decimal_laws_axioms this] show ?thesis unfolding Let_def by (elim conjE)
qed

text \<open>What both computations accept: a basic pay and the total of ordinary allowances.\<close>

definition plain_inputs :: "decimal \<Rightarrow> decimal \<Rightarrow> decimal \<Rightarrow> decimal \<Rightarrow> bool \<Rightarrow> payroll_inputs" where
  "plain_inputs basic allowances helb relief disability =
     \<lparr>pi_basic_salary = basic, pi_earnings = [standard_earning ''Allowances'' allowances True],
      pi_deductions = [], pi_helb = helb, pi_personal_relief = relief, pi_insurance_relief = 0,
      pi_disability_exemption = disability\<rparr>"

text \<open>
  The two payslip computations agree. For an employee with a basic pay and ordinary
  allowances only, the itemised payslip of a pay run and the classic payslip of the tax report
  have the same gross pay, NSSF, health, housing and gross tax; the net tax differs only by the
  rounding of the itemised one to whole shillings.
\<close>

theorem payslip_copies_agree:
  assumes laws: "decimal_laws L" and cents: "has_dp 2 basic" "has_dp 2 allowances" and relief: "0 \<le> insurance_relief_cap cfg"
  shows "let s = compute_payslip L cfg (plain_inputs basic allowances helb relief disability);
      d = compute_payslip_deductions_cfg L cfg basic allowances helb relief disability in
    cs_gross s = pd_gross_salary d \<and> cs_nssf_employee s = pd_nssf_employee d \<and> cs_sha s = pd_sha d
    \<and> cs_housing_employee s = pd_housing_employee d \<and> cs_paye s = round_dp L (pd_paye d) 2
    \<and> \<bar>cs_net_paye s - pd_net_paye d\<bar> \<le> 1 / 2"
proof -
  define inp where "inp = plain_inputs basic allowances helb relief disability"
  note inp_def = inp_def [unfolded plain_inputs_def]
  define d where "d = compute_payslip_deductions_cfg L cfg basic allowances helb relief disability"
  have base: "earnings_base (\<lambda>_. True) inp = basic + allowances" "earnings_base pensionable inp = basic + allowances"
    "earnings_base affects_shif inp = basic + allowances" "earnings_base taxable inp = basic + allowances"
    by (simp_all add: earnings_base_def all_earnings_def standard_earning_def inp_def)
  have tax: "compute_paye cfg (max x 0) = compute_paye cfg x" for x
    using compute_paye_nonpos [of x cfg] compute_paye_nonpos [of 0 cfg] by (simp add: max_def)
  have paye: "compute_paye cfg (slip_taxable L cfg inp) = pd_paye d"
    by (simp add: slip_taxable_def Let_def tax base slip_nssf_def slip_housing_def d_def
        compute_payslip_deductions_cfg_def) (simp add: inp_def)
  have "slip_insurance_relief cfg inp = 0" using relief by (simp add: slip_insurance_relief_def inp_def)
  then have net: "slip_net_paye L cfg inp = round_dp_with_strategy L (pd_net_paye d) 0 MidpointAwayFromZero"
    using paye by (simp add: slip_net_paye_def d_def compute_payslip_deductions_cfg_def Let_def) (simp add: inp_def)
  have "\<bar>cs_net_paye (compute_payslip L cfg inp) - pd_net_paye d\<bar> \<le> 1 / 2"
    using decimal_laws.round_near [OF laws, of "pd_net_paye d" 0 MidpointAwayFromZero]
      decimal_laws.round_dp_exact [OF laws decimal_laws.slip_amounts(4) [OF laws, of cfg inp]]
    by (simp add: net)
  moreover have "cs_gross (compute_payslip L cfg inp) = pd_gross_salary d"
    using decimal_laws.round_dp_exact [OF laws, of 2 "basic + allowances"] cents
    by (simp add: base d_def compute_payslip_deductions_cfg_def Let_def has_dp_closed)
  ultimately show ?thesis
    unfolding Let_def plain_inputs_def inp_def [symmetric] d_def [symmetric]
    using paye by (simp add: base slip_nssf_def slip_sha_def slip_housing_def d_def compute_payslip_deductions_cfg_def Let_def)
qed

theorem payslip_copies_agree_witness:
  "\<bar>cs_net_paye (compute_payslip std_decimal finance_act_2024 (plain_inputs 100000 0 0 2400 False))
    - pd_net_paye (compute_payslip_deductions_cfg std_decimal finance_act_2024 100000 0 0 2400 False)\<bar> \<le> 1 / 2"
proof -
  have "0 \<le> insurance_relief_cap finance_act_2024" by (simp add: finance_act_2024_def)
  from payslip_copies_agree [OF std.decimal_laws_axioms _ _ this, of 100000 0 0 2400 False]
  show ?thesis by (simp add: Let_def)
qed

section \<open>A tenant with two employees\<close>

definition sample_uuids :: uuid_lib where
  "sample_uuids = \<lparr>uuid_to_string = show_int, uuid_parse_str = (\<lambda>_. None)\<rparr>"

definition pay_employee :: "uuid \<Rightarrow> decimal \<Rightarrow> employee" where
  "pay_employee i salary =
     \<lparr>ep_id = i, ep_entity_id = 1, ep_staff_number = ''S'', ep_full_name = ''A'', ep_kra_pin = ''P'',
      ep_helb_deduction = None, ep_basic_salary = salary, ep_allowances = [], ep_tax_relief = 2400,
      ep_disability_exemption = False, ep_start_date = 735000, ep_end_date = None, ep_is_active = True,
      ep_department_id = None, ep_approver_user_id = None\<rparr>"

definition pay_start :: payroll_db where
  "pay_start = \<lparr>accounts = map (\<lambda>c. sample_account c ''Expense'' False)
       [''7010'', ''7020'', ''7030'', ''3310'', ''3320'', ''3330'', ''3340'', ''3350'', ''3400''],
     configs = default_config, fiscal_periods = [sample_period 1 739252 739282 ''open''],
     journal_counter = (\<lambda>_. Some 1), journal_entries = [], journal_lines = [], account_period_balances = [],
     employees = [pay_employee 7 50000, pay_employee 8 20000],
     leave_types = [], leave_requests = [], leave_balances = [], holidays = [],
     pay_runs = [], payslips = [],
     recurring_items = [\<lparr>it_id = 1, it_entity_id = 1, it_employee_id = 7, it_kind = ''deduction'', it_type_code = None,
       it_name = ''Sacco'', it_amount = 1000, it_taxable_override = None, it_start_date = 735000, it_end_date = None,
       it_active = True\<rparr>],
     pay_run_inputs = [], employee_loans = [], loan_repayments = [], 
     earning_types = [\<lparr>pt_id = 1, pt_entity_id = 1, pt_code = ''BONUS'', pt_name = ''Bonus'', pt_gl_account_code = None,
       pt_active = True, et_taxable = True, et_pensionable = True, et_affects_shif = True\<rparr>],
     deduction_types = [\<lparr>pt_id = 2, pt_entity_id = 1, pt_code = ''SACCO'', pt_name = ''Sacco'', pt_gl_account_code = None,
       pt_active = True, dt_category = ''welfare'', dt_pre_tax = False\<rparr>],
     departments = [],
     statutory_rows = [\<lparr>sr_entity_id = 1, effective_from = 739000, sr_config = Some finance_act_2024\<rparr>]\<rparr>"

definition pay_run_1 :: pay_run where
  "pay_run_1 = new_run 1001 1 1 739281"

definition pay_created :: payroll_db where
  "pay_created = start_run std_decimal gregorian sample_uuids sample_env pay_start 1 pay_run_1
     [pay_employee 7 50000, pay_employee 8 20000]"

definition pay_approved :: payroll_db where
  "pay_approved = update_run 1001 (\<lambda>r. r\<lparr>pr_status := RunApproved, pr_approved_by := Some (User 9),
     pr_approved_at := Some 0\<rparr>) pay_created"

lemma pay_created_call:
  "run_payroll std_decimal gregorian sample_uuids sample_env pay_start 1 1 739281 None = Inr (1001, pay_created)"
proof -
  have "seed_default_types (evens sample_env) (ensure_config_seeded gregorian pay_start 1) 1 = pay_start"
    by (simp add: seed_default_types_def ensure_config_seeded_def pay_start_def)
  moreover have "employees pay_start = [pay_employee 7 50000, pay_employee 8 20000]" "pay_runs pay_start = []"
    by (simp_all add: pay_start_def)
  ultimately show ?thesis
    by (simp add: run_payroll_def Let_def pay_employee_def pay_created_def pay_run_1_def sample_env_def)
qed

lemma pay_created_reachable: "payroll_reachable std_decimal gregorian sample_uuids pay_created"
proof (rule payroll_more)
  show "payroll_reachable std_decimal gregorian sample_uuids pay_start" by (rule no_runs) (simp_all add: pay_start_def)
  show "payroll_step std_decimal gregorian sample_uuids pay_start pay_created"
    by (intro run_created [OF pay_created_call]) (simp_all add: pay_start_def)
qed

lemma pay_created_fields:
  "\<exists>r. pay_runs pay_created = [r] \<and> pr_id r = 1001 \<and> pr_entity_id r = 1 \<and> pr_pay_date r = 739281 \<and> pr_status r = RunDraft"
  "accounts pay_created = accounts pay_start" "configs pay_created = default_config"
  "fiscal_periods pay_created = [sample_period 1 739252 739282 ''open'']"
  "journal_counter pay_created = (\<lambda>_. Some 1)" "journal_entries pay_created = []" "journal_lines pay_created = []"
  "account_period_balances pay_created = []" "deduction_types pay_created = deduction_types pay_start"
  by (simp_all add: pay_created_def start_run_def compute_into_run_def)
    (simp_all add: pay_start_def store_payslips_def pay_run_1_def new_run_def run_totals_def Let_def)

lemma pay_approved_fields:
  "accounts pay_approved = accounts pay_start" "configs pay_approved = default_config"
  "fiscal_periods pay_approved = [sample_period 1 739252 739282 ''open'']"
  "journal_counter pay_approved = (\<lambda>_. Some 1)" "journal_entries pay_approved = []" "journal_lines pay_approved = []"
  "account_period_balances pay_approved = []" "deduction_types pay_approved = deduction_types pay_start"
  by (simp_all add: pay_approved_def update_run_def pay_created_fields)

lemma pay_approved_call: "approve_pay_run sample_env pay_created 1 1001 (User 9) = Inr pay_approved"
  using pay_created_fields(1)
  by (auto simp: approve_pay_run_def find_run_def ok_or_def pay_approved_def sample_env_def)

lemma pay_approved_reachable: "payroll_reachable std_decimal gregorian sample_uuids pay_approved"
  by (rule payroll_more [OF pay_created_reachable run_approved [OF pay_approved_call]])

lemma pay_approved_run:
  "\<exists>r. pay_runs pay_approved = [r] \<and> pr_id r = 1001 \<and> pr_entity_id r = 1 \<and> pr_pay_date r = 739281 \<and> pr_status r = RunApproved"
  using pay_created_fields(1) by (auto simp: pay_approved_def)

lemma pay_approved_ledger: "ledger_inv pay_approved"
  by (auto simp: ledger_inv_def lines_covered_def snapshots_ok_def lines_linked_def entries_balanced_def
      periods_ok_def periods_apart_def pay_approved_fields sample_period_def snap_debit_def snap_credit_def)

lemma pay_approved_period:
  "period_for_date pay_approved 1 739281 = Inr (sample_period 1 739252 739282 ''open'')"
  "parsed_status (sample_period 1 739252 739282 ''open'') = Open" "fp_id (sample_period 1 739252 739282 ''open'') = 1"
  by (simp_all add: period_for_date_def pay_approved_fields sample_period_def contains_date_def
      parsed_status_def)

lemma pay_approved_ready:
  assumes "rl_account ` set (rq_lines req) \<subseteq> rl_account ` set (rq_lines (payroll_request L pay_approved 1 run))"
  shows "post_ready C (evens sample_env2) pay_approved 1 req 1"
proof -
  have ded: "deduction_account P pay_approved 1 c = net_pay_payable P" for P c
    by (auto simp: deduction_account_def pay_approved_fields pay_start_def split: Option.bind_split)
  let ?S = "{''7010'', ''7020'', ''7030'', ''3310'', ''3320'', ''3330'', ''3340'', ''3350'', ''3400''}"
  have usable: "case find_account pay_approved 1 c of None \<Rightarrow> False | Some a \<Rightarrow> ac_is_active a" if "c \<in> ?S" for c
    using that by (auto simp: find_account_def pay_approved_fields pay_start_def sample_account_def)
  have "rl_account ` set (rq_lines req) \<subseteq> ?S"
    by (rule order_trans [OF assms order_trans [OF payroll_request_accounts]])
      (auto simp: ded pay_approved_fields default_config_def default_posting_setup_def simp del: One_nat_def)
  then have "accounts_usable pay_approved 1 (rq_lines req)"
    unfolding accounts_usable_def list_all_iff using usable by blast
  moreover have "ids_fresh (evens sample_env2) n pay_approved" for n
    by (simp add: ids_fresh_def pay_approved_fields distinct_map inj_on_def sample_env2_def evens_def del: upt_Suc)
  ultimately show ?thesis
    by (simp add: post_ready_def number_unused_def pay_approved_fields find_period_def
        sample_period_def source_admitted_def parsed_status_def)
qed

section \<open>Runs\<close>

text \<open>
  C17: payroll reaches the ledger exactly. When a run is posted, it becomes posted and points to
  the entry, the ledger invariant is kept, and every account but the rounding account moves by exactly
  the lines of the payroll entry. When moreover the run's payslips were computed from amounts in
  cents with no negative deduction (which the code does not enforce), the entry's debits are gross
  pay and the employer's NSSF and housing levy, its credits (the statutory payables, the net pay and
  every other deduction) are the same total, no rounding line is added, and every account moves by
  exactly its lines.
\<close>

theorem payroll_posting_balances:
  assumes laws: "decimal_laws L" and reach: "payroll_reachable L C U db" and ledger: "ledger_inv db"
    and run: "run \<in> set (pay_runs db)" and day: "1 < pr_pay_date run"
    and post: "post_pay_run L C U E db (pr_entity_id run) (pr_id run) by' = Inr (j, db')"
  shows "let e = pr_entity_id run; req = payroll_request L db e run in
      run\<lparr>pr_status := RunPosted, pr_journal_entry_id := Some j\<rparr> \<in> set (pay_runs db') \<and> ledger_inv db'
      \<and> (\<forall>c. c \<noteq> rounding_adjustment (posting (configs db e)) \<longrightarrow>
           account_net db' e c = account_net db e c + request_net L (rq_lines req) c)
      \<and> ((\<forall>s \<in> set (run_slips db (pr_id run)). slip_ok L s) \<longrightarrow>
           request_debits L (rq_lines req) = total_gross run + div_dec L (total_nssf run) 2 + div_dec L (total_housing_levy run) 2
           \<and> request_credits L (rq_lines req) = request_debits L (rq_lines req)
           \<and> (\<forall>c. account_net db' e c = account_net db e c + request_net L (rq_lines req) c))"
proof -
  note inv = decimal_laws.reachable_payroll_inv [OF laws reach]
  let ?e = "pr_entity_id run"
  obtain p en db1 where p: "period_for_date db ?e (pr_pay_date run) = Inr p"
    and post1: "create_and_post_in_tx L C (evens E) db ?e (payroll_request L db ?e run) (fp_id p) by' = Inr (en, db1)"
    and j: "j = en_id en"
    and db': "db' = repay_loans U (odds E) ?e (pr_id run)
        (update_run (pr_id run) (\<lambda>r. r\<lparr>pr_status := RunPosted, pr_journal_entry_id := Some (en_id en)\<rparr>) db1)"
    using post find_run_present [OF inv run] by (auto simp: post_pay_run_def create_and_post_def split: if_splits)
  note balanced = decimal_laws.run_request_balanced [OF laws inv run, of ?e]
  have net: "account_net db' ?e c = account_net db1 ?e c" for c by (simp add: account_net_def db')
  have "pay_runs db1 = pay_runs db" using payroll_frame(1) [OF posting.post_frame(4) [OF post1]] .
  with run have "run\<lparr>pr_status := RunPosted, pr_journal_entry_id := Some j\<rparr> \<in> set (pay_runs db')"
    by (force simp: db' j)
  moreover have "ledger_inv db1"
    by (rule posting.post_keeps_ledger_for_date [OF post1 ledger]) (use p day in \<open>simp_all add: payroll_request_def Let_def\<close>)
  then have "ledger_inv db'" by (rule ledger_inv_cong [rotated 4]) (simp_all add: db')
  ultimately show ?thesis
    using posting.post_net_other [OF post1] posting.post_net_exact [OF post1 balanced(1)] balanced
    by (simp add: Let_def net)
qed

lemma pay_approved_slips_ok: "\<forall>s \<in> set (run_slips pay_approved i). slip_ok std_decimal s"
proof -
  have ok: "amounts_ok pay_start"
    by (simp add: amounts_ok_def item_ok_def pay_start_def pay_employee_def finance_act_2024_def)
  define db where "db = pay_start\<lparr>pay_runs := pay_runs pay_start @ [pay_run_1]\<rparr>"
  have "amounts_ok db" using ok by (simp add: db_def amounts_ok_def)
  moreover have "employees db = [pay_employee 7 50000, pay_employee 8 20000]" by (simp add: db_def pay_start_def)
  ultimately have slips: "slip_ok std_decimal s"
    if "s \<in> set (new_payslips std_decimal gregorian sample_uuids (odds sample_env) db 1 pay_run_1 1
      [pay_employee 7 50000, pay_employee 8 20000])" for s
    using new_payslips_in [OF that] std.new_payslip_ok [of db] by auto
  have "payslips pay_approved = payslips pay_created" by (simp add: pay_approved_def)
  also have "payslips pay_start = []" by (simp add: pay_start_def)
  then have "payslips pay_created = new_payslips std_decimal gregorian sample_uuids (odds sample_env) db 1 pay_run_1 1
      [pay_employee 7 50000, pay_employee 8 20000]"
    by (simp add: pay_created_def start_run_def compute_into_run_def store_payslips_def db_def Let_def)
  finally have all: "payslips pay_approved = new_payslips std_decimal gregorian sample_uuids (odds sample_env) db 1
      pay_run_1 1 [pay_employee 7 50000, pay_employee 8 20000]" .
  show ?thesis unfolding run_slips_def all using slips by (simp only: set_filter mem_Collect_eq) blast
qed

theorem payroll_posting_balances_witness:
  "\<exists>db' :: payroll_db. ledger_inv db' \<and> (\<exists>r \<in> set (pay_runs db'). pr_status r = RunPosted)
    \<and> (\<exists>req :: journal_entry_request. request_credits std_decimal (rq_lines req) = request_debits std_decimal (rq_lines req)
        \<and> (\<forall>c. account_net db' 1 c = account_net pay_approved 1 c + request_net std_decimal (rq_lines req) c))"
proof -
  obtain r where r: "pay_runs pay_approved = [r]" "pr_id r = 1001" "pr_entity_id r = 1" "pr_pay_date r = 739281"
    "pr_status r = RunApproved"
    using pay_approved_run by blast
  note inv = std.reachable_payroll_inv [OF pay_approved_reachable]
  obtain j db' where "post_pay_run std_decimal gregorian sample_uuids sample_env2 pay_approved 1 1001 (User 9) = Inr (j, db')"
    using std.post_pay_run_succeeds [OF inv pay_approved_ledger, of r] r pay_approved_period pay_approved_ready
      pay_approved_slips_ok
    by (metis list.set_intros(1) order_refl)
  note posted = payroll_posting_balances [OF std.decimal_laws_axioms pay_approved_reachable pay_approved_ledger, of r,
      unfolded r(2-4), OF _ _ this, unfolded Let_def]
  have run: "r \<in> set (pay_runs pay_approved)" "1 < (739281 :: int)" using r by simp_all
  from posted [OF this] have "ledger_inv db'" "r\<lparr>pr_status := RunPosted, pr_journal_entry_id := Some j\<rparr> \<in> set (pay_runs db')"
    by blast+
  moreover from posted [OF run] pay_approved_slips_ok have
    "request_credits std_decimal (rq_lines (payroll_request std_decimal pay_approved 1 r))
      = request_debits std_decimal (rq_lines (payroll_request std_decimal pay_approved 1 r))"
    "\<forall>c. account_net db' 1 c = account_net pay_approved 1 c
      + request_net std_decimal (rq_lines (payroll_request std_decimal pay_approved 1 r)) c"
    by blast+
  ultimately show ?thesis by (intro exI [of _ db'] conjI exI) (auto intro!: bexI)
qed

text \<open>
  C18: an approved run can be posted. When its payslips were computed from amounts in cents with no
  negative deduction (which the code does not enforce), its pay date lies in an open period, the
  payroll accounts of the settings and of the deduction types exist and are active, and the next
  number and the new ids are unused, posting the run does not fail.
\<close>

theorem approved_run_posts:
  assumes "decimal_laws L" and "payroll_reachable L C U db" and "ledger_inv db"
    and "run \<in> set (pay_runs db)" and "pr_status run = RunApproved"
    and "\<forall>s \<in> set (run_slips db (pr_id run)). slip_ok L s"
    and "period_for_date db (pr_entity_id run) (pr_pay_date run) = Inr p" and "parsed_status p = Open"
    and "post_ready C (evens E) db (pr_entity_id run) (payroll_request L db (pr_entity_id run) run) (fp_id p)"
  shows "\<exists>j db'. post_pay_run L C U E db (pr_entity_id run) (pr_id run) by' = Inr (j, db')"
  by (rule decimal_laws.post_pay_run_succeeds [OF assms(1) decimal_laws.reachable_payroll_inv [OF assms(1,2)] assms(3-9)])

theorem approved_run_posts_witness:
  "\<exists>j db'. post_pay_run std_decimal gregorian sample_uuids sample_env2 pay_approved 1 1001 (User 9) = Inr (j, db')"
proof -
  obtain r where r: "pay_runs pay_approved = [r]" "pr_id r = 1001" "pr_entity_id r = 1" "pr_pay_date r = 739281"
    "pr_status r = RunApproved"
    using pay_approved_run by blast
  show ?thesis
    using approved_run_posts [OF std.decimal_laws_axioms pay_approved_reachable pay_approved_ledger, of r] r
      pay_approved_period pay_approved_ready pay_approved_slips_ok
    by (metis list.set_intros(1) order_refl)
qed

text \<open>
  C19: a run's totals are the totals of its payslips, in every state the pay runs can reach: gross,
  net tax, both halves of NSSF and of the housing levy, health, loans board, net pay, the count of
  employees and the employer's cost. Every payslip belongs to a run, and a run points to a journal
  entry exactly when it is posted or paid.
\<close>

theorem pay_run_totals_exact:
  assumes "decimal_laws L" and "payroll_reachable L C U db" and "run \<in> set (pay_runs db)"
  shows "total_gross run = sum_list (map (\<lambda>s. cs_gross (ps_slip s)) (run_slips db (pr_id run)))
    \<and> total_paye run = sum_list (map (\<lambda>s. cs_net_paye (ps_slip s)) (run_slips db (pr_id run)))
    \<and> total_nssf run = sum_list (map (\<lambda>s. cs_nssf_employee (ps_slip s) + cs_nssf_employer (ps_slip s)) (run_slips db (pr_id run)))
    \<and> total_housing_levy run = sum_list (map (\<lambda>s. cs_housing_employee (ps_slip s) + cs_housing_employer (ps_slip s)) (run_slips db (pr_id run)))
    \<and> total_sha run = sum_list (map (\<lambda>s. cs_sha (ps_slip s)) (run_slips db (pr_id run)))
    \<and> total_helb run = sum_list (map (\<lambda>s. cs_helb (ps_slip s)) (run_slips db (pr_id run)))
    \<and> total_net run = sum_list (map (\<lambda>s. cs_net_salary (ps_slip s)) (run_slips db (pr_id run)))
    \<and> total_employer_cost run = sum_list (map (\<lambda>s. cs_employer_cost (ps_slip s)) (run_slips db (pr_id run)))
    \<and> employee_count run = int (length (run_slips db (pr_id run)))
    \<and> (\<forall>s \<in> set (payslips db). ps_pay_run_id s \<in> pr_id ` set (pay_runs db))
    \<and> (pr_journal_entry_id run = None \<longleftrightarrow> pr_status run \<in> {RunDraft, RunApproved})"
proof -
  note inv = decimal_laws.reachable_payroll_inv [OF assms(1,2)]
  have "run_totals (map ps_slip (run_slips db (pr_id run))) run = run" "run_kept run"
    using inv assms(3) by (auto simp: payroll_inv_def totals_exact_def)
  then have "run = run_totals (map ps_slip (run_slips db (pr_id run))) run" "run_kept run" by simp_all
  moreover have "\<forall>s \<in> set (payslips db). ps_pay_run_id s \<in> pr_id ` set (pay_runs db)"
    using inv by (auto simp: payroll_inv_def)
  ultimately show ?thesis
    unfolding run_kept_def
    by (intro conjI) (erule ssubst, simp add: run_totals_def Let_def sum_all comp_def | assumption)+
qed

theorem pay_run_totals_exact_witness:
  "\<exists>r. pay_runs pay_approved = [r] \<and> employee_count r = int (length (run_slips pay_approved 1001))
    \<and> total_net r = sum_list (map (\<lambda>s. cs_net_salary (ps_slip s)) (run_slips pay_approved 1001))"
proof -
  obtain r where r: "pay_runs pay_approved = [r]" "pr_id r = 1001"
    using pay_approved_run by blast
  with pay_run_totals_exact [OF std.decimal_laws_axioms pay_approved_reachable, of r] show ?thesis by simp
qed

text \<open>
  C20: what has been approved is frozen. From the moment a run leaves the draft state, no sequence of
  operations changes its payslips or its totals, or removes it: only its status moves forward
  (approved, posted, paid), and the journal entry it was posted as never changes.
\<close>

theorem approved_run_frozen:
  assumes laws: "decimal_laws L" and reach: "payroll_reachable L C U db"
    and steps: "(payroll_step L C U)\<^sup>*\<^sup>* db db'"
    and run: "run \<in> set (pay_runs db)" "pr_status run \<noteq> RunDraft"
  shows "run_slips db' (pr_id run) = run_slips db (pr_id run)
    \<and> (\<exists>run' \<in> set (pay_runs db'). run' = run\<lparr>pr_status := pr_status run', pr_journal_entry_id := pr_journal_entry_id run'\<rparr>
        \<and> run_rank (pr_status run) \<le> run_rank (pr_status run')
        \<and> (pr_journal_entry_id run \<noteq> None \<longrightarrow> pr_journal_entry_id run' = pr_journal_entry_id run))"
proof -
  have "run_frozen db db' run \<and> payroll_inv db'"
    using steps
  proof (induction rule: rtranclp_induct)
    case base
    then show ?case
      using decimal_laws.reachable_payroll_inv [OF laws reach] run(1)
      by (auto simp: run_frozen_def intro!: bexI [of _ run])
  next
    case (step d d')
    then obtain r where r: "r \<in> set (pay_runs d)" "run_advanced run r" by (auto simp: run_frozen_def)
    with run_advanced_id [OF r(2)] run(2) not_draft_rank have live: "pr_status r \<noteq> RunDraft" "pr_id r = pr_id run"
      by (metis le_trans)+
    with step_freezes [OF step(2) _ r(1)] step(3) have "run_frozen d d' r" by blast
    with step(3) r(2) live show ?case
      using run_advanced_trans decimal_laws.payroll_step_inv [OF laws step(2)]
      by (auto simp: run_frozen_def)
  qed
  then show ?thesis by (simp add: run_frozen_def run_advanced_def)
qed

theorem approved_run_frozen_witness:
  "\<exists>j db' r. post_pay_run std_decimal gregorian sample_uuids sample_env2 pay_approved 1 1001 (User 9) = Inr (j, db')
    \<and> pay_runs pay_approved = [r] \<and> run_slips db' 1001 = run_slips pay_approved 1001"
proof -
  obtain r where r: "pay_runs pay_approved = [r]" "pr_id r = 1001" "pr_entity_id r = 1" "pr_pay_date r = 739281"
    "pr_status r = RunApproved"
    using pay_approved_run by blast
  note inv = std.reachable_payroll_inv [OF pay_approved_reachable]
  obtain j db' where post: "post_pay_run std_decimal gregorian sample_uuids sample_env2 pay_approved 1 1001 (User 9) = Inr (j, db')"
    using std.post_pay_run_succeeds [OF inv pay_approved_ledger, of r] r pay_approved_period pay_approved_ready
      pay_approved_slips_ok
    by (metis list.set_intros(1) order_refl)
  have "run_slips db' (pr_id r) = run_slips pay_approved (pr_id r)"
    using approved_run_frozen [OF std.decimal_laws_axioms pay_approved_reachable r_into_rtranclp [of "payroll_step std_decimal gregorian sample_uuids", OF run_posted [OF post]], of r] r
    by simp
  with post r show ?thesis by auto
qed

end
