(* ===== verification/Stock.thy ===== *)
theory Stock
  imports Posting
begin

text \<open>
  Inventory and warehousing: \<^verbatim>\<open>zavora-erp-core/src/inventory/mod.rs\<close> (items, movements),
  \<^verbatim>\<open>services/inventory.rs\<close> (receive, issue, stock-take, weighted average cost) and
  \<^verbatim>\<open>services/warehousing.rs\<close> (warehouses, where the stock of an item sits, transfers).

  The state extends the ledger by the tables \<open>inventory_items\<close>, \<open>stock_movements\<close>,
  \<open>warehouses\<close>, \<open>warehouse_stock\<close> and \<open>warehouse_transfers\<close>. The average cost is divided by the
  database, whose \<^verbatim>\<open>NUMERIC\<close> division is the parameter \<open>Q\<close>; its documented sign behaviour is the
  locale \<open>numeric_laws\<close>.
\<close>

section \<open>Data\<close>

record item_master =
  im_id :: uuid
  im_entity_id :: uuid
  im_product_id :: "uuid option"
  im_sku :: string
  im_description :: string
  im_uom :: string
  im_costing_method :: string
  gl_inventory :: account_code
  gl_cogs :: account_code

record inventory_item = item_master +
  on_hand :: decimal
  committed :: decimal
  available :: decimal
  unit_cost :: decimal
  total_value :: decimal
  reorder_point :: "decimal option"
  reorder_quantity :: "decimal option"
  im_warehouse_id :: "uuid option"
  im_is_active :: bool

text \<open>\<open>InventoryItem::recalculate\<close> and \<open>needs_reorder\<close>.\<close>

definition recalculate_item :: "decimal_lib \<Rightarrow> inventory_item \<Rightarrow> inventory_item" where
  "recalculate_item L i = i\<lparr>available := on_hand i - committed i,
     total_value := round_dp L (on_hand i * unit_cost i) 2\<rparr>"

definition needs_reorder :: "inventory_item \<Rightarrow> bool" where
  "needs_reorder i = (case reorder_point i of None \<Rightarrow> False | Some rp \<Rightarrow> available i \<le> rp)"

datatype movement_type = MvReceipt | MvIssue | MvAdjustment | MvTransfer | MvReturn

record stock_movement =
  sm_id :: uuid
  sm_entity_id :: uuid
  sm_item_id :: uuid
  sm_type :: movement_type
  sm_date :: naive_date
  sm_quantity :: decimal
  sm_unit_cost :: decimal
  sm_total_cost :: decimal
  sm_reference_id :: "uuid option"
  sm_notes :: "string option"
  sm_created_by :: agent_or_user_id
  sm_journal_entry_id :: "uuid option"

record warehouse =
  wh_id :: uuid
  wh_entity_id :: uuid
  wh_code :: string
  wh_name :: string
  wh_kind :: string
  wh_provider :: "string option"
  wh_location :: "string option"
  wh_is_default :: bool
  wh_is_active :: bool

record warehouse_stock_row =
  ws_entity_id :: uuid
  ws_item_id :: uuid
  ws_warehouse_id :: uuid
  ws_quantity :: decimal

record warehouse_transfer =
  wt_entity_id :: uuid
  wt_item_id :: uuid
  wt_from :: uuid
  wt_to :: uuid
  wt_quantity :: decimal
  wt_date :: naive_date
  wt_notes :: "string option"

record stock_db = ledger_db +
  inventory_items :: "inventory_item list"
  stock_movements :: "stock_movement list"
  warehouses :: "warehouse list"
  warehouse_stock :: "warehouse_stock_row list"
  warehouse_transfers :: "warehouse_transfer list"

record create_item_request =
  ci_sku :: string
  ci_description :: string
  ci_uom :: "string option"
  ci_costing_method :: "string option"
  ci_gl_inventory :: "string option"
  ci_gl_cogs :: "string option"
  ci_reorder_point :: "decimal option"
  ci_reorder_quantity :: "decimal option"
  ci_product_id :: "uuid option"
  ci_warehouse_id :: "uuid option"

record receive_request =
  rv_item_id :: uuid
  rv_quantity :: decimal
  rv_unit_cost :: decimal
  rv_date :: "naive_date option"
  rv_reference_id :: "uuid option"
  rv_warehouse_id :: "uuid option"

record issue_request =
  is_item_id :: uuid
  is_quantity :: decimal
  is_date :: "naive_date option"
  is_reference_id :: "uuid option"
  is_warehouse_id :: "uuid option"

record adjust_request =
  aj_item_id :: uuid
  aj_counted_quantity :: decimal
  aj_account :: account_code
  aj_reason :: "string option"
  aj_date :: "naive_date option"

record issue_result =
  ir_movement_id :: uuid
  ir_unit_cost :: decimal
  ir_total_cost :: decimal
  ir_gl_inventory :: account_code
  ir_gl_cogs :: account_code

section \<open>Items\<close>

definition find_item :: "'a stock_db_scheme \<Rightarrow> uuid \<Rightarrow> uuid \<Rightarrow> inventory_item option" where
  "find_item db e i = List.find (\<lambda>x. im_id x = i \<and> im_entity_id x = e) (inventory_items db)"

definition new_item :: "posting_setup \<Rightarrow> uuid \<Rightarrow> uuid \<Rightarrow> create_item_request \<Rightarrow> inventory_item" where
  "new_item ps i e req =
     \<lparr>im_id = i, im_entity_id = e, im_product_id = ci_product_id req, im_sku = trim (ci_sku req),
      im_description = trim (ci_description req), im_uom = unwrap_or (ci_uom req) ''Each'',
      im_costing_method = unwrap_or (ci_costing_method req) ''WeightedAvgCost'',
      gl_inventory = unwrap_or (ci_gl_inventory req) (inventory_asset ps),
      gl_cogs = unwrap_or (ci_gl_cogs req) (cost_of_goods_sold ps),
      on_hand = 0, committed = 0, available = 0, unit_cost = 0, total_value = 0,
      reorder_point = ci_reorder_point req, reorder_quantity = ci_reorder_quantity req,
      im_warehouse_id = ci_warehouse_id req, im_is_active = True\<rparr>"

definition create_item ::
    "environment \<Rightarrow> 'a stock_db_scheme \<Rightarrow> uuid \<Rightarrow> create_item_request \<Rightarrow> (uuid \<times> 'a stock_db_scheme) erp_result" where
  "create_item E db e req =
     (if trim (ci_sku req) = [] then Inl (ValidationFailed ''SKU is required.'')
      else if trim (ci_description req) = [] then Inl (ValidationFailed ''Description is required.'')
      else if \<exists>x \<in> set (inventory_items db). im_entity_id x = e \<and> im_sku x = trim (ci_sku req)
      then Inl (Duplicate (''An inventory item with SKU '' @ trim (ci_sku req) @ '' already exists.''))
      else Inr (uuids E 0, db\<lparr>inventory_items := inventory_items db
                    @ [new_item (posting (configs db e)) (uuids E 0) e req]\<rparr>))"

definition update_item ::
    "uuid \<Rightarrow> uuid \<Rightarrow> (inventory_item \<Rightarrow> inventory_item) \<Rightarrow> inventory_item list \<Rightarrow> inventory_item list" where
  "update_item e i f xs = map (\<lambda>x. if im_id x = i \<and> im_entity_id x = e then f x else x) xs"

section \<open>Where the stock sits\<close>

text \<open>\<open>ensure_default_warehouse_tx\<close>: the default one, else the first one promoted, else a new one.
  The database draws the id of a new row; here it is the first fresh id.\<close>

definition main_warehouse :: "uuid \<Rightarrow> uuid \<Rightarrow> warehouse" where
  "main_warehouse i e =
     \<lparr>wh_id = i, wh_entity_id = e, wh_code = ''MAIN'', wh_name = ''Main Warehouse'', wh_kind = ''own'',
      wh_provider = None, wh_location = None, wh_is_default = True, wh_is_active = True\<rparr>"

definition promote_warehouse :: "uuid \<Rightarrow> warehouse \<Rightarrow> warehouse" where
  "promote_warehouse i w = (if wh_id w = i then w\<lparr>wh_is_default := True\<rparr> else w)"

definition ensure_default_warehouse_tx ::
    "environment \<Rightarrow> 'a stock_db_scheme \<Rightarrow> uuid \<Rightarrow> uuid \<times> 'a stock_db_scheme" where
  "ensure_default_warehouse_tx E db e =
     (case List.find (\<lambda>w. wh_entity_id w = e \<and> wh_is_default w) (warehouses db) of
        Some w \<Rightarrow> (wh_id w, db)
      | None \<Rightarrow>
          (case List.find (\<lambda>w. wh_entity_id w = e) (warehouses db) of
             Some w \<Rightarrow> (wh_id w, db\<lparr>warehouses := map (promote_warehouse (wh_id w)) (warehouses db)\<rparr>)
           | None \<Rightarrow> (uuids E 0, db\<lparr>warehouses := warehouses db @ [main_warehouse (uuids E 0) e]\<rparr>)))"

text \<open>\<open>INSERT .. ON CONFLICT (item_id, warehouse_id) DO UPDATE\<close>.\<close>

fun add_stock :: "warehouse_stock_row \<Rightarrow> warehouse_stock_row list \<Rightarrow> warehouse_stock_row list" where
  "add_stock r [] = [r]"
| "add_stock r (x # xs) =
     (if ws_item_id x = ws_item_id r \<and> ws_warehouse_id x = ws_warehouse_id r
      then x\<lparr>ws_quantity := ws_quantity x + ws_quantity r\<rparr> # xs
      else x # add_stock r xs)"

definition stock_row :: "uuid \<Rightarrow> uuid \<Rightarrow> uuid \<Rightarrow> decimal \<Rightarrow> warehouse_stock_row" where
  "stock_row e i w q = \<lparr>ws_entity_id = e, ws_item_id = i, ws_warehouse_id = w, ws_quantity = q\<rparr>"

definition apply_stock_delta_tx ::
    "environment \<Rightarrow> 'a stock_db_scheme \<Rightarrow> uuid \<Rightarrow> uuid \<Rightarrow> uuid option \<Rightarrow> decimal \<Rightarrow> 'a stock_db_scheme" where
  "apply_stock_delta_tx E db e i w delta =
     (let (wh, db1) = (case w of Some v \<Rightarrow> (v, db) | None \<Rightarrow> ensure_default_warehouse_tx E db e) in
      db1\<lparr>warehouse_stock := add_stock (stock_row e i wh delta) (warehouse_stock db1)\<rparr>)"

record create_warehouse_request =
  cw_code :: string
  cw_name :: string
  cw_kind :: "string option"
  cw_provider :: "string option"
  cw_location :: "string option"
  cw_is_default :: bool

definition new_warehouse :: "uuid \<Rightarrow> uuid \<Rightarrow> create_warehouse_request \<Rightarrow> string \<Rightarrow> bool \<Rightarrow> warehouse" where
  "new_warehouse i e req kind dflt =
     \<lparr>wh_id = i, wh_entity_id = e, wh_code = upper (trim (cw_code req)), wh_name = trim (cw_name req),
      wh_kind = kind, wh_provider = non_blank (cw_provider req), wh_location = non_blank (cw_location req),
      wh_is_default = dflt, wh_is_active = True\<rparr>"

definition clear_default :: "uuid \<Rightarrow> warehouse \<Rightarrow> warehouse" where
  "clear_default e w = (if wh_entity_id w = e then w\<lparr>wh_is_default := False\<rparr> else w)"

text \<open>The update of the old default commits on its own, before the insert can fail.\<close>

definition create_warehouse ::
    "environment \<Rightarrow> 'a stock_db_scheme \<Rightarrow> uuid \<Rightarrow> create_warehouse_request
      \<Rightarrow> 'a stock_db_scheme \<times> warehouse erp_result" where
  "create_warehouse E db e req =
     (let code = upper (trim (cw_code req)) in
      if code = [] \<or> trim (cw_name req) = []
      then (db, Inl (ValidationFailed ''Warehouse code and name are required''))
      else
        (let kind = (if cw_kind req = Some ''3pl'' then ''3pl'' else ''own'');
             dflt = cw_is_default req \<or> (kind = ''own''
               \<and> filter (\<lambda>w. wh_entity_id w = e \<and> wh_kind w = ''own'') (warehouses db) = []);
             db1 = (if dflt then db\<lparr>warehouses := map (clear_default e) (warehouses db)\<rparr> else db);
             row = new_warehouse (uuids E 0) e req kind dflt in
         if \<exists>w \<in> set (warehouses db1). wh_entity_id w = e \<and> wh_code w = code
         then (db1, Inl (Duplicate (''A warehouse with code '' @ code @ '' already exists'')))
         else (db1\<lparr>warehouses := warehouses db1 @ [row]\<rparr>, Inr row)))"

record update_warehouse_request =
  uw_name :: "string option"
  uw_provider :: "string option"
  uw_location :: "string option"
  uw_is_active :: "bool option"

definition coalesce :: "'a option \<Rightarrow> 'a option \<Rightarrow> 'a option" where
  "coalesce x y = (case x of None \<Rightarrow> y | Some v \<Rightarrow> Some v)"

definition update_warehouse ::
    "'a stock_db_scheme \<Rightarrow> uuid \<Rightarrow> uuid \<Rightarrow> update_warehouse_request \<Rightarrow> 'a stock_db_scheme" where
  "update_warehouse db e i req = db\<lparr>warehouses := map (\<lambda>w. if wh_id w = i \<and> wh_entity_id w = e
     then w\<lparr>wh_name := unwrap_or (non_blank (uw_name req)) (wh_name w),
            wh_provider := coalesce (uw_provider req) (wh_provider w),
            wh_location := coalesce (uw_location req) (wh_location w),
            wh_is_active := unwrap_or (uw_is_active req) (wh_is_active w)\<rparr> else w) (warehouses db)\<rparr>"

record transfer_request =
  tf_item_id :: uuid
  tf_from_warehouse :: uuid
  tf_to_warehouse :: uuid
  tf_quantity :: decimal
  tf_date :: "naive_date option"
  tf_notes :: "string option"

definition quantity_in :: "'a stock_db_scheme \<Rightarrow> uuid \<Rightarrow> uuid \<Rightarrow> decimal" where
  "quantity_in db i w =
     (case List.find (\<lambda>r. ws_item_id r = i \<and> ws_warehouse_id r = w) (warehouse_stock db) of
        None \<Rightarrow> 0 | Some r \<Rightarrow> ws_quantity r)"

definition transfer_stock ::
    "decimal_lib \<Rightarrow> environment \<Rightarrow> 'a stock_db_scheme \<Rightarrow> uuid \<Rightarrow> transfer_request \<Rightarrow> 'a stock_db_scheme erp_result" where
  "transfer_stock L E db e req =
     (let qty = round_dp L (tf_quantity req) 4;
          from_w = tf_from_warehouse req; to_w = tf_to_warehouse req; item = tf_item_id req in
      if qty \<le> 0 then Inl (ValidationFailed ''Transfer quantity must be positive'')
      else if from_w = to_w then Inl (ValidationFailed ''Choose two different warehouses'')
      else if quantity_in db item from_w < qty
      then Inl (InsufficientStock ''item'' (quantity_in db item from_w) qty)
      else (let db1 = apply_stock_delta_tx E db e item (Some from_w) (- qty);
                db2 = apply_stock_delta_tx E db1 e item (Some to_w) qty in
        Inr (db2\<lparr>warehouse_transfers := warehouse_transfers db2 @
          [\<lparr>wt_entity_id = e, wt_item_id = item, wt_from = from_w, wt_to = to_w, wt_quantity = qty,
            wt_date = unwrap_or (tf_date req) (today E), wt_notes = non_blank (tf_notes req)\<rparr>]\<rparr>)))"

text \<open>The queries of the warehouse screens (their order for display is not modelled).\<close>

definition stock_for_item :: "'a stock_db_scheme \<Rightarrow> uuid \<Rightarrow> uuid \<Rightarrow> (uuid \<times> decimal) list" where
  "stock_for_item db e i = map (\<lambda>w. (wh_id w, quantity_in db i (wh_id w)))
     (filter (\<lambda>w. wh_entity_id w = e \<and> wh_is_active w) (warehouses db))"

definition stock_in_warehouse :: "'a stock_db_scheme \<Rightarrow> uuid \<Rightarrow> uuid \<Rightarrow> (uuid \<times> decimal) list" where
  "stock_in_warehouse db e w = map (\<lambda>r. (ws_item_id r, ws_quantity r))
     (filter (\<lambda>r. ws_entity_id r = e \<and> ws_warehouse_id r = w \<and> ws_quantity r \<noteq> 0
        \<and> (\<exists>i \<in> set (inventory_items db). im_id i = ws_item_id r)) (warehouse_stock db))"

end
