(* ===== verification/Stock_Moves.thy ===== *)
theory Stock_Moves
  imports Stock
begin

text \<open>
  The movements of \<^verbatim>\<open>zavora-erp-core/src/services/inventory.rs\<close>: receipt at weighted average cost,
  issue, and the stock-take adjustment, within a caller's transaction and as operations of their
  own that also post to the ledger. A movement takes the first fresh id, the warehouse it may have
  to create the second; the entry of an operation of its own draws from the other half.
\<close>

section \<open>The trigger on the items\<close>

text \<open>
  \<open>trg_enforce_nonneg_inventory\<close> (\<^verbatim>\<open>migrations/002\<close>) runs before every update of a row of
  \<open>inventory_items\<close> and refuses one that would leave less than nothing on hand: \<open>f\<close> is the
  update of the rows an operation addresses.
\<close>

definition enforce_nonneg_inventory ::
    "uuid \<Rightarrow> uuid \<Rightarrow> (inventory_item \<Rightarrow> inventory_item) \<Rightarrow> inventory_item list \<Rightarrow> bool" where
  "enforce_nonneg_inventory e i f xs \<longleftrightarrow>
     (\<forall>x \<in> set xs. im_id x = i \<and> im_entity_id x = e \<longrightarrow> 0 \<le> on_hand (f x))"

definition below_zero :: erp_error where
  "below_zero = Database ''Inventory item cannot go below zero''"

section \<open>Receipt\<close>

definition movement ::
    "uuid \<Rightarrow> uuid \<Rightarrow> uuid \<Rightarrow> movement_type \<Rightarrow> naive_date \<Rightarrow> decimal \<Rightarrow> decimal \<Rightarrow> decimal
      \<Rightarrow> uuid option \<Rightarrow> string option \<Rightarrow> agent_or_user_id \<Rightarrow> stock_movement" where
  "movement i e item t d q c total_c ref notes by' =
     \<lparr>sm_id = i, sm_entity_id = e, sm_item_id = item, sm_type = t, sm_date = d, sm_quantity = q,
      sm_unit_cost = c, sm_total_cost = total_c, sm_reference_id = ref, sm_notes = notes,
      sm_created_by = by', sm_journal_entry_id = None\<rparr>"

definition received_item ::
    "(decimal \<Rightarrow> decimal \<Rightarrow> decimal) \<Rightarrow> decimal \<Rightarrow> decimal \<Rightarrow> inventory_item \<Rightarrow> inventory_item" where
  "received_item Q q c i =
     (let wac = Q (on_hand i * unit_cost i + q * c) (on_hand i + q) in
      i\<lparr>unit_cost := wac, on_hand := on_hand i + q, available := available i + q,
        total_value := (on_hand i + q) * wac\<rparr>)"

text \<open>\<open>NULLIF(on_hand + quantity, 0)\<close> makes the new cost null, which the column refuses.\<close>

definition receive_inventory_in_tx ::
    "(decimal \<Rightarrow> decimal \<Rightarrow> decimal) \<Rightarrow> environment \<Rightarrow> 'a stock_db_scheme \<Rightarrow> uuid \<Rightarrow> receive_request
      \<Rightarrow> agent_or_user_id \<Rightarrow> (uuid \<times> 'a stock_db_scheme) erp_result" where
  "receive_inventory_in_tx Q E db e req by' =
     (let item = rv_item_id req; q = rv_quantity req; c = rv_unit_cost req in
      if \<exists>x \<in> set (inventory_items db). im_id x = item \<and> im_entity_id x = e \<and> on_hand x + q = 0
      then Inl (Database ''null value in column unit_cost violates not-null constraint'')
      else if \<not> enforce_nonneg_inventory e item (received_item Q q c) (inventory_items db) then Inl below_zero
      else
        (let db1 = db\<lparr>inventory_items := update_item e item (received_item Q q c) (inventory_items db),
               stock_movements := stock_movements db @ [movement (uuids E 0) e item MvReceipt
                 (unwrap_or (rv_date req) (today E)) q c (q * c) (rv_reference_id req) None by']\<rparr>
         in Inr (uuids E 0, apply_stock_delta_tx (odds E) db1 e item (rv_warehouse_id req) q)))"

definition link_movement :: "uuid \<Rightarrow> uuid \<Rightarrow> 'a stock_db_scheme \<Rightarrow> 'a stock_db_scheme" where
  "link_movement i entry db = db\<lparr>stock_movements :=
     map (\<lambda>m. if sm_id m = i then m\<lparr>sm_journal_entry_id := Some entry\<rparr> else m) (stock_movements db)\<rparr>"

text \<open>The two-line entry all movements post, in the base currency at rate one.\<close>

definition stock_entry ::
    "currency_code \<Rightarrow> naive_date \<Rightarrow> uuid \<Rightarrow> string \<Rightarrow> string \<Rightarrow> decimal \<Rightarrow> account_code \<Rightarrow> string
      \<Rightarrow> account_code \<Rightarrow> string \<Rightarrow> journal_entry_request" where
  "stock_entry ccy d item ref desc value dr dr_desc cr cr_desc =
     \<lparr>rq_date = d, rq_source = InventoryAdjustment, rq_source_id = Some item, rq_reference = ref,
      rq_description = desc,
      rq_lines = [dr_line ccy (Some 1) (Some dr_desc) dr value, cr_line ccy (Some 1) (Some cr_desc) cr value],
      rq_post_immediately = True\<rparr>"

definition receive_inventory ::
    "decimal_lib \<Rightarrow> calendar \<Rightarrow> (decimal \<Rightarrow> decimal \<Rightarrow> decimal) \<Rightarrow> environment \<Rightarrow> 'a stock_db_scheme \<Rightarrow> uuid
      \<Rightarrow> receive_request \<Rightarrow> agent_or_user_id \<Rightarrow> (uuid \<times> 'a stock_db_scheme) erp_result" where
  "receive_inventory L C Q E db e req by' =
     (let d = unwrap_or (rv_date req) (today E);
          value = round_dp L (rv_quantity req * rv_unit_cost req) 2 in
      and_then (receive_inventory_in_tx Q (evens E) db e req by') (\<lambda>(mid, db1).
      and_then (ok_or (find_item db1 e (rv_item_id req)) (Database ''no rows returned'')) (\<lambda>item.
      if 1 / 100 \<le> value
      then
        (let ps = posting (configs db1 e);
             acc = (if gl_inventory item = [] then inventory_asset ps else gl_inventory item) in
         and_then (period_for_date db1 e d) (\<lambda>p.
         and_then (create_and_post_in_tx L C (odds E) db1 e
             (stock_entry (base_currency (configs db1 e)) d (rv_item_id req) (''RECV-'' @ im_sku item)
               (''Inventory receipt '' @ im_sku item) value acc ''Inventory receipt''
               (inventory_clearing ps) (''GRNI: '' @ im_sku item)) (fp_id p) by') (\<lambda>(entry, db2).
         Inr (mid, link_movement mid (en_id entry) db2))))
      else Inr (mid, db1))))"

section \<open>Issue\<close>

definition issued_item :: "decimal \<Rightarrow> inventory_item \<Rightarrow> inventory_item" where
  "issued_item q i = i\<lparr>on_hand := on_hand i - q, available := available i - q,
     total_value := (on_hand i - q) * unit_cost i\<rparr>"

definition issue_inventory_in_tx ::
    "environment \<Rightarrow> 'a stock_db_scheme \<Rightarrow> uuid \<Rightarrow> issue_request \<Rightarrow> agent_or_user_id
      \<Rightarrow> (issue_result \<times> 'a stock_db_scheme) erp_result" where
  "issue_inventory_in_tx E db e req by' =
     and_then (ok_or (find_item db e (is_item_id req)) (NotFound ''InventoryItem'' (is_item_id req))) (\<lambda>item.
     let q = is_quantity req in
     if available item < q then Inl (InsufficientStock (im_sku item) (available item) q)
     else if \<not> enforce_nonneg_inventory e (is_item_id req) (issued_item q) (inventory_items db)
     then Inl below_zero
     else
       (let db1 = db\<lparr>inventory_items := update_item e (is_item_id req) (issued_item q) (inventory_items db),
              stock_movements := stock_movements db @ [movement (uuids E 0) e (is_item_id req) MvIssue
                (unwrap_or (is_date req) (today E)) q (unit_cost item) (q * unit_cost item)
                (is_reference_id req) None by']\<rparr>
        in Inr (\<lparr>ir_movement_id = uuids E 0, ir_unit_cost = unit_cost item,
                 ir_total_cost = q * unit_cost item, ir_gl_inventory = gl_inventory item,
                 ir_gl_cogs = gl_cogs item\<rparr>,
              apply_stock_delta_tx (odds E) db1 e (is_item_id req) (is_warehouse_id req) (- q))))"

definition issue_inventory ::
    "decimal_lib \<Rightarrow> calendar \<Rightarrow> environment \<Rightarrow> 'a stock_db_scheme \<Rightarrow> uuid \<Rightarrow> issue_request
      \<Rightarrow> agent_or_user_id \<Rightarrow> (issue_result \<times> 'a stock_db_scheme) erp_result" where
  "issue_inventory L C E db e req by' =
     (let d = unwrap_or (is_date req) (today E) in
      and_then (issue_inventory_in_tx (evens E) db e req by') (\<lambda>(res, db1).
      let value = round_dp L (ir_total_cost res) 2 in
      if 1 / 100 \<le> value
      then
        and_then (ok_or (find_item db1 e (is_item_id req)) (Database ''no rows returned'')) (\<lambda>item.
        and_then (period_for_date db1 e d) (\<lambda>p.
        and_then (create_and_post_in_tx L C (odds E) db1 e
            (stock_entry (base_currency (configs db1 e)) d (is_item_id req) (''ISSUE-'' @ im_sku item)
              (''Inventory issue '' @ im_sku item) value (ir_gl_cogs res) (''COGS: '' @ im_sku item)
              (ir_gl_inventory res) (''Inventory issue: '' @ im_sku item)) (fp_id p) by') (\<lambda>(entry, db2).
        Inr (res, link_movement (ir_movement_id res) (en_id entry) db2))))
      else Inr (res, db1)))"

section \<open>Stock-take\<close>

definition counted_item :: "decimal \<Rightarrow> decimal \<Rightarrow> inventory_item \<Rightarrow> inventory_item" where
  "counted_item counted variance i = i\<lparr>on_hand := counted, available := available i + variance,
     total_value := counted * unit_cost i\<rparr>"

text \<open>\<open>engine.config()\<close>, the configuration of the instance, gives the currency here and not the
  tenant's: \<open>base\<close> is that currency.\<close>

definition adjust_inventory ::
    "decimal_lib \<Rightarrow> calendar \<Rightarrow> currency_code \<Rightarrow> environment \<Rightarrow> 'a stock_db_scheme \<Rightarrow> uuid \<Rightarrow> adjust_request
      \<Rightarrow> agent_or_user_id \<Rightarrow> (uuid \<times> 'a stock_db_scheme) erp_result" where
  "adjust_inventory L C base E db e req by' =
     and_then (ok_or (find_item db e (aj_item_id req)) (NotFound ''InventoryItem'' (aj_item_id req))) (\<lambda>item.
     let d = unwrap_or (aj_date req) (today E);
         variance = aj_counted_quantity req - on_hand item;
         value = round_dp L (variance * unit_cost item) 2 in
     if variance = 0
     then Inl (ValidationFailed (''Counted quantity matches on-hand for '' @ im_sku item))
     else if \<not> enforce_nonneg_inventory e (aj_item_id req) (counted_item (aj_counted_quantity req) variance)
         (inventory_items db)
     then Inl below_zero
     else
       (let db1 = apply_stock_delta_tx (odds (evens E))
              (db\<lparr>inventory_items := update_item e (aj_item_id req)
                 (counted_item (aj_counted_quantity req) variance) (inventory_items db)\<rparr>)
              e (aj_item_id req) None variance;
            db2 = db1\<lparr>stock_movements := stock_movements db1 @ [movement (uuids (evens E) 0) e (aj_item_id req)
               MvAdjustment d variance (unit_cost item) value None (aj_reason req) by']\<rparr>;
            desc = ''Stock adjustment '' @ im_sku item in
        if 1 / 100 \<le> \<bar>value\<bar>
        then
          and_then (period_for_date db2 e d) (\<lambda>p.
          and_then (create_and_post_in_tx L C (odds E) db2 e
              (stock_entry base d (aj_item_id req) (''STOCKADJ-'' @ im_sku item)
                 (unwrap_or (aj_reason req) desc) \<bar>value\<bar>
                 (if 0 < variance then gl_inventory item else aj_account req) desc
                 (if 0 < variance then aj_account req else gl_inventory item) desc) (fp_id p) by') (\<lambda>(entry, db3).
          Inr (aj_item_id req, db3)))
        else Inr (aj_item_id req, db2)))"

section \<open>Opening stock (\<open>services/catalog.rs\<close>)\<close>

text \<open>\<open>post_opening_stock\<close>: the quantities of a new item are set, not added to.\<close>

definition opened_item :: "decimal \<Rightarrow> decimal \<Rightarrow> decimal \<Rightarrow> inventory_item \<Rightarrow> inventory_item" where
  "opened_item q c total_v i = i\<lparr>on_hand := q, available := q, unit_cost := c, total_value := total_v\<rparr>"

definition opening_request ::
    "currency_code \<Rightarrow> naive_date \<Rightarrow> uuid \<Rightarrow> string \<Rightarrow> account_code \<Rightarrow> decimal \<Rightarrow> journal_entry_request" where
  "opening_request ccy d item sku acc value_v =
     \<lparr>rq_date = d, rq_source = OpeningBalance, rq_source_id = Some item, rq_reference = ''OPENSTOCK-'' @ sku,
      rq_description = ''Opening stock '' @ sku,
      rq_lines = [dr_line ccy (Some 1) (Some (''Opening stock '' @ sku)) acc value_v,
                  cr_line ccy (Some 1) (Some (''Opening stock '' @ sku)) ''9300'' value_v],
      rq_post_immediately = True\<rparr>"

definition post_opening_stock ::
    "decimal_lib \<Rightarrow> calendar \<Rightarrow> environment \<Rightarrow> 'a stock_db_scheme \<Rightarrow> uuid \<Rightarrow> uuid \<Rightarrow> decimal \<Rightarrow> decimal
      \<Rightarrow> agent_or_user_id \<Rightarrow> 'a stock_db_scheme erp_result" where
  "post_opening_stock L C E db e item q c by' =
     (let v = round_dp L (q * c) 2 in
      and_then (ok_or (find_item db e item) (Database ''no rows returned'')) (\<lambda>row.
      if \<not> enforce_nonneg_inventory e item (opened_item q c v) (inventory_items db) then Inl below_zero
      else let db1 = apply_stock_delta_tx (odds (evens E))
            (db\<lparr>inventory_items := update_item e item (opened_item q c v) (inventory_items db)\<rparr>) e item None q;
          db2 = db1\<lparr>stock_movements := stock_movements db1 @ [movement (uuids (evens E) 0) e item MvAdjustment
            (today E) q c v None (Some ''Opening stock'') by']\<rparr> in
      if 1 / 100 \<le> v
      then and_then (period_for_date db2 e (today E)) (\<lambda>p.
           and_then (create_and_post_in_tx L C (odds E) db2 e
             (opening_request (base_currency (configs db2 e)) (today E) item (im_sku row) (gl_inventory row) v)
             (fp_id p) by') (\<lambda>(entry, db3). Inr db3))
      else Inr db2))"

end
