(* ===== verification/Stock_Correct.thy ===== *)
theory Stock_Correct
  imports Stock_Moves
begin

text \<open>
  What every stock operation keeps: the quantity on hand of an item is what its movements add up to
  and what its warehouses hold together, what is available is what is on hand less what is
  committed, and it is never negative. Nothing checks the quantities and unit costs that receipts and
  opening stock are entered with; the cost and the value of an item are non-negative as long as those
  were.
\<close>

section \<open>The database's division\<close>

locale numeric_laws =
  fixes Q :: "decimal \<Rightarrow> decimal \<Rightarrow> decimal"
  assumes quotient_nonneg: "0 \<le> a \<Longrightarrow> 0 < b \<Longrightarrow> 0 \<le> Q a b"

interpretation exact_quotient: numeric_laws "\<lambda>a b. a / b"
  by unfold_locales simp

section \<open>The invariant\<close>

definition held :: "'a stock_db_scheme \<Rightarrow> uuid \<Rightarrow> decimal" where
  "held db i = sum_where (\<lambda>r. ws_item_id r = i) ws_quantity (warehouse_stock db)"

definition signed_quantity :: "stock_movement \<Rightarrow> decimal" where
  "signed_quantity m = (if sm_type m = MvIssue then - sm_quantity m else sm_quantity m)"

definition moved :: "'a stock_db_scheme \<Rightarrow> uuid \<Rightarrow> decimal" where
  "moved db i = sum_where (\<lambda>m. sm_item_id m = i) signed_quantity (stock_movements db)"

text \<open>Nothing in the code commits stock, so all that is on hand is available.\<close>

definition item_sound :: "inventory_item \<Rightarrow> bool" where
  "item_sound x \<longleftrightarrow> committed x = 0 \<and> available x = on_hand x \<and> 0 \<le> on_hand x"

definition entered_ok :: "stock_movement \<Rightarrow> bool" where
  "entered_ok m \<longleftrightarrow> 0 \<le> sm_unit_cost m \<and> (sm_type m = MvReceipt \<longrightarrow> 0 \<le> sm_quantity m)"

definition entries_ok :: "'a stock_db_scheme \<Rightarrow> uuid \<Rightarrow> bool" where
  "entries_ok db i \<longleftrightarrow> (\<forall>m \<in> set (stock_movements db). sm_item_id m = i \<longrightarrow> entered_ok m)"

definition costed :: "inventory_item \<Rightarrow> bool" where
  "costed x \<longleftrightarrow> 0 \<le> unit_cost x \<and> 0 \<le> total_value x"

definition stock_inv :: "'a stock_db_scheme \<Rightarrow> bool" where
  "stock_inv db \<longleftrightarrow> distinct (map im_id (inventory_items db))
     \<and> (\<forall>x \<in> set (inventory_items db). held db (im_id x) = on_hand x \<and> moved db (im_id x) = on_hand x
          \<and> item_sound x \<and> (entries_ok db (im_id x) \<longrightarrow> costed x))
     \<and> ws_item_id ` set (warehouse_stock db) \<subseteq> im_id ` set (inventory_items db)
     \<and> sm_item_id ` set (stock_movements db) \<subseteq> im_id ` set (inventory_items db)"

lemma stock_invD:
  assumes "stock_inv db"
  shows "distinct (map im_id (inventory_items db))"
    "x \<in> set (inventory_items db) \<Longrightarrow> held db (im_id x) = on_hand x"
    "x \<in> set (inventory_items db) \<Longrightarrow> moved db (im_id x) = on_hand x"
    "x \<in> set (inventory_items db) \<Longrightarrow> item_sound x"
    "r \<in> set (warehouse_stock db) \<Longrightarrow> ws_item_id r \<in> im_id ` set (inventory_items db)"
    "m \<in> set (stock_movements db) \<Longrightarrow> sm_item_id m \<in> im_id ` set (inventory_items db)"
    "x \<in> set (inventory_items db) \<Longrightarrow> entries_ok db (im_id x) \<Longrightarrow> costed x"
  using assms by (auto simp: stock_inv_def)

definition stock_same :: "'a stock_db_scheme \<Rightarrow> 'b stock_db_scheme \<Rightarrow> bool" where
  "stock_same db db' \<longleftrightarrow> inventory_items db' = inventory_items db
     \<and> map (\<lambda>m. m\<lparr>sm_journal_entry_id := None\<rparr>) (stock_movements db')
       = map (\<lambda>m. m\<lparr>sm_journal_entry_id := None\<rparr>) (stock_movements db)
     \<and> warehouse_stock db' = warehouse_stock db"

text \<open>Only these columns matter: linking a movement to its entry changes nothing.\<close>

lemma signed_quantity_link [simp]: "signed_quantity (m\<lparr>sm_journal_entry_id := x\<rparr>) = signed_quantity m"
  by (simp add: signed_quantity_def)

lemma moved_unlinked:
  "moved db i = sum_where (\<lambda>m. sm_item_id m = i) signed_quantity
     (map (\<lambda>m. m\<lparr>sm_journal_entry_id := None\<rparr>) (stock_movements db))"
  by (simp add: moved_def sum_where_map comp_def)

lemma entries_unlinked:
  "entries_ok db i \<longleftrightarrow> (\<forall>m \<in> set (map (\<lambda>m. m\<lparr>sm_journal_entry_id := None\<rparr>) (stock_movements db)).
     sm_item_id m = i \<longrightarrow> entered_ok m)"
  by (simp add: entries_ok_def entered_ok_def)

lemma stock_inv_frame:
  assumes "stock_inv db" and same: "stock_same db db'"
  shows "stock_inv db'"
proof -
  have held_same: "held db' i = held db i" for i using same by (simp add: held_def stock_same_def)
  have moved_same: "moved db' i = moved db i" for i using same by (simp add: moved_unlinked stock_same_def)
  have entries_same: "entries_ok db' i = entries_ok db i" for i
    using same by (simp only: entries_unlinked stock_same_def)
  have items: "sm_item_id ` set (stock_movements db') = sm_item_id ` set (stock_movements db)"
    using arg_cong [OF conjunct1 [OF conjunct2 [OF same [unfolded stock_same_def]]], of "\<lambda>ms. sm_item_id ` set ms"]
    by (simp add: image_image)
  have "inventory_items db' = inventory_items db" "warehouse_stock db' = warehouse_stock db"
    using same by (simp_all add: stock_same_def)
  then show ?thesis
    using assms(1) unfolding stock_inv_def held_same moved_same entries_same items by simp
qed

section \<open>One quantity, three records\<close>

text \<open>Every operation comes down to one step: an item, its movement and its warehouse row change by
  the same quantity.\<close>

lemma add_stock_sum:
  "sum_where (\<lambda>r. ws_item_id r = i) ws_quantity (add_stock r xs)
    = sum_where (\<lambda>r. ws_item_id r = i) ws_quantity xs + (if ws_item_id r = i then ws_quantity r else 0)"
  by (induction xs) auto

lemma add_stock_items: "ws_item_id ` set (add_stock r xs) = insert (ws_item_id r) (ws_item_id ` set xs)"
  by (induction xs) auto

lemma ensure_default_warehouse_frame:
  "inventory_items (snd (ensure_default_warehouse_tx E db e)) = inventory_items db"
  "stock_movements (snd (ensure_default_warehouse_tx E db e)) = stock_movements db"
  "warehouse_stock (snd (ensure_default_warehouse_tx E db e)) = warehouse_stock db"
  "configs (snd (ensure_default_warehouse_tx E db e)) = configs db"
  by (auto simp: ensure_default_warehouse_tx_def split: option.splits)

lemma apply_stock_delta_frame [simp]:
  "inventory_items (apply_stock_delta_tx E db e i w d) = inventory_items db"
  "stock_movements (apply_stock_delta_tx E db e i w d) = stock_movements db"
  "configs (apply_stock_delta_tx E db e i w d) = configs db"
  using ensure_default_warehouse_frame [of E db e]
  by (auto simp: apply_stock_delta_tx_def split: prod.splits option.splits)

lemma apply_stock_delta_rows:
  "\<exists>wh. warehouse_stock (apply_stock_delta_tx E db e i w d) = add_stock (stock_row e i wh d) (warehouse_stock db)"
  using ensure_default_warehouse_frame [of E db e]
  by (cases w) (auto simp: apply_stock_delta_tx_def split: prod.splits)

lemma held_delta:
  "held (apply_stock_delta_tx E db e i w d) k = held db k + (if k = i then d else 0)"
  using apply_stock_delta_rows [of E db e i w d] by (auto simp: held_def add_stock_sum stock_row_def)

lemma delta_items:
  "ws_item_id ` set (warehouse_stock (apply_stock_delta_tx E db e i w d))
    = insert i (ws_item_id ` set (warehouse_stock db))"
  using apply_stock_delta_rows [of E db e i w d]
  by (elim exE) (simp add: add_stock_items, simp add: stock_row_def)

lemma find_itemD:
  assumes "find_item db e i = Some x"
  shows "x \<in> set (inventory_items db)" "im_id x = i" "im_entity_id x = e"
  using find_SomeD [OF assms [unfolded find_item_def]] by auto

lemma move_inv:
  assumes inv: "stock_inv db" and x: "find_item db e i = Some x"
    and items: "inventory_items db' = update_item e i f (inventory_items db)"
    and moves: "stock_movements db' = stock_movements db @ [m]" "sm_item_id m = i" "signed_quantity m = q"
    and rows: "held db' = (\<lambda>k. held db k + (if k = i then q else 0))"
      "ws_item_id ` set (warehouse_stock db') = insert i (ws_item_id ` set (warehouse_stock db))"
    and f: "im_id (f x) = i" "on_hand (f x) = on_hand x + q" "item_sound (f x)"
      "entered_ok m \<Longrightarrow> costed x \<Longrightarrow> costed (f x)"
  shows "stock_inv db'"
proof -
  note D = stock_invD [OF inv] and X = find_itemD [OF x]
  have only: "y = x" if "y \<in> set (inventory_items db)" "im_id y = i" for y
    using keyed_eq [OF D(1) that(1) X(1)] that(2) X(2) by simp
  have same: "update_item e i f (inventory_items db) = map (\<lambda>y. if y = x then f x else y) (inventory_items db)"
  proof -
    have eq: "(if im_id y = i \<and> im_entity_id y = e then f y else y) = (if y = x then f x else y)"
      if "y \<in> set (inventory_items db)" for y
    proof (cases "y = x")
      case False
      then have "im_id y \<noteq> i" using only [OF that] by blast
      then show ?thesis using False by simp
    qed (simp add: X(2,3))
    show ?thesis unfolding update_item_def by (rule map_cong [OF refl eq])
  qed
  have ids: "map im_id (inventory_items db') = map im_id (inventory_items db)"
    unfolding items same by (auto simp: f(1) X(2))
  have moved: "moved db' k = moved db k + (if k = i then q else 0)" for k
    using moves by (simp add: moved_def)
  have entries: "entries_ok db' k \<Longrightarrow> entries_ok db k \<and> (k = i \<longrightarrow> entered_ok m)" for k
    by (simp add: entries_ok_def moves)
  have row: "held db' (im_id y') = on_hand y' \<and> moved db' (im_id y') = on_hand y' \<and> item_sound y'
      \<and> (entries_ok db' (im_id y') \<longrightarrow> costed y')"
    if y': "y' \<in> set (inventory_items db')" for y'
  proof -
    obtain y where y: "y \<in> set (inventory_items db)" "y' = (if y = x then f x else y)"
      using y' unfolding items same by auto
    show ?thesis
    proof (cases "y = x")
      case True
      then show ?thesis using y f X D(2,3,7) [OF X(1)] entries [of i] by (simp add: rows(1) moved)
    next
      case False
      then have "im_id y \<noteq> i" using only y(1) by blast
      then show ?thesis using y False D(2-4,7) [OF y(1)] entries [of "im_id y"] by (simp add: rows(1) moved)
    qed
  qed
  have "i \<in> im_id ` set (inventory_items db)" using X by auto
  moreover have "im_id ` set (inventory_items db') = im_id ` set (inventory_items db)"
    using arg_cong [OF ids, of set] by simp
  ultimately show ?thesis
    using D(5,6) row ids D(1) unfolding stock_inv_def rows(2) moves(1) by (auto simp: moves(2))
qed

section \<open>The operations\<close>

lemma create_item_inv:
  assumes inv: "stock_inv db" and ok: "create_item E db e req = Inr (i, db')"
    and fresh: "uuids E 0 \<notin> im_id ` set (inventory_items db)"
  shows "stock_inv db'"
proof -
  note D = stock_invD [OF inv]
  let ?n = "new_item (posting (configs db e)) (uuids E 0) e req"
  have db': "db' = db\<lparr>inventory_items := inventory_items db @ [?n]\<rparr>"
    using ok by (auto simp: create_item_def split: if_splits)
  have n: "im_id ?n = uuids E 0" "on_hand ?n = 0" "item_sound ?n" "costed ?n"
    by (simp_all add: new_item_def item_sound_def costed_def)
  have "held db (uuids E 0) = 0" "moved db (uuids E 0) = 0"
    using fresh D(5,6) by (force simp: held_def moved_def intro!: sum_where_none)+
  then show ?thesis
    using D fresh n unfolding stock_inv_def db'
    by (auto simp: held_def moved_def entries_ok_def)
qed

lemma receive_in_txD:
  assumes "receive_inventory_in_tx Q E db e req by' = Inr (i, db')" and "find_item db e (rv_item_id req) = Some x"
  shows "0 < on_hand x + rv_quantity req"
    and "inventory_items db' = update_item e (rv_item_id req) (received_item Q (rv_quantity req) (rv_unit_cost req)) (inventory_items db)"
    "\<exists>m. stock_movements db' = stock_movements db @ [m] \<and> sm_item_id m = rv_item_id req \<and> signed_quantity m = rv_quantity req
      \<and> (entered_ok m \<longleftrightarrow> 0 \<le> rv_quantity req \<and> 0 \<le> rv_unit_cost req)"
    "held db' = (\<lambda>k. held db k + (if k = rv_item_id req then rv_quantity req else 0))"
    "ws_item_id ` set (warehouse_stock db') = insert (rv_item_id req) (ws_item_id ` set (warehouse_stock db))"
    "configs db' = configs db" "i = uuids E 0"
proof -
  define m where "m = movement (uuids E 0) e (rv_item_id req) MvReceipt (unwrap_or (rv_date req) (today E))
    (rv_quantity req) (rv_unit_cost req) (rv_quantity req * rv_unit_cost req) (rv_reference_id req) None by'"
  have m: "sm_item_id m = rv_item_id req" "signed_quantity m = rv_quantity req"
    "entered_ok m \<longleftrightarrow> 0 \<le> rv_quantity req \<and> 0 \<le> rv_unit_cost req"
    by (auto simp: m_def movement_def signed_quantity_def entered_ok_def)
  have some: "\<not> (\<exists>y \<in> set (inventory_items db). im_id y = rv_item_id req \<and> im_entity_id y = e \<and> on_hand y + rv_quantity req = 0)"
    and above: "enforce_nonneg_inventory e (rv_item_id req) (received_item Q (rv_quantity req) (rv_unit_cost req)) (inventory_items db)"
    and db': "db' = apply_stock_delta_tx (odds E) (db\<lparr>inventory_items := update_item e (rv_item_id req)
        (received_item Q (rv_quantity req) (rv_unit_cost req)) (inventory_items db),
        stock_movements := stock_movements db @ [m]\<rparr>) e (rv_item_id req) (rv_warehouse_id req) (rv_quantity req)"
    and i: "i = uuids E 0"
    using assms(1) by (auto simp: receive_inventory_in_tx_def Let_def m_def split: if_splits)
  have "on_hand x + rv_quantity req \<noteq> 0" using some find_itemD [OF assms(2)] by blast
  moreover have "0 \<le> on_hand x + rv_quantity req"
    using above find_itemD [OF assms(2)]
    by (fastforce simp: enforce_nonneg_inventory_def received_item_def Let_def)
  ultimately show "0 < on_hand x + rv_quantity req" by simp
  show "\<exists>m. stock_movements db' = stock_movements db @ [m] \<and> sm_item_id m = rv_item_id req \<and> signed_quantity m = rv_quantity req
      \<and> (entered_ok m \<longleftrightarrow> 0 \<le> rv_quantity req \<and> 0 \<le> rv_unit_cost req)"
    using m by (simp add: db')
  show "held db' = (\<lambda>k. held db k + (if k = rv_item_id req then rv_quantity req else 0))"
    by (simp add: db' fun_eq_iff held_delta) (simp add: held_def)
  show "i = uuids E 0" by (rule i)
  show "inventory_items db' = update_item e (rv_item_id req) (received_item Q (rv_quantity req) (rv_unit_cost req)) (inventory_items db)"
    "ws_item_id ` set (warehouse_stock db') = insert (rv_item_id req) (ws_item_id ` set (warehouse_stock db))"
    "configs db' = configs db"
    by (simp_all add: db' delta_items)
qed

lemma received_costed:
  assumes Q: "numeric_laws Q" and "0 < on_hand x + q" "0 \<le> on_hand x" "0 \<le> q" "0 \<le> c" "costed x"
  shows "costed (received_item Q q c x)"
proof -
  have "0 \<le> Q (on_hand x * unit_cost x + q * c) (on_hand x + q)"
    using assms(2-) by (intro numeric_laws.quotient_nonneg [OF Q]) (simp_all add: costed_def)
  then show ?thesis using assms(2) by (simp add: costed_def received_item_def Let_def)
qed

lemma receive_in_tx_inv:
  assumes Q: "numeric_laws Q" and inv: "stock_inv db"
    and ok: "receive_inventory_in_tx Q E db e req by' = Inr (i, db')"
    and x: "find_item db e (rv_item_id req) = Some x"
  shows "stock_inv db'"
proof -
  note D = receive_in_txD [OF ok x]
  have sound: "item_sound x" using stock_invD(4) [OF inv find_itemD(1) [OF x]] .
  then have sound': "item_sound (received_item Q (rv_quantity req) (rv_unit_cost req) x)"
    using D(1) by (simp add: item_sound_def received_item_def Let_def)
  obtain m where m: "stock_movements db' = stock_movements db @ [m]" "sm_item_id m = rv_item_id req"
    "signed_quantity m = rv_quantity req"
    "entered_ok m \<longleftrightarrow> 0 \<le> rv_quantity req \<and> 0 \<le> rv_unit_cost req" using D(3) by blast
  show ?thesis
    by (rule move_inv [OF inv x D(2) m(1-3) D(4,5) _ _ sound'])
      (use find_itemD(2) [OF x] sound D(1) m(4) in
        \<open>simp_all add: received_costed [OF Q] item_sound_def, simp_all add: received_item_def Let_def\<close>)
qed

lemma issue_in_tx_finds:
  assumes "issue_inventory_in_tx E db e req by' = Inr (res, db')"
  shows "\<exists>x. find_item db e (is_item_id req) = Some x \<and> is_quantity req \<le> available x"
  using assms by (auto simp: issue_inventory_in_tx_def Let_def not_less split: if_splits)

lemma issue_in_txD:
  assumes "issue_inventory_in_tx E db e req by' = Inr (res, db')"
    and x: "find_item db e (is_item_id req) = Some x"
  shows "is_quantity req \<le> available x"
    "inventory_items db' = update_item e (is_item_id req) (issued_item (is_quantity req)) (inventory_items db)"
    "\<exists>m. stock_movements db' = stock_movements db @ [m] \<and> sm_item_id m = is_item_id req \<and> signed_quantity m = - is_quantity req"
    "held db' = (\<lambda>k. held db k + (if k = is_item_id req then - is_quantity req else 0))"
    "ws_item_id ` set (warehouse_stock db') = insert (is_item_id req) (ws_item_id ` set (warehouse_stock db))"
    "configs db' = configs db"
    "res = \<lparr>ir_movement_id = uuids E 0, ir_unit_cost = unit_cost x, ir_total_cost = is_quantity req * unit_cost x,
      ir_gl_inventory = gl_inventory x, ir_gl_cogs = gl_cogs x\<rparr>"
proof -
  show enough: "is_quantity req \<le> available x" using issue_in_tx_finds [OF assms(1)] x by simp
  define m where "m = movement (uuids E 0) e (is_item_id req) MvIssue (unwrap_or (is_date req) (today E))
    (is_quantity req) (unit_cost x) (is_quantity req * unit_cost x) (is_reference_id req) None by'"
  have m: "sm_item_id m = is_item_id req" "signed_quantity m = - is_quantity req"
    by (simp_all add: m_def movement_def signed_quantity_def)
  have db': "db' = apply_stock_delta_tx (odds E) (db\<lparr>inventory_items := update_item e (is_item_id req)
        (issued_item (is_quantity req)) (inventory_items db),
        stock_movements := stock_movements db @ [m]\<rparr>) e (is_item_id req) (is_warehouse_id req) (- is_quantity req)"
    and res: "res = \<lparr>ir_movement_id = uuids E 0, ir_unit_cost = unit_cost x, ir_total_cost = is_quantity req * unit_cost x,
      ir_gl_inventory = gl_inventory x, ir_gl_cogs = gl_cogs x\<rparr>"
    using assms(1) enough by (simp_all add: issue_inventory_in_tx_def Let_def m_def x split: if_splits)
  show "held db' = (\<lambda>k. held db k + (if k = is_item_id req then - is_quantity req else 0))"
    by (simp add: db' fun_eq_iff held_delta) (simp add: held_def)
  show "\<exists>m. stock_movements db' = stock_movements db @ [m] \<and> sm_item_id m = is_item_id req \<and> signed_quantity m = - is_quantity req"
    using m by (simp add: db')
  show "res = \<lparr>ir_movement_id = uuids E 0, ir_unit_cost = unit_cost x, ir_total_cost = is_quantity req * unit_cost x,
      ir_gl_inventory = gl_inventory x, ir_gl_cogs = gl_cogs x\<rparr>" by (rule res)
  show "inventory_items db' = update_item e (is_item_id req) (issued_item (is_quantity req)) (inventory_items db)"
    "ws_item_id ` set (warehouse_stock db') = insert (is_item_id req) (ws_item_id ` set (warehouse_stock db))"
    "configs db' = configs db"
    by (simp_all add: db' delta_items)
qed

lemma issue_in_tx_inv:
  assumes inv: "stock_inv db" and ok: "issue_inventory_in_tx E db e req by' = Inr (res, db')"
  shows "stock_inv db'"
proof -
  obtain x where x: "find_item db e (is_item_id req) = Some x" "is_quantity req \<le> available x"
    using issue_in_tx_finds [OF ok] by blast
  note D = issue_in_txD [OF ok x(1)]
  have sound: "item_sound x" using stock_invD(4) [OF inv find_itemD(1) [OF x(1)]] .
  then have sound': "item_sound (issued_item (is_quantity req) x)"
    using x(2) by (simp add: item_sound_def issued_item_def)
  obtain m where m: "stock_movements db' = stock_movements db @ [m]" "sm_item_id m = is_item_id req"
    "signed_quantity m = - is_quantity req" using D(3) by blast
  show ?thesis
    by (rule move_inv [OF inv x(1) D(2) m D(4,5) _ _ sound'])
      (use find_itemD(2) [OF x(1)] sound x(2) in \<open>simp_all add: issued_item_def costed_def item_sound_def\<close>)
qed

end
