(* ===== verification/Stock_Life.thy ===== *)
theory Stock_Life
  imports Stock_Correct
begin

text \<open>
  The stock as a transition system: every operation on items, warehouses and movements, alone or
  within the transaction of another module, with whatever quantities and costs the requests carry.
  Proved of every reachable state: the records of a quantity agree. Two conditions come from how the
  operations are called and from the tables: opening stock is given to an item that has none (the
  caller has just created it), and a receipt names an item of the tenant (the movement's foreign key).
\<close>

section \<open>Posting leaves the stock alone\<close>

lemma stock_frame:
  assumes "ledger_db.more (d' :: 'a stock_db_scheme) = ledger_db.more d"
  shows "inventory_items d' = inventory_items d" "stock_movements d' = stock_movements d"
    "warehouses d' = warehouses d" "warehouse_stock d' = warehouse_stock d"
  using assms by (cases d; cases d'; simp)+

lemma post_stock_same:
  assumes "create_and_post_in_tx L C E (db :: 'a stock_db_scheme) e req i by' = Inr (en, db')"
  shows "stock_same db db'" "stock_same db (link_movement j k db')"
  using stock_frame [OF posting.post_frame(4) [OF assms]] by (simp_all add: stock_same_def link_movement_def)

lemma link_stock_same: "stock_same db (link_movement i j db)"
  by (simp add: stock_same_def link_movement_def)

lemma stock_same_refl [simp]: "stock_same a a"
  by (simp add: stock_same_def)

section \<open>The operations of their own\<close>

lemma receive_inventoryD:
  assumes "receive_inventory L C Q E db e req by' = Inr (i, db')"
  shows "\<exists>db1 x. receive_inventory_in_tx Q (evens E) db e req by' = Inr (i, db1)
    \<and> find_item db1 e (rv_item_id req) = Some x \<and> stock_same db1 db'"
  using assms by (fastforce simp: receive_inventory_def Let_def split: if_splits dest: post_stock_same(2))

lemma issue_inventoryD:
  assumes "issue_inventory L C E db e req by' = Inr (res, db')"
  shows "\<exists>db1. issue_inventory_in_tx (evens E) db e req by' = Inr (res, db1) \<and> stock_same db1 db'"
  using assms by (fastforce simp: issue_inventory_def Let_def split: if_splits dest: post_stock_same(2))

text \<open>An item found after a receipt was there before it.\<close>

lemma find_item_update:
  assumes "\<And>x. im_id (f x) = im_id x" and "\<And>x. im_entity_id (f x) = im_entity_id x"
  shows "List.find (\<lambda>x. im_id x = i \<and> im_entity_id x = e) (update_item e' j f xs)
    = map_option (\<lambda>x. if im_id x = j \<and> im_entity_id x = e' then f x else x)
        (List.find (\<lambda>x. im_id x = i \<and> im_entity_id x = e) xs)"
  by (induction xs) (auto simp: update_item_def assms)

lemma received_found:
  assumes "receive_inventory_in_tx Q E db e req by' = Inr (i, db')" and "find_item db' e k = Some y"
  shows "\<exists>x. find_item db e k = Some x"
proof -
  have "inventory_items db' = update_item e (rv_item_id req) (received_item Q (rv_quantity req) (rv_unit_cost req)) (inventory_items db)"
    using assms(1) by (auto simp: receive_inventory_in_tx_def Let_def split: if_splits)
  with assms(2) show ?thesis
    by (auto simp: find_item_def find_item_update received_item_def Let_def)
qed

lemma transfer_stock_inv:
  assumes inv: "stock_inv db" and ok: "transfer_stock L E db e req = Inr db'"
  shows "stock_inv db'"
proof -
  define qty where "qty = round_dp L (tf_quantity req) 4"
  let ?i = "tf_item_id req"
  let ?db1 = "apply_stock_delta_tx E db e ?i (Some (tf_from_warehouse req)) (- qty)"
  let ?db2 = "apply_stock_delta_tx E ?db1 e ?i (Some (tf_to_warehouse req)) qty"
  have pos: "0 < qty" "qty \<le> quantity_in db ?i (tf_from_warehouse req)"
    and db': "\<exists>t. db' = ?db2\<lparr>warehouse_transfers := t\<rparr>"
    using ok by (auto simp: transfer_stock_def Let_def qty_def not_le not_less split: if_splits)
  obtain t where t: "db' = ?db2\<lparr>warehouse_transfers := t\<rparr>" using db' by blast
  have "\<exists>r \<in> set (warehouse_stock db). ws_item_id r = ?i"
    using pos by (auto simp: quantity_in_def split: option.splits dest: find_SomeD)
  then have there: "?i \<in> im_id ` set (inventory_items db)" using stock_invD(5) [OF inv] by metis
  have held_same: "held db' k = held db k" for k
  proof -
    have "held db' k = held ?db2 k" by (simp add: held_def t)
    then show ?thesis by (simp add: held_delta)
  qed
  have rows: "ws_item_id ` set (warehouse_stock db') = insert ?i (ws_item_id ` set (warehouse_stock db))"
    by (simp add: t delta_items)
  show ?thesis
    using inv there unfolding stock_inv_def rows held_same by (simp add: t moved_def entries_ok_def)
qed

section \<open>The transition system\<close>

inductive stock_step ::
    "decimal_lib \<Rightarrow> calendar \<Rightarrow> (decimal \<Rightarrow> decimal \<Rightarrow> decimal) \<Rightarrow> 'a stock_db_scheme \<Rightarrow> 'a stock_db_scheme \<Rightarrow> bool"
  for L C Q where
  item_created: "create_item E db e req = Inr (i, db') \<Longrightarrow>
    uuids E 0 \<notin> im_id ` set (inventory_items db) \<Longrightarrow> stock_step L C Q db db'"
| received: "receive_inventory L C Q E db e req by' = Inr (i, db') \<Longrightarrow> stock_step L C Q db db'"
| received_within: "receive_inventory_in_tx Q E db e req by' = Inr (i, db') \<Longrightarrow>
    find_item db e (rv_item_id req) = Some x \<Longrightarrow> stock_step L C Q db db'"
| issued: "issue_inventory L C E db e req by' = Inr (res, db') \<Longrightarrow> stock_step L C Q db db'"
| issued_within: "issue_inventory_in_tx E db e req by' = Inr (res, db') \<Longrightarrow> stock_step L C Q db db'"
| counted: "adjust_inventory L C base E db e adj by' = Inr (i, db') \<Longrightarrow> stock_step L C Q db db'"
| opened: "post_opening_stock L C E db e i q c by' = Inr db' \<Longrightarrow> find_item db e i = Some x \<Longrightarrow> on_hand x = 0 \<Longrightarrow>
    stock_step L C Q db db'"
| transferred: "transfer_stock L E db e tf = Inr db' \<Longrightarrow> stock_step L C Q db db'"
| warehouse_created: "create_warehouse E db e cw = (db', res) \<Longrightarrow> stock_step L C Q db db'"
| warehouse_updated: "update_warehouse db e i uw = db' \<Longrightarrow> stock_step L C Q db db'"
| stock_elsewhere: "inventory_items db' = inventory_items db \<Longrightarrow> stock_movements db' = stock_movements db \<Longrightarrow>
    warehouse_stock db' = warehouse_stock db \<Longrightarrow> stock_step L C Q db db'"

inductive stock_reachable ::
    "decimal_lib \<Rightarrow> calendar \<Rightarrow> (decimal \<Rightarrow> decimal \<Rightarrow> decimal) \<Rightarrow> 'a stock_db_scheme \<Rightarrow> bool"
  for L C Q where
  no_stock: "inventory_items db = [] \<Longrightarrow> stock_movements db = [] \<Longrightarrow> warehouse_stock db = [] \<Longrightarrow>
    stock_reachable L C Q db"
| stock_more: "stock_reachable L C Q db \<Longrightarrow> stock_step L C Q db db' \<Longrightarrow> stock_reachable L C Q db'"

text \<open>The stock-take and the opening stock restate the quantity of an item.\<close>

lemma restated_stock_inv:
  assumes inv: "stock_inv db" and x: "find_item db e i = Some x"
    and m: "sm_item_id m = i" "sm_type m = MvAdjustment" "sm_quantity m = q"
    and f: "\<And>y. im_id (f y) = im_id y" "on_hand (f x) = on_hand x + q" "item_sound (f x)"
      "entered_ok m \<Longrightarrow> costed x \<Longrightarrow> costed (f x)"
    and db1: "db1 = apply_stock_delta_tx E (db\<lparr>inventory_items := update_item e i f (inventory_items db)\<rparr>) e i None q"
    and same: "stock_same (db1\<lparr>stock_movements := stock_movements db1 @ [m]\<rparr>) db'"
  shows "stock_inv db'"
proof -
  let ?db2 = "db1\<lparr>stock_movements := stock_movements db1 @ [m]\<rparr>"
  have held_moves: "held ?db2 = (\<lambda>k. held db k + (if k = i then q else 0))"
  proof
    fix k
    have "held ?db2 k = held db1 k" by (simp add: held_def)
    also have "\<dots> = held db k + (if k = i then q else 0)"
      unfolding db1 held_delta by (simp add: held_def)
    finally show "held ?db2 k = held db k + (if k = i then q else 0)" .
  qed
  have items: "inventory_items ?db2 = update_item e i f (inventory_items db)"
    and rows: "ws_item_id ` set (warehouse_stock ?db2) = insert i (ws_item_id ` set (warehouse_stock db))"
    and moves: "stock_movements ?db2 = stock_movements db @ [m]"
    by (simp_all add: db1 delta_items)
  have "stock_inv ?db2"
    by (rule move_inv [OF inv x items moves _ _ held_moves rows])
      (use find_itemD(2) [OF x] f m in \<open>simp_all add: signed_quantity_def\<close>)
  then show "stock_inv db'" by (rule stock_inv_frame [OF _ same])
qed

lemma nonneg_found:
  "enforce_nonneg_inventory e i f (inventory_items db) \<Longrightarrow> find_item db e i = Some x \<Longrightarrow> 0 \<le> on_hand (f x)"
  using find_itemD [of db e i x] by (auto simp: enforce_nonneg_inventory_def)

lemma adjust_inventory_inv:
  assumes inv: "stock_inv db" and ok: "adjust_inventory L C base E db e req by' = Inr (i, db')"
  shows "stock_inv db'"
proof -
  obtain x where x: "find_item db e (aj_item_id req) = Some x"
    using ok by (auto simp: adjust_inventory_def)
  define q where "q = aj_counted_quantity req - on_hand x"
  define f where "f = counted_item (aj_counted_quantity req) q"
  define m where "m = movement (uuids (evens E) 0) e (aj_item_id req) MvAdjustment
    (unwrap_or (aj_date req) (today E)) q (unit_cost x) (round_dp L (q * unit_cost x) 2) None (aj_reason req) by'"
  define db1 where "db1 = apply_stock_delta_tx (odds (evens E))
    (db\<lparr>inventory_items := update_item e (aj_item_id req) f (inventory_items db)\<rparr>) e (aj_item_id req) None q"
  define db2 where "db2 = db1\<lparr>stock_movements := stock_movements db1 @ [m]\<rparr>"
  have above: "enforce_nonneg_inventory e (aj_item_id req) f (inventory_items db)"
    using ok x by (auto simp: adjust_inventory_def Let_def f_def q_def split: if_splits)
  have "db' = db2 \<or> (\<exists>r p en. create_and_post_in_tx L C (odds E) db2 e r p by' = Inr (en, db'))"
    using ok x by (auto simp: adjust_inventory_def Let_def db2_def db1_def f_def m_def q_def split: if_splits)
  then have same: "stock_same (db1\<lparr>stock_movements := stock_movements db1 @ [m]\<rparr>) db'"
    using post_stock_same(1) unfolding db2_def by auto
  have pos: "0 \<le> aj_counted_quantity req" using nonneg_found [OF above x] by (simp add: f_def counted_item_def)
  have "item_sound x" using stock_invD(4) [OF inv find_itemD(1) [OF x]] .
  then have sound: "item_sound (f x)" using pos by (simp add: item_sound_def f_def q_def counted_item_def)
  show "stock_inv db'"
    by (rule restated_stock_inv [OF inv x _ _ _ _ _ sound _ db1_def same];
      use pos in \<open>simp add: m_def movement_def f_def q_def counted_item_def costed_def\<close>)
qed

lemma post_opening_stock_inv:
  assumes inv: "stock_inv db" and L: "decimal_laws L" and x: "find_item db e i = Some x" "on_hand x = 0"
    and ok: "post_opening_stock L C E db e i q c by' = Inr db'"
  shows "stock_inv db'"
proof -
  define v where "v = round_dp L (q * c) 2"
  define f where "f = opened_item q c v"
  define m where "m = movement (uuids (evens E) 0) e i MvAdjustment (today E) q c v None (Some ''Opening stock'') by'"
  define db1 where "db1 = apply_stock_delta_tx (odds (evens E))
    (db\<lparr>inventory_items := update_item e i f (inventory_items db)\<rparr>) e i None q"
  define db2 where "db2 = db1\<lparr>stock_movements := stock_movements db1 @ [m]\<rparr>"
  have above: "enforce_nonneg_inventory e i f (inventory_items db)"
    using ok x(1) by (auto simp: post_opening_stock_def Let_def f_def v_def split: if_splits)
  have "db' = db2 \<or> (\<exists>r p en. create_and_post_in_tx L C (odds E) db2 e r p by' = Inr (en, db'))"
    using ok x(1) by (auto simp: post_opening_stock_def Let_def db2_def db1_def f_def m_def v_def split: if_splits)
  then have same: "stock_same (db1\<lparr>stock_movements := stock_movements db1 @ [m]\<rparr>) db'"
    using post_stock_same(1) unfolding db2_def by auto
  have pos: "0 \<le> q" using nonneg_found [OF above x(1)] by (simp add: f_def opened_item_def)
  have v: "0 \<le> c \<Longrightarrow> 0 \<le> v" using decimal_laws.round_nonneg [OF L] pos by (simp add: v_def round_dp_def)
  have "item_sound x" using stock_invD(4) [OF inv find_itemD(1) [OF x(1)]] .
  then have sound: "item_sound (f x)" using pos by (simp add: item_sound_def f_def opened_item_def)
  show "stock_inv db'"
    by (rule restated_stock_inv [OF inv x(1) _ _ _ _ _ sound _ db1_def same];
      use v in \<open>simp add: m_def movement_def f_def opened_item_def x(2) entered_ok_def costed_def\<close>)
qed

end
