(* ===== verification/Stock_Properties.thy ===== *)
theory Stock_Properties
  imports Stock_Life Samples
begin

text \<open>
  The property of the stock records, and the sample warehouse it is applied to.
\<close>

lemma stock_step_inv:
  assumes Q: "numeric_laws Q" and L: "decimal_laws L" and "stock_step L C Q db db'" and inv: "stock_inv db"
  shows "stock_inv db'"
  using assms(3)
proof cases
  case (item_created E e req i)
  then show ?thesis by (rule create_item_inv [OF inv])
next
  case (received E e req by' i)
  obtain db1 y where db1: "receive_inventory_in_tx Q (evens E) db e req by' = Inr (i, db1)"
    "find_item db1 e (rv_item_id req) = Some y" "stock_same db1 db'"
    using receive_inventoryD [OF received(1)] by blast
  obtain x where "find_item db e (rv_item_id req) = Some x" using received_found [OF db1(1,2)] by blast
  from stock_inv_frame [OF receive_in_tx_inv [OF Q inv db1(1) this] db1(3)] show ?thesis .
next
  case (received_within E e req by' i x)
  then show ?thesis by (rule receive_in_tx_inv [OF Q inv])
next
  case (issued E e req by' res)
  then show ?thesis using issue_inventoryD [OF issued] issue_in_tx_inv [OF inv] stock_inv_frame by blast
next
  case (issued_within E e req by' res)
  then show ?thesis by (rule issue_in_tx_inv [OF inv])
next
  case (counted base E e req by' i)
  then show ?thesis by (rule adjust_inventory_inv [OF inv])
next
  case (opened E e i q c by' x)
  then show ?thesis using post_opening_stock_inv [OF inv L] by blast
next
  case (transferred E e req)
  then show ?thesis by (rule transfer_stock_inv [OF inv])
next
  case (warehouse_created E e req res)
  then show ?thesis
    by (intro stock_inv_frame [OF inv]) (auto simp: create_warehouse_def Let_def stock_same_def split: if_splits)
next
  case (warehouse_updated e i req)
  then show ?thesis by (intro stock_inv_frame [OF inv]) (auto simp: update_warehouse_def stock_same_def)
next
  case stock_elsewhere
  then show ?thesis by (intro stock_inv_frame [OF inv]) (simp add: stock_same_def)
qed

lemma reachable_stock_inv:
  assumes "numeric_laws Q" and "decimal_laws L" and "stock_reachable L C Q db"
  shows "stock_inv db"
  using assms(3)
proof induction
  case (no_stock db)
  then show ?case by (simp add: stock_inv_def)
next
  case (stock_more db db')
  then show ?case using stock_step_inv [OF assms(1,2)] by blast
qed

lemma signed_split:
  "sum_where (\<lambda>m. sm_item_id m = i) signed_quantity ms
    = sum_where (\<lambda>m. sm_item_id m = i \<and> sm_type m \<noteq> MvIssue) sm_quantity ms
      - sum_where (\<lambda>m. sm_item_id m = i \<and> sm_type m = MvIssue) sm_quantity ms"
  by (induction ms) (auto simp: signed_quantity_def)

section \<open>A sample warehouse\<close>

definition stock_start :: stock_db where
  "stock_start = ledger_db.extend sample_db
     \<lparr>inventory_items = [], stock_movements = [], warehouses = [], warehouse_stock = [],
      warehouse_transfers = []\<rparr>"

definition sample_item_request :: create_item_request where
  "sample_item_request =
     \<lparr>ci_sku = '' A-1 '', ci_description = ''Bolt'', ci_uom = None, ci_costing_method = None,
      ci_gl_inventory = None, ci_gl_cogs = None, ci_reorder_point = Some 5, ci_reorder_quantity = None,
      ci_product_id = None, ci_warehouse_id = None\<rparr>"

definition stock_db1 :: stock_db where
  "stock_db1 = snd (projr (create_item sample_env stock_start 1 sample_item_request))"

definition sample_receipt :: "decimal \<Rightarrow> decimal \<Rightarrow> receive_request" where
  "sample_receipt q c = \<lparr>rv_item_id = 1000, rv_quantity = q, rv_unit_cost = c, rv_date = None,
     rv_reference_id = None, rv_warehouse_id = None\<rparr>"

definition stock_db2 :: stock_db where
  "stock_db2 = snd (projr (receive_inventory_in_tx (\<lambda>a b. a / b) sample_env stock_db1 1 (sample_receipt 10 4) (User 9)))"

definition stock_db3 :: stock_db where
  "stock_db3 = snd (projr (receive_inventory_in_tx (\<lambda>a b. a / b) sample_env2 stock_db2 1 (sample_receipt 10 7) (User 9)))"

definition sample_issue :: issue_request where
  "sample_issue = \<lparr>is_item_id = 1000, is_quantity = 15, is_date = None, is_reference_id = None,
     is_warehouse_id = None\<rparr>"

definition stock_db4 :: stock_db where
  "stock_db4 = snd (projr (issue_inventory_in_tx (odds sample_env2) stock_db3 1 sample_issue (User 9)))"

definition item_figures :: "'a stock_db_scheme \<Rightarrow> (decimal \<times> decimal \<times> decimal \<times> decimal) list" where
  "item_figures db = map (\<lambda>x. (on_hand x, available x, unit_cost x, total_value x)) (inventory_items db)"

lemma stock_calls:
  "create_item sample_env stock_start 1 sample_item_request = Inr (1000, stock_db1)"
  "receive_inventory_in_tx (\<lambda>a b. a / b) sample_env stock_db1 1 (sample_receipt 10 4) (User 9) = Inr (1000, stock_db2)"
  "receive_inventory_in_tx (\<lambda>a b. a / b) sample_env2 stock_db2 1 (sample_receipt 10 7) (User 9) = Inr (2000, stock_db3)"
  by (simp_all add: stock_db1_def stock_db2_def stock_db3_def create_item_def receive_inventory_in_tx_def
      Let_def enforce_nonneg_inventory_def stock_start_def sample_item_request_def sample_env_def sample_env2_def new_item_def
      sample_receipt_def ledger_db.defs trim_def is_space_def received_item_def update_item_def
      apply_stock_delta_tx_def ensure_default_warehouse_tx_def odds_def)

text \<open>
  C25: in every state the stock operations can reach, with whatever quantities and costs the requests
  carry, the quantity on hand of an item is what its warehouses hold together and what its movements
  (receipts and adjustments less issues) add up to, all of it is available, and it is not negative:
  the trigger on the items and the check of an issue see to that. The unit cost and the value of an item
  are not negative when none of its movements has a negative unit cost and none of its receipts a
  negative quantity, which the code does not check. Opening stock is entered for an item with nothing
  on hand, as the code does when it creates one.
\<close>

theorem stock_records_agree:
  assumes "numeric_laws Q" and "decimal_laws L" and "stock_reachable L C Q db" and "x \<in> set (inventory_items db)"
  shows "on_hand x = sum_where (\<lambda>r. ws_item_id r = im_id x) ws_quantity (warehouse_stock db)
    \<and> on_hand x = sum_where (\<lambda>m. sm_item_id m = im_id x \<and> sm_type m \<noteq> MvIssue) sm_quantity (stock_movements db)
        - sum_where (\<lambda>m. sm_item_id m = im_id x \<and> sm_type m = MvIssue) sm_quantity (stock_movements db)
    \<and> available x = on_hand x \<and> 0 \<le> on_hand x
    \<and> ((\<forall>m \<in> set (stock_movements db). sm_item_id m = im_id x \<longrightarrow>
          0 \<le> sm_unit_cost m \<and> (sm_type m = MvReceipt \<longrightarrow> 0 \<le> sm_quantity m)) \<longrightarrow>
        0 \<le> unit_cost x \<and> 0 \<le> total_value x)"
proof -
  note D = stock_invD(2-4,7) [OF reachable_stock_inv [OF assms(1-3)] assms(4)]
  have "moved db (im_id x) = sum_where (\<lambda>m. sm_item_id m = im_id x \<and> sm_type m \<noteq> MvIssue) sm_quantity (stock_movements db)
        - sum_where (\<lambda>m. sm_item_id m = im_id x \<and> sm_type m = MvIssue) sm_quantity (stock_movements db)"
    unfolding moved_def by (rule signed_split)
  then show ?thesis
    using D by (simp add: held_def item_sound_def entries_ok_def entered_ok_def costed_def)
qed

lemma stock_db3_items:
  "inventory_items stock_db3 = [(new_item default_posting_setup 1000 1 sample_item_request)
     \<lparr>on_hand := 20, available := 20, unit_cost := 11 / 2, total_value := 110\<rparr>]"
  by code_simp

lemma stock_db4_call:
  "issue_inventory_in_tx (odds sample_env2) stock_db3 1 sample_issue (User 9)
    = Inr (\<lparr>ir_movement_id = 2001, ir_unit_cost = 11 / 2, ir_total_cost = 165 / 2, ir_gl_inventory = ''1500'',
        ir_gl_cogs = ''6000''\<rparr>, stock_db4)"
  by (simp add: stock_db4_def issue_inventory_in_tx_def enforce_nonneg_inventory_def issued_item_def find_item_def stock_db3_items sample_issue_def
      new_item_def sample_item_request_def default_posting_setup_def Let_def sample_env2_def odds_def)

lemma stock_db4_reachable: "stock_reachable std_decimal gregorian (\<lambda>a b. a / b) stock_db4"
proof -
  have items: "inventory_items stock_start = []" "stock_movements stock_start = []" "warehouse_stock stock_start = []"
    by (simp_all add: stock_start_def ledger_db.defs)
  have found: "find_item stock_db1 1 1000 \<noteq> None" "find_item stock_db2 1 1000 \<noteq> None"
    by code_simp+
  have "stock_reachable std_decimal gregorian (\<lambda>a b. a / b) stock_db1"
    by (rule stock_more [OF no_stock [OF items] item_created [OF stock_calls(1)]]) (simp add: items)
  then have "stock_reachable std_decimal gregorian (\<lambda>a b. a / b) stock_db2"
    using found(1) by (auto simp: sample_receipt_def intro!: stock_more [OF _ received_within [OF stock_calls(2)]])
  then have "stock_reachable std_decimal gregorian (\<lambda>a b. a / b) stock_db3"
    using found(2) by (auto simp: sample_receipt_def intro!: stock_more [OF _ received_within [OF stock_calls(3)]])
  then show ?thesis by (rule stock_more [OF _ issued_within [OF stock_db4_call]])
qed

theorem stock_records_agree_witness:
  "item_figures stock_db4 = [(5, 5, 11 / 2, 55 / 2)]
   \<and> sum_where (\<lambda>r. ws_item_id r = 1000) ws_quantity (warehouse_stock stock_db4) = 5"
proof -
  have figures: "item_figures stock_db4 = [(5, 5, 11 / 2, 55 / 2)]"
    "map im_id (inventory_items stock_db4) = [1000]"
    by code_simp+
  then obtain x where x: "inventory_items stock_db4 = [x]" "im_id x = 1000" "on_hand x = 5"
    by (auto simp: item_figures_def)
  show ?thesis
    using stock_records_agree [OF exact_quotient.numeric_laws_axioms std.decimal_laws_axioms stock_db4_reachable, of x] figures(1) x by simp
qed

end
