(* ===== verification/Masters.thy ===== *)
theory Masters
  imports Stock_Moves
begin

text \<open>
  Master data of sales and purchases: parties (\<^verbatim>\<open>zavora-erp-core/src/parties/customer.rs\<close>,
  \<^verbatim>\<open>parties/vendor.rs\<close>, \<^verbatim>\<open>services/parties.rs\<close>), payment terms (\<^verbatim>\<open>types.rs\<close>), products
  (\<^verbatim>\<open>catalog/mod.rs\<close>, \<^verbatim>\<open>services/catalog.rs\<close>), the posting groups that derive accounts from them
  (\<^verbatim>\<open>posting/groups.rs\<close>) and the numbering of documents. Contact data of parties is not modelled.
\<close>

section \<open>Payment terms\<close>

datatype payment_terms =
    DueOnReceipt | Net7 | Net14 | Net30 | Net45 | Net60 | Net90 | CustomTerms nat string

fun terms_days :: "payment_terms \<Rightarrow> nat" where
  "terms_days DueOnReceipt = 0"
| "terms_days Net7 = 7"
| "terms_days Net14 = 14"
| "terms_days Net30 = 30"
| "terms_days Net45 = 45"
| "terms_days Net60 = 60"
| "terms_days Net90 = 90"
| "terms_days (CustomTerms n d) = n"

definition terms_due_date :: "payment_terms \<Rightarrow> naive_date \<Rightarrow> naive_date" where
  "terms_due_date t issue = issue + int (terms_days t)"

datatype wht_category =
    WhtConsultancy | WhtManagementFees | WhtRent | WhtRoyalties | WhtInterest | WhtContractual
  | WhtDividends | WhtInsurance | WhtTransport | WhtOther string

text \<open>The terms of a party and the withholding tax category of a vendor are stored as JSON text.
  Reading and writing JSON is the package \<^verbatim>\<open>serde_json\<close>: a parameter, whose documented law is that
  what it writes it reads back.\<close>

record json_lib =
  terms_of_json :: "string \<Rightarrow> payment_terms option"
  json_of_terms :: "payment_terms \<Rightarrow> string"
  wht_of_json :: "string \<Rightarrow> wht_category option"
  json_of_wht :: "wht_category \<Rightarrow> string"

locale json_laws =
  fixes J :: json_lib
  assumes terms_roundtrip: "terms_of_json J (json_of_terms J t) = Some t"
    and wht_roundtrip: "wht_of_json J (json_of_wht J w) = Some w"

definition parse_stored :: "json_lib \<Rightarrow> string \<Rightarrow> payment_terms" where
  "parse_stored J s =
     (case terms_of_json J s of
        Some t \<Rightarrow> t
      | None \<Rightarrow> unwrap_or (terms_of_json J ([CHR 0x22] @ s @ [CHR 0x22])) Net30)"

context json_laws
begin

lemma parse_stored_roundtrip: "parse_stored J (json_of_terms J t) = t"
  by (simp add: parse_stored_def terms_roundtrip)

end

text \<open>A concrete package: the texts \<^verbatim>\<open>serde_json\<close> writes for these terms (a description without
  characters that would be escaped).\<close>

definition quoted :: "string \<Rightarrow> string" where
  "quoted s = [CHR 0x22] @ s @ [CHR 0x22]"

definition custom_prefix :: string where
  "custom_prefix = ''{'' @ quoted ''Custom'' @ '':{'' @ quoted ''days'' @ '':''"

definition custom_middle :: string where
  "custom_middle = '','' @ quoted ''description'' @ '':'' @ [CHR 0x22]"

fun sample_json_of_terms :: "payment_terms \<Rightarrow> string" where
  "sample_json_of_terms DueOnReceipt = quoted ''DueOnReceipt''"
| "sample_json_of_terms Net7 = quoted ''Net7''"
| "sample_json_of_terms Net14 = quoted ''Net14''"
| "sample_json_of_terms Net30 = quoted ''Net30''"
| "sample_json_of_terms Net45 = quoted ''Net45''"
| "sample_json_of_terms Net60 = quoted ''Net60''"
| "sample_json_of_terms Net90 = quoted ''Net90''"
| "sample_json_of_terms (CustomTerms n d) = custom_prefix @ show_nat n @ custom_middle @ d @ [CHR 0x22] @ ''}}''"

definition unit_terms :: "payment_terms list" where
  "unit_terms = [DueOnReceipt, Net7, Net14, Net30, Net45, Net60, Net90]"

definition sample_terms_of_json :: "string \<Rightarrow> payment_terms option" where
  "sample_terms_of_json s =
     (case List.find (\<lambda>t. sample_json_of_terms t = s) unit_terms of
        Some t \<Rightarrow> Some t
      | None \<Rightarrow>
          if take (length custom_prefix) s \<noteq> custom_prefix then None
          else (let r = drop (length custom_prefix) s;
                    ds = takeWhile (\<lambda>c. c \<noteq> CHR '','') r;
                    d = drop (length ds + length custom_middle) r in
            Some (CustomTerms (nat (read_digits ds)) (take (length d - 3) d))))"

definition unit_wht :: "(wht_category \<times> string) list" where
  "unit_wht = [(WhtConsultancy, ''Consultancy''), (WhtManagementFees, ''ManagementFees''), (WhtRent, ''Rent''),
     (WhtRoyalties, ''Royalties''), (WhtInterest, ''Interest''), (WhtContractual, ''Contractual''),
     (WhtDividends, ''Dividends''), (WhtInsurance, ''Insurance''), (WhtTransport, ''Transport'')]"

definition other_prefix :: string where
  "other_prefix = ''{'' @ quoted ''Other'' @ '':'' @ [CHR 0x22]"

definition sample_json_of_wht :: "wht_category \<Rightarrow> string" where
  "sample_json_of_wht w =
     (case w of WhtOther d \<Rightarrow> other_prefix @ d @ [CHR 0x22] @ ''}'' | _ \<Rightarrow> quoted (the (map_of unit_wht w)))"

definition sample_wht_of_json :: "string \<Rightarrow> wht_category option" where
  "sample_wht_of_json s =
     (case List.find (\<lambda>(w, n). quoted n = s) unit_wht of
        Some (w, n) \<Rightarrow> Some w
      | None \<Rightarrow>
          if take (length other_prefix) s \<noteq> other_prefix then None
          else (let d = drop (length other_prefix) s in Some (WhtOther (take (length d - 2) d))))"

definition sample_json :: json_lib where
  "sample_json = \<lparr>terms_of_json = sample_terms_of_json, json_of_terms = sample_json_of_terms,
     wht_of_json = sample_wht_of_json, json_of_wht = sample_json_of_wht\<rparr>"

lemma show_digits_no_comma: "0 \<le> n \<Longrightarrow> CHR '','' \<notin> set (show_digits n)"
proof (induction n rule: show_digits.induct)
  case (1 n)
  have "list_all (\<lambda>d. digit_char d \<noteq> CHR '','') [0, 1, 2, 3, 4, 5, 6, 7, 8, 9]"
    by code_simp
  then have d: "digit_char k \<noteq> CHR '',''" if "0 \<le> k" "k < 10" for k
    using small_digit [OF that] unfolding list_all_iff by blast
  show ?case
    using 1 d [of n] d [of "n mod 10"] by (cases "n < 10"; subst show_digits.simps) auto
qed

interpretation sample_json: json_laws sample_json
proof
  fix t w
  show "wht_of_json sample_json (json_of_wht sample_json w) = Some w"
    by (cases w) (simp_all add: sample_json_def sample_json_of_wht_def sample_wht_of_json_def unit_wht_def
        quoted_def other_prefix_def)
  show "terms_of_json sample_json (json_of_terms sample_json t) = Some t"
  proof (cases t)
    case (CustomTerms n d)
    have none: "List.find (\<lambda>u. sample_json_of_terms u = sample_json_of_terms t) unit_terms = None"
      unfolding CustomTerms by (simp add: unit_terms_def quoted_def custom_prefix_def)
    have digits: "takeWhile (\<lambda>c. c \<noteq> CHR '','') (show_nat n @ custom_middle @ d @ [CHR 0x22] @ ''}}'') = show_nat n"
      using show_digits_no_comma [of "int n"]
      by (subst takeWhile_append2) (auto simp: show_nat_def custom_middle_def)
    have readback: "nat (read_digits (show_nat n)) = n"
      by (simp add: show_nat_def read_digits_show)
    show ?thesis
      unfolding sample_json_def json_lib.simps sample_terms_of_json_def none option.case
      by (simp add: CustomTerms digits [simplified] readback Let_def)
  qed (simp_all add: sample_json_def sample_terms_of_json_def unit_terms_def quoted_def)
qed

section \<open>Rows\<close>

record party =
  pt_id :: uuid
  pt_entity_id :: uuid
  pt_name :: string
  pt_currency :: currency_code
  pt_payment_terms :: string
  pt_account :: account_code
  pt_is_active :: bool
  general_biz :: "uuid option"
  vat_biz :: "uuid option"

record customer = party +
  credit_limit :: "decimal option"

record vendor = party +
  vd_wht_category :: "string option"
  vd_resident :: bool
  vd_default_expense_account :: "account_code option"

record product =
  pd_id :: uuid
  pd_entity_id :: uuid
  pd_name :: string
  pd_product_type :: string
  pd_unit_price :: "decimal option"
  pd_currency :: currency_code
  pd_uom :: string
  pd_sales_account :: account_code
  pd_purchase_account :: account_code
  pd_vat_treatment :: string
  pd_track_inventory :: bool
  pd_inventory_item_id :: "uuid option"
  pd_is_active :: bool
  general_prod :: "uuid option"
  vat_prod :: "uuid option"

record posting_group =
  pg_id :: uuid
  pg_entity_id :: uuid
  pg_code :: string
  pg_name :: string

record business_group = posting_group +
  receivables_account :: "account_code option"
  payables_account :: "account_code option"

record general_matrix_row =
  gm_entity_id :: uuid
  gm_biz :: uuid
  gm_prod :: uuid
  gm_sales :: account_code
  gm_purchase :: account_code
  gm_cogs :: "account_code option"

record vat_matrix_row =
  vm_entity_id :: uuid
  vm_biz :: uuid
  vm_prod :: uuid
  vm_rate :: decimal
  vm_output :: account_code
  vm_input :: account_code

text \<open>\<open>doc_counters\<close> is the JSON object \<open>sequences\<close> of a tenant's settings row: the next number of
  every document series by its key.\<close>

record masters_db = stock_db +
  doc_counters :: "uuid \<Rightarrow> (string \<Rightarrow> nat) option"
  customers :: "customer list"
  vendors :: "vendor list"
  products :: "product list"
  general_business_groups :: "business_group list"
  general_product_groups :: "posting_group list"
  vat_business_groups :: "posting_group list"
  vat_product_groups :: "posting_group list"
  general_posting_matrix :: "general_matrix_row list"
  vat_posting_matrix :: "vat_matrix_row list"

definition find_customer :: "'a masters_db_scheme \<Rightarrow> uuid \<Rightarrow> uuid \<Rightarrow> customer option" where
  "find_customer db e i = List.find (\<lambda>c. pt_id c = i \<and> pt_entity_id c = e) (customers db)"

definition find_vendor :: "'a masters_db_scheme \<Rightarrow> uuid \<Rightarrow> uuid \<Rightarrow> vendor option" where
  "find_vendor db e i = List.find (\<lambda>c. pt_id c = i \<and> pt_entity_id c = e) (vendors db)"

definition find_product :: "'a masters_db_scheme \<Rightarrow> uuid \<Rightarrow> uuid \<Rightarrow> product option" where
  "find_product db e i = List.find (\<lambda>p. pd_id p = i \<and> pd_entity_id p = e) (products db)"

section \<open>Document numbers\<close>

text \<open>\<open>generate_invoice_number\<close> and its copies for credit notes, estimates, payments and bills: one
  statement advances the counter, and the year of the number is that of the document's date. The
  number always carries the year; the setting \<open>year_reset\<close> is not consulted.\<close>

definition next_doc_number ::
    "calendar \<Rightarrow> 'a masters_db_scheme \<Rightarrow> uuid \<Rightarrow> string \<Rightarrow> string \<Rightarrow> naive_date \<Rightarrow> (string \<times> 'a masters_db_scheme) erp_result" where
  "next_doc_number C db e key prefix date =
     (case doc_counters db e of
        None \<Rightarrow> Inl (Database ''no rows returned'')
      | Some f \<Rightarrow> Inr (format_number True prefix (fiscal_year_for_date C db e date) (f key),
            db\<lparr>doc_counters := (doc_counters db)(e := Some (f(key := f key + 1)))\<rparr>))"

definition generate_invoice_number where
  "generate_invoice_number C db e date =
     next_doc_number C db e ''invoice_next'' (invoice_prefix (sequences (configs db e))) date"

definition generate_credit_note_number where
  "generate_credit_note_number C db e date =
     next_doc_number C db e ''credit_note_next'' (credit_note_prefix (sequences (configs db e))) date"

definition generate_estimate_number where
  "generate_estimate_number C db e date =
     next_doc_number C db e ''estimate_next'' (estimate_prefix (sequences (configs db e))) date"

definition generate_payment_number where
  "generate_payment_number C db e date =
     next_doc_number C db e ''payment_next'' (payment_prefix (sequences (configs db e))) date"

section \<open>Posting groups\<close>

record general_posting =
  gp_sales :: account_code
  gp_purchase :: account_code
  gp_cogs :: account_code

record vat_posting =
  vp_rate :: decimal
  vp_output :: account_code
  vp_input :: account_code

definition resolve_general ::
    "'a masters_db_scheme \<Rightarrow> uuid \<Rightarrow> uuid option \<Rightarrow> uuid option \<Rightarrow> general_posting option" where
  "resolve_general db e biz pgrp =
     (case (biz, pgrp) of
        (Some b, Some p) \<Rightarrow>
          map_option (\<lambda>r. \<lparr>gp_sales = gm_sales r, gp_purchase = gm_purchase r, gp_cogs = unwrap_or (gm_cogs r) []\<rparr>)
            (List.find (\<lambda>r. gm_entity_id r = e \<and> gm_biz r = b \<and> gm_prod r = p) (general_posting_matrix db))
      | _ \<Rightarrow> None)"

definition resolve_vat ::
    "'a masters_db_scheme \<Rightarrow> uuid \<Rightarrow> uuid option \<Rightarrow> uuid option \<Rightarrow> vat_posting option" where
  "resolve_vat db e biz pgrp =
     (case (biz, pgrp) of
        (Some b, Some p) \<Rightarrow>
          map_option (\<lambda>r. \<lparr>vp_rate = vm_rate r, vp_output = vm_output r, vp_input = vm_input r\<rparr>)
            (List.find (\<lambda>r. vm_entity_id r = e \<and> vm_biz r = b \<and> vm_prod r = p) (vat_posting_matrix db))
      | _ \<Rightarrow> None)"

definition customer_general_biz :: "'a masters_db_scheme \<Rightarrow> uuid \<Rightarrow> uuid \<Rightarrow> uuid option" where
  "customer_general_biz db e c = Option.bind (find_customer db e c) general_biz"

definition vendor_general_biz :: "'a masters_db_scheme \<Rightarrow> uuid \<Rightarrow> uuid \<Rightarrow> uuid option" where
  "vendor_general_biz db e v = Option.bind (find_vendor db e v) general_biz"

definition product_general_group :: "'a masters_db_scheme \<Rightarrow> uuid \<Rightarrow> uuid \<Rightarrow> uuid option" where
  "product_general_group db e p = Option.bind (find_product db e p) general_prod"

definition customer_vat_biz :: "'a masters_db_scheme \<Rightarrow> uuid \<Rightarrow> uuid \<Rightarrow> uuid option" where
  "customer_vat_biz db e c = Option.bind (find_customer db e c) vat_biz"

definition vendor_vat_biz :: "'a masters_db_scheme \<Rightarrow> uuid \<Rightarrow> uuid \<Rightarrow> uuid option" where
  "vendor_vat_biz db e v = Option.bind (find_vendor db e v) vat_biz"

definition product_vat_group :: "'a masters_db_scheme \<Rightarrow> uuid \<Rightarrow> uuid \<Rightarrow> uuid option" where
  "product_vat_group db e p = Option.bind (find_product db e p) vat_prod"

text \<open>\<open>filter(|a| !a.is_empty())\<close>.\<close>

definition non_empty :: "string option \<Rightarrow> string option" where
  "non_empty x = (case x of None \<Rightarrow> None | Some s \<Rightarrow> if s = [] then None else Some s)"

definition find_business_group :: "'a masters_db_scheme \<Rightarrow> uuid \<Rightarrow> uuid \<Rightarrow> business_group option" where
  "find_business_group db e i = List.find (\<lambda>g. pg_id g = i \<and> pg_entity_id g = e) (general_business_groups db)"

definition resolve_receivables :: "'a masters_db_scheme \<Rightarrow> uuid \<Rightarrow> uuid \<Rightarrow> account_code option" where
  "resolve_receivables db e c = Option.bind (customer_general_biz db e c) (\<lambda>b.
     non_empty (Option.bind (find_business_group db e b) receivables_account))"

definition resolve_payables :: "'a masters_db_scheme \<Rightarrow> uuid \<Rightarrow> uuid \<Rightarrow> account_code option" where
  "resolve_payables db e v = Option.bind (vendor_general_biz db e v) (\<lambda>b.
     non_empty (Option.bind (find_business_group db e b) payables_account))"

definition resolve_vat_output :: "'a masters_db_scheme \<Rightarrow> uuid \<Rightarrow> uuid \<Rightarrow> uuid option \<Rightarrow> account_code option" where
  "resolve_vat_output db e c p = non_empty (map_option vp_output
     (resolve_vat db e (customer_vat_biz db e c) (Option.bind p (product_vat_group db e))))"

definition resolve_vat_input :: "'a masters_db_scheme \<Rightarrow> uuid \<Rightarrow> uuid \<Rightarrow> uuid option \<Rightarrow> account_code option" where
  "resolve_vat_input db e v p = non_empty (map_option vp_input
     (resolve_vat db e (vendor_vat_biz db e v) (Option.bind p (product_vat_group db e))))"

text \<open>The control accounts of a party, with the flat setup as the fallback.\<close>

definition ar_account :: "'a masters_db_scheme \<Rightarrow> uuid \<Rightarrow> uuid \<Rightarrow> account_code" where
  "ar_account db e c = unwrap_or (resolve_receivables db e c) (accounts_receivable (posting (configs db e)))"

definition ap_account :: "'a masters_db_scheme \<Rightarrow> uuid \<Rightarrow> uuid \<Rightarrow> account_code" where
  "ap_account db e v = unwrap_or (resolve_payables db e v) (accounts_payable (posting (configs db e)))"

definition vat_output_account :: "'a masters_db_scheme \<Rightarrow> uuid \<Rightarrow> uuid \<Rightarrow> uuid option \<Rightarrow> account_code" where
  "vat_output_account db e c p = unwrap_or (resolve_vat_output db e c p) (vat_output (posting (configs db e)))"

subsection \<open>Seeding\<close>

definition group_id :: "posting_group list \<Rightarrow> uuid \<Rightarrow> string \<Rightarrow> uuid option" where
  "group_id gs e code = map_option pg_id (List.find (\<lambda>g. pg_entity_id g = e \<and> pg_code g = code) gs)"

definition biz_group_id :: "business_group list \<Rightarrow> uuid \<Rightarrow> string \<Rightarrow> uuid option" where
  "biz_group_id gs e code = map_option pg_id (List.find (\<lambda>g. pg_entity_id g = e \<and> pg_code g = code) gs)"

definition default_party_groups :: "uuid \<Rightarrow> uuid \<Rightarrow> uuid \<Rightarrow> 'a party_scheme \<Rightarrow> 'a party_scheme" where
  "default_party_groups e gb vb c =
     (if pt_entity_id c = e \<and> general_biz c = None then c\<lparr>general_biz := Some gb, vat_biz := Some vb\<rparr> else c)"

definition default_product_groups :: "uuid \<Rightarrow> string \<Rightarrow> uuid \<Rightarrow> uuid \<Rightarrow> product \<Rightarrow> product" where
  "default_product_groups e ty g v p =
     (if pd_entity_id p = e \<and> general_prod p = None \<and> pd_product_type p = ty
      then p\<lparr>general_prod := Some g, vat_prod := Some v\<rparr> else p)"

definition assign_groups :: "uuid \<Rightarrow> uuid \<Rightarrow> uuid \<Rightarrow> uuid \<Rightarrow> uuid \<Rightarrow> uuid \<Rightarrow> 'a masters_db_scheme \<Rightarrow> 'a masters_db_scheme" where
  "assign_groups e gb vb goods services std db =
     db\<lparr>customers := map (default_party_groups e gb vb) (customers db),
        vendors := map (default_party_groups e gb vb) (vendors db),
        products := map (default_product_groups e ''Service'' services std)
          (map (default_product_groups e ''Goods'' goods std) (products db))\<rparr>"

definition assign_default_groups :: "'a masters_db_scheme \<Rightarrow> uuid \<Rightarrow> 'a masters_db_scheme" where
  "assign_default_groups db e =
     (case (biz_group_id (general_business_groups db) e ''DOMESTIC'', group_id (vat_business_groups db) e ''STD'',
            group_id (general_product_groups db) e ''GOODS'', group_id (general_product_groups db) e ''SERVICES'',
            group_id (vat_product_groups db) e ''STD16'') of
        (Some gb, Some vb, Some goods, Some services, Some std) \<Rightarrow> assign_groups e gb vb goods services std db
      | _ \<Rightarrow> db)"

definition pgroup :: "uuid \<Rightarrow> uuid \<Rightarrow> string \<Rightarrow> string \<Rightarrow> posting_group" where
  "pgroup i e code name = \<lparr>pg_id = i, pg_entity_id = e, pg_code = code, pg_name = name\<rparr>"

definition seed_groups :: "environment \<Rightarrow> 'a masters_db_scheme \<Rightarrow> uuid \<Rightarrow> 'a masters_db_scheme" where
  "seed_groups E db e =
     (let ps = posting (configs db e); gb = uuids E 0; goods = uuids E 1; services = uuids E 2;
          vb = uuids E 3; std = uuids E 4; zero = uuids E 5; exempt = uuids E 6;
          gm = (\<lambda>pg sales cogs. \<lparr>gm_entity_id = e, gm_biz = gb, gm_prod = pg, gm_sales = sales,
                 gm_purchase = default_purchase ps, gm_cogs = Some cogs\<rparr>);
          vm = (\<lambda>pg rate. \<lparr>vm_entity_id = e, vm_biz = vb, vm_prod = pg, vm_rate = rate,
                 vm_output = vat_output ps, vm_input = vat_input ps\<rparr>);
          db1 = db\<lparr>general_business_groups := general_business_groups db @
              [\<lparr>pg_id = gb, pg_entity_id = e, pg_code = ''DOMESTIC'', pg_name = ''Domestic'',
                receivables_account = Some (accounts_receivable ps), payables_account = Some (accounts_payable ps)\<rparr>],
            general_product_groups := general_product_groups db @
              [pgroup goods e ''GOODS'' ''Goods'', pgroup services e ''SERVICES'' ''Services''],
            general_posting_matrix := general_posting_matrix db @
              [gm goods ''5000'' (cost_of_goods_sold ps), gm services (default_sales ps) []],
            vat_business_groups := vat_business_groups db @ [pgroup vb e ''STD'' ''Standard (VAT registered)''],
            vat_product_groups := vat_product_groups db @
              [pgroup std e ''STD16'' ''Standard 16%'', pgroup zero e ''ZERO'' ''Zero-rated'',
               pgroup exempt e ''EXEMPT'' ''Exempt''],
            vat_posting_matrix := vat_posting_matrix db @ [vm std (16 / 100), vm zero 0, vm exempt 0]\<rparr>
      in assign_groups e gb vb goods services std db1)"

definition backfill_control_accounts :: "posting_setup \<Rightarrow> uuid \<Rightarrow> business_group \<Rightarrow> business_group" where
  "backfill_control_accounts ps e g =
     (if pg_entity_id g = e \<and> pg_code g = ''DOMESTIC''
        \<and> (receivables_account g = None \<or> payables_account g = None)
      then g\<lparr>receivables_account := Some (unwrap_or (receivables_account g) (accounts_receivable ps)),
             payables_account := Some (unwrap_or (payables_account g) (accounts_payable ps))\<rparr> else g)"

definition ensure_default_posting_groups :: "environment \<Rightarrow> 'a masters_db_scheme \<Rightarrow> uuid \<Rightarrow> 'a masters_db_scheme" where
  "ensure_default_posting_groups E db e =
     (let db1 = (if filter (\<lambda>g. pg_entity_id g = e) (general_business_groups db) = [] then seed_groups E db e else db);
          db2 = assign_default_groups db1 e
      in db2\<lparr>general_business_groups :=
           map (backfill_control_accounts (posting (configs db2 e)) e) (general_business_groups db2)\<rparr>)"

section \<open>Parties\<close>

record create_customer_request =
  cc_name :: string
  cc_currency :: "currency_code option"
  cc_payment_terms :: "payment_terms option"
  cc_credit_limit :: "decimal option"
  cc_ar_account :: "account_code option"

definition create_customer ::
    "json_lib \<Rightarrow> environment \<Rightarrow> 'a masters_db_scheme \<Rightarrow> uuid \<Rightarrow> create_customer_request
      \<Rightarrow> uuid \<times> 'a masters_db_scheme" where
  "create_customer J E db e req =
     (uuids E 0, db\<lparr>customers := customers db @
        [\<lparr>pt_id = uuids E 0, pt_entity_id = e, pt_name = cc_name req,
          pt_currency = unwrap_or (cc_currency req) (base_currency (configs db e)),
          pt_payment_terms = json_of_terms J (unwrap_or (cc_payment_terms req) Net30),
          pt_account = unwrap_or (cc_ar_account req) (accounts_receivable (posting (configs db e))),
          pt_is_active = True, general_biz = None, vat_biz = None, credit_limit = cc_credit_limit req\<rparr>]\<rparr>)"

record create_vendor_request =
  cv_name :: string
  cv_currency :: "currency_code option"
  cv_payment_terms :: "payment_terms option"
  cv_wht_category :: "wht_category option"
  cv_resident :: "bool option"
  cv_ap_account :: "account_code option"
  cv_default_expense_account :: "account_code option"

definition create_vendor ::
    "json_lib \<Rightarrow> environment \<Rightarrow> 'a masters_db_scheme \<Rightarrow> uuid \<Rightarrow> create_vendor_request
      \<Rightarrow> uuid \<times> 'a masters_db_scheme" where
  "create_vendor J E db e req =
     (uuids E 0, db\<lparr>vendors := vendors db @
        [\<lparr>pt_id = uuids E 0, pt_entity_id = e, pt_name = cv_name req,
          pt_currency = unwrap_or (cv_currency req) (base_currency (configs db e)),
          pt_payment_terms = json_of_terms J (unwrap_or (cv_payment_terms req) Net30),
          pt_account = unwrap_or (cv_ap_account req) (accounts_payable (posting (configs db e))),
          pt_is_active = True, general_biz = None, vat_biz = None,
          vd_wht_category = map_option (json_of_wht J) (cv_wht_category req), vd_resident = unwrap_or (cv_resident req) True,
          vd_default_expense_account = cv_default_expense_account req\<rparr>]\<rparr>)"

end
