(* ===== verification/Catalog.thy ===== *)
theory Catalog
  imports Masters
begin

text \<open>
  \<^verbatim>\<open>zavora-erp-core/src/services/catalog.rs\<close>: products, the stock item behind a tracked product, and
  opening stock. The operations commit in several steps, so they return the state beside the
  result: a product whose stock item cannot be created stays behind.
\<close>

datatype product_type_t = PtService | PtGoods | PtExpense

fun product_type_text :: "product_type_t \<Rightarrow> string" where
  "product_type_text PtService = ''Service''"
| "product_type_text PtGoods = ''Goods''"
| "product_type_text PtExpense = ''Expense''"

fun vat_treatment_text :: "vat_treatment \<Rightarrow> string" where
  "vat_treatment_text Standard16 = ''Standard16''"
| "vat_treatment_text Petroleum8 = ''Petroleum8''"
| "vat_treatment_text ZeroRated = ''ZeroRated''"
| "vat_treatment_text Exempt = ''Exempt''"
| "vat_treatment_text OutOfScope = ''OutOfScope''"

definition all_vat_treatments :: "vat_treatment list" where
  "all_vat_treatments = [Standard16, Petroleum8, ZeroRated, Exempt, OutOfScope]"

text \<open>The bare name read back as the enum, with the fallback of every reader of the column.\<close>

definition vat_treatment_of :: "string \<Rightarrow> vat_treatment" where
  "vat_treatment_of s = unwrap_or (List.find (\<lambda>v. vat_treatment_text v = s) all_vat_treatments) Standard16"

lemma vat_treatment_roundtrip [simp]: "vat_treatment_of (vat_treatment_text v) = v"
  by (cases v) (simp_all add: vat_treatment_of_def all_vat_treatments_def)

record create_product_request =
  cp_name :: string
  cp_product_type :: product_type_t
  cp_unit_price :: "decimal option"
  cp_currency :: "currency_code option"
  cp_uom :: "string option"
  cp_sales_account :: "account_code option"
  cp_purchase_account :: "account_code option"
  cp_vat_treatment :: "vat_treatment option"
  cp_track_inventory :: "bool option"
  cp_sku :: "string option"
  cp_opening_stock :: "decimal option"
  cp_opening_unit_cost :: "decimal option"

definition new_product :: "erp_config \<Rightarrow> uuid \<Rightarrow> uuid \<Rightarrow> create_product_request \<Rightarrow> product" where
  "new_product cfg i e req =
     \<lparr>pd_id = i, pd_entity_id = e, pd_name = cp_name req,
      pd_product_type = product_type_text (cp_product_type req), pd_unit_price = cp_unit_price req,
      pd_currency = unwrap_or (cp_currency req) (base_currency cfg), pd_uom = unwrap_or (cp_uom req) ''Each'',
      pd_sales_account = unwrap_or (cp_sales_account req) (default_sales (posting cfg)),
      pd_purchase_account = unwrap_or (cp_purchase_account req) (default_purchase (posting cfg)),
      pd_vat_treatment = vat_treatment_text (unwrap_or (cp_vat_treatment req) Standard16),
      pd_track_inventory = unwrap_or (cp_track_inventory req) False, pd_inventory_item_id = None,
      pd_is_active = True, general_prod = None, vat_prod = None\<rparr>"

definition link_product :: "uuid \<Rightarrow> uuid \<Rightarrow> uuid \<Rightarrow> 'a masters_db_scheme \<Rightarrow> 'a masters_db_scheme" where
  "link_product e i item db = db\<lparr>products := map (\<lambda>p. if pd_id p = i \<and> pd_entity_id p = e
     then p\<lparr>pd_inventory_item_id := Some item\<rparr> else p) (products db)\<rparr>"

definition stock_item_request :: "string \<Rightarrow> string \<Rightarrow> string \<Rightarrow> uuid \<Rightarrow> create_item_request" where
  "stock_item_request sku name uom product =
     \<lparr>ci_sku = sku, ci_description = name, ci_uom = Some uom, ci_costing_method = None,
      ci_gl_inventory = None, ci_gl_cogs = None, ci_reorder_point = None, ci_reorder_quantity = None,
      ci_product_id = Some product, ci_warehouse_id = None\<rparr>"

text \<open>The first fresh id is the product's; the item draws from the even part of the rest, the opening
  stock from the odd part.\<close>

definition create_product ::
    "decimal_lib \<Rightarrow> calendar \<Rightarrow> environment \<Rightarrow> 'a masters_db_scheme \<Rightarrow> uuid \<Rightarrow> create_product_request
      \<Rightarrow> agent_or_user_id \<Rightarrow> 'a masters_db_scheme \<times> uuid erp_result" where
  "create_product L C E db e req by' =
     (let i = uuids (evens E) 0; p = new_product (configs db e) i e req;
          tracked = pd_track_inventory p;
          sku = map_option trim (non_blank (cp_sku req));
          qty = unwrap_or (cp_opening_stock req) 0; cost = unwrap_or (cp_opening_unit_cost req) 0 in
      if tracked \<and> sku = None
      then (db, Inl (ValidationFailed ''SKU is required for an inventory-tracked product''))
      else if qty < 0 then (db, Inl (ValidationFailed ''Opening stock cannot be negative''))
      else if 0 < qty \<and> cost \<le> 0
      then (db, Inl (ValidationFailed ''Opening stock needs a unit cost - stock without a cost corrupts weighted-average costing''))
      else
        (let db1 = db\<lparr>products := products db @ [p]\<rparr> in
         if \<not> tracked then (db1, Inr i)
         else
           (case create_item (evens (odds E)) db1 e (stock_item_request (the sku) (cp_name req) (pd_uom p) i) of
              Inl err \<Rightarrow> (db1, Inl err)
            | Inr (item, db2) \<Rightarrow>
                (let db3 = link_product e i item db2 in
                 if 0 < qty
                 then (case post_opening_stock L C (odds (odds E)) db3 e item qty cost by' of
                         Inl err \<Rightarrow> (db3, Inl err) | Inr db4 \<Rightarrow> (db4, Inr i))
                 else (db3, Inr i)))))"

definition link_inventory_item ::
    "environment \<Rightarrow> 'a masters_db_scheme \<Rightarrow> uuid \<Rightarrow> uuid \<Rightarrow> string \<Rightarrow> (uuid \<times> 'a masters_db_scheme) erp_result" where
  "link_inventory_item E db e i sku =
     and_then (ok_or (find_product db e i) (Database ''no rows returned'')) (\<lambda>p.
     and_then (create_item E db e (stock_item_request sku (pd_name p) (pd_uom p) i)) (\<lambda>(item, db1).
       Inr (item, link_product e i item db1)))"

end
