(* ===== verification/Invoice_Data.thy ===== *)
theory Invoice_Data
  imports Catalog
begin

text \<open>
  Invoices, credit notes and their lines: \<^verbatim>\<open>zavora-erp-core/src/invoicing/invoice.rs\<close>,
  \<^verbatim>\<open>invoicing/line.rs\<close>, \<^verbatim>\<open>invoicing/credit_note.rs\<close>, \<^verbatim>\<open>invoicing/estimate.rs\<close>, and how
  \<^verbatim>\<open>services/invoicing.rs\<close> resolves a requested line from the catalog and totals a document. The
  state extends the master data by the tables of the documents.
\<close>

section \<open>Lines\<close>

record invoice_line =
  il_id :: uuid
  il_product_id :: "uuid option"
  il_description :: string
  il_quantity :: decimal
  il_unit_price :: decimal
  il_discount_percent :: decimal
  il_account_code :: account_code
  il_vat_treatment :: vat_treatment
  il_line_total :: decimal
  il_vat_amount :: decimal
  il_dimensions :: dimension_map

definition line_gross :: "invoice_line \<Rightarrow> decimal" where
  "line_gross l = il_quantity l * il_unit_price l"

definition line_discount :: "decimal_lib \<Rightarrow> invoice_line \<Rightarrow> decimal" where
  "line_discount L l = div_dec L (line_gross l * il_discount_percent l) 100"

definition compute_line_totals :: "decimal_lib \<Rightarrow> invoice_line \<Rightarrow> invoice_line" where
  "compute_line_totals L l =
     (let t = round_money L (line_gross l - line_discount L l) in
      l\<lparr>il_line_total := t, il_vat_amount := round_money L (t * vat_rate (il_vat_treatment l))\<rparr>)"

record line_request =
  lq_product_id :: "uuid option"
  lq_description :: "string option"
  lq_quantity :: decimal
  lq_unit_price :: "decimal option"
  lq_discount_percent :: "decimal option"
  lq_account_code :: "account_code option"
  lq_vat_treatment :: "vat_treatment option"
  lq_dimensions :: "dimension_map option"

text \<open>The account of a product line: the request, else the posting matrix, else the product.\<close>

definition derived_sales ::
    "'a masters_db_scheme \<Rightarrow> uuid \<Rightarrow> uuid option \<Rightarrow> uuid \<Rightarrow> account_code option" where
  "derived_sales db e cust p =
     non_empty (map_option gp_sales
       (resolve_general db e (Option.bind cust (customer_general_biz db e)) (product_general_group db e p)))"

definition resolve_invoice_line ::
    "'a masters_db_scheme \<Rightarrow> uuid \<Rightarrow> uuid option \<Rightarrow> uuid \<Rightarrow> line_request \<Rightarrow> invoice_line erp_result" where
  "resolve_invoice_line db e cust i req =
     (case lq_product_id req of
        Some p \<Rightarrow>
          and_then (ok_or (find_product db e p) (NotFound ''Product'' p)) (\<lambda>pr.
            Inr \<lparr>il_id = i, il_product_id = Some p,
                 il_description = unwrap_or (lq_description req) (pd_name pr), il_quantity = lq_quantity req,
                 il_unit_price = unwrap_or (lq_unit_price req) (unwrap_or (pd_unit_price pr) 0),
                 il_discount_percent = unwrap_or (lq_discount_percent req) 0,
                 il_account_code = unwrap_or (coalesce (lq_account_code req) (derived_sales db e cust p))
                   (pd_sales_account pr),
                 il_vat_treatment = unwrap_or (lq_vat_treatment req) (vat_treatment_of (pd_vat_treatment pr)),
                 il_line_total = 0, il_vat_amount = 0, il_dimensions = unwrap_or (lq_dimensions req) []\<rparr>)
      | None \<Rightarrow>
          Inr \<lparr>il_id = i, il_product_id = None, il_description = unwrap_or (lq_description req) [],
               il_quantity = lq_quantity req, il_unit_price = unwrap_or (lq_unit_price req) 0,
               il_discount_percent = unwrap_or (lq_discount_percent req) 0,
               il_account_code = unwrap_or (lq_account_code req) (default_sales (posting (configs db e))),
               il_vat_treatment = unwrap_or (lq_vat_treatment req) Standard16,
               il_line_total = 0, il_vat_amount = 0, il_dimensions = unwrap_or (lq_dimensions req) []\<rparr>)"

text \<open>The loop over the requested lines: the \<open>k\<close>-th takes the fresh id \<open>k + 1\<close>, the document the
  first one.\<close>

definition resolve_lines ::
    "decimal_lib \<Rightarrow> environment \<Rightarrow> 'a masters_db_scheme \<Rightarrow> uuid \<Rightarrow> uuid option \<Rightarrow> line_request list
      \<Rightarrow> invoice_line list erp_result" where
  "resolve_lines L E db e cust reqs =
     try_map (\<lambda>(k, r). and_then (resolve_invoice_line db e cust (uuids E (k + 1)) r)
       (\<lambda>l. Inr (compute_line_totals L l))) (enumerate 0 reqs)"

definition lines_subtotal :: "invoice_line list \<Rightarrow> decimal" where
  "lines_subtotal ls = sum_list (map il_line_total ls)"

definition lines_tax :: "invoice_line list \<Rightarrow> decimal" where
  "lines_tax ls = sum_list (map il_vat_amount ls)"

definition lines_discount :: "decimal_lib \<Rightarrow> invoice_line list \<Rightarrow> decimal" where
  "lines_discount L ls = sum_list (map (\<lambda>l. round_money L (line_discount L l)) ls)"

section \<open>Documents\<close>

datatype invoice_type = TypeInvoice | TypeCreditNote

text \<open>The texts of the column \<open>status\<close>: the variants of \<open>InvoiceStatus\<close>, and \<open>written_off\<close>, which
  \<open>write_off_invoice\<close> stores and the enumeration lacks.\<close>

datatype invoice_status =
    IvDraft | IvPosted | IvSent | IvViewed | IvPartiallyPaid | IvPaid | IvOverdue | IvVoided | IvWrittenOff

record invoice_head =
  iv_id :: uuid
  iv_entity_id :: uuid
  iv_number :: string
  iv_type :: invoice_type
  iv_customer_id :: uuid
  iv_issue_date :: naive_date
  iv_due_date :: naive_date
  iv_currency :: currency_code
  iv_fx_rate :: decimal
  iv_source_estimate :: "uuid option"
  iv_credit_note_for :: "uuid option"
  iv_template_id :: "uuid option"
  iv_notes :: "string option"

record invoice = invoice_head +
  iv_subtotal :: decimal
  iv_discount_total :: decimal
  iv_tax_total :: decimal
  iv_gross_total :: decimal
  iv_amount_paid :: decimal
  iv_balance_due :: decimal
  iv_status :: invoice_status
  iv_journal_entry_id :: "uuid option"
  iv_sent_at :: "timestamp option"
  iv_paid_at :: "timestamp option"
  iv_etims_status :: string
  iv_etims_number :: "string option"

record invoice_line_row =
  ilr_invoice_id :: uuid
  ilr_line :: invoice_line

record tax_line =
  tx_vat_treatment :: vat_treatment
  tx_taxable_amount :: decimal
  tx_tax_amount :: decimal

text \<open>The methods of \<open>Invoice\<close>. \<open>rebuild_tax_lines\<close> collects in a hash map, whose order is not
  specified; the model takes the order of first occurrence.\<close>

definition rebuild_tax_lines :: "invoice_line list \<Rightarrow> tax_line list" where
  "rebuild_tax_lines ls = map (\<lambda>v.
     \<lparr>tx_vat_treatment = v,
      tx_taxable_amount = sum_where (\<lambda>l. il_vat_treatment l = v) il_line_total ls,
      tx_tax_amount = sum_where (\<lambda>l. il_vat_treatment l = v) il_vat_amount ls\<rparr>)
     (remdups (map il_vat_treatment ls))"

definition recalculate_invoice :: "decimal_lib \<Rightarrow> invoice_line list \<Rightarrow> invoice \<Rightarrow> invoice \<times> tax_line list" where
  "recalculate_invoice L ls i =
     (let gross = lines_subtotal ls + lines_tax ls in
      (i\<lparr>iv_subtotal := lines_subtotal ls, iv_tax_total := lines_tax ls,
         iv_discount_total := sum_list (map (line_discount L) ls), iv_gross_total := gross,
         iv_balance_due := gross - iv_amount_paid i\<rparr>, rebuild_tax_lines ls))"

definition is_overdue :: "naive_date \<Rightarrow> invoice \<Rightarrow> bool" where
  "is_overdue d i \<longleftrightarrow> 0 < iv_balance_due i \<and> iv_due_date i < d \<and> iv_status i \<noteq> IvPaid \<and> iv_status i \<noteq> IvVoided"

definition update_payment_status :: "timestamp \<Rightarrow> invoice \<Rightarrow> invoice" where
  "update_payment_status t i =
     (if iv_balance_due i \<le> 0 then i\<lparr>iv_status := IvPaid, iv_paid_at := Some t\<rparr>
      else if 0 < iv_amount_paid i then i\<lparr>iv_status := IvPartiallyPaid\<rparr> else i)"

datatype estimate_status = EsDraft | EsSent | EsAccepted | EsDeclined | EsExpired | EsConverted

record estimate =
  es_id :: uuid
  es_entity_id :: uuid
  es_number :: string
  es_customer_id :: uuid
  es_issue_date :: naive_date
  es_expiry_date :: naive_date
  es_currency :: currency_code
  es_fx_rate :: decimal
  es_subtotal :: decimal
  es_tax_total :: decimal
  es_gross_total :: decimal
  es_status :: estimate_status
  es_converted_to :: "uuid option"
  es_notes :: "string option"
  es_template_id :: "uuid option"

definition is_expired :: "naive_date \<Rightarrow> estimate \<Rightarrow> bool" where
  "is_expired d s \<longleftrightarrow> es_expiry_date s < d \<and> es_status s \<noteq> EsAccepted \<and> es_status s \<noteq> EsConverted"

record estimate_line_row =
  esr_estimate_id :: uuid
  esr_line :: invoice_line

record sales_db = masters_db +
  invoices :: "invoice list"
  invoice_lines :: "invoice_line_row list"
  estimates :: "estimate list"
  estimate_lines :: "estimate_line_row list"

definition find_invoice :: "'a sales_db_scheme \<Rightarrow> uuid \<Rightarrow> uuid \<Rightarrow> invoice option" where
  "find_invoice db e i = List.find (\<lambda>x. iv_id x = i \<and> iv_entity_id x = e) (invoices db)"

definition lines_of :: "'a sales_db_scheme \<Rightarrow> uuid \<Rightarrow> invoice_line list" where
  "lines_of db i = map ilr_line (filter (\<lambda>r. ilr_invoice_id r = i) (invoice_lines db))"

text \<open>The statements on \<open>invoices\<close>: updates name the primary key only.\<close>

definition update_invoice :: "uuid \<Rightarrow> (invoice \<Rightarrow> invoice) \<Rightarrow> 'a sales_db_scheme \<Rightarrow> 'a sales_db_scheme" where
  "update_invoice i f db = db\<lparr>invoices := map (\<lambda>x. if iv_id x = i then f x else x) (invoices db)\<rparr>"

text \<open>The insert of a header with its lines: primary key and \<open>UNIQUE(entity_id, number)\<close>.\<close>

definition insert_invoice ::
    "invoice \<Rightarrow> invoice_line list \<Rightarrow> 'a sales_db_scheme \<Rightarrow> 'a sales_db_scheme erp_result" where
  "insert_invoice r ls db =
     (if \<exists>x \<in> set (invoices db). iv_id x = iv_id r \<or> (iv_entity_id x = iv_entity_id r \<and> iv_number x = iv_number r)
      then Inl (Database ''duplicate key value violates unique constraint'')
      else Inr (db\<lparr>invoices := invoices db @ [r],
                   invoice_lines := invoice_lines db @ map (\<lambda>l. \<lparr>ilr_invoice_id = iv_id r, ilr_line = l\<rparr>) ls\<rparr>))"

end
