(* ===== verification/Invoicing.thy ===== *)
theory Invoicing
  imports Invoice_Data
begin

text \<open>
  The operations of \<^verbatim>\<open>zavora-erp-core/src/services/invoicing.rs\<close> on invoices and credit notes:
  drafts, posting to the ledger with the issue of stock, credit notes with the return of stock,
  write-off, and the stamps for delivery and for the tax authority. A document number is drawn,
  and the default posting groups are created, before the transaction that inserts the document, so
  \<open>create_invoice\<close> and \<open>create_credit_note\<close> return the state beside the result. Notifications, the
  transmission to the tax authority and the rendering of documents are not modelled.
\<close>

section \<open>Drafts\<close>

record create_invoice_request =
  vq_customer_id :: uuid
  vq_issue_date :: "naive_date option"
  vq_due_date :: "naive_date option"
  vq_currency :: "currency_code option"
  vq_fx_rate :: "decimal option"
  vq_lines :: "line_request list"
  vq_template_id :: "uuid option"
  vq_notes :: "string option"

definition new_invoice ::
    "decimal_lib \<Rightarrow> uuid \<Rightarrow> uuid \<Rightarrow> string \<Rightarrow> customer \<Rightarrow> json_lib \<Rightarrow> naive_date \<Rightarrow> create_invoice_request
      \<Rightarrow> invoice_line list \<Rightarrow> invoice" where
  "new_invoice L i e number cust J now_date req ls =
     (let issue = unwrap_or (vq_issue_date req) now_date;
          gross = round_money L (lines_subtotal ls + lines_tax ls) in
      \<lparr>iv_id = i, iv_entity_id = e, iv_number = number, iv_type = TypeInvoice,
       iv_customer_id = vq_customer_id req, iv_issue_date = issue,
       iv_due_date = unwrap_or (vq_due_date req) (terms_due_date (parse_stored J (pt_payment_terms cust)) issue),
       iv_currency = unwrap_or (vq_currency req) (pt_currency cust), iv_fx_rate = unwrap_or (vq_fx_rate req) 1,
       iv_source_estimate = None, iv_credit_note_for = None, iv_template_id = vq_template_id req,
       iv_notes = vq_notes req, iv_subtotal = lines_subtotal ls, iv_discount_total = lines_discount L ls,
       iv_tax_total = lines_tax ls, iv_gross_total = gross, iv_amount_paid = 0, iv_balance_due = gross,
       iv_status = IvDraft, iv_journal_entry_id = None, iv_sent_at = None, iv_paid_at = None,
       iv_etims_status = ''not_transmitted'', iv_etims_number = None\<rparr>)"

definition create_invoice ::
    "json_lib \<Rightarrow> decimal_lib \<Rightarrow> calendar \<Rightarrow> environment \<Rightarrow> 'a sales_db_scheme \<Rightarrow> uuid \<Rightarrow> create_invoice_request
      \<Rightarrow> 'a sales_db_scheme \<times> (invoice \<times> invoice_line list) erp_result" where
  "create_invoice J L C E db e req =
     (case find_customer db e (vq_customer_id req) of
        None \<Rightarrow> (db, Inl (NotFound ''Customer'' (vq_customer_id req)))
      | Some cust \<Rightarrow>
          (let db1 = ensure_default_posting_groups (evens E) db e in
           case resolve_lines L (odds E) db1 e (Some (vq_customer_id req)) (vq_lines req) of
             Inl err \<Rightarrow> (db1, Inl err)
           | Inr ls \<Rightarrow>
               (case generate_invoice_number C db1 e (unwrap_or (vq_issue_date req) (today E)) of
                  Inl err \<Rightarrow> (db1, Inl err)
                | Inr (number, db2) \<Rightarrow>
                    (let doc = new_invoice L (uuids (odds E) 0) e number cust J (today E) req ls in
                     case insert_invoice doc ls db2 of
                       Inl err \<Rightarrow> (db2, Inl err)
                     | Inr db3 \<Rightarrow> (db3, Inr (doc, ls))))))"

text \<open>Editing a draft: header and totals are restated, the lines replaced. The total is not rounded
  again and the discounts are not rounded here, unlike at creation.\<close>

definition redrafted ::
    "decimal_lib \<Rightarrow> customer \<Rightarrow> json_lib \<Rightarrow> naive_date \<Rightarrow> create_invoice_request \<Rightarrow> invoice_line list \<Rightarrow> invoice \<Rightarrow> invoice" where
  "redrafted L cust J now_date req ls doc =
     (let issue = unwrap_or (vq_issue_date req) now_date; gross = lines_subtotal ls + lines_tax ls in
      doc\<lparr>iv_customer_id := vq_customer_id req, iv_issue_date := issue,
          iv_due_date := unwrap_or (vq_due_date req) (terms_due_date (parse_stored J (pt_payment_terms cust)) issue),
          iv_currency := unwrap_or (vq_currency req) (pt_currency cust), iv_fx_rate := unwrap_or (vq_fx_rate req) 1,
          iv_notes := vq_notes req, iv_subtotal := lines_subtotal ls,
          iv_discount_total := sum_list (map (line_discount L) ls), iv_tax_total := lines_tax ls,
          iv_gross_total := gross, iv_balance_due := gross\<rparr>)"

definition replace_lines :: "uuid \<Rightarrow> invoice_line list \<Rightarrow> invoice_line_row list \<Rightarrow> invoice_line_row list" where
  "replace_lines i ls rows = filter (\<lambda>r. ilr_invoice_id r \<noteq> i) rows @ map (\<lambda>l. \<lparr>ilr_invoice_id = i, ilr_line = l\<rparr>) ls"

definition update_invoice_draft ::
    "json_lib \<Rightarrow> decimal_lib \<Rightarrow> environment \<Rightarrow> 'a sales_db_scheme \<Rightarrow> uuid \<Rightarrow> uuid \<Rightarrow> create_invoice_request
      \<Rightarrow> 'a sales_db_scheme erp_result" where
  "update_invoice_draft J L E db e i req =
     and_then (ok_or (find_invoice db e i) (NotFound ''Invoice'' i)) (\<lambda>doc.
     if iv_status doc \<noteq> IvDraft
     then Inl (ValidationFailed (''Only draft invoices can be edited; invoice '' @ iv_number doc))
     else and_then (ok_or (find_customer db e (vq_customer_id req)) (NotFound ''Customer'' (vq_customer_id req))) (\<lambda>cust.
       and_then (resolve_lines L E db e (Some (vq_customer_id req)) (vq_lines req)) (\<lambda>ls.
         Inr ((update_invoice i (redrafted L cust J (today E) req ls) db)
           \<lparr>invoice_lines := replace_lines i ls (invoice_lines db)\<rparr>))))"

definition delete_invoice_draft :: "'a sales_db_scheme \<Rightarrow> uuid \<Rightarrow> uuid \<Rightarrow> 'a sales_db_scheme erp_result" where
  "delete_invoice_draft db e i =
     and_then (ok_or (find_invoice db e i) (NotFound ''Invoice'' i)) (\<lambda>doc.
     if iv_status doc \<noteq> IvDraft
     then Inl (ValidationFailed (''Only draft invoices can be deleted; invoice '' @ iv_number doc))
     else Inr (db\<lparr>invoice_lines := filter (\<lambda>r. ilr_invoice_id r \<noteq> i) (invoice_lines db),
                  invoices := filter (\<lambda>x. \<not> (iv_id x = i \<and> iv_entity_id x = e)) (invoices db)\<rparr>))"

definition mark_invoice_sent :: "environment \<Rightarrow> 'a sales_db_scheme \<Rightarrow> uuid \<Rightarrow> uuid \<Rightarrow> 'a sales_db_scheme erp_result" where
  "mark_invoice_sent E db e i =
     and_then (ok_or (find_invoice db e i) (NotFound ''Invoice'' i)) (\<lambda>doc.
     if iv_status doc = IvDraft then Inl (ValidationFailed ''Post the invoice before marking it as sent'')
     else Inr (db\<lparr>invoices := map (\<lambda>x. if iv_id x = i \<and> iv_entity_id x = e
                     then x\<lparr>iv_sent_at := Some (now E)\<rparr> else x) (invoices db)\<rparr>))"

definition mark_invoice_etims_transmitted ::
    "'a sales_db_scheme \<Rightarrow> uuid \<Rightarrow> uuid \<Rightarrow> string option \<Rightarrow> 'a sales_db_scheme erp_result" where
  "mark_invoice_etims_transmitted db e i number =
     and_then (ok_or (find_invoice db e i) (NotFound ''Invoice'' i)) (\<lambda>doc.
     if iv_status doc = IvDraft then Inl (ValidationFailed ''Cannot transmit a draft invoice to eTIMS; post it first'')
     else if iv_status doc = IvVoided then Inl (ValidationFailed ''Cannot transmit a voided invoice to eTIMS'')
     else if iv_etims_status doc = ''transmitted''
     then Inl (ValidationFailed ''Invoice has already been transmitted to eTIMS'')
     else (case non_blank number of
        None \<Rightarrow> Inl (ValidationFailed ''A KRA eTIMS invoice/control number is required to mark an invoice transmitted'')
      | Some n \<Rightarrow> Inr (db\<lparr>invoices := map (\<lambda>x. if iv_id x = i \<and> iv_entity_id x = e
            then x\<lparr>iv_etims_status := ''transmitted'', iv_etims_number := Some (trim n)\<rparr> else x) (invoices db)\<rparr>)))"

section \<open>Posting\<close>

definition with_dims :: "dimension_map \<Rightarrow> journal_line_request \<Rightarrow> journal_line_request" where
  "with_dims d l = l\<lparr>rl_dimensions := Some d\<rparr>"

text \<open>A negative line is booked as a debit; its VAT, being negative too, is not booked at all.\<close>

definition revenue_lines :: "'a sales_db_scheme \<Rightarrow> uuid \<Rightarrow> invoice \<Rightarrow> invoice_line \<Rightarrow> journal_line_request list" where
  "revenue_lines db e doc l =
     with_dims (il_dimensions l)
       (if il_line_total l < 0
        then dr_line (iv_currency doc) (Some (iv_fx_rate doc)) (Some (il_description l)) (il_account_code l) (- il_line_total l)
        else cr_line (iv_currency doc) (Some (iv_fx_rate doc)) (Some (il_description l)) (il_account_code l) (il_line_total l))
     # (if 0 < il_vat_amount l
        then [cr_line (iv_currency doc) (Some (iv_fx_rate doc)) (Some (''VAT on '' @ il_description l))
                (vat_output_account db e (iv_customer_id doc) (il_product_id l)) (il_vat_amount l)]
        else [])"

text \<open>One round of the inventory loop: the stock of a tracked product is issued and its cost becomes
  two more lines of the entry.\<close>

definition issue_line ::
    "environment \<Rightarrow> uuid \<Rightarrow> invoice \<Rightarrow> agent_or_user_id \<Rightarrow> nat \<times> invoice_line
      \<Rightarrow> journal_line_request list \<times> 'a sales_db_scheme \<Rightarrow> (journal_line_request list \<times> 'a sales_db_scheme) erp_result" where
  "issue_line E e doc by' = (\<lambda>(k, l) (jls, db).
     (case Option.bind (il_product_id l) (find_product db e) of
        None \<Rightarrow> Inr (jls, db)
      | Some pr \<Rightarrow>
          if \<not> pd_track_inventory pr then Inr (jls, db)
          else and_then (ok_or (pd_inventory_item_id pr) (ValidationFailed
                 (''Product '' @ pd_name pr @ '' has track_inventory=true but no linked inventory_item_id''))) (\<lambda>item.
            and_then (issue_inventory_in_tx (branch_env E k) db e
                \<lparr>is_item_id = item, is_quantity = il_quantity l, is_date = Some (iv_issue_date doc),
                 is_reference_id = Some (iv_id doc), is_warehouse_id = None\<rparr> by') (\<lambda>(res, db1).
              Inr (jls @
                [dr_line (iv_currency doc) (Some (iv_fx_rate doc)) (Some (''COGS: '' @ il_description l))
                   (ir_gl_cogs res) (ir_total_cost res),
                 cr_line (iv_currency doc) (Some (iv_fx_rate doc)) (Some (''Inventory issued: '' @ il_description l))
                   (ir_gl_inventory res) (ir_total_cost res)], db1)))))"

definition outstanding_of :: "'a sales_db_scheme \<Rightarrow> uuid \<Rightarrow> uuid \<Rightarrow> uuid \<Rightarrow> decimal" where
  "outstanding_of db e cust but = sum_where (\<lambda>x. iv_customer_id x = cust \<and> iv_entity_id x = e
     \<and> iv_type x = TypeInvoice \<and> iv_status x \<noteq> IvPaid \<and> iv_status x \<noteq> IvVoided \<and> iv_id x \<noteq> but)
     iv_balance_due (invoices db)"

definition credit_check :: "'a sales_db_scheme \<Rightarrow> uuid \<Rightarrow> invoice \<Rightarrow> customer \<Rightarrow> unit erp_result" where
  "credit_check db e doc cust =
     (case credit_limit cust of
        None \<Rightarrow> Inr ()
      | Some limit \<Rightarrow>
          (let out = outstanding_of db e (iv_customer_id doc) (iv_id doc) in
           if limit < out + iv_gross_total doc
           then Inl (CreditLimitExceeded (pt_name cust) (iv_customer_id doc) out (iv_gross_total doc) limit)
           else Inr ()))"

definition invoice_entry :: "invoice \<Rightarrow> journal_line_request list \<Rightarrow> journal_entry_request" where
  "invoice_entry doc jls =
     \<lparr>rq_date = iv_issue_date doc, rq_source = Invoice, rq_source_id = Some (iv_id doc),
      rq_reference = iv_number doc, rq_description = ''Invoice '' @ iv_number doc @ '' posted'',
      rq_lines = jls, rq_post_immediately = True\<rparr>"

definition receivable_line :: "'a sales_db_scheme \<Rightarrow> uuid \<Rightarrow> invoice \<Rightarrow> journal_line_request" where
  "receivable_line db e doc = dr_line (iv_currency doc) (Some (iv_fx_rate doc))
     (Some (''Invoice '' @ iv_number doc @ '' - AR'')) (ar_account db e (iv_customer_id doc)) (iv_gross_total doc)"

definition post_invoice ::
    "decimal_lib \<Rightarrow> calendar \<Rightarrow> environment \<Rightarrow> 'a sales_db_scheme \<Rightarrow> uuid \<Rightarrow> uuid \<Rightarrow> agent_or_user_id
      \<Rightarrow> (uuid \<times> 'a sales_db_scheme) erp_result" where
  "post_invoice L C E db e i by' =
     and_then (ok_or (find_invoice db e i) (NotFound ''Invoice'' i)) (\<lambda>doc.
     if iv_status doc \<noteq> IvDraft
     then Inl (ValidationFailed (''Only draft invoices can be posted; invoice '' @ iv_number doc))
     else and_then (ok_or (find_customer db e (iv_customer_id doc)) (NotFound ''Customer'' (iv_customer_id doc))) (\<lambda>cust.
       and_then (credit_check db e doc cust) (\<lambda>_.
       let ls = lines_of db i;
           jls = receivable_line db e doc # concat (map (revenue_lines db e doc) ls) in
       and_then (try_fold (issue_line (evens E) e doc by') (enumerate 0 ls) (jls, db)) (\<lambda>(jls', db1).
       and_then (period_for_date db1 e (iv_issue_date doc)) (\<lambda>p.
       and_then (create_and_post_in_tx L C (odds E) db1 e (invoice_entry doc jls') (fp_id p) by') (\<lambda>(entry, db2).
         Inr (en_id entry, update_invoice i
           (\<lambda>x. x\<lparr>iv_status := IvPosted, iv_journal_entry_id := Some (en_id entry)\<rparr>) db2)))))))"

section \<open>Credit notes\<close>

record credit_note_request =
  cn_invoice_id :: uuid
  cn_date :: "naive_date option"
  cn_lines :: "line_request list"
  cn_reason :: string

record credit_note_result =
  cr_credit_note_id :: uuid
  cr_number :: string
  cr_amount :: decimal
  cr_journal_entry_id :: uuid
  cr_original_new_balance :: decimal

definition copied_line :: "uuid \<Rightarrow> invoice_line \<Rightarrow> invoice_line" where
  "copied_line i l = l\<lparr>il_id := i\<rparr>"

definition credit_lines ::
    "decimal_lib \<Rightarrow> environment \<Rightarrow> 'a sales_db_scheme \<Rightarrow> uuid \<Rightarrow> credit_note_request \<Rightarrow> invoice_line list erp_result" where
  "credit_lines L E db e req =
     (if cn_lines req = []
      then Inr (map (\<lambda>(k, l). copied_line (uuids E (k + 1)) l) (enumerate 0 (lines_of db (cn_invoice_id req))))
      else resolve_lines L E db e None (cn_lines req))"

definition credit_note_row ::
    "uuid \<Rightarrow> string \<Rightarrow> naive_date \<Rightarrow> string \<Rightarrow> decimal \<Rightarrow> invoice_line list \<Rightarrow> invoice \<Rightarrow> invoice" where
  "credit_note_row i number d reason gross ls orig =
     \<lparr>iv_id = i, iv_entity_id = iv_entity_id orig, iv_number = number, iv_type = TypeCreditNote,
      iv_customer_id = iv_customer_id orig, iv_issue_date = d, iv_due_date = d,
      iv_currency = iv_currency orig, iv_fx_rate = iv_fx_rate orig, iv_source_estimate = None,
      iv_credit_note_for = Some (iv_id orig), iv_template_id = None, iv_notes = Some reason,
      iv_subtotal = lines_subtotal ls, iv_discount_total = 0, iv_tax_total = lines_tax ls,
      iv_gross_total = gross, iv_amount_paid = gross, iv_balance_due = 0, iv_status = IvPaid,
      iv_journal_entry_id = None, iv_sent_at = None, iv_paid_at = None,
      iv_etims_status = ''not_transmitted'', iv_etims_number = None\<rparr>"

definition credit_revenue_lines :: "'a sales_db_scheme \<Rightarrow> uuid \<Rightarrow> invoice \<Rightarrow> invoice_line \<Rightarrow> journal_line_request list" where
  "credit_revenue_lines db e orig l =
     dr_line (iv_currency orig) (Some (iv_fx_rate orig)) (Some (''CN reversal: '' @ il_description l))
       (il_account_code l) (il_line_total l)
     # (if 0 < il_vat_amount l
        then [dr_line (iv_currency orig) (Some (iv_fx_rate orig)) (Some (''CN VAT reversal: '' @ il_description l))
                (vat_output_account db e (iv_customer_id orig) (il_product_id l)) (il_vat_amount l)]
        else [])"

text \<open>The last issue of an item for an invoice: \<open>ORDER BY created_at DESC LIMIT 1\<close>, with the rows in
  order of insertion.\<close>

definition last_issue :: "'a stock_db_scheme \<Rightarrow> uuid \<Rightarrow> uuid \<Rightarrow> uuid \<Rightarrow> stock_movement option" where
  "last_issue db e invoice_id item = List.find (\<lambda>m. sm_reference_id m = Some invoice_id \<and> sm_item_id m = item
     \<and> sm_entity_id m = e \<and> sm_type m = MvIssue) (rev (stock_movements db))"

definition return_line ::
    "(decimal \<Rightarrow> decimal \<Rightarrow> decimal) \<Rightarrow> environment \<Rightarrow> uuid \<Rightarrow> invoice \<Rightarrow> uuid \<Rightarrow> naive_date \<Rightarrow> agent_or_user_id
      \<Rightarrow> nat \<times> invoice_line
      \<Rightarrow> journal_line_request list \<times> 'a sales_db_scheme \<Rightarrow> (journal_line_request list \<times> 'a sales_db_scheme) erp_result" where
  "return_line Q E e orig cn d by' = (\<lambda>(k, l) (jls, db).
     (case Option.bind (il_product_id l) (find_product db e) of
        None \<Rightarrow> Inr (jls, db)
      | Some pr \<Rightarrow>
          if \<not> pd_track_inventory pr then Inr (jls, db)
          else (case pd_inventory_item_id pr of
                  None \<Rightarrow> Inr (jls, db)
                | Some item \<Rightarrow>
                    (case last_issue db e (iv_id orig) item of
                       None \<Rightarrow> Inr (jls, db)
                     | Some mv \<Rightarrow>
                         and_then (receive_inventory_in_tx Q (branch_env E k) db e
                             \<lparr>rv_item_id = item, rv_quantity = il_quantity l, rv_unit_cost = sm_unit_cost mv,
                              rv_date = Some d, rv_reference_id = Some cn, rv_warehouse_id = None\<rparr> by') (\<lambda>(_, db1).
                         and_then (ok_or (find_item db1 e item) (Database ''no rows returned'')) (\<lambda>row.
                           Inr (jls @
                             [dr_line (iv_currency orig) (Some (iv_fx_rate orig)) (Some (''Inventory return: '' @ il_description l))
                                (gl_inventory row) (il_quantity l * sm_unit_cost mv),
                              cr_line (iv_currency orig) (Some (iv_fx_rate orig)) (Some (''COGS reversal: '' @ il_description l))
                                (gl_cogs row) (il_quantity l * sm_unit_cost mv)], db1)))))))"

definition credit_entry :: "uuid \<Rightarrow> string \<Rightarrow> naive_date \<Rightarrow> invoice \<Rightarrow> journal_line_request list \<Rightarrow> journal_entry_request" where
  "credit_entry cn number d orig jls =
     \<lparr>rq_date = d, rq_source = CreditNote, rq_source_id = Some cn, rq_reference = number,
      rq_description = ''Credit note '' @ number @ '' against invoice '' @ iv_number orig,
      rq_lines = jls, rq_post_immediately = True\<rparr>"

definition credit_receivable_line :: "'a sales_db_scheme \<Rightarrow> uuid \<Rightarrow> string \<Rightarrow> decimal \<Rightarrow> invoice \<Rightarrow> journal_line_request" where
  "credit_receivable_line db e number gross orig = cr_line (iv_currency orig) (Some (iv_fx_rate orig))
     (Some (''Credit note '' @ number @ '' against '' @ iv_number orig)) (ar_account db e (iv_customer_id orig)) gross"

text \<open>The update of the original writes the values computed from the row read at the start.\<close>

definition credited :: "decimal \<Rightarrow> invoice \<Rightarrow> invoice \<Rightarrow> invoice" where
  "credited gross orig x =
     (let bal = iv_balance_due orig - gross; paid = iv_amount_paid orig + gross in
      x\<lparr>iv_balance_due := bal, iv_amount_paid := paid,
        iv_status := (if bal \<le> 0 then IvPaid else if 0 < paid then IvPartiallyPaid else iv_status orig)\<rparr>)"

definition credit_note_tx ::
    "decimal_lib \<Rightarrow> calendar \<Rightarrow> (decimal \<Rightarrow> decimal \<Rightarrow> decimal) \<Rightarrow> environment \<Rightarrow> 'a sales_db_scheme \<Rightarrow> uuid \<Rightarrow> uuid
      \<Rightarrow> string \<Rightarrow> naive_date \<Rightarrow> string \<Rightarrow> decimal \<Rightarrow> invoice_line list \<Rightarrow> invoice \<Rightarrow> agent_or_user_id
      \<Rightarrow> (credit_note_result \<times> 'a sales_db_scheme) erp_result" where
  "credit_note_tx L C Q E db e cn number d reason gross ls orig by' =
     and_then (insert_invoice (credit_note_row cn number d reason gross ls orig) ls db) (\<lambda>db1.
     let jls = credit_receivable_line db e number gross orig # concat (map (credit_revenue_lines db e orig) ls) in
     and_then (try_fold (return_line Q (evens E) e orig cn d by') (enumerate 0 ls) (jls, db1)) (\<lambda>(jls', db2).
     and_then (period_for_date db2 e d) (\<lambda>p.
     and_then (create_and_post_in_tx L C (odds E) db2 e (credit_entry cn number d orig jls') (fp_id p) by') (\<lambda>(entry, db3).
       Inr (\<lparr>cr_credit_note_id = cn, cr_number = number, cr_amount = gross, cr_journal_entry_id = en_id entry,
             cr_original_new_balance = iv_balance_due orig - gross\<rparr>,
            update_invoice (iv_id orig) (credited gross orig)
              (update_invoice cn (\<lambda>x. x\<lparr>iv_journal_entry_id := Some (en_id entry)\<rparr>) db3))))))"

definition create_credit_note ::
    "decimal_lib \<Rightarrow> calendar \<Rightarrow> (decimal \<Rightarrow> decimal \<Rightarrow> decimal) \<Rightarrow> environment \<Rightarrow> 'a sales_db_scheme \<Rightarrow> uuid
      \<Rightarrow> credit_note_request \<Rightarrow> agent_or_user_id \<Rightarrow> 'a sales_db_scheme \<times> credit_note_result erp_result" where
  "create_credit_note L C Q E db e req by' =
     (let d = unwrap_or (cn_date req) (today E) in
      case find_invoice db e (cn_invoice_id req) of
        None \<Rightarrow> (db, Inl (NotFound ''Invoice'' (cn_invoice_id req)))
      | Some orig \<Rightarrow>
          if iv_type orig \<noteq> TypeInvoice
          then (db, Inl (ValidationFailed ''Cannot create credit note against a non-invoice document''))
          else if iv_status orig = IvDraft
          then (db, Inl (ValidationFailed ''Cannot credit-note a draft invoice; edit or delete the draft instead''))
          else if iv_status orig = IvVoided
          then (db, Inl (ValidationFailed ''Invoice is already cancelled''))
          else
            (case credit_lines L (evens E) db e req of
               Inl err \<Rightarrow> (db, Inl err)
             | Inr ls \<Rightarrow>
                 (let gross = round_money L (lines_subtotal ls + lines_tax ls) in
                  if iv_balance_due orig < gross
                  then (db, Inl (ValidationFailed ''Credit note amount exceeds remaining balance on invoice''))
                  else (case generate_credit_note_number C db e d of
                          Inl err \<Rightarrow> (db, Inl err)
                        | Inr (number, db1) \<Rightarrow>
                            (case credit_note_tx L C Q (odds E) db1 e (uuids (evens E) 0) number d (cn_reason req) gross ls orig by' of
                               Inl err \<Rightarrow> (db1, Inl err)
                             | Inr (res, db2) \<Rightarrow> (db2, Inr res))))))"

section \<open>Write-off\<close>

definition write_off_entry :: "naive_date \<Rightarrow> account_code \<Rightarrow> account_code \<Rightarrow> decimal \<Rightarrow> string option \<Rightarrow> invoice \<Rightarrow> journal_entry_request" where
  "write_off_entry d expense ar amount reason doc =
     \<lparr>rq_date = d, rq_source = Manual, rq_source_id = Some (iv_id doc), rq_reference = ''WRITEOFF-'' @ iv_number doc,
      rq_description = (case non_blank reason of
          None \<Rightarrow> ''Bad debt write-off '' @ iv_number doc
        | Some r \<Rightarrow> ''Bad debt write-off '' @ iv_number doc @ '': '' @ r),
      rq_lines =
        [dr_line (iv_currency doc) (Some (iv_fx_rate doc)) (Some (''Bad debt write-off '' @ iv_number doc)) expense amount,
         cr_line (iv_currency doc) (Some (iv_fx_rate doc)) (Some (''Write-off '' @ iv_number doc @ '' - AR'')) ar amount],
      rq_post_immediately = True\<rparr>"

definition written_off :: "decimal \<Rightarrow> invoice \<Rightarrow> invoice \<Rightarrow> invoice" where
  "written_off amount doc x =
     x\<lparr>iv_amount_paid := iv_amount_paid x + amount, iv_balance_due := iv_balance_due x - amount,
       iv_status := (if iv_balance_due doc - amount \<le> 0 then IvWrittenOff else iv_status doc)\<rparr>"

definition write_off_invoice ::
    "decimal_lib \<Rightarrow> calendar \<Rightarrow> environment \<Rightarrow> 'a sales_db_scheme \<Rightarrow> uuid \<Rightarrow> uuid \<Rightarrow> account_code
      \<Rightarrow> decimal option \<Rightarrow> string option \<Rightarrow> agent_or_user_id \<Rightarrow> (uuid \<times> 'a sales_db_scheme) erp_result" where
  "write_off_invoice L C E db e i expense amount reason by' =
     and_then (ok_or (find_invoice db e i) (NotFound ''Invoice'' i)) (\<lambda>doc.
     if iv_status doc = IvDraft \<or> iv_status doc = IvVoided \<or> iv_status doc = IvWrittenOff
     then Inl (ValidationFailed (''Invoice '' @ iv_number doc @ '' cannot be written off''))
     else if iv_balance_due doc \<le> 0
     then Inl (ValidationFailed (''Invoice '' @ iv_number doc @ '' has nothing outstanding to write off''))
     else
       (let amt = unwrap_or amount (iv_balance_due doc) in
        if amt \<le> 0 \<or> iv_balance_due doc < amt
        then Inl (ValidationFailed ''Write-off amount must be between 0 and the outstanding'')
        else and_then (period_for_date db e (today E)) (\<lambda>p.
          and_then (create_and_post_in_tx L C E db e
              (write_off_entry (today E) expense (ar_account db e (iv_customer_id doc)) amt reason doc) (fp_id p) by') (\<lambda>(entry, db1).
            Inr (en_id entry, update_invoice i (written_off amt doc) db1)))))"

end
