(* ===== verification/Estimates.thy ===== *)
theory Estimates
  imports Invoicing
begin

text \<open>
  Estimates (quotes) of \<^verbatim>\<open>zavora-erp-core/src/services/invoicing.rs\<close>: drafting, editing, deletion
  and conversion into an invoice.
\<close>

record create_estimate_request =
  eq_customer_id :: uuid
  eq_issue_date :: "naive_date option"
  eq_expiry_date :: "naive_date option"
  eq_currency :: "currency_code option"
  eq_lines :: "line_request list"
  eq_notes :: "string option"
  eq_template_id :: "uuid option"

definition find_estimate :: "'a sales_db_scheme \<Rightarrow> uuid \<Rightarrow> uuid \<Rightarrow> estimate option" where
  "find_estimate db e i = List.find (\<lambda>s. es_id s = i \<and> es_entity_id s = e) (estimates db)"

text \<open>The statement binds the dimensions of a line, but has no column for them: they are lost.\<close>

definition estimate_rows :: "uuid \<Rightarrow> invoice_line list \<Rightarrow> estimate_line_row list" where
  "estimate_rows i ls = map (\<lambda>l. \<lparr>esr_estimate_id = i, esr_line = l\<lparr>il_dimensions := []\<rparr>\<rparr>) ls"

definition new_estimate ::
    "decimal_lib \<Rightarrow> uuid \<Rightarrow> uuid \<Rightarrow> string \<Rightarrow> customer \<Rightarrow> naive_date \<Rightarrow> create_estimate_request
      \<Rightarrow> invoice_line list \<Rightarrow> estimate" where
  "new_estimate L i e number cust now_date req ls =
     (let issue = unwrap_or (eq_issue_date req) now_date in
      \<lparr>es_id = i, es_entity_id = e, es_number = number, es_customer_id = eq_customer_id req,
       es_issue_date = issue, es_expiry_date = unwrap_or (eq_expiry_date req) (issue + 30),
       es_currency = unwrap_or (eq_currency req) (pt_currency cust), es_fx_rate = 1,
       es_subtotal = lines_subtotal ls, es_tax_total = lines_tax ls,
       es_gross_total = round_money L (lines_subtotal ls + lines_tax ls), es_status = EsDraft,
       es_converted_to = None, es_notes = eq_notes req, es_template_id = eq_template_id req\<rparr>)"

definition create_estimate ::
    "decimal_lib \<Rightarrow> calendar \<Rightarrow> environment \<Rightarrow> 'a sales_db_scheme \<Rightarrow> uuid \<Rightarrow> create_estimate_request
      \<Rightarrow> 'a sales_db_scheme \<times> uuid erp_result" where
  "create_estimate L C E db e req =
     (case find_customer db e (eq_customer_id req) of
        None \<Rightarrow> (db, Inl (NotFound ''Customer'' (eq_customer_id req)))
      | Some cust \<Rightarrow>
          (case resolve_lines L E db e (Some (eq_customer_id req)) (eq_lines req) of
             Inl err \<Rightarrow> (db, Inl err)
           | Inr ls \<Rightarrow>
               (case generate_estimate_number C db e (unwrap_or (eq_issue_date req) (today E)) of
                  Inl err \<Rightarrow> (db, Inl err)
                | Inr (number, db1) \<Rightarrow>
                    (db1\<lparr>estimates := estimates db1 @ [new_estimate L (uuids E 0) e number cust (today E) req ls],
                         estimate_lines := estimate_lines db1 @ estimate_rows (uuids E 0) ls\<rparr>, Inr (uuids E 0)))))"

definition re_estimated ::
    "decimal_lib \<Rightarrow> customer \<Rightarrow> naive_date \<Rightarrow> create_estimate_request \<Rightarrow> invoice_line list \<Rightarrow> estimate \<Rightarrow> estimate" where
  "re_estimated L cust now_date req ls s =
     (let issue = unwrap_or (eq_issue_date req) now_date in
      s\<lparr>es_customer_id := eq_customer_id req, es_issue_date := issue,
        es_expiry_date := unwrap_or (eq_expiry_date req) (issue + 30),
        es_currency := unwrap_or (eq_currency req) (pt_currency cust),
        es_subtotal := lines_subtotal ls, es_tax_total := lines_tax ls,
        es_gross_total := round_money L (lines_subtotal ls + lines_tax ls), es_notes := eq_notes req\<rparr>)"

definition update_estimate_draft ::
    "decimal_lib \<Rightarrow> environment \<Rightarrow> 'a sales_db_scheme \<Rightarrow> uuid \<Rightarrow> uuid \<Rightarrow> create_estimate_request \<Rightarrow> 'a sales_db_scheme erp_result" where
  "update_estimate_draft L E db e i req =
     and_then (ok_or (find_estimate db e i) (NotFound ''Estimate'' i)) (\<lambda>s.
     if es_status s \<noteq> EsDraft then Inl (ValidationFailed ''Only draft estimates can be edited'')
     else and_then (ok_or (find_customer db e (eq_customer_id req)) (NotFound ''Customer'' (eq_customer_id req))) (\<lambda>cust.
       and_then (resolve_lines L E db e (Some (eq_customer_id req)) (eq_lines req)) (\<lambda>ls.
         Inr (db\<lparr>estimates := map (\<lambda>x. if es_id x = i \<and> es_entity_id x = e
                     then re_estimated L cust (today E) req ls x else x) (estimates db),
                 estimate_lines := filter (\<lambda>r. esr_estimate_id r \<noteq> i) (estimate_lines db) @ estimate_rows i ls\<rparr>))))"

definition delete_estimate_draft :: "'a sales_db_scheme \<Rightarrow> uuid \<Rightarrow> uuid \<Rightarrow> 'a sales_db_scheme erp_result" where
  "delete_estimate_draft db e i =
     and_then (ok_or (find_estimate db e i) (NotFound ''Estimate'' i)) (\<lambda>s.
     if es_status s \<noteq> EsDraft then Inl (ValidationFailed ''Only draft estimates can be deleted'')
     else Inr (db\<lparr>estimate_lines := filter (\<lambda>r. esr_estimate_id r \<noteq> i) (estimate_lines db),
                  estimates := filter (\<lambda>x. \<not> (es_id x = i \<and> es_entity_id x = e)) (estimates db)\<rparr>))"

definition line_as_request :: "invoice_line \<Rightarrow> line_request" where
  "line_as_request l =
     \<lparr>lq_product_id = il_product_id l, lq_description = Some (il_description l), lq_quantity = il_quantity l,
      lq_unit_price = Some (il_unit_price l), lq_discount_percent = Some (il_discount_percent l),
      lq_account_code = Some (il_account_code l), lq_vat_treatment = Some (il_vat_treatment l),
      lq_dimensions = Some (il_dimensions l)\<rparr>"

definition estimate_as_request :: "'a sales_db_scheme \<Rightarrow> estimate \<Rightarrow> create_invoice_request" where
  "estimate_as_request db s =
     \<lparr>vq_customer_id = es_customer_id s, vq_issue_date = None, vq_due_date = None,
      vq_currency = Some (es_currency s), vq_fx_rate = Some (es_fx_rate s),
      vq_lines = map (line_as_request \<circ> esr_line) (filter (\<lambda>r. esr_estimate_id r = es_id s) (estimate_lines db)),
      vq_template_id = es_template_id s, vq_notes = es_notes s\<rparr>"

definition convertible :: "estimate \<Rightarrow> unit erp_result" where
  "convertible s = (case es_status s of
       EsConverted \<Rightarrow> Inl (ValidationFailed ''Estimate has already been converted to an invoice'')
     | EsDeclined \<Rightarrow> Inl (ValidationFailed ''Cannot convert a declined estimate'')
     | EsExpired \<Rightarrow> Inl (ValidationFailed ''Cannot convert an expired estimate'')
     | EsDraft \<Rightarrow> Inr () | EsSent \<Rightarrow> Inr () | EsAccepted \<Rightarrow> Inr ())"

definition convert_estimate_to_invoice ::
    "json_lib \<Rightarrow> decimal_lib \<Rightarrow> calendar \<Rightarrow> environment \<Rightarrow> 'a sales_db_scheme \<Rightarrow> uuid \<Rightarrow> uuid
      \<Rightarrow> 'a sales_db_scheme \<times> uuid erp_result" where
  "convert_estimate_to_invoice J L C E db e i =
     (case find_estimate db e i of
        None \<Rightarrow> (db, Inl (NotFound ''Estimate'' i))
      | Some s \<Rightarrow>
          (case convertible s of
             Inl err \<Rightarrow> (db, Inl err)
           | Inr _ \<Rightarrow>
               (case create_invoice J L C E db e (estimate_as_request db s) of
                  (db1, Inl err) \<Rightarrow> (db1, Inl err)
                | (db1, Inr (doc, _)) \<Rightarrow>
                    ((update_invoice (iv_id doc) (\<lambda>x. x\<lparr>iv_source_estimate := Some i\<rparr>) db1)
                       \<lparr>estimates := map (\<lambda>x. if es_id x = i
                          then x\<lparr>es_status := EsConverted, es_converted_to := Some (iv_id doc)\<rparr> else x) (estimates db1)\<rparr>,
                     Inr (iv_id doc)))))"

end
