(* ===== verification/Bills.thy ===== *)
theory Bills
  imports Estimates
begin

text \<open>
  Supplier bills: \<^verbatim>\<open>zavora-erp-core/src/ap/bill.rs\<close>, \<^verbatim>\<open>services/bills.rs\<close>, the purchase side of
  \<^verbatim>\<open>services/invoicing.rs\<close> (\<open>resolve_bill_line\<close>), withholding tax rates (\<^verbatim>\<open>services/wht.rs\<close>), the
  approval limits (\<^verbatim>\<open>services/approval.rs\<close>), the three-way match of a bill with its purchase order
  and the goods receipts (\<^verbatim>\<open>services/procurement.rs\<close>), and the posting of a bill
  (\<^verbatim>\<open>zavora-erp-api/src/routes/bills.rs\<close>, \<open>post_bill\<close>).
\<close>

section \<open>Rows\<close>

datatype bill_status =
    BsDraft | BsPendingApproval | BsApproved | BsPosted | BsPartiallyPaid | BsPaid | BsDisputed | BsCancelled

record bill_head =
  bl_id :: uuid
  bl_entity_id :: uuid
  bl_number :: string
  bl_vendor_id :: uuid
  bl_vendor_invoice_number :: "string option"
  bl_issue_date :: naive_date
  bl_due_date :: naive_date
  bl_currency :: currency_code
  bl_fx_rate :: decimal
  bl_notes :: "string option"
  bl_po_id :: "uuid option"

record bill = bill_head +
  bl_subtotal :: decimal
  bl_tax_total :: decimal
  bl_wht_amount :: decimal
  bl_gross_total :: decimal
  bl_amount_paid :: decimal
  bl_balance_due :: decimal
  bl_status :: bill_status
  bl_journal_entry_id :: "uuid option"
  bl_approved_by :: "uuid option"
  bl_approved_at :: "timestamp option"

record bill_line_row =
  blr_bill_id :: uuid
  blr_line :: invoice_line

datatype po_status = PoIssued | PoAcknowledged | PoPartiallyInvoiced | PoInvoiced | PoClosed | PoCancelled

record purchase_order =
  po_id :: uuid
  po_entity_id :: uuid
  po_number :: string
  po_vendor_id :: uuid
  po_tender_id :: "uuid option"
  po_bid_id :: "uuid option"
  po_requisition_id :: "uuid option"
  po_currency :: currency_code
  po_gross_total :: decimal
  po_status :: po_status
  po_issue_date :: naive_date
  po_delivery_date :: "naive_date option"
  po_notes :: "string option"

record purchase_order_line =
  pol_po_id :: uuid
  pol_description :: string
  pol_quantity :: decimal
  pol_uom :: string
  pol_unit_price :: decimal
  pol_account_code :: "account_code option"
  pol_line_total :: decimal
  pol_line_no :: nat

record goods_receipt =
  gr_id :: uuid
  gr_entity_id :: uuid
  gr_number :: string
  gr_po_id :: uuid
  gr_date :: naive_date
  gr_received_by :: uuid
  gr_notes :: "string option"

record goods_receipt_line =
  grl_grn_id :: uuid
  grl_po_line_id :: "uuid option"
  grl_description :: string
  grl_quantity :: decimal

record approval_limit =
  al_entity_id :: uuid
  al_role :: string
  al_max_amount :: "decimal option"

record era_user =
  eu_id :: uuid
  eu_entity_id :: uuid
  eu_role :: string

record wht_rate_row =
  wr_category :: string
  wr_resident :: decimal
  wr_non_resident :: decimal

record ap_db = sales_db +
  bills :: "bill list"
  bill_lines :: "bill_line_row list"
  purchase_orders :: "purchase_order list"
  purchase_order_lines :: "purchase_order_line list"
  goods_receipts :: "goods_receipt list"
  goods_receipt_lines :: "goods_receipt_line list"
  approval_limits :: "approval_limit list"
  era_users :: "era_user list"
  wht_rates :: "wht_rate_row list"

definition find_bill :: "'a ap_db_scheme \<Rightarrow> uuid \<Rightarrow> uuid \<Rightarrow> bill option" where
  "find_bill db e i = List.find (\<lambda>b. bl_id b = i \<and> bl_entity_id b = e) (bills db)"

definition update_bill :: "uuid \<Rightarrow> (bill \<Rightarrow> bill) \<Rightarrow> 'a ap_db_scheme \<Rightarrow> 'a ap_db_scheme" where
  "update_bill i f db = db\<lparr>bills := map (\<lambda>b. if bl_id b = i then f b else b) (bills db)\<rparr>"

definition bill_lines_of :: "'a ap_db_scheme \<Rightarrow> uuid \<Rightarrow> invoice_line list" where
  "bill_lines_of db i = map blr_line (filter (\<lambda>r. blr_bill_id r = i) (bill_lines db))"

text \<open>The methods of \<open>Bill\<close>.\<close>

definition recalculate_bill :: "invoice_line list \<Rightarrow> bill \<Rightarrow> bill" where
  "recalculate_bill ls b =
     (let gross = lines_subtotal ls + lines_tax ls - bl_wht_amount b in
      b\<lparr>bl_subtotal := lines_subtotal ls, bl_tax_total := lines_tax ls, bl_gross_total := gross,
        bl_balance_due := gross - bl_amount_paid b\<rparr>)"

definition bill_is_overdue :: "naive_date \<Rightarrow> bill \<Rightarrow> bool" where
  "bill_is_overdue d b \<longleftrightarrow> 0 < bl_balance_due b \<and> bl_due_date b < d
     \<and> bl_status b \<notin> {BsPaid, BsCancelled, BsDisputed}"

section \<open>Withholding tax\<close>

fun category_key :: "wht_category \<Rightarrow> string" where
  "category_key WhtConsultancy = ''Consultancy''"
| "category_key WhtManagementFees = ''ManagementFees''"
| "category_key WhtRent = ''Rent''"
| "category_key WhtRoyalties = ''Royalties''"
| "category_key WhtInterest = ''Interest''"
| "category_key WhtContractual = ''Contractual''"
| "category_key WhtDividends = ''Dividends''"
| "category_key WhtInsurance = ''Insurance''"
| "category_key WhtTransport = ''Transport''"
| "category_key (WhtOther s) = ''Other''"

definition wht_rate_for :: "'a ap_db_scheme \<Rightarrow> wht_category \<Rightarrow> bool \<Rightarrow> decimal" where
  "wht_rate_for db c resident =
     (case List.find (\<lambda>r. wr_category r = category_key c) (wht_rates db) of
        None \<Rightarrow> 0
      | Some r \<Rightarrow> if resident then wr_resident r else wr_non_resident r)"

definition statutory_wht_rates :: "wht_rate_row list" where
  "statutory_wht_rates = map (\<lambda>(c, r, n). \<lparr>wr_category = c, wr_resident = r, wr_non_resident = n\<rparr>)
     [(''Consultancy'', 5 / 100, 20 / 100), (''ManagementFees'', 5 / 100, 20 / 100),
      (''Rent'', 10 / 100, 30 / 100), (''Royalties'', 5 / 100, 20 / 100), (''Interest'', 15 / 100, 15 / 100),
      (''Contractual'', 3 / 100, 20 / 100), (''Dividends'', 5 / 100, 15 / 100),
      (''Insurance'', 5 / 100, 20 / 100), (''Transport'', 2 / 100, 20 / 100), (''Other'', 5 / 100, 20 / 100)]"

text \<open>\<open>ensure_seeded\<close>: \<open>ON CONFLICT (category) DO NOTHING\<close>.\<close>

definition insert_wht_rate :: "wht_rate_row \<Rightarrow> wht_rate_row list \<Rightarrow> wht_rate_row list" where
  "insert_wht_rate r rs = (if wr_category r \<in> wr_category ` set rs then rs else rs @ [r])"

definition ensure_seeded :: "'a ap_db_scheme \<Rightarrow> 'a ap_db_scheme" where
  "ensure_seeded db = db\<lparr>wht_rates := fold insert_wht_rate statutory_wht_rates (wht_rates db)\<rparr>"

definition wht_of_vendor :: "json_lib \<Rightarrow> decimal_lib \<Rightarrow> 'a ap_db_scheme \<Rightarrow> vendor \<Rightarrow> decimal \<Rightarrow> decimal" where
  "wht_of_vendor J L db v subtotal =
     (case Option.bind (vd_wht_category v) (wht_of_json J) of
        None \<Rightarrow> 0
      | Some c \<Rightarrow> round_dp L (subtotal * wht_rate_for db c (vd_resident v)) 2)"

section \<open>Drafts\<close>

definition derived_purchase :: "'a masters_db_scheme \<Rightarrow> uuid \<Rightarrow> uuid \<Rightarrow> uuid \<Rightarrow> account_code option" where
  "derived_purchase db e v p = non_empty (map_option gp_purchase
     (resolve_general db e (vendor_general_biz db e v) (product_general_group db e p)))"

definition resolve_bill_line ::
    "'a masters_db_scheme \<Rightarrow> uuid \<Rightarrow> vendor \<Rightarrow> uuid \<Rightarrow> line_request \<Rightarrow> invoice_line erp_result" where
  "resolve_bill_line db e v i req =
     (case lq_product_id req of
        Some p \<Rightarrow>
          and_then (ok_or (find_product db e p) (NotFound ''Product'' p)) (\<lambda>pr.
            Inr \<lparr>il_id = i, il_product_id = Some p,
                 il_description = unwrap_or (lq_description req) (pd_name pr), il_quantity = lq_quantity req,
                 il_unit_price = unwrap_or (lq_unit_price req) (unwrap_or (pd_unit_price pr) 0),
                 il_discount_percent = unwrap_or (lq_discount_percent req) 0,
                 il_account_code = unwrap_or (coalesce (lq_account_code req) (derived_purchase db e (pt_id v) p))
                   (pd_purchase_account pr),
                 il_vat_treatment = unwrap_or (lq_vat_treatment req) (vat_treatment_of (pd_vat_treatment pr)),
                 il_line_total = 0, il_vat_amount = 0, il_dimensions = unwrap_or (lq_dimensions req) []\<rparr>)
      | None \<Rightarrow>
          Inr \<lparr>il_id = i, il_product_id = None, il_description = unwrap_or (lq_description req) [],
               il_quantity = lq_quantity req, il_unit_price = unwrap_or (lq_unit_price req) 0,
               il_discount_percent = unwrap_or (lq_discount_percent req) 0,
               il_account_code = unwrap_or (lq_account_code req)
                 (unwrap_or (vd_default_expense_account v) (default_expense (posting (configs db e)))),
               il_vat_treatment = unwrap_or (lq_vat_treatment req) Standard16,
               il_line_total = 0, il_vat_amount = 0, il_dimensions = unwrap_or (lq_dimensions req) []\<rparr>)"

definition resolve_bill_lines ::
    "decimal_lib \<Rightarrow> environment \<Rightarrow> 'a masters_db_scheme \<Rightarrow> uuid \<Rightarrow> vendor \<Rightarrow> line_request list
      \<Rightarrow> invoice_line list erp_result" where
  "resolve_bill_lines L E db e v reqs =
     try_map (\<lambda>(k, r). and_then (resolve_bill_line db e v (uuids E (k + 1)) r)
       (\<lambda>l. Inr (compute_line_totals L l))) (enumerate 0 reqs)"

record create_bill_request =
  bq_vendor_id :: uuid
  bq_vendor_invoice_number :: "string option"
  bq_issue_date :: "naive_date option"
  bq_due_date :: "naive_date option"
  bq_currency :: "currency_code option"
  bq_fx_rate :: "decimal option"
  bq_lines :: "line_request list"
  bq_notes :: "string option"

definition generate_bill_number where
  "generate_bill_number C db e date =
     next_doc_number C db e ''bill_next'' (bill_prefix (sequences (configs db e))) date"

definition new_bill ::
    "json_lib \<Rightarrow> uuid \<Rightarrow> uuid \<Rightarrow> string \<Rightarrow> vendor \<Rightarrow> naive_date \<Rightarrow> create_bill_request \<Rightarrow> decimal
      \<Rightarrow> invoice_line list \<Rightarrow> bill" where
  "new_bill J i e number v now_date req wht ls =
     (let issue = unwrap_or (bq_issue_date req) now_date; gross = lines_subtotal ls + lines_tax ls - wht in
      \<lparr>bl_id = i, bl_entity_id = e, bl_number = number, bl_vendor_id = bq_vendor_id req,
       bl_vendor_invoice_number = bq_vendor_invoice_number req, bl_issue_date = issue,
       bl_due_date = unwrap_or (bq_due_date req) (terms_due_date (parse_stored J (pt_payment_terms v)) issue),
       bl_currency = unwrap_or (bq_currency req) (pt_currency v), bl_fx_rate = unwrap_or (bq_fx_rate req) 1,
       bl_notes = bq_notes req, bl_po_id = None, bl_subtotal = lines_subtotal ls, bl_tax_total = lines_tax ls,
       bl_wht_amount = wht, bl_gross_total = gross, bl_amount_paid = 0, bl_balance_due = gross,
       bl_status = BsDraft, bl_journal_entry_id = None, bl_approved_by = None, bl_approved_at = None\<rparr>)"

definition insert_bill :: "bill \<Rightarrow> invoice_line list \<Rightarrow> 'a ap_db_scheme \<Rightarrow> 'a ap_db_scheme erp_result" where
  "insert_bill b ls db =
     (if \<exists>x \<in> set (bills db). bl_id x = bl_id b \<or> (bl_entity_id x = bl_entity_id b \<and> bl_number x = bl_number b)
      then Inl (Database ''duplicate key value violates unique constraint'')
      else Inr (db\<lparr>bills := bills db @ [b],
                   bill_lines := bill_lines db @ map (\<lambda>l. \<lparr>blr_bill_id = bl_id b, blr_line = l\<rparr>) ls\<rparr>))"

definition create_bill ::
    "json_lib \<Rightarrow> decimal_lib \<Rightarrow> calendar \<Rightarrow> environment \<Rightarrow> 'a ap_db_scheme \<Rightarrow> uuid \<Rightarrow> create_bill_request
      \<Rightarrow> 'a ap_db_scheme \<times> (bill \<times> invoice_line list) erp_result" where
  "create_bill J L C E db e req =
     (case find_vendor db e (bq_vendor_id req) of
        None \<Rightarrow> (db, Inl (NotFound ''Vendor'' (bq_vendor_id req)))
      | Some v \<Rightarrow>
          (let db1 = ensure_default_posting_groups (evens E) db e in
           case resolve_bill_lines L (odds E) db1 e v (bq_lines req) of
             Inl err \<Rightarrow> (db1, Inl err)
           | Inr ls \<Rightarrow>
               (case generate_bill_number C db1 e (unwrap_or (bq_issue_date req) (today E)) of
                  Inl err \<Rightarrow> (db1, Inl err)
                | Inr (number, db2) \<Rightarrow>
                    (let b = new_bill J (uuids (odds E) 0) e number v (today E) req
                           (wht_of_vendor J L db1 v (lines_subtotal ls)) ls in
                     case insert_bill b ls db2 of
                       Inl err \<Rightarrow> (db2, Inl err)
                     | Inr db3 \<Rightarrow> (db3, Inr (b, ls))))))"

text \<open>Editing a draft. The statement that stores the new lines has no column for their dimensions;
  the amount already paid does not enter the new balance.\<close>

definition rebilled ::
    "json_lib \<Rightarrow> vendor \<Rightarrow> naive_date \<Rightarrow> create_bill_request \<Rightarrow> decimal \<Rightarrow> invoice_line list \<Rightarrow> bill \<Rightarrow> bill" where
  "rebilled J v now_date req wht ls b =
     (let issue = unwrap_or (bq_issue_date req) now_date; gross = lines_subtotal ls + lines_tax ls - wht in
      b\<lparr>bl_vendor_id := bq_vendor_id req, bl_vendor_invoice_number := bq_vendor_invoice_number req,
        bl_issue_date := issue,
        bl_due_date := unwrap_or (bq_due_date req) (terms_due_date (parse_stored J (pt_payment_terms v)) issue),
        bl_currency := unwrap_or (bq_currency req) (pt_currency v), bl_fx_rate := unwrap_or (bq_fx_rate req) 1,
        bl_subtotal := lines_subtotal ls, bl_tax_total := lines_tax ls, bl_wht_amount := wht,
        bl_gross_total := gross, bl_balance_due := gross, bl_notes := bq_notes req\<rparr>)"

definition update_bill_draft ::
    "json_lib \<Rightarrow> decimal_lib \<Rightarrow> environment \<Rightarrow> 'a ap_db_scheme \<Rightarrow> uuid \<Rightarrow> uuid \<Rightarrow> create_bill_request
      \<Rightarrow> 'a ap_db_scheme \<times> unit erp_result" where
  "update_bill_draft J L E db e i req =
     (case find_bill db e i of
        None \<Rightarrow> (db, Inl (NotFound ''Bill'' i))
      | Some b \<Rightarrow>
          if bl_status b \<noteq> BsDraft
          then (db, Inl (ValidationFailed (''Only draft bills can be edited; bill '' @ bl_number b)))
          else
            (case find_vendor db e (bq_vendor_id req) of
               None \<Rightarrow> (db, Inl (NotFound ''Vendor'' (bq_vendor_id req)))
             | Some v \<Rightarrow>
                 (let db1 = ensure_default_posting_groups (evens E) db e in
                  case resolve_bill_lines L (odds E) db1 e v (bq_lines req) of
                    Inl err \<Rightarrow> (db1, Inl err)
                  | Inr ls \<Rightarrow>
                      (let db2 = update_bill i (rebilled J v (today E) req
                                   (wht_of_vendor J L db1 v (lines_subtotal ls)) ls) db1 in
                       (db2\<lparr>bill_lines := filter (\<lambda>r. blr_bill_id r \<noteq> i) (bill_lines db2)
                          @ map (\<lambda>l. \<lparr>blr_bill_id = i, blr_line = l\<lparr>il_dimensions := []\<rparr>\<rparr>) ls\<rparr>, Inr ())))))"

definition delete_bill_draft :: "'a ap_db_scheme \<Rightarrow> uuid \<Rightarrow> uuid \<Rightarrow> 'a ap_db_scheme erp_result" where
  "delete_bill_draft db e i =
     and_then (ok_or (find_bill db e i) (NotFound ''Bill'' i)) (\<lambda>b.
     if bl_status b \<noteq> BsDraft
     then Inl (ValidationFailed (''Only draft bills can be deleted; bill '' @ bl_number b))
     else Inr (db\<lparr>bill_lines := filter (\<lambda>r. blr_bill_id r \<noteq> i) (bill_lines db),
                  bills := filter (\<lambda>x. \<not> (bl_id x = i \<and> bl_entity_id x = e)) (bills db)\<rparr>))"

section \<open>Approval\<close>

definition same_limit :: "uuid \<Rightarrow> string \<Rightarrow> approval_limit \<Rightarrow> bool" where
  "same_limit e r x \<longleftrightarrow> al_entity_id x = e \<and> al_role x = r"

definition set_limit :: "'a ap_db_scheme \<Rightarrow> uuid \<Rightarrow> string \<Rightarrow> decimal option \<Rightarrow> 'a ap_db_scheme" where
  "set_limit db e r m = db\<lparr>approval_limits :=
     (if \<exists>x \<in> set (approval_limits db). same_limit e r x
      then map (\<lambda>x. if same_limit e r x then x\<lparr>al_max_amount := m\<rparr> else x) (approval_limits db)
      else approval_limits db @ [\<lparr>al_entity_id = e, al_role = r, al_max_amount = m\<rparr>])\<rparr>"

definition assert_within_limit ::
    "'a ap_db_scheme \<Rightarrow> uuid \<Rightarrow> uuid \<Rightarrow> decimal \<Rightarrow> string \<Rightarrow> unit erp_result" where
  "assert_within_limit db e approver amount label =
     (case List.find (\<lambda>u. eu_id u = approver \<and> eu_entity_id u = e) (era_users db) of
        None \<Rightarrow> Inr ()
      | Some u \<Rightarrow>
          (case Option.bind (List.find (same_limit e (eu_role u)) (approval_limits db)) al_max_amount of
             None \<Rightarrow> Inr ()
           | Some m \<Rightarrow>
               if m < amount
               then Inl (ValidationFailed (''This '' @ label @ '' exceeds your approval limit for role '' @ eu_role u
                      @ ''. It needs approval from someone with higher authority.''))
               else Inr ()))"

subsection \<open>Three-way match\<close>

text \<open>Orders, receipts and bills are matched by the description of their lines, trimmed and in lower
  case. The price billed is the maximum within one spelling of the description, and of several
  spellings the last one wins (the statement leaves their order open).\<close>

definition match_key :: "string \<Rightarrow> string" where
  "match_key s = lower (trim s)"

definition received_quantity :: "'a ap_db_scheme \<Rightarrow> uuid \<Rightarrow> uuid \<Rightarrow> string \<Rightarrow> decimal" where
  "received_quantity db e po k = sum_where
     (\<lambda>l. match_key (grl_description l) = k
        \<and> (\<exists>g \<in> set (goods_receipts db). gr_id g = grl_grn_id l \<and> gr_po_id g = po \<and> gr_entity_id g = e))
     grl_quantity (goods_receipt_lines db)"

definition billed_lines :: "'a ap_db_scheme \<Rightarrow> uuid \<Rightarrow> uuid \<Rightarrow> invoice_line list" where
  "billed_lines db e po = map blr_line (filter
     (\<lambda>r. \<exists>b \<in> set (bills db). bl_id b = blr_bill_id r \<and> bl_po_id b = Some po \<and> bl_entity_id b = e) (bill_lines db))"

definition billed_quantity :: "invoice_line list \<Rightarrow> string \<Rightarrow> decimal" where
  "billed_quantity ls k = sum_where (\<lambda>l. match_key (il_description l) = k) il_quantity ls"

definition billed_price :: "invoice_line list \<Rightarrow> string \<Rightarrow> decimal" where
  "billed_price ls k =
     (case rev (filter (\<lambda>d. match_key d = k) (remdups (map il_description ls))) of
        [] \<Rightarrow> 0
      | d # _ \<Rightarrow> Max (il_unit_price ` set (filter (\<lambda>l. il_description l = d) ls)))"

datatype match_status = Matched | OverBilled | PriceVariance

record match_line =
  ml_description :: string
  ml_ordered :: decimal
  ml_received :: decimal
  ml_billed :: decimal
  ml_po_price :: decimal
  ml_billed_price :: decimal
  ml_status :: match_status
  ml_note :: "string option"

definition match_status_of :: "decimal_lib \<Rightarrow> decimal \<Rightarrow> decimal \<Rightarrow> decimal \<Rightarrow> decimal \<Rightarrow> match_status" where
  "match_status_of L billed received price po_price =
     (if received < billed then OverBilled
      else if 0 < billed \<and> 0 < po_price \<and> 2 / 100 < div_dec L \<bar>price - po_price\<bar> po_price then PriceVariance
      else Matched)"

definition match_of_line :: "decimal_lib \<Rightarrow> 'a ap_db_scheme \<Rightarrow> uuid \<Rightarrow> uuid \<Rightarrow> purchase_order_line \<Rightarrow> match_line" where
  "match_of_line L db e po l =
     (let k = match_key (pol_description l); received = received_quantity db e po k;
          billed = billed_quantity (billed_lines db e po) k; price = billed_price (billed_lines db e po) k;
          s = match_status_of L billed received price (pol_unit_price l) in
      \<lparr>ml_description = pol_description l, ml_ordered = pol_quantity l, ml_received = received, ml_billed = billed,
       ml_po_price = pol_unit_price l, ml_billed_price = price, ml_status = s,
       ml_note = (case s of Matched \<Rightarrow> None
          | OverBilled \<Rightarrow> Some (pol_description l @ '': billed more than received'')
          | PriceVariance \<Rightarrow> Some (pol_description l @ '': billed price differs from PO price''))\<rparr>)"

definition po_lines_of :: "'a ap_db_scheme \<Rightarrow> uuid \<Rightarrow> purchase_order_line list" where
  "po_lines_of db po = sort_key pol_line_no (filter (\<lambda>l. pol_po_id l = po) (purchase_order_lines db))"

definition three_way_match :: "decimal_lib \<Rightarrow> 'a ap_db_scheme \<Rightarrow> uuid \<Rightarrow> uuid \<Rightarrow> match_line list" where
  "three_way_match L db e po = map (match_of_line L db e po) (po_lines_of db po)"

text \<open>The field \<open>matched\<close> of the answer: no line has an exception.\<close>

definition fully_matched :: "match_line list \<Rightarrow> bool" where
  "fully_matched ms \<longleftrightarrow> List.map_filter ml_note ms = []"

definition assert_bill_receivable :: "decimal_lib \<Rightarrow> 'a ap_db_scheme \<Rightarrow> uuid \<Rightarrow> uuid \<Rightarrow> unit erp_result" where
  "assert_bill_receivable L db e po =
     (let blockers = List.map_filter ml_note (filter (\<lambda>m. ml_status m = OverBilled) (three_way_match L db e po)) in
      if blockers \<noteq> []
      then Inl (ValidationFailed (''3-way match failed - record a goods receipt first. '' @ join_with ''; '' blockers))
      else Inr ())"

record approve_bill_request =
  ab_bill_id :: uuid
  ab_approved_by :: uuid

definition approve_bill ::
    "decimal_lib \<Rightarrow> environment \<Rightarrow> 'a ap_db_scheme \<Rightarrow> uuid \<Rightarrow> approve_bill_request \<Rightarrow> 'a ap_db_scheme erp_result" where
  "approve_bill L E db e req =
     and_then (ok_or (find_bill db e (ab_bill_id req)) (NotFound ''Bill'' (ab_bill_id req))) (\<lambda>b.
     if bl_status b \<noteq> BsDraft \<and> bl_status b \<noteq> BsPendingApproval
     then Inl (ValidationFailed (''Bill '' @ bl_number b @ '' cannot be approved''))
     else and_then (assert_within_limit db e (ab_approved_by req) (bl_gross_total b) ''bill'') (\<lambda>_.
       and_then (case bl_po_id b of None \<Rightarrow> Inr () | Some po \<Rightarrow> assert_bill_receivable L db e po) (\<lambda>_.
       and_then (period_for_date db e (bl_issue_date b)) (\<lambda>p.
         (case parsed_status p of
            SoftClosed \<Rightarrow> Inl (PeriodClosedDetailed (fp_name p) ''SoftClosed'' (fp_id p))
          | HardClosed \<Rightarrow> Inl (PeriodClosedDetailed (fp_name p) ''HardClosed'' (fp_id p))
          | _ \<Rightarrow> Inr (update_bill (ab_bill_id req) (\<lambda>x. x\<lparr>bl_status := BsApproved,
                bl_approved_by := Some (ab_approved_by req), bl_approved_at := Some (now E)\<rparr>) db))))))"

section \<open>Posting\<close>

definition tracks_inventory :: "'a masters_db_scheme \<Rightarrow> uuid \<Rightarrow> invoice_line \<Rightarrow> bool" where
  "tracks_inventory db e l =
     (case Option.bind (il_product_id l) (find_product db e) of None \<Rightarrow> False | Some p \<Rightarrow> pd_track_inventory p)"

definition bill_dr :: "bill \<Rightarrow> string \<Rightarrow> account_code \<Rightarrow> decimal \<Rightarrow> journal_line_request" where
  "bill_dr b desc acc amount = dr_line (bl_currency b) (Some (bl_fx_rate b)) (Some desc) acc amount"

definition bill_cr :: "bill \<Rightarrow> string \<Rightarrow> account_code \<Rightarrow> decimal \<Rightarrow> journal_line_request" where
  "bill_cr b desc acc amount = cr_line (bl_currency b) (Some (bl_fx_rate b)) (Some desc) acc amount"

definition bill_debit_lines :: "'a masters_db_scheme \<Rightarrow> uuid \<Rightarrow> bill \<Rightarrow> invoice_line list \<Rightarrow> journal_line_request list" where
  "bill_debit_lines db e b ls =
     (let ps = posting (configs db e) in
      if ls = [] then [bill_dr b (''Bill '' @ bl_number b) (default_expense ps) (bl_subtotal b)]
      else map (\<lambda>l. with_dims (il_dimensions l)
             (if tracks_inventory db e l
              then bill_dr b (''Bill '' @ bl_number b @ '' - GRNI cleared'') (inventory_clearing ps) (il_line_total l)
              else bill_dr b (''Bill '' @ bl_number b) (il_account_code l) (il_line_total l))) ls)"

definition vat_input_account :: "'a masters_db_scheme \<Rightarrow> uuid \<Rightarrow> uuid \<Rightarrow> account_code" where
  "vat_input_account db e v = unwrap_or (resolve_vat_input db e v None) (vat_input (posting (configs db e)))"

definition bill_entry :: "'a masters_db_scheme \<Rightarrow> uuid \<Rightarrow> bill \<Rightarrow> invoice_line list \<Rightarrow> journal_entry_request" where
  "bill_entry db e b ls =
     (let ps = posting (configs db e) in
      \<lparr>rq_date = bl_issue_date b, rq_source = Bill, rq_source_id = Some (bl_id b), rq_reference = bl_number b,
       rq_description = ''Bill '' @ bl_number b @ '' posted'',
       rq_lines = bill_debit_lines db e b ls
         @ (if 0 < bl_tax_total b
            then [bill_dr b ''VAT Input'' (vat_input_account db e (bl_vendor_id b)) (bl_tax_total b)] else [])
         @ bill_cr b (''Bill '' @ bl_number b @ '' - AP'') (ap_account db e (bl_vendor_id b)) (bl_gross_total b)
         # (if 0 < bl_wht_amount b then [bill_cr b ''WHT withheld'' (wht_payable ps) (bl_wht_amount b)] else []),
       rq_post_immediately = True\<rparr>)"

definition post_bill ::
    "decimal_lib \<Rightarrow> calendar \<Rightarrow> environment \<Rightarrow> 'a ap_db_scheme \<Rightarrow> uuid \<Rightarrow> uuid \<Rightarrow> agent_or_user_id
      \<Rightarrow> (uuid \<times> 'a ap_db_scheme) erp_result" where
  "post_bill L C E db e i by' =
     and_then (ok_or (find_bill db e i) (NotFound ''Bill'' i)) (\<lambda>b.
     if bl_status b \<noteq> BsApproved then Inl (ValidationFailed ''Bill must be approved before posting'')
     else and_then (period_for_date db e (bl_issue_date b)) (\<lambda>p.
       and_then (create_and_post_in_tx L C E db e
           (bill_entry db e b (sort_key il_id (bill_lines_of db i))) (fp_id p) by') (\<lambda>(entry, db1).
         Inr (en_id entry, db1\<lparr>bills := map (\<lambda>x. if bl_id x = i \<and> bl_entity_id x = e
             then x\<lparr>bl_status := BsPosted, bl_journal_entry_id := Some (en_id entry)\<rparr> else x) (bills db1)\<rparr>))))"

end
