(* ===== verification/Payments.thy ===== *)
theory Payments
  imports Bills
begin

text \<open>
  Payments of customers and to vendors: \<^verbatim>\<open>zavora-erp-core/src/payments/payment.rs\<close>,
  \<^verbatim>\<open>payments/mpesa.rs\<close> and \<^verbatim>\<open>services/payments.rs\<close>. A payment is capped at the balance of each
  document it is applied to, the rest is held on the party's account; the documents, the payment
  and its journal entry commit together, and realised exchange differences follow in entries of
  their own. Callbacks of M-Pesa and Paystack are idempotent on their receipt. Reminders, the audit
  stream and the request that opens a card payment are not modelled.
\<close>

section \<open>Data\<close>

datatype payment_type = CustomerPayment | VendorPayment

datatype payment_method =
    Mpesa string string
  | BankTransfer string
  | Card string string
  | Cash
  | Cheque string

datatype payment_status = PyPending | PyCompleted | PyFailed | PyReversed

datatype payment_doc_type = DocInvoice | DocBill

record payment_application =
  pa_document_id :: uuid
  pa_document_type :: payment_doc_type
  pa_amount_applied :: decimal

record payment =
  py_id :: uuid
  py_entity_id :: uuid
  py_number :: string
  py_type :: payment_type
  py_party_id :: uuid
  py_date :: naive_date
  py_amount :: decimal
  py_currency :: currency_code
  py_fx_rate :: decimal
  py_method :: payment_method
  py_reference :: string
  py_bank_account_id :: "uuid option"
  py_applications :: "payment_application list"
  py_unapplied :: decimal
  py_status :: payment_status
  py_journal_entry_id :: "uuid option"

record application_request =
  aq_document_id :: uuid
  aq_amount :: decimal

record record_payment_request =
  rp_type :: payment_type
  rp_party_id :: uuid
  rp_date :: "naive_date option"
  rp_amount :: decimal
  rp_currency :: "currency_code option"
  rp_fx_rate :: "decimal option"
  rp_method :: payment_method
  rp_reference :: "string option"
  rp_bank_account_id :: "uuid option"
  rp_applications :: "application_request list"
  rp_wht_amount :: "decimal option"
  rp_wht_account :: "account_code option"
  rp_funding_account :: "account_code option"

record apply_payment_request =
  ay_payment_id :: uuid
  ay_document_id :: uuid
  ay_amount :: decimal

record bank_account =
  ba_id :: uuid
  ba_entity_id :: uuid
  ba_name :: string
  ba_currency :: currency_code
  ba_gl_account :: account_code

record mpesa_transaction =
  mt_entity_id :: uuid
  mt_receipt :: string
  mt_amount :: decimal
  mt_phone :: string
  mt_invoice_id :: "uuid option"
  mt_payment_id :: "uuid option"
  mt_reconciled :: bool

record paystack_transaction =
  px_entity_id :: uuid
  px_reference :: string
  px_invoice_id :: "uuid option"
  px_amount :: decimal
  px_status :: string
  px_payment_id :: "uuid option"

record payments_db = ap_db +
  payments :: "payment list"
  bank_accounts :: "bank_account list"
  mpesa_transactions :: "mpesa_transaction list"
  paystack_transactions :: "paystack_transaction list"

text \<open>The methods of \<open>Payment\<close>.\<close>

definition total_applied :: "payment \<Rightarrow> decimal" where
  "total_applied p = sum_list (map pa_amount_applied (py_applications p))"

definition recalculate_unapplied :: "payment \<Rightarrow> payment" where
  "recalculate_unapplied p = p\<lparr>py_unapplied := py_amount p - total_applied p\<rparr>"

section \<open>Accounts and documents\<close>

record payment_accounts =
  acct_ar :: account_code
  acct_ap :: account_code
  acct_unapplied_payments :: account_code
  acct_unapplied_vendor :: account_code
  acct_wht_receivable :: account_code
  acct_fx_gain :: account_code
  acct_fx_loss :: account_code

definition payment_accounts_for ::
    "'a masters_db_scheme \<Rightarrow> uuid \<Rightarrow> uuid \<Rightarrow> payment_type \<Rightarrow> payment_accounts" where
  "payment_accounts_for db e party ty =
     (let ps = posting (configs db e) in
      \<lparr>acct_ar = (if ty = CustomerPayment then ar_account db e party else accounts_receivable ps),
       acct_ap = (if ty = VendorPayment then ap_account db e party else accounts_payable ps),
       acct_unapplied_payments = unapplied_payments ps, acct_unapplied_vendor = unapplied_vendor_credits ps,
       acct_wht_receivable = wht_receivable ps, acct_fx_gain = realised_fx_gain ps,
       acct_fx_loss = realised_fx_loss ps\<rparr>)"

definition control_account :: "payment_type \<Rightarrow> payment_accounts \<Rightarrow> account_code" where
  "control_account ty a = (case ty of CustomerPayment \<Rightarrow> acct_ar a | VendorPayment \<Rightarrow> acct_ap a)"

definition resolve_bank_account_code :: "'a payments_db_scheme \<Rightarrow> uuid \<Rightarrow> uuid option \<Rightarrow> account_code" where
  "resolve_bank_account_code db e ba =
     (case Option.bind ba (\<lambda>i. List.find (\<lambda>b. ba_id b = i \<and> ba_entity_id b = e) (bank_accounts db)) of
        None \<Rightarrow> default_bank (posting (configs db e)) | Some b \<Rightarrow> ba_gl_account b)"

text \<open>The status of an invoice is not consulted, that of a bill is.\<close>

definition fetch_document_balance ::
    "'a ap_db_scheme \<Rightarrow> uuid \<Rightarrow> uuid \<Rightarrow> payment_type \<Rightarrow> decimal erp_result" where
  "fetch_document_balance db e i ty =
     (case ty of
        CustomerPayment \<Rightarrow>
          and_then (ok_or (find_invoice db e i) (NotFound ''Invoice'' i)) (\<lambda>x. Inr (iv_balance_due x))
      | VendorPayment \<Rightarrow>
          and_then (ok_or (find_bill db e i) (NotFound ''Bill'' i)) (\<lambda>b.
            if bl_status b = BsDraft \<or> bl_status b = BsPendingApproval
            then Inl (ValidationFailed ''Cannot process payment for bill; bill must be approved/posted first'')
            else Inr (bl_balance_due b)))"

definition fetch_document_fx_rate ::
    "'a ap_db_scheme \<Rightarrow> uuid \<Rightarrow> uuid \<Rightarrow> payment_type \<Rightarrow> decimal erp_result" where
  "fetch_document_fx_rate db e i ty =
     (case ty of
        CustomerPayment \<Rightarrow>
          and_then (ok_or (find_invoice db e i) (NotFound ''Invoice'' i)) (\<lambda>x. Inr (iv_fx_rate x))
      | VendorPayment \<Rightarrow>
          and_then (ok_or (find_bill db e i) (NotFound ''Bill'' i)) (\<lambda>b. Inr (bl_fx_rate b)))"

definition paid_invoice :: "timestamp \<Rightarrow> decimal \<Rightarrow> invoice \<Rightarrow> invoice" where
  "paid_invoice t a x =
     (let bal = iv_balance_due x - a in
      x\<lparr>iv_amount_paid := iv_amount_paid x + a, iv_balance_due := bal,
        iv_status := (if bal \<le> 0 then IvPaid else IvPartiallyPaid),
        iv_paid_at := (if bal \<le> 0 then Some t else iv_paid_at x)\<rparr>)"

definition paid_bill :: "decimal \<Rightarrow> bill \<Rightarrow> bill" where
  "paid_bill a b =
     (let bal = bl_balance_due b - a in
      b\<lparr>bl_amount_paid := bl_amount_paid b + a, bl_balance_due := bal,
        bl_status := (if bal \<le> 0 then BsPaid else BsPartiallyPaid)\<rparr>)"

definition pay_document ::
    "timestamp \<Rightarrow> payment_type \<Rightarrow> payment_application \<Rightarrow> 'a ap_db_scheme \<Rightarrow> 'a ap_db_scheme" where
  "pay_document t ty a db =
     (if pa_amount_applied a = 0 then db
      else case ty of
          CustomerPayment \<Rightarrow> update_invoice (pa_document_id a) (paid_invoice t (pa_amount_applied a)) db
        | VendorPayment \<Rightarrow> update_bill (pa_document_id a) (paid_bill (pa_amount_applied a)) db)"

section \<open>The entry of a payment\<close>

text \<open>What a customer's payment debits and credits. The functional residual of a withholding tax
  receipt goes to realised exchange differences.\<close>

definition customer_payment_lines ::
    "decimal_lib \<Rightarrow> payment_accounts \<Rightarrow> currency_code \<Rightarrow> string \<Rightarrow> currency_code \<Rightarrow> decimal
      \<Rightarrow> decimal \<Rightarrow> decimal \<Rightarrow> decimal \<Rightarrow> account_code \<Rightarrow> decimal \<Rightarrow> account_code option
      \<Rightarrow> journal_line_request list" where
  "customer_payment_lines L a base number ccy fx amount applied unapplied bank wht wht_acc =
     (let residual = round_dp L ((applied + unapplied - amount) * fx - wht) 2 in
      dr_line ccy (Some fx) (Some (''Payment received: '' @ number)) bank amount
      # (if 0 < wht then [dr_line base (Some 1) (Some (''WHT withheld by customer: '' @ number))
            (unwrap_or wht_acc (acct_wht_receivable a)) wht] else [])
      @ (if 0 < applied then [cr_line ccy (Some fx) (Some (''Applied to documents: '' @ number))
            (acct_ar a) applied] else [])
      @ (if 0 < unapplied then [cr_line ccy (Some fx) (Some (''Unapplied payment credit: '' @ number))
            (acct_unapplied_payments a) unapplied] else [])
      @ (if 0 < wht \<and> 1 / 100 \<le> \<bar>residual\<bar>
         then (if 0 < residual
               then [dr_line base (Some 1) (Some (''Realised FX on WHT receipt: '' @ number)) (acct_fx_loss a) residual]
               else [cr_line base (Some 1) (Some (''Realised FX on WHT receipt: '' @ number)) (acct_fx_gain a) (- residual)])
         else []))"

definition vendor_payment_lines ::
    "payment_accounts \<Rightarrow> string \<Rightarrow> currency_code \<Rightarrow> decimal \<Rightarrow> decimal \<Rightarrow> decimal \<Rightarrow> decimal \<Rightarrow> account_code
      \<Rightarrow> journal_line_request list" where
  "vendor_payment_lines a number ccy fx amount applied unapplied bank =
     (if 0 < applied then [dr_line ccy (Some fx) (Some (''Bill payment - AP cleared: '' @ number))
         (acct_ap a) applied] else [])
     @ [cr_line ccy (Some fx) (Some (''Payment made: '' @ number)) bank amount]
     @ (if 0 < unapplied then [dr_line ccy (Some fx) (Some (''Vendor overpayment held on account: '' @ number))
         (acct_unapplied_vendor a) unapplied] else [])"

definition payment_description :: "payment_type \<Rightarrow> string \<Rightarrow> decimal \<Rightarrow> decimal \<Rightarrow> string" where
  "payment_description ty number applied unapplied =
     ''Payment '' @ number @
     (case ty of
        CustomerPayment \<Rightarrow>
          if 0 < unapplied \<and> 0 < applied then '' - applied / unapplied''
          else if 0 < unapplied then '' - full amount held as unapplied'' else '' - fully applied''
      | VendorPayment \<Rightarrow> if 0 < unapplied then '' - applied / unapplied'' else '' - fully applied to vendor bill'')"

definition payment_entry :: "string \<Rightarrow> naive_date \<Rightarrow> string \<Rightarrow> journal_line_request list \<Rightarrow> journal_entry_request" where
  "payment_entry ref d desc ls =
     \<lparr>rq_date = d, rq_source = Payment, rq_source_id = None, rq_reference = ref, rq_description = desc,
      rq_lines = ls, rq_post_immediately = True\<rparr>"

definition payment_lines ::
    "decimal_lib \<Rightarrow> 'a masters_db_scheme \<Rightarrow> uuid \<Rightarrow> uuid \<Rightarrow> payment_type \<Rightarrow> string \<Rightarrow> currency_code \<Rightarrow> decimal
      \<Rightarrow> decimal \<Rightarrow> decimal \<Rightarrow> decimal \<Rightarrow> account_code \<Rightarrow> decimal \<Rightarrow> account_code option
      \<Rightarrow> journal_line_request list" where
  "payment_lines L db e party ty number ccy fx amount applied unapplied bank wht wht_acc =
     (let a = payment_accounts_for db e party ty in
      case ty of
        CustomerPayment \<Rightarrow> customer_payment_lines L a (base_currency (configs db e)) number ccy fx amount
          applied unapplied bank wht wht_acc
      | VendorPayment \<Rightarrow> vendor_payment_lines a number ccy fx amount applied unapplied bank)"

definition post_payment_journal_entry ::
    "decimal_lib \<Rightarrow> calendar \<Rightarrow> environment \<Rightarrow> 'a masters_db_scheme \<Rightarrow> uuid \<Rightarrow> uuid \<Rightarrow> string \<Rightarrow> naive_date
      \<Rightarrow> currency_code \<Rightarrow> decimal \<Rightarrow> decimal \<Rightarrow> decimal \<Rightarrow> decimal \<Rightarrow> account_code \<Rightarrow> payment_type \<Rightarrow> decimal
      \<Rightarrow> account_code option \<Rightarrow> agent_or_user_id \<Rightarrow> (uuid \<times> 'a masters_db_scheme) erp_result" where
  "post_payment_journal_entry L C E db e party number d ccy fx amount applied unapplied bank ty wht wht_acc by' =
     and_then (period_for_date db e d) (\<lambda>p.
     and_then (create_and_post_in_tx L C E db e
         (payment_entry number d (payment_description ty number applied unapplied)
            (payment_lines L db e party ty number ccy fx amount applied unapplied bank wht wht_acc))
         (fp_id p) by') (\<lambda>(entry, db1). Inr (en_id entry, db1)))"

section \<open>Realised exchange differences\<close>

definition fx_lines ::
    "decimal_lib \<Rightarrow> payment_accounts \<Rightarrow> currency_code \<Rightarrow> string \<Rightarrow> decimal \<Rightarrow> decimal \<Rightarrow> decimal \<Rightarrow> payment_type
      \<Rightarrow> journal_line_request list" where
  "fx_lines L a base number pay_fx doc_fx applied ty =
     (let diff = round_money L (applied * pay_fx) - round_money L (applied * doc_fx);
          control = control_account ty a in
      if 0 < diff
      then [dr_line base (Some 1) (Some (''FX gain adjustment on '' @ number)) control \<bar>diff\<bar>,
            cr_line base (Some 1) (Some (''Realised FX gain on payment '' @ number)) (acct_fx_gain a) \<bar>diff\<bar>]
      else [dr_line base (Some 1) (Some (''Realised FX loss on payment '' @ number)) (acct_fx_loss a) \<bar>diff\<bar>,
            cr_line base (Some 1) (Some (''FX loss adjustment on '' @ number)) control \<bar>diff\<bar>])"

definition post_fx_gain_loss_entry ::
    "decimal_lib \<Rightarrow> calendar \<Rightarrow> environment \<Rightarrow> 'a masters_db_scheme \<Rightarrow> uuid \<Rightarrow> uuid \<Rightarrow> string \<Rightarrow> naive_date
      \<Rightarrow> decimal \<Rightarrow> decimal \<Rightarrow> decimal \<Rightarrow> payment_type \<Rightarrow> agent_or_user_id
      \<Rightarrow> (uuid \<times> 'a masters_db_scheme) erp_result" where
  "post_fx_gain_loss_entry L C E db e party number d pay_fx doc_fx applied ty by' =
     and_then (period_for_date db e d) (\<lambda>p.
     and_then (create_and_post L C E db e
         (payment_entry (number @ ''-FX'') d (''Realised FX difference on payment '' @ number)
            (fx_lines L (payment_accounts_for db e party ty) (base_currency (configs db e)) number
               pay_fx doc_fx applied ty))
         (fp_id p) by') (\<lambda>(entry, db1). Inr (en_id entry, db1)))"

text \<open>The loop after the commit: every entry commits by itself, and an error stops the loop with the
  payment and the earlier entries in place.\<close>

fun post_fx_entries ::
    "decimal_lib \<Rightarrow> calendar \<Rightarrow> environment \<Rightarrow> uuid \<Rightarrow> uuid \<Rightarrow> string \<Rightarrow> naive_date \<Rightarrow> decimal \<Rightarrow> payment_type
      \<Rightarrow> agent_or_user_id \<Rightarrow> nat \<Rightarrow> payment_application list \<Rightarrow> 'a ap_db_scheme
      \<Rightarrow> 'a ap_db_scheme \<times> unit erp_result" where
  "post_fx_entries L C E e party number d fx ty by' k [] db = (db, Inr ())"
| "post_fx_entries L C E e party number d fx ty by' k (a # as) db =
     (if pa_amount_applied a = 0 then post_fx_entries L C E e party number d fx ty by' (Suc k) as db
      else case fetch_document_fx_rate db e (pa_document_id a) ty of
        Inl err \<Rightarrow> (db, Inl err)
      | Inr doc_fx \<Rightarrow>
          if doc_fx = fx then post_fx_entries L C E e party number d fx ty by' (Suc k) as db
          else case post_fx_gain_loss_entry L C (branch_env E k) db e party number d fx doc_fx
                 (pa_amount_applied a) ty by' of
            Inl err \<Rightarrow> (db, Inl err)
          | Inr (_, db1) \<Rightarrow> post_fx_entries L C E e party number d fx ty by' (Suc k) as db1)"

section \<open>Recording a payment\<close>

definition wht_in_currency :: "decimal_lib \<Rightarrow> decimal \<Rightarrow> decimal \<Rightarrow> decimal" where
  "wht_in_currency L wht fx = (if 0 < wht \<and> 0 < fx then round_dp L (div_dec L wht fx) 2 else 0)"

definition cap_application ::
    "'a ap_db_scheme \<Rightarrow> uuid \<Rightarrow> payment_type \<Rightarrow> application_request \<Rightarrow> payment_application erp_result" where
  "cap_application db e ty r =
     and_then (fetch_document_balance db e (aq_document_id r) ty) (\<lambda>bal.
       Inr \<lparr>pa_document_id = aq_document_id r,
            pa_document_type = (case ty of CustomerPayment \<Rightarrow> DocInvoice | VendorPayment \<Rightarrow> DocBill),
            pa_amount_applied = min (aq_amount r) bal\<rparr>)"

definition new_payment ::
    "uuid \<Rightarrow> uuid \<Rightarrow> string \<Rightarrow> naive_date \<Rightarrow> currency_code \<Rightarrow> decimal \<Rightarrow> payment_application list \<Rightarrow> decimal
      \<Rightarrow> record_payment_request \<Rightarrow> payment" where
  "new_payment i e number d ccy fx apps unapplied req =
     \<lparr>py_id = i, py_entity_id = e, py_number = number, py_type = rp_type req, py_party_id = rp_party_id req,
      py_date = d, py_amount = rp_amount req, py_currency = ccy, py_fx_rate = fx, py_method = rp_method req,
      py_reference = unwrap_or (rp_reference req) number, py_bank_account_id = rp_bank_account_id req,
      py_applications = apps, py_unapplied = unapplied, py_status = PyCompleted, py_journal_entry_id = None\<rparr>"

definition update_payment :: "uuid \<Rightarrow> (payment \<Rightarrow> payment) \<Rightarrow> 'a payments_db_scheme \<Rightarrow> 'a payments_db_scheme" where
  "update_payment i f db = db\<lparr>payments := map (\<lambda>p. if py_id p = i then f p else p) (payments db)\<rparr>"

definition insert_payment :: "payment \<Rightarrow> 'a payments_db_scheme \<Rightarrow> 'a payments_db_scheme erp_result" where
  "insert_payment p db =
     (if \<exists>x \<in> set (payments db). py_id x = py_id p \<or> (py_entity_id x = py_entity_id p \<and> py_number x = py_number p)
      then Inl (Database ''duplicate key value violates unique constraint'')
      else Inr (db\<lparr>payments := payments db @ [p]\<rparr>))"

text \<open>The transaction: the payment, the documents and the entry.\<close>

definition payment_tx ::
    "decimal_lib \<Rightarrow> calendar \<Rightarrow> environment \<Rightarrow> 'a payments_db_scheme \<Rightarrow> uuid \<Rightarrow> payment \<Rightarrow> decimal
      \<Rightarrow> account_code \<Rightarrow> decimal \<Rightarrow> account_code option \<Rightarrow> agent_or_user_id
      \<Rightarrow> (payment \<times> 'a payments_db_scheme) erp_result" where
  "payment_tx L C E db e p applied bank wht wht_acc by' =
     and_then (insert_payment p db) (\<lambda>db1.
     let db2 = fold (pay_document (now E) (py_type p)) (py_applications p) db1 in
     and_then (post_payment_journal_entry L C E db2 e (py_party_id p) (py_number p) (py_date p)
         (py_currency p) (py_fx_rate p) (py_amount p) applied (py_unapplied p) bank (py_type p) wht wht_acc by')
       (\<lambda>(entry, db3).
         Inr (p\<lparr>py_journal_entry_id := Some entry\<rparr>,
              update_payment (py_id p) (\<lambda>x. x\<lparr>py_journal_entry_id := Some entry\<rparr>) db3)))"

definition record_payment ::
    "decimal_lib \<Rightarrow> calendar \<Rightarrow> environment \<Rightarrow> 'a payments_db_scheme \<Rightarrow> uuid \<Rightarrow> record_payment_request
      \<Rightarrow> agent_or_user_id \<Rightarrow> 'a payments_db_scheme \<times> payment erp_result" where
  "record_payment L C E db e req by' =
     (let d = unwrap_or (rp_date req) (today E);
          ccy = unwrap_or (rp_currency req) (base_currency (configs db e));
          fx = unwrap_or (rp_fx_rate req) 1;
          wht = max (unwrap_or (rp_wht_amount req) 0) 0;
          wht_ccy = wht_in_currency L wht fx;
          tolerance = (if 0 < wht then max (wht_ccy * (5 / 100)) 1 else 0) in
      if rp_amount req + wht_ccy + tolerance < sum_list (map aq_amount (rp_applications req))
      then (db, Inl (ValidationFailed ''Total applied amount exceeds payment amount (cash + withholding tax)''))
      else case generate_payment_number C db e d of
        Inl err \<Rightarrow> (db, Inl err)
      | Inr (number, db1) \<Rightarrow>
          (case try_map (cap_application db1 e (rp_type req)) (rp_applications req) of
             Inl err \<Rightarrow> (db1, Inl err)
           | Inr apps \<Rightarrow>
               (let applied = sum_list (map pa_amount_applied apps);
                    unapplied = max (rp_amount req + wht_ccy - applied) 0;
                    bank = unwrap_or (non_blank (rp_funding_account req))
                      (resolve_bank_account_code db1 e (rp_bank_account_id req)) in
                case payment_tx L C (odds E) db1 e
                       (new_payment (uuids (evens E) 0) e number d ccy fx apps unapplied req)
                       applied bank wht (rp_wht_account req) by' of
                  Inl err \<Rightarrow> (db1, Inl err)
                | Inr (p, db2) \<Rightarrow>
                    (case post_fx_entries L C (odds (evens E)) e (rp_party_id req) number d fx (rp_type req) by' 0 apps db2 of
                       (db3, Inl err) \<Rightarrow> (db3, Inl err)
                     | (db3, Inr _) \<Rightarrow> (db3, Inr p)))))"

section \<open>Applying what is held on account\<close>

definition find_payment :: "'a payments_db_scheme \<Rightarrow> uuid \<Rightarrow> uuid \<Rightarrow> payment option" where
  "find_payment db e i = List.find (\<lambda>p. py_id p = i \<and> py_entity_id p = e) (payments db)"

text \<open>Both directions debit the account of unapplied customer payments and credit the control
  account.\<close>

definition apply_entry :: "payment_accounts \<Rightarrow> payment \<Rightarrow> decimal \<Rightarrow> journal_entry_request" where
  "apply_entry a p amount =
     payment_entry (py_number p @ ''-APPLY'') (py_date p)
       (''Apply unapplied funds from payment '' @ py_number p @ '' to document'')
       [dr_line (py_currency p) (Some (py_fx_rate p))
          (Some (''Apply unapplied funds from payment '' @ py_number p @ '' to document''))
          (acct_unapplied_payments a) amount,
        cr_line (py_currency p) (Some (py_fx_rate p)) (Some (''Unapplied payment allocation: '' @ py_number p))
          (control_account (py_type p) a) amount]"

definition apply_unapplied_payment ::
    "decimal_lib \<Rightarrow> calendar \<Rightarrow> environment \<Rightarrow> 'a payments_db_scheme \<Rightarrow> uuid \<Rightarrow> apply_payment_request
      \<Rightarrow> agent_or_user_id \<Rightarrow> (payment \<times> 'a payments_db_scheme) erp_result" where
  "apply_unapplied_payment L C E db e req by' =
     and_then (ok_or (find_payment db e (ay_payment_id req)) (NotFound ''Payment'' (ay_payment_id req))) (\<lambda>p.
     if py_unapplied p < ay_amount req then Inl (ValidationFailed ''Apply amount exceeds unapplied balance'')
     else if ay_amount req \<le> 0 then Inl (ValidationFailed ''Apply amount must be positive'')
     else and_then (fetch_document_balance db e (ay_document_id req) (py_type p)) (\<lambda>bal.
       let amount = min (ay_amount req) bal in
       if amount \<le> 0 then Inl (ValidationFailed ''Target document has no outstanding balance'')
       else
         (let app = \<lparr>pa_document_id = ay_document_id req,
                pa_document_type = (case py_type p of CustomerPayment \<Rightarrow> DocInvoice | VendorPayment \<Rightarrow> DocBill),
                pa_amount_applied = amount\<rparr>;
              upd = (\<lambda>x. x\<lparr>py_unapplied := py_unapplied p - amount, py_applications := py_applications p @ [app]\<rparr>);
              db1 = pay_document (now E) (py_type p) app (update_payment (ay_payment_id req) upd db) in
          and_then (period_for_date db1 e (py_date p)) (\<lambda>per.
          and_then (create_and_post_in_tx L C E db1 e
              (apply_entry (payment_accounts_for db1 e (py_party_id p) (py_type p)) p amount) (fp_id per) by')
            (\<lambda>(entry, db2). Inr (upd p, db2))))))"

section \<open>Callbacks of the providers\<close>

record mpesa_callback =
  cb_result_code :: int
  cb_result_desc :: string
  cb_amount :: "decimal option"
  cb_receipt :: "string option"
  cb_phone :: "string option"

definition is_success :: "mpesa_callback \<Rightarrow> bool" where
  "is_success cb \<longleftrightarrow> cb_result_code cb = 0"

definition payment_from_row :: "payment \<Rightarrow> payment" where
  "payment_from_row p = p\<lparr>py_status := PyCompleted\<rparr>"

text \<open>A payment of an invoice as a provider reports it: in the currency and at the rate of the
  invoice, all of it applied to the invoice.\<close>

definition provider_payment ::
    "invoice \<Rightarrow> uuid \<Rightarrow> decimal \<Rightarrow> payment_method \<Rightarrow> string \<Rightarrow> record_payment_request" where
  "provider_payment doc i amount m ref =
     \<lparr>rp_type = CustomerPayment, rp_party_id = iv_customer_id doc, rp_date = None, rp_amount = amount,
      rp_currency = Some (iv_currency doc), rp_fx_rate = Some (iv_fx_rate doc), rp_method = m,
      rp_reference = Some ref, rp_bank_account_id = None,
      rp_applications = [\<lparr>aq_document_id = i, aq_amount = amount\<rparr>],
      rp_wht_amount = None, rp_wht_account = None, rp_funding_account = None\<rparr>"

definition same_receipt :: "uuid \<Rightarrow> string \<Rightarrow> mpesa_transaction \<Rightarrow> bool" where
  "same_receipt e r m \<longleftrightarrow> mt_entity_id m = e \<and> mt_receipt m = r"

definition receipt_payment :: "'a payments_db_scheme \<Rightarrow> uuid \<Rightarrow> string \<Rightarrow> payment option" where
  "receipt_payment db e r =
     List.find (\<lambda>p. \<exists>m \<in> set (mpesa_transactions db). same_receipt e r m \<and> mt_payment_id m = Some (py_id p)) (payments db)"

definition claim_receipt ::
    "'a payments_db_scheme \<Rightarrow> uuid \<Rightarrow> string \<Rightarrow> decimal \<Rightarrow> string \<Rightarrow> uuid \<Rightarrow> 'a payments_db_scheme" where
  "claim_receipt db e r amount phone i =
     (if r = [] \<or> (\<exists>m \<in> set (mpesa_transactions db). same_receipt e r m) then db
      else db\<lparr>mpesa_transactions := mpesa_transactions db @
        [\<lparr>mt_entity_id = e, mt_receipt = r, mt_amount = amount, mt_phone = phone, mt_invoice_id = Some i,
          mt_payment_id = None, mt_reconciled = False\<rparr>]\<rparr>)"

definition link_receipt :: "uuid \<Rightarrow> string \<Rightarrow> uuid \<Rightarrow> 'a payments_db_scheme \<Rightarrow> 'a payments_db_scheme" where
  "link_receipt e r p db =
     (if r = [] then db
      else db\<lparr>mpesa_transactions := map (\<lambda>m. if same_receipt e r m
          then m\<lparr>mt_payment_id := Some p, mt_reconciled := True\<rparr> else m) (mpesa_transactions db)\<rparr>)"

definition record_mpesa_payment ::
    "decimal_lib \<Rightarrow> calendar \<Rightarrow> environment \<Rightarrow> 'a payments_db_scheme \<Rightarrow> uuid \<Rightarrow> uuid \<Rightarrow> mpesa_callback
      \<Rightarrow> 'a payments_db_scheme \<times> payment erp_result" where
  "record_mpesa_payment L C E db e i cb =
     (if \<not> is_success cb then (db, Inl (PaymentError (''M-Pesa transaction failed: '' @ cb_result_desc cb)))
      else case cb_amount cb of
        None \<Rightarrow> (db, Inl (PaymentError ''M-Pesa callback missing amount''))
      | Some amount \<Rightarrow>
          (let receipt = unwrap_or (cb_receipt cb) []; phone = unwrap_or (cb_phone cb) [] in
           case find_invoice db e i of
             None \<Rightarrow> (db, Inl (NotFound ''Invoice'' i))
           | Some doc \<Rightarrow>
               (case (if receipt = [] then None else receipt_payment db e receipt) of
                  Some p \<Rightarrow> (db, Inr (payment_from_row p))
                | None \<Rightarrow>
                    (case record_payment L C E (claim_receipt db e receipt amount phone i) e
                            (provider_payment doc i amount (Mpesa receipt phone) receipt) (AgentId ''mpesa-webhook'') of
                       (db1, Inl err) \<Rightarrow> (db1, Inl err)
                     | (db1, Inr p) \<Rightarrow> (link_receipt e receipt (py_id p) db1, Inr p)))))"

record paystack_charge =
  pc_reference :: string
  pc_amount :: int

definition record_paystack_payment ::
    "decimal_lib \<Rightarrow> calendar \<Rightarrow> environment \<Rightarrow> 'a payments_db_scheme \<Rightarrow> uuid \<Rightarrow> paystack_charge
      \<Rightarrow> 'a payments_db_scheme \<times> payment erp_result" where
  "record_paystack_payment L C E db e data =
     (let ref = pc_reference data in
      case List.find (\<lambda>x. px_entity_id x = e \<and> px_reference x = ref) (paystack_transactions db) of
        None \<Rightarrow> (db, Inl (NotFound ''PaystackTransaction'' 0))
      | Some claim \<Rightarrow>
          (case Option.bind (px_payment_id claim) (find_payment db e) of
             Some p \<Rightarrow> (db, Inr (payment_from_row p))
           | None \<Rightarrow>
               (case px_invoice_id claim of
                  None \<Rightarrow> (db, Inl (ValidationFailed ''Paystack transaction has no linked invoice.''))
                | Some i \<Rightarrow>
                    (case find_invoice db e i of
                       None \<Rightarrow> (db, Inl (NotFound ''Invoice'' i))
                     | Some doc \<Rightarrow>
                         (let amount = round_dp L (div_dec L (of_int (pc_amount data)) 100) 2 in
                          case record_payment L C E db e
                                 (provider_payment doc i amount (Card ''paystack'' ref) ref) (AgentId ''paystack-webhook'') of
                            (db1, Inl err) \<Rightarrow> (db1, Inl err)
                          | (db1, Inr p) \<Rightarrow>
                              (db1\<lparr>paystack_transactions := map (\<lambda>x. if px_entity_id x = e \<and> px_reference x = ref
                                   then x\<lparr>px_status := ''success'', px_payment_id := Some (py_id p)\<rparr> else x)
                                 (paystack_transactions db1)\<rparr>, Inr p))))))"

end
