(* ===== verification/Receivables.thy ===== *)
theory Receivables
  imports Payments
begin

text \<open>
  The receivables of a tenant: what the documents of \<^verbatim>\<open>services/invoicing.rs\<close> and
  \<^verbatim>\<open>services/payments.rs\<close> say is still owed, against what the control account in the ledger says.
  The invariant ties the two, for tenants whose documents are in the base currency and whose
  control account is used for receivables only.
\<close>

section \<open>What is owed\<close>

definition own_invoice :: "uuid \<Rightarrow> invoice \<Rightarrow> bool" where
  "own_invoice e x \<longleftrightarrow> iv_entity_id x = e \<and> iv_type x = TypeInvoice"

text \<open>A posted document is open with its balance; a document paid before it is posted counts
  negatively, since the payment credits the control account that posting has not yet debited.\<close>

definition open_amount :: "invoice \<Rightarrow> decimal" where
  "open_amount x = (if iv_journal_entry_id x = None then - iv_amount_paid x else iv_balance_due x)"

definition open_total :: "'a sales_db_scheme \<Rightarrow> uuid \<Rightarrow> decimal" where
  "open_total db e = sum_where (own_invoice e) open_amount (invoices db)"

definition doc_ok :: "invoice \<Rightarrow> bool" where
  "doc_ok x \<longleftrightarrow> iv_balance_due x = iv_gross_total x - iv_amount_paid x
     \<and> 0 \<le> iv_amount_paid x \<and> 0 \<le> iv_balance_due x
     \<and> has_dp 2 (iv_gross_total x) \<and> has_dp 2 (iv_amount_paid x)
     \<and> (iv_status x = IvDraft \<longrightarrow> iv_journal_entry_id x = None \<and> iv_amount_paid x = 0)
     \<and> (iv_type x = TypeCreditNote \<longrightarrow> iv_status x \<noteq> IvDraft \<and> iv_balance_due x = 0)"

definition docs_ok :: "'a sales_db_scheme \<Rightarrow> uuid \<Rightarrow> bool" where
  "docs_ok db e \<longleftrightarrow> distinct (map iv_id (invoices db))
     \<and> (\<forall>x \<in> set (invoices db). iv_entity_id x = e \<longrightarrow> doc_ok x)"

definition receivables_inv :: "'a sales_db_scheme \<Rightarrow> uuid \<Rightarrow> account_code \<Rightarrow> bool" where
  "receivables_inv db e A \<longleftrightarrow> docs_ok db e \<and> account_net db e A = open_total db e"

lemma docs_okD:
  assumes "docs_ok db e"
  shows "distinct (map iv_id (invoices db))"
    and "x \<in> set (invoices db) \<Longrightarrow> iv_entity_id x = e \<Longrightarrow> doc_ok x"
  using assms by (auto simp: docs_ok_def)

lemma find_invoiceD:
  assumes "find_invoice db e i = Some x"
  shows "x \<in> set (invoices db)" "iv_id x = i" "iv_entity_id x = e"
  using find_SomeD [OF assms [unfolded find_invoice_def]] by auto

text \<open>The books of a tenant depend on two tables only.\<close>

lemma account_net_cong: "journal_lines db' = journal_lines db \<Longrightarrow> account_net db' e c = account_net db e c"
  by (simp add: account_net_def)

definition same_books :: "'a sales_db_scheme \<Rightarrow> 'b sales_db_scheme \<Rightarrow> bool" where
  "same_books db db' \<longleftrightarrow> invoices db' = invoices db \<and> journal_lines db' = journal_lines db"

lemma same_books_inv: "receivables_inv db e A \<Longrightarrow> same_books db db' \<Longrightarrow> receivables_inv db' e A"
  by (simp add: receivables_inv_def same_books_def docs_ok_def open_total_def account_net_def)

lemma same_books_trans: "same_books a b \<Longrightarrow> same_books b c \<Longrightarrow> same_books a c"
  by (simp add: same_books_def)

text \<open>The one way a document changes: a row is replaced by another of the same identity.\<close>

lemma replace_document:
  assumes docs: "docs_ok db e" and x: "find_invoice db e i = Some x"
    and inv: "invoices db' = map (\<lambda>y. if iv_id y = i then f y else y) (invoices db)"
    and f: "iv_id (f x) = i" "iv_entity_id (f x) = e" "iv_type (f x) = iv_type x" "doc_ok (f x)"
  shows "docs_ok db' e"
    and "open_total db' e = open_total db e
      + (if iv_type x = TypeInvoice then open_amount (f x) - open_amount x else 0)"
proof -
  note X = find_invoiceD [OF x] and D = docs_okD [OF docs]
  have only: "y = x" if "y \<in> set (invoices db)" "iv_id y = i" for y
    using keyed_eq [OF D(1) that(1) X(1)] that(2) X(2) by simp
  have ids: "map iv_id (invoices db') = map iv_id (invoices db)"
    using only f(1) by (auto simp: inv)
  have ok: "doc_ok y" if "y \<in> set (invoices db')" "iv_entity_id y = e" for y
    using that D(2) only f(4) by (fastforce simp: inv split: if_splits)
  show "docs_ok db' e" unfolding docs_ok_def ids using D(1) ok by blast
  have "invoices db' = map (\<lambda>y. if iv_id y = iv_id x then f y else y) (invoices db)"
    using X(2) inv by simp
  then have "open_total db' e = open_total db e - (if own_invoice e x then open_amount x else 0)
      + (if own_invoice e (f x) then open_amount (f x) else 0)"
    using sum_where_update_one [OF D(1) X(1), of "own_invoice e" open_amount f] by (simp add: open_total_def)
  then show "open_total db' e = open_total db e
      + (if iv_type x = TypeInvoice then open_amount (f x) - open_amount x else 0)"
    using f(2,3) X(3) by (simp add: own_invoice_def)
qed

lemma insert_document:
  assumes docs: "docs_ok db e" and ok: "insert_invoice r ls db = Inr db'"
    and r: "iv_entity_id r = e" "doc_ok r" "iv_type r = TypeInvoice \<Longrightarrow> open_amount r = 0"
  shows "docs_ok db' e" "open_total db' e = open_total db e" "journal_lines db' = journal_lines db"
proof -
  have db': "invoices db' = invoices db @ [r]" "journal_lines db' = journal_lines db"
    "iv_id r \<notin> iv_id ` set (invoices db)"
    using ok by (auto simp: insert_invoice_def split: if_splits)
  show "docs_ok db' e" using docs r(2) db' by (auto simp: docs_ok_def)
  show "open_total db' e = open_total db e" using r db'(1) by (auto simp: open_total_def own_invoice_def)
  show "journal_lines db' = journal_lines db" by (rule db'(2))
qed

section \<open>Posting against the control account\<close>

text \<open>What posting does to the books: the documents stay, the account moves by the lines on it.\<close>

lemma posted_books:
  assumes "create_and_post_in_tx L C E db e req i by' = Inr (en, db')"
    and "A \<noteq> rounding_adjustment (posting (configs db e))"
  shows "invoices db' = invoices db" "account_net db' e A = account_net db e A + request_net L (rq_lines req) A"
    "configs db' = configs db"
proof -
  from posting.post_frame(4) [OF assms(1)] show "invoices db' = invoices db"
    by (metis (no_types) sales_db.select_convs stock_db.surjective masters_db.surjective sales_db.surjective
        ledger_db.select_convs ledger_db.surjective)
  show "account_net db' e A = account_net db e A + request_net L (rq_lines req) A"
    by (rule posting.post_net_other [OF assms])
  show "configs db' = configs db" by (rule posting.post_frame(2) [OF assms(1)])
qed

text \<open>The request of a document at rate one: amounts in cents post as they are.\<close>

lemma with_dims_simps [simp]:
  "rl_account (with_dims d l) = rl_account l"
  "request_debits L (with_dims d l # ls) = request_debits L (l # ls)"
  "request_credits L (with_dims d l # ls) = request_credits L (l # ls)"
  "request_net L (with_dims d l # ls) A = request_net L (l # ls) A"
  by (simp_all add: with_dims_def request_net_def request_debits_def request_credits_def)

lemma request_net_elsewhere: "(\<And>l. l \<in> set ls \<Longrightarrow> rl_account l \<noteq> A) \<Longrightarrow> request_net L ls A = 0"
  by (simp add: request_net_def request_debits_def request_credits_def filter_empty_conv)

section \<open>What stock movements and numbering leave alone\<close>

text \<open>The tables the accounts of an entry are derived from.\<close>

definition same_routing :: "'a masters_db_scheme \<Rightarrow> 'a masters_db_scheme \<Rightarrow> bool" where
  "same_routing db db' \<longleftrightarrow> configs db' = configs db \<and> customers db' = customers db \<and> vendors db' = vendors db
     \<and> products db' = products db \<and> general_business_groups db' = general_business_groups db
     \<and> vat_posting_matrix db' = vat_posting_matrix db"

lemma same_routing_trans: "same_routing a b \<Longrightarrow> same_routing b c \<Longrightarrow> same_routing a c"
  by (simp add: same_routing_def)

lemma routing_accounts:
  assumes "same_routing db db'"
  shows "configs db' = configs db" "ar_account db' e c = ar_account db e c" "ap_account db' e v = ap_account db e v"
    "vat_output_account db' e c p = vat_output_account db e c p"
proof -
  have p: "product_vat_group db' e = product_vat_group db e"
    using assms by (simp add: fun_eq_iff same_routing_def product_vat_group_def find_product_def)
  show "configs db' = configs db" using assms by (simp add: same_routing_def)
  show "ar_account db' e c = ar_account db e c" using assms
    by (simp add: same_routing_def ar_account_def resolve_receivables_def customer_general_biz_def
        find_customer_def find_business_group_def)
  show "ap_account db' e v = ap_account db e v" using assms
    by (simp add: same_routing_def ap_account_def resolve_payables_def vendor_general_biz_def
        find_vendor_def find_business_group_def)
  show "vat_output_account db' e c p = vat_output_account db e c p" using assms
    by (simp add: same_routing_def vat_output_account_def resolve_vat_output_def resolve_vat_def p
        customer_vat_biz_def find_customer_def split: option.splits)
qed

lemma posted_routing:
  assumes "create_and_post_in_tx L C E (db :: 'a masters_db_scheme) e req i by' = Inr (en, db')"
  shows "same_routing db db'"
proof -
  note post = posting.post_frame [OF assms]
  from post(4) have "masters_db.more db' = masters_db.more db \<and> customers db' = customers db \<and> vendors db' = vendors db
      \<and> products db' = products db \<and> general_business_groups db' = general_business_groups db
      \<and> vat_posting_matrix db' = vat_posting_matrix db"
    by (cases db, cases db') simp
  with post(2) show ?thesis by (simp add: same_routing_def)
qed

definition same_setup :: "'a sales_db_scheme \<Rightarrow> 'a sales_db_scheme \<Rightarrow> bool" where
  "same_setup db db' \<longleftrightarrow> same_books db db' \<and> same_routing db db' \<and> invoice_lines db' = invoice_lines db
     \<and> (gl_inventory ` set (inventory_items db') = gl_inventory ` set (inventory_items db)
        \<and> gl_cogs ` set (inventory_items db') = gl_cogs ` set (inventory_items db))"

lemma same_setup_refl [simp]: "same_setup db db"
  by (simp add: same_setup_def same_books_def same_routing_def)

lemma same_setup_trans: "same_setup a b \<Longrightarrow> same_setup b c \<Longrightarrow> same_setup a c"
  by (simp add: same_setup_def same_books_def same_routing_def)

lemma ensure_default_warehouse_books:
  fixes db :: "'a sales_db_scheme"
  shows "invoices (snd (ensure_default_warehouse_tx E db e)) = invoices db"
    "journal_lines (snd (ensure_default_warehouse_tx E db e)) = journal_lines db"
    "same_routing db (snd (ensure_default_warehouse_tx E db e))"
    "invoice_lines (snd (ensure_default_warehouse_tx E db e)) = invoice_lines db"
    "inventory_items (snd (ensure_default_warehouse_tx E db e)) = inventory_items db"
  by (auto simp: ensure_default_warehouse_tx_def same_routing_def split: option.splits)

lemma stock_delta_setup: "same_setup db (apply_stock_delta_tx E db e i w d)"
  using ensure_default_warehouse_books [where E = E and db = db and e = e]
  by (cases w) (auto simp: apply_stock_delta_tx_def same_setup_def same_books_def same_routing_def split: prod.splits)

lemma update_item_accounts:
  assumes "\<And>x. gl_inventory (f x) = gl_inventory x" "\<And>x. gl_cogs (f x) = gl_cogs x"
  shows "gl_inventory ` set (update_item e i f xs) = gl_inventory ` set xs"
    "gl_cogs ` set (update_item e i f xs) = gl_cogs ` set xs"
proof -
  have "map gl_inventory (update_item e i f xs) = map gl_inventory xs" "map gl_cogs (update_item e i f xs) = map gl_cogs xs"
    using assms by (simp_all add: update_item_def)
  then show "gl_inventory ` set (update_item e i f xs) = gl_inventory ` set xs"
    "gl_cogs ` set (update_item e i f xs) = gl_cogs ` set xs"
    by (metis set_map)+
qed

lemma issue_setup:
  assumes "issue_inventory_in_tx E db e req by' = Inr (res, db')"
  shows "same_setup db db'" "ir_gl_inventory res \<in> gl_inventory ` set (inventory_items db)"
    "ir_gl_cogs res \<in> gl_cogs ` set (inventory_items db)"
proof -
  obtain it where find: "find_item db e (is_item_id req) = Some it"
    using assms by (auto simp: issue_inventory_in_tx_def)
  have it: "it \<in> set (inventory_items db)" using find_SomeD [OF find [unfolded find_item_def]] by simp
  have enough: "\<not> available it < is_quantity req"
    using assms find by (auto simp: issue_inventory_in_tx_def Let_def)
  have above: "\<not> \<not> enforce_nonneg_inventory e (is_item_id req) (issued_item (is_quantity req)) (inventory_items db)"
    using assms find by (auto simp: issue_inventory_in_tx_def Let_def split: if_splits)
  note eq = assms [unfolded issue_inventory_in_tx_def find ok_or_simps and_then_Inr Let_def if_not_P [OF enough]
      if_not_P [OF above] sum.inject prod.inject]
  show "same_setup db db'"
    unfolding conjunct2 [OF eq, symmetric]
    by (rule same_setup_trans [OF _ stock_delta_setup])
      (simp add: same_setup_def same_books_def same_routing_def update_item_accounts issued_item_def)
  show "ir_gl_inventory res \<in> gl_inventory ` set (inventory_items db)" "ir_gl_cogs res \<in> gl_cogs ` set (inventory_items db)"
    unfolding conjunct1 [OF eq, symmetric] using it by simp_all
qed

lemma receive_setup:
  assumes "receive_inventory_in_tx Q E db e req by' = Inr (m, db')"
  shows "same_setup db db'"
proof -
  let ?null = "\<exists>x\<in>set (inventory_items db). im_id x = rv_item_id req \<and> im_entity_id x = e \<and> on_hand x + rv_quantity req = 0"
  have ok: "\<not> ?null"
  proof
    assume null: ?null
    from assms show False unfolding receive_inventory_in_tx_def Let_def if_P [OF null] by simp
  qed
  have above: "\<not> \<not> enforce_nonneg_inventory e (rv_item_id req)
      (received_item Q (rv_quantity req) (rv_unit_cost req)) (inventory_items db)"
    using assms unfolding receive_inventory_in_tx_def Let_def if_not_P [OF ok] by (simp split: if_splits)
  note eq = assms [unfolded receive_inventory_in_tx_def Let_def if_not_P [OF ok] if_not_P [OF above]
      sum.inject prod.inject]
  show ?thesis
    unfolding conjunct2 [OF eq, symmetric]
    by (rule same_setup_trans [OF _ stock_delta_setup])
      (simp add: same_setup_def same_books_def same_routing_def update_item_accounts received_item_def Let_def)
qed

lemma next_number_setup:
  "next_doc_number C db e key prefix d = Inr (number, db') \<Longrightarrow> same_setup db db'"
  by (auto simp: next_doc_number_def same_setup_def same_books_def same_routing_def split: option.splits)

lemma posting_groups_books: "same_books db (ensure_default_posting_groups E db e)"
  unfolding same_books_def ensure_default_posting_groups_def seed_groups_def assign_default_groups_def
    assign_groups_def Let_def
  by (simp split: option.splits)

end
