(* ===== verification/Receivables_Correct.thy ===== *)
theory Receivables_Correct
  imports Receivables
begin

text \<open>
  Every operation on the documents of a tenant keeps the receivables invariant: drafting, posting,
  credit notes, write-offs and payments move the control account by what they move the balances.
\<close>

section \<open>When the account is the tenant's control account\<close>

definition control_reserved :: "'a payments_db_scheme \<Rightarrow> uuid \<Rightarrow> account_code \<Rightarrow> bool" where
  "control_reserved db e A \<longleftrightarrow>
     (let ps = posting (configs db e) in
      A \<notin> {rounding_adjustment ps, unapplied_payments ps, unapplied_vendor_credits ps, wht_receivable ps,
             realised_fx_gain ps, realised_fx_loss ps, default_bank ps})
     \<and> (\<forall>c. ar_account db e c = A) \<and> (\<forall>v. ap_account db e v \<noteq> A) \<and> (\<forall>c p. vat_output_account db e c p \<noteq> A)
     \<and> (\<forall>b \<in> set (bank_accounts db). ba_gl_account b \<noteq> A)
     \<and> (\<forall>r \<in> set (invoice_lines db). il_account_code (ilr_line r) \<noteq> A)
     \<and> A \<notin> gl_inventory ` set (inventory_items db) \<and> A \<notin> gl_cogs ` set (inventory_items db)"

lemma control_reservedD:
  assumes "control_reserved db e A"
  shows "ar_account db e c = A" "ap_account db e v \<noteq> A" "vat_output_account db e c p \<noteq> A"
    "A \<noteq> rounding_adjustment (posting (configs db e))" "unapplied_payments (posting (configs db e)) \<noteq> A"
    "unapplied_vendor_credits (posting (configs db e)) \<noteq> A" "wht_receivable (posting (configs db e)) \<noteq> A"
    "realised_fx_gain (posting (configs db e)) \<noteq> A" "realised_fx_loss (posting (configs db e)) \<noteq> A"
    "default_bank (posting (configs db e)) \<noteq> A"
    "b \<in> set (bank_accounts db) \<Longrightarrow> ba_gl_account b \<noteq> A"
    "r \<in> set (invoice_lines db) \<Longrightarrow> il_account_code (ilr_line r) \<noteq> A"
    "A \<notin> gl_inventory ` set (inventory_items db)" "A \<notin> gl_cogs ` set (inventory_items db)"
  using assms unfolding control_reserved_def Let_def by blast+

text \<open>The documents are in the base currency, at rate one, and no total is negative.\<close>

definition base_documents :: "'a payments_db_scheme \<Rightarrow> uuid \<Rightarrow> bool" where
  "base_documents db e \<longleftrightarrow> (\<forall>x \<in> set (invoices db). iv_entity_id x = e \<longrightarrow> iv_fx_rate x = 1 \<and> 0 \<le> iv_gross_total x)
     \<and> (\<forall>p \<in> set (payments db). py_entity_id p = e \<and> py_type p = CustomerPayment \<longrightarrow> py_fx_rate p = 1)"

lemma find_invoice_in:
  assumes "docs_ok db e" and "x \<in> set (invoices db)" "iv_id x = i" "iv_entity_id x = e"
  shows "find_invoice db e i = Some x"
proof (cases "find_invoice db e i")
  case None
  with assms show ?thesis by (auto simp: find_invoice_def find_None_iff)
next
  case (Some y)
  with find_invoiceD [OF Some] keyed_eq [OF docs_okD(1) [OF assms(1)], of x y] assms(2,3) show ?thesis by simp
qed

section \<open>Drafts\<close>

lemma resolved_in_cents:
  assumes "decimal_laws L" and ok: "resolve_lines L E db e cust reqs = Inr ls"
  shows "has_dp 2 (lines_subtotal ls)" "has_dp 2 (lines_tax ls)"
proof -
  have "has_dp 2 (il_line_total l) \<and> has_dp 2 (il_vat_amount l)" if "l \<in> set ls" for l
    by (rule try_map_all [OF ok [unfolded resolve_lines_def] _ that])
      (auto simp: compute_line_totals_def Let_def decimal_laws.round_money_grid [OF assms(1)] split: prod.splits)
  then show "has_dp 2 (lines_subtotal ls)" "has_dp 2 (lines_tax ls)"
    unfolding lines_subtotal_def lines_tax_def by (auto intro!: has_dp_sum_list)
qed

lemma created_inv:
  assumes inv: "receivables_inv db e A" and L: "decimal_laws L"
    and ok: "create_invoice J L C E db e req = (db', res)"
    and plain: "\<forall>x \<in> set (invoices db'). iv_entity_id x = e \<longrightarrow> 0 \<le> iv_gross_total x"
  shows "receivables_inv db' e A"
proof (cases res)
  case (Inl err)
  have "same_books db db'"
    using ok Inl posting_groups_books [of db "evens E" e]
    by (auto simp: create_invoice_def Let_def generate_invoice_number_def same_books_def
        dest: next_number_setup [unfolded same_setup_def same_books_def] split: option.splits sum.splits prod.splits)
  with inv show ?thesis by (rule same_books_inv)
next
  case (Inr r)
  let ?db1 = "ensure_default_posting_groups (evens E) db e"
  obtain cust number db2 ls doc where ls: "resolve_lines L (odds E) ?db1 e (Some (vq_customer_id req)) (vq_lines req) = Inr ls"
    and num: "next_doc_number C ?db1 e ''invoice_next'' (invoice_prefix (sequences (configs ?db1 e)))
        (unwrap_or (vq_issue_date req) (today E)) = Inr (number, db2)"
    and doc: "doc = new_invoice L (uuids (odds E) 0) e number cust J (today E) req ls"
    and ins: "insert_invoice doc ls db2 = Inr db'"
    using ok Inr by (auto simp: create_invoice_def Let_def generate_invoice_number_def split: option.splits sum.splits prod.splits)
  have same: "same_books db db2"
    using posting_groups_books next_number_setup [OF num] by (auto simp: same_setup_def intro: same_books_trans)
  with inv have inv2: "receivables_inv db2 e A" by (rule same_books_inv)
  have "doc \<in> set (invoices db')" using ins by (auto simp: insert_invoice_def split: if_splits)
  from bspec [OF plain this] have "0 \<le> iv_gross_total doc" by (simp add: doc new_invoice_def Let_def)
  then have "doc_ok doc"
    using decimal_laws.round_money_grid [OF L] by (auto simp: doc_ok_def doc new_invoice_def Let_def)
  moreover have "open_amount doc = 0" "iv_entity_id doc = e" by (simp_all add: doc new_invoice_def Let_def open_amount_def)
  ultimately have I: "docs_ok db' e" "open_total db' e = open_total db2 e" "journal_lines db' = journal_lines db2"
    using insert_document [OF _ ins] inv2 unfolding receivables_inv_def by auto
  then show ?thesis using inv2 account_net_cong [OF I(3)] by (simp add: receivables_inv_def)
qed

text \<open>Replacing a document without an entry.\<close>

lemma replaced_inv:
  assumes inv: "receivables_inv db e A" and x: "find_invoice db e i = Some x"
    and db': "invoices db' = map (\<lambda>y. if iv_id y = i then f y else y) (invoices db)" "journal_lines db' = journal_lines db"
    and f: "iv_id (f x) = i" "iv_entity_id (f x) = e" "iv_type (f x) = iv_type x" "doc_ok (f x)"
      "open_amount (f x) = open_amount x"
  shows "receivables_inv db' e A"
  using inv replace_document [OF _ x db'(1) f(1-4)] account_net_cong [OF db'(2)] f(5)
  by (simp add: receivables_inv_def)

lemma redrafted_inv:
  assumes inv: "receivables_inv db e A" and L: "decimal_laws L"
    and ok: "update_invoice_draft J L E db e i req = Inr db'"
    and plain: "\<forall>x \<in> set (invoices db'). iv_entity_id x = e \<longrightarrow> 0 \<le> iv_gross_total x"
  shows "receivables_inv db' e A"
proof -
  obtain x cust ls where x: "find_invoice db e i = Some x" "iv_status x = IvDraft"
    and ls: "resolve_lines L E db e (Some (vq_customer_id req)) (vq_lines req) = Inr ls"
    and db': "db' = (update_invoice i (redrafted L cust J (today E) req ls) db)
           \<lparr>invoice_lines := replace_lines i ls (invoice_lines db)\<rparr>"
    using ok by (auto simp: update_invoice_draft_def split: if_splits)
  let ?f = "redrafted L cust J (today E) req ls"
  note X = find_invoiceD [OF x(1)]
  have old: "doc_ok x" using inv X by (auto simp: receivables_inv_def docs_ok_def)
  have inv': "invoices db' = map (\<lambda>y. if iv_id y = i then ?f y else y) (invoices db)"
    by (simp add: db' update_invoice_def)
  have "?f x \<in> set (invoices db')" using X by (auto simp: inv')
  from bspec [OF plain this] X have "0 \<le> iv_gross_total (?f x)" by (simp add: redrafted_def Let_def)
  with old x(2) resolved_in_cents [OF L ls] have "doc_ok (?f x)"
    by (auto simp: doc_ok_def redrafted_def Let_def)
  moreover have "iv_journal_entry_id x = None" using old x(2) by (simp add: doc_ok_def)
  ultimately show ?thesis
    using X by (intro replaced_inv [OF inv x(1) inv']) (simp_all add: db' update_invoice_def redrafted_def Let_def open_amount_def)
qed

lemma deleted_inv:
  assumes inv: "receivables_inv db e A" and ok: "delete_invoice_draft db e i = Inr db'"
  shows "receivables_inv db' e A"
proof -
  obtain x where x: "find_invoice db e i = Some x" "iv_status x = IvDraft"
    and db': "invoices db' = filter (\<lambda>y. \<not> (iv_id y = i \<and> iv_entity_id y = e)) (invoices db)" "journal_lines db' = journal_lines db"
    using ok by (auto simp: delete_invoice_draft_def split: if_splits)
  note X = find_invoiceD [OF x(1)]
  have D: "distinct (map iv_id (invoices db))" "doc_ok x" using inv X by (auto simp: receivables_inv_def docs_ok_def)
  have "open_amount x = 0" using D(2) x(2) by (auto simp: doc_ok_def open_amount_def)
  then have gone: "open_amount y = 0" if "y \<in> set (invoices db)" "iv_id y = i" for y
    using keyed_eq [OF D(1) that(1) X(1)] that(2) X(2) by simp
  have "sum_where p open_amount (filter (\<lambda>y. \<not> (iv_id y = i \<and> iv_entity_id y = e)) xs) = sum_where p open_amount xs"
    if "\<forall>y \<in> set xs. iv_id y = i \<longrightarrow> open_amount y = 0" for xs p
    using that by (induction xs) auto
  then have "open_total db' e = open_total db e" using gone by (simp add: open_total_def db')
  moreover have "docs_ok db' e"
    using inv by (auto simp: receivables_inv_def docs_ok_def db' intro: distinct_map_filter)
  ultimately show ?thesis using inv account_net_cong [OF db'(2)] by (simp add: receivables_inv_def)
qed

lemma marked_inv:
  assumes inv: "receivables_inv db e A" and x: "find_invoice db e i = Some x"
    and db': "invoices db' = map (\<lambda>y. if iv_id y = i \<and> iv_entity_id y = e then f y else y) (invoices db)"
      "journal_lines db' = journal_lines db"
    and f: "\<And>y. iv_id (f y) = iv_id y" "\<And>y. iv_entity_id (f y) = iv_entity_id y" "\<And>y. iv_type (f y) = iv_type y"
      "\<And>y. doc_ok (f y) = doc_ok y" "\<And>y. open_amount (f y) = open_amount y"
  shows "receivables_inv db' e A"
proof -
  note X = find_invoiceD [OF x]
  have D: "distinct (map iv_id (invoices db))" "doc_ok x" using inv X by (auto simp: receivables_inv_def docs_ok_def)
  have only: "iv_entity_id y = e" if "y \<in> set (invoices db)" "iv_id y = i" for y
    using keyed_eq [OF D(1) that(1) X(1)] that(2) X(2,3) by simp
  then have same: "invoices db' = map (\<lambda>y. if iv_id y = i then f y else y) (invoices db)"
    by (auto simp: db'(1))
  show ?thesis using X D(2) by (intro replaced_inv [OF inv x same db'(2)]) (simp_all add: f)
qed

lemma sent_inv:
  assumes inv: "receivables_inv db e A" and ok: "mark_invoice_sent E db e i = Inr db'"
  shows "receivables_inv db' e A"
proof -
  obtain x where x: "find_invoice db e i = Some x"
    and db': "invoices db' = map (\<lambda>x. if iv_id x = i \<and> iv_entity_id x = e
                     then x\<lparr>iv_sent_at := Some (now E)\<rparr> else x) (invoices db)" "journal_lines db' = journal_lines db"
    using ok by (auto simp: mark_invoice_sent_def split: if_splits)
  show ?thesis by (rule marked_inv [OF inv x db']) (simp_all add: doc_ok_def open_amount_def)
qed

lemma transmitted_inv:
  assumes inv: "receivables_inv db e A" and ok: "mark_invoice_etims_transmitted db e i n = Inr db'"
  shows "receivables_inv db' e A"
proof -
  obtain x where x: "find_invoice db e i = Some x"
    using ok by (auto simp: mark_invoice_etims_transmitted_def)
  obtain k where k: "non_blank n = Some k"
    using ok x by (cases "non_blank n") (simp_all add: mark_invoice_etims_transmitted_def split: if_splits)
  have db': "invoices db' = map (\<lambda>x. if iv_id x = i \<and> iv_entity_id x = e
        then x\<lparr>iv_etims_status := ''transmitted'', iv_etims_number := Some (trim k)\<rparr> else x) (invoices db)"
      "journal_lines db' = journal_lines db"
    using ok x k by (auto simp: mark_invoice_etims_transmitted_def split: if_splits)
  show ?thesis by (rule marked_inv [OF inv x db']) (simp_all add: doc_ok_def open_amount_def)
qed

lemma converted_inv:
  assumes inv: "receivables_inv db e A" and L: "decimal_laws L"
    and ok: "convert_estimate_to_invoice J L C E db e i = (db', res)"
    and plain: "\<forall>x \<in> set (invoices db'). iv_entity_id x = e \<longrightarrow> 0 \<le> iv_gross_total x"
  shows "receivables_inv db' e A"
proof -
  consider "db' = db"
    | (made) s r db1 where "create_invoice J L C E db e (estimate_as_request db s) = (db1, r)"
      "journal_lines db' = journal_lines db1"
      "\<exists>k. invoices db' = map (\<lambda>x. if iv_id x = k then x\<lparr>iv_source_estimate := Some i\<rparr> else x) (invoices db1) \<or> invoices db' = invoices db1"
  proof (cases "find_estimate db e i")
    case None
    with ok that(1) show ?thesis by (simp add: convert_estimate_to_invoice_def)
  next
    case (Some s)
    show ?thesis
    proof (cases "convertible s")
      case (Inl err)
      with ok Some that(1) show ?thesis by (simp add: convert_estimate_to_invoice_def)
    next
      case (Inr u)
      obtain db1 r where made: "create_invoice J L C E db e (estimate_as_request db s) = (db1, r)"
        by (rule prod.exhaust)
      show ?thesis
      proof (cases r)
        case Inl
        with ok Some Inr made have "db' = db1" by (simp add: convert_estimate_to_invoice_def)
        with that(2) [OF made] show ?thesis by blast
      next
        case r: (Inr d)
        obtain doc ls where d: "d = (doc, ls)" by (rule prod.exhaust)
        have "db' = (update_invoice (iv_id doc) (\<lambda>x. x\<lparr>iv_source_estimate := Some i\<rparr>) db1)
            \<lparr>estimates := map (\<lambda>x. if es_id x = i
               then x\<lparr>es_status := EsConverted, es_converted_to := Some (iv_id doc)\<rparr> else x) (estimates db1)\<rparr>"
          using ok Some Inr made r d by (simp add: convert_estimate_to_invoice_def)
        then have "journal_lines db' = journal_lines db1"
          "invoices db' = map (\<lambda>x. if iv_id x = iv_id doc then x\<lparr>iv_source_estimate := Some i\<rparr> else x) (invoices db1)"
          by (simp_all add: update_invoice_def)
        with that(2) [OF made] show ?thesis by blast
      qed
    qed
  qed
  then show ?thesis
  proof cases
    case 1
    with inv show ?thesis by simp
  next
    case (made s r db1)
    define g where "g k x = (if iv_id x = k then x\<lparr>iv_source_estimate := Some i\<rparr> else x)" for k and x :: invoice
    have g: "iv_id (g k x) = iv_id x" "iv_entity_id (g k x) = iv_entity_id x" "own_invoice e (g k x) = own_invoice e x"
      "open_amount (g k x) = open_amount x" "doc_ok (g k x) = doc_ok x" "iv_gross_total (g k x) = iv_gross_total x" for k and x :: invoice
      by (auto simp: g_def own_invoice_def open_amount_def doc_ok_def)
    obtain h where h: "invoices db' = map h (invoices db1)"
      and H: "\<And>x. iv_id (h x) = iv_id x" "\<And>x. iv_entity_id (h x) = iv_entity_id x" "\<And>x. own_invoice e (h x) = own_invoice e x"
      "\<And>x. open_amount (h x) = open_amount x" "\<And>x. doc_ok (h x) = doc_ok x" "\<And>x. iv_gross_total (h x) = iv_gross_total x"
      using made(3) g unfolding g_def [symmetric] by (metis list.map_id0 id_apply)
    have plain1: "\<forall>x \<in> set (invoices db1). iv_entity_id x = e \<longrightarrow> 0 \<le> iv_gross_total x"
      using plain H(2,6) by (auto simp: h)
    have ids: "map iv_id (invoices db') = map iv_id (invoices db1)" by (simp add: h H(1))
    have "docs_ok db' e = docs_ok db1 e" unfolding docs_ok_def ids by (simp add: h H)
    moreover have "open_total db' e = open_total db1 e" by (simp add: open_total_def h H sum_where_map comp_def)
    ultimately show ?thesis
      using created_inv [OF inv L made(1) plain1] account_net_cong [OF made(2)] by (simp add: receivables_inv_def)
  qed
qed

section \<open>Entries of documents\<close>

text \<open>An entry that moves the control account by what the balances move keeps the invariant.\<close>

lemma entry_inv:
  assumes docs: "docs_ok db' e" and "receivables_inv db e A"
    and "account_net db' e A = account_net db e A + d" and "open_total db' e = open_total db e + d"
  shows "receivables_inv db' e A"
  using assms by (simp add: receivables_inv_def)

lemma at_rate_one:
  assumes "decimal_laws L" and "has_dp 2 a"
  shows "round_money L (a * unwrap_or (Some 1) 1) = a"
  using decimal_laws.round_money_exact [OF assms] by simp

lemma account_net_update_invoice [simp]: "account_net (update_invoice i f db) e A = account_net db e A"
  by (rule account_net_cong) (simp add: update_invoice_def)

lemma lines_of_reserved:
  assumes "control_reserved db e A" and "l \<in> set (lines_of db i)"
  shows "il_account_code l \<noteq> A"
  using assms(2) control_reservedD(12) [OF assms(1)] by (auto simp: lines_of_def)

lemma revenue_lines_elsewhere:
  assumes "il_account_code l \<noteq> A" and "\<And>p. vat_output_account db e (iv_customer_id doc) p \<noteq> A"
  shows "request_net L (revenue_lines db e doc l) A = 0"
  using assms by (simp add: revenue_lines_def)

lemma issue_loop:
  assumes "try_fold (issue_line E e doc by') kls (jls, db) = Inr (jls', db')"
    and "A \<notin> gl_inventory ` set (inventory_items db)" and "A \<notin> gl_cogs ` set (inventory_items db)"
  shows "same_setup db db'" "request_net L jls' A = request_net L jls A"
proof -
  let ?I = "\<lambda>(js, d). same_setup db d \<and> request_net L js A = request_net L jls A"
  have "?I (jls', db')"
  proof (rule try_fold_invariant [OF assms(1)])
    fix kl s s'
    assume I: "?I s" and step: "issue_line E e doc by' kl s = Inr s'"
    obtain k l js d where kl: "kl = (k, l)" and s: "s = (js, d)" by (metis prod.exhaust)
    have gl: "A \<notin> gl_inventory ` set (inventory_items d)" "A \<notin> gl_cogs ` set (inventory_items d)"
      using I assms(2,3) by (auto simp: s same_setup_def)
    show "?I s'"
    proof (cases "s' = s")
      case False
      then obtain req res d' where issued: "issue_inventory_in_tx (branch_env E k) d e req by' = Inr (res, d')"
        and s': "s' = (js @ [dr_line (iv_currency doc) (Some (iv_fx_rate doc)) (Some (''COGS: '' @ il_description l))
             (ir_gl_cogs res) (ir_total_cost res),
           cr_line (iv_currency doc) (Some (iv_fx_rate doc)) (Some (''Inventory issued: '' @ il_description l))
             (ir_gl_inventory res) (ir_total_cost res)], d')"
        using step by (auto simp: kl s issue_line_def split: option.splits if_splits)
      have "ir_gl_cogs res \<noteq> A" "ir_gl_inventory res \<noteq> A" using issue_setup(2,3) [OF issued] gl by auto
      then show ?thesis using I same_setup_trans [OF _ issue_setup(1) [OF issued]] by (simp add: s s')
    qed (use I in simp)
  qed simp
  then show "same_setup db db'" "request_net L jls' A = request_net L jls A" by simp_all
qed

lemma posted_inv:
  assumes inv: "receivables_inv db e A" and L: "decimal_laws L" and own: "control_reserved db e A"
    and base: "base_documents db e" and ok: "post_invoice L C E db e i by' = Inr (j, db')"
  shows "receivables_inv db' e A"
proof -
  note R = control_reservedD [OF own]
  obtain doc jls db1 pid en db2 where doc: "find_invoice db e i = Some doc" "iv_status doc = IvDraft"
    and loop: "try_fold (issue_line (evens E) e doc by') (enumerate 0 (lines_of db i))
        (receivable_line db e doc # concat (map (revenue_lines db e doc) (lines_of db i)), db) = Inr (jls, db1)"
    and post: "create_and_post_in_tx L C (odds E) db1 e (invoice_entry doc jls) pid by' = Inr (en, db2)"
    and db': "db' = update_invoice i (\<lambda>x. x\<lparr>iv_status := IvPosted, iv_journal_entry_id := Some (en_id en)\<rparr>) db2"
    using ok by (auto simp: post_invoice_def Let_def split: if_splits)
  note X = find_invoiceD [OF doc(1)]
  have D: "doc_ok doc" using inv X by (auto simp: receivables_inv_def docs_ok_def)
  have draft: "iv_journal_entry_id doc = None" "iv_amount_paid doc = 0" "iv_type doc = TypeInvoice"
    using D doc(2) by (cases "iv_type doc", auto simp: doc_ok_def)+
  have fx: "iv_fx_rate doc = 1" using base X by (auto simp: base_documents_def)
  have rest: "request_net L (concat (map (revenue_lines db e doc) ls)) A = 0" if "set ls \<subseteq> set (lines_of db i)" for ls
    using that lines_of_reserved [OF own] R(3)
    by (induction ls) (auto simp: revenue_lines_elsewhere)
  have net: "request_net L jls A = iv_gross_total doc"
    unfolding issue_loop(2) [OF loop R(13,14)]
    using rest [of "lines_of db i"] R(1) D fx
    by (simp add: receivable_line_def doc_ok_def decimal_laws.round_money_exact [OF L])
  have same: "same_setup db db1" by (rule issue_loop(1) [OF loop R(13,14)])
  then have cfg: "configs db1 = configs db" by (simp add: same_setup_def same_routing_def)
  note P = posted_books [OF post R(4) [folded cfg]]
  have books: "invoices db2 = invoices db" "account_net db2 e A = account_net db e A + iv_gross_total doc"
    using same P(1,2) net account_net_cong by (auto simp: same_setup_def same_books_def invoice_entry_def)
  let ?f = "\<lambda>x. x\<lparr>iv_status := IvPosted, iv_journal_entry_id := Some (en_id en)\<rparr>"
  have new: "invoices db' = map (\<lambda>y. if iv_id y = i then ?f y else y) (invoices db)"
    by (simp add: db' update_invoice_def books)
  have docs: "docs_ok db e" using inv by (simp add: receivables_inv_def)
  have f: "iv_id (?f doc) = i" "iv_entity_id (?f doc) = e" "iv_type (?f doc) = iv_type doc" "doc_ok (?f doc)"
    using X D draft by (simp_all add: doc_ok_def)
  note U = replace_document [OF docs doc(1) new f]
  show ?thesis
    by (rule entry_inv [OF U(1) inv, of "iv_gross_total doc"])
      (use U(2) draft D in \<open>simp_all add: db' books open_amount_def doc_ok_def\<close>)
qed

text \<open>Taking an amount off the balance of a document, whatever its new status.\<close>

lemma taken_off:
  assumes "doc_ok x" "iv_type x = TypeInvoice" "a \<le> iv_balance_due x" "0 \<le> iv_amount_paid x + a" "has_dp 2 a"
    and "y = x\<lparr>iv_balance_due := iv_balance_due x - a, iv_amount_paid := iv_amount_paid x + a, iv_status := s, iv_paid_at := t\<rparr>"
    and "s \<noteq> IvDraft"
  shows "doc_ok y" "open_amount y - open_amount x = - a"
  using assms by (auto simp: doc_ok_def open_amount_def)

lemma written_off_inv:
  assumes inv: "receivables_inv db e A" and L: "decimal_laws L" and own: "control_reserved db e A"
    and base: "base_documents db e"
    and ok: "write_off_invoice L C E db e i expense amount reason by' = Inr (j, db')"
    and args: "expense \<noteq> A" "\<And>a. amount = Some a \<Longrightarrow> has_dp 2 a"
  shows "receivables_inv db' e A"
proof -
  note R = control_reservedD [OF own]
  obtain doc where doc: "find_invoice db e i = Some doc" using ok by (auto simp: write_off_invoice_def)
  define a where "a = unwrap_or amount (iv_balance_due doc)"
  note okd = ok [unfolded write_off_invoice_def doc ok_or_simps and_then_Inr Let_def a_def [symmetric]]
  have st: "iv_status doc \<noteq> IvDraft" "0 < iv_balance_due doc" and a: "0 < a" "a \<le> iv_balance_due doc"
    using okd by (auto split: if_splits)
  obtain pid en db1 where post: "create_and_post_in_tx L C E db e (write_off_entry (today E) expense
        (ar_account db e (iv_customer_id doc)) a reason doc) pid by' = Inr (en, db1)"
    and db': "db' = update_invoice i (written_off a doc) db1"
    using okd by (auto split: if_splits)
  note X = find_invoiceD [OF doc]
  have docs: "docs_ok db e" using inv by (simp add: receivables_inv_def)
  have D: "doc_ok doc" by (rule docs_okD(2) [OF docs X(1,3)])
  have ty: "iv_type doc = TypeInvoice" using D st(2) by (cases "iv_type doc") (auto simp: doc_ok_def)
  have fx: "iv_fx_rate doc = 1" using base X by (auto simp: base_documents_def)
  have cents: "has_dp 2 a" using args(2) D by (cases amount) (auto simp: a_def doc_ok_def)
  note P = posted_books [OF post R(4)]
  have net: "account_net db1 e A = account_net db e A - a"
    using P(2) R(1) args(1) fx by (simp add: write_off_entry_def decimal_laws.round_money_exact [OF L cents])
  have new: "invoices db' = map (\<lambda>y. if iv_id y = i then written_off a doc y else y) (invoices db)"
    by (simp add: db' update_invoice_def P(1))
  define s where "s = (if iv_balance_due doc - a \<le> 0 then IvWrittenOff else iv_status doc)"
  have shape: "written_off a doc doc = doc\<lparr>iv_balance_due := iv_balance_due doc - a,
      iv_amount_paid := iv_amount_paid doc + a, iv_status := s, iv_paid_at := iv_paid_at doc\<rparr>"
    by (simp add: written_off_def s_def)
  have "0 \<le> iv_amount_paid doc + a" "s \<noteq> IvDraft" using D a(1) st(1) by (auto simp: doc_ok_def s_def)
  note T = taken_off [OF D ty a(2) this(1) cents shape this(2)]
  have f: "iv_id (written_off a doc doc) = i" "iv_entity_id (written_off a doc doc) = e"
    "iv_type (written_off a doc doc) = iv_type doc" using X by (simp_all add: shape)
  note U = replace_document [OF docs doc new f T(1)]
  show ?thesis
    by (rule entry_inv [OF U(1) inv, of "- a"]) (use U(2) T(2) ty net in \<open>simp_all add: db'\<close>)
qed

section \<open>Credit notes\<close>

lemma return_lineD:
  assumes "return_line Q E e orig cn d by' (k, l) (js, x) = Inr s'"
  obtains "s' = (js, x)"
  | m and req :: receive_request and x' it mv and row :: inventory_item where
    "receive_inventory_in_tx Q (branch_env E k) x e req by' = Inr (m, x')" "find_item x' e it = Some row"
    "s' = (js @ [dr_line (iv_currency orig) (Some (iv_fx_rate orig)) (Some (''Inventory return: '' @ il_description l))
              (gl_inventory row) (il_quantity l * mv),
            cr_line (iv_currency orig) (Some (iv_fx_rate orig)) (Some (''COGS reversal: '' @ il_description l))
              (gl_cogs row) (il_quantity l * mv)], x')"
proof (cases "Option.bind (il_product_id l) (find_product x e)")
  case None
  with assms that(1) show ?thesis by (simp add: return_line_def)
next
  case (Some pr)
  note step = assms [unfolded return_line_def split Some option.case]
  show ?thesis
  proof (cases "pd_track_inventory pr \<and> pd_inventory_item_id pr \<noteq> None")
    case False
    with step that(1) show ?thesis by (auto split: if_splits option.splits)
  next
    case True
    then obtain it where it: "pd_inventory_item_id pr = Some it" "pd_track_inventory pr" by blast
    show ?thesis
    proof (cases "last_issue x e (iv_id orig) it")
      case None
      with step it that(1) show ?thesis by simp
    next
      case (Some mv)
      with step it show ?thesis by (auto split: prod.splits intro: that(2))
    qed
  qed
qed

lemma return_loop:
  assumes "try_fold (return_line Q E e orig cn d by') kls (jls, db) = Inr (jls', db')"
    and "A \<notin> gl_inventory ` set (inventory_items db)" and "A \<notin> gl_cogs ` set (inventory_items db)"
  shows "same_setup db db'" "request_net L jls' A = request_net L jls A"
proof -
  let ?I = "\<lambda>(js, x). same_setup db x \<and> request_net L js A = request_net L jls A"
  have "?I (jls', db')"
  proof (rule try_fold_invariant [OF assms(1)])
    fix kl s s'
    assume I: "?I s" and step: "return_line Q E e orig cn d by' kl s = Inr s'"
    obtain k l js x where kl: "kl = (k, l)" and s: "s = (js, x)" by (metis prod.exhaust)
    from step [unfolded kl s] show "?I s'"
    proof (cases rule: return_lineD)
      case 1
      with I show ?thesis by (simp add: s)
    next
      case (2 m req x' it mv row)
      have row: "row \<in> set (inventory_items x')" using find_SomeD [OF 2(2) [unfolded find_item_def]] by simp
      have same: "same_setup db x'" using I same_setup_trans [OF _ receive_setup [OF 2(1)]] by (simp add: s)
      then have "gl_inventory row \<noteq> A" "gl_cogs row \<noteq> A"
        using row assms(2,3) by (auto simp: same_setup_def)
      with I same show ?thesis by (simp add: s 2(3))
    qed
  qed simp
  then show "same_setup db db'" "request_net L jls' A = request_net L jls A" by simp_all
qed

lemma credit_lines_net:
  assumes "\<And>l. l \<in> set ls \<Longrightarrow> il_account_code l \<noteq> A" and "\<And>p. vat_output_account db e (iv_customer_id orig) p \<noteq> A"
  shows "request_net L (concat (map (credit_revenue_lines db e orig) ls)) A = 0"
  using assms by (induction ls) (auto simp: credit_revenue_lines_def)

text \<open>The transaction of a credit note, taken apart.\<close>

lemma credit_note_txD:
  assumes "credit_note_tx L C Q E db e cn number d reason gross ls orig by' = Inr (r, db')"
  obtains db1 jls db2 pid en db3 where
    "insert_invoice (credit_note_row cn number d reason gross ls orig) ls db = Inr db1"
    "try_fold (return_line Q (evens E) e orig cn d by') (enumerate 0 ls)
       (credit_receivable_line db e number gross orig # concat (map (credit_revenue_lines db e orig) ls), db1) = Inr (jls, db2)"
    "create_and_post_in_tx L C (odds E) db2 e (credit_entry cn number d orig jls) pid by' = Inr (en, db3)"
    "db' = update_invoice (iv_id orig) (credited gross orig)
       (update_invoice cn (\<lambda>x. x\<lparr>iv_journal_entry_id := Some (en_id en)\<rparr>) db3)"
  using assms by (auto simp: credit_note_tx_def Let_def)

lemma credit_note_tx_inv:
  assumes inv: "receivables_inv db e A" and L: "decimal_laws L" and own: "control_reserved db e A"
    and lines: "\<And>l. l \<in> set ls \<Longrightarrow> il_account_code l \<noteq> A"
    and orig: "find_invoice db e i = Some orig" "iv_type orig = TypeInvoice" "iv_status orig \<noteq> IvDraft" "iv_fx_rate orig = 1"
    and gross: "0 \<le> gross" "gross \<le> iv_balance_due orig" "has_dp 2 gross"
    and ok: "credit_note_tx L C Q E db e cn number d reason gross ls orig by' = Inr (r, db')"
  shows "receivables_inv db' e A"
proof -
  note R = control_reservedD [OF own] and X = find_invoiceD [OF orig(1)]
  obtain db1 jls db2 pid en db3 where ins: "insert_invoice (credit_note_row cn number d reason gross ls orig) ls db = Inr db1"
    and loop: "try_fold (return_line Q (evens E) e orig cn d by') (enumerate 0 ls)
       (credit_receivable_line db e number gross orig # concat (map (credit_revenue_lines db e orig) ls), db1) = Inr (jls, db2)"
    and post: "create_and_post_in_tx L C (odds E) db2 e (credit_entry cn number d orig jls) pid by' = Inr (en, db3)"
    and db': "db' = update_invoice (iv_id orig) (credited gross orig)
       (update_invoice cn (\<lambda>x. x\<lparr>iv_journal_entry_id := Some (en_id en)\<rparr>) db3)"
    by (rule credit_note_txD [OF ok])
  let ?row = "credit_note_row cn number d reason gross ls orig"
  have docs: "docs_ok db e" using inv by (simp add: receivables_inv_def)
  have D: "doc_ok orig" by (rule docs_okD(2) [OF docs X(1,3)])
  have row: "iv_entity_id ?row = e" "doc_ok ?row" "iv_type ?row = TypeCreditNote" "iv_id ?row = cn"
    using X(3) gross by (simp_all add: credit_note_row_def doc_ok_def)
  have I: "docs_ok db1 e" "open_total db1 e = open_total db e" "journal_lines db1 = journal_lines db"
    using insert_document [OF docs ins row(1,2)] row(3) by simp_all
  have shape: "invoices db1 = invoices db @ [?row]" "configs db1 = configs db" "inventory_items db1 = inventory_items db"
    "iv_id ?row \<notin> iv_id ` set (invoices db)"
    using ins by (auto simp: insert_invoice_def split: if_splits)
  note loopD = return_loop [OF loop, unfolded shape(3), OF R(13,14)]
  have net: "request_net L jls A = - gross"
    unfolding loopD(2) using credit_lines_net [OF lines R(3)] R(1) orig(4)
    by (simp add: credit_receivable_line_def decimal_laws.round_money_exact [OF L gross(3)])
  have cfg: "configs db2 = configs db" using loopD(1) shape(2) by (simp add: same_setup_def same_routing_def)
  note P = posted_books [OF post R(4) [folded cfg]]
  have books: "invoices db3 = invoices db1" "account_net db3 e A = account_net db e A - gross"
    using loopD(1) P(1,2) net account_net_cong [of db2 db1] account_net_cong [OF I(3)]
    by (auto simp: same_setup_def same_books_def credit_entry_def)
  define db4 where "db4 = update_invoice cn (\<lambda>x. x\<lparr>iv_journal_entry_id := Some (en_id en)\<rparr>) db3"
  have found: "find_invoice db1 e cn = Some ?row"
    using row(1,4) by (intro find_invoice_in [OF I(1)]) (simp_all add: shape(1))
  have new4: "invoices db4 = map (\<lambda>y. if iv_id y = cn then y\<lparr>iv_journal_entry_id := Some (en_id en)\<rparr> else y) (invoices db1)"
    by (simp add: db4_def update_invoice_def books)
  have f4: "iv_id (?row\<lparr>iv_journal_entry_id := Some (en_id en)\<rparr>) = cn"
    "iv_entity_id (?row\<lparr>iv_journal_entry_id := Some (en_id en)\<rparr>) = e"
    "iv_type (?row\<lparr>iv_journal_entry_id := Some (en_id en)\<rparr>) = iv_type ?row"
    "doc_ok (?row\<lparr>iv_journal_entry_id := Some (en_id en)\<rparr>)"
    using row by (simp_all add: doc_ok_def)
  note U4 = replace_document [OF I(1) found new4 f4]
  have other: "iv_id orig \<noteq> cn" using X(1,2) shape(4) row(4) by auto
  have "orig \<in> set (invoices db4)" using X(1) other by (auto simp: new4 shape(1))
  then have found4: "find_invoice db4 e (iv_id orig) = Some orig"
    using X(3) by (intro find_invoice_in [OF U4(1)]) simp_all
  define s where "s = (if iv_balance_due orig - gross \<le> 0 then IvPaid
      else if 0 < iv_amount_paid orig + gross then IvPartiallyPaid else iv_status orig)"
  have cshape: "credited gross orig orig = orig\<lparr>iv_balance_due := iv_balance_due orig - gross,
      iv_amount_paid := iv_amount_paid orig + gross, iv_status := s, iv_paid_at := iv_paid_at orig\<rparr>"
    by (simp add: credited_def Let_def s_def)
  have "0 \<le> iv_amount_paid orig + gross" "s \<noteq> IvDraft" using D gross(1) orig(3) by (auto simp: doc_ok_def s_def)
  note T = taken_off [OF D orig(2) gross(2) this(1) gross(3) cshape this(2)]
  have new: "invoices db' = map (\<lambda>y. if iv_id y = iv_id orig then credited gross orig y else y) (invoices db4)"
    by (simp add: db' db4_def update_invoice_def)
  have f: "iv_id (credited gross orig orig) = iv_id orig" "iv_entity_id (credited gross orig orig) = e"
    "iv_type (credited gross orig orig) = iv_type orig"
    using X by (simp_all add: cshape)
  note U = replace_document [OF U4(1) found4 new f T(1)]
  show ?thesis
    by (rule entry_inv [OF U(1) inv, of "- gross"])
      (use U(2) U4(2) T(2) I(2) row(3) orig(2) books in \<open>simp_all add: db'\<close>)
qed

text \<open>Numbering a document and posting an entry leave the setup of the account in place.\<close>

lemma reserved_same_setup:
  assumes "control_reserved db e A" and "same_setup db db'" and "bank_accounts db' = bank_accounts db"
  shows "control_reserved db' e A"
proof -
  have r: "same_routing db db'" "invoice_lines db' = invoice_lines db"
    "gl_inventory ` set (inventory_items db') = gl_inventory ` set (inventory_items db)"
    "gl_cogs ` set (inventory_items db') = gl_cogs ` set (inventory_items db)"
    using assms(2) by (simp_all add: same_setup_def)
  show ?thesis using assms(1) unfolding control_reserved_def routing_accounts [OF r(1)] r(2-4) assms(3) .
qed

lemma numbered_reserved:
  assumes "next_doc_number C (db :: 'a payments_db_scheme) e key prefix d = Inr (n, db')"
    and "control_reserved db e A"
  shows "control_reserved db' e A"
  using assms(1)
  by (intro reserved_same_setup [OF assms(2) next_number_setup [OF assms(1)]])
    (auto simp: next_doc_number_def split: option.splits)

lemma numbered_inv:
  "next_doc_number C db e key prefix d = Inr (n, db') \<Longrightarrow> receivables_inv db e A \<Longrightarrow> receivables_inv db' e A"
  by (drule next_number_setup) (auto simp: same_setup_def intro: same_books_inv)

lemma find_invoice_cong: "invoices db' = invoices db \<Longrightarrow> find_invoice db' e i = find_invoice db e i"
  by (simp add: find_invoice_def)

lemma posted_lines_kept:
  assumes "create_and_post_in_tx L C E (db :: 'a sales_db_scheme) e req i by' = Inr (en, db')"
  shows "invoice_lines db' = invoice_lines db" "invoices db' = invoices db"
  using posting.post_frame(4) [OF assms] by (cases db, cases db', simp)+

lemma update_invoice_rows:
  assumes "\<exists>x \<in> set (invoices db). iv_entity_id x = e \<and> iv_gross_total x = a"
    and "\<And>x. iv_entity_id (f x) = iv_entity_id x" "\<And>x. iv_gross_total (f x) = iv_gross_total x"
  shows "\<exists>x \<in> set (invoices (update_invoice i f db)). iv_entity_id x = e \<and> iv_gross_total x = a"
proof -
  obtain x where x: "x \<in> set (invoices db)" "iv_entity_id x = e" "iv_gross_total x = a" using assms(1) by blast
  have "(if iv_id x = i then f x else x) \<in> set (invoices (update_invoice i f db))"
    using x(1) by (simp add: update_invoice_def)
  then show ?thesis using x(2,3) assms(2,3) by (intro bexI) simp_all
qed

lemma credit_note_tx_rows:
  assumes "credit_note_tx L C Q E db e cn number d reason gross ls orig by' = Inr (r, db')"
    and "A \<notin> gl_inventory ` set (inventory_items db)" and "A \<notin> gl_cogs ` set (inventory_items db)"
  shows "\<exists>x \<in> set (invoices db'). iv_entity_id x = iv_entity_id orig \<and> iv_gross_total x = gross"
    and "l \<in> set ls \<Longrightarrow> \<exists>r \<in> set (invoice_lines db'). ilr_line r = l"
proof -
  obtain db1 jls db2 pid en db3 where ins: "insert_invoice (credit_note_row cn number d reason gross ls orig) ls db = Inr db1"
    and loop: "try_fold (return_line Q (evens E) e orig cn d by') (enumerate 0 ls)
       (credit_receivable_line db e number gross orig # concat (map (credit_revenue_lines db e orig) ls), db1) = Inr (jls, db2)"
    and post: "create_and_post_in_tx L C (odds E) db2 e (credit_entry cn number d orig jls) pid by' = Inr (en, db3)"
    and db': "db' = update_invoice (iv_id orig) (credited gross orig)
       (update_invoice cn (\<lambda>x. x\<lparr>iv_journal_entry_id := Some (en_id en)\<rparr>) db3)"
    by (rule credit_note_txD [OF assms(1)])
  let ?row = "credit_note_row cn number d reason gross ls orig"
  have db1: "?row \<in> set (invoices db1)" "inventory_items db1 = inventory_items db"
    and stored: "set ls \<subseteq> ilr_line ` set (invoice_lines db1)"
    using ins by (auto simp: insert_invoice_def image_Un image_image split: if_splits)
  have kept: "invoices db3 = invoices db1" "invoice_lines db3 = invoice_lines db1"
    using return_loop(1) [OF loop, unfolded db1(2), OF assms(2,3)] posted_lines_kept [OF post]
    by (simp_all add: same_setup_def same_books_def)
  have "\<exists>x \<in> set (invoices db3). iv_entity_id x = iv_entity_id orig \<and> iv_gross_total x = gross"
    unfolding kept(1) by (rule bexI [OF _ db1(1)]) (simp add: credit_note_row_def)
  then show "\<exists>x \<in> set (invoices db'). iv_entity_id x = iv_entity_id orig \<and> iv_gross_total x = gross"
    unfolding db' by (intro update_invoice_rows) (simp_all add: credited_def Let_def)
  show "\<exists>r \<in> set (invoice_lines db'). ilr_line r = l" if "l \<in> set ls"
    using stored kept(2) that by (auto simp: db' update_invoice_def)
qed

lemma credited_inv:
  fixes db :: "'a payments_db_scheme"
  assumes inv: "receivables_inv db e A" and L: "decimal_laws L" and own: "control_reserved db e A"
    and base: "base_documents db e"
    and ok: "create_credit_note L C Q E db e req by' = (db', res)"
    and own': "control_reserved db' e A" and base': "base_documents db' e"
  shows "receivables_inv db' e A"
proof (cases "db' = db")
  case True
  with inv show ?thesis by simp
next
  case False
  obtain orig ls where orig: "find_invoice db e (cn_invoice_id req) = Some orig" "iv_type orig = TypeInvoice"
      "iv_status orig \<noteq> IvDraft" "iv_status orig \<noteq> IvVoided"
    and ls: "credit_lines L (evens E) db e req = Inr ls"
    and le: "\<not> iv_balance_due orig < round_money L (lines_subtotal ls + lines_tax ls)"
    using ok False by (auto simp: create_credit_note_def Let_def split: option.splits if_splits sum.splits)
  define gross where "gross = round_money L (lines_subtotal ls + lines_tax ls)"
  define d where "d = unwrap_or (cn_date req) (today E)"
  note run = ok [unfolded create_credit_note_def Let_def orig(1) option.case ls sum.case gross_def [symmetric] d_def [symmetric]]
  obtain number db1 where num: "generate_credit_note_number C db e d = Inr (number, db1)"
    using run orig False le by (auto simp: gross_def split: if_splits sum.splits)
  note num' = num [unfolded generate_credit_note_number_def]
  note inv1 = numbered_inv [OF num' inv] and own1 = numbered_reserved [OF num' own]
  show ?thesis
  proof (cases "credit_note_tx L C Q (odds E) db1 e (uuids (evens E) 0) number d (cn_reason req) gross ls orig by'")
    case (Inl err)
    with run orig num le have "db' = db1" by (auto simp: gross_def split: if_splits)
    with inv1 show ?thesis by simp
  next
    case (Inr rd)
    obtain r db2 where rd: "rd = (r, db2)" by (rule prod.exhaust)
    have "db' = db2" using Inr rd run orig num le by (auto simp: gross_def split: if_splits)
    note tx = Inr [unfolded rd this [symmetric]]
    note X = find_invoiceD [OF orig(1)]
    have lines: "il_account_code l \<noteq> A" if "l \<in> set ls" for l
      using credit_note_tx_rows(2) [OF tx control_reservedD(13,14) [OF own1] that] control_reservedD(12) [OF own'] by auto
    have pos: "0 \<le> gross" using credit_note_tx_rows(1) [OF tx control_reservedD(13,14) [OF own1]] base' X(3) by (auto simp: base_documents_def)
    have fx: "iv_fx_rate orig = 1" using base X by (auto simp: base_documents_def)
    have cents: "has_dp 2 gross" by (simp add: gross_def decimal_laws.round_money_grid [OF L])
    have same: "invoices db1 = invoices db"
      using next_number_setup [OF num'] by (simp add: same_setup_def same_books_def)
    have found: "find_invoice db1 e (cn_invoice_id req) = Some orig"
      by (simp add: find_invoice_cong [OF same] orig(1))
    have room: "gross \<le> iv_balance_due orig" using le by (simp add: gross_def)
    show ?thesis
      by (rule credit_note_tx_inv [OF inv1 L own1 lines found orig(2,3) fx pos room cents tx])
  qed
qed

end
