(* ===== verification/Receivables_Payments.thy ===== *)
theory Receivables_Payments
  imports Receivables_Correct
begin

text \<open>
  Payments keep the receivables invariant: what a payment credits to the control account is what it
  takes off the documents, and the entries for exchange differences leave the account alone.
\<close>

section \<open>Paying documents\<close>

lemma paid_invoice_shape:
  "paid_invoice t a x = x\<lparr>iv_balance_due := iv_balance_due x - a, iv_amount_paid := iv_amount_paid x + a,
     iv_status := (if iv_balance_due x - a \<le> 0 then IvPaid else IvPartiallyPaid),
     iv_paid_at := (if iv_balance_due x - a \<le> 0 then Some t else iv_paid_at x)\<rparr>"
  by (simp add: paid_invoice_def Let_def)

lemma paid_invoice_simps [simp]:
  "iv_id (paid_invoice t a x) = iv_id x" "iv_entity_id (paid_invoice t a x) = iv_entity_id x"
  "iv_type (paid_invoice t a x) = iv_type x" "iv_fx_rate (paid_invoice t a x) = iv_fx_rate x"
  "iv_gross_total (paid_invoice t a x) = iv_gross_total x"
  by (simp_all add: paid_invoice_def Let_def)

definition payable :: "'a sales_db_scheme \<Rightarrow> uuid \<Rightarrow> payment_application \<Rightarrow> bool" where
  "payable db e a \<longleftrightarrow> (\<exists>x. find_invoice db e (pa_document_id a) = Some x
     \<and> pa_amount_applied a \<le> iv_balance_due x) \<and> 0 \<le> pa_amount_applied a \<and> has_dp 2 (pa_amount_applied a)"

lemma find_invoice_other:
  assumes "i \<noteq> j" and "\<And>x. iv_id (f x) = iv_id x"
  shows "find_invoice (update_invoice i f db) e j = find_invoice db e j"
proof -
  have "List.find (\<lambda>x. iv_id x = j \<and> iv_entity_id x = e) (map (\<lambda>x. if iv_id x = i then f x else x) xs)
    = List.find (\<lambda>x. iv_id x = j \<and> iv_entity_id x = e) xs" for xs
    using assms by (induction xs) auto
  then show ?thesis by (simp add: find_invoice_def update_invoice_def)
qed

lemma pay_one:
  fixes db :: "'a ap_db_scheme"
  assumes docs: "docs_ok db e" and a: "payable db e a"
  shows "docs_ok (pay_document t CustomerPayment a db) e"
    "open_total (pay_document t CustomerPayment a db) e = open_total db e - pa_amount_applied a"
proof -
  let ?a = "pa_amount_applied a" and ?i = "pa_document_id a"
  obtain x where x: "find_invoice db e ?i = Some x" "?a \<le> iv_balance_due x" and pos: "0 \<le> ?a" "has_dp 2 ?a"
    using a by (auto simp: payable_def)
  note X = find_invoiceD [OF x(1)]
  have D: "doc_ok x" by (rule docs_okD(2) [OF docs X(1,3)])
  have "docs_ok (pay_document t CustomerPayment a db) e
    \<and> open_total (pay_document t CustomerPayment a db) e = open_total db e - ?a"
  proof (cases "?a = 0")
    case True
    with docs show ?thesis by (simp add: pay_document_def)
  next
    case False
    have ty: "iv_type x = TypeInvoice" using D False pos(1) x(2) by (cases "iv_type x") (auto simp: doc_ok_def)
    have paid: "0 \<le> iv_amount_paid x + ?a" using D pos(1) by (simp add: doc_ok_def)
    have st: "(if iv_balance_due x - ?a \<le> 0 then IvPaid else IvPartiallyPaid) \<noteq> IvDraft" by simp
    note T = taken_off [OF D ty x(2) paid pos(2) paid_invoice_shape st]
    have new: "invoices (pay_document t CustomerPayment a db)
        = map (\<lambda>y. if iv_id y = ?i then paid_invoice t ?a y else y) (invoices db)"
      using False by (simp add: pay_document_def update_invoice_def)
    have f: "iv_id (paid_invoice t ?a x) = ?i" "iv_entity_id (paid_invoice t ?a x) = e"
      "iv_type (paid_invoice t ?a x) = iv_type x" using X by simp_all
    from replace_document [OF docs x(1) new f T(1)] T(2) ty show ?thesis by simp
  qed
  then show "docs_ok (pay_document t CustomerPayment a db) e"
    "open_total (pay_document t CustomerPayment a db) e = open_total db e - ?a" by simp_all
qed

text \<open>What paying leaves alone.\<close>

lemma pay_document_setup:
  "journal_lines (pay_document t ty a db) = journal_lines db"
  "same_routing db (pay_document t ty a db)" "invoice_lines (pay_document t ty a db) = invoice_lines db"
  "inventory_items (pay_document t ty a db) = inventory_items db"
  by (simp_all add: pay_document_def update_invoice_def update_bill_def same_routing_def split: payment_type.splits)

lemma pay_loop_setup:
  fixes db :: "'a payments_db_scheme"
  shows "journal_lines (fold (pay_document t ty) as db) = journal_lines db
    \<and> same_routing db (fold (pay_document t ty) as db) \<and> invoice_lines (fold (pay_document t ty) as db) = invoice_lines db
    \<and> inventory_items (fold (pay_document t ty) as db) = inventory_items db
    \<and> bank_accounts (fold (pay_document t ty) as db) = bank_accounts db"
proof (induction as arbitrary: db)
  case (Cons a as)
  have "bank_accounts (pay_document t ty a db) = bank_accounts db"
    by (simp add: pay_document_def update_invoice_def update_bill_def split: payment_type.splits)
  with Cons.IH [of "pay_document t ty a db"] pay_document_setup [where t = t and ty = ty and a = a and db = db] same_routing_trans show ?case
    by (simp, blast)
qed (simp add: same_routing_def)

lemma pay_loop_reserved:
  assumes "control_reserved db e A"
  shows "control_reserved (fold (pay_document t ty) as db) e A"
proof -
  have r: "same_routing db (fold (pay_document t ty) as db)"
    "invoice_lines (fold (pay_document t ty) as db) = invoice_lines db"
    "inventory_items (fold (pay_document t ty) as db) = inventory_items db"
    "bank_accounts (fold (pay_document t ty) as db) = bank_accounts db"
    using pay_loop_setup [where t = t and ty = ty and as = as and db = db] by simp_all
  show ?thesis using assms unfolding control_reserved_def routing_accounts [OF r(1)] r(2-4) .
qed

lemma pay_loop_rates:
  "(\<forall>x \<in> set (invoices db). iv_entity_id x = e \<longrightarrow> iv_fx_rate x = 1)
    \<Longrightarrow> \<forall>x \<in> set (invoices (fold (pay_document t ty) as db)). iv_entity_id x = e \<longrightarrow> iv_fx_rate x = 1"
proof (induction as arbitrary: db)
  case (Cons a as)
  have "\<forall>x \<in> set (invoices (pay_document t ty a db)). iv_entity_id x = e \<longrightarrow> iv_fx_rate x = 1"
    using Cons.prems by (auto simp: pay_document_def update_invoice_def update_bill_def split: payment_type.splits)
  then show ?case by (simp add: Cons.IH)
qed simp

lemma pay_loop:
  fixes db :: "'a ap_db_scheme"
  assumes "docs_ok db e" and "\<And>a. a \<in> set as \<Longrightarrow> payable db e a" and "distinct (map pa_document_id as)"
  shows "docs_ok (fold (pay_document t CustomerPayment) as db) e
    \<and> open_total (fold (pay_document t CustomerPayment) as db) e
        = open_total db e - sum_list (map pa_amount_applied as)"
  using assms
proof (induction as arbitrary: db)
  case (Cons a as)
  let ?db = "pay_document t CustomerPayment a db"
  have keep: "payable ?db e b" if "b \<in> set as" for b
  proof -
    have "pa_document_id a \<noteq> pa_document_id b" using Cons.prems(3) that by auto
    then have "find_invoice ?db e (pa_document_id b) = find_invoice db e (pa_document_id b)"
      by (simp add: pay_document_def find_invoice_other)
    then show ?thesis using Cons.prems(2) [of b] that by (simp add: payable_def)
  qed
  have a: "payable db e a" using Cons.prems(2) by simp
  have "distinct (map pa_document_id as)" using Cons.prems(3) by simp
  from Cons.IH [OF pay_one(1) [OF Cons.prems(1) a] keep this] pay_one(2) [OF Cons.prems(1) a]
  show ?case by simp
qed simp

lemma pay_bills_books:
  fixes db :: "'a ap_db_scheme"
  shows "invoices (fold (pay_document t VendorPayment) as db) = invoices db"
  by (induction as arbitrary: db) (simp_all add: pay_document_def update_bill_def)

section \<open>The entries of a payment\<close>

lemma posted_reserved:
  assumes "create_and_post_in_tx L C E (db :: 'a payments_db_scheme) e req i by' = Inr (en, db')"
    and "control_reserved db e A"
  shows "control_reserved db' e A"
proof -
  from posting.post_frame(4) [OF assms(1)]
  have more: "invoice_lines db' = invoice_lines db" "inventory_items db' = inventory_items db"
    "bank_accounts db' = bank_accounts db"
    by (cases db, cases db', simp)+
  show ?thesis
    using assms(2) unfolding control_reserved_def routing_accounts [OF posted_routing [OF assms(1)]] more .
qed

lemma customer_entry_net:
  assumes L: "decimal_laws L" and own: "control_reserved db e A" and "0 \<le> applied" "has_dp 2 applied"
    and "bank \<noteq> A" "wht_acc \<noteq> Some A"
  shows "request_net L (payment_lines L db e party CustomerPayment number ccy 1 amount applied unapplied bank wht wht_acc) A
    = - applied"
proof -
  note R = control_reservedD [OF own]
  have w: "unwrap_or wht_acc (wht_receivable (posting (configs db e))) \<noteq> A"
    using assms(6) R(7) by (cases wht_acc) auto
  show ?thesis
    using assms(3,5) R(1,5,8,9) w decimal_laws.round_money_exact [OF L assms(4)]
    by (simp add: payment_lines_def payment_accounts_for_def customer_payment_lines_def Let_def)
qed

lemma vendor_entry_net:
  assumes own: "control_reserved db e A" and "bank \<noteq> A"
  shows "request_net L (payment_lines L db e party VendorPayment number ccy fx amount applied unapplied bank wht wht_acc) A = 0"
  using assms(2) control_reservedD(2,6) [OF own]
  by (simp add: payment_lines_def payment_accounts_for_def vendor_payment_lines_def Let_def)

lemma fx_entry_net:
  assumes own: "control_reserved db e A"
  shows "request_net L (fx_lines L (payment_accounts_for db e party VendorPayment) base number pay_fx doc_fx applied VendorPayment) A = 0"
  using control_reservedD(2,8,9) [OF own]
  by (simp add: fx_lines_def payment_accounts_for_def control_account_def Let_def)

text \<open>At rate one no difference arises on a customer's payment; a vendor's goes to payables.\<close>

lemma customer_fx_entries:
  "(\<forall>x \<in> set (invoices db). iv_entity_id x = e \<longrightarrow> iv_fx_rate x = 1)
    \<Longrightarrow> fst (post_fx_entries L C E e party number d 1 CustomerPayment by' k as db) = db"
proof (induction as arbitrary: k)
  case (Cons a as)
  have one: "iv_fx_rate x = 1" if "find_invoice db e (pa_document_id a) = Some x" for x
    using Cons.prems find_invoiceD [OF that] by auto
  show ?case
    by (cases "find_invoice db e (pa_document_id a)")
      (simp_all add: fetch_document_fx_rate_def Cons.IH [OF Cons.prems] one)
qed simp

lemma vendor_fx_entries:
  fixes db :: "'a payments_db_scheme"
  assumes "receivables_inv db e A" and "control_reserved db e A"
  shows "receivables_inv (fst (post_fx_entries L C E e party number d fx VendorPayment by' k as db)) e A"
  using assms
proof (induction as arbitrary: k db)
  case (Cons a as)
  show ?case
  proof (cases "pa_amount_applied a = 0")
    case True
    with Cons show ?thesis by simp
  next
    case pos: False
    show ?thesis
    proof (cases "fetch_document_fx_rate db e (pa_document_id a) VendorPayment")
      case (Inl err)
      with pos Cons.prems show ?thesis by simp
    next
      case (Inr doc_fx)
      show ?thesis
      proof (cases "doc_fx = fx")
        case True
        with pos Inr Cons show ?thesis by simp
      next
        case False
        let ?post = "post_fx_gain_loss_entry L C (branch_env E k) db e party number d fx doc_fx (pa_amount_applied a) VendorPayment by'"
        show ?thesis
        proof (cases ?post)
          case err: (Inl err)
          with pos Inr False Cons.prems show ?thesis by simp
        next
          case r: (Inr r)
          obtain j db1 where jdb: "r = (j, db1)" by (rule prod.exhaust)
          obtain req pid en where post: "create_and_post_in_tx L C (branch_env E k) db e req pid by' = Inr (en, db1)"
            and req: "rq_lines req = fx_lines L (payment_accounts_for db e party VendorPayment)
               (base_currency (configs db e)) number fx doc_fx (pa_amount_applied a) VendorPayment"
            using r jdb by (auto simp: post_fx_gain_loss_entry_def create_and_post_def payment_entry_def)
          note P = posted_books [OF post control_reservedD(4) [OF Cons.prems(2)]]
          have "receivables_inv db1 e A"
            using Cons.prems(1) P(1,2) fx_entry_net [OF Cons.prems(2)]
            by (simp add: receivables_inv_def docs_ok_def open_total_def req)
          from Cons.IH [OF this posted_reserved [OF post Cons.prems(2)]] pos Inr False r jdb
          show ?thesis by simp
        qed
      qed
    qed
  qed
qed simp

section \<open>Payments\<close>

definition plain_payment :: "account_code \<Rightarrow> record_payment_request \<Rightarrow> bool" where
  "plain_payment A req \<longleftrightarrow>
     list_all (\<lambda>r. 0 \<le> aq_amount r \<and> has_dp 2 (aq_amount r)) (rp_applications req)
     \<and> distinct (map aq_document_id (rp_applications req))
     \<and> (rp_type req = CustomerPayment \<longrightarrow> unwrap_or (rp_fx_rate req) 1 = 1)
     \<and> rp_funding_account req \<noteq> Some A \<and> rp_wht_account req \<noteq> Some A"

lemma bank_elsewhere:
  assumes "control_reserved db e A" and "fund \<noteq> Some A"
  shows "unwrap_or (non_blank fund) (resolve_bank_account_code db e ba) \<noteq> A"
proof -
  note R = control_reservedD [OF assms(1)]
  have "resolve_bank_account_code db e ba \<noteq> A"
  proof (cases "Option.bind ba (\<lambda>i. List.find (\<lambda>b. ba_id b = i \<and> ba_entity_id b = e) (bank_accounts db))")
    case None
    with R(10) show ?thesis by (simp add: resolve_bank_account_code_def)
  next
    case (Some b)
    then obtain i where "List.find (\<lambda>b. ba_id b = i \<and> ba_entity_id b = e) (bank_accounts db) = Some b"
      by (cases ba) auto
    from find_SomeD [OF this] R(11) Some show ?thesis by (simp add: resolve_bank_account_code_def)
  qed
  then show ?thesis using assms(2) by (auto simp: non_blank_def split: option.splits)
qed

lemma try_map_keys:
  "try_map f xs = Inr ys \<Longrightarrow> (\<And>x y. x \<in> set xs \<Longrightarrow> f x = Inr y \<Longrightarrow> g y = h x) \<Longrightarrow> map g ys = map h xs"
  by (induction xs arbitrary: ys) auto

lemma capped_payable:
  assumes docs: "docs_ok db e" and cap: "try_map (cap_application db e CustomerPayment) rs = Inr apps"
    and rs: "list_all (\<lambda>r. 0 \<le> aq_amount r \<and> has_dp 2 (aq_amount r)) rs"
  shows "map pa_document_id apps = map aq_document_id rs" and "a \<in> set apps \<Longrightarrow> payable db e a"
proof -
  show "map pa_document_id apps = map aq_document_id rs"
    by (rule try_map_keys [OF cap]) (auto simp: cap_application_def)
  show "payable db e a" if "a \<in> set apps"
  proof (rule try_map_all [OF cap _ that])
    fix r a assume r: "r \<in> set rs" and ok: "cap_application db e CustomerPayment r = Inr a"
    obtain x where x: "find_invoice db e (aq_document_id r) = Some x"
      and a: "a = \<lparr>pa_document_id = aq_document_id r, pa_document_type = DocInvoice,
                    pa_amount_applied = min (aq_amount r) (iv_balance_due x)\<rparr>"
      using ok by (auto simp: cap_application_def fetch_document_balance_def)
    have D: "doc_ok x" using docs_okD(2) [OF docs] find_invoiceD [OF x] by blast
    then have "has_dp 2 (iv_balance_due x)" "0 \<le> iv_balance_due x" by (auto simp: doc_ok_def)
    then show "payable db e a" using rs r x by (auto simp: payable_def a list_all_iff min_def)
  qed
qed

lemma payment_tx_inv:
  fixes db :: "'a payments_db_scheme"
  assumes inv: "receivables_inv db e A" and L: "decimal_laws L" and own: "control_reserved db e A"
    and ok: "payment_tx L C E db e p applied bank wht wht_acc by' = Inr (q, db')"
    and bank: "bank \<noteq> A" "wht_acc \<noteq> Some A"
    and customer: "py_type p = CustomerPayment \<longrightarrow> py_fx_rate p = 1
      \<and> (\<forall>a \<in> set (py_applications p). payable db e a) \<and> distinct (map pa_document_id (py_applications p))"
    and applied: "applied = sum_list (map pa_amount_applied (py_applications p))"
  shows "receivables_inv db' e A" "control_reserved db' e A"
    "(\<forall>x \<in> set (invoices db). iv_entity_id x = e \<longrightarrow> iv_fx_rate x = 1)
      \<Longrightarrow> \<forall>x \<in> set (invoices db'). iv_entity_id x = e \<longrightarrow> iv_fx_rate x = 1"
proof -
  obtain db1 entry db3 where ins: "insert_payment p db = Inr db1"
    and post: "post_payment_journal_entry L C E (fold (pay_document (now E) (py_type p)) (py_applications p) db1) e
        (py_party_id p) (py_number p) (py_date p) (py_currency p) (py_fx_rate p) (py_amount p) applied (py_unapplied p)
        bank (py_type p) wht wht_acc by' = Inr (entry, db3)"
    and db': "db' = update_payment (py_id p) (\<lambda>x. x\<lparr>py_journal_entry_id := Some entry\<rparr>) db3"
    using ok by (auto simp: payment_tx_def Let_def)
  let ?db2 = "fold (pay_document (now E) (py_type p)) (py_applications p) db1"
  have db1: "db1 = db\<lparr>payments := payments db @ [p]\<rparr>" using ins by (auto simp: insert_payment_def split: if_splits)
  have r1: "receivables_inv db1 e A" using inv by (auto intro: same_books_inv simp: same_books_def db1)
  have c1: "control_reserved db1 e A"
    by (rule reserved_same_setup [OF own]) (simp_all add: db1 same_setup_def same_books_def same_routing_def)
  have c2: "control_reserved ?db2 e A" by (rule pay_loop_reserved [OF c1])
  obtain req pid en where entry: "create_and_post_in_tx L C E ?db2 e req pid by' = Inr (en, db3)"
    and lines: "rq_lines req = payment_lines L ?db2 e (py_party_id p) (py_type p) (py_number p) (py_currency p)
        (py_fx_rate p) (py_amount p) applied (py_unapplied p) bank wht wht_acc"
    using post by (auto simp: post_payment_journal_entry_def payment_entry_def)
  note P = posted_books [OF entry control_reservedD(4) [OF c2]]
  have jl: "account_net ?db2 e A = account_net db1 e A"
    using pay_loop_setup [where t = "now E" and ty = "py_type p" and as = "py_applications p" and db = db1]
    by (intro account_net_cong) simp
  have docs: "docs_ok db1 e" using r1 by (simp add: receivables_inv_def)
  have r3: "receivables_inv db3 e A"
  proof (cases "py_type p")
    case CustomerPayment
    have same: "find_invoice db1 e i = find_invoice db e i" for i by (rule find_invoice_cong) (simp add: db1)
    have pay: "payable db1 e a" if "a \<in> set (py_applications p)" for a
      using customer [THEN mp, OF CustomerPayment] that by (auto simp: payable_def same)
    have cents: "0 \<le> applied" "has_dp 2 applied"
      using pay unfolding applied by (auto simp: payable_def intro!: sum_list_nonneg has_dp_sum_list)
    note F = pay_loop [OF docs pay conjunct2 [OF conjunct2 [OF customer [THEN mp, OF CustomerPayment]]], of "now E"]
    have net: "request_net L (rq_lines req) A = - applied"
      using customer [THEN mp, OF CustomerPayment] customer_entry_net [OF L c2 cents bank]
      by (simp add: lines CustomerPayment)
    show ?thesis
      using r1 F P(1,2) jl net CustomerPayment
      by (simp add: receivables_inv_def docs_ok_def open_total_def applied)
  next
    case VendorPayment
    have "invoices ?db2 = invoices db1" by (simp add: VendorPayment pay_bills_books)
    then show ?thesis
      using r1 P(1,2) jl vendor_entry_net [OF c2 bank(1)]
      by (simp add: receivables_inv_def docs_ok_def open_total_def lines VendorPayment)
  qed
  then show "receivables_inv db' e A" by (auto intro: same_books_inv simp: same_books_def db' update_payment_def)
  show "control_reserved db' e A"
    by (rule reserved_same_setup [OF posted_reserved [OF entry c2]])
      (simp_all add: db' update_payment_def same_setup_def same_books_def same_routing_def)
  assume "\<forall>x \<in> set (invoices db). iv_entity_id x = e \<longrightarrow> iv_fx_rate x = 1"
  then have "\<forall>x \<in> set (invoices db1). iv_entity_id x = e \<longrightarrow> iv_fx_rate x = 1" by (simp add: db1)
  from pay_loop_rates [OF this] show "\<forall>x \<in> set (invoices db'). iv_entity_id x = e \<longrightarrow> iv_fx_rate x = 1"
    by (simp add: db' update_payment_def P(1))
qed

text \<open>A call of \<open>record_payment\<close>: rejected at once, stopped after the number was drawn, or past its
  transaction.\<close>

lemma record_paymentD:
  fixes db :: "'a payments_db_scheme"
  assumes ok: "record_payment L C E db e req by' = (db', res)"
  obtains (rejected) err where "db' = db" "res = Inl err"
  | (numbered) number d err where "generate_payment_number C db e d = Inr (number, db')" "res = Inl err"
  | (paid) number d db1 apps ccy fx wht applied unapplied bank q db2 where
      "generate_payment_number C db e d = Inr (number, db1)"
      "try_map (cap_application db1 e (rp_type req)) (rp_applications req) = Inr apps"
      "fx = unwrap_or (rp_fx_rate req) 1" "applied = sum_list (map pa_amount_applied apps)"
      "bank = unwrap_or (non_blank (rp_funding_account req)) (resolve_bank_account_code db1 e (rp_bank_account_id req))"
      "payment_tx L C (odds E) db1 e (new_payment (uuids (evens E) 0) e number d ccy fx apps unapplied req)
         applied bank wht (rp_wht_account req) by' = Inr (q, db2)"
      "db' = fst (post_fx_entries L C (odds (evens E)) e (rp_party_id req) number d fx (rp_type req) by' 0 apps db2)"
      "res = (case snd (post_fx_entries L C (odds (evens E)) e (rp_party_id req) number d fx (rp_type req) by' 0 apps db2) of
         Inl err \<Rightarrow> Inl err | Inr _ \<Rightarrow> Inr q)"
proof -
  define d where "d = unwrap_or (rp_date req) (today E)"
  define ccy where "ccy = unwrap_or (rp_currency req) (base_currency (configs db e))"
  define fx where "fx = unwrap_or (rp_fx_rate req) 1"
  define wht where "wht = max (unwrap_or (rp_wht_amount req) 0) 0"
  note run = ok [unfolded record_payment_def Let_def d_def [symmetric] ccy_def [symmetric] fx_def [symmetric] wht_def [symmetric]]
  show thesis
  proof (cases "\<exists>err. db' = db \<and> res = Inl err")
    case True
    then show thesis using rejected by blast
  next
    case go: False
    obtain number db1 where num: "generate_payment_number C db e d = Inr (number, db1)"
      using run go by (auto split: if_splits sum.splits)
    show thesis
    proof (cases "\<exists>err. db' = db1 \<and> res = Inl err")
      case True
      then show thesis using numbered num by blast
    next
      case moved: False
      obtain apps where apps: "try_map (cap_application db1 e (rp_type req)) (rp_applications req) = Inr apps"
        using run go moved num by (auto split: if_splits sum.splits)
      define applied where "applied = sum_list (map pa_amount_applied apps)"
      define unapplied where "unapplied = max (rp_amount req + wht_in_currency L wht fx - applied) 0"
      define bank where "bank = unwrap_or (non_blank (rp_funding_account req))
          (resolve_bank_account_code db1 e (rp_bank_account_id req))"
      note run1 = run [unfolded num sum.case prod.case apps applied_def [symmetric] unapplied_def [symmetric] bank_def [symmetric]]
      obtain q db2 where tx: "payment_tx L C (odds E) db1 e (new_payment (uuids (evens E) 0) e number d ccy fx apps unapplied req)
          applied bank wht (rp_wht_account req) by' = Inr (q, db2)"
        using run1 go moved by (auto split: if_splits sum.splits)
      let ?fx = "post_fx_entries L C (odds (evens E)) e (rp_party_id req) number d fx (rp_type req) by' 0 apps db2"
      have res: "db' = fst ?fx" "res = (case snd ?fx of Inl err \<Rightarrow> Inl err | Inr _ \<Rightarrow> Inr q)"
        using run1 go tx by (auto split: if_splits sum.splits prod.splits)
      show thesis by (rule paid [OF num apps fx_def applied_def bank_def tx res])
    qed
  qed
qed

lemma recorded_inv:
  fixes db :: "'a payments_db_scheme"
  assumes inv: "receivables_inv db e A" and L: "decimal_laws L" and own: "control_reserved db e A"
    and base: "base_documents db e" and plain: "plain_payment A req"
    and ok: "record_payment L C E db e req by' = (db', res)"
  shows "receivables_inv db' e A"
  using ok
proof (cases rule: record_paymentD)
  case rejected
  with inv show ?thesis by simp
next
  case numbered
  then show ?thesis using numbered_inv [OF _ inv] by (simp add: generate_payment_number_def)
next
  case (paid number d db1 apps ccy fx wht applied unapplied bank q db2)
  let ?p = "new_payment (uuids (evens E) 0) e number d ccy fx apps unapplied req"
  note num = paid(1) [unfolded generate_payment_number_def]
  note inv1 = numbered_inv [OF num inv] and own1 = numbered_reserved [OF num own]
  have rates: "\<forall>x \<in> set (invoices db1). iv_entity_id x = e \<longrightarrow> iv_fx_rate x = 1"
    using base next_number_setup [OF num] by (simp add: base_documents_def same_setup_def same_books_def)
  have bank: "bank \<noteq> A" unfolding paid(5)
    by (rule bank_elsewhere [OF own1]) (use plain in \<open>simp add: plain_payment_def\<close>)
  have wa: "rp_wht_account req \<noteq> Some A" using plain by (simp add: plain_payment_def)
  have p: "py_type ?p = rp_type req" "py_fx_rate ?p = fx" "py_applications ?p = apps" by (simp_all add: new_payment_def)
  have cust: "py_type ?p = CustomerPayment \<longrightarrow> py_fx_rate ?p = 1 \<and> (\<forall>a \<in> set (py_applications ?p). payable db1 e a)
      \<and> distinct (map pa_document_id (py_applications ?p))"
  proof
    assume ty: "py_type ?p = CustomerPayment"
    have docs: "docs_ok db1 e" using inv1 by (simp add: receivables_inv_def)
    have rs: "list_all (\<lambda>r. 0 \<le> aq_amount r \<and> has_dp 2 (aq_amount r)) (rp_applications req)"
      using plain by (simp add: plain_payment_def)
    note K = capped_payable [OF docs paid(2) [unfolded ty [unfolded p]] rs]
    have "rp_type req = CustomerPayment" using ty by (simp only: p)
    with K plain show "py_fx_rate ?p = 1 \<and> (\<forall>a \<in> set (py_applications ?p). payable db1 e a)
        \<and> distinct (map pa_document_id (py_applications ?p))" unfolding p by (simp add: plain_payment_def paid(3))
  qed
  have ap: "applied = sum_list (map pa_amount_applied (py_applications ?p))" unfolding p by (rule paid(4))
  note T = payment_tx_inv [OF inv1 L own1 paid(6) bank wa cust ap]
  show ?thesis
  proof (cases "rp_type req")
    case CustomerPayment
    then have "fx = 1" using plain by (simp add: plain_payment_def paid(3))
    with customer_fx_entries [OF T(3) [OF rates]] T(1) show ?thesis by (simp add: paid(7) CustomerPayment)
  next
    case VendorPayment
    show ?thesis unfolding paid(7) VendorPayment by (rule vendor_fx_entries [OF T(1,2)])
  qed
qed

section \<open>Amounts held on account\<close>

lemma apply_entry_net:
  assumes L: "decimal_laws L" and own: "control_reserved db e A" and "has_dp 2 amount"
    and "py_type p = CustomerPayment \<Longrightarrow> py_fx_rate p = 1"
  shows "request_net L (rq_lines (apply_entry (payment_accounts_for db e (py_party_id p) (py_type p)) p amount)) A
    = (case py_type p of CustomerPayment \<Rightarrow> - amount | VendorPayment \<Rightarrow> 0)"
  using control_reservedD(1,2,5) [OF own] assms(4) decimal_laws.round_money_exact [OF L assms(3)]
  by (cases "py_type p")
    (simp_all add: apply_entry_def payment_entry_def payment_accounts_for_def control_account_def Let_def)

lemma find_paymentD:
  assumes "find_payment db e i = Some p"
  shows "p \<in> set (payments db)" "py_id p = i" "py_entity_id p = e"
  using find_SomeD [OF assms [unfolded find_payment_def]] by auto

lemma applied_inv:
  fixes db :: "'a payments_db_scheme"
  assumes inv: "receivables_inv db e A" and L: "decimal_laws L" and own: "control_reserved db e A"
    and base: "base_documents db e" and cents: "has_dp 2 (ay_amount req)"
    and ok: "apply_unapplied_payment L C E db e req by' = Inr (q, db')"
  shows "receivables_inv db' e A"
proof -
  obtain p bal where p: "find_payment db e (ay_payment_id req) = Some p"
    and bal: "fetch_document_balance db e (ay_document_id req) (py_type p) = Inr bal"
    and pos: "0 < min (ay_amount req) bal"
    using ok by (auto simp: apply_unapplied_payment_def Let_def split: if_splits)
  define amount where "amount = min (ay_amount req) bal"
  define app where "app = \<lparr>pa_document_id = ay_document_id req,
      pa_document_type = (case py_type p of CustomerPayment \<Rightarrow> DocInvoice | VendorPayment \<Rightarrow> DocBill),
      pa_amount_applied = amount\<rparr>"
  define upd :: "payment \<Rightarrow> payment" where
    "upd = (\<lambda>x. x\<lparr>py_unapplied := py_unapplied p - amount, py_applications := py_applications p @ [app]\<rparr>)"
  define db0 where "db0 = update_payment (ay_payment_id req) upd db"
  define db1 where "db1 = pay_document (now E) (py_type p) app db0"
  obtain pid en db2 where post: "create_and_post_in_tx L C E db1 e
        (apply_entry (payment_accounts_for db1 e (py_party_id p) (py_type p)) p amount) pid by' = Inr (en, db2)"
    and db': "db' = db2"
    using ok p bal pos
    by (auto simp: apply_unapplied_payment_def Let_def amount_def app_def upd_def db0_def db1_def split: if_splits)
  have r0: "receivables_inv db0 e A" using inv by (auto intro: same_books_inv simp: same_books_def db0_def update_payment_def)
  have c0: "control_reserved db0 e A"
    by (rule reserved_same_setup [OF own])
      (simp_all add: db0_def update_payment_def same_setup_def same_books_def same_routing_def)
  have c1: "control_reserved db1 e A"
    using pay_loop_reserved [OF c0, of "now E" "py_type p" "[app]"] by (simp add: db1_def)
  have rate: "py_fx_rate p = 1" if "py_type p = CustomerPayment"
    using base find_paymentD [OF p] that by (auto simp: base_documents_def)
  have jl: "account_net db1 e A = account_net db0 e A"
    unfolding db1_def by (intro account_net_cong pay_document_setup)
  note P = posted_books [OF post control_reservedD(4) [OF c1]]
  show ?thesis
  proof (cases "py_type p")
    case CustomerPayment
    obtain x where x: "find_invoice db e (ay_document_id req) = Some x" "bal = iv_balance_due x"
      using bal by (auto simp: fetch_document_balance_def CustomerPayment)
    have docs: "docs_ok db0 e" using r0 by (simp add: receivables_inv_def)
    have x0: "find_invoice db0 e (ay_document_id req) = Some x"
      using x(1) find_invoice_cong [of db0 db e] by (simp add: db0_def update_payment_def)
    have "doc_ok x" by (rule docs_okD(2) [OF docs find_invoiceD(1,3) [OF x0]])
    then have dp: "has_dp 2 amount" using cents by (auto simp: amount_def doc_ok_def x(2) min_def)
    have a: "payable db0 e app"
      using x0 x(2) pos dp by (auto simp: payable_def app_def amount_def)
    show ?thesis
      using r0 pay_one [OF docs a, of "now E"] P(1,2) jl apply_entry_net [OF L c1 dp rate]
      by (simp add: receivables_inv_def docs_ok_def open_total_def db' db1_def CustomerPayment app_def)
  next
    case VendorPayment
    have "invoices db1 = invoices db0" by (simp add: db1_def VendorPayment pay_document_def update_bill_def)
    moreover have "request_net L (rq_lines (apply_entry (payment_accounts_for db1 e (py_party_id p) (py_type p)) p amount)) A = 0"
      using control_reservedD(2,5) [OF c1]
      by (simp add: apply_entry_def payment_entry_def payment_accounts_for_def control_account_def VendorPayment Let_def)
    ultimately show ?thesis
      using r0 P(1,2) jl by (simp add: receivables_inv_def docs_ok_def open_total_def db')
  qed
qed

section \<open>Callbacks\<close>

lemma provider_plain:
  assumes "iv_fx_rate doc = 1" and "0 \<le> amount" and "has_dp 2 amount"
  shows "plain_payment A (provider_payment doc i amount m ref)"
  using assms by (simp add: plain_payment_def provider_payment_def)

lemma claimed_setup:
  "receivables_inv db e A \<Longrightarrow> receivables_inv (claim_receipt db e r a ph i) e A"
  "control_reserved db e A \<Longrightarrow> control_reserved (claim_receipt db e r a ph i) e A"
  "base_documents db e \<Longrightarrow> base_documents (claim_receipt db e r a ph i) e"
proof -
  show "receivables_inv db e A \<Longrightarrow> receivables_inv (claim_receipt db e r a ph i) e A"
    by (erule same_books_inv) (simp add: same_books_def claim_receipt_def)
  show "control_reserved db e A \<Longrightarrow> control_reserved (claim_receipt db e r a ph i) e A"
    by (erule reserved_same_setup) (simp_all add: same_setup_def same_books_def same_routing_def claim_receipt_def)
  show "base_documents db e \<Longrightarrow> base_documents (claim_receipt db e r a ph i) e"
    by (simp add: base_documents_def claim_receipt_def)
qed

lemma mpesa_inv:
  fixes db :: "'a payments_db_scheme"
  assumes inv: "receivables_inv db e A" and L: "decimal_laws L" and own: "control_reserved db e A"
    and base: "base_documents db e"
    and plain: "\<And>a. cb_amount cb = Some a \<Longrightarrow> 0 \<le> a \<and> has_dp 2 a"
    and ok: "record_mpesa_payment L C E db e i cb = (db', res)"
  shows "receivables_inv db' e A"
proof (cases "db' = db")
  case True
  with inv show ?thesis by simp
next
  case False
  define receipt where "receipt = unwrap_or (cb_receipt cb) []"
  define phone where "phone = unwrap_or (cb_phone cb) []"
  note run = ok [unfolded record_mpesa_payment_def Let_def receipt_def [symmetric] phone_def [symmetric]]
  obtain amount doc where a: "cb_amount cb = Some amount" and doc: "find_invoice db e i = Some doc"
    using run False by (auto split: if_splits option.splits)
  obtain db1 r where rec: "record_payment L C E (claim_receipt db e receipt amount phone i) e
      (provider_payment doc i amount (Mpesa receipt phone) receipt) (AgentId ''mpesa-webhook'') = (db1, r)"
    by (rule prod.exhaust)
  have fx: "iv_fx_rate doc = 1" using base find_invoiceD [OF doc] by (auto simp: base_documents_def)
  note C = claimed_setup [where r = receipt and a = amount and ph = phone and i = i]
  have inv1: "receivables_inv db1 e A"
    by (rule recorded_inv [OF C(1) [OF inv] L C(2) [OF own] C(3) [OF base] provider_plain rec])
      (use fx plain [OF a] in simp_all)
  have "same_books db1 db'"
    using run False a doc rec
    by (auto simp: same_books_def link_receipt_def split: if_splits option.splits sum.splits)
  with inv1 show ?thesis by (rule same_books_inv)
qed

lemma paystack_inv:
  fixes db :: "'a payments_db_scheme"
  assumes inv: "receivables_inv db e A" and L: "decimal_laws L" and own: "control_reserved db e A"
    and base: "base_documents db e" and plain: "0 \<le> pc_amount data"
    and ok: "record_paystack_payment L C E db e data = (db', res)"
  shows "receivables_inv db' e A"
proof (cases "db' = db")
  case True
  with inv show ?thesis by simp
next
  case False
  define amount where "amount = round_dp L (div_dec L (of_int (pc_amount data)) 100) 2"
  note run = ok [unfolded record_paystack_payment_def Let_def amount_def [symmetric]]
  obtain i doc where doc: "find_invoice db e i = Some doc"
    and rec: "\<exists>r db1. record_payment L C E db e (provider_payment doc i amount (Card ''paystack'' (pc_reference data))
        (pc_reference data)) (AgentId ''paystack-webhook'') = (db1, r) \<and> same_books db1 db'"
    using run False by (auto simp: same_books_def split: option.splits sum.splits prod.splits)
  obtain r db1 where rec1: "record_payment L C E db e (provider_payment doc i amount (Card ''paystack'' (pc_reference data))
        (pc_reference data)) (AgentId ''paystack-webhook'') = (db1, r)" and same: "same_books db1 db'"
    using rec by blast
  have fx: "iv_fx_rate doc = 1" using base find_invoiceD [OF doc] by (auto simp: base_documents_def)
  have pos: "0 \<le> amount" "has_dp 2 amount"
    using decimal_laws.round_nonneg [OF L decimal_laws.div_nonneg [OF L, of "of_int (pc_amount data)" 100]] plain
    by (simp_all add: amount_def round_dp_def decimal_laws.round_grid [OF L])
  show ?thesis
    by (rule same_books_inv [OF recorded_inv [OF inv L own base provider_plain [OF fx pos] rec1] same])
qed

end
