(* ===== verification/Receivables_Properties.thy ===== *)
theory Receivables_Properties
  imports Receivables_Payments Samples
begin

text \<open>
  Sales, credit notes, write-offs and payments of a tenant as one transition system, and what holds
  of its documents and of the control account in every state it can reach.
\<close>

section \<open>The subledger as a transition system\<close>

text \<open>A step of the subledger, or of any other part of the program that leaves the tenant's documents
  and the control account as they are. Amounts that come from outside are in cents.\<close>

inductive ar_step ::
    "decimal_lib \<Rightarrow> calendar \<Rightarrow> json_lib \<Rightarrow> (decimal \<Rightarrow> decimal \<Rightarrow> decimal) \<Rightarrow> uuid \<Rightarrow> account_code
      \<Rightarrow> payments_db \<Rightarrow> payments_db \<Rightarrow> bool"
  for L C J Q e A where
  step_create: "create_invoice J L C E db e req = (db', res) \<Longrightarrow> ar_step L C J Q e A db db'"
| step_edit: "update_invoice_draft J L E db e i req = Inr db' \<Longrightarrow> ar_step L C J Q e A db db'"
| step_delete: "delete_invoice_draft db e i = Inr db' \<Longrightarrow> ar_step L C J Q e A db db'"
| step_send: "mark_invoice_sent E db e i = Inr db' \<Longrightarrow> ar_step L C J Q e A db db'"
| step_transmit: "mark_invoice_etims_transmitted db e i n = Inr db' \<Longrightarrow> ar_step L C J Q e A db db'"
| step_convert: "convert_estimate_to_invoice J L C E db e i = (db', res') \<Longrightarrow> ar_step L C J Q e A db db'"
| step_post: "post_invoice L C E db e i by' = Inr (j, db') \<Longrightarrow> ar_step L C J Q e A db db'"
| step_credit: "create_credit_note L C Q E db e creq by' = (db', res2) \<Longrightarrow> ar_step L C J Q e A db db'"
| step_write_off: "write_off_invoice L C E db e i expense amount reason by' = Inr (j, db') \<Longrightarrow> expense \<noteq> A
    \<Longrightarrow> (\<And>a. amount = Some a \<Longrightarrow> has_dp 2 a) \<Longrightarrow> ar_step L C J Q e A db db'"
| step_pay: "record_payment L C E db e preq by' = (db', res3) \<Longrightarrow> plain_payment A preq \<Longrightarrow> ar_step L C J Q e A db db'"
| step_apply: "apply_unapplied_payment L C E db e areq by' = Inr (p, db') \<Longrightarrow> has_dp 2 (ay_amount areq)
    \<Longrightarrow> ar_step L C J Q e A db db'"
| step_mpesa: "record_mpesa_payment L C E db e i cb = (db', res3)
    \<Longrightarrow> (\<And>a. cb_amount cb = Some a \<Longrightarrow> 0 \<le> a \<and> has_dp 2 a) \<Longrightarrow> ar_step L C J Q e A db db'"
| step_paystack: "record_paystack_payment L C E db e data = (db', res3) \<Longrightarrow> 0 \<le> pc_amount data
    \<Longrightarrow> ar_step L C J Q e A db db'"
| step_elsewhere: "distinct (map iv_id (invoices db')) \<Longrightarrow> account_net db' e A = account_net db e A
    \<Longrightarrow> filter (\<lambda>x. iv_entity_id x = e) (invoices db') = filter (\<lambda>x. iv_entity_id x = e) (invoices db)
    \<Longrightarrow> ar_step L C J Q e A db db'"

text \<open>
  The states of a tenant that keeps the account for its receivables and its documents in the base
  currency, from a tenant without documents on. The conditions of the steps and of the states are
  the scope of what is proved below; the code enforces none of them:
  \<^item> \<open>control_reserved\<close>: the account is the control account of every customer and nothing else: no other
    role of the settings, no bank, vendor, tax or stock account, no invoice line and no write-off uses it;
  \<^item> \<open>base_documents\<close>: the tenant's documents and customer payments carry rate one, and no document has a
    negative total;
  \<^item> \<open>plain_payment\<close> and the conditions on amounts: what is applied or written off is in cents and, in
    payments, not negative, and one payment names no document twice
    (\<open>double_application_overpays\<close> below shows why).
\<close>

inductive ar_reachable ::
    "decimal_lib \<Rightarrow> calendar \<Rightarrow> json_lib \<Rightarrow> (decimal \<Rightarrow> decimal \<Rightarrow> decimal) \<Rightarrow> uuid \<Rightarrow> account_code
      \<Rightarrow> payments_db \<Rightarrow> bool"
  for L C J Q e A where
  ar_start: "invoices db = [] \<Longrightarrow> account_net db e A = 0 \<Longrightarrow> control_reserved db e A \<Longrightarrow> base_documents db e
    \<Longrightarrow> ar_reachable L C J Q e A db"
| ar_more: "ar_reachable L C J Q e A db \<Longrightarrow> ar_step L C J Q e A db db' \<Longrightarrow> control_reserved db' e A
    \<Longrightarrow> base_documents db' e \<Longrightarrow> ar_reachable L C J Q e A db'"

lemma base_totals: "base_documents db e \<Longrightarrow> \<forall>x \<in> set (invoices db). iv_entity_id x = e \<longrightarrow> 0 \<le> iv_gross_total x"
  by (simp add: base_documents_def)

lemma elsewhere_inv:
  assumes "receivables_inv db e A" and "distinct (map iv_id (invoices db'))" and "account_net db' e A = account_net db e A"
    and same: "filter (\<lambda>x. iv_entity_id x = e) (invoices db') = filter (\<lambda>x. iv_entity_id x = e) (invoices db)"
  shows "receivables_inv db' e A"
proof -
  have "sum_where (own_invoice e) open_amount xs
      = sum_where (own_invoice e) open_amount (filter (\<lambda>x. iv_entity_id x = e) xs)" for xs
    by (induction xs) (auto simp: own_invoice_def)
  then have "open_total db' e = open_total db e" by (metis open_total_def same)
  moreover have "x \<in> set (invoices db') \<and> iv_entity_id x = e \<longleftrightarrow> x \<in> set (invoices db) \<and> iv_entity_id x = e" for x
    using arg_cong [OF same, of set] by (auto simp: set_eq_iff)
  ultimately show ?thesis using assms(1-3) by (auto simp: receivables_inv_def docs_ok_def)
qed

lemma ar_step_inv:
  assumes step: "ar_step L C J Q e A db db'" and L: "decimal_laws L" and inv: "receivables_inv db e A"
    and own: "control_reserved db e A" "control_reserved db' e A"
    and base: "base_documents db e" "base_documents db' e"
  shows "receivables_inv db' e A"
  using step
proof cases
  case step_create
  then show ?thesis by (rule created_inv [OF inv L _ base_totals [OF base(2)]])
next
  case step_edit
  then show ?thesis by (rule redrafted_inv [OF inv L _ base_totals [OF base(2)]])
next
  case step_delete
  then show ?thesis by (rule deleted_inv [OF inv])
next
  case step_send
  then show ?thesis by (rule sent_inv [OF inv])
next
  case step_transmit
  then show ?thesis by (rule transmitted_inv [OF inv])
next
  case step_convert
  then show ?thesis by (rule converted_inv [OF inv L _ base_totals [OF base(2)]])
next
  case step_post
  then show ?thesis by (rule posted_inv [OF inv L own(1) base(1)])
next
  case step_credit
  then show ?thesis by (rule credited_inv [OF inv L own(1) base(1) _ own(2) base(2)])
next
  case step_write_off
  then show ?thesis by (rule written_off_inv [OF inv L own(1) base(1)])
next
  case step_pay
  from step_pay(2,1) show ?thesis by (rule recorded_inv [OF inv L own(1) base(1)])
next
  case step_apply
  from step_apply(2,1) show ?thesis by (rule applied_inv [OF inv L own(1) base(1)])
next
  case step_mpesa
  from step_mpesa(2,1) show ?thesis by (rule mpesa_inv [OF inv L own(1) base(1)])
next
  case step_paystack
  from step_paystack(2,1) show ?thesis by (rule paystack_inv [OF inv L own(1) base(1)])
next
  case step_elsewhere
  then show ?thesis by (rule elsewhere_inv [OF inv])
qed

lemma ar_reachable_inv:
  assumes "ar_reachable L C J Q e A db" and "decimal_laws L"
  shows "receivables_inv db e A \<and> control_reserved db e A \<and> base_documents db e"
  using assms(1)
proof induction
  case (ar_start db)
  then show ?case by (simp add: receivables_inv_def docs_ok_def open_total_def)
next
  case (ar_more db db')
  then show ?case using ar_step_inv [OF _ assms(2)] by blast
qed

section \<open>A sample tenant\<close>

text \<open>One customer, an invoice of 1000 and its tax, posted.\<close>

definition sales_customer :: customer where
  "sales_customer = \<lparr>pt_id = 5, pt_entity_id = 1, pt_name = ''Customer'', pt_currency = ''KES'',
     pt_payment_terms = quoted ''Net30'', pt_account = ''1200'', pt_is_active = True, general_biz = None,
     vat_biz = None, credit_limit = None\<rparr>"

definition sales_start :: payments_db where
  "sales_start =
     \<lparr>accounts = [sample_account ''1200'' ''Asset'' True, sample_account ''1020'' ''Asset'' False,
        sample_account ''3100'' ''Liability'' False, sample_account ''5100'' ''Revenue'' False,
        sample_account ''7900'' ''Expense'' False],
      configs = default_config, fiscal_periods = [sample_period 1 739252 739282 ''open''],
      journal_counter = (\<lambda>_. Some 1), journal_entries = [], journal_lines = [], account_period_balances = [],
      inventory_items = [], stock_movements = [], warehouses = [], warehouse_stock = [], warehouse_transfers = [],
      doc_counters = (\<lambda>_. Some (\<lambda>_. 1)), customers = [sales_customer], vendors = [], products = [],
      general_business_groups = [\<lparr>pg_id = 77, pg_entity_id = 1, pg_code = ''LOCAL'', pg_name = ''Local'',
        receivables_account = None, payables_account = None\<rparr>],
      general_product_groups = [], vat_business_groups = [], vat_product_groups = [],
      general_posting_matrix = [], vat_posting_matrix = [],
      invoices = [], invoice_lines = [], estimates = [], estimate_lines = [],
      bills = [], bill_lines = [], purchase_orders = [], purchase_order_lines = [], goods_receipts = [],
      goods_receipt_lines = [], approval_limits = [], era_users = [], wht_rates = [],
      payments = [], bank_accounts = [], mpesa_transactions = [], paystack_transactions = []\<rparr>"

definition sales_line :: line_request where
  "sales_line = \<lparr>lq_product_id = None, lq_description = Some ''Work'', lq_quantity = 2, lq_unit_price = Some 500,
     lq_discount_percent = None, lq_account_code = None, lq_vat_treatment = None, lq_dimensions = None\<rparr>"

definition sales_request :: create_invoice_request where
  "sales_request = \<lparr>vq_customer_id = 5, vq_issue_date = Some 739255, vq_due_date = None, vq_currency = None,
     vq_fx_rate = None, vq_lines = [sales_line], vq_template_id = None, vq_notes = None\<rparr>"

definition sales_env :: "nat \<Rightarrow> environment" where
  "sales_env k = \<lparr>now = int k, today = 739256, uuids = (\<lambda>n. 1000 * k + n)\<rparr>"

definition sales_db1 :: payments_db where
  "sales_db1 = fst (create_invoice sample_json std_decimal gregorian (sales_env 1) sales_start 1 sales_request)"

definition sales_db2 :: payments_db where
  "sales_db2 = snd (projr (post_invoice std_decimal gregorian (sales_env 2) sales_db1 1 1001 (User 9)))"

text \<open>An executable form of what the account is reserved for, for tenants without posting groups.\<close>

definition plain_setup :: "payments_db \<Rightarrow> uuid \<Rightarrow> account_code \<Rightarrow> bool" where
  "plain_setup db e A \<longleftrightarrow>
     posting (configs db e) = default_posting_setup
     \<and> list_all (\<lambda>c. general_biz c = None \<and> vat_biz c = None) (customers db)
     \<and> vendors db = [] \<and> bank_accounts db = [] \<and> inventory_items db = []
     \<and> list_all (\<lambda>r. il_account_code (ilr_line r) \<noteq> A) (invoice_lines db)
     \<and> list_all (\<lambda>x. iv_fx_rate x = 1 \<and> 0 \<le> iv_gross_total x) (invoices db)
     \<and> payments db = []"

lemma plain_setup_reserved:
  assumes "plain_setup db e ''1200''"
  shows "control_reserved db e ''1200''" "base_documents db e"
proof -
  have none: "find_customer db e c = Some x \<Longrightarrow> general_biz x = None \<and> vat_biz x = None" for c x
    using assms find_SomeD [of "\<lambda>y. pt_id y = c \<and> pt_entity_id y = e" "customers db" x]
    by (simp add: plain_setup_def find_customer_def list_all_iff)
  have biz: "customer_general_biz db e c = None" "customer_vat_biz db e c = None" for c
    using none by (cases "find_customer db e c"; simp add: customer_general_biz_def customer_vat_biz_def)+
  have "ar_account db e c = ''1200''" "vat_output_account db e c p = ''3100''" "ap_account db e c = ''3010''" for c p
    using assms
    by (simp_all add: ar_account_def resolve_receivables_def vat_output_account_def resolve_vat_output_def
        resolve_vat_def biz non_empty_def ap_account_def resolve_payables_def vendor_general_biz_def
        find_vendor_def plain_setup_def default_posting_setup_def)
  then show "control_reserved db e ''1200''"
    using assms by (simp add: control_reserved_def plain_setup_def default_posting_setup_def list_all_iff)
  show "base_documents db e" using assms by (simp add: base_documents_def plain_setup_def list_all_iff)
qed

definition sales_figures :: "payments_db \<Rightarrow> (uuid \<times> decimal \<times> bool) list" where
  "sales_figures db = map (\<lambda>x. (iv_id x, iv_balance_due x, iv_journal_entry_id x = None)) (invoices db)"

definition sales_checked :: "payments_db \<Rightarrow> (uuid \<times> decimal \<times> bool) list \<Rightarrow> bool" where
  "sales_checked db fs \<longleftrightarrow> plain_setup db 1 ''1200'' \<and> sales_figures db = fs
     \<and> list_all (own_invoice 1) (invoices db)"

lemma sales_start_ok: "sales_checked sales_start []"
  by code_simp

lemma sales_db1_ok: "sales_checked sales_db1 [(1001, 1160, True)]"
  by code_simp

lemma sales_posted_ok:
  "case post_invoice std_decimal gregorian (sales_env 2) sales_db1 1 1001 (User 9) of
     Inl err \<Rightarrow> False | Inr (j, db) \<Rightarrow> sales_checked db [(1001, 1160, False)]"
  by code_simp

lemma sales_db2_call:
  "\<exists>j. post_invoice std_decimal gregorian (sales_env 2) sales_db1 1 1001 (User 9) = Inr (j, sales_db2)"
  "sales_checked sales_db2 [(1001, 1160, False)]"
  using sales_posted_ok by (auto simp: sales_db2_def split: sum.splits)

lemma sales_setups:
  "plain_setup sales_start 1 ''1200''" "plain_setup sales_db1 1 ''1200''" "plain_setup sales_db2 1 ''1200''"
  using sales_start_ok sales_db1_ok sales_db2_call(2) unfolding sales_checked_def by blast+

lemma sales_db2_reachable: "ar_reachable std_decimal gregorian sample_json (\<lambda>a b. a / b) 1 ''1200'' sales_db2"
proof -
  have created: "create_invoice sample_json std_decimal gregorian (sales_env 1) sales_start 1 sales_request
      = (sales_db1, snd (create_invoice sample_json std_decimal gregorian (sales_env 1) sales_start 1 sales_request))"
    unfolding sales_db1_def by (rule prod.collapse [symmetric])
  obtain j where posted: "post_invoice std_decimal gregorian (sales_env 2) sales_db1 1 1001 (User 9) = Inr (j, sales_db2)"
    using sales_db2_call(1) by blast
  have "invoices sales_start = []" "account_net sales_start 1 ''1200'' = 0"
    by (simp_all add: sales_start_def account_net_def)
  from ar_start [OF this plain_setup_reserved [OF sales_setups(1)]]
  have "ar_reachable std_decimal gregorian sample_json (\<lambda>a b. a / b) 1 ''1200'' sales_start" .
  from ar_more [OF this step_create [OF created] plain_setup_reserved [OF sales_setups(2)]]
  have "ar_reachable std_decimal gregorian sample_json (\<lambda>a b. a / b) 1 ''1200'' sales_db1" .
  from ar_more [OF this step_post [OF posted] plain_setup_reserved [OF sales_setups(3)]] show ?thesis .
qed

lemma sales_own: "list_all (own_invoice 1) (invoices sales_db2)"
  using sales_db2_call(2) by (simp add: sales_checked_def)

section \<open>The documents and the control account\<close>

text \<open>What the code lets through: one payment that names an invoice twice is capped, both times, against
  the balance before the payment, so applying its two parts leaves a negative balance.\<close>

lemma double_application_overpays:
  fixes db :: "'a payments_db_scheme"
  assumes x: "find_invoice db e i = Some x" "iv_balance_due x \<noteq> 0" and all: "invoices db = [x]"
    and r: "r = \<lparr>aq_document_id = i, aq_amount = iv_balance_due x\<rparr>"
    and app: "app = \<lparr>pa_document_id = i, pa_document_type = DocInvoice, pa_amount_applied = iv_balance_due x\<rparr>"
  shows "try_map (cap_application db e CustomerPayment) [r, r] = Inr [app, app]"
    and "map iv_balance_due (invoices (pay_document t CustomerPayment app (pay_document t CustomerPayment app db)))
      = [- iv_balance_due x]"
proof -
  have one: "cap_application db e CustomerPayment r = Inr app"
    unfolding r app by (simp add: cap_application_def fetch_document_balance_def x(1))
  show "try_map (cap_application db e CustomerPayment) [r, r] = Inr [app, app]" by (simp add: one)
  have pays: "invoices (pay_document t CustomerPayment app d) = map (\<lambda>y. if iv_id y = i then paid_invoice t (iv_balance_due x) y else y) (invoices d)"
    for d :: "'a payments_db_scheme"
    using x(2) by (simp add: pay_document_def update_invoice_def app)
  have "iv_id x = i" "iv_id (paid_invoice t a x) = iv_id x" for a
    using find_invoiceD [OF x(1)] by (simp_all add: paid_invoice_def Let_def)
  then show "map iv_balance_due (invoices (pay_document t CustomerPayment app (pay_document t CustomerPayment app db)))
      = [- iv_balance_due x]"
    by (simp add: pays all) (simp add: paid_invoice_def Let_def)
qed

text \<open>
  C26: in every state that the operations on invoices, credit notes, write-offs and payments can reach,
  the control account of receivables holds what the posted invoices still owe, less what was paid on
  invoices that are not posted yet. This is for a tenant that uses the account for receivables only,
  whose documents and customer payments are in the base currency (rate one) with no negative totals,
  whose payments apply non-negative amounts in cents and name no document twice, and whose write-offs and
  later applications are in cents and booked elsewhere (\<open>ar_reachable\<close>); the code enforces none of this.
\<close>

theorem receivables_match_ledger:
  assumes "ar_reachable L C J Q e A db" and "decimal_laws L"
  shows "account_net db e A
    = sum_where (\<lambda>x. own_invoice e x \<and> iv_journal_entry_id x \<noteq> None) iv_balance_due (invoices db)
      - sum_where (\<lambda>x. own_invoice e x \<and> iv_journal_entry_id x = None) iv_amount_paid (invoices db)"
proof -
  have split: "sum_where (own_invoice e) open_amount xs
      = sum_where (\<lambda>x. own_invoice e x \<and> iv_journal_entry_id x \<noteq> None) iv_balance_due xs
      - sum_where (\<lambda>x. own_invoice e x \<and> iv_journal_entry_id x = None) iv_amount_paid xs" for xs
    by (induction xs) (simp_all add: open_amount_def)
  from ar_reachable_inv [OF assms] show ?thesis by (simp add: receivables_inv_def open_total_def split)
qed

theorem receivables_match_ledger_witness:
  "account_net sales_db2 1 ''1200'' = 1160"
proof -
  from sales_db2_call(2) obtain x where x: "invoices sales_db2 = [x]" "iv_balance_due x = 1160" "iv_journal_entry_id x \<noteq> None"
    by (auto simp: sales_checked_def sales_figures_def)
  have "own_invoice 1 x" using sales_own x(1) by simp
  then show ?thesis
    using receivables_match_ledger [OF sales_db2_reachable std.decimal_laws_axioms] x by simp
qed

text \<open>
  C27: in every state of \<open>ar_reachable\<close> the figures of a document fit together: the balance is the
  total less what was paid and never negative, a draft has neither a payment nor an entry, a credit note
  is never open. The states are those of a tenant that uses the account for receivables only, whose
  documents and customer payments are in the base currency (rate one) with no negative totals, and
  whose payments apply non-negative amounts in cents and name no document twice; the code enforces none
  of this.
\<close>

theorem document_figures_fit:
  assumes "ar_reachable L C J Q e A db" and "decimal_laws L" and "x \<in> set (invoices db)" and "iv_entity_id x = e"
  shows "iv_balance_due x = iv_gross_total x - iv_amount_paid x
    \<and> 0 \<le> iv_balance_due x \<and> iv_balance_due x \<le> iv_gross_total x
    \<and> (iv_status x = IvDraft \<longrightarrow> iv_journal_entry_id x = None \<and> iv_amount_paid x = 0)
    \<and> (iv_type x = TypeCreditNote \<longrightarrow> iv_status x \<noteq> IvDraft \<and> iv_balance_due x = 0)"
proof -
  have "docs_ok db e" using ar_reachable_inv [OF assms(1,2)] by (simp add: receivables_inv_def)
  from docs_okD(2) [OF this assms(3,4)] show ?thesis by (auto simp: doc_ok_def)
qed

theorem document_figures_fit_witness:
  "\<exists>x. invoices sales_db2 = [x] \<and> iv_gross_total x - iv_amount_paid x = 1160 \<and> iv_status x \<noteq> IvDraft"
proof -
  from sales_db2_call(2) obtain x where x: "invoices sales_db2 = [x]" "iv_balance_due x = 1160" "iv_journal_entry_id x \<noteq> None"
    by (auto simp: sales_checked_def sales_figures_def)
  have e: "x \<in> set (invoices sales_db2)" "iv_entity_id x = 1" using sales_own x(1) by (auto simp: own_invoice_def)
  show ?thesis
    using document_figures_fit [OF sales_db2_reachable std.decimal_laws_axioms e] x by auto
qed

end
