(* ===== verification/Payment_Properties.thy ===== *)
theory Payment_Properties
  imports Receivables_Properties
begin

text \<open>
  Properties of bills and payments: a provider may deliver a callback more than once without a second
  payment, a bill is approved only within its rules, and the entry of a bill balances.
\<close>

section \<open>What a payment leaves in the tables\<close>

definition invoice_keys :: "'a sales_db_scheme \<Rightarrow> (uuid \<times> uuid) list" where
  "invoice_keys db = map (\<lambda>x. (iv_id x, iv_entity_id x)) (invoices db)"

lemma find_invoice_keys: "find_invoice db e i = None \<longleftrightarrow> (i, e) \<notin> set (invoice_keys db)"
  by (auto simp: find_invoice_def invoice_keys_def find_None_iff)

lemma posted_tables:
  assumes "create_and_post_in_tx L C E (db :: 'a payments_db_scheme) e req i by' = Inr (en, db')"
  shows "payments db' = payments db" "mpesa_transactions db' = mpesa_transactions db" "invoice_keys db' = invoice_keys db"
  using posting.post_frame(4) [OF assms] by (cases db, cases db', simp add: invoice_keys_def)+

lemma fx_entry_tables:
  assumes "post_fx_gain_loss_entry L C E (db :: 'a payments_db_scheme) e party number d fx doc_fx x ty by' = Inr (j, db')"
  shows "payments db' = payments db \<and> mpesa_transactions db' = mpesa_transactions db \<and> invoice_keys db' = invoice_keys db"
proof -
  obtain req pid en where "create_and_post_in_tx L C E db e req pid by' = Inr (en, db')"
    using assms by (auto simp: post_fx_gain_loss_entry_def create_and_post_def)
  from posted_tables [OF this] show ?thesis by simp
qed

lemma fx_entries_tables:
  fixes db :: "'a payments_db_scheme"
  shows "payments (fst (post_fx_entries L C E e party number d fx ty by' k as db)) = payments db
    \<and> mpesa_transactions (fst (post_fx_entries L C E e party number d fx ty by' k as db)) = mpesa_transactions db
    \<and> invoice_keys (fst (post_fx_entries L C E e party number d fx ty by' k as db)) = invoice_keys db"
proof (induction as arbitrary: k db)
  case (Cons a as)
  show ?case
    using Cons.IH by (auto dest: fx_entry_tables split: sum.splits)
qed simp

lemma pay_loop_tables:
  fixes db :: "'a payments_db_scheme"
  shows "payments (fold (pay_document t ty) as db) = payments db
    \<and> mpesa_transactions (fold (pay_document t ty) as db) = mpesa_transactions db
    \<and> invoice_keys (fold (pay_document t ty) as db) = invoice_keys db"
proof (induction as arbitrary: db)
  case (Cons a as)
  have "payments (pay_document t ty a db) = payments db" "mpesa_transactions (pay_document t ty a db) = mpesa_transactions db"
    "invoice_keys (pay_document t ty a db) = invoice_keys db"
    by (auto simp: pay_document_def update_invoice_def update_bill_def invoice_keys_def split: payment_type.splits)
  with Cons.IH [of "pay_document t ty a db"] show ?case by simp
qed simp

lemma payment_tx_tables:
  fixes db :: "'a payments_db_scheme"
  assumes "payment_tx L C E db e p applied bank wht wht_acc by' = Inr (q, db')"
  shows "py_id p \<notin> py_id ` set (payments db)" "payments db' = payments db @ [q]" "py_id q = py_id p"
    "py_status q = py_status p" "mpesa_transactions db' = mpesa_transactions db" "invoice_keys db' = invoice_keys db"
proof -
  obtain db1 entry db3 where ins: "insert_payment p db = Inr db1"
    and post: "post_payment_journal_entry L C E (fold (pay_document (now E) (py_type p)) (py_applications p) db1) e
        (py_party_id p) (py_number p) (py_date p) (py_currency p) (py_fx_rate p) (py_amount p) applied (py_unapplied p)
        bank (py_type p) wht wht_acc by' = Inr (entry, db3)"
    and q: "q = p\<lparr>py_journal_entry_id := Some entry\<rparr>"
    and db': "db' = update_payment (py_id p) (\<lambda>x. x\<lparr>py_journal_entry_id := Some entry\<rparr>) db3"
    using assms by (auto simp: payment_tx_def Let_def)
  have fresh: "py_id p \<notin> py_id ` set (payments db)" and db1: "db1 = db\<lparr>payments := payments db @ [p]\<rparr>"
    using ins by (auto simp: insert_payment_def split: if_splits)
  obtain req pid en where "create_and_post_in_tx L C E (fold (pay_document (now E) (py_type p)) (py_applications p) db1)
      e req pid by' = Inr (en, db3)"
    using post by (auto simp: post_payment_journal_entry_def)
  note T = posted_tables [OF this]
  note P = pay_loop_tables [where t = "now E" and ty = "py_type p" and as = "py_applications p" and db = db1]
  show "py_id p \<notin> py_id ` set (payments db)" by (rule fresh)
  have "map (\<lambda>x. if py_id x = py_id p then x\<lparr>py_journal_entry_id := Some entry\<rparr> else x) (payments db) = payments db"
    using fresh by (intro map_idI) (metis image_eqI)
  then show "payments db' = payments db @ [q]"
    using T(1) P by (simp add: db' update_payment_def db1 q)
  show "py_id q = py_id p" "py_status q = py_status p" by (simp_all add: q)
  show "mpesa_transactions db' = mpesa_transactions db" "invoice_keys db' = invoice_keys db"
    using T(2,3) P by (simp_all add: db' update_payment_def db1 invoice_keys_def)
qed

lemma recorded_tables:
  fixes db :: "'a payments_db_scheme"
  assumes "record_payment L C E db e req by' = (db', Inr p)"
  shows "py_id p \<notin> py_id ` set (payments db)" "payments db' = payments db @ [p]" "py_status p = PyCompleted"
    "mpesa_transactions db' = mpesa_transactions db" "invoice_keys db' = invoice_keys db"
proof -
  obtain number d db1 apps ccy fx wht applied unapplied bank db2
    where num: "generate_payment_number C db e d = Inr (number, db1)"
    and tx: "payment_tx L C (odds E) db1 e (new_payment (uuids (evens E) 0) e number d ccy fx apps unapplied req)
         applied bank wht (rp_wht_account req) by' = Inr (p, db2)"
    and fx: "db' = fst (post_fx_entries L C (odds (evens E)) e (rp_party_id req) number d fx (rp_type req) by' 0 apps db2)"
    using assms by (cases rule: record_paymentD) (auto split: sum.splits)
  have db1: "payments db1 = payments db" "mpesa_transactions db1 = mpesa_transactions db" "invoice_keys db1 = invoice_keys db"
    using num by (auto simp: generate_payment_number_def next_doc_number_def invoice_keys_def split: option.splits)
  note T = payment_tx_tables [OF tx]
  have db': "payments db' = payments db2 \<and> mpesa_transactions db' = mpesa_transactions db2 \<and> invoice_keys db' = invoice_keys db2"
    unfolding fx by (rule fx_entries_tables)
  show "py_id p \<notin> py_id ` set (payments db)" using T(1,3) db1(1) by simp
  show "payments db' = payments db @ [p]" using T(2) db1(1) db' by simp
  show "py_status p = PyCompleted" using T(4) by (simp add: new_payment_def)
  show "mpesa_transactions db' = mpesa_transactions db" "invoice_keys db' = invoice_keys db"
    using T(5,6) db1(2,3) db' by simp_all
qed

section \<open>Callbacks are delivered at least once\<close>

lemma find_unique:
  assumes "distinct (map f xs)" and "x \<in> set xs" and "P x" and "\<And>y. y \<in> set xs \<Longrightarrow> P y \<Longrightarrow> f y = f x"
  shows "List.find P xs = Some x"
proof (cases "List.find P xs")
  case None
  with assms(2,3) show ?thesis by (auto simp: find_None_iff)
next
  case (Some y)
  from find_SomeD [OF Some] assms(4) have "y \<in> set xs" "f y = f x" by auto
  with keyed_eq [OF assms(1) _ assms(2)] Some show ?thesis by simp
qed

lemma mpesa_recordedD:
  fixes db :: "'a payments_db_scheme"
  assumes ok: "record_mpesa_payment L C E db e i cb = (db', Inr p)"
    and r: "cb_receipt cb = Some r" "r \<noteq> []"
  shows "is_success cb" "cb_amount cb \<noteq> None" "find_invoice db e i \<noteq> None"
    and "(\<exists>q. receipt_payment db e r = Some q \<and> p = payment_from_row q \<and> db' = db)
      \<or> (\<exists>a ph req by' db1. record_payment L C E (claim_receipt db e r a ph i) e req by' = (db1, Inr p)
           \<and> db' = link_receipt e r (py_id p) db1)"
  using ok r
  by (auto simp: record_mpesa_payment_def Let_def split: if_splits option.splits sum.splits prod.splits) blast

lemma recorded_receipt_links:
  fixes db :: "'a payments_db_scheme"
  assumes rec: "record_payment L C E (claim_receipt db e r a ph i) e req by' = (db1, Inr p)"
    and db': "db' = link_receipt e r (py_id p) db1" and r: "r \<noteq> []" and ids: "distinct (map py_id (payments db))"
  shows "receipt_payment db' e r = Some p" "payment_from_row p = p" "payments db' = payments db @ [p]"
proof -
  note T = recorded_tables [OF rec]
  show pays: "payments db' = payments db @ [p]"
    using T(2) by (simp add: db' link_receipt_def claim_receipt_def)
  have uniq: "distinct (map py_id (payments db'))"
    using ids T(1) by (auto simp: pays claim_receipt_def)
  have "\<exists>m \<in> set (mpesa_transactions db1). same_receipt e r m"
    using r unfolding T(4) by (simp add: claim_receipt_def same_receipt_def)
  then obtain m where m: "m \<in> set (mpesa_transactions db1)" "same_receipt e r m" by blast
  define linked where "linked m = (if same_receipt e r m
      then m\<lparr>mt_payment_id := Some (py_id p), mt_reconciled := True\<rparr> else m)" for m
  have rows: "mpesa_transactions db' = map linked (mpesa_transactions db1)"
    using r by (simp add: db' link_receipt_def linked_def)
  have kept: "same_receipt e r (linked m) \<longleftrightarrow> same_receipt e r m" for m
    by (simp add: linked_def same_receipt_def)
  have "\<exists>m \<in> set (mpesa_transactions db'). same_receipt e r m \<and> mt_payment_id m = Some (py_id p)"
  proof (rule bexI)
    show "linked m \<in> set (mpesa_transactions db')" unfolding rows using m(1) by simp
    show "same_receipt e r (linked m) \<and> mt_payment_id (linked m) = Some (py_id p)" using m(2) by (simp add: linked_def same_receipt_def)
  qed
  moreover have "py_id x = py_id p" if "\<exists>m \<in> set (mpesa_transactions db'). same_receipt e r m \<and> mt_payment_id m = Some (py_id x)" for x
    using that unfolding rows by (auto simp: kept) (simp add: linked_def)
  ultimately show "receipt_payment db' e r = Some p"
    unfolding receipt_payment_def by (intro find_unique [OF uniq]) (simp add: pays, blast+)
  show "payment_from_row p = p" using T(3) by (simp add: payment_from_row_def)
qed

text \<open>C28: once a receipt of M-Pesa has led to a payment, every further successful callback with this
  receipt, for whichever invoice, amount and clock, answers with the same payment and changes
  nothing; the first one adds at most that payment.\<close>

theorem mpesa_receipt_pays_once:
  fixes db :: "'a payments_db_scheme"
  assumes ok: "record_mpesa_payment L C E db e i cb = (db', Inr p)"
    and r: "cb_receipt cb = Some r" "r \<noteq> []" and ids: "distinct (map py_id (payments db))"
    and again: "is_success cb2" "cb_amount cb2 \<noteq> None" "cb_receipt cb2 = Some r" "find_invoice db' e i2 \<noteq> None"
  shows "record_mpesa_payment L C E2 db' e i2 cb2 = (db', Inr p)
    \<and> (payments db' = payments db \<or> payments db' = payments db @ [p])"
proof -
  from mpesa_recordedD(4) [OF ok r]
  have "\<exists>q. receipt_payment db' e r = Some q \<and> p = payment_from_row q
      \<and> (payments db' = payments db \<or> payments db' = payments db @ [p])"
  proof
    assume "\<exists>q. receipt_payment db e r = Some q \<and> p = payment_from_row q \<and> db' = db"
    then show ?thesis by blast
  next
    assume "\<exists>a ph req by' db1. record_payment L C E (claim_receipt db e r a ph i) e req by' = (db1, Inr p)
      \<and> db' = link_receipt e r (py_id p) db1"
    then obtain a ph req by' db1 where rec: "record_payment L C E (claim_receipt db e r a ph i) e req by' = (db1, Inr p)"
      and db': "db' = link_receipt e r (py_id p) db1" by blast
    from recorded_receipt_links [OF rec db' r(2) ids] show ?thesis by auto
  qed
  then obtain q where q: "receipt_payment db' e r = Some q" "p = payment_from_row q"
      "payments db' = payments db \<or> payments db' = payments db @ [p]" by blast
  have "record_mpesa_payment L C E2 db' e i2 cb2 = (db', Inr p)"
    using again r(2) q(1,2) by (auto simp: record_mpesa_payment_def Let_def)
  with q(3) show ?thesis by blast
qed

definition draft_invoice :: "uuid \<Rightarrow> invoice" where
  "draft_invoice i = \<lparr>iv_id = i, iv_entity_id = 1, iv_number = ''INV'', iv_type = TypeInvoice, iv_customer_id = 5,
     iv_issue_date = 739255, iv_due_date = 739260, iv_currency = ''KES'', iv_fx_rate = 1, iv_source_estimate = None,
     iv_credit_note_for = None, iv_template_id = None, iv_notes = None, iv_subtotal = 1000, iv_discount_total = 0,
     iv_tax_total = 160, iv_gross_total = 1160, iv_amount_paid = 0, iv_balance_due = 1160, iv_status = IvDraft,
     iv_journal_entry_id = None, iv_sent_at = None, iv_paid_at = None, iv_etims_status = ''not_transmitted'',
     iv_etims_number = None\<rparr>"

definition sales_payment :: record_payment_request where
  "sales_payment = \<lparr>rp_type = CustomerPayment, rp_party_id = 5, rp_date = Some 739256, rp_amount = 500,
     rp_currency = None, rp_fx_rate = None, rp_method = Cash, rp_reference = None, rp_bank_account_id = None,
     rp_applications = [], rp_wht_amount = None, rp_wht_account = None, rp_funding_account = None\<rparr>"

definition callback_sample :: mpesa_callback where
  "callback_sample = \<lparr>cb_result_code = 0, cb_result_desc = ''ok'', cb_amount = Some 500, cb_receipt = Some ''QX1'', cb_phone = None\<rparr>"

definition paid_sample :: payment where
  "paid_sample = (new_payment 7001 1 ''PAY-1'' 739256 ''KES'' 1 [] 0 sales_payment)\<lparr>py_journal_entry_id := Some 7002\<rparr>"

definition called_db :: payments_db where
  "called_db = sales_start\<lparr>invoices := [draft_invoice 1001, draft_invoice 1002], payments := [paid_sample],
     mpesa_transactions := [\<lparr>mt_entity_id = 1, mt_receipt = ''QX1'', mt_amount = 500, mt_phone = [],
       mt_invoice_id = Some 1001, mt_payment_id = Some 7001, mt_reconciled = True\<rparr>]\<rparr>"

theorem mpesa_receipt_pays_once_witness:
  "record_mpesa_payment std_decimal gregorian sample_env2 called_db 1 1002 callback_sample = (called_db, Inr paid_sample)"
proof -
  have docs: "find_invoice called_db 1 1001 \<noteq> None" "find_invoice called_db 1 1002 \<noteq> None"
    by (simp_all add: called_db_def find_invoice_def draft_invoice_def)
  have found: "receipt_payment called_db 1 ''QX1'' = Some paid_sample"
    by (simp add: receipt_payment_def called_db_def same_receipt_def paid_sample_def new_payment_def)
  have same: "payment_from_row paid_sample = paid_sample"
    by (simp add: payment_from_row_def paid_sample_def new_payment_def)
  have cb: "is_success callback_sample" "cb_amount callback_sample \<noteq> None" "cb_receipt callback_sample = Some ''QX1''"
    by (simp_all add: callback_sample_def is_success_def)
  have first: "record_mpesa_payment std_decimal gregorian sample_env called_db 1 1001 callback_sample = (called_db, Inr paid_sample)"
    using docs(1) found same cb by (auto simp: record_mpesa_payment_def Let_def)
  have ids: "distinct (map py_id (payments called_db))" by (simp add: called_db_def)
  from mpesa_receipt_pays_once [OF first cb(3) _ ids cb docs(2)] show ?thesis by simp
qed

section \<open>Approval of bills\<close>

lemma not_over_billed:
  assumes "assert_bill_receivable L db e po = Inr ()" and "l \<in> set (purchase_order_lines db)" and "pol_po_id l = po"
  shows "billed_quantity (billed_lines db e po) (match_key (pol_description l))
    \<le> received_quantity db e po (match_key (pol_description l))"
proof (rule ccontr)
  assume over: "\<not> ?thesis"
  have "match_of_line L db e po l \<in> set (three_way_match L db e po)"
    using assms(2,3) by (simp add: three_way_match_def po_lines_of_def)
  moreover have "ml_status (match_of_line L db e po l) = OverBilled" "ml_note (match_of_line L db e po l) \<noteq> None"
    using over by (simp_all add: match_of_line_def Let_def match_status_of_def)
  ultimately have "List.map_filter ml_note (filter (\<lambda>m. ml_status m = OverBilled) (three_way_match L db e po)) \<noteq> []"
    by (force simp: List.map_filter_def filter_empty_conv)
  with assms(1) show False by (simp add: assert_bill_receivable_def)
qed

text \<open>C29: a bill is approved only from draft or pending, within the limit of the approver's role, when
  every line of its purchase order has received at least what was billed, and while the period of
  its date is not closed; nothing but the state of the bill changes.\<close>

theorem approved_bill_passed_the_gates:
  assumes ok: "approve_bill L E db e req = Inr db'"
  shows "\<exists>b p. find_bill db e (ab_bill_id req) = Some b \<and> bl_status b \<in> {BsDraft, BsPendingApproval}
    \<and> (\<forall>u a m. List.find (\<lambda>u. eu_id u = ab_approved_by req \<and> eu_entity_id u = e) (era_users db) = Some u
        \<and> List.find (same_limit e (eu_role u)) (approval_limits db) = Some a \<and> al_max_amount a = Some m
        \<longrightarrow> bl_gross_total b \<le> m)
    \<and> (\<forall>po l. bl_po_id b = Some po \<and> l \<in> set (purchase_order_lines db) \<and> pol_po_id l = po
        \<longrightarrow> billed_quantity (billed_lines db e po) (match_key (pol_description l))
            \<le> received_quantity db e po (match_key (pol_description l)))
    \<and> period_for_date db e (bl_issue_date b) = Inr p \<and> parsed_status p \<notin> {SoftClosed, HardClosed}
    \<and> db' = update_bill (ab_bill_id req) (\<lambda>x. x\<lparr>bl_status := BsApproved,
          bl_approved_by := Some (ab_approved_by req), bl_approved_at := Some (now E)\<rparr>) db"
proof -
  obtain b p where b: "find_bill db e (ab_bill_id req) = Some b" "bl_status b \<in> {BsDraft, BsPendingApproval}"
    and limit: "assert_within_limit db e (ab_approved_by req) (bl_gross_total b) ''bill'' = Inr ()"
    and po: "(case bl_po_id b of None \<Rightarrow> Inr () | Some po \<Rightarrow> assert_bill_receivable L db e po) = Inr ()"
    and p: "period_for_date db e (bl_issue_date b) = Inr p"
    and last: "(case parsed_status p of
        SoftClosed \<Rightarrow> Inl (PeriodClosedDetailed (fp_name p) ''SoftClosed'' (fp_id p))
      | HardClosed \<Rightarrow> Inl (PeriodClosedDetailed (fp_name p) ''HardClosed'' (fp_id p))
      | _ \<Rightarrow> Inr (update_bill (ab_bill_id req) (\<lambda>x. x\<lparr>bl_status := BsApproved,
          bl_approved_by := Some (ab_approved_by req), bl_approved_at := Some (now E)\<rparr>) db)) = Inr db'"
    using ok by (auto simp: approve_bill_def split: if_splits)
  have db': "parsed_status p \<notin> {SoftClosed, HardClosed}" "db' = update_bill (ab_bill_id req) (\<lambda>x. x\<lparr>bl_status := BsApproved,
      bl_approved_by := Some (ab_approved_by req), bl_approved_at := Some (now E)\<rparr>) db"
    using last by (cases "parsed_status p"; simp)+
  have "bl_gross_total b \<le> m"
    if "List.find (\<lambda>u. eu_id u = ab_approved_by req \<and> eu_entity_id u = e) (era_users db) = Some u"
      "List.find (same_limit e (eu_role u)) (approval_limits db) = Some a" "al_max_amount a = Some m" for u a m
    using limit that by (auto simp: assert_within_limit_def split: if_splits)
  moreover have "billed_quantity (billed_lines db e po) (match_key (pol_description l))
      \<le> received_quantity db e po (match_key (pol_description l))"
    if "bl_po_id b = Some po" "l \<in> set (purchase_order_lines db)" "pol_po_id l = po" for po l
    using not_over_billed [of L db e po l] po that by auto
  ultimately show ?thesis using b p db' by blast
qed

definition bill_sample :: bill where
  "bill_sample = \<lparr>bl_id = 8001, bl_entity_id = 1, bl_number = ''BILL-1'', bl_vendor_id = 6, bl_vendor_invoice_number = None,
     bl_issue_date = 739255, bl_due_date = 739260, bl_currency = ''KES'', bl_fx_rate = 1, bl_notes = None,
     bl_po_id = Some 8100, bl_subtotal = 300, bl_tax_total = 48, bl_wht_amount = 0, bl_gross_total = 348,
     bl_amount_paid = 0, bl_balance_due = 348, bl_status = BsDraft, bl_journal_entry_id = None,
     bl_approved_by = None, bl_approved_at = None\<rparr>"

definition bill_sample_line :: invoice_line where
  "bill_sample_line = \<lparr>il_id = 8002, il_product_id = None, il_description = ''P '', il_quantity = 3, il_unit_price = 100,
     il_discount_percent = 0, il_account_code = ''7900'', il_vat_treatment = Standard16, il_line_total = 300,
     il_vat_amount = 48, il_dimensions = []\<rparr>"

definition bill_db :: payments_db where
  "bill_db = sales_start\<lparr>bills := [bill_sample], bill_lines := [\<lparr>blr_bill_id = 8001, blr_line = bill_sample_line\<rparr>],
     purchase_order_lines := [\<lparr>pol_po_id = 8100, pol_description = ''p'', pol_quantity = 5, pol_uom = ''ream'',
       pol_unit_price = 100, pol_account_code = None, pol_line_total = 500, pol_line_no = 0\<rparr>],
     goods_receipts := [\<lparr>gr_id = 8200, gr_entity_id = 1, gr_number = ''GRN-1'', gr_po_id = 8100, gr_date = 739254,
       gr_received_by = 9, gr_notes = None\<rparr>],
     goods_receipt_lines := [\<lparr>grl_grn_id = 8200, grl_po_line_id = None, grl_description = ''P'', grl_quantity = 4\<rparr>],
     era_users := [\<lparr>eu_id = 9, eu_entity_id = 1, eu_role = ''manager''\<rparr>],
     approval_limits := [\<lparr>al_entity_id = 1, al_role = ''manager'', al_max_amount = Some 1000\<rparr>]\<rparr>"

definition bill_approval :: approve_bill_request where
  "bill_approval = \<lparr>ab_bill_id = 8001, ab_approved_by = 9\<rparr>"

lemma bill_sample_keys: "match_key ''p'' = ''p''" "match_key ''P '' = ''p''" "match_key ''P'' = ''p''"
  by code_simp+

lemma bill_sample_received: "assert_bill_receivable std_decimal bill_db 1 8100 = Inr ()"
proof -
  have "received_quantity bill_db 1 8100 ''p'' = 4" "billed_quantity (billed_lines bill_db 1 8100) ''p'' = 3"
    by (simp_all add: received_quantity_def billed_quantity_def billed_lines_def bill_db_def bill_sample_def
        bill_sample_line_def bill_sample_keys)
  then have "ml_status m \<noteq> OverBilled" if "m \<in> set (three_way_match std_decimal bill_db 1 8100)" for m
    using that by (auto simp: three_way_match_def po_lines_of_def bill_db_def match_of_line_def match_status_of_def
        bill_sample_keys Let_def)
  then have none: "filter (\<lambda>m. ml_status m = OverBilled) (three_way_match std_decimal bill_db 1 8100) = []"
    by (simp add: filter_empty_conv)
  show ?thesis unfolding assert_bill_receivable_def none by (simp add: List.map_filter_def)
qed

theorem approved_bill_passed_the_gates_witness:
  "\<exists>db'. approve_bill std_decimal sample_env bill_db 1 bill_approval = Inr db' \<and> map bl_status (bills db') = [BsApproved]"
proof -
  have b: "find_bill bill_db 1 8001 = Some bill_sample" by (simp add: find_bill_def bill_db_def bill_sample_def)
  have limit: "assert_within_limit bill_db 1 9 348 ''bill'' = Inr ()"
    by (simp add: assert_within_limit_def bill_db_def same_limit_def)
  have period: "period_for_date bill_db 1 739255 = Inr (sample_period 1 739252 739282 ''open'')"
    by (simp add: period_for_date_def bill_db_def sales_start_def sample_period_def)
  have "parsed_status (sample_period 1 739252 739282 ''open'') = Open" by code_simp
  then obtain db' where ok: "approve_bill std_decimal sample_env bill_db 1 bill_approval = Inr db'"
    using b limit period bill_sample_received by (auto simp: approve_bill_def bill_approval_def bill_sample_def)
  from approved_bill_passed_the_gates [OF ok]
  have "db' = update_bill 8001 (\<lambda>x. x\<lparr>bl_status := BsApproved, bl_approved_by := Some 9, bl_approved_at := Some 0\<rparr>) bill_db"
    by (auto simp: bill_approval_def sample_env_def)
  with ok show ?thesis by (simp add: update_bill_def bill_db_def bill_sample_def)
qed

end
