(* ===== verification/Months.thy ===== *)
theory Months
  imports Calendar
begin

text \<open>
  Months as intervals of days. The runs of depreciation and amortisation step from month to month;
  the locale \<open>calendar_days\<close> adds to the laws of the calendar that every day of the supported range
  lies in exactly one month. The bound on the days is that of the years for which the calendar
  promises the first of every month.
\<close>

definition next_month_first :: "calendar \<Rightarrow> naive_date \<Rightarrow> naive_date option" where
  "next_month_first C d =
     (if month C d = 12 then from_ymd_opt C (year C d + 1) 1 1
      else from_ymd_opt C (year C d) (month C d + 1) 1)"

definition month_after :: "int \<Rightarrow> nat \<Rightarrow> int \<times> nat" where
  "month_after y m = (if m = 12 then (y + 1, 1) else (y, m + 1))"

definition in_month :: "calendar \<Rightarrow> int \<Rightarrow> nat \<Rightarrow> naive_date \<Rightarrow> bool" where
  "in_month C y m t \<longleftrightarrow>
     (\<exists>a b. from_ymd_opt C y m 1 = Some a \<and> from_ymd_opt C (fst (month_after y m)) (snd (month_after y m)) 1 = Some b
       \<and> a \<le> t \<and> t < b)"

definition last_day :: naive_date where
  "last_day = 90000000"

locale calendar_days = calendar_laws +
  assumes month_exists: "0 < t \<Longrightarrow> t < last_day \<Longrightarrow> \<exists>y m. in_month C y m t"
    and same_month: "in_month C y m t \<Longrightarrow> year C t = y \<and> month C t = m"
begin

lemma next_month_first_eq:
  "in_month C y m t \<Longrightarrow>
    next_month_first C t = from_ymd_opt C (fst (month_after y m)) (snd (month_after y m)) 1"
  using same_month [of y m t] by (simp add: next_month_first_def month_after_def)

lemma next_month_first_later:
  assumes "0 < t" and "t < last_day"
  obtains b where "next_month_first C t = Some b" and "t < b"
proof -
  from month_exists [OF assms] obtain y m where m: "in_month C y m t" by blast
  with next_month_first_eq [OF m] that show ?thesis by (auto simp: in_month_def)
qed

text \<open>The days up to the end of a month have the same next month.\<close>

lemma next_month_first_stable:
  assumes "0 < t" and "t < last_day" and "next_month_first C t = Some b" and "t \<le> s" and "s < b"
  shows "next_month_first C s = Some b"
proof -
  from month_exists [OF assms(1,2)] obtain y m where m: "in_month C y m t" by blast
  note b = next_month_first_eq [OF m]
  with m assms(3-5) have "in_month C y m s" by (force simp: in_month_def)
  with b assms(3) next_month_first_eq [of y m s] show ?thesis by simp
qed

end

section \<open>The Gregorian calendar has these laws\<close>

lemma year_of_day:
  assumes "0 < t"
  shows "\<exists>y. 1 \<le> y \<and> days_before_year y < t \<and> t \<le> days_before_year (y + 1)"
proof -
  define P where "P n \<longleftrightarrow> t \<le> days_before_year (1 + int n)" for n
  have "400 * t \<le> 400 * days_before_year (1 + int (nat t))"
    using days_before_year_bounds(2) [of "1 + int (nat t)"] assms by simp
  then have "P (nat t)" by (simp add: P_def)
  define n where "n = (LEAST n. P n)"
  have n: "P n" unfolding n_def using \<open>P (nat t)\<close> by (rule LeastI)
  have "\<not> P 0" using assms by (simp add: P_def days_before_year_def)
  with n obtain k where k: "n = Suc k" by (cases n) auto
  have "\<not> P k" using not_less_Least [of k P] k unfolding n_def by simp
  with n show ?thesis
    by (intro exI [of _ "int n"]) (simp add: P_def k add.commute)
qed

lemma month_of_day:
  assumes "0 < r"
  shows "\<exists>m. 1 \<le> m \<and> m \<le> 12 \<and> days_before_month y m < r \<and> (m < 12 \<longrightarrow> r \<le> days_before_month y (m + 1))"
proof -
  define M where "M = {m. 1 \<le> m \<and> m \<le> 12 \<and> days_before_month y m < r}"
  have M: "finite M" "1 \<in> M"
    using assms by (auto simp: M_def days_before_month_def intro: finite_subset [of _ "{..12}"])
  then have "Max M \<in> M" by (intro Max_in) auto
  moreover have "r \<le> days_before_month y (Max M + 1)" if "Max M < 12"
    using Max_ge [OF M(1), of "Max M + 1"] that by (fastforce simp: M_def)
  ultimately show ?thesis by (intro exI [of _ "Max M"]) (auto simp: M_def)
qed

lemma gregorian_month_eq:
  assumes y: "days_before_year y < t" "t \<le> days_before_year (y + 1)" and m: "1 \<le> m" "m \<le> 12"
    and lo: "days_before_month y m < t - days_before_year y"
    and hi: "m < 12 \<longrightarrow> t - days_before_year y \<le> days_before_month y (m + 1)"
  shows "gregorian_month t = m"
proof -
  define r where "r = t - days_before_year y"
  have iff: "days_before_month y k < r \<longleftrightarrow> k \<le> m" if "1 \<le> k" "k \<le> 12" for k
  proof
    assume "k \<le> m"
    with lo days_before_month_less [of k m y] that m show "days_before_month y k < r"
      by (cases "k = m") (auto simp: r_def)
  next
    assume k: "days_before_month y k < r"
    show "k \<le> m"
    proof (rule ccontr)
      assume "\<not> k \<le> m"
      with hi that k days_before_month_less [of "m + 1" k y] show False
        by (cases "k = m + 1") (auto simp: r_def)
    qed
  qed
  have "filter (\<lambda>k. days_before_month y k < r) [1..<13] = filter (\<lambda>k. k \<le> m) [1..<13]"
    by (rule filter_cong) (auto simp: iff)
  moreover have "length (filter (\<lambda>k. k \<le> m) [1..<13]) = m"
    using month_cases [OF m] by (auto simp: upt_rec)
  ultimately show ?thesis
    by (simp add: gregorian_month_def Let_def gregorian_year_first [OF y] r_def)
qed

lemma gregorian_in_month:
  "in_month gregorian y m t \<longleftrightarrow>
    \<bar>y\<bar> < 262000 \<and> (m = 12 \<longrightarrow> \<bar>y + 1\<bar> < 262000) \<and> 1 \<le> m \<and> m \<le> 12
    \<and> days_before_month y m < t - days_before_year y
    \<and> (m < 12 \<longrightarrow> t - days_before_year y \<le> days_before_month y (m + 1)) \<and> t \<le> days_before_year (y + 1)"
  (is "?l \<longleftrightarrow> ?r")
proof -
  have len: "1 \<le> month_lengths z ! (k - 1)" if "1 \<le> k" "k \<le> 12" for z k
    using month_lengths_ge [OF that, of z] by simp
  have first: "gregorian_from_ymd z k 1 = (if \<bar>z\<bar> < 262000 \<and> 1 \<le> k \<and> k \<le> 12
      then Some (days_before_year z + days_before_month z k + 1) else None)" for z k
    using len [of k z] by (auto simp: gregorian_from_ymd_def)
  show ?thesis
  proof (cases "m = 12")
    case True
    have "days_before_month (y + 1) 1 = 0" by (simp add: days_before_month_def)
    with True show ?thesis by (auto simp: in_month_def month_after_def first [unfolded One_nat_def])
  next
    case False
    have "t \<le> days_before_year (y + 1)"
      if "m < 12" "1 \<le> m" "t - days_before_year y \<le> days_before_month y (m + 1)"
      using that days_before_month_bound [of "m + 1" y] year_length [of y] by auto
    with False show ?thesis by (auto simp: in_month_def month_after_def first [unfolded One_nat_def])
  qed
qed

interpretation greg_days: calendar_days gregorian
proof
  fix t :: naive_date and y :: int and m :: nat
  show "\<exists>y m. in_month gregorian y m t" if t: "0 < t" "t < last_day"
  proof -
    from year_of_day [OF t(1)] obtain y where y: "1 \<le> y" "days_before_year y < t" "t \<le> days_before_year (y + 1)"
      by blast
    from month_of_day [of "t - days_before_year y" y] y(2) obtain m where m: "1 \<le> m" "m \<le> 12"
      "days_before_month y m < t - days_before_year y"
      "m < 12 \<longrightarrow> t - days_before_year y \<le> days_before_month y (m + 1)" by auto
    have "y < 261000"
      using days_before_year_bounds(2) [of y] y(2) t(2) by (simp add: last_day_def)
    with y m have "in_month gregorian y m t" by (simp add: gregorian_in_month)
    then show ?thesis by blast
  qed
  show "year gregorian t = y \<and> month gregorian t = m" if "in_month gregorian y m t"
  proof -
    have m: "1 \<le> m" "m \<le> 12" "days_before_month y m < t - days_before_year y"
      "m < 12 \<longrightarrow> t - days_before_year y \<le> days_before_month y (m + 1)" "t \<le> days_before_year (y + 1)"
      using that by (simp_all add: gregorian_in_month)
    with days_before_month_bound [OF m(1,2), of y] have y: "days_before_year y < t" by linarith
    from gregorian_year_first [OF y m(5)] gregorian_month_eq [OF y m(5) m(1-4)] show ?thesis by simp
  qed
qed

end
