(* ===== verification/Assets.thy ===== *)
theory Assets
  imports Posting Months
begin

text \<open>
  Fixed assets: \<^verbatim>\<open>zavora-erp-core/src/assets/mod.rs\<close> and \<^verbatim>\<open>services/assets.rs\<close>. The state extends
  the ledger by the register \<open>fixed_assets\<close>. A run of depreciation walks every active asset month by
  month up to a date; the walk of one asset is \<open>depreciate_months\<close>, whose result \<open>None\<close> stands for a
  call that does not return (a loop without end, or a panic of an \<open>unwrap\<close> on a date the calendar
  does not have).
\<close>

section \<open>The register\<close>

datatype asset_category =
    LandAndBuildings | MotorVehicles | PlantAndMachinery | FurnitureAndFittings | ComputerEquipment
  | SoftwareAsset | OtherAsset string

datatype kra_asset_class = Class1 | Class2 | Class3 | Class4

datatype depreciation_method = StraightLine | DecliningBalance decimal | KraTax kra_asset_class

fun kra_rate :: "kra_asset_class \<Rightarrow> decimal" where
  "kra_rate Class1 = 375 / 1000"
| "kra_rate Class2 = 30 / 100"
| "kra_rate Class3 = 25 / 100"
| "kra_rate Class4 = 125 / 1000"

datatype asset_status = AssetActive | FullyDepreciated | Disposed | AssetWrittenOff

record asset_card =
  fa_id :: uuid
  fa_entity_id :: uuid
  fa_number :: string
  fa_description :: string
  fa_category :: asset_category
  fa_acquisition_date :: naive_date
  fa_cost :: decimal
  fa_residual :: decimal
  fa_life_months :: "32 word"
  fa_method :: depreciation_method
  fa_gl_asset :: account_code
  fa_gl_accum :: account_code
  fa_gl_expense :: account_code

record asset_row = asset_card +
  fa_accumulated :: decimal
  fa_nbv :: decimal
  fa_status :: asset_status
  fa_through :: "naive_date option"

record assets_db = ledger_db +
  fixed_assets :: "asset_row list"

definition monthly_depreciation :: "decimal_lib \<Rightarrow> 'a asset_row_scheme \<Rightarrow> decimal" where
  "monthly_depreciation L a =
     (case fa_method a of
        StraightLine \<Rightarrow>
          if fa_life_months a = 0 then 0
          else round_dp L (div_dec L (fa_cost a - fa_residual a) (of_nat (unat (fa_life_months a)))) 2
      | DecliningBalance r \<Rightarrow> round_dp L (div_dec L (div_dec L (fa_nbv a * r) 100) 12) 2
      | KraTax c \<Rightarrow> round_dp L (div_dec L (fa_nbv a * kra_rate c) 12) 2)"

definition is_fully_depreciated :: "'a asset_row_scheme \<Rightarrow> bool" where
  "is_fully_depreciated a \<longleftrightarrow> fa_nbv a \<le> fa_residual a"

section \<open>Acquisition\<close>

record create_asset_request =
  ca_description :: string
  ca_category :: asset_category
  ca_acquisition_date :: naive_date
  ca_cost :: decimal
  ca_residual :: "decimal option"
  ca_life_months :: "32 word option"
  ca_method :: depreciation_method
  ca_gl_asset :: "account_code option"
  ca_gl_accum :: "account_code option"
  ca_gl_expense :: "account_code option"
  ca_funding :: "account_code option"

text \<open>The number is drawn from the first field (32 bits) of the fresh id.\<close>

definition asset_number :: "uuid \<Rightarrow> string" where
  "asset_number i = ''FA-'' @ pad_zero 6 (show_nat ((i div 2 ^ 96) mod 1000000))"

definition new_asset :: "posting_setup \<Rightarrow> uuid \<Rightarrow> uuid \<Rightarrow> create_asset_request \<Rightarrow> asset_row" where
  "new_asset ps i e req =
     \<lparr>fa_id = i, fa_entity_id = e, fa_number = asset_number i, fa_description = ca_description req,
      fa_category = ca_category req, fa_acquisition_date = ca_acquisition_date req, fa_cost = ca_cost req,
      fa_residual = unwrap_or (ca_residual req) 0, fa_life_months = unwrap_or (ca_life_months req) 60,
      fa_method = ca_method req, fa_gl_asset = unwrap_or (ca_gl_asset req) (fixed_asset ps),
      fa_gl_accum = unwrap_or (ca_gl_accum req) (accumulated_depreciation ps),
      fa_gl_expense = unwrap_or (ca_gl_expense req) (depreciation_expense ps),
      fa_accumulated = 0, fa_nbv = ca_cost req, fa_status = AssetActive, fa_through = None\<rparr>"

definition capitalisation_entry :: "currency_code \<Rightarrow> asset_row \<Rightarrow> account_code \<Rightarrow> journal_entry_request" where
  "capitalisation_entry base a funding =
     \<lparr>rq_date = fa_acquisition_date a, rq_source = FixedAsset, rq_source_id = Some (fa_id a),
      rq_reference = fa_number a, rq_description = ''Capitalise '' @ fa_number a @ '' - '' @ fa_description a,
      rq_lines =
        [dr_line base (Some 1) (Some (''Asset cost: '' @ fa_description a)) (fa_gl_asset a) (fa_cost a),
         cr_line base (Some 1) (Some (''Funding for '' @ fa_number a)) funding (fa_cost a)],
      rq_post_immediately = True\<rparr>"

definition insert_asset :: "asset_row \<Rightarrow> 'a assets_db_scheme \<Rightarrow> 'a assets_db_scheme erp_result" where
  "insert_asset a db =
     (if \<exists>x \<in> set (fixed_assets db). fa_id x = fa_id a \<or> (fa_entity_id x = fa_entity_id a \<and> fa_number x = fa_number a)
      then Inl (Database ''duplicate key value violates unique constraint'')
      else Inr (db\<lparr>fixed_assets := fixed_assets db @ [a]\<rparr>))"

definition create_asset ::
    "decimal_lib \<Rightarrow> calendar \<Rightarrow> environment \<Rightarrow> 'a assets_db_scheme \<Rightarrow> uuid \<Rightarrow> create_asset_request
      \<Rightarrow> agent_or_user_id \<Rightarrow> (uuid \<times> 'a assets_db_scheme) erp_result" where
  "create_asset L C E db e req by' =
     (let a = new_asset (posting (configs db e)) (uuids (evens E) 0) e req in
      and_then (insert_asset a db) (\<lambda>db1.
      case non_blank (ca_funding req) of
        None \<Rightarrow> Inr (fa_id a, db1)
      | Some funding \<Rightarrow>
          if funding = fa_gl_asset a
          then Inl (ValidationFailed ''Funding account must differ from the asset account'')
          else and_then (period_for_date db e (ca_acquisition_date req)) (\<lambda>p.
            and_then (create_and_post_in_tx L C (odds E) db1 e
                (capitalisation_entry (base_currency (configs db e)) a funding) (fp_id p) by')
              (\<lambda>(entry, db2). Inr (fa_id a, db2)))))"

section \<open>Depreciation\<close>

definition month_end :: "calendar \<Rightarrow> naive_date \<Rightarrow> naive_date option" where
  "month_end C d = map_option (\<lambda>t. t - 1) (next_month_first C d)"

definition next_month_start :: "calendar \<Rightarrow> naive_date \<Rightarrow> naive_date option" where
  "next_month_start C d = map_option (\<lambda>t. t + 1) (month_end C d)"

text \<open>The lines of a run, by fiscal period in the order of their first use.\<close>

type_synonym depreciation_buckets = "(uuid \<times> naive_date \<times> journal_line_request list) list"

fun add_to_bucket :: "uuid \<Rightarrow> naive_date \<Rightarrow> journal_line_request list \<Rightarrow> depreciation_buckets \<Rightarrow> depreciation_buckets" where
  "add_to_bucket i d ls [] = [(i, d, ls)]"
| "add_to_bucket i d ls ((j, d', ls') # bs) =
     (if j = i then (j, d', ls' @ ls) # bs else (j, d', ls') # add_to_bucket i d ls bs)"

definition depreciation_lines :: "currency_code \<Rightarrow> 'a asset_row_scheme \<Rightarrow> decimal \<Rightarrow> journal_line_request list" where
  "depreciation_lines base a monthly =
     [dr_line base (Some 1) (Some (''Depreciation - '' @ fa_description a @ '' ('' @ fa_number a @ '')'')) (fa_gl_expense a) monthly,
      cr_line base (Some 1) (Some (''Accum depr - '' @ fa_description a @ '' ('' @ fa_number a @ '')'')) (fa_gl_accum a) monthly]"

record depreciation_walk =
  dw_cursor :: naive_date
  dw_accum :: decimal
  dw_nbv :: decimal
  dw_last :: "naive_date option"
  dw_buckets :: depreciation_buckets

text \<open>The amount of a month: what the method gives for the running book value, at most down to the
  residual value.\<close>

definition month_amount :: "decimal_lib \<Rightarrow> asset_row \<Rightarrow> decimal \<Rightarrow> decimal" where
  "month_amount L a nbv = min (monthly_depreciation L (a\<lparr>fa_nbv := nbv\<rparr>)) (nbv - fa_residual a)"

text \<open>The fiscal period a month is booked into, if it takes postings.\<close>

definition open_period :: "'a period_db_scheme \<Rightarrow> uuid \<Rightarrow> naive_date \<Rightarrow> fiscal_period option" where
  "open_period db e d =
     (case period_for_date db e d of Inl _ \<Rightarrow> None | Inr p \<Rightarrow> if allows_posting p then Some p else None)"

text \<open>One test of the loop: \<open>None\<close> where it stops, else the period and the amount of the month.\<close>

definition month_due ::
    "decimal_lib \<Rightarrow> 'a period_db_scheme \<Rightarrow> uuid \<Rightarrow> naive_date \<Rightarrow> asset_row \<Rightarrow> naive_date \<Rightarrow> decimal
      \<Rightarrow> (fiscal_period \<times> decimal) option" where
  "month_due L db e target a m_end nbv =
     (if \<not> m_end \<le> target \<or> nbv \<le> fa_residual a \<or> month_amount L a nbv \<le> 0 then None
      else map_option (\<lambda>p. (p, month_amount L a nbv)) (open_period db e m_end))"

text \<open>The body of the loop: book the month and move to the next one.\<close>

definition book_month ::
    "currency_code \<Rightarrow> asset_row \<Rightarrow> naive_date \<Rightarrow> naive_date \<Rightarrow> fiscal_period \<Rightarrow> decimal \<Rightarrow> depreciation_walk
      \<Rightarrow> depreciation_walk" where
  "book_month base a m_end c p monthly w =
     \<lparr>dw_cursor = c, dw_accum = dw_accum w + monthly, dw_nbv = dw_nbv w - monthly, dw_last = Some m_end,
      dw_buckets = add_to_bucket (fp_id p) (end_date p) (depreciation_lines base a monthly) (dw_buckets w)\<rparr>"

partial_function (option) depreciate_months ::
    "decimal_lib \<Rightarrow> calendar \<Rightarrow> 'a period_db_scheme \<Rightarrow> uuid \<Rightarrow> currency_code \<Rightarrow> naive_date \<Rightarrow> asset_row
      \<Rightarrow> depreciation_walk \<Rightarrow> depreciation_walk option" where
  "depreciate_months L C db e base target a w =
     Option.bind (month_end C (dw_cursor w)) (\<lambda>m_end.
       case month_due L db e target a m_end (dw_nbv w) of
         None \<Rightarrow> Some w
       | Some (p, monthly) \<Rightarrow>
           Option.bind (next_month_start C (dw_cursor w)) (\<lambda>c.
             depreciate_months L C db e base target a (book_month base a m_end c p monthly w)))"

text \<open>The first month to book: the one after the last booked, else that of the acquisition.\<close>

definition first_cursor :: "calendar \<Rightarrow> 'a asset_row_scheme \<Rightarrow> naive_date option" where
  "first_cursor C a = (case fa_through a of Some d \<Rightarrow> next_month_start C d | None \<Rightarrow> Some (fa_acquisition_date a))"

definition walk_asset ::
    "decimal_lib \<Rightarrow> calendar \<Rightarrow> 'a period_db_scheme \<Rightarrow> uuid \<Rightarrow> currency_code \<Rightarrow> naive_date \<Rightarrow> asset_row
      \<Rightarrow> depreciation_buckets \<Rightarrow> depreciation_walk option" where
  "walk_asset L C db e base target a bs =
     Option.bind (first_cursor C a) (\<lambda>c.
       depreciate_months L C db e base target a
         \<lparr>dw_cursor = c, dw_accum = fa_accumulated a, dw_nbv = fa_nbv a, dw_last = None, dw_buckets = bs\<rparr>)"

text \<open>The update a walked asset asks for.\<close>

definition walked :: "depreciation_walk \<Rightarrow> naive_date \<Rightarrow> asset_row \<Rightarrow> asset_row" where
  "walked w through a = a\<lparr>fa_accumulated := dw_accum w, fa_nbv := dw_nbv w,
     fa_status := (if dw_nbv w \<le> fa_residual a then FullyDepreciated else AssetActive), fa_through := Some through\<rparr>"

fun walk_assets ::
    "decimal_lib \<Rightarrow> calendar \<Rightarrow> 'a period_db_scheme \<Rightarrow> uuid \<Rightarrow> currency_code \<Rightarrow> naive_date \<Rightarrow> asset_row list
      \<Rightarrow> depreciation_buckets \<Rightarrow> (depreciation_buckets \<times> asset_row list) option" where
  "walk_assets L C db e base target [] bs = Some (bs, [])"
| "walk_assets L C db e base target (a # as) bs =
     Option.bind (walk_asset L C db e base target a bs) (\<lambda>w.
       Option.bind (walk_assets L C db e base target as (dw_buckets w)) (\<lambda>(bs', us).
         Some (bs', (case dw_last w of None \<Rightarrow> us | Some through \<Rightarrow> walked w through a # us))))"

definition depreciation_entry :: "naive_date \<Rightarrow> journal_line_request list \<Rightarrow> journal_entry_request" where
  "depreciation_entry d ls =
     \<lparr>rq_date = d, rq_source = Depreciation, rq_source_id = None, rq_reference = ''DEPR-'',
      rq_description = ''Depreciation for '', rq_lines = ls, rq_post_immediately = True\<rparr>"

definition post_bucket ::
    "decimal_lib \<Rightarrow> calendar \<Rightarrow> environment \<Rightarrow> uuid \<Rightarrow> agent_or_user_id \<Rightarrow> nat \<times> uuid \<times> naive_date \<times> journal_line_request list
      \<Rightarrow> 'a ledger_db_scheme \<Rightarrow> 'a ledger_db_scheme erp_result" where
  "post_bucket L C E e by' = (\<lambda>(k, i, d, ls) db.
     and_then (create_and_post_in_tx L C (branch_env E k) db e (depreciation_entry d ls) i by') (\<lambda>(entry, db1). Inr db1))"

text \<open>\<open>UPDATE fixed_assets ... WHERE id = $5\<close>.\<close>

definition update_assets :: "asset_row list \<Rightarrow> asset_row list \<Rightarrow> asset_row list" where
  "update_assets us xs = fold (\<lambda>u. map (\<lambda>x. if fa_id x = fa_id u
     then x\<lparr>fa_accumulated := fa_accumulated u, fa_nbv := fa_nbv u, fa_status := fa_status u, fa_through := fa_through u\<rparr>
     else x)) us xs"

definition due_assets :: "'a assets_db_scheme \<Rightarrow> uuid \<Rightarrow> asset_row list" where
  "due_assets db e = filter (\<lambda>a. fa_entity_id a = e \<and> fa_status a = AssetActive \<and> fa_residual a < fa_nbv a) (fixed_assets db)"

definition run_depreciation ::
    "decimal_lib \<Rightarrow> calendar \<Rightarrow> environment \<Rightarrow> 'a assets_db_scheme \<Rightarrow> uuid \<Rightarrow> naive_date \<Rightarrow> agent_or_user_id
      \<Rightarrow> (uuid list \<times> 'a assets_db_scheme) erp_result option" where
  "run_depreciation L C E db e as_of by' =
     Option.bind (month_end C as_of) (\<lambda>target.
     Option.bind (walk_assets L C db e (base_currency (configs db e)) target (due_assets db e) []) (\<lambda>(bs, us).
       if bs = [] then Some (Inr ([], db))
       else Some (and_then (try_fold (post_bucket L C E e by') (enumerate 0 bs) db) (\<lambda>db1.
         Inr (map fa_id us, db1\<lparr>fixed_assets := update_assets us (fixed_assets db1)\<rparr>)))))"

end
