(* ===== verification/Assets_Correct.thy ===== *)
theory Assets_Correct
  imports Assets
begin

text \<open>
  The run of depreciation: the walk of an asset ends (every round moves the cursor past the end of
  a month, up to the target), what it does to the book values, and what the whole run does to the
  register and to the ledger. \<open>depreciate_months_invariant\<close> and \<open>walk_assets_invariant\<close> are the
  two rules the properties use.
\<close>

section \<open>Ends of months\<close>

context calendar_days
begin

lemma month_end_days:
  assumes "0 < t" and "t < last_day"
  obtains m where "month_end C t = Some m" and "t \<le> m" and "next_month_start C t = Some (m + 1)"
proof -
  obtain b where "next_month_first C t = Some b" "t < b"
    using next_month_first_later [OF assms] by blast
  then show thesis by (intro that [of "b - 1"]) (simp_all add: month_end_def next_month_start_def)
qed

lemma month_end_last:
  assumes "0 < t" and "t < last_day" and "month_end C t = Some m"
  shows "month_end C m = Some m" "t \<le> m"
proof -
  from assms(3) have b: "next_month_first C t = Some (m + 1)" by (auto simp: month_end_def)
  moreover obtain b where "next_month_first C t = Some b" "t < b"
    using next_month_first_later [OF assms(1,2)] by blast
  ultimately show "t \<le> m" by simp
  from next_month_first_stable [OF assms(1,2) b this] show "month_end C m = Some m"
    by (simp add: month_end_def)
qed

end

lemma month_end_next: "month_end C t = Some m \<Longrightarrow> next_month_start C t = Some (m + 1)"
  by (simp add: next_month_start_def)

section \<open>The walk of one asset\<close>

text \<open>The walk stops at a cursor whose month is not due.\<close>

definition stopped_at ::
    "decimal_lib \<Rightarrow> calendar \<Rightarrow> 'a period_db_scheme \<Rightarrow> uuid \<Rightarrow> naive_date \<Rightarrow> asset_row \<Rightarrow> naive_date \<Rightarrow> decimal \<Rightarrow> bool" where
  "stopped_at L C db e target a c nbv \<longleftrightarrow>
     (\<exists>m. month_end C c = Some m \<and> month_due L db e target a m nbv = None)"

lemma depreciate_months_stopped:
  "stopped_at L C db e target a (dw_cursor w) (dw_nbv w) \<Longrightarrow> depreciate_months L C db e base target a w = Some w"
  by (subst depreciate_months.simps) (auto simp: stopped_at_def)

lemma depreciate_months_invariant:
  assumes "depreciate_months L C db e base target a w = Some w'" and "I w"
    and "\<And>w m_end p monthly. I w \<Longrightarrow> month_end C (dw_cursor w) = Some m_end \<Longrightarrow>
      month_due L db e target a m_end (dw_nbv w) = Some (p, monthly) \<Longrightarrow>
      I (book_month base a m_end (m_end + 1) p monthly w)"
  shows "I w' \<and> stopped_at L C db e target a (dw_cursor w') (dw_nbv w')"
  using assms
proof (induction rule: depreciate_months.raw_induct [rotated 1, consumes 1, case_names step])
  case (step f L C db e base target a w w')
  then obtain m where m: "month_end C (dw_cursor w) = Some m" by (auto simp: bind_eq_Some_conv)
  show ?case
  proof (cases "month_due L db e target a m (dw_nbv w)")
    case None
    with step m show ?thesis by (auto simp: stopped_at_def)
  next
    case (Some x)
    obtain p monthly where x: "x = (p, monthly)" by force
    from step(2) m Some x have "f L C db e base target a (book_month base a m (m + 1) p monthly w) = Some w'"
      by (simp add: month_end_next)
    then show ?thesis
      by (rule step(1)) (rule step(4) [OF step(3) m Some [unfolded x]], rule step(4))
  qed
qed

lemma month_dueD:
  assumes "month_due L db e target a m_end nbv = Some (p, monthly)"
  shows "m_end \<le> target" "fa_residual a < nbv" "monthly = month_amount L a nbv" "0 < monthly"
    "monthly \<le> nbv - fa_residual a" "open_period db e m_end = Some p"
  using assms by (auto simp: month_due_def month_amount_def split: if_splits)

lemma open_periodD: "open_period db e d = Some p \<Longrightarrow> period_for_date db e d = Inr p \<and> allows_posting p"
  by (auto simp: open_period_def split: sum.splits if_splits)

lemma depreciate_months_returns:
  assumes cal: "calendar_days C" and target: "target + 1 < last_day"
    and "0 < dw_cursor w" and "dw_cursor w < last_day"
  shows "\<exists>w'. depreciate_months L C db e base target a w = Some w'"
  using assms(3,4)
proof (induction "nat (target + 1 - dw_cursor w)" arbitrary: w rule: less_induct)
  case less
  obtain m where m: "month_end C (dw_cursor w) = Some m" "dw_cursor w \<le> m"
    using calendar_days.month_end_days [OF cal less.prems] by blast
  show ?case
  proof (cases "month_due L db e target a m (dw_nbv w)")
    case None
    with m have "stopped_at L C db e target a (dw_cursor w) (dw_nbv w)" by (auto simp: stopped_at_def)
    then show ?thesis using depreciate_months_stopped by blast
  next
    case (Some x)
    obtain p monthly where x: "x = (p, monthly)" by force
    have "m \<le> target" using month_dueD(1) Some x by blast
    then have "\<exists>w'. depreciate_months L C db e base target a (book_month base a m (m + 1) p monthly w) = Some w'"
      using m less.prems target by (intro less.hyps) (auto simp: book_month_def)
    with m Some x show ?thesis by (subst depreciate_months.simps) (simp add: month_end_next)
  qed
qed

section \<open>What a walk does\<close>

text \<open>The net of the collected lines on an account.\<close>

definition buckets_net :: "decimal_lib \<Rightarrow> depreciation_buckets \<Rightarrow> account_code \<Rightarrow> decimal" where
  "buckets_net L bs c = (\<Sum>(i, d, ls)\<leftarrow>bs. request_net L ls c)"

definition buckets_even :: "decimal_lib \<Rightarrow> depreciation_buckets \<Rightarrow> bool" where
  "buckets_even L bs \<longleftrightarrow> (\<forall>(i, d, ls) \<in> set bs. request_debits L ls = request_credits L ls)"

lemma add_to_bucket_net: "buckets_net L (add_to_bucket i d ls bs) c = buckets_net L bs c + request_net L ls c"
  by (induction i d ls bs rule: add_to_bucket.induct) (auto simp: buckets_net_def)

lemma add_to_bucket_even:
  "buckets_even L bs \<Longrightarrow> request_debits L ls = request_credits L ls \<Longrightarrow> buckets_even L (add_to_bucket i d ls bs)"
  by (induction i d ls bs rule: add_to_bucket.induct) (auto simp: buckets_even_def)

lemma add_to_bucket_nonempty [simp]: "add_to_bucket i d ls bs \<noteq> []"
  by (cases bs) (auto split: prod.split if_splits)

text \<open>What an accumulated depreciation of \<open>x\<close> is on an account.\<close>

definition charge :: "'a asset_row_scheme \<Rightarrow> decimal \<Rightarrow> account_code \<Rightarrow> decimal" where
  "charge a x c = (if fa_gl_expense a = c then x else 0) - (if fa_gl_accum a = c then x else 0)"

lemma charge_add: "charge a (x + y) c = charge a x c + charge a y c"
  by (simp add: charge_def)

text \<open>A card in order: the whole cost is accounted for, and no book value below the residual (or below the
  cost, for a card with a residual above it). Separately, amounts in cents: the columns are plain
  \<^verbatim>\<open>NUMERIC\<close> and nothing checks them.\<close>

definition card_ok :: "asset_row \<Rightarrow> bool" where
  "card_ok a \<longleftrightarrow> fa_accumulated a + fa_nbv a = fa_cost a \<and> min (fa_cost a) (fa_residual a) \<le> fa_nbv a"

definition card_cents :: "asset_row \<Rightarrow> bool" where
  "card_cents a \<longleftrightarrow> has_dp 2 (fa_residual a) \<and> has_dp 2 (fa_nbv a)"

lemma walk_asset_card:
  assumes w: "walk_asset L C db e base target a bs = Some w" and a: "card_ok a"
  shows "card_ok (walked w d a)"
proof -
  define I where "I v \<longleftrightarrow> dw_accum v + dw_nbv v = fa_cost a \<and> min (fa_cost a) (fa_residual a) \<le> dw_nbv v"
    for v :: depreciation_walk
  have step: "I (book_month base a m_end (m_end + 1) p monthly v)"
    if v: "I v" "month_due L db e target a m_end (dw_nbv v) = Some (p, monthly)" for v :: depreciation_walk and m_end p monthly
  proof -
    have "monthly \<le> dw_nbv v - fa_residual a" by (rule month_dueD(5) [OF v(2)])
    then have "min (fa_cost a) (fa_residual a) \<le> dw_nbv v - monthly" by (simp add: min_le_iff_disj)
    then show ?thesis using v(1) by (simp add: I_def book_month_def)
  qed
  from w obtain cur where "depreciate_months L C db e base target a
      \<lparr>dw_cursor = cur, dw_accum = fa_accumulated a, dw_nbv = fa_nbv a, dw_last = None, dw_buckets = bs\<rparr> = Some w"
    by (auto simp: walk_asset_def bind_eq_Some_conv)
  then have "I w \<and> stopped_at L C db e target a (dw_cursor w) (dw_nbv w)"
    by (rule depreciate_months_invariant) (use a step in \<open>auto simp: I_def card_ok_def\<close>)
  then show ?thesis by (simp add: I_def card_ok_def walked_def)
qed

lemma walk_asset_ok:
  assumes w: "walk_asset L C db e base target a bs = Some w" and L: "decimal_laws L"
    and a: "card_cents a" and bs: "buckets_even L bs"
  shows "card_cents (walked w d a)" "buckets_even L (dw_buckets w)"
    "buckets_net L (dw_buckets w) c = buckets_net L bs c + charge a (dw_accum w - fa_accumulated a) c"
proof -
  define I where "I v \<longleftrightarrow> has_dp 2 (dw_nbv v) \<and> buckets_even L (dw_buckets v)
    \<and> buckets_net L (dw_buckets v) c = buckets_net L bs c + charge a (dw_accum v - fa_accumulated a) c" for v :: depreciation_walk
  have res: "has_dp 2 (fa_residual a)" using a by (simp add: card_cents_def)
  have "I (book_month base a m_end (m_end + 1) p monthly v)"
    if v: "I v" "month_due L db e target a m_end (dw_nbv v) = Some (p, monthly)" for v :: depreciation_walk and m_end p monthly
  proof -
    have "has_dp 2 (monthly_depreciation L x)" for x :: asset_row
      by (simp add: monthly_depreciation_def round_dp_def decimal_laws.round_grid [OF L]
            split: depreciation_method.split)
    moreover have "has_dp 2 (dw_nbv v - fa_residual a)" using v(1) res by (simp add: I_def)
    ultimately have m: "has_dp 2 monthly"
      using month_dueD(3) [OF v(2)] by (auto simp: month_amount_def min_def)
    have "charge a (dw_accum v + monthly - fa_accumulated a) c
        = charge a (dw_accum v - fa_accumulated a) c + charge a monthly c"
      by (simp add: charge_def)
    then show ?thesis
      using v(1) m
      by (auto simp: I_def book_month_def depreciation_lines_def add_to_bucket_net charge_def
            decimal_laws.round_money_exact [OF L] intro!: add_to_bucket_even)
  qed
  note step = this
  from w obtain cur where "depreciate_months L C db e base target a
      \<lparr>dw_cursor = cur, dw_accum = fa_accumulated a, dw_nbv = fa_nbv a, dw_last = None, dw_buckets = bs\<rparr> = Some w"
    by (auto simp: walk_asset_def bind_eq_Some_conv)
  then have "I w \<and> stopped_at L C db e target a (dw_cursor w) (dw_nbv w)"
    by (rule depreciate_months_invariant) (use a bs step in \<open>auto simp: I_def card_cents_def charge_def\<close>)
  then have I: "I w" ..
  show "buckets_even L (dw_buckets w)"
    "buckets_net L (dw_buckets w) c = buckets_net L bs c + charge a (dw_accum w - fa_accumulated a) c"
    using I by (simp_all add: I_def)
  show "card_cents (walked w d a)" using I res by (simp add: I_def card_cents_def walked_def)
qed

lemma walk_asset_none:
  assumes w: "walk_asset L C db e base target a bs = Some w" and "dw_last w = None"
  shows "dw_accum w = fa_accumulated a" "dw_buckets w = bs"
proof -
  obtain c where w: "depreciate_months L C db e base target a
      \<lparr>dw_cursor = c, dw_accum = fa_accumulated a, dw_nbv = fa_nbv a, dw_last = None, dw_buckets = bs\<rparr> = Some w"
    using w by (auto simp: walk_asset_def bind_eq_Some_conv)
  define I where "I v \<longleftrightarrow> dw_last v \<noteq> None \<or> dw_accum v = fa_accumulated a \<and> dw_buckets v = bs"
    for v :: depreciation_walk
  have "I w \<and> stopped_at L C db e target a (dw_cursor w) (dw_nbv w)"
    by (rule depreciate_months_invariant [OF w]) (auto simp: I_def book_month_def)
  with assms(2) show "dw_accum w = fa_accumulated a" "dw_buckets w = bs" by (simp_all add: I_def)
qed

text \<open>An asset with nothing to book up to the target.\<close>

definition idle ::
    "decimal_lib \<Rightarrow> calendar \<Rightarrow> 'a period_db_scheme \<Rightarrow> uuid \<Rightarrow> naive_date \<Rightarrow> asset_row \<Rightarrow> bool" where
  "idle L C db e target a \<longleftrightarrow> (\<exists>c. first_cursor C a = Some c \<and> stopped_at L C db e target a c (fa_nbv a))"

text \<open>The first month of an asset is one the calendar knows.\<close>

definition cursor_ok :: "calendar \<Rightarrow> asset_row \<Rightarrow> bool" where
  "cursor_ok C a \<longleftrightarrow> (\<exists>c. first_cursor C a = Some c \<and> 0 < c \<and> c < last_day)"

lemma month_due_walked: "month_due L db e target (walked w d a) m nbv = month_due L db e target a m nbv"
  by (simp add: month_due_def month_amount_def monthly_depreciation_def walked_def split: depreciation_method.split)

lemma idle_stopped:
  "first_cursor C a = Some c \<Longrightarrow> stopped_at L C db e target a c (fa_nbv a) \<Longrightarrow> idle L C db e target a"
  by (auto simp: idle_def)

lemma walk_idle: "idle L C db e target a \<Longrightarrow>
    \<exists>w. walk_asset L C db e base target a bs = Some w \<and> dw_last w = None \<and> dw_buckets w = bs"
  by (auto simp: idle_def walk_asset_def depreciate_months_stopped)

lemma walk_assets_idle: "list_all (idle L C db e target) as \<Longrightarrow> walk_assets L C db e base target as bs = Some (bs, [])"
proof (induction "as")
  case (Cons a as)
  then obtain w where "walk_asset L C db e base target a bs = Some w" "dw_last w = None" "dw_buckets w = bs"
    using walk_idle [of L C db e target a base bs] by auto
  with Cons show ?case by simp
qed simp

lemma idle_periods:
  "fiscal_periods db' = fiscal_periods db \<Longrightarrow> idle L C db' e target a = idle L C db e target a"
  by (simp add: idle_def stopped_at_def month_due_def open_period_def period_for_date_def)

lemma walk_asset_returns:
  assumes "calendar_days C" and "target + 1 < last_day" and "cursor_ok C a"
  shows "\<exists>w. walk_asset L C db e base target a bs = Some w"
  using assms(3) depreciate_months_returns [OF assms(1,2), where db = db and L = L and e = e and base = base and a = a]
  by (force simp: cursor_ok_def walk_asset_def)

lemma walk_asset_stops:
  assumes w: "walk_asset L C db e base target a bs = Some w"
    and cal: "calendar_days C" and target: "target + 1 < last_day" and a: "cursor_ok C a"
  shows "(dw_last w = None \<and> dw_buckets w = bs \<and> idle L C db e target a)
    \<or> (\<exists>d. dw_last w = Some d \<and> dw_buckets w \<noteq> [] \<and> idle L C db e target (walked w d a)
        \<and> cursor_ok C (walked w d a))"
proof -
  obtain cur where cur: "first_cursor C a = Some cur" "0 < cur" "cur < last_day"
    using a by (auto simp: cursor_ok_def)
  define v0 where "v0 = \<lparr>dw_cursor = cur, dw_accum = fa_accumulated a, dw_nbv = fa_nbv a, dw_last = None, dw_buckets = bs\<rparr>"
  define I where "I v \<longleftrightarrow> 0 < dw_cursor v \<and> dw_cursor v < last_day \<and> (v = v0 \<or>
    (\<exists>d. dw_last v = Some d \<and> dw_buckets v \<noteq> [] \<and> next_month_start C d = Some (dw_cursor v)))" for v :: depreciation_walk
  have step: "I (book_month base a m_end (m_end + 1) p monthly v)"
    if v: "I v" "month_end C (dw_cursor v) = Some m_end" "month_due L db e target a m_end (dw_nbv v) = Some (p, monthly)"
    for v :: depreciation_walk and m_end p monthly
  proof -
    from v(1) have c: "0 < dw_cursor v" "dw_cursor v < last_day" by (simp_all add: I_def)
    note m = calendar_days.month_end_last [OF cal c v(2)]
    from month_dueD(1) [OF v(3)] m(2) c target month_end_next [OF m(1)] show ?thesis
      by (auto simp: I_def book_month_def)
  qed
  from w cur have "depreciate_months L C db e base target a v0 = Some w"
    by (simp add: walk_asset_def v0_def)
  then have "I w \<and> stopped_at L C db e target a (dw_cursor w) (dw_nbv w)"
    by (rule depreciate_months_invariant) (use cur step in \<open>auto simp: I_def v0_def\<close>)
  then have I: "I w" and stop: "stopped_at L C db e target a (dw_cursor w) (dw_nbv w)" by simp_all
  show ?thesis
  proof (cases "w = v0")
    case True
    with stop cur show ?thesis by (simp add: v0_def idle_stopped)
  next
    case False
    with I obtain d where d: "dw_last w = Some d" "dw_buckets w \<noteq> []" "next_month_start C d = Some (dw_cursor w)"
      by (auto simp: I_def)
    then have f: "first_cursor C (walked w d a) = Some (dw_cursor w)" by (simp add: first_cursor_def walked_def)
    have "stopped_at L C db e target (walked w d a) (dw_cursor w) (fa_nbv (walked w d a))"
      using stop by (simp add: stopped_at_def month_due_walked) (simp add: walked_def)
    from idle_stopped [OF f this] d f I show ?thesis by (auto simp: cursor_ok_def I_def)
  qed
qed

section \<open>The walk of the register\<close>

definition update_asset :: "asset_row \<Rightarrow> asset_row list \<Rightarrow> asset_row list" where
  "update_asset u = map (\<lambda>x. if fa_id x = fa_id u
     then x\<lparr>fa_accumulated := fa_accumulated u, fa_nbv := fa_nbv u, fa_status := fa_status u, fa_through := fa_through u\<rparr>
     else x)"

lemma update_assets_simps [simp]:
  "update_assets [] xs = xs" "update_assets (u # us) xs = update_assets us (update_asset u xs)"
  by (simp_all add: update_assets_def update_asset_def)

lemma update_asset_ids [simp]: "map fa_id (update_asset u xs) = map fa_id xs"
  by (simp add: update_asset_def)

lemma update_assets_ids [simp]: "map fa_id (update_assets us xs) = map fa_id xs"
  by (induction us arbitrary: xs) simp_all

lemma fa_id_walked [simp]: "fa_id (walked w d a) = fa_id a"
  by (simp add: walked_def)

lemma update_asset_walked:
  assumes "distinct (map fa_id xs)" and "a \<in> set xs"
  shows "update_asset (walked w d a) xs = map (\<lambda>x. if x = a then walked w d a else x) xs"
  unfolding update_asset_def
proof (rule map_cong [OF refl])
  fix x assume "x \<in> set xs"
  with assms have "fa_id x = fa_id a \<longleftrightarrow> x = a" by (auto simp: distinct_map dest: inj_onD)
  then show "(if fa_id x = fa_id (walked w d a)
      then x\<lparr>fa_accumulated := fa_accumulated (walked w d a), fa_nbv := fa_nbv (walked w d a),
        fa_status := fa_status (walked w d a), fa_through := fa_through (walked w d a)\<rparr> else x)
    = (if x = a then walked w d a else x)"
    by (simp add: walked_def)
qed

lemma walk_assets_invariant:
  assumes "walk_assets L C db e base target as bs = Some (bs', us)"
    and "distinct (map fa_id xs)" and "distinct as" and "set as \<subseteq> set xs" and "I bs as xs"
    and "\<And>bs a as xs w. I bs (a # as) xs \<Longrightarrow> distinct (map fa_id xs) \<Longrightarrow> a \<in> set xs \<Longrightarrow> a \<notin> set as \<Longrightarrow>
      walk_asset L C db e base target a bs = Some w \<Longrightarrow>
      I (dw_buckets w) as (case dw_last w of None \<Rightarrow> xs | Some d \<Rightarrow> map (\<lambda>x. if x = a then walked w d a else x) xs)"
  shows "I bs' [] (update_assets us xs)"
  using assms(1-5)
proof (induction "as" arbitrary: bs us xs)
  case Nil
  then show ?case by simp
next
  case (Cons a as)
  from Cons.prems(1) obtain w us' where w: "walk_asset L C db e base target a bs = Some w"
    and rest: "walk_assets L C db e base target as (dw_buckets w) = Some (bs', us')"
    and us: "us = (case dw_last w of None \<Rightarrow> us' | Some d \<Rightarrow> walked w d a # us')"
    by (auto simp: bind_eq_Some_conv)
  let ?xs = "case dw_last w of None \<Rightarrow> xs | Some d \<Rightarrow> map (\<lambda>x. if x = a then walked w d a else x) xs"
  have xs: "a \<in> set xs" "a \<notin> set as" "distinct as" using Cons.prems(3,4) by auto
  have I: "I (dw_buckets w) as ?xs"
    by (rule assms(6) [OF Cons.prems(5,2) xs(1,2) w])
  have ids: "map fa_id ?xs = map fa_id xs" by (auto split: option.split)
  have "set as \<subseteq> set ?xs" using Cons.prems(4) xs(2) by (force split: option.split)
  with Cons.IH [OF rest _ xs(3) _ I] ids Cons.prems(2) have "I bs' [] (update_assets us' ?xs)" by simp
  with us update_asset_walked [OF Cons.prems(2) xs(1)] show ?case by (simp split: option.splits)
qed

end
