(* ===== verification/Assets_Properties.thy ===== *)
theory Assets_Properties
  imports Assets_Correct Samples
begin

text \<open>
  The properties of the depreciation run: it returns, a second run for the same month books
  nothing, and the register and the ledger move together.
\<close>

section \<open>The run\<close>

lemma run_depreciation_cases:
  assumes "run_depreciation L C E db e as_of by' = Some (Inr (ids, db'))"
  obtains target bs us db1 where "month_end C as_of = Some target"
    and "walk_assets L C db e (base_currency (configs db e)) target (due_assets db e) [] = Some (bs, us)"
    and "bs = [] \<Longrightarrow> ids = [] \<and> db' = db"
    and "bs \<noteq> [] \<Longrightarrow> try_fold (post_bucket L C E e by') (enumerate 0 bs) db = Inr db1"
    and "bs \<noteq> [] \<Longrightarrow> db' = db1\<lparr>fixed_assets := update_assets us (fixed_assets db1)\<rparr>"
  using assms that by (fastforce simp: run_depreciation_def bind_eq_Some_conv and_then_Inr split: if_splits prod.splits)

lemma post_bucketD:
  assumes "post_bucket L C E e by' (k, i, d, ls) db = Inr db'"
  obtains en where "create_and_post_in_tx L C (branch_env E k) db e (depreciation_entry d ls) i by' = Inr (en, db')"
  using assms by (auto simp: post_bucket_def and_then_Inr)

lemma assets_posted:
  fixes db :: "'a assets_db_scheme"
  assumes "create_and_post_in_tx L C E db e req i by' = Inr (en, db')"
  shows "fixed_assets db' = fixed_assets db" "fiscal_periods db' = fiscal_periods db"
  using posting.post_frame(3,4) [OF assms] by (cases db, cases db', simp)+

lemma post_buckets_frame:
  fixes db :: "'a assets_db_scheme"
  assumes "try_fold (post_bucket L C E e by') xs db = Inr db'"
  shows "fixed_assets db' = fixed_assets db \<and> fiscal_periods db' = fiscal_periods db"
  by (rule try_fold_invariant [OF assms]) (auto elim!: post_bucketD dest: assets_posted)

lemma post_buckets_net:
  assumes "try_fold (post_bucket L C E e by') (enumerate n bs) db = Inr db'" and "buckets_even L bs"
  shows "account_net db' e c = account_net db e c + buckets_net L bs c"
  using assms
proof (induction bs arbitrary: n db)
  case Nil
  then show ?case by (simp add: buckets_net_def)
next
  case (Cons b bs)
  obtain i d ls where b: "b = (i, d, ls)" by (cases b) auto
  from Cons.prems(1) obtain db1 where one: "post_bucket L C E e by' (n, i, d, ls) db = Inr db1"
    and rest: "try_fold (post_bucket L C E e by') (enumerate (Suc n) bs) db1 = Inr db'"
    by (auto simp: b and_then_Inr)
  from one obtain en where post: "create_and_post_in_tx L C (branch_env E n) db e (depreciation_entry d ls) i by' = Inr (en, db1)"
    by (rule post_bucketD)
  have even: "request_debits L ls = request_credits L ls" "buckets_even L bs"
    using Cons.prems(2) by (simp_all add: b buckets_even_def)
  have "account_net db1 e c = account_net db e c + request_net L ls c"
    using posting.post_net_exact [OF post] even(1) by (simp add: depreciation_entry_def)
  with Cons.IH [OF rest even(2)] show ?case by (simp add: b buckets_net_def)
qed

text \<open>What the accumulated depreciation of a tenant's register is on an account.\<close>

definition register_charge :: "'a assets_db_scheme \<Rightarrow> uuid \<Rightarrow> account_code \<Rightarrow> decimal" where
  "register_charge db e c = sum_where (\<lambda>a. fa_entity_id a = e) (\<lambda>a. charge a (fa_accumulated a) c) (fixed_assets db)"

lemma charge_one:
  assumes "distinct xs" and "a \<in> set xs" and "fa_entity_id a = e"
  shows "sum_where (\<lambda>a. fa_entity_id a = e) (\<lambda>a. charge a (fa_accumulated a) c)
      (map (\<lambda>x. if x = a then walked w d a else x) xs)
    = sum_where (\<lambda>a. fa_entity_id a = e) (\<lambda>a. charge a (fa_accumulated a) c) xs
      + charge a (dw_accum w - fa_accumulated a) c"
proof -
  have same: "map (\<lambda>x. if x = a then walked w d a else x) ys = ys" if "a \<notin> set ys" for ys
    using that by (induction ys) auto
  from assms(1,2) show ?thesis
  proof (induction xs)
    case (Cons x xs)
    show ?case
    proof (cases "x = a")
      case True
      with Cons.prems assms(3) same [of xs] show ?thesis by (simp add: walked_def charge_def)
    next
      case False
      with Cons show ?thesis by simp
    qed
  qed simp
qed

text \<open>The cards of a tenant are in cents.\<close>

definition cents_for :: "uuid \<Rightarrow> asset_row \<Rightarrow> bool" where
  "cents_for e a \<longleftrightarrow> (fa_entity_id a = e \<longrightarrow> card_cents a)"

lemma walk_assets_cards:
  assumes run: "walk_assets L C db e base target as bs = Some (bs', us)"
    and xs: "distinct (map fa_id xs)" "distinct as" "set as \<subseteq> set xs" and ok: "list_all card_ok xs"
  shows "list_all card_ok (update_assets us xs)"
proof (rule walk_assets_invariant [OF run xs, where I = "\<lambda>b as'. list_all card_ok"])
  fix b :: depreciation_buckets and a as' ys w
  assume ys: "list_all card_ok ys" "a \<in> set ys" and w: "walk_asset L C db e base target a b = Some w"
  then have "card_ok a" by (simp add: list_all_iff)
  from ys walk_asset_card [OF w this]
  show "list_all card_ok (case dw_last w of None \<Rightarrow> ys | Some d \<Rightarrow> map (\<lambda>x. if x = a then walked w d a else x) ys)"
    by (auto simp: list_all_iff split: option.split)
qed (rule ok)

lemma walk_assets_books:
  assumes run: "walk_assets L C db e base target as bs = Some (bs', us)"
    and xs: "distinct (map fa_id xs)" "distinct as" "set as \<subseteq> set xs" "list_all (\<lambda>a. fa_entity_id a = e) as"
    and L: "decimal_laws L" and ok: "list_all (cents_for e) xs" and even: "buckets_even L bs"
  shows "list_all (cents_for e) (update_assets us xs) \<and> buckets_even L bs'
    \<and> buckets_net L bs' c - buckets_net L bs c
      = sum_where (\<lambda>a. fa_entity_id a = e) (\<lambda>a. charge a (fa_accumulated a) c) (update_assets us xs)
        - sum_where (\<lambda>a. fa_entity_id a = e) (\<lambda>a. charge a (fa_accumulated a) c) xs"
proof -
  let ?sum = "sum_where (\<lambda>a. fa_entity_id a = e) (\<lambda>a. charge a (fa_accumulated a) c)"
  define I where "I b as' ys \<longleftrightarrow> list_all (\<lambda>a. fa_entity_id a = e) as' \<and> list_all (cents_for e) ys \<and> buckets_even L b
    \<and> buckets_net L b c - buckets_net L bs c = ?sum ys - ?sum xs" for b and as' ys :: "asset_row list"
  have "I bs' [] (update_assets us xs)"
  proof (rule walk_assets_invariant [OF run xs(1-3)])
    show "I bs as xs" using xs(4) ok even by (simp add: I_def)
    fix b a as' ys w
    assume I: "I b (a # as') ys" and ys: "distinct (map fa_id ys)" "a \<in> set ys"
      and w: "walk_asset L C db e base target a b = Some w"
    from I ys have a: "fa_entity_id a = e" "card_cents a" "buckets_even L b"
      by (auto simp: I_def list_all_iff cents_for_def)
    have "distinct ys" using ys(1) by (simp add: distinct_map)
    note one = walk_asset_ok [OF w L a(2,3)] charge_one [OF this ys(2) a(1), of c w]
    show "I (dw_buckets w) as' (case dw_last w of None \<Rightarrow> ys | Some d \<Rightarrow> map (\<lambda>x. if x = a then walked w d a else x) ys)"
    proof (cases "dw_last w")
      case None
      with I walk_asset_none [OF w None] show ?thesis by (simp add: I_def)
    next
      case (Some d)
      with I one show ?thesis by (auto simp: I_def list_all_iff cents_for_def)
    qed
  qed
  then show ?thesis by (simp add: I_def)
qed

lemma walk_assets_stop:
  assumes run: "walk_assets L C db e base target as bs = Some (bs', us)"
    and xs: "distinct (map fa_id xs)" "distinct as" "set as \<subseteq> set xs"
    and cal: "calendar_days C" "target + 1 < last_day" "list_all (cursor_ok C) as"
    and others: "\<And>x. x \<in> set xs \<Longrightarrow> P x \<Longrightarrow> x \<in> set as" and "x \<in> set (update_assets us xs)" and "P x"
  shows "idle L C db e target x"
proof -
  define I where "I b as' ys \<longleftrightarrow> list_all (cursor_ok C) as'
    \<and> (\<forall>y \<in> set ys. P y \<longrightarrow> y \<in> set as' \<or> idle L C db e target y)"
    for b :: depreciation_buckets and as' ys :: "asset_row list"
  have "I bs' [] (update_assets us xs)"
  proof (rule walk_assets_invariant [OF run xs])
    show "I bs as xs" using cal(3) others by (simp add: I_def)
    fix b a as' ys w
    assume I: "I b (a # as') ys" and w: "walk_asset L C db e base target a b = Some w"
    from I have "cursor_ok C a" by (simp add: I_def)
    from walk_asset_stops [OF w cal(1,2) this] I
    show "I (dw_buckets w) as' (case dw_last w of None \<Rightarrow> ys | Some d \<Rightarrow> map (\<lambda>x. if x = a then walked w d a else x) ys)"
      by (auto simp: I_def)
  qed
  with assms(9,10) show ?thesis by (simp add: I_def)
qed

lemma walk_assets_return:
  assumes "calendar_days C" and "target + 1 < last_day" and "list_all (cursor_ok C) as"
  shows "\<exists>bs' us. walk_assets L C db e base target as bs = Some (bs', us)"
  using assms(3)
proof (induction "as" arbitrary: bs)
  case (Cons a as)
  obtain w where w: "walk_asset L C db e base target a bs = Some w"
    using walk_asset_returns [OF assms(1,2)] Cons.prems by force
  obtain bs' us where "walk_assets L C db e base target as (dw_buckets w) = Some (bs', us)"
    using Cons.IH Cons.prems by force
  with w show ?case by simp
qed simp

lemma due_distinct: "distinct (map fa_id (fixed_assets db)) \<Longrightarrow> distinct (due_assets db e)"
  by (simp add: due_assets_def distinct_map)

section \<open>The properties\<close>

text \<open>C30: Where the calendar has the months, the run of depreciation returns (with a result or with
  the error of a posting), and it is idempotent: right after a run that succeeded, a second run for
  the same date books nothing and leaves the state as it is.\<close>

theorem depreciation_run_returns_and_repeats:
  assumes "calendar_days C" and "month_end C as_of = Some target" and "target + 1 < last_day"
    and "distinct (map fa_id (fixed_assets db))" and "list_all (cursor_ok C) (due_assets db e)"
  shows "run_depreciation L C E db e as_of by' \<noteq> None
    \<and> (\<forall>ids db' E2. run_depreciation L C E db e as_of by' = Some (Inr (ids, db'))
         \<longrightarrow> run_depreciation L C E2 db' e as_of by' = Some (Inr ([], db')))"
proof (intro conjI allI impI)
  show "run_depreciation L C E db e as_of by' \<noteq> None"
    using walk_assets_return [OF assms(1,3,5), where bs = "[]" and db = db and L = L and e = e
        and base = "base_currency (configs db e)"] assms(2)
    by (auto simp: run_depreciation_def)
next
  fix ids db' E2
  assume run: "run_depreciation L C E db e as_of by' = Some (Inr (ids, db'))"
  from run_depreciation_cases [OF run] obtain bs us db1
    where walk: "walk_assets L C db e (base_currency (configs db e)) target (due_assets db e) [] = Some (bs, us)"
      and none: "bs = [] \<Longrightarrow> ids = [] \<and> db' = db"
      and fold: "bs \<noteq> [] \<Longrightarrow> try_fold (post_bucket L C E e by') (enumerate 0 bs) db = Inr db1"
      and db': "bs \<noteq> [] \<Longrightarrow> db' = db1\<lparr>fixed_assets := update_assets us (fixed_assets db1)\<rparr>"
    using assms(2) by (metis option.inject)
  show "run_depreciation L C E2 db' e as_of by' = Some (Inr ([], db'))"
  proof (cases "bs = []")
    case True
    with none walk assms(2) show ?thesis by (simp add: run_depreciation_def)
  next
    case False
    note frame = post_buckets_frame [OF fold [OF False]]
    have "idle L C db e target x" if "x \<in> set (due_assets db' e)" for x
    proof (rule walk_assets_stop [OF walk assms(4) due_distinct [OF assms(4)] _ assms(1,3,5),
          where P = "\<lambda>a. fa_entity_id a = e \<and> fa_status a = AssetActive \<and> fa_residual a < fa_nbv a"])
      show "set (due_assets db e) \<subseteq> set (fixed_assets db)" by (auto simp: due_assets_def)
      show "x \<in> set (update_assets us (fixed_assets db))"
        using that frame by (simp add: db' [OF False] due_assets_def)
    qed (use that in \<open>auto simp: due_assets_def\<close>)
    then have "list_all (idle L C db' e target) (due_assets db' e)"
      using frame idle_periods [of db' db] by (auto simp: list_all_iff db' [OF False])
    from walk_assets_idle [OF this] assms(2) show ?thesis by (simp add: run_depreciation_def)
  qed
qed

text \<open>
  C31: a run keeps every asset's card in order: cost is accumulated depreciation plus book value, and
  the book value does not fall below the residual value (or the cost, where the residual exceeds
  it). When the residual and book values of the tenant's assets are in cents, which neither the
  columns nor the code enforce, they stay so, and what the run posts to the ledger is exactly what it
  adds to the register, account by account.
\<close>

theorem depreciation_matches_ledger:
  assumes "decimal_laws L" and "distinct (map fa_id (fixed_assets db))" and "list_all card_ok (fixed_assets db)"
    and "run_depreciation L C E db e as_of by' = Some (Inr (ids, db'))"
  shows "list_all card_ok (fixed_assets db')
    \<and> ((\<forall>a \<in> set (fixed_assets db). fa_entity_id a = e \<longrightarrow> has_dp 2 (fa_residual a) \<and> has_dp 2 (fa_nbv a)) \<longrightarrow>
        (\<forall>a \<in> set (fixed_assets db'). fa_entity_id a = e \<longrightarrow> has_dp 2 (fa_residual a) \<and> has_dp 2 (fa_nbv a))
        \<and> account_net db' e c - account_net db e c = register_charge db' e c - register_charge db e c)"
proof -
  from run_depreciation_cases [OF assms(4)] obtain target bs us db1
    where walk: "walk_assets L C db e (base_currency (configs db e)) target (due_assets db e) [] = Some (bs, us)"
      and none: "bs = [] \<Longrightarrow> ids = [] \<and> db' = db"
      and fold: "bs \<noteq> [] \<Longrightarrow> try_fold (post_bucket L C E e by') (enumerate 0 bs) db = Inr db1"
      and db': "bs \<noteq> [] \<Longrightarrow> db' = db1\<lparr>fixed_assets := update_assets us (fixed_assets db1)\<rparr>"
    by metis
  have due: "set (due_assets db e) \<subseteq> set (fixed_assets db)" "list_all (\<lambda>a. fa_entity_id a = e) (due_assets db e)"
    by (auto simp: due_assets_def list_all_iff)
  note cards = walk_assets_cards [OF walk assms(2) due_distinct [OF assms(2)] due(1) assms(3)]
  have books: "list_all (cents_for e) (update_assets us (fixed_assets db)) \<and> buckets_even L bs
    \<and> buckets_net L bs c - buckets_net L [] c
      = sum_where (\<lambda>a. fa_entity_id a = e) (\<lambda>a. charge a (fa_accumulated a) c) (update_assets us (fixed_assets db))
        - sum_where (\<lambda>a. fa_entity_id a = e) (\<lambda>a. charge a (fa_accumulated a) c) (fixed_assets db)"
    if "list_all (cents_for e) (fixed_assets db)"
    by (rule walk_assets_books [OF walk assms(2) due_distinct [OF assms(2)] due assms(1) that]) (simp add: buckets_even_def)
  have "list_all card_ok (fixed_assets db') \<and> (list_all (cents_for e) (fixed_assets db) \<longrightarrow>
      list_all (cents_for e) (fixed_assets db')
      \<and> account_net db' e c - account_net db e c = register_charge db' e c - register_charge db e c)"
  proof (cases "bs = []")
    case True
    with none assms(3) show ?thesis by simp
  next
    case False
    have net: "account_net db' e c = account_net db1 e c" by (simp add: db' [OF False] account_net_def)
    from post_buckets_frame [OF fold [OF False]] post_buckets_net [OF fold [OF False], of c] books cards
    show ?thesis by (simp add: net) (simp add: db' [OF False] register_charge_def buckets_net_def)
  qed
  then show ?thesis by (simp add: list_all_iff cents_for_def card_cents_def)
qed

section \<open>A sample register\<close>

definition sample_asset :: asset_row where
  "sample_asset =
     \<lparr>fa_id = 70, fa_entity_id = 1, fa_number = ''FA-000070'', fa_description = ''Van'', fa_category = MotorVehicles,
      fa_acquisition_date = 739255, fa_cost = 1300, fa_residual = 100, fa_life_months = 12, fa_method = StraightLine,
      fa_gl_asset = ''1100'', fa_gl_accum = ''1000'', fa_gl_expense = ''6000'', fa_accumulated = 0, fa_nbv = 1300,
      fa_status = AssetActive, fa_through = None\<rparr>"

definition sample_register :: assets_db where
  "sample_register =
     \<lparr>accounts = sample_accounts, configs = default_config,
      fiscal_periods = [sample_period 1 739252 739282 ''open'', sample_period 2 739283 739310 ''soft_closed''],
      journal_counter = (\<lambda>_. Some 1), journal_entries = [], journal_lines = [],
      account_period_balances = [], fixed_assets = [sample_asset]\<rparr>"

definition sample_run :: "(uuid list \<times> assets_db) erp_result" where
  "sample_run = the (run_depreciation std_decimal gregorian sample_env sample_register 1 739260 (User 9))"

definition sample_register2 :: assets_db where
  "sample_register2 = snd (projr sample_run)"

lemma sample_month: "month_end gregorian 739260 = Some 739282"
  by code_simp

lemma sample_cards: "distinct (map fa_id (fixed_assets sample_register))" "list_all card_ok (fixed_assets sample_register)"
  by (simp_all add: sample_register_def sample_asset_def card_ok_def)

lemma sample_cursor: "list_all (cursor_ok gregorian) (due_assets sample_register 1)"
  by (simp add: sample_register_def sample_asset_def due_assets_def cursor_ok_def first_cursor_def last_day_def)

text \<open>The run by hand: January is booked, February lies beyond the target.\<close>

definition sample_walk :: depreciation_walk where
  "sample_walk = book_month (base_currency (configs sample_register 1)) sample_asset 739282 739283
     (sample_period 1 739252 739282 ''open'') 100
     \<lparr>dw_cursor = 739255, dw_accum = 0, dw_nbv = 1300, dw_last = None, dw_buckets = []\<rparr>"

lemma sample_months:
  "month_end gregorian 739255 = Some 739282" "month_end gregorian 739283 = Some 739310"
  by code_simp+

lemma sample_dues:
  "month_due std_decimal sample_register 1 739282 sample_asset 739282 1300
    = Some (sample_period 1 739252 739282 ''open'', 100)"
  by code_simp

lemma sample_walks:
  "walk_asset std_decimal gregorian sample_register 1 (base_currency (configs sample_register 1)) 739282 sample_asset []
    = Some sample_walk"
proof -
  have "stopped_at std_decimal gregorian sample_register 1 739282 sample_asset (dw_cursor sample_walk) (dw_nbv sample_walk)"
    by (simp add: stopped_at_def sample_walk_def book_month_def sample_months month_due_def)
  note stop = depreciate_months_stopped [OF this, of "base_currency (configs sample_register 1)"]
  have "depreciate_months std_decimal gregorian sample_register 1 (base_currency (configs sample_register 1)) 739282 sample_asset
      \<lparr>dw_cursor = 739255, dw_accum = 0, dw_nbv = 1300, dw_last = None, dw_buckets = []\<rparr> = Some sample_walk"
    by (subst depreciate_months.simps)
      (simp add: sample_months sample_dues next_month_start_def stop sample_walk_def [symmetric] del: One_nat_def)
  then show ?thesis by (simp add: walk_asset_def first_cursor_def) (simp add: sample_asset_def)
qed

lemma sample_posts_bucket:
  "\<exists>db'. try_fold (post_bucket std_decimal gregorian sample_env 1 (User 9)) (enumerate 0 (dw_buckets sample_walk)) sample_register
    = Inr db'"
proof -
  have "\<not> isl (try_fold (post_bucket std_decimal gregorian sample_env 1 (User 9)) (enumerate 0 (dw_buckets sample_walk)) sample_register)"
    by code_simp
  then show ?thesis by (auto simp: isl_def) (metis sum.exhaust)
qed

lemma sample_runs:
  "run_depreciation std_decimal gregorian sample_env sample_register 1 739260 (User 9) = Some (Inr ([70], sample_register2))"
proof -
  have "due_assets sample_register 1 = [sample_asset]"
    by (simp add: due_assets_def sample_register_def sample_asset_def)
  moreover have "dw_buckets sample_walk \<noteq> []" "dw_last sample_walk = Some 739282"
    by (simp_all add: sample_walk_def book_month_def)
  moreover have "fa_id sample_asset = 70" by (simp add: sample_asset_def)
  ultimately have "\<exists>db'. run_depreciation std_decimal gregorian sample_env sample_register 1 739260 (User 9) = Some (Inr ([70], db'))"
    using sample_posts_bucket
    by (auto simp: run_depreciation_def sample_month sample_walks simp del: One_nat_def)
  then show ?thesis by (auto simp: sample_register2_def sample_run_def)
qed

theorem depreciation_run_returns_and_repeats_witness:
  "run_depreciation std_decimal gregorian sample_env2 sample_register2 1 739260 (User 9) = Some (Inr ([], sample_register2))"
  using depreciation_run_returns_and_repeats [OF greg_days.calendar_days_axioms sample_month _ sample_cards(1) sample_cursor,
      of std_decimal sample_env "User 9"] sample_runs
  by (simp add: last_day_def)

theorem depreciation_matches_ledger_witness:
  "list_all card_ok (fixed_assets sample_register2)
    \<and> account_net sample_register2 1 ''6000'' - account_net sample_register 1 ''6000''
      = register_charge sample_register2 1 ''6000'' - register_charge sample_register 1 ''6000''"
proof -
  have "\<forall>a \<in> set (fixed_assets sample_register). fa_entity_id a = 1 \<longrightarrow> has_dp 2 (fa_residual a) \<and> has_dp 2 (fa_nbv a)"
    by (simp add: sample_register_def sample_asset_def)
  with depreciation_matches_ledger [OF std.decimal_laws_axioms sample_cards sample_runs, of "''6000''"]
  show ?thesis by blast
qed

end
