(* ===== verification/Amortization.thy ===== *)
theory Amortization
  imports Posting Months
begin

text \<open>
  Amortisation: \<^verbatim>\<open>zavora-erp-core/src/amortization/mod.rs\<close> and \<^verbatim>\<open>services/amortization.rs\<close>. The state
  extends the ledger by the schedules. Every installment is posted in a transaction of its own; the
  loop over the installments of a schedule is \<open>amortize\<close>, where \<open>None\<close> is the panic of an \<open>unwrap\<close>
  on a date the calendar does not have.
\<close>

section \<open>Schedules\<close>

datatype amortization_kind = PrepaidExpense | DeferredRevenue

fun kind_as_str :: "amortization_kind \<Rightarrow> string" where
  "kind_as_str PrepaidExpense = ''prepaid_expense''"
| "kind_as_str DeferredRevenue = ''deferred_revenue''"

definition kind_from_str :: "string \<Rightarrow> amortization_kind option" where
  "kind_from_str s =
     (if s = ''prepaid_expense'' then Some PrepaidExpense
      else if s = ''deferred_revenue'' then Some DeferredRevenue else None)"

lemma kind_from_as_str [simp]: "kind_from_str (kind_as_str k) = Some k"
  by (cases k) (simp_all add: kind_from_str_def)

record create_schedule_request =
  cs_kind :: amortization_kind
  cs_description :: string
  cs_balance_account :: account_code
  cs_pnl_account :: account_code
  cs_total_amount :: decimal
  cs_periods :: "32 word"
  cs_start_date :: naive_date

record schedule_row =
  sc_id :: uuid
  sc_entity_id :: uuid
  sc_kind :: string
  sc_description :: string
  sc_balance_account :: account_code
  sc_pnl_account :: account_code
  sc_total_amount :: decimal
  sc_periods :: "32 word"
  sc_start_date :: naive_date
  sc_amortized_periods :: "32 word"
  sc_status :: string
  sc_created_at :: timestamp

record amort_db = ledger_db +
  amortization_schedules :: "schedule_row list"

text \<open>\<open>i32::max(0) as u32\<close>: the columns are signed.\<close>

definition periods_of :: "32 word \<Rightarrow> nat" where
  "periods_of w = nat (max (sint w) 0)"

definition month_start_plus :: "calendar \<Rightarrow> naive_date \<Rightarrow> nat \<Rightarrow> naive_date option" where
  "month_start_plus C start n =
     (let m0 = month C start - 1 + n in
      from_ymd_opt C (year C start + int (m0 div 12)) (m0 mod 12 + 1) 1)"

definition check_schedule_account :: "'a amort_db_scheme \<Rightarrow> uuid \<Rightarrow> account_code \<Rightarrow> unit erp_result" where
  "check_schedule_account db e code =
     (case find_account db e code of
        Some a \<Rightarrow> if ac_is_active a then Inr () else Inl (ValidationFailed (''Account '' @ code @ '' is inactive.''))
      | None \<Rightarrow> Inl (ValidationFailed (''Account '' @ code @ '' not found.'')))"

definition new_schedule :: "environment \<Rightarrow> uuid \<Rightarrow> create_schedule_request \<Rightarrow> schedule_row" where
  "new_schedule E e req =
     \<lparr>sc_id = uuids E 0, sc_entity_id = e, sc_kind = kind_as_str (cs_kind req),
      sc_description = cs_description req, sc_balance_account = cs_balance_account req,
      sc_pnl_account = cs_pnl_account req, sc_total_amount = numeric_column 2 (cs_total_amount req), sc_periods = cs_periods req,
      sc_start_date = cs_start_date req, sc_amortized_periods = 0, sc_status = ''active'', sc_created_at = now E\<rparr>"

definition create_schedule ::
    "environment \<Rightarrow> 'a amort_db_scheme \<Rightarrow> uuid \<Rightarrow> create_schedule_request \<Rightarrow> (uuid \<times> 'a amort_db_scheme) erp_result" where
  "create_schedule E db e req =
     (if cs_periods req = 0 then Inl (ValidationFailed ''Periods must be at least 1.'')
      else if cs_total_amount req \<le> 0 then Inl (ValidationFailed ''Total amount must be positive.'')
      else if cs_balance_account req = cs_pnl_account req
      then Inl (ValidationFailed ''Balance-sheet and P&L accounts must differ.'')
      else and_then (check_schedule_account db e (cs_balance_account req)) (\<lambda>_.
           and_then (check_schedule_account db e (cs_pnl_account req)) (\<lambda>_.
             let s = new_schedule E e req in
             if sc_id s \<in> sc_id ` set (amortization_schedules db)
             then Inl (Database ''duplicate key value violates unique constraint'')
             else Inr (sc_id s, db\<lparr>amortization_schedules := amortization_schedules db @ [s]\<rparr>))))"

section \<open>Installments\<close>

definition per_installment :: "decimal_lib \<Rightarrow> schedule_row \<Rightarrow> decimal" where
  "per_installment L s =
     round_dp L (div_dec L (sc_total_amount s) (of_nat (max (periods_of (sc_periods s)) 1))) 2"

definition installment_amount :: "decimal_lib \<Rightarrow> schedule_row \<Rightarrow> nat \<Rightarrow> decimal" where
  "installment_amount L s idx =
     (if idx + 1 = periods_of (sc_periods s)
      then sc_total_amount s - per_installment L s * of_nat (periods_of (sc_periods s) - 1)
      else per_installment L s)"

text \<open>The accounts debited and credited.\<close>

definition schedule_accounts :: "schedule_row \<Rightarrow> account_code \<times> account_code" where
  "schedule_accounts s =
     (case unwrap_or (kind_from_str (sc_kind s)) PrepaidExpense of
        PrepaidExpense \<Rightarrow> (sc_pnl_account s, sc_balance_account s)
      | DeferredRevenue \<Rightarrow> (sc_balance_account s, sc_pnl_account s))"

text \<open>The reference carries the first eight characters of the schedule's id, an argument here.\<close>

definition installment_entry ::
    "(uuid \<Rightarrow> string) \<Rightarrow> currency_code \<Rightarrow> schedule_row \<Rightarrow> nat \<Rightarrow> naive_date \<Rightarrow> decimal \<Rightarrow> journal_entry_request" where
  "installment_entry to_string base s idx period_month amount =
     (let text = Some (sc_description s @ '' - period '' @ show_nat (idx + 1) @ ''/'' @ show_nat (periods_of (sc_periods s)))
      in \<lparr>rq_date = period_month, rq_source = Manual, rq_source_id = Some (sc_id s),
          rq_reference = ''AMORT-'' @ take 8 (to_string (sc_id s)) @ ''-'' @ show_nat (idx + 1),
          rq_description = ''Amortisation: '' @ sc_description s,
          rq_lines = [dr_line base (Some 1) text (fst (schedule_accounts s)) amount,
                      cr_line base (Some 1) text (snd (schedule_accounts s)) amount],
          rq_post_immediately = True\<rparr>)"

text \<open>One installment: the period of its month, then the posting.\<close>

definition post_installment ::
    "decimal_lib \<Rightarrow> calendar \<Rightarrow> (uuid \<Rightarrow> string) \<Rightarrow> environment \<Rightarrow> uuid \<Rightarrow> currency_code \<Rightarrow> agent_or_user_id
      \<Rightarrow> schedule_row \<Rightarrow> nat \<Rightarrow> naive_date \<Rightarrow> 'a ledger_db_scheme \<Rightarrow> 'a ledger_db_scheme erp_result" where
  "post_installment L C to_string E e base by' s idx m db =
     and_then (period_for_date db e m) (\<lambda>p.
     and_then (create_and_post L C (branch_env E idx) db e
         (installment_entry to_string base s idx m (installment_amount L s idx)) (fp_id p) by')
       (\<lambda>(entry, db1). Inr db1))"

text \<open>The loop from installment \<open>idx\<close>: it stops at the first month after \<open>as_of\<close> and at the first
  posting that fails, and passes over installments that are not positive.\<close>

function amortize ::
    "decimal_lib \<Rightarrow> calendar \<Rightarrow> (uuid \<Rightarrow> string) \<Rightarrow> environment \<Rightarrow> uuid \<Rightarrow> currency_code \<Rightarrow> naive_date
      \<Rightarrow> agent_or_user_id \<Rightarrow> schedule_row \<Rightarrow> nat \<Rightarrow> bool \<Rightarrow> 'a ledger_db_scheme
      \<Rightarrow> (nat \<times> bool \<times> 'a ledger_db_scheme) option" where
  "amortize L C to_string E e base as_of by' s idx posted db =
     (if idx < periods_of (sc_periods s) then
        (case month_start_plus C (sc_start_date s) idx of
           None \<Rightarrow> None
         | Some m \<Rightarrow>
             if as_of < m then Some (idx, posted, db)
             else if installment_amount L s idx \<le> 0
             then amortize L C to_string E e base as_of by' s (idx + 1) posted db
             else (case post_installment L C to_string E e base by' s idx m db of
                     Inl _ \<Rightarrow> Some (idx, posted, db)
                   | Inr db1 \<Rightarrow> amortize L C to_string E e base as_of by' s (idx + 1) True db1))
      else Some (idx, posted, db))"
  by pat_completeness auto
termination
  by (relation "measure (\<lambda>(L, C, to_string, E, e, base, as_of, by', s, idx, posted, db). periods_of (sc_periods s) - idx)")
    auto

declare amortize.simps [simp del]

section \<open>The run\<close>

definition update_schedule :: "uuid \<Rightarrow> nat \<Rightarrow> nat \<Rightarrow> schedule_row list \<Rightarrow> schedule_row list" where
  "update_schedule i idx periods =
     map (\<lambda>s. if sc_id s = i
       then s\<lparr>sc_amortized_periods := of_nat idx, sc_status := (if periods \<le> idx then ''completed'' else ''active'')\<rparr>
       else s)"

definition run_schedule ::
    "decimal_lib \<Rightarrow> calendar \<Rightarrow> (uuid \<Rightarrow> string) \<Rightarrow> environment \<Rightarrow> uuid \<Rightarrow> currency_code \<Rightarrow> naive_date
      \<Rightarrow> agent_or_user_id \<Rightarrow> schedule_row \<Rightarrow> 'a amort_db_scheme \<Rightarrow> (uuid list \<times> 'a amort_db_scheme) option" where
  "run_schedule L C to_string E e base as_of by' s db =
     (case amortize L C to_string E e base as_of by' s (periods_of (sc_amortized_periods s)) False db of
        None \<Rightarrow> None
      | Some (idx, posted, db1) \<Rightarrow>
          Some (if posted \<or> (of_nat idx :: 32 word) \<noteq> sc_amortized_periods s
            then (if posted then [sc_id s] else [],
                  db1\<lparr>amortization_schedules :=
                    update_schedule (sc_id s) idx (periods_of (sc_periods s)) (amortization_schedules db1)\<rparr>)
            else ([], db1)))"

fun run_schedules ::
    "decimal_lib \<Rightarrow> calendar \<Rightarrow> (uuid \<Rightarrow> string) \<Rightarrow> environment \<Rightarrow> uuid \<Rightarrow> currency_code \<Rightarrow> naive_date
      \<Rightarrow> agent_or_user_id \<Rightarrow> nat \<Rightarrow> schedule_row list \<Rightarrow> 'a amort_db_scheme \<Rightarrow> (uuid list \<times> 'a amort_db_scheme) option" where
  "run_schedules L C to_string E e base as_of by' k [] db = Some ([], db)"
| "run_schedules L C to_string E e base as_of by' k (s # ss) db =
     (case run_schedule L C to_string (branch_env E k) e base as_of by' s db of
        None \<Rightarrow> None
      | Some (t, db1) \<Rightarrow>
          map_option (\<lambda>(ts, db2). (t @ ts, db2)) (run_schedules L C to_string E e base as_of by' (Suc k) ss db1))"

definition active_schedules :: "'a amort_db_scheme \<Rightarrow> uuid \<Rightarrow> schedule_row list" where
  "active_schedules db e = filter (\<lambda>s. sc_entity_id s = e \<and> sc_status s = ''active'') (amortization_schedules db)"

definition run_amortization ::
    "decimal_lib \<Rightarrow> calendar \<Rightarrow> (uuid \<Rightarrow> string) \<Rightarrow> environment \<Rightarrow> 'a amort_db_scheme \<Rightarrow> uuid \<Rightarrow> naive_date
      \<Rightarrow> agent_or_user_id \<Rightarrow> (uuid list \<times> 'a amort_db_scheme) option" where
  "run_amortization L C to_string E db e as_of by' =
     run_schedules L C to_string E e (base_currency (configs db e)) as_of by' 0 (active_schedules db e) db"

text \<open>The entry point of the scheduler: every tenant with an active schedule, as the agent
  \<open>scheduler\<close>.\<close>

fun run_tenants ::
    "decimal_lib \<Rightarrow> calendar \<Rightarrow> (uuid \<Rightarrow> string) \<Rightarrow> environment \<Rightarrow> nat \<Rightarrow> uuid list \<Rightarrow> 'a amort_db_scheme
      \<Rightarrow> (32 word \<times> 'a amort_db_scheme) option" where
  "run_tenants L C to_string E k [] db = Some (0, db)"
| "run_tenants L C to_string E k (e # es) db =
     (case run_amortization L C to_string (branch_env E k) db e (today E) (AgentId ''scheduler'') of
        None \<Rightarrow> None
      | Some (touched, db1) \<Rightarrow>
          map_option (\<lambda>(n, db2). (of_nat (length touched) + n, db2)) (run_tenants L C to_string E (Suc k) es db1))"

definition run_all ::
    "decimal_lib \<Rightarrow> calendar \<Rightarrow> (uuid \<Rightarrow> string) \<Rightarrow> environment \<Rightarrow> 'a amort_db_scheme \<Rightarrow> (32 word \<times> 'a amort_db_scheme) option" where
  "run_all L C to_string E db =
     run_tenants L C to_string E 0
       (remdups (map sc_entity_id (filter (\<lambda>s. sc_status s = ''active'') (amortization_schedules db)))) db"

definition list_schedules :: "'a amort_db_scheme \<Rightarrow> uuid \<Rightarrow> schedule_row list" where
  "list_schedules db e =
     rev (sort_key sc_created_at (filter (\<lambda>s. sc_entity_id s = e) (amortization_schedules db)))"

definition cancel_schedule :: "'a amort_db_scheme \<Rightarrow> uuid \<Rightarrow> uuid \<Rightarrow> (unit \<times> 'a amort_db_scheme) erp_result" where
  "cancel_schedule db e i =
     (let hit = (\<lambda>s. sc_id s = i \<and> sc_entity_id s = e \<and> sc_status s = ''active'') in
      if \<not> list_ex hit (amortization_schedules db) then Inl (NotFound ''AmortizationSchedule'' i)
      else Inr ((), db\<lparr>amortization_schedules :=
             map (\<lambda>s. if hit s then s\<lparr>sc_status := ''cancelled''\<rparr> else s) (amortization_schedules db)\<rparr>))"

end
