(* ===== verification/Amortization_Properties.thy ===== *)
theory Amortization_Properties
  imports Amortization Samples
begin

text \<open>
  What the amortisation run does to the schedules and to the ledger: the accounts move by exactly
  the installments the schedules count as done, and a completed schedule has released its total,
  provided its regular installments do not exceed it. Where they do, the code releases too much
  (\<open>installments_overshoot\<close>).
\<close>

section \<open>Counting periods\<close>

lemma periods_of_bound: "periods_of w < 2 ^ 31"
  using sint_lt [of w] by (simp add: periods_of_def)

lemma periods_of_of_nat: "n < 2 ^ 31 \<Longrightarrow> periods_of (of_nat n) = n"
  by (simp add: periods_of_def signed_of_nat signed_take_bit_int_eq_self)

section \<open>What is released\<close>

definition released :: "decimal_lib \<Rightarrow> schedule_row \<Rightarrow> nat \<Rightarrow> decimal" where
  "released L s n = (\<Sum>i\<leftarrow>[0..<n]. max 0 (installment_amount L s i))"

text \<open>The effect of an amount released by a schedule on an account.\<close>

definition release_on :: "schedule_row \<Rightarrow> decimal \<Rightarrow> account_code \<Rightarrow> decimal" where
  "release_on s x c = (if fst (schedule_accounts s) = c then x else 0) - (if snd (schedule_accounts s) = c then x else 0)"

lemma release_on_simps [simp]:
  "release_on s 0 c = 0" "release_on s (x + y) c = release_on s x c + release_on s y c"
  by (simp_all add: release_on_def)

lemma released_simps [simp]:
  "released L s 0 = 0" "released L s (Suc n) = released L s n + max 0 (installment_amount L s n)"
  by (simp_all add: released_def)

definition installments_fit :: "decimal_lib \<Rightarrow> schedule_row \<Rightarrow> bool" where
  "installments_fit L s \<longleftrightarrow> 0 \<le> per_installment L s
     \<and> per_installment L s * of_nat (periods_of (sc_periods s) - 1) \<le> sc_total_amount s"

lemma released_regular:
  assumes "0 \<le> per_installment L s" and "n < periods_of (sc_periods s)"
  shows "released L s n = per_installment L s * of_nat n"
  using assms(2) by (induction n) (simp_all add: installment_amount_def assms(1) algebra_simps)

lemma released_total:
  assumes "installments_fit L s" and "1 \<le> periods_of (sc_periods s)"
  shows "released L s (periods_of (sc_periods s)) = sc_total_amount s"
proof -
  obtain n where n: "periods_of (sc_periods s) = Suc n" using assms(2) by (cases "periods_of (sc_periods s)") auto
  with assms(1) released_regular [of L s n] show ?thesis
    by (simp add: installments_fit_def installment_amount_def)
qed

lemma installment_cents:
  assumes "decimal_laws L" and "has_dp 2 (sc_total_amount s)"
  shows "has_dp 2 (installment_amount L s i)"
proof -
  have per: "has_dp 2 (per_installment L s)"
    by (simp add: per_installment_def round_dp_def decimal_laws.round_grid [OF assms(1)])
  have "has_dp 2 (per_installment L s * of_nat n)" for n
    by (induction n) (simp_all add: per algebra_simps)
  from per this [of "periods_of (sc_periods s) - 1"] assms(2) show ?thesis
    by (simp add: installment_amount_def del: of_nat_diff)
qed

section \<open>One schedule\<close>

lemma post_installmentD:
  assumes "post_installment L C to_string E e base by' s idx m db = Inr db1"
  obtains p :: fiscal_period and en :: journal_entry where "create_and_post_in_tx L C (branch_env E idx) db e
      (installment_entry to_string base s idx m (installment_amount L s idx)) (fp_id p) by' = Inr (en, db1)"
  using assms by (auto simp: post_installment_def create_and_post_def and_then_Inr)

lemma post_installment_effect:
  assumes post: "post_installment L C to_string E e base by' s idx m db = Inr db1"
    and L: "decimal_laws L" and cents: "has_dp 2 (sc_total_amount s)"
  shows "account_net db1 e c = account_net db e c + release_on s (installment_amount L s idx) c"
    "ledger_db.more db1 = ledger_db.more db" "configs db1 = configs db"
proof -
  obtain p :: fiscal_period and en :: journal_entry where post: "create_and_post_in_tx L C (branch_env E idx) db e
      (installment_entry to_string base s idx m (installment_amount L s idx)) (fp_id p) by' = Inr (en, db1)"
    using post by (rule post_installmentD)
  show "ledger_db.more db1 = ledger_db.more db" "configs db1 = configs db"
    using posting.post_frame(2,4) [OF post] by simp_all
  have "round_money L (installment_amount L s idx) = installment_amount L s idx"
    by (rule decimal_laws.round_money_exact [OF L installment_cents [OF L cents]])
  with posting.post_net_exact [OF post] show "account_net db1 e c = account_net db e c + release_on s (installment_amount L s idx) c"
    by (simp add: installment_entry_def Let_def release_on_def)
qed

lemma amortize_effect:
  assumes "amortize L C to_string E e base as_of by' s idx posted db = Some (idx', posted', db')"
    and "decimal_laws L" and "has_dp 2 (sc_total_amount s)" and "idx \<le> periods_of (sc_periods s)"
  shows "idx \<le> idx' \<and> idx' \<le> periods_of (sc_periods s) \<and> ledger_db.more db' = ledger_db.more db
    \<and> account_net db' e c - account_net db e c = release_on s (released L s idx') c - release_on s (released L s idx) c"
  using assms
proof (induction L C to_string E e base as_of by' s idx posted db rule: amortize.induct)
  case (1 L C to_string E e base as_of by' s idx posted db)
  show ?case
  proof (cases "idx < periods_of (sc_periods s)")
    case False
    with "1.prems" show ?thesis by (simp add: amortize.simps [of L C to_string E e base as_of by' s idx])
  next
    case True
    with "1.prems"(1) obtain m where m: "month_start_plus C (sc_start_date s) idx = Some m"
      by (auto simp: amortize.simps [of L C to_string E e base as_of by' s idx] split: option.splits)
    consider "as_of < m" | "\<not> as_of < m" "installment_amount L s idx \<le> 0" | "\<not> as_of < m" "\<not> installment_amount L s idx \<le> 0" by blast
    then show ?thesis
    proof cases
      case 1
      with "1.prems" True m show ?thesis
        by (simp add: amortize.simps [of L C to_string E e base as_of by' s idx])
    next
      case 2
      from "1.prems"(1) True m 2 have "amortize L C to_string E e base as_of by' s (idx + 1) posted db = Some (idx', posted', db')"
        by (simp add: amortize.simps [of L C to_string E e base as_of by' s idx])
      from "1.IH"(1) [OF True m 2 this "1.prems"(2,3)] True 2 show ?thesis by (simp add: max_def)
    next
      case 3
      show ?thesis
      proof (cases "post_installment L C to_string E e base by' s idx m db")
        case (Inl x)
        with "1.prems" True m 3 show ?thesis
          by (simp add: amortize.simps [of L C to_string E e base as_of by' s idx])
      next
        case (Inr db1)
        from "1.prems"(1) True m 3 Inr have "amortize L C to_string E e base as_of by' s (idx + 1) True db1 = Some (idx', posted', db')"
          by (simp add: amortize.simps [of L C to_string E e base as_of by' s idx])
        from "1.IH"(2) [OF True m 3 Inr this "1.prems"(2,3)] True 3
          post_installment_effect(1) [OF Inr "1.prems"(2,3), where c = c]
          post_installment_effect(2) [OF Inr "1.prems"(2,3)] show ?thesis by (simp add: max_def)
      qed
    qed
  qed
qed

section \<open>The run\<close>

definition schedule_ok :: "schedule_row \<Rightarrow> bool" where
  "schedule_ok s \<longleftrightarrow> has_dp 2 (sc_total_amount s) \<and> 1 \<le> periods_of (sc_periods s)
     \<and> periods_of (sc_amortized_periods s) \<le> periods_of (sc_periods s)
     \<and> (sc_status s = ''completed'' \<longrightarrow> periods_of (sc_amortized_periods s) = periods_of (sc_periods s))"

definition schedules_on :: "decimal_lib \<Rightarrow> uuid \<Rightarrow> account_code \<Rightarrow> schedule_row list \<Rightarrow> decimal" where
  "schedules_on L e c = sum_where (\<lambda>s. sc_entity_id s = e)
     (\<lambda>s. release_on s (released L s (periods_of (sc_amortized_periods s))) c)"

definition advanced :: "nat \<Rightarrow> schedule_row \<Rightarrow> schedule_row" where
  "advanced idx s = s\<lparr>sc_amortized_periods := of_nat idx,
     sc_status := (if periods_of (sc_periods s) \<le> idx then ''completed'' else ''active'')\<rparr>"

lemma advanced_simps [simp]:
  "sc_id (advanced idx s) = sc_id s" "sc_entity_id (advanced idx s) = sc_entity_id s"
  "sc_total_amount (advanced idx s) = sc_total_amount s" "sc_periods (advanced idx s) = sc_periods s"
  "sc_amortized_periods (advanced idx s) = of_nat idx" "schedule_accounts (advanced idx s) = schedule_accounts s"
  by (simp_all add: advanced_def schedule_accounts_def split: amortization_kind.split)

lemma advanced_installment [simp]: "installment_amount L (advanced idx s) = installment_amount L s"
proof
  have "per_installment L (advanced idx s) = per_installment L s" by (simp add: per_installment_def)
  then show "installment_amount L (advanced idx s) i = installment_amount L s i" for i
    unfolding installment_amount_def by simp
qed

lemma advanced_release [simp]:
  "released L (advanced idx s) n = released L s n" "release_on (advanced idx s) x c = release_on s x c"
  by (simp_all add: released_def release_on_def)

lemma update_schedule_map:
  assumes "distinct (map sc_id xs)" and "s \<in> set xs"
  shows "update_schedule (sc_id s) idx (periods_of (sc_periods s)) xs = map (\<lambda>x. if x = s then advanced idx s else x) xs"
  unfolding update_schedule_def
proof (rule map_cong [OF refl])
  fix x assume "x \<in> set xs"
  with assms have "sc_id x = sc_id s \<longleftrightarrow> x = s" by (auto simp: distinct_map dest: inj_onD)
  then show "(if sc_id x = sc_id s then x\<lparr>sc_amortized_periods := of_nat idx,
      sc_status := (if periods_of (sc_periods s) \<le> idx then ''completed'' else ''active'')\<rparr> else x)
    = (if x = s then advanced idx s else x)"
    by (simp add: advanced_def)
qed

lemma schedules_on_update:
  assumes "distinct xs" and "s \<in> set xs" and "sc_entity_id s = e" and "idx < 2 ^ 31"
  shows "schedules_on L e c (map (\<lambda>x. if x = s then advanced idx s else x) xs)
    = schedules_on L e c xs + release_on s (released L s idx) c
      - release_on s (released L s (periods_of (sc_amortized_periods s))) c"
proof -
  have same: "map (\<lambda>x. if x = s then advanced idx s else x) ys = ys" if "s \<notin> set ys" for ys
    using that by (induction ys) auto
  from assms(1,2) show ?thesis
  proof (induction xs)
    case (Cons x xs)
    show ?case
    proof (cases "x = s")
      case True
      with Cons.prems assms(3) same [of xs] periods_of_of_nat [OF assms(4)] show ?thesis
        by (simp add: schedules_on_def)
    next
      case False
      with Cons show ?thesis by (simp add: schedules_on_def)
    qed
  qed simp
qed

lemma run_schedule_effect:
  assumes run: "run_schedule L C to_string E e base as_of by' s db = Some (t, db')"
    and L: "decimal_laws L" and keys: "distinct (map sc_id (amortization_schedules db))"
    and s: "s \<in> set (amortization_schedules db)" "sc_entity_id s = e" "sc_status s = ''active''"
    and ok: "list_all schedule_ok (amortization_schedules db)"
  shows "(amortization_schedules db' = amortization_schedules db
      \<or> (\<exists>idx. amortization_schedules db' = map (\<lambda>x. if x = s then advanced idx s else x) (amortization_schedules db)))
    \<and> list_all schedule_ok (amortization_schedules db')
    \<and> account_net db' e c - account_net db e c
      = schedules_on L e c (amortization_schedules db') - schedules_on L e c (amortization_schedules db)"
proof -
  let ?start = "periods_of (sc_amortized_periods s)"
  have sok: "schedule_ok s" using ok s(1) by (simp add: list_all_iff)
  then have cents: "has_dp 2 (sc_total_amount s)" and start: "?start \<le> periods_of (sc_periods s)"
    by (simp_all add: schedule_ok_def)
  obtain idx posted db1 where am: "amortize L C to_string E e base as_of by' s ?start False db = Some (idx, posted, db1)"
    and db': "db' = (if posted \<or> (of_nat idx :: 32 word) \<noteq> sc_amortized_periods s
      then db1\<lparr>amortization_schedules := update_schedule (sc_id s) idx (periods_of (sc_periods s)) (amortization_schedules db1)\<rparr>
      else db1)"
    using run by (auto simp: run_schedule_def split: option.splits prod.splits if_splits)
  note eff = amortize_effect [OF am L cents start, of c]
  have small: "idx < 2 ^ 31" using eff periods_of_bound [of "sc_periods s"] by linarith
  have tables: "amortization_schedules db1 = amortization_schedules db"
    using eff by (cases db, cases db1) simp
  have dist: "distinct (amortization_schedules db)" using keys by (simp add: distinct_map)
  show ?thesis
  proof (cases "posted \<or> (of_nat idx :: 32 word) \<noteq> sc_amortized_periods s")
    case True
    let ?new = "map (\<lambda>x. if x = s then advanced idx s else x) (amortization_schedules db)"
    have new: "amortization_schedules db' = ?new"
      using True tables by (simp add: db' update_schedule_map [OF keys s(1)])
    have "schedule_ok (advanced idx s)"
      using sok eff periods_of_of_nat [OF small] by (simp add: schedule_ok_def) (auto simp: advanced_def)
    then have "list_all schedule_ok ?new" using ok by (auto simp: list_all_iff)
    moreover have "account_net db' e c = account_net db1 e c" using True by (simp add: db' account_net_def)
    moreover note schedules_on_update [OF dist s(1,2) small, of L c] eff
    ultimately show ?thesis using new by auto
  next
    case False
    then have "idx = ?start" using periods_of_of_nat [OF small] by simp
    with False eff tables ok show ?thesis by (simp add: db')
  qed
qed

lemma run_schedules_effect:
  assumes "run_schedules L C to_string E e base as_of by' k ss db = Some (t, db')"
    and "decimal_laws L" and "distinct (map sc_id (amortization_schedules db))"
    and "distinct ss" and "set ss \<subseteq> set (amortization_schedules db)"
    and "list_all (\<lambda>s. sc_entity_id s = e \<and> sc_status s = ''active'') ss"
    and "list_all schedule_ok (amortization_schedules db)"
  shows "list_all schedule_ok (amortization_schedules db')
    \<and> account_net db' e c - account_net db e c
      = schedules_on L e c (amortization_schedules db') - schedules_on L e c (amortization_schedules db)"
  using assms(1,3-7)
proof (induction ss arbitrary: k t db)
  case Nil
  then show ?case by simp
next
  case (Cons s ss)
  from Cons.prems(1) obtain t1 db1 t2
    where one: "run_schedule L C to_string (branch_env E k) e base as_of by' s db = Some (t1, db1)"
      and rest: "run_schedules L C to_string E e base as_of by' (Suc k) ss db1 = Some (t2, db')"
    by (auto split: option.splits)
  have s: "s \<in> set (amortization_schedules db)" "sc_entity_id s = e" "sc_status s = ''active''" "s \<notin> set ss"
    using Cons.prems by simp_all
  note eff = run_schedule_effect [OF one assms(2) Cons.prems(2) s(1-3) Cons.prems(6), of c]
  from eff have keys: "map sc_id (amortization_schedules db1) = map sc_id (amortization_schedules db)"
    by (auto simp: fun_eq_iff)
  from eff s(4) Cons.prems(4) have sub: "set ss \<subseteq> set (amortization_schedules db1)" by fastforce
  have ih: "list_all schedule_ok (amortization_schedules db')
    \<and> account_net db' e c - account_net db1 e c
      = schedules_on L e c (amortization_schedules db') - schedules_on L e c (amortization_schedules db1)"
    by (rule Cons.IH [OF rest _ _ sub]) (use Cons.prems eff keys in auto)
  with eff show ?case by simp
qed

section \<open>The properties\<close>

text \<open>C32: An amortisation run moves every account of the ledger by exactly the installments by which
  the schedules advance, keeps the schedules in order, and a schedule it completes has released its
  total amount, unless its regular installments alone exceed it.\<close>

theorem amortisation_matches_ledger:
  assumes "decimal_laws L" and "distinct (map sc_id (amortization_schedules db))"
    and "list_all schedule_ok (amortization_schedules db)"
    and "run_amortization L C to_string E db e as_of by' = Some (touched, db')"
  shows "list_all schedule_ok (amortization_schedules db')
    \<and> account_net db' e c - account_net db e c
      = schedules_on L e c (amortization_schedules db') - schedules_on L e c (amortization_schedules db)
    \<and> list_all (\<lambda>s. sc_status s = ''completed'' \<longrightarrow> installments_fit L s \<longrightarrow>
        released L s (periods_of (sc_amortized_periods s)) = sc_total_amount s) (amortization_schedules db')"
proof -
  have run: "list_all schedule_ok (amortization_schedules db')
    \<and> account_net db' e c - account_net db e c
      = schedules_on L e c (amortization_schedules db') - schedules_on L e c (amortization_schedules db)"
    by (rule run_schedules_effect [OF assms(4) [unfolded run_amortization_def] assms(1,2) _ _ _ assms(3)])
      (use assms(2) in \<open>auto simp: active_schedules_def list_all_iff distinct_map\<close>)
  moreover have "released L s (periods_of (sc_amortized_periods s)) = sc_total_amount s"
    if "schedule_ok s" "sc_status s = ''completed''" "installments_fit L s" for s
    using that released_total [of L s] by (simp add: schedule_ok_def)
  ultimately show ?thesis by (simp add: list_all_iff)
qed

section \<open>A sample schedule\<close>

definition sample_schedule :: schedule_row where
  "sample_schedule =
     \<lparr>sc_id = 80, sc_entity_id = 1, sc_kind = ''prepaid_expense'', sc_description = ''Insurance'',
      sc_balance_account = ''1000'', sc_pnl_account = ''6000'', sc_total_amount = 100, sc_periods = 3,
      sc_start_date = 739255, sc_amortized_periods = 0, sc_status = ''active'', sc_created_at = 0\<rparr>"

definition sample_schedules :: amort_db where
  "sample_schedules =
     \<lparr>accounts = sample_accounts, configs = default_config,
      fiscal_periods = [sample_period 1 739252 739282 ''open'', sample_period 2 739283 739310 ''soft_closed''],
      journal_counter = (\<lambda>_. Some 1), journal_entries = [], journal_lines = [],
      account_period_balances = [], amortization_schedules = [sample_schedule]\<rparr>"

definition sample_amortised :: "uuid list \<times> amort_db" where
  "sample_amortised = the (run_amortization std_decimal gregorian (\<lambda>_. ''00000000'') sample_env sample_schedules 1 739260 (User 9))"

lemma sample_amortises:
  "run_amortization std_decimal gregorian (\<lambda>_. ''00000000'') sample_env sample_schedules 1 739260 (User 9)
    = Some (fst sample_amortised, snd sample_amortised)" "fst sample_amortised = [80]"
proof -
  have "run_amortization std_decimal gregorian (\<lambda>_. ''00000000'') sample_env sample_schedules 1 739260 (User 9) \<noteq> None
    \<and> fst sample_amortised = [80]"
    by code_simp
  then show "run_amortization std_decimal gregorian (\<lambda>_. ''00000000'') sample_env sample_schedules 1 739260 (User 9)
    = Some (fst sample_amortised, snd sample_amortised)" "fst sample_amortised = [80]"
    by (auto simp: sample_amortised_def)
qed

theorem amortisation_matches_ledger_witness:
  "fst sample_amortised = [80] \<and> list_all schedule_ok (amortization_schedules (snd sample_amortised))
    \<and> account_net (snd sample_amortised) 1 ''6000'' - account_net sample_schedules 1 ''6000''
      = schedules_on std_decimal 1 ''6000'' (amortization_schedules (snd sample_amortised))
        - schedules_on std_decimal 1 ''6000'' (amortization_schedules sample_schedules)"
proof -
  have "distinct (map sc_id (amortization_schedules sample_schedules))"
    "list_all schedule_ok (amortization_schedules sample_schedules)"
    by (simp_all add: sample_schedules_def sample_schedule_def schedule_ok_def periods_of_def)
  from amortisation_matches_ledger [OF std.decimal_laws_axioms this sample_amortises(1), of "''6000''"]
  show ?thesis by (simp add: sample_amortises(2))
qed

text \<open>Three cents over five months: four installments of a cent are released, the last one, minus a
  cent, is passed over, and the schedule is completed with four cents released.\<close>

definition overshooting :: schedule_row where
  "overshooting = sample_schedule\<lparr>sc_total_amount := 3 / 100, sc_periods := 5\<rparr>"

lemma installments_overshoot:
  "released std_decimal overshooting (periods_of (sc_periods overshooting)) = 4 / 100"
  "sc_total_amount overshooting = 3 / 100"
  by code_simp+

end
