(* ===== verification/Manufacturing.thy ===== *)
theory Manufacturing
  imports Masters Stock_Moves
begin

text \<open>
  Manufacturing: \<^verbatim>\<open>zavora-erp-core/src/services/manufacturing.rs\<close>. A finished product has a bill of
  materials; a work order takes its components out of stock into work in progress (\<open>start\<close>) and
  receives the finished goods out of it (\<open>complete\<close>). The stock moves are those of \<open>Stock_Moves\<close>. The
  views the queries return are kept as records; an operation returns the state and, as in the
  source, a fresh read of the order.
\<close>

section \<open>Data\<close>

record bom_row =
  bo_id :: uuid
  bo_entity_id :: uuid
  bo_product_id :: uuid
  bo_output_item :: uuid
  bo_output_quantity :: decimal
  bo_overhead_cost :: decimal
  bo_notes :: "string option"
  bo_is_active :: bool
  bo_created_at :: timestamp

record bom_line_row =
  bn_id :: uuid
  bn_bom_id :: uuid
  bn_component :: uuid
  bn_quantity :: decimal
  bn_notes :: "string option"

record bom_line_view =
  bv_row :: bom_line_row
  bv_component_sku :: "string option"
  bv_component_description :: "string option"
  bv_unit_cost :: decimal

record bom_view =
  bm_row :: bom_row
  bm_product_name :: "string option"
  bm_lines :: "bom_line_view list"

record work_order_row =
  wo_id :: uuid
  wo_entity_id :: uuid
  wo_number :: string
  wo_bom_id :: uuid
  wo_output_item :: uuid
  wo_quantity :: decimal
  wo_status :: string
  wo_source_warehouse :: "uuid option"
  wo_dest_warehouse :: "uuid option"
  wo_material_cost :: decimal
  wo_overhead_cost :: decimal
  wo_total_cost :: decimal
  wo_output_unit_cost :: decimal
  wo_notes :: "string option"
  wo_start_journal :: "uuid option"
  wo_complete_journal :: "uuid option"
  wo_started_at :: "timestamp option"
  wo_completed_at :: "timestamp option"
  wo_created_at :: timestamp

record work_order_consumption =
  wc_id :: uuid
  wc_work_order_id :: uuid
  wc_component :: uuid
  wc_quantity :: decimal
  wc_unit_cost :: decimal
  wc_total_cost :: decimal

record work_order_view =
  wv_row :: work_order_row
  wv_product_name :: "string option"
  wv_output_sku :: "string option"
  wv_consumptions :: "work_order_consumption list"

record bom_line_input =
  li_component :: uuid
  li_quantity :: decimal
  li_notes :: "string option"

record create_bom_request =
  cb_product_id :: uuid
  cb_output_quantity :: decimal
  cb_overhead_cost :: decimal
  cb_notes :: "string option"
  cb_lines :: "bom_line_input list"

record create_work_order_request =
  cw_bom_id :: uuid
  cw_quantity :: decimal
  cw_source_warehouse :: "uuid option"
  cw_dest_warehouse :: "uuid option"
  cw_overhead_cost :: "decimal option"
  cw_notes :: "string option"

record mfg_db = masters_db +
  boms :: "bom_row list"
  bom_lines :: "bom_line_row list"
  work_orders :: "work_order_row list"
  work_order_consumptions :: "work_order_consumption list"

section \<open>Bills of materials\<close>

definition output_item_for_product :: "'a mfg_db_scheme \<Rightarrow> uuid \<Rightarrow> uuid \<Rightarrow> uuid erp_result" where
  "output_item_for_product db e p =
     ok_or (Option.bind (find_product db e p) pd_inventory_item_id)
       (ValidationFailed ''The finished good must be an inventory-tracked product (enable 'track inventory' with a SKU first).'')"

definition validate_bom_lines :: "bom_line_input list \<Rightarrow> unit erp_result" where
  "validate_bom_lines ls =
     (if ls = [] then Inl (ValidationFailed ''A BOM needs at least one component line.'')
      else if list_ex (\<lambda>l. li_quantity l \<le> 0) ls
      then Inl (ValidationFailed ''Component quantities must be greater than zero.'')
      else Inr ())"

definition bom_line_rows :: "environment \<Rightarrow> uuid \<Rightarrow> bom_line_input list \<Rightarrow> bom_line_row list" where
  "bom_line_rows E bom ls = map (\<lambda>(k, l).
     \<lparr>bn_id = uuids E (k + 1), bn_bom_id = bom, bn_component = li_component l, bn_quantity = numeric_column 4 (li_quantity l),
      bn_notes = li_notes l\<rparr>) (enumerate 0 ls)"

definition insert_bom_lines :: "environment \<Rightarrow> uuid \<Rightarrow> bom_line_input list \<Rightarrow> 'a mfg_db_scheme \<Rightarrow> 'a mfg_db_scheme" where
  "insert_bom_lines E bom ls db = db\<lparr>bom_lines := bom_lines db @ bom_line_rows E bom ls\<rparr>"

definition create_bom :: "environment \<Rightarrow> 'a mfg_db_scheme \<Rightarrow> uuid \<Rightarrow> create_bom_request \<Rightarrow> (uuid \<times> 'a mfg_db_scheme) erp_result" where
  "create_bom E db e req =
     and_then (validate_bom_lines (cb_lines req)) (\<lambda>_.
     if cb_output_quantity req \<le> 0 then Inl (ValidationFailed ''Output quantity must be greater than zero.'')
     else and_then (output_item_for_product db e (cb_product_id req)) (\<lambda>item.
     if list_ex (\<lambda>b. bo_entity_id b = e \<and> bo_product_id b = cb_product_id req) (boms db)
     then Inl (Duplicate ''This product already has a bill of materials.'')
     else
       (let b = \<lparr>bo_id = uuids E 0, bo_entity_id = e, bo_product_id = cb_product_id req, bo_output_item = item,
                 bo_output_quantity = numeric_column 4 (cb_output_quantity req),
                 bo_overhead_cost = numeric_column 4 (cb_overhead_cost req), bo_notes = cb_notes req, bo_is_active = True, bo_created_at = now E\<rparr>
        in if bo_id b \<in> bo_id ` set (boms db)
           then Inl (Database ''duplicate key value violates unique constraint'')
           else Inr (bo_id b, insert_bom_lines E (bo_id b) (cb_lines req) (db\<lparr>boms := boms db @ [b]\<rparr>)))))"

definition update_bom ::
    "environment \<Rightarrow> 'a mfg_db_scheme \<Rightarrow> uuid \<Rightarrow> uuid \<Rightarrow> create_bom_request \<Rightarrow> (unit \<times> 'a mfg_db_scheme) erp_result" where
  "update_bom E db e i req =
     and_then (validate_bom_lines (cb_lines req)) (\<lambda>_.
     if cb_output_quantity req \<le> 0 then Inl (ValidationFailed ''Output quantity must be greater than zero.'')
     else if \<not> list_ex (\<lambda>b. bo_id b = i \<and> bo_entity_id b = e) (boms db) then Inl (NotFound ''Bom'' i)
     else Inr ((), insert_bom_lines E i (cb_lines req)
       (db\<lparr>boms := map (\<lambda>b. if bo_id b = i \<and> bo_entity_id b = e
              then b\<lparr>bo_output_quantity := numeric_column 4 (cb_output_quantity req),
                     bo_overhead_cost := numeric_column 4 (cb_overhead_cost req), bo_notes := cb_notes req\<rparr> else b) (boms db),
           bom_lines := filter (\<lambda>l. bn_bom_id l \<noteq> i) (bom_lines db)\<rparr>)))"

definition bom_line_view_of :: "'a mfg_db_scheme \<Rightarrow> uuid \<Rightarrow> bom_line_row \<Rightarrow> bom_line_view" where
  "bom_line_view_of db e l =
     (case find_item db e (bn_component l) of
        Some i \<Rightarrow> \<lparr>bv_row = l, bv_component_sku = Some (im_sku i), bv_component_description = Some (im_description i),
                  bv_unit_cost = unit_cost i\<rparr>
      | None \<Rightarrow> \<lparr>bv_row = l, bv_component_sku = None, bv_component_description = None, bv_unit_cost = 0\<rparr>)"

definition hydrate_bom :: "'a mfg_db_scheme \<Rightarrow> uuid \<Rightarrow> bom_row \<Rightarrow> bom_view" where
  "hydrate_bom db e b =
     \<lparr>bm_row = b, bm_product_name = map_option pd_name (find_product db e (bo_product_id b)),
      bm_lines = map (bom_line_view_of db e) (sort_key bn_id (filter (\<lambda>l. bn_bom_id l = bo_id b) (bom_lines db)))\<rparr>"

definition list_boms :: "'a mfg_db_scheme \<Rightarrow> uuid \<Rightarrow> bom_view list" where
  "list_boms db e = map (hydrate_bom db e) (rev (sort_key bo_created_at (filter (\<lambda>b. bo_entity_id b = e) (boms db))))"

definition get_bom :: "'a mfg_db_scheme \<Rightarrow> uuid \<Rightarrow> uuid \<Rightarrow> bom_view erp_result" where
  "get_bom db e i =
     and_then (ok_or (List.find (\<lambda>b. bo_id b = i \<and> bo_entity_id b = e) (boms db)) (NotFound ''Bom'' i))
       (\<lambda>b. Inr (hydrate_bom db e b))"

section \<open>Work orders\<close>

definition load_work_order_row :: "'a mfg_db_scheme \<Rightarrow> uuid \<Rightarrow> uuid \<Rightarrow> work_order_row erp_result" where
  "load_work_order_row db e i =
     ok_or (List.find (\<lambda>w. wo_id w = i \<and> wo_entity_id w = e) (work_orders db)) (NotFound ''WorkOrder'' i)"

definition hydrate_work_order :: "'a mfg_db_scheme \<Rightarrow> uuid \<Rightarrow> work_order_row \<Rightarrow> bool \<Rightarrow> work_order_view" where
  "hydrate_work_order db e w with_consumptions =
     \<lparr>wv_row = w,
      wv_product_name = Option.bind (List.find (\<lambda>b. bo_id b = wo_bom_id w \<and> bo_entity_id b = e) (boms db))
        (\<lambda>b. map_option pd_name (List.find (\<lambda>p. pd_id p = bo_product_id b) (products db))),
      wv_output_sku = map_option im_sku (find_item db e (wo_output_item w)),
      wv_consumptions = (if with_consumptions
        then sort_key wc_id (filter (\<lambda>c. wc_work_order_id c = wo_id w) (work_order_consumptions db)) else [])\<rparr>"

definition list_work_orders :: "'a mfg_db_scheme \<Rightarrow> uuid \<Rightarrow> work_order_view list" where
  "list_work_orders db e =
     map (\<lambda>w. hydrate_work_order db e w False)
       (rev (sort_key wo_created_at (filter (\<lambda>w. wo_entity_id w = e) (work_orders db))))"

definition get_work_order :: "'a mfg_db_scheme \<Rightarrow> uuid \<Rightarrow> uuid \<Rightarrow> work_order_view erp_result" where
  "get_work_order db e i = and_then (load_work_order_row db e i) (\<lambda>w. Inr (hydrate_work_order db e w True))"

definition new_work_order ::
    "decimal_lib \<Rightarrow> environment \<Rightarrow> uuid \<Rightarrow> string \<Rightarrow> bom_row \<Rightarrow> create_work_order_request \<Rightarrow> work_order_row" where
  "new_work_order L E e number b req =
     \<lparr>wo_id = uuids E 0, wo_entity_id = e, wo_number = number, wo_bom_id = cw_bom_id req,
      wo_output_item = bo_output_item b, wo_quantity = numeric_column 4 (cw_quantity req), wo_status = ''draft'',
      wo_source_warehouse = cw_source_warehouse req, wo_dest_warehouse = cw_dest_warehouse req,
      wo_material_cost = 0,
      wo_overhead_cost = numeric_column 4 (unwrap_or (cw_overhead_cost req)
        (round_dp L (bo_overhead_cost b * div_dec L (cw_quantity req) (bo_output_quantity b)) 2)),
      wo_total_cost = 0, wo_output_unit_cost = 0, wo_notes = cw_notes req, wo_start_journal = None,
      wo_complete_journal = None, wo_started_at = None, wo_completed_at = None, wo_created_at = now E\<rparr>"

text \<open>The output quantity of a bill is checked to be positive before the column rounds it, so it may be
  stored as zero; dividing by it panics, which is an error value here. The number is drawn (and
  committed) before the insert.\<close>

definition zero_division :: erp_error where
  "zero_division = Internal ''panic: division by zero''"

definition create_work_order ::
    "decimal_lib \<Rightarrow> calendar \<Rightarrow> environment \<Rightarrow> 'a mfg_db_scheme \<Rightarrow> uuid \<Rightarrow> create_work_order_request
      \<Rightarrow> 'a mfg_db_scheme \<times> uuid erp_result" where
  "create_work_order L C E db e req =
     (if cw_quantity req \<le> 0
      then (db, Inl (ValidationFailed ''Quantity to produce must be greater than zero.''))
      else (case get_bom db e (cw_bom_id req) of
        Inl err \<Rightarrow> (db, Inl err)
      | Inr bom \<Rightarrow>
          if bo_output_quantity (bm_row bom) = 0 then (db, Inl zero_division)
          else (case next_doc_number C db e ''work_order_next'' ''WO'' (today E) of
             Inl err \<Rightarrow> (db, Inl err)
           | Inr (number, db1) \<Rightarrow>
               (let w = new_work_order L E e number (bm_row bom) req in
                if \<exists>x \<in> set (work_orders db1). wo_id x = wo_id w \<or> (wo_entity_id x = e \<and> wo_number x = number)
                then (db1, Inl (Database ''duplicate key value violates unique constraint''))
                else (db1\<lparr>work_orders := work_orders db1 @ [w]\<rparr>, Inr (wo_id w))))))"

definition update_order :: "uuid \<Rightarrow> uuid \<Rightarrow> (work_order_row \<Rightarrow> work_order_row) \<Rightarrow> 'a mfg_db_scheme \<Rightarrow> 'a mfg_db_scheme" where
  "update_order e i f db = db\<lparr>work_orders :=
     map (\<lambda>w. if wo_id w = i \<and> wo_entity_id w = e then f w else w) (work_orders db)\<rparr>"

definition work_order_entry :: "naive_date \<Rightarrow> uuid \<Rightarrow> string \<Rightarrow> string \<Rightarrow> journal_line_request list \<Rightarrow> journal_entry_request" where
  "work_order_entry d i number desc ls =
     \<lparr>rq_date = d, rq_source = InventoryAdjustment, rq_source_id = Some i, rq_reference = number,
      rq_description = desc, rq_lines = ls, rq_post_immediately = True\<rparr>"

definition post_je ::
    "decimal_lib \<Rightarrow> calendar \<Rightarrow> environment \<Rightarrow> 'a mfg_db_scheme \<Rightarrow> uuid \<Rightarrow> naive_date \<Rightarrow> uuid \<Rightarrow> string \<Rightarrow> string
      \<Rightarrow> journal_line_request list \<Rightarrow> agent_or_user_id \<Rightarrow> (uuid \<times> 'a mfg_db_scheme) erp_result" where
  "post_je L C E db e d i number desc ls by' =
     and_then (period_for_date db e d) (\<lambda>p.
     and_then (create_and_post_in_tx L C E db e (work_order_entry d i number desc ls) (fp_id p) by')
       (\<lambda>(entry, db1). Inr (en_id entry, db1)))"

section \<open>Start\<close>

text \<open>The map of credits by inventory account, ordered by its keys.\<close>

fun add_credit :: "account_code \<Rightarrow> decimal \<Rightarrow> (account_code \<times> decimal) list \<Rightarrow> (account_code \<times> decimal) list" where
  "add_credit a x [] = [(a, x)]"
| "add_credit a x ((b, y) # r) =
     (if b = a then (b, y + x) # r else if a < b then (a, x) # (b, y) # r else (b, y) # add_credit a x r)"

text \<open>One component: issued at its average cost, scaled to the order; a quantity that rounds to
  nothing is passed over.\<close>

definition consume_line ::
    "decimal_lib \<Rightarrow> environment \<Rightarrow> uuid \<Rightarrow> work_order_row \<Rightarrow> decimal \<Rightarrow> agent_or_user_id \<Rightarrow> nat \<times> bom_line_view
      \<Rightarrow> decimal \<times> (account_code \<times> decimal) list \<times> 'a mfg_db_scheme
      \<Rightarrow> (decimal \<times> (account_code \<times> decimal) list \<times> 'a mfg_db_scheme) erp_result" where
  "consume_line L E e w multiplier by' = (\<lambda>(k, l) (material, credits, db).
     let q = round_dp L (bn_quantity (bv_row l) * multiplier) 4; E' = branch_env E k in
     if q \<le> 0 then Inr (material, credits, db)
     else and_then (issue_inventory_in_tx (evens E') db e
         \<lparr>is_item_id = bn_component (bv_row l), is_quantity = q, is_date = Some (today E), is_reference_id = Some (wo_id w),
          is_warehouse_id = wo_source_warehouse w\<rparr> by') (\<lambda>(r, db1).
       Inr (material + ir_total_cost r, add_credit (ir_gl_inventory r) (ir_total_cost r) credits,
         db1\<lparr>work_order_consumptions := work_order_consumptions db1 @
           [\<lparr>wc_id = uuids (odds E') 0, wc_work_order_id = wo_id w, wc_component = bn_component (bv_row l),
             wc_quantity = q, wc_unit_cost = numeric_column 4 (ir_unit_cost r),
             wc_total_cost = numeric_column 4 (ir_total_cost r)\<rparr>]\<rparr>)))"

definition start_lines ::
    "decimal_lib \<Rightarrow> currency_code \<Rightarrow> account_code \<Rightarrow> string \<Rightarrow> decimal \<Rightarrow> (account_code \<times> decimal) list
      \<Rightarrow> journal_line_request list" where
  "start_lines L base wip number material credits =
     dr_line base (Some 1) (Some (''WIP: components issued to '' @ number)) wip material
     # map (\<lambda>(a, x). cr_line base (Some 1) (Some (''Components consumed for '' @ number)) a x)
         (filter (\<lambda>(a, x). 0 < x) (map (\<lambda>(a, x). (a, round_dp L x 2)) credits))"

definition started :: "environment \<Rightarrow> decimal \<Rightarrow> uuid option \<Rightarrow> work_order_row \<Rightarrow> work_order_row" where
  "started E material journal w =
     (let w' = w\<lparr>wo_status := ''in_progress'', wo_material_cost := material, wo_started_at := Some (now E)\<rparr> in
      case journal of None \<Rightarrow> w' | Some j \<Rightarrow> w'\<lparr>wo_start_journal := Some j\<rparr>)"

definition start_work_order ::
    "decimal_lib \<Rightarrow> calendar \<Rightarrow> environment \<Rightarrow> 'a mfg_db_scheme \<Rightarrow> uuid \<Rightarrow> uuid \<Rightarrow> agent_or_user_id
      \<Rightarrow> (work_order_view \<times> 'a mfg_db_scheme) erp_result" where
  "start_work_order L C E db e i by' =
     and_then (load_work_order_row db e i) (\<lambda>w.
     if wo_status w \<noteq> ''draft''
     then Inl (ValidationFailed (''Work order '' @ wo_number w @ '' is '' @ wo_status w @ '', not draft - cannot start.''))
     else and_then (get_bom db e (wo_bom_id w)) (\<lambda>bom.
     if bo_output_quantity (bm_row bom) = 0 then Inl zero_division
     else let multiplier = div_dec L (wo_quantity w) (bo_output_quantity (bm_row bom)) in
     and_then (try_fold (consume_line L (evens E) e w multiplier by') (enumerate 0 (bm_lines bom)) (0, [], db))
       (\<lambda>(raw, credits, db1).
     let material = round_dp L raw 2 in
     and_then
       (if 1 / 100 \<le> material
        then and_then (post_je L C (odds E) db1 e (today E) i (wo_number w) ''Components issued to production''
            (start_lines L (base_currency (configs db e)) (work_in_progress (posting (configs db e))) (wo_number w)
               material credits) by')
          (\<lambda>(entry, db2). Inr (update_order e i (started E material (Some entry)) db2))
        else Inr (update_order e i (started E material None) db1))
       (\<lambda>db3. and_then (get_work_order db3 e i) (\<lambda>v. Inr (v, db3))))))"

section \<open>Complete and cancel\<close>

definition complete_lines ::
    "currency_code \<Rightarrow> posting_setup \<Rightarrow> account_code \<Rightarrow> string \<Rightarrow> decimal \<Rightarrow> decimal \<Rightarrow> decimal \<Rightarrow> journal_line_request list" where
  "complete_lines base ps fg number material overhead total_c =
     [dr_line base (Some 1) (Some (''Finished goods from '' @ number)) fg total_c]
     @ (if 1 / 100 \<le> material
        then [cr_line base (Some 1) (Some (''WIP cleared for '' @ number)) (work_in_progress ps) material] else [])
     @ (if 1 / 100 \<le> overhead
        then [cr_line base (Some 1) (Some (''Overhead applied to '' @ number)) (manufacturing_overhead ps) overhead]
        else [])"

definition finished_account :: "'a mfg_db_scheme \<Rightarrow> uuid \<Rightarrow> uuid \<Rightarrow> account_code" where
  "finished_account db e item =
     unwrap_or (non_empty (map_option gl_inventory (find_item db e item))) (inventory_asset (posting (configs db e)))"

definition finished :: "environment \<Rightarrow> decimal \<Rightarrow> decimal \<Rightarrow> uuid option \<Rightarrow> work_order_row \<Rightarrow> work_order_row" where
  "finished E total_c unit_c journal w =
     w\<lparr>wo_status := ''completed'', wo_total_cost := total_c, wo_output_unit_cost := unit_c,
       wo_completed_at := Some (now E), wo_complete_journal := journal\<rparr>"

definition complete_work_order ::
    "decimal_lib \<Rightarrow> calendar \<Rightarrow> (decimal \<Rightarrow> decimal \<Rightarrow> decimal) \<Rightarrow> environment \<Rightarrow> 'a mfg_db_scheme \<Rightarrow> uuid \<Rightarrow> uuid
      \<Rightarrow> agent_or_user_id \<Rightarrow> (work_order_view \<times> 'a mfg_db_scheme) erp_result" where
  "complete_work_order L C Q E db e i by' =
     and_then (load_work_order_row db e i) (\<lambda>w.
     if wo_status w \<noteq> ''in_progress''
     then Inl (ValidationFailed (''Work order '' @ wo_number w @ '' is '' @ wo_status w @ '', not in progress - cannot complete.''))
     else
       (let material = round_dp L (wo_material_cost w) 2; overhead = round_dp L (wo_overhead_cost w) 2;
            total_c = round_dp L (material + overhead) 2;
            unit_c = (if 0 < wo_quantity w then round_dp L (div_dec L total_c (wo_quantity w)) 4 else 0);
            fg = finished_account db e (wo_output_item w)
        in and_then (receive_inventory_in_tx Q (evens E) db e
             \<lparr>rv_item_id = wo_output_item w, rv_quantity = wo_quantity w, rv_unit_cost = unit_c,
              rv_date = Some (today E), rv_reference_id = Some i, rv_warehouse_id = wo_dest_warehouse w\<rparr> by') (\<lambda>(mid, db1).
           and_then
             (if 1 / 100 \<le> total_c
              then and_then (post_je L C (odds E) db1 e (today E) i (wo_number w) ''Finished goods received from production''
                  (complete_lines (base_currency (configs db e)) (posting (configs db e)) fg (wo_number w) material overhead total_c) by')
                (\<lambda>(entry, db2). Inr (update_order e i (finished E total_c unit_c (Some entry)) db2))
              else Inr (update_order e i (finished E total_c unit_c None) db1))
             (\<lambda>db3. and_then (get_work_order db3 e i) (\<lambda>v. Inr (v, db3))))))"

definition cancel_work_order :: "'a mfg_db_scheme \<Rightarrow> uuid \<Rightarrow> uuid \<Rightarrow> (unit \<times> 'a mfg_db_scheme) erp_result" where
  "cancel_work_order db e i =
     and_then (load_work_order_row db e i) (\<lambda>w.
     if wo_status w \<noteq> ''draft''
     then Inl (ValidationFailed (''Only draft work orders can be cancelled; '' @ wo_number w @ '' is '' @ wo_status w @ ''.''))
     else Inr ((), update_order e i (\<lambda>x. x\<lparr>wo_status := ''cancelled''\<rparr>) db))"

end
