(* ===== verification/Manufacturing_Properties.thy ===== *)
theory Manufacturing_Properties
  imports Manufacturing Stock_Correct Samples
begin

text \<open>
  Work in progress: in every state that manufacturing reaches, the account for work in progress
  holds exactly the components of the orders on the shop floor.
\<close>

section \<open>The account and the orders\<close>

abbreviation wip :: "'a mfg_db_scheme \<Rightarrow> uuid \<Rightarrow> account_code" where
  "wip db e \<equiv> work_in_progress (posting (configs db e))"

text \<open>No other use of the account: not for rounding, overheads or stock.\<close>

definition wip_reserved :: "'a mfg_db_scheme \<Rightarrow> uuid \<Rightarrow> bool" where
  "wip_reserved db e \<longleftrightarrow> wip db e \<noteq> rounding_adjustment (posting (configs db e))
     \<and> wip db e \<noteq> manufacturing_overhead (posting (configs db e)) \<and> wip db e \<noteq> inventory_asset (posting (configs db e))
     \<and> wip db e \<notin> gl_inventory ` set (inventory_items db)"

text \<open>An order holds its components in the account from its start until its completion is booked.
  Completing an order whose total cost is below a cent books nothing.\<close>

definition holds_wip :: "work_order_row \<Rightarrow> bool" where
  "holds_wip w \<longleftrightarrow> 1 / 100 \<le> wo_material_cost w
     \<and> (wo_status w = ''in_progress'' \<or> wo_status w = ''completed'' \<and> wo_complete_journal w = None)"

definition in_wip :: "work_order_row \<Rightarrow> decimal" where
  "in_wip w = (if holds_wip w then wo_material_cost w else 0)"

definition orders_in_wip :: "work_order_row list \<Rightarrow> uuid \<Rightarrow> decimal" where
  "orders_in_wip ws e = sum_where (\<lambda>w. wo_entity_id w = e) in_wip ws"

definition order_ok :: "uuid \<Rightarrow> work_order_row \<Rightarrow> bool" where
  "order_ok e w \<longleftrightarrow> (wo_entity_id w = e \<longrightarrow> has_dp 2 (wo_material_cost w))"

definition wip_inv :: "uuid \<Rightarrow> 'a mfg_db_scheme \<Rightarrow> bool" where
  "wip_inv e db \<longleftrightarrow> distinct (map wo_id (work_orders db)) \<and> list_all (order_ok e) (work_orders db)
     \<and> wip_reserved db e \<and> account_net db e (wip db e) = orders_in_wip (work_orders db) e"

section \<open>What stock and posting leave alone\<close>

lemma stock_delta_frame [simp]:
  "journal_lines (apply_stock_delta_tx E (db :: 'a mfg_db_scheme) e i w d) = journal_lines db"
  "work_orders (apply_stock_delta_tx E (db :: 'a mfg_db_scheme) e i w d) = work_orders db"
  "boms (apply_stock_delta_tx E (db :: 'a mfg_db_scheme) e i w d) = boms db"
proof -
  have "journal_lines (snd (ensure_default_warehouse_tx E db e)) = journal_lines db
      \<and> work_orders (snd (ensure_default_warehouse_tx E db e)) = work_orders db
      \<and> boms (snd (ensure_default_warehouse_tx E db e)) = boms db"
    by (auto simp: ensure_default_warehouse_tx_def split: option.splits)
  then show "journal_lines (apply_stock_delta_tx E db e i w d) = journal_lines db"
    "work_orders (apply_stock_delta_tx E db e i w d) = work_orders db"
    "boms (apply_stock_delta_tx E db e i w d) = boms db"
    by (auto simp: apply_stock_delta_tx_def split: prod.splits option.splits)
qed

text \<open>A step of the books that keeps the accounts' roles and the orders.\<close>

definition quiet :: "'a mfg_db_scheme \<Rightarrow> 'a mfg_db_scheme \<Rightarrow> bool" where
  "quiet db db' \<longleftrightarrow> journal_lines db' = journal_lines db \<and> work_orders db' = work_orders db \<and> boms db' = boms db
     \<and> configs db' = configs db
     \<and> gl_inventory ` set (inventory_items db') = gl_inventory ` set (inventory_items db)"

lemma quietD:
  assumes "quiet db db'"
  shows "account_net db' e c = account_net db e c" "wip db' e = wip db e" "wip_reserved db' e = wip_reserved db e"
    "work_orders db' = work_orders db" "configs db' = configs db" "boms db' = boms db"
  using assms by (simp_all add: quiet_def account_net_def wip_reserved_def)

lemma quiet_refl [simp]: "quiet db db"
  by (simp add: quiet_def)

lemma quiet_trans: "quiet a b \<Longrightarrow> quiet b c \<Longrightarrow> quiet a c"
  by (simp add: quiet_def)

lemma updated_items_accounts:
  assumes "\<And>x. gl_inventory (f x) = gl_inventory x"
  shows "gl_inventory ` set (update_item e i f xs) = gl_inventory ` set xs"
proof -
  have "map gl_inventory (update_item e i f xs) = map gl_inventory xs"
    using assms by (simp add: update_item_def)
  from arg_cong [OF this, of set] show ?thesis by simp
qed

lemma issue_quiet:
  assumes "issue_inventory_in_tx E (db :: 'a mfg_db_scheme) e req by' = Inr (r, db')"
  shows "quiet db db'" "ir_gl_inventory r \<in> gl_inventory ` set (inventory_items db)"
proof -
  obtain x where x: "find_item db e (is_item_id req) = Some x" using issue_in_tx_finds [OF assms] by blast
  note D = issue_in_txD [OF assms x]
  have "journal_lines db' = journal_lines db" "work_orders db' = work_orders db" "boms db' = boms db"
    using assms by (auto simp: issue_inventory_in_tx_def Let_def split: if_splits)
  then show "quiet db db'"
    using D(2,6) by (simp add: quiet_def updated_items_accounts issued_item_def)
  show "ir_gl_inventory r \<in> gl_inventory ` set (inventory_items db)"
    using D(7) find_itemD(1) [OF x] by simp
qed

lemma receive_quiet:
  assumes "receive_inventory_in_tx Q E (db :: 'a mfg_db_scheme) e req by' = Inr (i, db')"
  shows "quiet db db'"
proof -
  have acc: "gl_inventory ` set (update_item e' i' (received_item Q q c) xs) = gl_inventory ` set xs" for e' i' q c xs
    by (rule updated_items_accounts) (simp add: received_item_def Let_def)
  obtain rows where "db' = apply_stock_delta_tx (odds E) (db\<lparr>inventory_items := update_item e (rv_item_id req)
        (received_item Q (rv_quantity req) (rv_unit_cost req)) (inventory_items db), stock_movements := rows\<rparr>)
      e (rv_item_id req) (rv_warehouse_id req) (rv_quantity req)"
    using assms unfolding receive_inventory_in_tx_def Let_def by (simp split: if_splits) blast
  then show ?thesis by (simp add: quiet_def acc del: image_set)
qed

lemma post_jeD:
  assumes "post_je L C E (db :: 'a mfg_db_scheme) e d i number desc ls by' = Inr (j, db')" and "wip_reserved db e"
  shows "account_net db' e (wip db e) = account_net db e (wip db e) + request_net L ls (wip db e)"
    "wip_reserved db' e" "wip db' e = wip db e" "work_orders db' = work_orders db" "boms db' = boms db"
proof -
  obtain p en where post: "create_and_post_in_tx L C E db e (work_order_entry d i number desc ls) p by' = Inr (en, db')"
    using assms(1) by (auto simp: post_je_def)
  show "account_net db' e (wip db e) = account_net db e (wip db e) + request_net L ls (wip db e)"
    using posting.post_net_other [OF post] assms(2) by (simp add: wip_reserved_def work_order_entry_def)
  have "work_orders db' = work_orders db" "boms db' = boms db" "inventory_items db' = inventory_items db"
    using posting.post_frame(4) [OF post] by (cases db, cases db', simp)+
  with posting.post_frame(2) [OF post] assms(2)
  show "wip_reserved db' e" "wip db' e = wip db e" "work_orders db' = work_orders db" "boms db' = boms db"
    by (simp_all add: wip_reserved_def)
qed

section \<open>Updating one order\<close>

lemma update_orderD:
  "account_net (update_order e i f db) e' c = account_net db e' c" "wip (update_order e i f db) e = wip db e"
  "wip_reserved (update_order e i f db) e' = wip_reserved db e'" "boms (update_order e i f db) = boms db"
  by (simp_all add: update_order_def account_net_def wip_reserved_def)

lemma update_order_rows:
  assumes "distinct (map wo_id (work_orders db))" and "load_work_order_row db e i = Inr w"
  shows "work_orders (update_order e i f db) = map (\<lambda>x. if wo_id x = wo_id w then f x else x) (work_orders db)"
    "w \<in> set (work_orders db)" "wo_id w = i" "wo_entity_id w = e"
proof -
  show w: "w \<in> set (work_orders db)" "wo_id w = i" "wo_entity_id w = e"
    using assms(2) by (auto simp: load_work_order_row_def dest: find_SomeD)
  have "(wo_id x = i \<and> wo_entity_id x = e) = (wo_id x = wo_id w)" if "x \<in> set (work_orders db)" for x
    using keyed_eq [OF assms(1) that w(1)] w(2,3) by auto
  then show "work_orders (update_order e i f db) = map (\<lambda>x. if wo_id x = wo_id w then f x else x) (work_orders db)"
    by (simp add: update_order_def cong: map_cong)
qed

lemma update_order_inv:
  assumes keys: "distinct (map wo_id (work_orders db))" and ok: "list_all (order_ok e) (work_orders db)"
    and w: "load_work_order_row db e i = Inr w" and f: "wo_id (f w) = wo_id w" "wo_entity_id (f w) = wo_entity_id w" "order_ok e (f w)"
    and reserved: "wip_reserved db e"
    and net: "account_net db e (wip db e) = orders_in_wip (work_orders db) e - in_wip w + in_wip (f w)"
  shows "wip_inv e (update_order e i f db)"
proof -
  note rows = update_order_rows(1) [OF keys w, of f] update_order_rows(2-4) [OF keys w]
  let ?ws = "map (\<lambda>x. if wo_id x = wo_id w then f x else x) (work_orders db)"
  have only: "x = w" if "x \<in> set (work_orders db)" "wo_id x = wo_id w" for x
    using keyed_eq [OF keys that(1) rows(2) that(2)] .
  have same: "map wo_id ?ws = map wo_id (work_orders db)"
    unfolding map_map comp_def by (rule map_cong) (use only f(1) in auto)
  have "distinct (map wo_id ?ws)" unfolding same by (rule keys)
  moreover have "list_all (order_ok e) ?ws" using ok f(3) only by (auto simp: list_all_iff)
  moreover have "orders_in_wip ?ws e = orders_in_wip (work_orders db) e - in_wip w + in_wip (f w)"
    using sum_where_update_one [where key = wo_id and p = "\<lambda>w. wo_entity_id w = e" and f = in_wip and g = f, OF keys rows(2)]
      rows(4) f(2) by (simp add: orders_in_wip_def)
  ultimately show ?thesis using net reserved by (simp add: wip_inv_def rows(1) update_orderD)
qed

section \<open>Starting an order\<close>

lemma add_credit_keys: "fst ` set (add_credit a x cs) = insert a (fst ` set cs)"
  by (induction a x cs rule: add_credit.induct) auto

lemma consume_line_ok:
  assumes "consume_line L E e w m by' kl (material, credits, db) = Inr (material', credits', db')"
    and "fst ` set credits \<subseteq> gl_inventory ` set (inventory_items (db :: 'a mfg_db_scheme))"
  shows "quiet db db' \<and> fst ` set credits' \<subseteq> gl_inventory ` set (inventory_items db')"
proof (cases kl)
  case (Pair k l)
  show ?thesis
  proof (cases "round_dp L (bn_quantity (bv_row l) * m) 4 \<le> 0")
    case True
    with assms show ?thesis by (simp add: consume_line_def Pair)
  next
    case False
    with assms(1) obtain req r db1 where iss: "issue_inventory_in_tx (evens (branch_env E k)) db e req by' = Inr (r, db1)"
      and cr: "credits' = add_credit (ir_gl_inventory r) (ir_total_cost r) credits"
      and db': "quiet db1 db'" "inventory_items db' = inventory_items db1"
      by (auto simp: consume_line_def Pair Let_def quiet_def)
    from issue_quiet [OF iss] cr db' assms(2) show ?thesis
      by (auto simp: add_credit_keys quiet_def)
  qed
qed

lemma consume_lines_ok:
  assumes "try_fold (consume_line L E e w m by') ls (0, [], db) = Inr (raw, credits, db')"
  shows "quiet (db :: 'a mfg_db_scheme) db'" "fst ` set credits \<subseteq> gl_inventory ` set (inventory_items db')"
proof -
  have "case (raw, credits, db') of (_, cs, d) \<Rightarrow> quiet db d \<and> fst ` set cs \<subseteq> gl_inventory ` set (inventory_items d)"
  proof (rule try_fold_invariant [OF assms])
    show "case (0, [], db) of (_, cs, d) \<Rightarrow> quiet db d \<and> fst ` set cs \<subseteq> gl_inventory ` set (inventory_items d)" by simp
    fix x s s'
    assume I: "case s of (_, cs, d) \<Rightarrow> quiet db d \<and> fst ` set cs \<subseteq> gl_inventory ` set (inventory_items d)"
      and step: "consume_line L E e w m by' x s = Inr s'"
    obtain a cs d a' cs' d' where "s = (a, cs, d)" "s' = (a', cs', d')" by (cases s; cases s')
    with consume_line_ok [of L E e w m by' x a cs d a' cs' d'] I step
    show "case s' of (_, cs, d) \<Rightarrow> quiet db d \<and> fst ` set cs \<subseteq> gl_inventory ` set (inventory_items d)"
      by (auto intro: quiet_trans)
  qed
  then show "quiet db db'" "fst ` set credits \<subseteq> gl_inventory ` set (inventory_items db')" by simp_all
qed

lemma start_lines_net:
  assumes "wip_code \<notin> fst ` set credits" and "has_dp 2 material" and "decimal_laws L"
  shows "request_net L (start_lines L base wip_code number material credits) wip_code = material"
proof -
  have "request_net L (map (\<lambda>(a, x). cr_line base (Some 1) (Some (''Components consumed for '' @ number)) a x)
      (filter (\<lambda>(a, x). 0 < x) (map (\<lambda>(a, x). (a, round_dp L x 2)) cs))) wip_code = 0"
    if "wip_code \<notin> fst ` set cs" for cs
    using that by (induction cs) (auto split: prod.splits)
  with assms(1) decimal_laws.round_money_exact [OF assms(3,2)] show ?thesis by (simp add: start_lines_def)
qed

lemma start_inv:
  assumes L: "decimal_laws L" and inv: "wip_inv e db" and ok: "start_work_order L C E db e i by' = Inr (v, db')"
  shows "wip_inv e db'"
proof -
  obtain w bom where w: "load_work_order_row db e i = Inr w" and draft: "wo_status w = ''draft''"
    using ok by (auto simp: start_work_order_def Let_def split: if_splits)
  obtain m ls raw credits db1 where cons: "try_fold (consume_line L (evens E) e w m by') ls (0, [], db) = Inr (raw, credits, db1)"
    and rest: "(if 1 / 100 \<le> round_dp L raw 2
        then \<exists>j db2. post_je L C (odds E) db1 e (today E) i (wo_number w) ''Components issued to production''
            (start_lines L (base_currency (configs db e)) (wip db e) (wo_number w) (round_dp L raw 2) credits) by' = Inr (j, db2)
          \<and> db' = update_order e i (started E (round_dp L raw 2) (Some j)) db2
        else db' = update_order e i (started E (round_dp L raw 2) None) db1)"
    using ok w draft by (auto simp: start_work_order_def Let_def split: if_splits)
  let ?material = "round_dp L raw 2"
  note quiet = consume_lines_ok(1) [OF cons] and keys = consume_lines_ok(2) [OF cons]
  note q = quietD [OF quiet]
  have dp: "has_dp 2 ?material" by (simp add: round_dp_def decimal_laws.round_grid [OF L])
  have inv1: "distinct (map wo_id (work_orders db1))" "list_all (order_ok e) (work_orders db1)" "wip_reserved db1 e"
    "account_net db1 e (wip db e) = orders_in_wip (work_orders db1) e"
    and w1: "load_work_order_row db1 e i = Inr w"
    using inv w by (simp_all add: wip_inv_def q load_work_order_row_def)
  have w0: "in_wip w = 0" using draft by (simp add: in_wip_def holds_wip_def)
  have okw: "order_ok e w" "wo_entity_id w = e" using inv1(2) update_order_rows(2) [OF inv1(1) w1] update_order_rows(4) [OF inv1(1) w1] by (simp_all add: list_all_iff)
  have st: "wo_id (started E ?material j w) = wo_id w" "wo_entity_id (started E ?material j w) = wo_entity_id w"
    "order_ok e (started E ?material j w)" "in_wip (started E ?material j w) = (if 1 / 100 \<le> ?material then ?material else 0)" for j
    using okw dp by (cases j; simp add: started_def order_ok_def in_wip_def holds_wip_def)+
  show ?thesis
  proof (cases "1 / 100 \<le> ?material")
    case True
    with rest obtain j db2 where post: "post_je L C (odds E) db1 e (today E) i (wo_number w) ''Components issued to production''
            (start_lines L (base_currency (configs db e)) (wip db e) (wo_number w) ?material credits) by' = Inr (j, db2)"
      and db': "db' = update_order e i (started E ?material (Some j)) db2" by auto
    note P = post_jeD [OF post inv1(3)]
    have "wip db e \<notin> fst ` set credits" using keys inv1(3) by (auto simp: wip_reserved_def q)
    from start_lines_net [OF this dp L] P(1) inv1(4) have net: "account_net db2 e (wip db2 e) = orders_in_wip (work_orders db2) e + ?material"
      by (simp add: P q)
    have "load_work_order_row db2 e i = Inr w" using w1 by (simp add: load_work_order_row_def P)
    then show ?thesis unfolding db'
      by (rule update_order_inv [rotated 2]) (use inv1 P st True w0 net in simp_all)
  next
    case False
    with rest have db': "db' = update_order e i (started E ?material None) db1" by simp
    show ?thesis unfolding db'
      by (rule update_order_inv [OF inv1(1,2) w1]) (use inv1 st False w0 q in simp_all)
  qed
qed

section \<open>Completing and cancelling\<close>

lemma complete_lines_net:
  assumes "fg \<noteq> work_in_progress ps" and "manufacturing_overhead ps \<noteq> work_in_progress ps"
    and "decimal_laws L" and "has_dp 2 material"
  shows "request_net L (complete_lines base ps fg number material overhead t) (work_in_progress ps)
    = - (if 1 / 100 \<le> material then material else 0)"
  using assms(1,2) decimal_laws.round_money_exact [OF assms(3,4)] by (simp add: complete_lines_def)

lemma finished_account_other:
  "wip_reserved db e \<Longrightarrow> finished_account db e item \<noteq> wip db e"
  by (force simp: finished_account_def wip_reserved_def non_empty_def unwrap_or_def split: option.splits if_splits
      dest: find_itemD(1))

definition completion ::
    "decimal_lib \<Rightarrow> calendar \<Rightarrow> environment \<Rightarrow> 'a mfg_db_scheme \<Rightarrow> 'a mfg_db_scheme \<Rightarrow> uuid \<Rightarrow> uuid \<Rightarrow> work_order_row
      \<Rightarrow> decimal \<Rightarrow> decimal \<Rightarrow> decimal \<Rightarrow> decimal \<Rightarrow> agent_or_user_id \<Rightarrow> 'a mfg_db_scheme \<Rightarrow> bool" where
  "completion L C E db db1 e i w material overhead whole u by' db' \<longleftrightarrow>
     (if 1 / 100 \<le> whole
      then \<exists>j db2. post_je L C (odds E) db1 e (today E) i (wo_number w) ''Finished goods received from production''
            (complete_lines (base_currency (configs db e)) (posting (configs db e)) (finished_account db e (wo_output_item w))
              (wo_number w) material overhead whole) by' = Inr (j, db2)
          \<and> db' = update_order e i (finished E whole u (Some j)) db2
      else db' = update_order e i (finished E whole u None) db1)"

lemma complete_workD:
  assumes ok: "complete_work_order L C Q E db e i by' = Inr (v, db')"
    and w: "load_work_order_row db e i = Inr w" and busy: "wo_status w = ''in_progress''"
  obtains material overhead whole u mid db1 req where "material = round_dp L (wo_material_cost w) 2"
    "overhead = round_dp L (wo_overhead_cost w) 2" "whole = round_dp L (material + overhead) 2"
    "receive_inventory_in_tx Q (evens E) db e req by' = Inr (mid, db1)"
    "completion L C E db db1 e i w material overhead whole u by' db'"
proof -
  let ?material = "round_dp L (wo_material_cost w) 2" and ?overhead = "round_dp L (wo_overhead_cost w) 2"
  let ?whole = "round_dp L (?material + ?overhead) 2"
  let ?u = "if 0 < wo_quantity w then round_dp L (div_dec L ?whole (wo_quantity w)) 4 else 0"
  let ?req = "\<lparr>rv_item_id = wo_output_item w, rv_quantity = wo_quantity w, rv_unit_cost = ?u,
    rv_date = Some (today E), rv_reference_id = Some i, rv_warehouse_id = wo_dest_warehouse w\<rparr>"
  let ?posted = "\<lambda>db1. if 1 / 100 \<le> ?whole
    then and_then (post_je L C (odds E) db1 e (today E) i (wo_number w) ''Finished goods received from production''
        (complete_lines (base_currency (configs db e)) (posting (configs db e)) (finished_account db e (wo_output_item w))
          (wo_number w) ?material ?overhead ?whole) by')
      (\<lambda>(entry, db2). Inr (update_order e i (finished E ?whole ?u (Some entry)) db2))
    else Inr (update_order e i (finished E ?whole ?u None) db1)"
  from ok have "and_then (receive_inventory_in_tx Q (evens E) db e ?req by') (\<lambda>(mid, db1).
       and_then (?posted db1) (\<lambda>db3. and_then (get_work_order db3 e i) (\<lambda>v. Inr (v, db3)))) = Inr (v, db')"
    unfolding complete_work_order_def Let_def w and_then_Inr busy by (simp only: simp_thms if_False)
  then obtain mid db1 where rec: "receive_inventory_in_tx Q (evens E) db e ?req by' = Inr (mid, db1)"
    and "and_then (?posted db1) (\<lambda>db3. and_then (get_work_order db3 e i) (\<lambda>v. Inr (v, db3))) = Inr (v, db')"
    by (elim and_then_eq_InrE) (simp only: split_paired_all prod.case)
  then have posted: "?posted db1 = Inr db'" by auto
  have "completion L C E db db1 e i w ?material ?overhead ?whole ?u by' db'"
    using posted unfolding completion_def
    by (cases "1 / 100 \<le> ?whole")
      (simp_all only: if_True if_False and_then_eq_Inr split_paired_Ex prod.case sum.inject, blast+)
  from that [OF refl refl refl rec this] show thesis .
qed

lemma complete_inv:
  assumes L: "decimal_laws L" and inv: "wip_inv e db" and ok: "complete_work_order L C Q E db e i by' = Inr (v, db')"
  shows "wip_inv e db'"
proof -
  obtain w where w: "load_work_order_row db e i = Inr w" and busy: "wo_status w = ''in_progress''"
    using ok by (auto simp: complete_work_order_def Let_def split: if_splits)
  have keys: "distinct (map wo_id (work_orders db))" and oks: "list_all (order_ok e) (work_orders db)" and res: "wip_reserved db e"
    using inv by (simp_all add: wip_inv_def)
  have okw: "order_ok e w" "wo_entity_id w = e" using oks update_order_rows(2) [OF keys w] update_order_rows(4) [OF keys w] by (simp_all add: list_all_iff)
  obtain material overhead whole u mid db1 req where material_def: "material = round_dp L (wo_material_cost w) 2"
    and overhead_def: "overhead = round_dp L (wo_overhead_cost w) 2" and whole_def: "whole = round_dp L (material + overhead) 2"
    and rec: "receive_inventory_in_tx Q (evens E) db e req by' = Inr (mid, db1)"
    and rest: "completion L C E db db1 e i w material overhead whole u by' db'"
    using complete_workD [OF ok w busy] .
  have mat: "material = wo_material_cost w" "has_dp 2 material"
    using okw decimal_laws.round_exact [OF L] by (simp_all add: material_def order_ok_def round_dp_def)
  note q = quietD [OF receive_quiet [OF rec]]
  have inv1: "distinct (map wo_id (work_orders db1))" "list_all (order_ok e) (work_orders db1)" "wip_reserved db1 e"
    "account_net db1 e (wip db e) = orders_in_wip (work_orders db1) e"
    and w1: "load_work_order_row db1 e i = Inr w"
    using inv w by (simp_all add: wip_inv_def q load_work_order_row_def)
  have st: "wo_id (finished E whole u j w) = wo_id w" "wo_entity_id (finished E whole u j w) = wo_entity_id w"
    "order_ok e (finished E whole u j w)" "in_wip (finished E whole u j w) = (if j = None then in_wip w else 0)" for j
    using okw busy by (simp_all add: finished_def order_ok_def in_wip_def holds_wip_def)
  have w0: "in_wip w = (if 1 / 100 \<le> material then material else 0)" using busy by (simp add: in_wip_def holds_wip_def mat(1))
  show ?thesis
  proof (cases "1 / 100 \<le> whole")
    case True
    with rest obtain j db2 where post: "post_je L C (odds E) db1 e (today E) i (wo_number w) ''Finished goods received from production''
            (complete_lines (base_currency (configs db e)) (posting (configs db e)) (finished_account db e (wo_output_item w))
              (wo_number w) material overhead whole) by' = Inr (j, db2)"
      and db': "db' = update_order e i (finished E whole u (Some j)) db2" by (auto simp: completion_def)
    note P = post_jeD [OF post inv1(3)]
    have over: "manufacturing_overhead (posting (configs db e)) \<noteq> wip db e" using res by (auto simp: wip_reserved_def)
    from complete_lines_net [OF finished_account_other [OF res] over L mat(2)] P(1) inv1(4)
    have net: "account_net db2 e (wip db2 e) = orders_in_wip (work_orders db2) e - in_wip w"
      by (simp add: P q w0)
    have "load_work_order_row db2 e i = Inr w" using w1 by (simp add: load_work_order_row_def P)
    then show ?thesis unfolding db'
      by (rule update_order_inv [rotated 2]) (use inv1 P st net in simp_all)
  next
    case False
    with rest have db': "db' = update_order e i (finished E whole u None) db1" by (simp add: completion_def)
    show ?thesis unfolding db'
      by (rule update_order_inv [OF inv1(1,2) w1]) (use inv1 st q in simp_all)
  qed
qed

lemma cancel_inv:
  assumes inv: "wip_inv e db" and ok: "cancel_work_order db e i = Inr (u, db')"
  shows "wip_inv e db'"
proof -
  obtain w where w: "load_work_order_row db e i = Inr w" and draft: "wo_status w = ''draft''"
    and db': "db' = update_order e i (\<lambda>x. x\<lparr>wo_status := ''cancelled''\<rparr>) db"
    using ok by (auto simp: cancel_work_order_def split: if_splits)
  have parts: "distinct (map wo_id (work_orders db))" "list_all (order_ok e) (work_orders db)" "wip_reserved db e"
    "account_net db e (wip db e) = orders_in_wip (work_orders db) e"
    using inv by (simp_all add: wip_inv_def)
  have "order_ok e w" "wo_entity_id w = e" using parts(2) update_order_rows(2) [OF parts(1) w] update_order_rows(4) [OF parts(1) w] by (simp_all add: list_all_iff)
  with parts draft show ?thesis unfolding db'
    by (intro update_order_inv [OF parts(1,2) w]) (simp_all add: order_ok_def in_wip_def holds_wip_def)
qed

section \<open>Bills of materials and new orders\<close>

lemma create_bom_inv:
  assumes inv: "wip_inv e db" and ok: "create_bom E db e req = Inr (i, db')"
  shows "wip_inv e db'"
  using assms
  by (auto simp: create_bom_def Let_def insert_bom_lines_def wip_inv_def wip_reserved_def account_net_def split: if_splits)

lemma update_bom_inv:
  assumes inv: "wip_inv e db" and ok: "update_bom E db e i req = Inr (u, db')"
  shows "wip_inv e db'"
  using assms
  by (auto simp: update_bom_def insert_bom_lines_def wip_inv_def wip_reserved_def account_net_def split: if_splits)

lemma new_work_order_ok:
  "order_ok e (new_work_order L E e number b req)" "in_wip (new_work_order L E e number b req) = 0"
  by (simp_all add: order_ok_def in_wip_def holds_wip_def new_work_order_def)

lemma create_work_order_inv:
  assumes inv: "wip_inv e db" and ok: "create_work_order L C E db e req = (db', res)"
  shows "wip_inv e db'"
proof -
  have draw: "wip_inv e d" if "next_doc_number C db e k p t = Inr (n, d)" for k p t n d
    using that inv
    by (auto simp: next_doc_number_def Let_def wip_inv_def wip_reserved_def account_net_def split: option.splits if_splits)
  show ?thesis
  proof (cases "\<exists>bom number db1. get_bom db e (cw_bom_id req) = Inr bom
      \<and> next_doc_number C db e ''work_order_next'' ''WO'' (today E) = Inr (number, db1)
      \<and> 0 < cw_quantity req \<and> uuids E 0 \<notin> wo_id ` set (work_orders db1)
      \<and> db' = db1\<lparr>work_orders := work_orders db1 @ [new_work_order L E e number (bm_row bom) req]\<rparr>")
    case True
    then obtain bom number db1 where bom: "get_bom db e (cw_bom_id req) = Inr bom"
      and num: "next_doc_number C db e ''work_order_next'' ''WO'' (today E) = Inr (number, db1)"
      and q: "0 < cw_quantity req" and new: "uuids E 0 \<notin> wo_id ` set (work_orders db1)"
      and db': "db' = db1\<lparr>work_orders := work_orders db1 @ [new_work_order L E e number (bm_row bom) req]\<rparr>" by blast
    have "wo_id (new_work_order L E e number (bm_row bom) req) = uuids E 0" by (simp add: new_work_order_def)
    then show ?thesis using draw [OF num] new
      by (simp add: db' new_work_order_ok wip_inv_def orders_in_wip_def wip_reserved_def account_net_def)
  next
    case False
    then show ?thesis using ok inv draw
      by (auto simp: create_work_order_def Let_def new_work_order_def split: if_splits sum.splits prod.splits)
  qed
qed

section \<open>The transition system\<close>

text \<open>The steps of one tenant, with whatever quantities and overheads the requests carry. The account is
  reserved for work in progress (\<open>wip_reserved\<close>): what other modules and other tenants do leaves the
  tenant's orders and the account alone.\<close>

inductive mfg_step ::
    "decimal_lib \<Rightarrow> calendar \<Rightarrow> (decimal \<Rightarrow> decimal \<Rightarrow> decimal) \<Rightarrow> uuid \<Rightarrow> 'a mfg_db_scheme \<Rightarrow> 'a mfg_db_scheme \<Rightarrow> bool"
  for L C Q e where
  bom_created: "create_bom E db e req = Inr (i, db') \<Longrightarrow> mfg_step L C Q e db db'"
| bom_updated: "update_bom E db e i req = Inr (u, db') \<Longrightarrow> mfg_step L C Q e db db'"
| ordered: "create_work_order L C E db e req = (db', res) \<Longrightarrow> mfg_step L C Q e db db'"
| started: "start_work_order L C E db e i by' = Inr (v, db') \<Longrightarrow> mfg_step L C Q e db db'"
| completed: "complete_work_order L C Q E db e i by' = Inr (v, db') \<Longrightarrow> mfg_step L C Q e db db'"
| cancelled: "cancel_work_order db e i = Inr (u, db') \<Longrightarrow> mfg_step L C Q e db db'"
| mfg_elsewhere: "filter (\<lambda>w. wo_entity_id w = e) (work_orders db') = filter (\<lambda>w. wo_entity_id w = e) (work_orders db) \<Longrightarrow>
    distinct (map wo_id (work_orders db')) \<Longrightarrow> wip_reserved db' e \<Longrightarrow>
    account_net db' e (wip db' e) = account_net db e (wip db e) \<Longrightarrow> mfg_step L C Q e db db'"

inductive mfg_reachable ::
    "decimal_lib \<Rightarrow> calendar \<Rightarrow> (decimal \<Rightarrow> decimal \<Rightarrow> decimal) \<Rightarrow> uuid \<Rightarrow> 'a mfg_db_scheme \<Rightarrow> bool"
  for L C Q e where
  no_orders: "work_orders db = [] \<Longrightarrow> wip_reserved db e \<Longrightarrow> account_net db e (wip db e) = 0 \<Longrightarrow>
    mfg_reachable L C Q e db"
| mfg_more: "mfg_reachable L C Q e db \<Longrightarrow> mfg_step L C Q e db db' \<Longrightarrow> mfg_reachable L C Q e db'"

lemma order_ok_filter: "list_all (order_ok e) ws = list_all (order_ok e) (filter (\<lambda>w. wo_entity_id w = e) ws)"
  by (induction ws) (auto simp: order_ok_def)

lemma orders_filter: "orders_in_wip ws e = orders_in_wip (filter (\<lambda>w. wo_entity_id w = e) ws) e"
  by (induction ws) (auto simp: orders_in_wip_def)

lemma mfg_step_inv:
  assumes L: "decimal_laws L" and "mfg_step L C Q e db db'" and inv: "wip_inv e db"
  shows "wip_inv e db'"
  using assms(2)
proof cases
  case (bom_created E req i)
  then show ?thesis using create_bom_inv [OF inv] by blast
next
  case (bom_updated E i req u)
  then show ?thesis using update_bom_inv [OF inv] by blast
next
  case (ordered E req res)
  then show ?thesis by (rule create_work_order_inv [OF inv])
next
  case (started E i by' v)
  then show ?thesis using start_inv [OF L inv] by blast
next
  case (completed E i by' v)
  then show ?thesis using complete_inv [OF L inv] by blast
next
  case (cancelled i u)
  then show ?thesis using cancel_inv [OF inv] by blast
next
  case mfg_elsewhere
  have "list_all (order_ok e) (work_orders db')"
    using inv order_ok_filter mfg_elsewhere(1) by (metis wip_inv_def)
  moreover have "orders_in_wip (work_orders db') e = orders_in_wip (work_orders db) e"
    using orders_filter mfg_elsewhere(1) by metis
  ultimately show ?thesis using inv mfg_elsewhere(2-4) by (simp add: wip_inv_def)
qed

lemma mfg_reachable_inv:
  assumes "decimal_laws L" and "mfg_reachable L C Q e db"
  shows "wip_inv e db"
  using assms(2)
proof induction
  case (no_orders db)
  then show ?case by (simp add: wip_inv_def orders_in_wip_def)
next
  case (mfg_more db db')
  then show ?case using mfg_step_inv [OF assms(1)] by blast
qed

lemma orders_in_wip_eq:
  "orders_in_wip ws e = sum_where (\<lambda>w. wo_entity_id w = e \<and> 1 / 100 \<le> wo_material_cost w
      \<and> (wo_status w = ''in_progress'' \<or> wo_status w = ''completed'' \<and> wo_complete_journal w = None))
     wo_material_cost ws"
  by (induction ws) (auto simp: orders_in_wip_def in_wip_def holds_wip_def)

section \<open>A sample workshop\<close>

text \<open>A tenant that makes a table (item 52) of four legs (item 51, two each) and one hour of work.\<close>

definition shop_item :: "uuid \<Rightarrow> string \<Rightarrow> decimal \<Rightarrow> decimal \<Rightarrow> inventory_item" where
  "shop_item i sku q c = \<lparr>im_id = i, im_entity_id = 1, im_product_id = None, im_sku = sku, im_description = sku,
     im_uom = ''pcs'', im_costing_method = ''weighted_average'', gl_inventory = ''1500'', gl_cogs = ''6000'', on_hand = q,
     committed = 0, available = q, unit_cost = c, total_value = q * c, reorder_point = None, reorder_quantity = None,
     im_warehouse_id = None, im_is_active = True\<rparr>"

definition shop_product :: product where
  "shop_product = \<lparr>pd_id = 60, pd_entity_id = 1, pd_name = ''Table'', pd_product_type = ''goods'', pd_unit_price = None,
     pd_currency = ''KES'', pd_uom = ''pcs'', pd_sales_account = ''5100'', pd_purchase_account = ''7350'',
     pd_vat_treatment = ''standard'', pd_track_inventory = True, pd_inventory_item_id = Some 52, pd_is_active = True,
     general_prod = None, vat_prod = None\<rparr>"

definition shop_start :: mfg_db where
  "shop_start =
     \<lparr>accounts = [sample_account ''1500'' ''Asset'' False, sample_account (work_in_progress default_posting_setup) ''Asset'' False,
        sample_account ''7900'' ''Expense'' False],
      configs = default_config, fiscal_periods = [sample_period 1 739252 739282 ''open''],
      journal_counter = (\<lambda>_. Some 1), journal_entries = [], journal_lines = [], account_period_balances = [],
      inventory_items = [shop_item 51 ''LEG'' 10 2, shop_item 52 ''TABLE'' 0 0], stock_movements = [], warehouses = [],
      warehouse_stock = [], warehouse_transfers = [],
      doc_counters = (\<lambda>_. Some (\<lambda>_. 1)), customers = [], vendors = [], products = [shop_product],
      general_business_groups = [], general_product_groups = [], vat_business_groups = [], vat_product_groups = [],
      general_posting_matrix = [], vat_posting_matrix = [],
      boms = [], bom_lines = [], work_orders = [], work_order_consumptions = []\<rparr>"

definition shop_env :: "nat \<Rightarrow> environment" where
  "shop_env k = \<lparr>now = int k, today = 739256, uuids = (\<lambda>n. 1000 * k + n)\<rparr>"

definition shop_bom :: create_bom_request where
  "shop_bom = \<lparr>cb_product_id = 60, cb_output_quantity = 1, cb_overhead_cost = 3, cb_notes = None,
     cb_lines = [\<lparr>li_component = 51, li_quantity = 4, li_notes = None\<rparr>]\<rparr>"

definition shop_order :: create_work_order_request where
  "shop_order = \<lparr>cw_bom_id = 1000, cw_quantity = 2, cw_source_warehouse = None, cw_dest_warehouse = None,
     cw_overhead_cost = None, cw_notes = None\<rparr>"

definition shop_db1 :: mfg_db where
  "shop_db1 = snd (projr (create_bom (shop_env 1) shop_start 1 shop_bom))"

definition shop_db2 :: mfg_db where
  "shop_db2 = fst (create_work_order std_decimal gregorian (shop_env 2) shop_db1 1 shop_order)"

definition shop_db3 :: mfg_db where
  "shop_db3 = snd (projr (start_work_order std_decimal gregorian (shop_env 3) shop_db2 1 2000 (User 9)))"

definition order_figures :: "'a mfg_db_scheme \<Rightarrow> (uuid \<times> uuid \<times> string \<times> decimal) list" where
  "order_figures db = map (\<lambda>w. (wo_id w, wo_entity_id w, wo_status w, wo_material_cost w)) (work_orders db)"

lemma shop_started_ok:
  "case start_work_order std_decimal gregorian (shop_env 3) shop_db2 1 2000 (User 9) of
     Inl err \<Rightarrow> False
   | Inr (v, db) \<Rightarrow> order_figures db = [(2000, 1, ''in_progress'', 16)]"
  by code_simp

lemma shop_db1_ok:
  "\<not> isl (create_bom (shop_env 1) shop_start 1 shop_bom)"
  by code_simp

lemma shop_start_reserved:
  "work_orders shop_start = []" "account_net shop_start 1 (wip shop_start 1) = 0"
  "wip_reserved shop_start 1"
  by (simp_all add: shop_start_def account_net_def wip_reserved_def default_config_def default_posting_setup_def
      shop_item_def)

lemma shop_reachable:
  "mfg_reachable std_decimal gregorian (\<lambda>a b. a / b) 1 shop_db3" "order_figures shop_db3 = [(2000, 1, ''in_progress'', 16)]"
proof -
  obtain i where created: "create_bom (shop_env 1) shop_start 1 shop_bom = Inr (i, shop_db1)"
    using shop_db1_ok by (cases "create_bom (shop_env 1) shop_start 1 shop_bom") (auto simp: shop_db1_def)
  obtain v where begun: "start_work_order std_decimal gregorian (shop_env 3) shop_db2 1 2000 (User 9) = Inr (v, shop_db3)"
    and "order_figures shop_db3 = [(2000, 1, ''in_progress'', 16)]"
    using shop_started_ok by (auto simp: shop_db3_def split: sum.splits)
  then show "order_figures shop_db3 = [(2000, 1, ''in_progress'', 16)]" by blast
  have "mfg_reachable std_decimal gregorian (\<lambda>a b. a / b) 1 shop_start"
    by (rule no_orders [OF shop_start_reserved(1,3,2)])
  from mfg_more [OF this bom_created [OF created]]
  have "mfg_reachable std_decimal gregorian (\<lambda>a b. a / b) 1 shop_db1" by (simp add: shop_bom_def)
  from mfg_more [OF this ordered [OF prod.collapse [symmetric]], where req1 = shop_order and E1 = "shop_env 2"]
  have "mfg_reachable std_decimal gregorian (\<lambda>a b. a / b) 1 shop_db2" by (simp add: shop_order_def shop_db2_def)
  from mfg_more [OF this started [OF begun]] show "mfg_reachable std_decimal gregorian (\<lambda>a b. a / b) 1 shop_db3" .
qed

text \<open>
  An order completed with an overhead that cancels its material: the completion is not booked, and
  its components stay in the account.
\<close>

definition free_order :: create_work_order_request where
  "free_order = shop_order\<lparr>cw_overhead_cost := Some (- 16)\<rparr>"

definition shop_free :: mfg_db where
  "shop_free = snd (projr (start_work_order std_decimal gregorian (shop_env 3)
     (fst (create_work_order std_decimal gregorian (shop_env 2) shop_db1 1 free_order)) 1 2000 (User 9)))"

lemma negative_overhead_leaves_wip:
  "case complete_work_order std_decimal gregorian (\<lambda>a b. a / b) (shop_env 4) shop_free 1 2000 (User 9) of
     Inl err \<Rightarrow> False
   | Inr (v, db) \<Rightarrow> order_figures db = [(2000, 1, ''completed'', 16)] \<and> account_net db 1 (wip db 1) = 16"
  by code_simp

text \<open>
  C33: in every state the operations on bills of materials and work orders can reach, the account for
  work in progress of a tenant holds the material cost of exactly its orders that are started and not
  yet completed, and of those whose completion booked no journal because their total cost came to less
  than a cent (material below a cent is never booked). The tenant uses the account for nothing else:
  not for rounding, overheads, stock items or other modules' entries.
\<close>

theorem wip_matches_orders:
  assumes "decimal_laws L" and "mfg_reachable L C Q e db"
  shows "account_net db e (work_in_progress (posting (configs db e)))
    = sum_where (\<lambda>w. wo_entity_id w = e \<and> 1 / 100 \<le> wo_material_cost w
          \<and> (wo_status w = ''in_progress'' \<or> wo_status w = ''completed'' \<and> wo_complete_journal w = None))
        wo_material_cost (work_orders db)"
  using mfg_reachable_inv [OF assms] unfolding wip_inv_def orders_in_wip_eq by simp

theorem wip_matches_orders_witness:
  "account_net shop_db3 1 (work_in_progress (posting (configs shop_db3 1))) = 16"
proof -
  obtain w where w: "work_orders shop_db3 = [w]" "wo_entity_id w = 1" "wo_status w = ''in_progress''" "wo_material_cost w = 16"
    using shop_reachable(2) by (auto simp: order_figures_def)
  show ?thesis
    using wip_matches_orders [OF std.decimal_laws_axioms shop_reachable(1)] w by simp
qed

end
