(* ===== verification/Rbac.thy ===== *)
theory Rbac
  imports Calendar
begin

text \<open>
  Roles and permissions: \<^verbatim>\<open>zavora-erp-core/src/rbac/mod.rs\<close> and \<^verbatim>\<open>services/rbac.rs\<close>. The catalogue of
  permissions and the grants of the built-in roles are generated from one table of resources and
  synchronised into the database at startup; a tenant may add roles of its own. \<open>resolve_permissions\<close>
  is what a role may do; \<open>PermissionCache\<close> remembers its answers.
\<close>

section \<open>Roles\<close>

datatype user_role = Viewer | Editor | Approver | HrManager | Accountant | Admin | Owner

fun role_key :: "user_role \<Rightarrow> string" where
  "role_key Owner = ''Owner''"
| "role_key Admin = ''Admin''"
| "role_key Accountant = ''Accountant''"
| "role_key HrManager = ''HrManager''"
| "role_key Editor = ''Editor''"
| "role_key Approver = ''Approver''"
| "role_key Viewer = ''Viewer''"

definition can_post :: "user_role \<Rightarrow> bool" where
  "can_post r \<longleftrightarrow> r \<in> {Accountant, Admin, Owner}"

definition can_approve :: "user_role \<Rightarrow> bool" where
  "can_approve r \<longleftrightarrow> r \<in> {Approver, Admin, Owner}"

definition can_close_periods :: "user_role \<Rightarrow> bool" where
  "can_close_periods r \<longleftrightarrow> r \<in> {Admin, Owner}"

definition can_manage_users :: "user_role \<Rightarrow> bool" where
  "can_manage_users r \<longleftrightarrow> r \<in> {Admin, Owner}"

definition can_manage_settings :: "user_role \<Rightarrow> bool" where
  "can_manage_settings r \<longleftrightarrow> r \<in> {Admin, Owner}"

definition can_create_drafts :: "user_role \<Rightarrow> bool" where
  "can_create_drafts r \<longleftrightarrow> r \<in> {Editor, Approver, Accountant, Admin, Owner}"

definition can_read :: "user_role \<Rightarrow> bool" where
  "can_read r \<longleftrightarrow> True"

definition can_delete_attachments :: "user_role \<Rightarrow> bool" where
  "can_delete_attachments r \<longleftrightarrow> r \<in> {Admin, Owner}"

section \<open>The catalogue\<close>

record resource =
  rs_key :: string
  rs_category :: string
  rs_label :: string
  rs_verbs :: "string list"

definition resource_row :: "string \<Rightarrow> string \<Rightarrow> string \<Rightarrow> string list \<Rightarrow> resource" where
  "resource_row k c l vs = \<lparr>rs_key = k, rs_category = c, rs_label = l, rs_verbs = vs\<rparr>"

definition verb_label :: "string \<Rightarrow> string" where
  "verb_label v = unwrap_or (map_of
    [(''read'', ''View''), (''create'', ''Create''), (''update'', ''Edit''), (''delete'', ''Delete''), (''post'', ''Post''), (''approve'', ''Approve''), (''reject'', ''Reject''), (''send'', ''Send''), (''void'', ''Void''), (''reverse'', ''Reverse''), (''close'', ''Close/Reopen''), (''run'', ''Run''), (''pay'', ''Pay''), (''convert'', ''Convert''), (''publish'', ''Publish''), (''award'', ''Award''), (''submit'', ''Submit''), (''apply'', ''Apply''), (''categorise'', ''Categorise''), (''reconcile'', ''Reconcile''), (''import'', ''Import''), (''receive'', ''Receive''), (''adjust'', ''Adjust''), (''issue'', ''Issue''), (''remit'', ''Remit''), (''complete'', ''Complete''), (''config'', ''Configure''), (''manage'', ''Manage'')] v) ''Access''"

definition RESOURCES :: "resource list" where
  "RESOURCES = [
    resource_row ''invoice'' ''Sales'' ''Invoices'' [''read'', ''create'', ''update'', ''delete'', ''post'', ''send'', ''void'', ''reverse''],
    resource_row ''credit_note'' ''Sales'' ''Credit Notes'' [''read'', ''create''],
    resource_row ''estimate'' ''Sales'' ''Estimates'' [''read'', ''create'', ''update'', ''delete'', ''send'', ''convert''],
    resource_row ''recurring_invoice'' ''Sales'' ''Recurring Invoices'' [''read'', ''create'', ''update'', ''delete''],
    resource_row ''customer'' ''Receivables'' ''Customers'' [''read'', ''create'', ''update'', ''delete''],
    resource_row ''customer_statement'' ''Receivables'' ''Customer Statements'' [''read'', ''send''],
    resource_row ''bill'' ''Purchases'' ''Bills'' [''read'', ''create'', ''update'', ''delete'', ''approve'', ''post'', ''void''],
    resource_row ''supplier_credit'' ''Purchases'' ''Supplier Credits'' [''read'', ''create''],
    resource_row ''debit_note'' ''Purchases'' ''Debit Notes'' [''read'', ''create''],
    resource_row ''expense_claim'' ''Purchases'' ''Expense Claims'' [''read'', ''create'', ''submit'', ''approve''],
    resource_row ''vendor'' ''Vendors'' ''Vendors'' [''read'', ''create'', ''update'', ''delete''],
    resource_row ''requisition'' ''Procurement'' ''Requisitions'' [''read'', ''create'', ''submit'', ''approve'', ''reject'', ''convert''],
    resource_row ''tender'' ''Procurement'' ''Tenders'' [''read'', ''create'', ''publish'', ''award''],
    resource_row ''purchase_order'' ''Procurement'' ''Purchase Orders'' [''read'', ''create'', ''send'', ''receive''],
    resource_row ''goods_receipt'' ''Procurement'' ''Goods Receipts'' [''read'', ''create''],
    resource_row ''vendor_application'' ''Procurement'' ''Vendor Applications'' [''read'', ''approve'', ''reject''],
    resource_row ''approval_limit'' ''Procurement'' ''Approval Limits'' [''read'', ''config''],
    resource_row ''payment'' ''Banking'' ''Payments'' [''read'', ''create'', ''apply'', ''delete''],
    resource_row ''bank_account'' ''Banking'' ''Bank Accounts'' [''read'', ''create'', ''delete''],
    resource_row ''bank_transaction'' ''Banking'' ''Bank Transactions'' [''read'', ''categorise'', ''reconcile'', ''import''],
    resource_row ''reconciliation'' ''Banking'' ''Reconciliations'' [''read'', ''run'', ''complete''],
    resource_row ''product'' ''Inventory'' ''Products'' [''read'', ''create'', ''update'', ''delete''],
    resource_row ''inventory'' ''Inventory'' ''Inventory'' [''read'', ''adjust'', ''receive'', ''issue''],
    resource_row ''asset'' ''Assets'' ''Fixed Assets'' [''read'', ''create'', ''run''],
    resource_row ''journal'' ''Accounting'' ''Journal Entries'' [''read'', ''post'', ''reverse''],
    resource_row ''account'' ''Accounting'' ''Chart of Accounts'' [''read'', ''create'', ''update''],
    resource_row ''recurring_journal'' ''Accounting'' ''Recurring Journals'' [''read'', ''create'', ''delete'', ''run''],
    resource_row ''period'' ''Accounting'' ''Fiscal Periods'' [''read'', ''close''],
    resource_row ''opening_balance'' ''Accounting'' ''Opening Balances'' [''read'', ''create''],
    resource_row ''dimension'' ''Accounting'' ''Dimensions'' [''read'', ''create''],
    resource_row ''tax_filing'' ''Tax'' ''Tax Filings'' [''read'', ''create'', ''remit''],
    resource_row ''wht_rate'' ''Tax'' ''WHT Rates'' [''read'', ''config''],
    resource_row ''etims'' ''Tax'' ''eTIMS (KRA)'' [''read'', ''config'', ''run''],
    resource_row ''attachment'' ''Documents'' ''Attachments'' [''read'', ''create'', ''delete''],
    resource_row ''posting_group'' ''Accounting'' ''Posting Groups'' [''read'', ''config''],
    resource_row ''fx_rate'' ''FX'' ''FX Rates'' [''read'', ''create'', ''delete'', ''run''],
    resource_row ''report'' ''Reports'' ''Reports'' [''read'', ''export''],
    resource_row ''budget'' ''Reports'' ''Budgets'' [''read'', ''config''],
    resource_row ''custom_report'' ''Reports'' ''Custom Reports'' [''read'', ''create'', ''delete''],
    resource_row ''report_schedule'' ''Reports'' ''Report Schedules'' [''read'', ''create'', ''delete''],
    resource_row ''consolidation'' ''Reports'' ''Consolidation'' [''read''],
    resource_row ''project'' ''Projects'' ''Projects'' [''read'', ''manage''],
    resource_row ''employee'' ''HR'' ''Employees'' [''read'', ''create'', ''update''],
    resource_row ''pay_run'' ''HR'' ''Pay Runs'' [''read'', ''create'', ''approve'', ''post'', ''pay'', ''delete''],
    resource_row ''payroll_config'' ''HR'' ''Payroll Config'' [''read'', ''config''],
    resource_row ''leave'' ''HR'' ''Leave'' [''read'', ''create'', ''approve''],
    resource_row ''leave_type'' ''HR'' ''Leave Types'' [''read'', ''config''],
    resource_row ''holiday'' ''HR'' ''Holidays'' [''read'', ''config''],
    resource_row ''onboarding'' ''HR'' ''Onboarding'' [''read'', ''create'', ''update''],
    resource_row ''crm'' ''CRM'' ''CRM Settings'' [''read'', ''config''],
    resource_row ''lead'' ''CRM'' ''Leads'' [''read'', ''create'', ''update'', ''convert''],
    resource_row ''opportunity'' ''CRM'' ''Opportunities'' [''read'', ''create'', ''update'', ''close''],
    resource_row ''activity'' ''CRM'' ''Activities'' [''read'', ''create'', ''update''],
    resource_row ''ticket'' ''CRM'' ''Tickets'' [''read'', ''create'', ''update''],
    resource_row ''pos_sale'' ''POS'' ''POS Sales'' [''read'', ''create''],
    resource_row ''pos_session'' ''POS'' ''Till Sessions'' [''read'', ''run''],
    resource_row ''pos_stock'' ''POS'' ''POS Stock'' [''read'', ''adjust''],
    resource_row ''user'' ''Admin'' ''Users'' [''read'', ''manage''],
    resource_row ''role'' ''Admin'' ''Roles'' [''read'', ''create'', ''update'', ''delete''],
    resource_row ''settings'' ''Admin'' ''Settings'' [''read'', ''config''],
    resource_row ''notification_provider'' ''Admin'' ''Notification Providers'' [''read'', ''config''],
    resource_row ''audit'' ''Admin'' ''Audit Trail'' [''read''],
    resource_row ''portal_invite'' ''Admin'' ''Portal Invites'' [''create'']]"

record permission =
  pm_key :: string
  pm_category :: string
  pm_label :: string
  pm_description :: string

definition permission_key :: "resource \<Rightarrow> string \<Rightarrow> string" where
  "permission_key r v = rs_key r @ ''.'' @ v"

definition permission_catalog :: "permission list" where
  "permission_catalog = concat (map (\<lambda>r. map (\<lambda>v.
     \<lparr>pm_key = permission_key r v, pm_category = rs_category r, pm_label = verb_label v @ '' '' @ rs_label r,
      pm_description = verb_label v @ '' - '' @ rs_label r\<rparr>) (rs_verbs r)) RESOURCES)"

section \<open>The built-in roles\<close>

definition SYSTEM_ROLES :: "(user_role \<times> string) list" where
  "SYSTEM_ROLES =
     [(Owner, ''Full access to everything, including billing and ownership transfer''),
      (Admin, ''Manage the workspace, users and all data''),
      (Accountant, ''Create, post and manage the books; cannot approve or administer users (SoD)''),
      (HrManager, ''Full HR & payroll without finance/GL/admin access''),
      (Editor, ''Create and edit operational records; cannot post, approve or delete''),
      (Approver, ''Authorize (approve) documents; cannot create or post (SoD)''),
      (Viewer, ''Read-only access to non-sensitive data (no payroll/HR/admin)'')]"

definition APPROVE_VERBS :: "string list" where
  "APPROVE_VERBS = [''approve'', ''reject'', ''award'', ''publish'']"

definition CONFIG_VERBS :: "string list" where
  "CONFIG_VERBS = [''config'', ''manage'']"

definition EDITOR_VERBS :: "string list" where
  "EDITOR_VERBS = [''create'', ''update'', ''submit'', ''convert'', ''apply'', ''adjust'', ''receive'', ''issue'',
     ''categorise'', ''import'']"

definition FINANCE_CATS :: "string list" where
  "FINANCE_CATS = [''Sales'', ''Receivables'', ''Purchases'', ''Vendors'', ''Banking'', ''Accounting'', ''Tax'', ''FX'',
     ''Assets'']"

definition OPS_CATS :: "string list" where
  "OPS_CATS = [''Sales'', ''Receivables'', ''Purchases'', ''Vendors'', ''Inventory'', ''CRM'', ''Procurement'']"

definition SENSITIVE_RESOURCES :: "string list" where
  "SENSITIVE_RESOURCES = [''pay_run'', ''employee'', ''payroll_config'', ''audit'']"

definition role_grants :: "user_role \<Rightarrow> resource \<Rightarrow> string \<Rightarrow> bool" where
  "role_grants role res verb =
     (let sensitive = rs_key res \<in> set SENSITIVE_RESOURCES;
          is_admin_cat = rs_category res = ''Admin'';
          general_read = verb = ''read'' \<and> \<not> sensitive \<and> \<not> is_admin_cat in
      case role of
        Owner \<Rightarrow> True
      | Admin \<Rightarrow> True
      | Viewer \<Rightarrow> general_read \<or> (rs_key res = ''report'' \<and> verb = ''export'')
      | Editor \<Rightarrow> general_read \<or> (rs_category res \<in> set OPS_CATS \<and> verb \<in> set EDITOR_VERBS)
      | Approver \<Rightarrow> verb = ''read'' \<or> verb \<in> set APPROVE_VERBS
      | Accountant \<Rightarrow> verb = ''read''
          \<or> (rs_category res \<in> set FINANCE_CATS \<and> verb \<notin> set APPROVE_VERBS \<and> verb \<notin> set CONFIG_VERBS)
          \<or> rs_category res = ''Reports''
          \<or> (rs_key res = ''pay_run'' \<and> (verb = ''post'' \<or> verb = ''pay''))
      | HrManager \<Rightarrow> rs_category res = ''HR'')"

text \<open>Sets of keys are lists in the order they are filled.\<close>

definition seeded_permissions_for :: "user_role \<Rightarrow> string list" where
  "seeded_permissions_for role = concat (map (\<lambda>r. map (permission_key r) (filter (role_grants role r) (rs_verbs r))) RESOURCES)"

definition system_role_permissions :: "(string \<times> string) list" where
  "system_role_permissions =
     concat (map (\<lambda>(role, _). map (\<lambda>perm. (role_key role, perm)) (seeded_permissions_for role)) SYSTEM_ROLES)"

section \<open>The tables\<close>

record role_row =
  ro_id :: uuid
  ro_entity_id :: "uuid option"
  ro_key :: string
  ro_name :: string
  ro_description :: "string option"
  ro_is_system :: bool
  ro_is_assignable :: bool
  ro_created_at :: timestamp
  ro_updated_at :: timestamp

record role_holder =
  rh_entity_id :: uuid
  rh_role :: string
  rh_is_active :: bool

record rbac_db =
  permissions :: "permission list"
  roles :: "role_row list"
  role_permissions :: "(uuid \<times> string) list"
  role_holders :: "role_holder list"

text \<open>Deleting a permission or a role deletes its grants.\<close>

definition delete_permissions :: "(permission \<Rightarrow> bool) \<Rightarrow> rbac_db \<Rightarrow> rbac_db" where
  "delete_permissions P db =
     (let gone = map pm_key (filter P (permissions db)) in
      db\<lparr>permissions := filter (\<lambda>p. \<not> P p) (permissions db),
         role_permissions := filter (\<lambda>(i, k). k \<notin> set gone) (role_permissions db)\<rparr>)"

definition upsert_permission :: "permission \<Rightarrow> rbac_db \<Rightarrow> rbac_db" where
  "upsert_permission p db =
     (if list_ex (\<lambda>x. pm_key x = pm_key p) (permissions db)
      then db\<lparr>permissions := map (\<lambda>x. if pm_key x = pm_key p then p else x) (permissions db)\<rparr>
      else db\<lparr>permissions := permissions db @ [p]\<rparr>)"

definition sync_catalog :: "rbac_db \<Rightarrow> rbac_db" where
  "sync_catalog db =
     delete_permissions (\<lambda>p. pm_key p \<notin> set (map pm_key permission_catalog)) (fold upsert_permission permission_catalog db)"

text \<open>The foreign key of a grant to the catalogue, and \<open>ON CONFLICT DO NOTHING\<close>.\<close>

definition insert_grant :: "uuid \<Rightarrow> string \<Rightarrow> rbac_db \<Rightarrow> rbac_db erp_result" where
  "insert_grant i k db =
     (if \<not> list_ex (\<lambda>p. pm_key p = k) (permissions db)
      then Inl (Database ''insert violates foreign key constraint'')
      else if (i, k) \<in> set (role_permissions db) then Inr db
      else Inr (db\<lparr>role_permissions := role_permissions db @ [(i, k)]\<rparr>))"

definition upsert_system_role :: "environment \<Rightarrow> nat \<times> user_role \<times> string \<Rightarrow> rbac_db \<Rightarrow> rbac_db erp_result" where
  "upsert_system_role E = (\<lambda>(n, role, desc) db.
     (case List.find (\<lambda>r. ro_key r = role_key role \<and> ro_entity_id r = None) (roles db) of
        Some x \<Rightarrow> Inr (db\<lparr>roles := map (\<lambda>r. if ro_id r = ro_id x
            then r\<lparr>ro_name := role_key role, ro_description := Some desc, ro_is_system := True, ro_is_assignable := True,
                   ro_updated_at := now E\<rparr> else r) (roles db)\<rparr>)
      | None \<Rightarrow>
          if uuids E n \<in> ro_id ` set (roles db) then Inl (Database ''duplicate key value violates unique constraint'')
          else Inr (db\<lparr>roles := roles db @
            [\<lparr>ro_id = uuids E n, ro_entity_id = None, ro_key = role_key role, ro_name = role_key role,
              ro_description = Some desc, ro_is_system = True, ro_is_assignable = True,
              ro_created_at = now E, ro_updated_at = now E\<rparr>]\<rparr>)))"

text \<open>The grants of one role become exactly the wanted ones.\<close>

definition reconcile_role :: "uuid \<times> string list \<Rightarrow> rbac_db \<Rightarrow> rbac_db erp_result" where
  "reconcile_role = (\<lambda>(i, want) db.
     try_fold (insert_grant i) want
       (db\<lparr>role_permissions := filter (\<lambda>(j, k). \<not> (j = i \<and> k \<notin> set want)) (role_permissions db)\<rparr>))"

definition desired_grants :: "rbac_db \<Rightarrow> (uuid \<times> string list) list" where
  "desired_grants db =
     (let id_by_key = map_of (rev (map (\<lambda>r. (ro_key r, ro_id r)) (filter (\<lambda>r. ro_entity_id r = None \<and> ro_is_system r) (roles db))))
      in List.map_filter (\<lambda>k. map_option (\<lambda>i. (i, map snd (filter (\<lambda>(k', _). k' = k) system_role_permissions))) (id_by_key k))
           (remdups (map fst system_role_permissions)))"

definition seed_system_roles :: "environment \<Rightarrow> rbac_db \<Rightarrow> rbac_db erp_result" where
  "seed_system_roles E db =
     and_then (try_fold (upsert_system_role E) (enumerate 0 SYSTEM_ROLES) db) (\<lambda>db1.
       try_fold reconcile_role (desired_grants db1) db1)"

section \<open>What a role may do\<close>

text \<open>\<open>ORDER BY entity_id NULLS LAST LIMIT 1\<close>: a tenant's own role comes before the built-in one.\<close>

definition role_for :: "rbac_db \<Rightarrow> uuid \<Rightarrow> string \<Rightarrow> role_row option" where
  "role_for db e key =
     (case List.find (\<lambda>r. ro_key r = key \<and> ro_entity_id r = Some e) (roles db) of
        Some r \<Rightarrow> Some r
      | None \<Rightarrow> List.find (\<lambda>r. ro_key r = key \<and> ro_entity_id r = None \<and> ro_is_system r) (roles db))"

definition grants_of :: "rbac_db \<Rightarrow> uuid \<Rightarrow> string list" where
  "grants_of db i = map snd (filter (\<lambda>(j, k). j = i) (role_permissions db))"

definition resolve_permissions :: "rbac_db \<Rightarrow> uuid \<Rightarrow> string \<Rightarrow> string list" where
  "resolve_permissions db e key = (case role_for db e key of None \<Rightarrow> [] | Some r \<Rightarrow> grants_of db (ro_id r))"

type_synonym permission_cache = "uuid \<times> string \<Rightarrow> string list option"

definition effective :: "rbac_db \<Rightarrow> permission_cache \<Rightarrow> uuid \<Rightarrow> string \<Rightarrow> string list \<times> permission_cache" where
  "effective db cache e key =
     (case cache (e, key) of
        Some hit \<Rightarrow> (hit, cache)
      | None \<Rightarrow> (let perms = resolve_permissions db e key in (perms, cache((e, key) \<mapsto> perms))))"

definition has_permission :: "rbac_db \<Rightarrow> permission_cache \<Rightarrow> uuid \<Rightarrow> string \<Rightarrow> string \<Rightarrow> bool \<times> permission_cache" where
  "has_permission db cache e key perm = (let (perms, cache') = effective db cache e key in (perm \<in> set perms, cache'))"

definition invalidate :: "permission_cache \<Rightarrow> uuid \<Rightarrow> string \<Rightarrow> permission_cache" where
  "invalidate cache e key = cache((e, key) := None)"

definition clear :: "permission_cache \<Rightarrow> permission_cache" where
  "clear cache = Map.empty"

section \<open>Administration\<close>

definition list_permissions :: "rbac_db \<Rightarrow> permission list" where
  "list_permissions db = sort_key pm_category (sort_key pm_key (permissions db))"

definition get_role_with_perms :: "rbac_db \<Rightarrow> uuid \<Rightarrow> uuid \<Rightarrow> (role_row \<times> string list) erp_result" where
  "get_role_with_perms db e i =
     and_then (ok_or (List.find (\<lambda>r. ro_id r = i \<and> (ro_entity_id r = Some e \<or> ro_entity_id r = None)) (roles db))
         (NotFound ''role'' i))
       (\<lambda>r. Inr (r, grants_of db i))"

definition is_ascii_alphanumeric :: "char \<Rightarrow> bool" where
  "is_ascii_alphanumeric c \<longleftrightarrow>
     (let n = of_char c :: int in (48 \<le> n \<and> n \<le> 57) \<or> (65 \<le> n \<and> n \<le> 90) \<or> (97 \<le> n \<and> n \<le> 122))"

text \<open>\<open>replace("--", "-")\<close>, from the left without overlap.\<close>

fun replace_dashes :: "string \<Rightarrow> string" where
  "replace_dashes (a # b # s) =
     (if a = CHR ''-'' \<and> b = CHR ''-'' then CHR ''-'' # replace_dashes s else a # replace_dashes (b # s))"
| "replace_dashes s = s"

fun has_dashes :: "string \<Rightarrow> bool" where
  "has_dashes (a # b # s) \<longleftrightarrow> (a = CHR ''-'' \<and> b = CHR ''-'') \<or> has_dashes (b # s)"
| "has_dashes s \<longleftrightarrow> False"

lemma replace_dashes_le: "length (replace_dashes s) \<le> length s"
  by (induction s rule: replace_dashes.induct) auto

lemma replace_dashes_less: "has_dashes s \<Longrightarrow> length (replace_dashes s) < length s"
proof (induction s rule: replace_dashes.induct)
  case (1 a b s)
  then show ?case using replace_dashes_le [of s] by auto
qed auto

function squeeze_dashes :: "string \<Rightarrow> string" where
  "squeeze_dashes s = (if has_dashes s then squeeze_dashes (replace_dashes s) else s)"
  by pat_completeness auto
termination
  by (relation "measure length") (auto simp: replace_dashes_less)

declare squeeze_dashes.simps [simp del]

definition slugify :: "string \<Rightarrow> string" where
  "slugify name =
     (let s = squeeze_dashes (map (\<lambda>c. if is_ascii_alphanumeric c then c else CHR ''-'') (lower (trim name)));
          t = rev (dropWhile (\<lambda>c. c = CHR ''-'') (rev (dropWhile (\<lambda>c. c = CHR ''-'') s)))
      in if t = [] then ''role'' else t)"

text \<open>The query returns one row per known key, so a key named twice is refused like an unknown one.\<close>

definition validate_permission_keys :: "rbac_db \<Rightarrow> string list \<Rightarrow> unit erp_result" where
  "validate_permission_keys db keys =
     (if keys = [] then Inr ()
      else if length (filter (\<lambda>p. pm_key p \<in> set keys) (permissions db)) \<noteq> length keys
      then Inl (ValidationFailed ''One or more permission keys are not recognised'')
      else Inr ())"

definition key_taken :: "rbac_db \<Rightarrow> uuid \<Rightarrow> string \<Rightarrow> bool" where
  "key_taken db e key \<longleftrightarrow>
     list_ex (\<lambda>r. ro_key r = key \<and> (ro_entity_id r = Some e \<or> ro_entity_id r = None)) (roles db)"

definition numbered_key :: "string \<Rightarrow> nat \<Rightarrow> string" where
  "numbered_key base n = base @ ''-'' @ show_nat n"

lemma show_nat_inject [simp]: "show_nat n = show_nat m \<longleftrightarrow> n = m"
  using padded_inject [of 0 n m] by (simp add: pad_zero_def)

lemma taken_finite: "finite {m. n \<le> m \<and> key_taken db e (numbered_key base m)}"
proof (rule finite_subset)
  show "{m. n \<le> m \<and> key_taken db e (numbered_key base m)} \<subseteq> numbered_key base -` (ro_key ` set (roles db))"
    by (auto simp: key_taken_def list_ex_iff vimage_def image_iff) (metis, metis)
  show "finite (numbered_key base -` (ro_key ` set (roles db)))"
    by (rule finite_vimageI) (auto simp: inj_on_def numbered_key_def)
qed

function free_numbered_key :: "rbac_db \<Rightarrow> uuid \<Rightarrow> string \<Rightarrow> nat \<Rightarrow> string" where
  "free_numbered_key db e base n =
     (if key_taken db e (numbered_key base n) then free_numbered_key db e base (n + 1) else numbered_key base n)"
  by pat_completeness auto
termination
proof (relation "measure (\<lambda>(db, e, base, n). card {m. n \<le> m \<and> key_taken db e (numbered_key base m)})")
  fix db e base n
  assume taken: "key_taken db e (numbered_key base n)"
  let ?A = "{m. n + 1 \<le> m \<and> key_taken db e (numbered_key base m)}"
  let ?B = "{m. n \<le> m \<and> key_taken db e (numbered_key base m)}"
  have "n \<in> ?B" "n \<notin> ?A" "?A \<subseteq> ?B" using taken by auto
  then have "?A \<subset> ?B" by blast
  from psubset_card_mono [OF taken_finite this]
  show "((db, e, base, n + 1), db, e, base, n)
    \<in> measure (\<lambda>(db, e, base, n). card {m. n \<le> m \<and> key_taken db e (numbered_key base m)})"
    by simp
qed simp

declare free_numbered_key.simps [simp del]

definition free_key :: "rbac_db \<Rightarrow> uuid \<Rightarrow> string \<Rightarrow> string" where
  "free_key db e base = (if key_taken db e base then free_numbered_key db e base 2 else base)"

definition create_custom_role ::
    "environment \<Rightarrow> rbac_db \<Rightarrow> uuid \<Rightarrow> string \<Rightarrow> string option \<Rightarrow> string list \<Rightarrow> (uuid \<times> rbac_db) erp_result" where
  "create_custom_role E db e name description perms =
     (let name = trim name in
      if name = [] then Inl (ValidationFailed ''Role name is required'')
      else and_then (validate_permission_keys db perms) (\<lambda>_.
        let r = \<lparr>ro_id = uuids E 0, ro_entity_id = Some e, ro_key = free_key db e (slugify name), ro_name = name,
                 ro_description = description, ro_is_system = False, ro_is_assignable = True,
                 ro_created_at = now E, ro_updated_at = now E\<rparr> in
        if ro_id r \<in> ro_id ` set (roles db) then Inl (Database ''duplicate key value violates unique constraint'')
        else and_then (try_fold (insert_grant (ro_id r)) perms (db\<lparr>roles := roles db @ [r]\<rparr>)) (\<lambda>db1. Inr (ro_id r, db1))))"

text \<open>\<open>SET name = COALESCE($2, name), description = COALESCE($3, description)\<close>, when either is given.\<close>

definition renamed_role :: "environment \<Rightarrow> string option \<Rightarrow> string option \<Rightarrow> role_row \<Rightarrow> role_row" where
  "renamed_role E name description r =
     r\<lparr>ro_name := unwrap_or (map_option trim name) (ro_name r),
       ro_description := (case description of None \<Rightarrow> ro_description r | Some d \<Rightarrow> Some d), ro_updated_at := now E\<rparr>"

definition rename_role :: "environment \<Rightarrow> uuid \<Rightarrow> string option \<Rightarrow> string option \<Rightarrow> rbac_db \<Rightarrow> rbac_db" where
  "rename_role E i name description db =
     (if name = None \<and> description = None then db
      else db\<lparr>roles := map (\<lambda>r. if ro_id r = i then renamed_role E name description r else r) (roles db)\<rparr>)"

definition update_custom_role ::
    "environment \<Rightarrow> rbac_db \<Rightarrow> uuid \<Rightarrow> uuid \<Rightarrow> string option \<Rightarrow> string option \<Rightarrow> string list option
      \<Rightarrow> rbac_db erp_result" where
  "update_custom_role E db e i name description perms =
     and_then (get_role_with_perms db e i) (\<lambda>(role, _).
     if ro_is_system role \<or> ro_entity_id role \<noteq> Some e
     then Inl (ValidationFailed ''Built-in roles cannot be edited. Duplicate it to customise.'')
     else and_then (case perms of None \<Rightarrow> Inr () | Some keys \<Rightarrow> validate_permission_keys db keys) (\<lambda>_.
       case perms of
         None \<Rightarrow> Inr (rename_role E i name description db)
       | Some keys \<Rightarrow> try_fold (insert_grant i) keys
           ((rename_role E i name description db)\<lparr>role_permissions := filter (\<lambda>(j, k). j \<noteq> i) (role_permissions db)\<rparr>)))"

definition delete_custom_role :: "rbac_db \<Rightarrow> uuid \<Rightarrow> uuid \<Rightarrow> rbac_db erp_result" where
  "delete_custom_role db e i =
     and_then (get_role_with_perms db e i) (\<lambda>(role, _).
     if ro_is_system role \<or> ro_entity_id role \<noteq> Some e
     then Inl (ValidationFailed ''Built-in roles cannot be deleted.'')
     else
       (let in_use = length (filter (\<lambda>u. rh_entity_id u = e \<and> rh_role u = ro_key role \<and> rh_is_active u) (role_holders db)) in
        if 0 < in_use
        then Inl (ValidationFailed (show_nat in_use @ '' active user(s) still have this role. Reassign them first.''))
        else
          Inr (db\<lparr>roles := filter (\<lambda>r. \<not> (ro_id r = i \<and> ro_entity_id r = Some e)) (roles db),
                  role_permissions := filter (\<lambda>(j, k). j \<noteq> i) (role_permissions db)\<rparr>)))"

end
