(* ===== verification/Route_Permissions.thy ===== *)
theory Route_Permissions
  imports Rbac
begin

text \<open>
  The access matrix of the HTTP interface, \<^verbatim>\<open>zavora-erp-api/src/middleware/route_perms.rs\<close>: what every
  protected route requires, by area, in the order of the source.
\<close>

datatype access = Perm string | SelfScoped

definition ledger_and_sales_routes :: "(string \<times> string \<times> access) list" where
  "ledger_and_sales_routes = [
    (''GET'', ''/api/v1/dashboard'', SelfScoped),
    (''GET'', ''/api/v1/accounts'', Perm ''account.read''),
    (''POST'', ''/api/v1/accounts'', Perm ''account.create''),
    (''GET'', ''/api/v1/accounts/{code}'', Perm ''account.read''),
    (''PUT'', ''/api/v1/accounts/{code}'', Perm ''account.update''),
    (''POST'', ''/api/v1/accounts/seed'', Perm ''account.create''),
    (''GET'', ''/api/v1/periods'', Perm ''period.read''),
    (''POST'', ''/api/v1/periods'', Perm ''period.close''),
    (''POST'', ''/api/v1/periods/{id}/close'', Perm ''period.close''),
    (''POST'', ''/api/v1/periods/{id}/reopen'', Perm ''period.close''),
    (''POST'', ''/api/v1/periods/year-end-close'', Perm ''period.close''),
    (''GET'', ''/api/v1/journal-entries'', Perm ''journal.read''),
    (''POST'', ''/api/v1/journal-entries'', Perm ''journal.post''),
    (''POST'', ''/api/v1/journal-entries/validate'', Perm ''journal.read''),
    (''GET'', ''/api/v1/journal-entries/{id}'', Perm ''journal.read''),
    (''POST'', ''/api/v1/journal-entries/{id}/reverse'', Perm ''journal.reverse''),
    (''GET'', ''/api/v1/customers'', Perm ''customer.read''),
    (''POST'', ''/api/v1/customers'', Perm ''customer.create''),
    (''GET'', ''/api/v1/customers/{id}'', Perm ''customer.read''),
    (''PUT'', ''/api/v1/customers/{id}'', Perm ''customer.update''),
    (''GET'', ''/api/v1/customers/{id}/statement'', Perm ''customer_statement.read''),
    (''POST'', ''/api/v1/customers/{id}/send-statement'', Perm ''customer_statement.send''),
    (''GET'', ''/api/v1/vendors'', Perm ''vendor.read''),
    (''POST'', ''/api/v1/vendors'', Perm ''vendor.create''),
    (''GET'', ''/api/v1/vendors/{id}'', Perm ''vendor.read''),
    (''PUT'', ''/api/v1/vendors/{id}'', Perm ''vendor.update''),
    (''GET'', ''/api/v1/employees'', Perm ''employee.read''),
    (''POST'', ''/api/v1/employees'', Perm ''employee.create''),
    (''GET'', ''/api/v1/employees/{id}'', Perm ''employee.read''),
    (''PUT'', ''/api/v1/employees/{id}'', Perm ''employee.update''),
    (''GET'', ''/api/v1/products'', Perm ''product.read''),
    (''POST'', ''/api/v1/products'', Perm ''product.create''),
    (''GET'', ''/api/v1/products/{id}'', Perm ''product.read''),
    (''PUT'', ''/api/v1/products/{id}'', Perm ''product.update''),
    (''DELETE'', ''/api/v1/products/{id}'', Perm ''product.delete''),
    (''GET'', ''/api/v1/invoices'', Perm ''invoice.read''),
    (''POST'', ''/api/v1/invoices'', Perm ''invoice.create''),
    (''GET'', ''/api/v1/invoices/{id}'', Perm ''invoice.read''),
    (''GET'', ''/api/v1/invoices/{id}/pay-link'', Perm ''invoice.read''),
    (''PUT'', ''/api/v1/invoices/{id}'', Perm ''invoice.update''),
    (''DELETE'', ''/api/v1/invoices/{id}'', Perm ''invoice.delete''),
    (''GET'', ''/api/v1/invoices/{id}/document'', Perm ''invoice.read''),
    (''POST'', ''/api/v1/invoices/{id}/post'', Perm ''invoice.post''),
    (''POST'', ''/api/v1/invoices/{id}/send'', Perm ''invoice.send''),
    (''POST'', ''/api/v1/invoices/{id}/write-off'', Perm ''invoice.void''),
    (''POST'', ''/api/v1/invoices/{id}/credit-note'', Perm ''credit_note.create''),
    (''POST'', ''/api/v1/invoices/{id}/etims-transmit'', Perm ''invoice.send''),
    (''GET'', ''/api/v1/invoice-templates'', Perm ''settings.read''),
    (''POST'', ''/api/v1/invoice-templates'', Perm ''settings.config''),
    (''GET'', ''/api/v1/estimates'', Perm ''estimate.read''),
    (''POST'', ''/api/v1/estimates'', Perm ''estimate.create''),
    (''GET'', ''/api/v1/estimates/{id}'', Perm ''estimate.read''),
    (''PUT'', ''/api/v1/estimates/{id}'', Perm ''estimate.update''),
    (''DELETE'', ''/api/v1/estimates/{id}'', Perm ''estimate.delete''),
    (''GET'', ''/api/v1/estimates/{id}/document'', Perm ''estimate.read''),
    (''POST'', ''/api/v1/estimates/{id}/convert'', Perm ''estimate.convert''),
    (''POST'', ''/api/v1/estimates/{id}/send'', Perm ''estimate.send''),
    (''POST'', ''/api/v1/estimates/{id}/accept'', Perm ''estimate.update''),
    (''POST'', ''/api/v1/estimates/{id}/decline'', Perm ''estimate.update''),
    (''GET'', ''/api/v1/recurring-invoices'', Perm ''recurring_invoice.read''),
    (''POST'', ''/api/v1/recurring-invoices'', Perm ''recurring_invoice.create''),
    (''PUT'', ''/api/v1/recurring-invoices/{id}'', Perm ''recurring_invoice.update''),
    (''DELETE'', ''/api/v1/recurring-invoices/{id}'', Perm ''recurring_invoice.delete''),
    (''GET'', ''/api/v1/recurring-invoices/{id}/document'', Perm ''recurring_invoice.read''),
    (''GET'', ''/api/v1/recurring-invoices/{id}/invoices'', Perm ''recurring_invoice.read''),
    (''GET'', ''/api/v1/notifications'', SelfScoped),
    (''GET'', ''/api/v1/notifications/unread-count'', SelfScoped),
    (''GET'', ''/api/v1/notifications/delivery'', Perm ''notification_provider.read''),
    (''GET'', ''/api/v1/notifications/delivery/stats'', Perm ''notification_provider.read''),
    (''GET'', ''/api/v1/notification-settings'', Perm ''notification_provider.read''),
    (''PUT'', ''/api/v1/notification-settings'', Perm ''notification_provider.config''),
    (''GET'', ''/api/v1/notification-providers'', Perm ''notification_provider.read''),
    (''PUT'', ''/api/v1/notification-providers'', Perm ''notification_provider.config''),
    (''POST'', ''/api/v1/notification-providers/{channel}/test'', Perm ''notification_provider.config''),
    (''POST'', ''/api/v1/notifications/mark-all-read'', SelfScoped),
    (''PATCH'', ''/api/v1/notifications/{id}/read'', SelfScoped)]"

definition purchase_routes :: "(string \<times> string \<times> access) list" where
  "purchase_routes = [
    (''GET'', ''/api/v1/bills'', Perm ''bill.read''),
    (''POST'', ''/api/v1/bills'', Perm ''bill.create''),
    (''GET'', ''/api/v1/bills/{id}'', Perm ''bill.read''),
    (''PUT'', ''/api/v1/bills/{id}'', Perm ''bill.update''),
    (''DELETE'', ''/api/v1/bills/{id}'', Perm ''bill.delete''),
    (''POST'', ''/api/v1/bills/{id}/approve'', Perm ''bill.approve''),
    (''POST'', ''/api/v1/bills/{id}/post'', Perm ''bill.post''),
    (''GET'', ''/api/v1/vendor-applications'', Perm ''vendor_application.read''),
    (''POST'', ''/api/v1/vendor-applications/{id}/approve'', Perm ''vendor_application.approve''),
    (''POST'', ''/api/v1/vendor-applications/{id}/reject'', Perm ''vendor_application.reject''),
    (''GET'', ''/api/v1/tenders'', Perm ''tender.read''),
    (''POST'', ''/api/v1/tenders'', Perm ''tender.create''),
    (''GET'', ''/api/v1/tenders/{id}'', Perm ''tender.read''),
    (''POST'', ''/api/v1/tenders/{id}/publish'', Perm ''tender.publish''),
    (''GET'', ''/api/v1/tenders/{id}/bids'', Perm ''tender.read''),
    (''POST'', ''/api/v1/tenders/{id}/award'', Perm ''tender.award''),
    (''GET'', ''/api/v1/approval-limits'', Perm ''approval_limit.read''),
    (''PUT'', ''/api/v1/approval-limits'', Perm ''approval_limit.config''),
    (''GET'', ''/api/v1/pos/session'', Perm ''pos_session.read''),
    (''GET'', ''/api/v1/pos/sessions'', Perm ''pos_session.read''),
    (''POST'', ''/api/v1/pos/session/open'', Perm ''pos_session.run''),
    (''POST'', ''/api/v1/pos/session/{id}/sale'', Perm ''pos_sale.create''),
    (''GET'', ''/api/v1/pos/session/{id}/z-report'', Perm ''pos_session.read''),
    (''POST'', ''/api/v1/pos/session/{id}/close'', Perm ''pos_session.run''),
    (''GET'', ''/api/v1/pos/receipt/{id}'', Perm ''pos_sale.read''),
    (''GET'', ''/api/v1/etims/config'', Perm ''etims.read''),
    (''PUT'', ''/api/v1/etims/config'', Perm ''etims.config''),
    (''POST'', ''/api/v1/etims/initialize'', Perm ''etims.config''),
    (''POST'', ''/api/v1/etims/invoices/{id}/transmit'', Perm ''etims.run''),
    (''POST'', ''/api/v1/etims/products/{id}/register'', Perm ''etims.run''),
    (''GET'', ''/api/v1/procurement/analytics'', Perm ''purchase_order.read''),
    (''GET'', ''/api/v1/procurement/budget-control'', Perm ''purchase_order.read''),
    (''GET'', ''/api/v1/debit-notes'', Perm ''debit_note.read''),
    (''POST'', ''/api/v1/debit-notes'', Perm ''debit_note.create''),
    (''GET'', ''/api/v1/debit-notes/{id}'', Perm ''debit_note.read''),
    (''GET'', ''/api/v1/expense-claims'', Perm ''expense_claim.read''),
    (''POST'', ''/api/v1/expense-claims'', Perm ''expense_claim.create''),
    (''GET'', ''/api/v1/expense-claims/{id}'', Perm ''expense_claim.read''),
    (''POST'', ''/api/v1/expense-claims/{id}/submit'', Perm ''expense_claim.submit''),
    (''POST'', ''/api/v1/expense-claims/{id}/approve'', Perm ''expense_claim.approve''),
    (''POST'', ''/api/v1/expense-claims/{id}/reject'', Perm ''expense_claim.approve''),
    (''GET'', ''/api/v1/requisitions'', Perm ''requisition.read''),
    (''POST'', ''/api/v1/requisitions'', Perm ''requisition.create''),
    (''GET'', ''/api/v1/requisitions/{id}'', Perm ''requisition.read''),
    (''POST'', ''/api/v1/requisitions/{id}/submit'', Perm ''requisition.submit''),
    (''POST'', ''/api/v1/requisitions/{id}/approve'', Perm ''requisition.approve''),
    (''POST'', ''/api/v1/requisitions/{id}/reject'', Perm ''requisition.reject''),
    (''POST'', ''/api/v1/requisitions/{id}/convert'', Perm ''requisition.convert''),
    (''GET'', ''/api/v1/purchase-orders'', Perm ''purchase_order.read''),
    (''POST'', ''/api/v1/purchase-orders'', Perm ''purchase_order.create''),
    (''GET'', ''/api/v1/purchase-orders/{id}'', Perm ''purchase_order.read''),
    (''GET'', ''/api/v1/purchase-orders/{id}/document'', Perm ''purchase_order.read''),
    (''POST'', ''/api/v1/purchase-orders/{id}/send'', Perm ''purchase_order.send''),
    (''GET'', ''/api/v1/purchase-orders/{id}/receipts'', Perm ''goods_receipt.read''),
    (''POST'', ''/api/v1/purchase-orders/{id}/receipts'', Perm ''goods_receipt.create''),
    (''GET'', ''/api/v1/purchase-orders/{id}/match'', Perm ''purchase_order.read''),
    (''GET'', ''/api/v1/supplier-credit-notes'', Perm ''supplier_credit.read''),
    (''POST'', ''/api/v1/supplier-credit-notes'', Perm ''supplier_credit.create''),
    (''GET'', ''/api/v1/supplier-credit-notes/{id}'', Perm ''supplier_credit.read'')]"

definition money_routes :: "(string \<times> string \<times> access) list" where
  "money_routes = [
    (''GET'', ''/api/v1/payments'', Perm ''payment.read''),
    (''POST'', ''/api/v1/payments'', Perm ''payment.create''),
    (''GET'', ''/api/v1/payments/{id}'', Perm ''payment.read''),
    (''POST'', ''/api/v1/payments/apply'', Perm ''payment.apply''),
    (''POST'', ''/api/v1/payments/mpesa-stk-push'', Perm ''payment.create''),
    (''POST'', ''/api/v1/payments/paystack/initialize'', Perm ''payment.create''),
    (''POST'', ''/api/v1/billing/checkout'', SelfScoped),
    (''POST'', ''/api/v1/billing/cancel'', SelfScoped),
    (''GET'', ''/api/v1/billing/subscription'', SelfScoped),
    (''GET'', ''/api/v1/transactions'', Perm ''bank_transaction.read''),
    (''POST'', ''/api/v1/transactions/{id}/categorise'', Perm ''bank_transaction.categorise''),
    (''POST'', ''/api/v1/transactions/{id}/split'', Perm ''bank_transaction.categorise''),
    (''POST'', ''/api/v1/transactions/merge'', Perm ''bank_transaction.categorise''),
    (''POST'', ''/api/v1/transactions/{id}/exclude'', Perm ''bank_transaction.categorise''),
    (''GET'', ''/api/v1/bank-accounts'', Perm ''bank_account.read''),
    (''POST'', ''/api/v1/bank-accounts'', Perm ''bank_account.create''),
    (''DELETE'', ''/api/v1/bank-accounts/{id}'', Perm ''bank_account.delete''),
    (''POST'', ''/api/v1/bank/import'', Perm ''bank_transaction.import''),
    (''POST'', ''/api/v1/bank/import/extract'', Perm ''bank_transaction.import''),
    (''POST'', ''/api/v1/bank/reconcile/{id}'', Perm ''bank_transaction.reconcile''),
    (''GET'', ''/api/v1/bank/reconciliations'', Perm ''reconciliation.read''),
    (''POST'', ''/api/v1/bank/reconciliations/compute'', Perm ''reconciliation.run''),
    (''POST'', ''/api/v1/bank/reconciliations/complete'', Perm ''reconciliation.complete''),
    (''POST'', ''/api/v1/bank/confirm-match'', Perm ''bank_transaction.reconcile'')]"

definition people_routes :: "(string \<times> string \<times> access) list" where
  "people_routes = [
    (''GET'', ''/api/v1/payroll'', Perm ''pay_run.read''),
    (''POST'', ''/api/v1/payroll/run'', Perm ''pay_run.create''),
    (''GET'', ''/api/v1/payroll/earning-types'', Perm ''payroll_config.read''),
    (''POST'', ''/api/v1/payroll/earning-types'', Perm ''payroll_config.config''),
    (''PUT'', ''/api/v1/payroll/earning-types/{id}/active'', Perm ''payroll_config.config''),
    (''GET'', ''/api/v1/payroll/deduction-types'', Perm ''payroll_config.read''),
    (''POST'', ''/api/v1/payroll/deduction-types'', Perm ''payroll_config.config''),
    (''PUT'', ''/api/v1/payroll/deduction-types/{id}/active'', Perm ''payroll_config.config''),
    (''GET'', ''/api/v1/payroll/departments'', Perm ''payroll_config.read''),
    (''POST'', ''/api/v1/payroll/departments'', Perm ''payroll_config.config''),
    (''GET'', ''/api/v1/payroll/statutory-config'', Perm ''payroll_config.read''),
    (''POST'', ''/api/v1/payroll/statutory-config'', Perm ''payroll_config.config''),
    (''GET'', ''/api/v1/payroll/recurring-items'', Perm ''payroll_config.read''),
    (''POST'', ''/api/v1/payroll/recurring-items'', Perm ''payroll_config.config''),
    (''DELETE'', ''/api/v1/payroll/recurring-items/{id}'', Perm ''payroll_config.config''),
    (''GET'', ''/api/v1/payroll/loans'', Perm ''payroll_config.read''),
    (''POST'', ''/api/v1/payroll/loans'', Perm ''payroll_config.config''),
    (''GET'', ''/api/v1/payroll/{id}'', Perm ''pay_run.read''),
    (''DELETE'', ''/api/v1/payroll/{id}'', Perm ''pay_run.delete''),
    (''POST'', ''/api/v1/payroll/{id}/recompute'', Perm ''pay_run.create''),
    (''GET'', ''/api/v1/payroll/{id}/inputs'', Perm ''pay_run.read''),
    (''POST'', ''/api/v1/payroll/{id}/inputs'', Perm ''pay_run.create''),
    (''DELETE'', ''/api/v1/payroll/{id}/inputs/{input_id}'', Perm ''pay_run.create''),
    (''POST'', ''/api/v1/payroll/{id}/approve'', Perm ''pay_run.approve''),
    (''POST'', ''/api/v1/payroll/{id}/post'', Perm ''pay_run.post''),
    (''POST'', ''/api/v1/payroll/{id}/paid'', Perm ''pay_run.pay''),
    (''GET'', ''/api/v1/payroll/{run_id}/payslips/{employee_id}/pdf'', Perm ''pay_run.read''),
    (''GET'', ''/api/v1/payroll/{run_id}/itax-csv'', Perm ''pay_run.read''),
    (''GET'', ''/api/v1/leave-types'', Perm ''leave_type.read''),
    (''POST'', ''/api/v1/leave-types'', Perm ''leave_type.config''),
    (''PUT'', ''/api/v1/leave-types/{id}/active'', Perm ''leave_type.config''),
    (''GET'', ''/api/v1/holidays'', Perm ''holiday.read''),
    (''POST'', ''/api/v1/holidays'', Perm ''holiday.config''),
    (''DELETE'', ''/api/v1/holidays/{id}'', Perm ''holiday.config''),
    (''GET'', ''/api/v1/leave-balances'', Perm ''leave.read''),
    (''GET'', ''/api/v1/leave-requests'', Perm ''leave.read''),
    (''POST'', ''/api/v1/leave-requests'', Perm ''leave.create''),
    (''POST'', ''/api/v1/leave-requests/{id}/approve'', Perm ''leave.approve''),
    (''POST'', ''/api/v1/leave-requests/{id}/decline'', Perm ''leave.approve''),
    (''GET'', ''/api/v1/leave-calendar'', Perm ''leave.read''),
    (''POST'', ''/api/v1/employees/{id}/invite-ess'', Perm ''portal_invite.create''),
    (''GET'', ''/api/v1/onboarding'', Perm ''onboarding.read''),
    (''POST'', ''/api/v1/onboarding'', Perm ''onboarding.create''),
    (''GET'', ''/api/v1/onboarding/{id}'', Perm ''onboarding.read''),
    (''POST'', ''/api/v1/onboarding/{id}/complete'', Perm ''onboarding.update''),
    (''PUT'', ''/api/v1/onboarding/{case}/tasks/{task}'', Perm ''onboarding.update''),
    (''GET'', ''/api/v1/crm/settings'', Perm ''crm.read''),
    (''PUT'', ''/api/v1/crm/settings'', Perm ''crm.config''),
    (''GET'', ''/api/v1/crm/pipelines'', Perm ''crm.read''),
    (''GET'', ''/api/v1/crm/pipelines/{id}/stages'', Perm ''crm.read''),
    (''GET'', ''/api/v1/crm/leads'', Perm ''lead.read''),
    (''POST'', ''/api/v1/crm/leads'', Perm ''lead.create''),
    (''PUT'', ''/api/v1/crm/leads/{id}'', Perm ''lead.update''),
    (''POST'', ''/api/v1/crm/leads/{id}/convert'', Perm ''lead.convert''),
    (''GET'', ''/api/v1/crm/opportunities'', Perm ''opportunity.read''),
    (''POST'', ''/api/v1/crm/opportunities'', Perm ''opportunity.create''),
    (''POST'', ''/api/v1/crm/opportunities/{id}/move'', Perm ''opportunity.update''),
    (''POST'', ''/api/v1/crm/opportunities/{id}/win'', Perm ''opportunity.close''),
    (''POST'', ''/api/v1/crm/opportunities/{id}/lose'', Perm ''opportunity.close''),
    (''GET'', ''/api/v1/crm/activities'', Perm ''activity.read''),
    (''POST'', ''/api/v1/crm/activities'', Perm ''activity.create''),
    (''POST'', ''/api/v1/crm/activities/{id}/done'', Perm ''activity.update''),
    (''GET'', ''/api/v1/crm/tickets'', Perm ''ticket.read''),
    (''GET'', ''/api/v1/crm/tickets/{id}'', Perm ''ticket.read''),
    (''POST'', ''/api/v1/crm/tickets/{id}/reply'', Perm ''ticket.update''),
    (''PUT'', ''/api/v1/crm/tickets/{id}/status'', Perm ''ticket.update''),
    (''GET'', ''/api/v1/crm/analytics'', Perm ''crm.read''),
    (''POST'', ''/api/v1/crm/customers/invite-portal'', Perm ''portal_invite.create'')]"

definition stock_and_books_routes :: "(string \<times> string \<times> access) list" where
  "stock_and_books_routes = [
    (''GET'', ''/api/v1/inventory'', Perm ''inventory.read''),
    (''POST'', ''/api/v1/inventory'', Perm ''product.create''),
    (''POST'', ''/api/v1/inventory/receive'', Perm ''inventory.receive''),
    (''POST'', ''/api/v1/inventory/issue'', Perm ''inventory.issue''),
    (''POST'', ''/api/v1/inventory/adjust'', Perm ''inventory.adjust''),
    (''GET'', ''/api/v1/warehouses'', Perm ''inventory.read''),
    (''POST'', ''/api/v1/warehouses'', Perm ''inventory.adjust''),
    (''PUT'', ''/api/v1/warehouses/{id}'', Perm ''inventory.adjust''),
    (''POST'', ''/api/v1/warehouses/transfer'', Perm ''inventory.adjust''),
    (''GET'', ''/api/v1/warehouses/{id}/stock'', Perm ''inventory.read''),
    (''GET'', ''/api/v1/inventory/{item_id}/warehouse-stock'', Perm ''inventory.read''),
    (''GET'', ''/api/v1/boms'', Perm ''inventory.read''),
    (''POST'', ''/api/v1/boms'', Perm ''inventory.adjust''),
    (''GET'', ''/api/v1/boms/{id}'', Perm ''inventory.read''),
    (''PUT'', ''/api/v1/boms/{id}'', Perm ''inventory.adjust''),
    (''GET'', ''/api/v1/work-orders'', Perm ''inventory.read''),
    (''POST'', ''/api/v1/work-orders'', Perm ''inventory.adjust''),
    (''GET'', ''/api/v1/work-orders/{id}'', Perm ''inventory.read''),
    (''POST'', ''/api/v1/work-orders/{id}/start'', Perm ''inventory.adjust''),
    (''POST'', ''/api/v1/work-orders/{id}/complete'', Perm ''inventory.adjust''),
    (''POST'', ''/api/v1/work-orders/{id}/cancel'', Perm ''inventory.adjust''),
    (''GET'', ''/api/v1/projects'', Perm ''project.read''),
    (''POST'', ''/api/v1/projects'', Perm ''project.manage''),
    (''GET'', ''/api/v1/projects/{id}'', Perm ''project.read''),
    (''PUT'', ''/api/v1/projects/{id}'', Perm ''project.manage''),
    (''GET'', ''/api/v1/projects/{id}/summary'', Perm ''project.read''),
    (''GET'', ''/api/v1/assets'', Perm ''asset.read''),
    (''POST'', ''/api/v1/assets'', Perm ''asset.create''),
    (''POST'', ''/api/v1/assets/depreciation/run'', Perm ''asset.run''),
    (''GET'', ''/api/v1/amortization'', Perm ''journal.read''),
    (''POST'', ''/api/v1/amortization'', Perm ''journal.post''),
    (''POST'', ''/api/v1/amortization/run'', Perm ''journal.post''),
    (''POST'', ''/api/v1/amortization/{id}/cancel'', Perm ''journal.post''),
    (''GET'', ''/api/v1/fx-rates'', Perm ''fx_rate.read''),
    (''POST'', ''/api/v1/fx-rates'', Perm ''fx_rate.create''),
    (''POST'', ''/api/v1/fx-rates/sync-cbk'', Perm ''fx_rate.create''),
    (''DELETE'', ''/api/v1/fx-rates/{id}'', Perm ''fx_rate.delete''),
    (''POST'', ''/api/v1/fx/revaluation'', Perm ''fx_rate.run''),
    (''GET'', ''/api/v1/audit'', Perm ''audit.read''),
    (''GET'', ''/api/v1/audit/{object_type}/{object_id}'', Perm ''audit.read''),
    (''GET'', ''/api/v1/posting-groups'', Perm ''posting_group.read''),
    (''POST'', ''/api/v1/posting-groups/group'', Perm ''posting_group.config''),
    (''POST'', ''/api/v1/posting-groups/assign'', Perm ''posting_group.config''),
    (''POST'', ''/api/v1/posting-groups/business-control'', Perm ''posting_group.config''),
    (''POST'', ''/api/v1/posting-groups/general-matrix'', Perm ''posting_group.config''),
    (''POST'', ''/api/v1/posting-groups/vat-matrix'', Perm ''posting_group.config'')]"

definition reports_and_admin_routes :: "(string \<times> string \<times> access) list" where
  "reports_and_admin_routes = [
    (''POST'', ''/api/v1/reports'', SelfScoped),
    (''POST'', ''/api/v1/reports/export'', SelfScoped),
    (''POST'', ''/api/v1/receipts/capture'', Perm ''bill.create''),
    (''POST'', ''/api/v1/receipts/confirm'', Perm ''bill.create''),
    (''POST'', ''/api/v1/attachments'', Perm ''attachment.create''),
    (''GET'', ''/api/v1/attachments'', Perm ''attachment.read''),
    (''GET'', ''/api/v1/attachments/{id}'', Perm ''attachment.read''),
    (''DELETE'', ''/api/v1/attachments/{id}'', Perm ''attachment.delete''),
    (''POST'', ''/api/v1/agent/post'', Perm ''journal.post''),
    (''POST'', ''/api/v1/agent/report'', Perm ''report.read''),
    (''GET'', ''/api/v1/settings'', Perm ''settings.read''),
    (''PUT'', ''/api/v1/settings'', Perm ''settings.config''),
    (''GET'', ''/api/v1/budgets'', Perm ''budget.read''),
    (''PUT'', ''/api/v1/budgets'', Perm ''budget.config''),
    (''GET'', ''/api/v1/custom-reports'', Perm ''custom_report.read''),
    (''POST'', ''/api/v1/custom-reports'', Perm ''custom_report.create''),
    (''GET'', ''/api/v1/custom-reports/{id}'', Perm ''custom_report.read''),
    (''DELETE'', ''/api/v1/custom-reports/{id}'', Perm ''custom_report.delete''),
    (''GET'', ''/api/v1/custom-reports/{id}/run'', Perm ''custom_report.read''),
    (''GET'', ''/api/v1/consolidation/entities'', SelfScoped),
    (''POST'', ''/api/v1/consolidation/trial-balance'', SelfScoped),
    (''GET'', ''/api/v1/consolidation/groups'', SelfScoped),
    (''POST'', ''/api/v1/consolidation/groups'', SelfScoped),
    (''GET'', ''/api/v1/consolidation/groups/{id}/members'', SelfScoped),
    (''POST'', ''/api/v1/consolidation/groups/{id}/members'', SelfScoped),
    (''DELETE'', ''/api/v1/consolidation/groups/{id}/members/{entity_id}'', SelfScoped),
    (''GET'', ''/api/v1/consolidation/intercompany'', SelfScoped),
    (''POST'', ''/api/v1/consolidation/intercompany'', SelfScoped),
    (''POST'', ''/api/v1/consolidation/group-trial-balance'', SelfScoped),
    (''GET'', ''/api/v1/report-schedules'', Perm ''report_schedule.read''),
    (''POST'', ''/api/v1/report-schedules'', Perm ''report_schedule.create''),
    (''DELETE'', ''/api/v1/report-schedules/{id}'', Perm ''report_schedule.delete''),
    (''GET'', ''/api/v1/wht-rates'', Perm ''wht_rate.read''),
    (''PUT'', ''/api/v1/wht-rates'', Perm ''wht_rate.config''),
    (''GET'', ''/api/v1/tax-filings'', Perm ''tax_filing.read''),
    (''POST'', ''/api/v1/tax-filings'', Perm ''tax_filing.create''),
    (''POST'', ''/api/v1/tax-filings/{id}/remit'', Perm ''tax_filing.remit''),
    (''GET'', ''/api/v1/tax/cit/estimate'', Perm ''tax_filing.read''),
    (''POST'', ''/api/v1/tax/cit/provision'', Perm ''tax_filing.create''),
    (''GET'', ''/api/v1/forecasts/cash'', Perm ''report.read''),
    (''POST'', ''/api/v1/opening-balances'', Perm ''opening_balance.create''),
    (''GET'', ''/api/v1/recurring-journals'', Perm ''recurring_journal.read''),
    (''POST'', ''/api/v1/recurring-journals'', Perm ''recurring_journal.create''),
    (''POST'', ''/api/v1/recurring-journals/run'', Perm ''recurring_journal.run''),
    (''DELETE'', ''/api/v1/recurring-journals/{id}'', Perm ''recurring_journal.delete''),
    (''GET'', ''/api/v1/dimensions'', Perm ''dimension.read''),
    (''POST'', ''/api/v1/dimension-types'', Perm ''dimension.create''),
    (''POST'', ''/api/v1/dimension-values'', Perm ''dimension.create''),
    (''GET'', ''/api/v1/users'', Perm ''user.read''),
    (''POST'', ''/api/v1/users'', Perm ''user.manage''),
    (''PUT'', ''/api/v1/users/{id}'', Perm ''user.manage''),
    (''POST'', ''/api/v1/users/{id}/resend-invite'', Perm ''user.manage''),
    (''GET'', ''/api/v1/roles'', Perm ''role.read''),
    (''POST'', ''/api/v1/roles'', Perm ''role.create''),
    (''GET'', ''/api/v1/roles/{id}'', Perm ''role.read''),
    (''PUT'', ''/api/v1/roles/{id}'', Perm ''role.update''),
    (''DELETE'', ''/api/v1/roles/{id}'', Perm ''role.delete''),
    (''GET'', ''/api/v1/permissions'', Perm ''role.read''),
    (''GET'', ''/api/v1/auth/permissions'', SelfScoped),
    (''GET'', ''/api/v1/auth/tenants'', SelfScoped),
    (''POST'', ''/api/v1/auth/tenants'', SelfScoped),
    (''POST'', ''/api/v1/auth/switch-tenant'', SelfScoped),
    (''POST'', ''/api/v1/auth/tenants/{id}/archive'', SelfScoped),
    (''POST'', ''/api/v1/auth/tenants/{id}/unarchive'', SelfScoped),
    (''POST'', ''/api/v1/auth/tenants/{id}/leave'', SelfScoped)]"

definition ROUTE_PERMISSIONS :: "(string \<times> string \<times> access) list" where
  "ROUTE_PERMISSIONS = ledger_and_sales_routes @ purchase_routes @ money_routes @ people_routes @ stock_and_books_routes @ reports_and_admin_routes"

end
