(* ===== verification/Access.thy ===== *)
theory Access
  imports Route_Permissions
begin

text \<open>
  From a request to a handler: tokens (\<^verbatim>\<open>zavora-erp-core/src/auth/mod.rs\<close>), the authentication layer
  and the permission gate of the API (\<^verbatim>\<open>zavora-erp-api/src/middleware/auth.rs\<close>, \<^verbatim>\<open>authz_layer.rs\<close>).
  Signing and checking a token is the package \<^verbatim>\<open>jsonwebtoken\<close>, the record \<open>jwt_lib\<close>; the locale
  \<open>jwt_laws\<close> states what the code relies on. Password hashing is not modelled.
\<close>

section \<open>Tokens\<close>

definition TOKEN_TYPE_ACCESS :: string where "TOKEN_TYPE_ACCESS = ''access''"

definition TOKEN_TYPE_REFRESH :: string where "TOKEN_TYPE_REFRESH = ''refresh''"

definition DEFAULT_ACCESS_TTL_SECS :: int where "DEFAULT_ACCESS_TTL_SECS = 15 * 60"

definition DEFAULT_REFRESH_TTL_SECS :: int where "DEFAULT_REFRESH_TTL_SECS = 7 * 24 * 60 * 60"

definition DEFAULT_ISSUER :: string where "DEFAULT_ISSUER = ''zavora-erp''"

record jwt_config =
  access_secret :: string
  refresh_secret :: string
  access_ttl_secs :: int
  refresh_ttl_secs :: int
  issuer :: string

definition new_jwt_config :: "string \<Rightarrow> string \<Rightarrow> int \<Rightarrow> int \<Rightarrow> jwt_config" where
  "new_jwt_config a r ats rts =
     \<lparr>access_secret = a, refresh_secret = r, access_ttl_secs = ats, refresh_ttl_secs = rts, issuer = DEFAULT_ISSUER\<rparr>"

definition with_issuer :: "string \<Rightarrow> string \<Rightarrow> int \<Rightarrow> int \<Rightarrow> string \<Rightarrow> jwt_config" where
  "with_issuer a r ats rts i =
     \<lparr>access_secret = a, refresh_secret = r, access_ttl_secs = ats, refresh_ttl_secs = rts, issuer = i\<rparr>"

text \<open>\<open>str::parse::<i64>\<close>: an optional sign, then digits, within the range.\<close>

definition parse_i64 :: "string \<Rightarrow> int option" where
  "parse_i64 s =
     (let neg = (s \<noteq> [] \<and> hd s = CHR ''-'');
          ds = (if s \<noteq> [] \<and> (hd s = CHR ''-'' \<or> hd s = CHR ''+'') then tl s else s);
          is_digit = (\<lambda>c. 48 \<le> (of_char c :: int) \<and> (of_char c :: int) \<le> 57);
          v = (if neg then - read_digits ds else read_digits ds) in
      if ds \<noteq> [] \<and> list_all is_digit ds \<and> - (2 ^ 63) \<le> v \<and> v < 2 ^ 63 then Some v else None)"

definition require_secret :: "(string \<Rightarrow> string option) \<Rightarrow> string \<Rightarrow> string erp_result" where
  "require_secret env name =
     (case env name of
        Some v \<Rightarrow> if 16 \<le> length v then Inr v
          else Inl (Internal (''required secret '' @ name @ '' is too short (must be >= 16 chars)''))
      | None \<Rightarrow> Inl (Internal (''required secret '' @ name @ '' is not set'')))"

definition env_seconds :: "(string \<Rightarrow> string option) \<Rightarrow> string \<Rightarrow> int \<Rightarrow> int" where
  "env_seconds env name d = unwrap_or (Option.bind (env name) parse_i64) d"

definition config_from_env :: "(string \<Rightarrow> string option) \<Rightarrow> jwt_config erp_result" where
  "config_from_env env =
     and_then (require_secret env ''JWT_ACCESS_SECRET'') (\<lambda>a.
     and_then (require_secret env ''JWT_REFRESH_SECRET'') (\<lambda>r.
     if a = r then Inl (Internal ''JWT_ACCESS_SECRET and JWT_REFRESH_SECRET must differ'')
     else Inr \<lparr>access_secret = a, refresh_secret = r,
       access_ttl_secs = env_seconds env ''JWT_ACCESS_TTL_SECS'' DEFAULT_ACCESS_TTL_SECS,
       refresh_ttl_secs = env_seconds env ''JWT_REFRESH_TTL_SECS'' DEFAULT_REFRESH_TTL_SECS,
       issuer = unwrap_or (env ''JWT_ISSUER'') DEFAULT_ISSUER\<rparr>))"

record claims =
  cl_sub :: uuid
  cl_entity_id :: uuid
  cl_role :: string
  cl_token_type :: string
  cl_iss :: string
  cl_jti :: "uuid option"
  cl_impersonator_id :: "uuid option"
  cl_read_only :: bool
  cl_iat :: int
  cl_exp :: int

record jwt_lib =
  encode_jwt :: "claims \<Rightarrow> string \<Rightarrow> string option"
  decode_jwt :: "int \<Rightarrow> string \<Rightarrow> string \<Rightarrow> string \<Rightarrow> claims option"

text \<open>What the package documents: a token signed with a secret is read back with that secret and no
  other, from the expected issuer, until it expires (with a leeway of a minute); and nothing else
  is accepted under a secret than what was signed with it.\<close>

locale jwt_laws =
  fixes J :: jwt_lib
  assumes decode_encoded: "encode_jwt J c k = Some t \<Longrightarrow> cl_iss c = i \<Longrightarrow> tm \<le> cl_exp c + 60 \<Longrightarrow> decode_jwt J tm t k i = Some c"
    and decode_signed: "decode_jwt J tm t k i = Some c \<Longrightarrow> encode_jwt J c k = Some t \<and> cl_iss c = i \<and> tm \<le> cl_exp c + 60"
    and secret_unique: "encode_jwt J c k = Some t \<Longrightarrow> encode_jwt J c' k' = Some t \<Longrightarrow> c' = c \<and> k' = k"

record token_pair =
  tp_access_token :: string
  tp_refresh_token :: string
  tp_expires_in :: int
  tp_refresh_jti :: uuid
  tp_refresh_expires_at :: int

definition encode_token :: "jwt_lib \<Rightarrow> claims \<Rightarrow> string \<Rightarrow> string erp_result" where
  "encode_token J c k = ok_or (encode_jwt J c k) (Internal ''token encoding failed'')"

definition issue_token_pair_opts ::
    "jwt_lib \<Rightarrow> jwt_config \<Rightarrow> environment \<Rightarrow> uuid \<Rightarrow> uuid \<Rightarrow> string \<Rightarrow> uuid option \<Rightarrow> bool \<Rightarrow> int option \<Rightarrow> int option
      \<Rightarrow> token_pair erp_result" where
  "issue_token_pair_opts J cfg E u e role imp ro ats rts =
     (let access_ttl = unwrap_or ats (access_ttl_secs cfg); refresh_ttl = unwrap_or rts (refresh_ttl_secs cfg);
          base = \<lparr>cl_sub = u, cl_entity_id = e, cl_role = role, cl_token_type = TOKEN_TYPE_ACCESS, cl_iss = issuer cfg,
                  cl_jti = None, cl_impersonator_id = imp, cl_read_only = ro, cl_iat = now E, cl_exp = now E + access_ttl\<rparr>;
          jti = uuids E 0
      in and_then (encode_token J base (access_secret cfg)) (\<lambda>a.
         and_then (encode_token J (base\<lparr>cl_token_type := TOKEN_TYPE_REFRESH, cl_jti := Some jti, cl_exp := now E + refresh_ttl\<rparr>)
             (refresh_secret cfg)) (\<lambda>r.
         Inr \<lparr>tp_access_token = a, tp_refresh_token = r, tp_expires_in = access_ttl, tp_refresh_jti = jti,
              tp_refresh_expires_at = now E + refresh_ttl\<rparr>)))"

definition issue_token_pair ::
    "jwt_lib \<Rightarrow> jwt_config \<Rightarrow> environment \<Rightarrow> uuid \<Rightarrow> uuid \<Rightarrow> string \<Rightarrow> token_pair erp_result" where
  "issue_token_pair J cfg E u e role = issue_token_pair_opts J cfg E u e role None False None None"

definition issue_impersonation_token_pair ::
    "jwt_lib \<Rightarrow> (string \<Rightarrow> string option) \<Rightarrow> jwt_config \<Rightarrow> environment \<Rightarrow> uuid \<Rightarrow> uuid \<Rightarrow> string \<Rightarrow> uuid \<Rightarrow> bool
      \<Rightarrow> token_pair erp_result" where
  "issue_impersonation_token_pair J env cfg E u e role imp ro =
     issue_token_pair_opts J cfg E u e (if ro then ''Viewer'' else role) (Some imp) ro
       (Some (env_seconds env ''PLATFORM_IMPERSONATE_ACCESS_TTL_SECS'' (30 * 60)))
       (Some (env_seconds env ''PLATFORM_IMPERSONATE_REFRESH_TTL_SECS'' (2 * 60 * 60)))"

definition decode_token :: "jwt_lib \<Rightarrow> int \<Rightarrow> string \<Rightarrow> string \<Rightarrow> string \<Rightarrow> string \<Rightarrow> claims erp_result" where
  "decode_token J tm token secret expected i =
     and_then (ok_or (decode_jwt J tm token secret i) (Unauthorized ''invalid token'')) (\<lambda>c.
     if cl_token_type c \<noteq> expected
     then Inl (Unauthorized (''wrong token type: expected '' @ expected @ '', got '' @ cl_token_type c))
     else Inr c)"

definition decode_access_token :: "jwt_lib \<Rightarrow> int \<Rightarrow> jwt_config \<Rightarrow> string \<Rightarrow> claims erp_result" where
  "decode_access_token J tm cfg t = decode_token J tm t (access_secret cfg) TOKEN_TYPE_ACCESS (issuer cfg)"

definition decode_refresh_token :: "jwt_lib \<Rightarrow> int \<Rightarrow> jwt_config \<Rightarrow> string \<Rightarrow> claims erp_result" where
  "decode_refresh_token J tm cfg t = decode_token J tm t (refresh_secret cfg) TOKEN_TYPE_REFRESH (issuer cfg)"

section \<open>Refresh tokens\<close>

record refresh_row =
  rt_jti :: uuid
  rt_user_id :: uuid
  rt_entity_id :: uuid
  rt_expires_at :: int
  rt_revoked :: bool

definition persist_refresh_token :: "refresh_row list \<Rightarrow> token_pair \<Rightarrow> uuid \<Rightarrow> uuid \<Rightarrow> refresh_row list erp_result" where
  "persist_refresh_token rows p u e =
     (if tp_refresh_jti p \<in> rt_jti ` set rows then Inl (Database ''duplicate key value violates unique constraint'')
      else Inr (rows @ [\<lparr>rt_jti = tp_refresh_jti p, rt_user_id = u, rt_entity_id = e,
                         rt_expires_at = tp_refresh_expires_at p, rt_revoked = False\<rparr>]))"

definition refresh_token_active :: "refresh_row list \<Rightarrow> int \<Rightarrow> uuid \<Rightarrow> bool" where
  "refresh_token_active rows tm i \<longleftrightarrow> list_ex (\<lambda>r. rt_jti r = i \<and> \<not> rt_revoked r \<and> tm < rt_expires_at r) rows"

definition revoke_refresh_token :: "refresh_row list \<Rightarrow> uuid \<Rightarrow> refresh_row list" where
  "revoke_refresh_token rows i = map (\<lambda>r. if rt_jti r = i then r\<lparr>rt_revoked := True\<rparr> else r) rows"

definition revoke_user_refresh_tokens :: "refresh_row list \<Rightarrow> uuid \<Rightarrow> refresh_row list \<times> nat" where
  "revoke_user_refresh_tokens rows u =
     (map (\<lambda>r. if rt_user_id r = u \<and> \<not> rt_revoked r then r\<lparr>rt_revoked := True\<rparr> else r) rows,
      length (filter (\<lambda>r. rt_user_id r = u \<and> \<not> rt_revoked r) rows))"

definition purge_expired_refresh_tokens :: "refresh_row list \<Rightarrow> int \<Rightarrow> refresh_row list \<times> nat" where
  "purge_expired_refresh_tokens rows tm =
     (filter (\<lambda>r. \<not> rt_expires_at r \<le> tm) rows, length (filter (\<lambda>r. rt_expires_at r \<le> tm) rows))"

section \<open>Authentication of a request\<close>

record auth_context =
  ax_user_id :: uuid
  ax_entity_id :: uuid
  ax_role :: user_role
  ax_role_key :: string
  ax_impersonator_id :: "uuid option"
  ax_read_only :: bool

definition EXTERNAL_PRINCIPAL_ROLES :: "string list" where
  "EXTERNAL_PRINCIPAL_ROLES = [''Customer'', ''Vendor'', ''Employee'', ''PlatformSuperAdmin'', ''PlatformSupport'']"

definition parse_role :: "string \<Rightarrow> user_role option" where
  "parse_role s =
     (let l = lower s in
      if l = ''owner'' then Some Owner else if l = ''admin'' then Some Admin
      else if l = ''accountant'' then Some Accountant else if l = ''hrmanager'' then Some HrManager
      else if l = ''editor'' then Some Editor else if l = ''approver'' then Some Approver
      else if l = ''viewer'' then Some Viewer else None)"

text \<open>A response that ends the request: its status and message.\<close>

datatype rejection = Unauthorised string | Forbidden string | Failed erp_error

definition strip_prefix :: "string \<Rightarrow> string \<Rightarrow> string option" where
  "strip_prefix p s = (if take (length p) s = p then Some (drop (length p) s) else None)"

definition bearer_token :: "string option \<Rightarrow> string option" where
  "bearer_token header =
     (case Option.bind header (\<lambda>s. case strip_prefix ''Bearer '' s of Some t \<Rightarrow> Some t | None \<Rightarrow> strip_prefix ''bearer '' s) of
        None \<Rightarrow> None
      | Some t \<Rightarrow> let t' = trim t in if t' = [] then None else Some t')"

definition verify_bearer :: "jwt_lib \<Rightarrow> int \<Rightarrow> jwt_config \<Rightarrow> string option \<Rightarrow> rejection + auth_context" where
  "verify_bearer J tm cfg header =
     (case bearer_token header of
        None \<Rightarrow> Inl (Unauthorised ''Missing or malformed Authorization bearer token'')
      | Some token \<Rightarrow>
          (case decode_access_token J tm cfg token of
             Inl err \<Rightarrow> Inl (Unauthorised ''invalid token'')
           | Inr c \<Rightarrow>
               if list_ex (\<lambda>r. lower r = lower (cl_role c)) EXTERNAL_PRINCIPAL_ROLES
               then Inl (Unauthorised ''This endpoint is not available to portal accounts'')
               else Inr \<lparr>ax_user_id = cl_sub c, ax_entity_id = cl_entity_id c,
                         ax_role = unwrap_or (parse_role (cl_role c)) Viewer, ax_role_key = cl_role c,
                         ax_impersonator_id = cl_impersonator_id c, ax_read_only = cl_read_only c\<rparr>))"

definition require_authenticated ::
    "jwt_lib \<Rightarrow> int \<Rightarrow> jwt_config \<Rightarrow> (uuid \<Rightarrow> bool erp_result) \<Rightarrow> string \<Rightarrow> string option \<Rightarrow> rejection + auth_context" where
  "require_authenticated J tm cfg suspended meth header =
     (case verify_bearer J tm cfg header of
        Inl r \<Rightarrow> Inl r
      | Inr ctx \<Rightarrow>
          (case (if ax_impersonator_id ctx = None then suspended (ax_entity_id ctx) else Inr False) of
             Inl _ \<Rightarrow> Inl (Unauthorised ''Unable to verify tenant status'')
           | Inr True \<Rightarrow> Inl (Unauthorised ''This organization has been suspended. Contact support.'')
           | Inr False \<Rightarrow>
               if ax_read_only ctx \<and> meth \<notin> {''GET'', ''HEAD'', ''OPTIONS''}
               then Inl (Forbidden ''This support session is read-only'')
               else Inr ctx))"

section \<open>The permission gate\<close>

definition require_permission ::
    "rbac_db \<Rightarrow> permission_cache \<Rightarrow> auth_context \<Rightarrow> string \<Rightarrow> unit erp_result \<times> permission_cache" where
  "require_permission db cache ctx perm =
     (let (granted, cache') = has_permission db cache (ax_entity_id ctx) (ax_role_key ctx) perm in
      (if granted then Inr () else Inl (PermissionDenied perm (''the permission '' @ perm)), cache'))"

definition required_access :: "string \<Rightarrow> string \<Rightarrow> access option" where
  "required_access meth path =
     map_option (\<lambda>(_, _, a). a) (List.find (\<lambda>(m, p, _). m = meth \<and> p = path) ROUTE_PERMISSIONS)"

text \<open>\<open>Inr ()\<close> is the call of the handler.\<close>

definition enforce_permissions ::
    "rbac_db \<Rightarrow> permission_cache \<Rightarrow> string \<Rightarrow> string option \<Rightarrow> auth_context option
      \<Rightarrow> (rejection + unit) \<times> permission_cache" where
  "enforce_permissions db cache meth matched ctx =
     (case matched of
        None \<Rightarrow> (Inl (Forbidden ''Not permitted''), cache)
      | Some path \<Rightarrow>
          (case required_access meth path of
             Some SelfScoped \<Rightarrow> (Inr (), cache)
           | Some (Perm key) \<Rightarrow>
               (case ctx of
                  None \<Rightarrow> (Inl (Forbidden ''Not authenticated''), cache)
                | Some c \<Rightarrow>
                    (case require_permission db cache c key of
                       (Inr _, cache') \<Rightarrow> (Inr (), cache')
                     | (Inl err, cache') \<Rightarrow> (Inl (Failed err), cache')))
           | None \<Rightarrow> (Inl (Forbidden ''This action is not permitted''), cache)))"

text \<open>A protected request: authentication, then the gate.\<close>

definition protected_request ::
    "jwt_lib \<Rightarrow> int \<Rightarrow> jwt_config \<Rightarrow> (uuid \<Rightarrow> bool erp_result) \<Rightarrow> rbac_db \<Rightarrow> permission_cache \<Rightarrow> string
      \<Rightarrow> string option \<Rightarrow> string option \<Rightarrow> (rejection + auth_context) \<times> permission_cache" where
  "protected_request J tm cfg suspended db cache meth matched header =
     (case require_authenticated J tm cfg suspended meth header of
        Inl r \<Rightarrow> (Inl r, cache)
      | Inr ctx \<Rightarrow>
          (case enforce_permissions db cache meth matched (Some ctx) of
             (Inl r, cache') \<Rightarrow> (Inl r, cache')
           | (Inr _, cache') \<Rightarrow> (Inr ctx, cache')))"

end
