(* ===== verification/Rbac_Correct.thy ===== *)
theory Rbac_Correct
  imports Rbac
begin

text \<open>
  What the built-in roles may do. The tables keep their shape under every operation (\<open>roles_ok\<close>), a
  start of the program makes the grants of the built-in roles exactly the seeded ones, no
  administration of custom roles can change them, because the keys of custom roles are lower-case
  slugs, and the cache never answers anything else than the tables.
\<close>

section \<open>Slugs\<close>

definition no_capital :: "string \<Rightarrow> bool" where
  "no_capital s \<longleftrightarrow> list_all (\<lambda>c. \<not> (65 \<le> (of_char c :: int) \<and> (of_char c :: int) \<le> 90)) s"

lemma no_capital_simps [simp]:
  "no_capital []" "no_capital (c # s) \<longleftrightarrow> \<not> (65 \<le> (of_char c :: int) \<and> (of_char c :: int) \<le> 90) \<and> no_capital s"
  "no_capital (s @ t) \<longleftrightarrow> no_capital s \<and> no_capital t"
  by (simp_all add: no_capital_def)

lemma no_capital_subset: "no_capital s \<Longrightarrow> set t \<subseteq> set s \<Longrightarrow> no_capital t"
  by (auto simp: no_capital_def list_all_iff)

lemma lower_char_no_capital: "\<not> (65 \<le> (of_char (lower_char c) :: int) \<and> (of_char (lower_char c) :: int) \<le> 90)"
proof (cases "65 \<le> (of_char c :: int) \<and> (of_char c :: int) \<le> 90")
  case True
  then have "(of_char (lower_char c) :: int) = of_char c + 32"
    by (simp add: lower_char_def of_char_of)
  with True show ?thesis by simp
next
  case False
  then show ?thesis by (simp add: lower_char_def Let_def)
qed

lemma lower_no_capital: "no_capital (lower s)"
  using lower_char_no_capital by (simp add: no_capital_def list_all_iff lower_def)

lemma replace_dashes_subset: "set (replace_dashes s) \<subseteq> set s"
  by (induction s rule: replace_dashes.induct) auto

lemma squeeze_dashes_subset: "set (squeeze_dashes s) \<subseteq> set s"
proof (induction s rule: squeeze_dashes.induct)
  case (1 s)
  then show ?case using replace_dashes_subset [of s] by (subst squeeze_dashes.simps) auto
qed

lemma slugify_no_capital: "no_capital (slugify name)"
proof -
  let ?f = "\<lambda>c. if is_ascii_alphanumeric c then c else CHR ''-''"
  have dash: "no_capital (map ?f s)" if "no_capital s" for s
    using that by (induction s) auto
  have "no_capital (squeeze_dashes (map ?f (lower (trim name))))"
    by (rule no_capital_subset [OF dash [OF lower_no_capital] squeeze_dashes_subset])
  then have "no_capital (rev (dropWhile (\<lambda>c. c = CHR ''-'') (rev (dropWhile (\<lambda>c. c = CHR ''-'')
      (squeeze_dashes (map ?f (lower (trim name))))))))"
    by (rule no_capital_subset) (auto dest!: set_dropWhileD)
  then show ?thesis by (simp add: slugify_def Let_def)
qed

lemma digit_no_capital: "n < 10 \<Longrightarrow> (of_char (digit_char n) :: int) < 65"
proof -
  assume "n < 10"
  then have "nat n \<in> {0, 1, 2, 3, 4, 5, 6, 7, 8, 9}" by auto
  then show ?thesis by (auto simp: digit_char_def)
qed

lemma show_nat_no_capital: "no_capital (show_nat n)"
proof -
  have "no_capital (show_digits i)" for i
  proof (induction i rule: show_digits.induct)
    case (1 i)
    then show ?case using digit_no_capital [of i] digit_no_capital [of "i mod 10"]
      by (subst show_digits.simps) auto
  qed
  then show ?thesis by (simp add: show_nat_def)
qed

lemma free_key_no_capital:
  assumes "no_capital base"
  shows "no_capital (free_key db e base)"
proof -
  have "no_capital (free_numbered_key db e base n)" for n
    using assms
    by (induction db e base n rule: free_numbered_key.induct)
      (subst free_numbered_key.simps, auto simp: numbered_key_def show_nat_no_capital)
  with assms show ?thesis by (simp add: free_key_def)
qed

lemma role_key_capital: "\<not> no_capital (role_key r)"
  by (cases r) simp_all

lemma role_key_inject [simp]: "role_key r = role_key r' \<longleftrightarrow> r = r'"
  by (cases r; cases r') simp_all

section \<open>The tables\<close>

definition roles_ok :: "rbac_db \<Rightarrow> bool" where
  "roles_ok db \<longleftrightarrow> distinct (map ro_id (roles db))
     \<and> distinct (map ro_key (filter (\<lambda>r. ro_entity_id r = None) (roles db)))
     \<and> (\<forall>r \<in> set (roles db). ro_entity_id r = None \<or> no_capital (ro_key r))"

definition builtin_row :: "rbac_db \<Rightarrow> user_role \<Rightarrow> role_row \<Rightarrow> bool" where
  "builtin_row db R r \<longleftrightarrow> r \<in> set (roles db) \<and> ro_key r = role_key R \<and> ro_entity_id r = None \<and> ro_is_system r"

text \<open>Every built-in role is there, with exactly the seeded grants.\<close>

definition builtin_ok :: "rbac_db \<Rightarrow> bool" where
  "builtin_ok db \<longleftrightarrow> (\<forall>R. \<exists>r. builtin_row db R r \<and> set (grants_of db (ro_id r)) = set (seeded_permissions_for R))"

lemma roles_ok_id: "roles_ok db \<Longrightarrow> r \<in> set (roles db) \<Longrightarrow> r' \<in> set (roles db) \<Longrightarrow> ro_id r = ro_id r' \<Longrightarrow> r = r'"
  by (auto simp: roles_ok_def distinct_map dest: inj_onD)

lemma roles_ok_key: "roles_ok db \<Longrightarrow> r \<in> set (roles db) \<Longrightarrow> r' \<in> set (roles db) \<Longrightarrow>
    ro_entity_id r = None \<Longrightarrow> ro_entity_id r' = None \<Longrightarrow> ro_key r = ro_key r' \<Longrightarrow> r = r'"
  by (auto simp: roles_ok_def distinct_map dest: inj_onD)

lemma builtin_resolve:
  assumes ok: "roles_ok db" and "builtin_ok db"
  shows "set (resolve_permissions db e (role_key R)) = set (seeded_permissions_for R)"
proof -
  obtain r where r: "builtin_row db R r" "set (grants_of db (ro_id r)) = set (seeded_permissions_for R)"
    using assms(2) by (auto simp: builtin_ok_def)
  have own: "List.find (\<lambda>r. ro_key r = role_key R \<and> ro_entity_id r = Some e) (roles db) = None"
    using ok role_key_capital [of R] by (auto simp: find_None_iff roles_ok_def)
  obtain x where x: "List.find (\<lambda>r. ro_key r = role_key R \<and> ro_entity_id r = None \<and> ro_is_system r) (roles db) = Some x"
    using r(1) by (cases "List.find (\<lambda>r. ro_key r = role_key R \<and> ro_entity_id r = None \<and> ro_is_system r) (roles db)")
      (auto simp: find_None_iff builtin_row_def)
  then have "x = r"
    using find_SomeD [OF x] r(1) roles_ok_key [OF ok, of x r] by (simp add: builtin_row_def)
  with own x r(2) show ?thesis by (simp add: resolve_permissions_def role_for_def)
qed

lemma builtin_ok_keep:
  assumes "builtin_ok db"
    and "\<And>r. r \<in> set (roles db) \<Longrightarrow> ro_entity_id r = None \<Longrightarrow> r \<in> set (roles db') \<and> grants_of db' (ro_id r) = grants_of db (ro_id r)"
  shows "builtin_ok db'"
  unfolding builtin_ok_def
proof
  fix R
  obtain r where "builtin_row db R r" "set (grants_of db (ro_id r)) = set (seeded_permissions_for R)"
    using assms(1) by (auto simp: builtin_ok_def)
  then have "builtin_row db' R r \<and> set (grants_of db' (ro_id r)) = set (seeded_permissions_for R)"
    using assms(2) [of r] by (simp add: builtin_row_def)
  then show "\<exists>r. builtin_row db' R r \<and> set (grants_of db' (ro_id r)) = set (seeded_permissions_for R)" by blast
qed

lemma grants_iff: "k \<in> set (grants_of db i) \<longleftrightarrow> (i, k) \<in> set (role_permissions db)"
  by (force simp: grants_of_def)

lemma insert_grantD:
  assumes "insert_grant i k db = Inr db'"
  shows "roles db' = roles db" "permissions db' = permissions db" "role_holders db' = role_holders db"
    "set (grants_of db' i) = insert k (set (grants_of db i))"
    "j \<noteq> i \<Longrightarrow> grants_of db' j = grants_of db j"
proof -
  show "set (grants_of db' i) = insert k (set (grants_of db i))"
    using assms by (auto simp: set_eq_iff grants_iff insert_grant_def split: if_splits)
  show "roles db' = roles db" "permissions db' = permissions db" "role_holders db' = role_holders db"
    "j \<noteq> i \<Longrightarrow> grants_of db' j = grants_of db j"
    using assms by (auto simp: insert_grant_def grants_of_def split: if_splits)
qed

lemma insert_grants:
  assumes "try_fold (insert_grant i) ks db = Inr db'"
  shows "roles db' = roles db \<and> permissions db' = permissions db
    \<and> set (grants_of db' i) = set (grants_of db i) \<union> set ks \<and> (\<forall>j. j \<noteq> i \<longrightarrow> grants_of db' j = grants_of db j)"
  using assms
proof (induction ks arbitrary: db)
  case (Cons k ks)
  then obtain db1 where one: "insert_grant i k db = Inr db1" and rest: "try_fold (insert_grant i) ks db1 = Inr db'"
    by (auto simp: and_then_Inr)
  from Cons.IH [OF rest] insert_grantD [OF one] show ?case by auto
qed simp

section \<open>Seeding\<close>

lemma seeded_iff: "p \<in> set (seeded_permissions_for R) \<longleftrightarrow>
    (\<exists>r \<in> set RESOURCES. \<exists>v \<in> set (rs_verbs r). role_grants R r v \<and> p = permission_key r v)"
  by (auto simp: seeded_permissions_for_def)

lemma seededI: "r \<in> set RESOURCES \<Longrightarrow> v \<in> set (rs_verbs r) \<Longrightarrow> role_grants R r v \<Longrightarrow>
    permission_key r v \<in> set (seeded_permissions_for R)"
  by (auto simp: seeded_iff)

lemma seeded_nonempty: "\<exists>p. p \<in> set (seeded_permissions_for R)"
proof -
  have inv: "resource_row ''invoice'' ''Sales'' ''Invoices''
      [''read'', ''create'', ''update'', ''delete'', ''post'', ''send'', ''void'', ''reverse''] \<in> set RESOURCES"
    and emp: "resource_row ''employee'' ''HR'' ''Employees'' [''read'', ''create'', ''update''] \<in> set RESOURCES"
    by (simp_all add: RESOURCES_def)
  show ?thesis
  proof (cases "R = HrManager")
    case True
    with seededI [OF emp, of "''read''" R] show ?thesis
      by (auto simp: role_grants_def resource_row_def)
  next
    case False
    then have "role_grants R (resource_row ''invoice'' ''Sales'' ''Invoices''
      [''read'', ''create'', ''update'', ''delete'', ''post'', ''send'', ''void'', ''reverse'']) ''read''"
      by (cases R) (simp_all add: role_grants_def resource_row_def SENSITIVE_RESOURCES_def)
    with seededI [OF inv, of "''read''" R] show ?thesis by (auto simp: resource_row_def)
  qed
qed

lemma system_roles_all: "\<exists>d. (R, d) \<in> set SYSTEM_ROLES"
  by (cases R) (auto simp: SYSTEM_ROLES_def)

lemma system_role_permissions_iff:
  "(k, p) \<in> set system_role_permissions \<longleftrightarrow> (\<exists>R. k = role_key R \<and> p \<in> set (seeded_permissions_for R))"
  using system_roles_all by (fastforce simp: system_role_permissions_def)

lemma upsert_system_role_ok:
  assumes "upsert_system_role E (n, R, d) db = Inr db'" and ok: "roles_ok db"
  shows "roles_ok db'" "\<exists>r. builtin_row db' R r" "\<exists>r. builtin_row db R' r \<Longrightarrow> \<exists>r. builtin_row db' R' r"
proof -
  let ?P = "\<lambda>r. ro_key r = role_key R \<and> ro_entity_id r = None"
  have "roles_ok db' \<and> (\<exists>r. builtin_row db' R r) \<and> ((\<exists>r. builtin_row db R' r) \<longrightarrow> (\<exists>r. builtin_row db' R' r))"
  proof (cases "List.find ?P (roles db)")
    case (Some x)
    let ?f = "\<lambda>r. if ro_id r = ro_id x then r\<lparr>ro_name := role_key R, ro_description := Some d, ro_is_system := True,
        ro_is_assignable := True, ro_updated_at := now E\<rparr> else r"
    from assms(1) Some have db': "db' = db\<lparr>roles := map ?f (roles db)\<rparr>"
      by (simp add: upsert_system_role_def)
    have f: "ro_id (?f r) = ro_id r" "ro_key (?f r) = ro_key r" "ro_entity_id (?f r) = ro_entity_id r"
      "ro_is_system r \<Longrightarrow> ro_is_system (?f r)" for r by simp_all
    have x: "x \<in> set (roles db)" "?P x" using find_SomeD [OF Some] by simp_all
    have "map ro_id (map ?f (roles db)) = map ro_id (roles db)"
      "map ro_key (filter (\<lambda>r. ro_entity_id r = None) (map ?f (roles db))) = map ro_key (filter (\<lambda>r. ro_entity_id r = None) (roles db))"
      by (simp, simp add: filter_map comp_def f)
    moreover have R: "roles db' = map ?f (roles db)" by (simp add: db')
    moreover have "\<forall>r \<in> set (roles db'). ro_entity_id r = None \<or> no_capital (ro_key r)"
      using ok by (auto simp: R roles_ok_def)
    ultimately have "roles_ok db'" using ok by (simp only: roles_ok_def simp_thms)
    moreover have "builtin_row db' R (?f x)" using x by (simp add: builtin_row_def db')
    moreover have "builtin_row db' R' (?f r)" if "builtin_row db R' r" for r
      using that f [of r] by (auto simp: builtin_row_def db')
    ultimately show ?thesis by blast
  next
    case None
    with assms(1) obtain new where db': "db' = db\<lparr>roles := roles db @ [new]\<rparr>"
      and new: "ro_id new \<notin> ro_id ` set (roles db)" "ro_key new = role_key R" "ro_entity_id new = None" "ro_is_system new"
      by (auto simp: upsert_system_role_def split: if_splits)
    from None have "role_key R \<notin> ro_key ` set (filter (\<lambda>r. ro_entity_id r = None) (roles db))"
      by (auto simp: find_None_iff)
    with new ok have "roles_ok db'" by (auto simp: roles_ok_def db')
    moreover have "builtin_row db' R new" using new by (simp add: builtin_row_def db')
    moreover have "builtin_row db' R' r" if "builtin_row db R' r" for r
      using that by (simp add: builtin_row_def db')
    ultimately show ?thesis by blast
  qed
  then show "roles_ok db'" "\<exists>r. builtin_row db' R r" "\<exists>r. builtin_row db R' r \<Longrightarrow> \<exists>r. builtin_row db' R' r"
    by blast+
qed

lemma upsert_system_roles_ok:
  assumes "try_fold (upsert_system_role E) xs db = Inr db'" and "roles_ok db"
  shows "roles_ok db' \<and> (\<forall>R. (\<exists>r. builtin_row db R r) \<longrightarrow> (\<exists>r. builtin_row db' R r))
    \<and> (\<forall>(n, R, d) \<in> set xs. \<exists>r. builtin_row db' R r)"
  using assms
proof (induction xs arbitrary: db)
  case (Cons x xs)
  obtain n R d where x: "x = (n, R, d)" by (cases x) auto
  from Cons.prems(1) obtain db1 where one: "upsert_system_role E (n, R, d) db = Inr db1"
    and rest: "try_fold (upsert_system_role E) xs db1 = Inr db'" by (auto simp: x and_then_Inr)
  note up = upsert_system_role_ok [OF one Cons.prems(2)]
  from Cons.IH [OF rest up(1)] up show ?case by (auto simp: x)
qed simp

lemma reconcile_roles:
  assumes "try_fold reconcile_role ds db = Inr db'" and "distinct (map fst ds)"
  shows "roles db' = roles db \<and> (\<forall>(i, want) \<in> set ds. set (grants_of db' i) = set want)
    \<and> (\<forall>j. j \<notin> fst ` set ds \<longrightarrow> grants_of db' j = grants_of db j)"
  using assms
proof (induction ds arbitrary: db)
  case (Cons x ds)
  obtain i want where x: "x = (i, want)" by (cases x) auto
  let ?db = "db\<lparr>role_permissions := filter (\<lambda>(j, k). \<not> (j = i \<and> k \<notin> set want)) (role_permissions db)\<rparr>"
  from Cons.prems(1) obtain db1 where one: "try_fold (insert_grant i) want ?db = Inr db1"
    and rest: "try_fold reconcile_role ds db1 = Inr db'" by (auto simp: x and_then_Inr reconcile_role_def)
  have i: "set (grants_of db1 i) = set want" "j \<noteq> i \<Longrightarrow> grants_of db1 j = grants_of db j" for j
  proof -
    have "set (grants_of ?db i) \<subseteq> set want" by (auto simp: grants_of_def)
    with insert_grants [OF one] show "set (grants_of db1 i) = set want" by auto
    assume "j \<noteq> i"
    then have "filter (\<lambda>(j', k). j' = j) (role_permissions ?db) = filter (\<lambda>(j', k). j' = j) (role_permissions db)"
      by (auto simp: filter_filter case_prod_beta intro!: filter_cong)
    then have "grants_of ?db j = grants_of db j" by (simp add: grants_of_def)
    with insert_grants [OF one] \<open>j \<noteq> i\<close> show "grants_of db1 j = grants_of db j" by simp
  qed
  from Cons.prems(2) have fresh: "i \<notin> fst ` set ds" "distinct (map fst ds)" by (auto simp: x)
  from Cons.IH [OF rest fresh(2)] i fresh(1) insert_grants [OF one] show ?case
    by (fastforce simp: x)
qed simp

lemma distinct_map_filter_fst:
  assumes "distinct ks" and "\<And>k k' i. id_of k = Some i \<Longrightarrow> id_of k' = Some i \<Longrightarrow> k = k'"
  shows "distinct (map fst (List.map_filter (\<lambda>k. map_option (\<lambda>i. (i, g k)) (id_of k)) ks))"
proof -
  let ?h = "\<lambda>k. map_option (\<lambda>i. (i, g k)) (id_of k)"
  have sub: "\<exists>k \<in> set xs. id_of k = Some i" if "i \<in> fst ` set (List.map_filter ?h xs)" for xs i
    using that by (induction xs) (auto simp: map_filter_simps split: option.splits)
  from assms(1) show ?thesis
  proof (induction ks)
    case Nil
    then show ?case by (simp add: map_filter_simps)
  next
    case (Cons k ks)
    show ?case
    proof (cases "id_of k")
      case None
      with Cons show ?thesis by (simp add: map_filter_simps)
    next
      case (Some i)
      have "i \<notin> fst ` set (List.map_filter ?h ks)"
      proof
        assume "i \<in> fst ` set (List.map_filter ?h ks)"
        then obtain k' where "k' \<in> set ks" "id_of k' = Some i" using sub by blast
        with assms(2) [OF Some] Cons.prems show False by auto
      qed
      with Some Cons show ?thesis by (simp add: map_filter_simps)
    qed
  qed
qed

lemma desired_grants_ok:
  assumes ok: "roles_ok db" and all: "\<forall>R. \<exists>r. builtin_row db R r"
  shows "distinct (map fst (desired_grants db))"
    and "builtin_row db R r \<Longrightarrow> \<exists>want. (ro_id r, want) \<in> set (desired_grants db) \<and> set want = set (seeded_permissions_for R)"
proof -
  let ?sys = "filter (\<lambda>r. ro_entity_id r = None \<and> ro_is_system r) (roles db)"
  define id_of where "id_of = map_of (rev (map (\<lambda>r. (ro_key r, ro_id r)) ?sys))"
  define want where "want k = map snd (filter (\<lambda>(k', _). k' = k) system_role_permissions)" for k
  have ds: "desired_grants db = List.map_filter (\<lambda>k. map_option (\<lambda>i. (i, want k)) (id_of k)) (remdups (map fst system_role_permissions))"
    by (simp add: desired_grants_def id_of_def want_def Let_def)
  have "distinct (map ro_key (filter (\<lambda>r. ro_entity_id r = None) (roles db)))"
    using ok by (simp add: roles_ok_def)
  from distinct_map_filter [OF this, of ro_is_system] have keys: "distinct (map fst (rev (map (\<lambda>r. (ro_key r, ro_id r)) ?sys)))"
    by (simp add: rev_map [symmetric] comp_def conj_commute)
  have id_iff: "id_of k = Some i \<longleftrightarrow> (\<exists>r \<in> set ?sys. ro_key r = k \<and> ro_id r = i)" for k i
    unfolding id_of_def map_of_eq_Some_iff [OF keys] by auto
  show "distinct (map fst (desired_grants db))"
    unfolding ds by (rule distinct_map_filter_fst) (auto simp: id_iff dest: roles_ok_id [OF ok])
  assume r: "builtin_row db R r"
  have "role_key R \<in> set (remdups (map fst system_role_permissions))"
    using seeded_nonempty [of R] system_role_permissions_iff by force
  moreover have "id_of (role_key R) = Some (ro_id r)" using r by (auto simp: id_iff builtin_row_def)
  ultimately have "(ro_id r, want (role_key R)) \<in> set (desired_grants db)"
    unfolding ds by (force simp: List.map_filter_def)
  moreover have "set (want (role_key R)) = set (seeded_permissions_for R)"
    using system_role_permissions_iff by (force simp: want_def)
  ultimately show "\<exists>want. (ro_id r, want) \<in> set (desired_grants db) \<and> set want = set (seeded_permissions_for R)"
    by blast
qed

lemma seed_system_roles_ok:
  assumes "seed_system_roles E db = Inr db'" and "roles_ok db"
  shows "roles_ok db'" "builtin_ok db'"
proof -
  from assms(1) obtain db1 where up: "try_fold (upsert_system_role E) (enumerate 0 SYSTEM_ROLES) db = Inr db1"
    and rec: "try_fold reconcile_role (desired_grants db1) db1 = Inr db'"
    by (auto simp: seed_system_roles_def and_then_Inr)
  note ups = upsert_system_roles_ok [OF up assms(2)]
  have all: "\<exists>r. builtin_row db1 R r" for R
  proof -
    obtain d where "(R, d) \<in> set SYSTEM_ROLES" using system_roles_all by blast
    then have "(R, d) \<in> snd ` set (enumerate 0 SYSTEM_ROLES)" by (simp flip: set_map)
    then obtain n where "(n, R, d) \<in> set (enumerate 0 SYSTEM_ROLES)" by auto
    with ups show ?thesis by fastforce
  qed
  have ok1: "roles_ok db1" using ups by simp
  note des = desired_grants_ok [OF ok1] all
  note recs = reconcile_roles [OF rec des(1)]
  from recs all have rows: "roles db' = roles db1" by blast
  then show "roles_ok db'" using ok1 by (simp add: roles_ok_def)
  show "builtin_ok db'"
    unfolding builtin_ok_def
  proof
    fix R
    obtain r where r: "builtin_row db1 R r" using all by blast
    then obtain want where "(ro_id r, want) \<in> set (desired_grants db1)" "set want = set (seeded_permissions_for R)"
      using des(2) all by blast
    with recs all have "set (grants_of db' (ro_id r)) = set (seeded_permissions_for R)" by blast
    with r rows show "\<exists>r. builtin_row db' R r \<and> set (grants_of db' (ro_id r)) = set (seeded_permissions_for R)"
      by (auto simp: builtin_row_def)
  qed
qed

lemma sync_roles: "roles (sync_catalog db) = roles db"
proof -
  have "roles (fold upsert_permission ps db) = roles db" for ps
    by (induction ps arbitrary: db) (simp_all add: upsert_permission_def)
  then show ?thesis by (simp add: sync_catalog_def delete_permissions_def Let_def)
qed

section \<open>Administration of custom roles\<close>

lemma create_custom_role_ok:
  assumes "create_custom_role E db e name d ps = Inr (i, db')" and "roles_ok db" and "builtin_ok db"
  shows "roles_ok db' \<and> builtin_ok db'"
proof -
  define new where "new = \<lparr>ro_id = uuids E 0, ro_entity_id = Some e, ro_key = free_key db e (slugify (trim name)),
    ro_name = trim name, ro_description = d, ro_is_system = False, ro_is_assignable = True,
    ro_created_at = now E, ro_updated_at = now E\<rparr>"
  have new: "ro_entity_id new = Some e" "ro_key new = free_key db e (slugify (trim name))" "ro_id new = uuids E 0"
    by (simp_all add: new_def)
  from assms(1) have id: "ro_id new \<notin> ro_id ` set (roles db)"
    and ins: "try_fold (insert_grant (ro_id new)) ps (db\<lparr>roles := roles db @ [new]\<rparr>) = Inr db'"
    unfolding new(3) unfolding new_def
    by (auto simp: create_custom_role_def Let_def and_then_Inr split: if_splits)
  note I = insert_grants [OF ins]
  have "no_capital (ro_key new)" using free_key_no_capital [OF slugify_no_capital] by (simp add: new(2))
  with id new I assms(2) have "roles_ok db'" by (auto simp: roles_ok_def)
  moreover have "builtin_ok db'"
  proof (rule builtin_ok_keep [OF assms(3)])
    fix r assume r: "r \<in> set (roles db)" "ro_entity_id r = None"
    then have "ro_id r \<noteq> ro_id new" using id by (metis image_eqI)
    with I r show "r \<in> set (roles db') \<and> grants_of db' (ro_id r) = grants_of db (ro_id r)"
      by (simp add: grants_of_def)
  qed
  ultimately show ?thesis ..
qed

lemma get_role_InrD:
  assumes "get_role_with_perms db e i = Inr (r, ps)"
  shows "r \<in> set (roles db)" "ro_id r = i"
  using assms by (auto simp: get_role_with_perms_def and_then_Inr dest: find_SomeD)

lemma custom_role_other:
  assumes "roles_ok db" and "r \<in> set (roles db)" and "ro_entity_id r = Some e"
    and "x \<in> set (roles db)" and "ro_entity_id x = None"
  shows "ro_id x \<noteq> ro_id r"
  using roles_ok_id [OF assms(1) assms(4,2)] assms(3,5) by auto

lemma grants_without:
  "j \<noteq> i \<Longrightarrow> grants_of (x\<lparr>role_permissions := filter (\<lambda>(j, k). j \<noteq> i) (role_permissions db)\<rparr>) j = grants_of db j"
  unfolding grants_of_def
  by (rule arg_cong [where f = "map snd"]) (auto simp: filter_filter case_prod_beta intro!: filter_cong)

lemma renamed_rows:
  obtains f :: "role_row \<Rightarrow> role_row" where "roles (rename_role E i name d db) = map f (roles db)"
    and "\<And>r. ro_id (f r) = ro_id r" and "\<And>r. ro_key (f r) = ro_key r" and "\<And>r. ro_entity_id (f r) = ro_entity_id r"
    and "\<And>r. ro_id r \<noteq> i \<Longrightarrow> f r = r"
proof (cases "name = None \<and> d = None")
  case True
  then show thesis by (intro that [of "\<lambda>r. r"]) (simp_all add: rename_role_def)
next
  case False
  show thesis
  proof (rule that [of "\<lambda>r. if ro_id r = i then renamed_role E name d r else r"])
    show "roles (rename_role E i name d db) = map (\<lambda>r. if ro_id r = i then renamed_role E name d r else r) (roles db)"
      unfolding rename_role_def using False by (simp only: if_False) simp
  qed (simp_all add: renamed_role_def)
qed

lemma update_custom_role_ok:
  assumes upd: "update_custom_role E db e i name d perms = Inr db'" and ok: "roles_ok db" and "builtin_ok db"
  shows "roles_ok db' \<and> builtin_ok db'"
proof -
  from upd obtain role ps where get: "get_role_with_perms db e i = Inr (role, ps)" and own: "ro_entity_id role = Some e"
    by (auto simp: update_custom_role_def and_then_Inr split: if_splits)
  note role = get_role_InrD [OF get]
  obtain f where rows: "roles (rename_role E i name d db) = map f (roles db)"
    and f: "\<And>r. ro_id (f r) = ro_id r" "\<And>r. ro_key (f r) = ro_key r" "\<And>r. ro_entity_id (f r) = ro_entity_id r"
      "\<And>r. ro_id r \<noteq> i \<Longrightarrow> f r = r"
    using renamed_rows [of E i name d db] by metis
  have out: "roles db' = map f (roles db) \<and> (\<forall>j. j \<noteq> i \<longrightarrow> grants_of db' j = grants_of db j)"
  proof (cases perms)
    case None
    with upd get own have "db' = rename_role E i name d db"
      by (simp add: update_custom_role_def split: if_splits)
    with rows show ?thesis by (simp add: grants_of_def rename_role_def)
  next
    case (Some keys)
    with upd get own have "try_fold (insert_grant i) keys
        ((rename_role E i name d db)\<lparr>role_permissions := filter (\<lambda>(j, k). j \<noteq> i) (role_permissions db)\<rparr>) = Inr db'"
      by (auto simp: update_custom_role_def and_then_Inr split: if_splits)
    from insert_grants [OF this] rows show ?thesis by (simp add: grants_without)
  qed
  have "map ro_id (roles db') = map ro_id (roles db)"
    "map ro_key (filter (\<lambda>r. ro_entity_id r = None) (roles db')) = map ro_key (filter (\<lambda>r. ro_entity_id r = None) (roles db))"
    using out by (simp add: f, simp add: filter_map comp_def f)
  moreover have "\<forall>r \<in> set (roles db'). ro_entity_id r = None \<or> no_capital (ro_key r)"
    using ok out by (auto simp: f roles_ok_def)
  ultimately have "roles_ok db'" using ok by (simp only: roles_ok_def simp_thms)
  moreover have "builtin_ok db'"
  proof (rule builtin_ok_keep [OF assms(3)])
    fix r assume r: "r \<in> set (roles db)" "ro_entity_id r = None"
    from custom_role_other [OF ok role(1) own r] have "ro_id r \<noteq> i" by (simp add: role(2))
    with out r f(4) [of r] show "r \<in> set (roles db') \<and> grants_of db' (ro_id r) = grants_of db (ro_id r)"
      by (force simp: image_iff)
  qed
  ultimately show ?thesis ..
qed

lemma delete_custom_role_ok:
  assumes del: "delete_custom_role db e i = Inr db'" and ok: "roles_ok db" and "builtin_ok db"
  shows "roles_ok db' \<and> builtin_ok db'"
proof -
  from del obtain role ps where get: "get_role_with_perms db e i = Inr (role, ps)" and own: "ro_entity_id role = Some e"
    and db': "db' = db\<lparr>roles := filter (\<lambda>r. \<not> (ro_id r = i \<and> ro_entity_id r = Some e)) (roles db),
        role_permissions := filter (\<lambda>(j, k). j \<noteq> i) (role_permissions db)\<rparr>"
    by (auto simp: delete_custom_role_def and_then_Inr Let_def split: if_splits)
  note role = get_role_InrD [OF get]
  have "filter (\<lambda>r. ro_entity_id r = None) (filter (\<lambda>r. \<not> (ro_id r = i \<and> ro_entity_id r = Some e)) (roles db))
      = filter (\<lambda>r. ro_entity_id r = None) (roles db)"
    by (auto simp: filter_filter intro!: filter_cong)
  with ok have "roles_ok db'" by (auto simp: db' roles_ok_def distinct_map_filter)
  moreover have "builtin_ok db'"
  proof (rule builtin_ok_keep [OF assms(3)])
    fix r assume r: "r \<in> set (roles db)" "ro_entity_id r = None"
    from custom_role_other [OF ok role(1) own r] have "ro_id r \<noteq> i" by (simp add: role(2))
    with r show "r \<in> set (roles db') \<and> grants_of db' (ro_id r) = grants_of db (ro_id r)"
      by (simp add: db' grants_without)
  qed
  ultimately show ?thesis ..
qed

end
