(* ===== verification/Access_Properties.thy ===== *)
theory Access_Properties
  imports Access Rbac_Correct
begin

text \<open>
  The properties of access control: in every state the system can reach a built-in role has exactly
  its seeded permissions, and a request reaches a handler only with a valid access token whose role
  has the permission the route asks for.
\<close>

section \<open>The states\<close>

definition cache_ok :: "rbac_db \<Rightarrow> permission_cache \<Rightarrow> bool" where
  "cache_ok db cache \<longleftrightarrow> (\<forall>e key perms. cache (e, key) = Some perms \<longrightarrow> perms = resolve_permissions db e key)"

text \<open>A start of the program: the catalogue, then the built-in roles, and an empty cache.\<close>

definition startup :: "environment \<Rightarrow> rbac_db \<Rightarrow> rbac_db erp_result" where
  "startup E db = seed_system_roles E (sync_catalog db)"

text \<open>A running system: restarts, administration of custom roles (whose handlers clear the cache),
  users taking and leaving roles, and checks that fill the cache.\<close>

inductive rbac_step :: "rbac_db \<times> permission_cache \<Rightarrow> rbac_db \<times> permission_cache \<Rightarrow> bool" where
  restarted: "startup E db = Inr db' \<Longrightarrow> rbac_step (db, c) (db', Map.empty)"
| role_created: "create_custom_role E db e name d ps = Inr (i, db') \<Longrightarrow> rbac_step (db, c) (db', clear c)"
| role_updated: "update_custom_role E db e i n d perms = Inr db' \<Longrightarrow> rbac_step (db, c) (db', clear c)"
| role_deleted: "delete_custom_role db e i = Inr db' \<Longrightarrow> rbac_step (db, c) (db', clear c)"
| holders_changed: "rbac_step (db, c) (db\<lparr>role_holders := hs\<rparr>, c)"
| checked: "has_permission db c e key perm = (granted, c') \<Longrightarrow> rbac_step (db, c) (db, c')"

inductive rbac_reachable :: "rbac_db \<times> permission_cache \<Rightarrow> bool" where
  first_start: "roles db = [] \<Longrightarrow> startup E db = Inr db' \<Longrightarrow> rbac_reachable (db', Map.empty)"
| step: "rbac_reachable s \<Longrightarrow> rbac_step s s' \<Longrightarrow> rbac_reachable s'"

definition rbac_inv :: "rbac_db \<times> permission_cache \<Rightarrow> bool" where
  "rbac_inv s \<longleftrightarrow> roles_ok (fst s) \<and> builtin_ok (fst s) \<and> cache_ok (fst s) (snd s)"

lemma cache_ok_empty: "cache_ok db Map.empty" "cache_ok db (clear c)"
  by (simp_all add: cache_ok_def clear_def)

lemma effective_ok:
  assumes "cache_ok db c" and "effective db c e key = (perms, c')"
  shows "perms = resolve_permissions db e key" "cache_ok db c'"
  using assms by (auto simp: effective_def cache_ok_def Let_def split: option.splits if_splits)

lemma startup_ok:
  assumes "startup E db = Inr db'" and "roles_ok db"
  shows "rbac_inv (db', Map.empty)"
proof -
  have "roles_ok (sync_catalog db)" using assms(2) by (simp add: roles_ok_def sync_roles)
  with assms(1) seed_system_roles_ok show ?thesis
    by (simp add: rbac_inv_def startup_def cache_ok_empty)
qed

lemma rbac_step_inv:
  assumes "rbac_step s s'" and "rbac_inv s"
  shows "rbac_inv s'"
  using assms
proof cases
  case (restarted E db db' c)
  with assms(2) startup_ok show ?thesis by (simp add: rbac_inv_def)
next
  case (holders_changed db c hs)
  have g: "grants_of (db\<lparr>role_holders := hs\<rparr>) = grants_of db" by (rule ext) (simp add: grants_of_def)
  then have "resolve_permissions (db\<lparr>role_holders := hs\<rparr>) e key = resolve_permissions db e key" for e key
    by (simp add: resolve_permissions_def role_for_def cong: option.case_cong)
  with assms(2) g holders_changed show ?thesis
    by (simp add: rbac_inv_def roles_ok_def builtin_ok_def builtin_row_def cache_ok_def)
next
  case (checked db c e key perm granted c')
  then obtain perms where "effective db c e key = (perms, c')"
    by (auto simp: has_permission_def split: prod.splits)
  from effective_ok(2) [OF _ this] assms(2) checked show ?thesis by (simp add: rbac_inv_def)
qed (use assms(2) create_custom_role_ok update_custom_role_ok delete_custom_role_ok
      in \<open>auto simp: rbac_inv_def cache_ok_empty\<close>)

lemma rbac_reachable_inv: "rbac_reachable s \<Longrightarrow> rbac_inv s"
proof (induction rule: rbac_reachable.induct)
  case (first_start db E db')
  then show ?case using startup_ok by (simp add: roles_ok_def)
next
  case (step s s')
  then show ?case using rbac_step_inv by blast
qed

section \<open>The properties\<close>

text \<open>C34: The built-in roles mean the same in every tenant at all times: whatever custom roles are
  created, edited and deleted, however the cache was filled and however often the program was
  started, a check for a built-in role succeeds exactly on the permissions of the seed rules.\<close>

theorem builtin_roles_are_fixed:
  assumes "rbac_reachable (db, cache)"
  shows "fst (has_permission db cache e (role_key R) perm) \<longleftrightarrow> perm \<in> set (seeded_permissions_for R)"
proof -
  have inv: "rbac_inv (db, cache)" by (rule rbac_reachable_inv [OF assms])
  obtain perms c' where eff: "effective db cache e (role_key R) = (perms, c')" by force
  from effective_ok(1) [OF _ eff] inv have "perms = resolve_permissions db e (role_key R)" by (simp add: rbac_inv_def)
  with inv builtin_resolve eff show ?thesis by (simp add: has_permission_def rbac_inv_def)
qed

text \<open>What a request carries that reached its handler.\<close>

definition safe_method :: "string \<Rightarrow> bool" where
  "safe_method m \<longleftrightarrow> m \<in> {''GET'', ''HEAD'', ''OPTIONS''}"

lemma decode_access_tokenD:
  assumes "decode_access_token J tm cfg t = Inr c"
  shows "decode_jwt J tm t (access_secret cfg) (issuer cfg) = Some c" "cl_token_type c = TOKEN_TYPE_ACCESS"
  using assms by (auto simp: decode_access_token_def decode_token_def and_then_Inr ok_or_def split: option.splits if_splits)

lemma require_authenticatedD:
  assumes "require_authenticated J tm cfg suspended meth header = Inr ctx"
  obtains token c where "bearer_token header = Some token" and "decode_access_token J tm cfg token = Inr c"
    and "ax_entity_id ctx = cl_entity_id c" and "ax_role_key ctx = cl_role c"
    and "cl_impersonator_id c = None \<longrightarrow> suspended (cl_entity_id c) = Inr False"
    and "cl_read_only c \<longrightarrow> safe_method meth"
    and "\<not> list_ex (\<lambda>r. lower r = lower (cl_role c)) EXTERNAL_PRINCIPAL_ROLES"
proof -
  obtain ctx0 where v: "verify_bearer J tm cfg header = Inr ctx0" and ctx: "ctx = ctx0"
    and sus: "ax_impersonator_id ctx0 = None \<Longrightarrow> suspended (ax_entity_id ctx0) = Inr False"
    and ro: "ax_read_only ctx0 \<Longrightarrow> safe_method meth"
    using assms by (auto simp: require_authenticated_def safe_method_def split: sum.splits bool.splits if_splits)
  from v obtain token c where "bearer_token header = Some token" "decode_access_token J tm cfg token = Inr c"
    and ext: "\<not> list_ex (\<lambda>r. lower r = lower (cl_role c)) EXTERNAL_PRINCIPAL_ROLES"
    and "ctx0 = \<lparr>ax_user_id = cl_sub c, ax_entity_id = cl_entity_id c,
      ax_role = unwrap_or (parse_role (cl_role c)) Viewer, ax_role_key = cl_role c,
      ax_impersonator_id = cl_impersonator_id c, ax_read_only = cl_read_only c\<rparr>"
    by (auto simp: verify_bearer_def split: option.splits sum.splits if_splits)
  with ctx sus ro that [of token c] show thesis by simp
qed

text \<open>C35: A request reaches its handler only if it carries an unexpired access token signed with the
  access secret, not a refresh token and not one of a portal account, of a tenant that is not
  suspended (or of a support session), with a safe method where the session is read-only, and the
  route is either scoped by its handler or asks for a permission that the role of the token has in
  the tables at that moment; for a built-in role, one of its seeded permissions.\<close>

theorem handler_reached_only_if_granted:
  assumes "jwt_laws J" and "rbac_reachable (db, cache)"
    and "protected_request J tm cfg suspended db cache meth matched header = (Inr ctx, cache')"
  shows "\<exists>token c path. bearer_token header = Some token \<and> encode_jwt J c (access_secret cfg) = Some token
    \<and> cl_token_type c = TOKEN_TYPE_ACCESS \<and> tm \<le> cl_exp c + 60
    \<and> \<not> list_ex (\<lambda>r. lower r = lower (cl_role c)) EXTERNAL_PRINCIPAL_ROLES
    \<and> (cl_impersonator_id c = None \<longrightarrow> suspended (cl_entity_id c) = Inr False)
    \<and> (cl_read_only c \<longrightarrow> safe_method meth) \<and> matched = Some path
    \<and> (required_access meth path = Some SelfScoped
       \<or> (\<exists>key. required_access meth path = Some (Perm key) \<and> key \<in> set (resolve_permissions db (cl_entity_id c) (cl_role c))
            \<and> (\<forall>R. cl_role c = role_key R \<longrightarrow> key \<in> set (seeded_permissions_for R))))"
proof -
  have inv: "rbac_inv (db, cache)" by (rule rbac_reachable_inv [OF assms(2)])
  from assms(3) have auth: "require_authenticated J tm cfg suspended meth header = Inr ctx"
    and gate: "fst (enforce_permissions db cache meth matched (Some ctx)) = Inr ()"
    by (auto simp: protected_request_def split: sum.splits prod.splits)
  from auth obtain token c where tok: "bearer_token header = Some token" "decode_access_token J tm cfg token = Inr c"
    and ctx: "ax_entity_id ctx = cl_entity_id c" "ax_role_key ctx = cl_role c"
    and rest: "cl_impersonator_id c = None \<longrightarrow> suspended (cl_entity_id c) = Inr False"
      "cl_read_only c \<longrightarrow> safe_method meth" "\<not> list_ex (\<lambda>r. lower r = lower (cl_role c)) EXTERNAL_PRINCIPAL_ROLES"
    by (rule require_authenticatedD)
  note dec = decode_access_tokenD [OF tok(2)]
  note signed = jwt_laws.decode_signed [OF assms(1) dec(1)]
  obtain path where path: "matched = Some path" using gate by (cases matched) (auto simp: enforce_permissions_def)
  have access: "required_access meth path = Some SelfScoped
     \<or> (\<exists>key. required_access meth path = Some (Perm key) \<and> fst (has_permission db cache (cl_entity_id c) (cl_role c) key))"
    using gate by (auto simp: enforce_permissions_def path require_permission_def ctx split: option.splits access.splits prod.splits sum.splits if_splits)
  have "key \<in> set (resolve_permissions db (cl_entity_id c) (cl_role c))
      \<and> (\<forall>R. cl_role c = role_key R \<longrightarrow> key \<in> set (seeded_permissions_for R))"
    if has: "fst (has_permission db cache (cl_entity_id c) (cl_role c) key)" for key
  proof -
    obtain perms c' where eff: "effective db cache (cl_entity_id c) (cl_role c) = (perms, c')" by force
    from effective_ok(1) [OF _ eff] inv have "perms = resolve_permissions db (cl_entity_id c) (cl_role c)"
      by (simp add: rbac_inv_def)
    with has eff have "key \<in> set (resolve_permissions db (cl_entity_id c) (cl_role c))" by (simp add: has_permission_def)
    with inv builtin_resolve show ?thesis by (auto simp: rbac_inv_def)
  qed
  with access have "required_access meth path = Some SelfScoped
     \<or> (\<exists>key. required_access meth path = Some (Perm key) \<and> key \<in> set (resolve_permissions db (cl_entity_id c) (cl_role c))
          \<and> (\<forall>R. cl_role c = role_key R \<longrightarrow> key \<in> set (seeded_permissions_for R)))"
    by blast
  with tok(1) signed dec(2) rest path show ?thesis
    by (intro exI [of _ token] exI [of _ c] exI [of _ path] conjI) simp_all
qed

section \<open>A start from nothing\<close>

text \<open>Seeding succeeds on empty tables: every seeded permission is in the catalogue.\<close>

lemma catalog_keyI:
  assumes "r \<in> set RESOURCES" and "v \<in> set (rs_verbs r)"
  shows "permission_key r v \<in> pm_key ` set permission_catalog"
proof (rule image_eqI)
  let ?p = "\<lparr>pm_key = permission_key r v, pm_category = rs_category r, pm_label = verb_label v @ '' '' @ rs_label r,
    pm_description = verb_label v @ '' - '' @ rs_label r\<rparr>"
  show "permission_key r v = pm_key ?p" by simp
  show "?p \<in> set permission_catalog"
    unfolding permission_catalog_def set_concat set_map image_image using assms by blast
qed

lemma seeded_in_catalog: "set (seeded_permissions_for R) \<subseteq> pm_key ` set permission_catalog"
proof
  fix p assume "p \<in> set (seeded_permissions_for R)"
  then obtain r v where "r \<in> set RESOURCES" "v \<in> set (rs_verbs r)" "p = permission_key r v"
    unfolding seeded_iff by blast
  then show "p \<in> pm_key ` set permission_catalog" using catalog_keyI by simp
qed

lemma upsert_one_keys:
  "pm_key ` set (permissions (upsert_permission p db)) = insert (pm_key p) (pm_key ` set (permissions db))"
proof (cases "list_ex (\<lambda>x. pm_key x = pm_key p) (permissions db)")
  case True
  then have mem: "pm_key p \<in> pm_key ` set (permissions db)" by (metis (mono_tags, lifting) image_eqI list_ex_iff)
  have "map pm_key (map (\<lambda>x. if pm_key x = pm_key p then p else x) (permissions db)) = map pm_key (permissions db)"
    by simp
  from arg_cong [OF this, of set] True mem show ?thesis
    unfolding upsert_permission_def set_map by (simp add: insert_absorb)
next
  case False
  then show ?thesis by (simp add: upsert_permission_def)
qed

lemma upsert_keys:
  "pm_key ` set (permissions (fold upsert_permission ps db)) = pm_key ` set (permissions db) \<union> pm_key ` set ps"
  by (induction ps arbitrary: db) (simp_all add: upsert_one_keys)

lemma image_filter_keys: "K \<subseteq> f ` A \<Longrightarrow> f ` {x \<in> A. f x \<in> K} = K"
  by blast

lemma synced_keys: "pm_key ` set (permissions (sync_catalog db)) = pm_key ` set permission_catalog"
proof -
  let ?db = "fold upsert_permission permission_catalog db"
  have "permissions (sync_catalog db) = filter (\<lambda>p. pm_key p \<in> pm_key ` set permission_catalog) (permissions ?db)"
    by (simp add: sync_catalog_def delete_permissions_def Let_def)
  moreover have "pm_key ` set permission_catalog \<subseteq> pm_key ` set (permissions ?db)" by (simp add: upsert_keys)
  note image_filter_keys [OF this]
  ultimately show ?thesis by simp
qed

lemma insert_grants_succeed:
  "set ks \<subseteq> pm_key ` set (permissions db) \<Longrightarrow> \<exists>db'. try_fold (insert_grant i) ks db = Inr db'"
proof (induction ks arbitrary: db)
  case (Cons k ks)
  then have "list_ex (\<lambda>p. pm_key p = k) (permissions db)" by (auto simp: list_ex_iff)
  then obtain db1 where one: "insert_grant i k db = Inr db1"
    by (cases "(i, k) \<in> set (role_permissions db)") (simp_all add: insert_grant_def)
  from Cons.prems insert_grantD(2) [OF one] have "set ks \<subseteq> pm_key ` set (permissions db1)" by simp
  from Cons.IH [OF this] one show ?case by simp
qed simp

lemma reconcile_succeeds:
  "\<forall>(i, want) \<in> set ds. set want \<subseteq> pm_key ` set (permissions db) \<Longrightarrow> \<exists>db'. try_fold reconcile_role ds db = Inr db'"
proof (induction ds arbitrary: db)
  case (Cons x ds)
  obtain i want where x: "x = (i, want)" by (cases x) auto
  let ?db = "db\<lparr>role_permissions := filter (\<lambda>(j, k). \<not> (j = i \<and> k \<notin> set want)) (role_permissions db)\<rparr>"
  from Cons.prems have "set want \<subseteq> pm_key ` set (permissions ?db)" by (simp add: x)
  from insert_grants_succeed [OF this] obtain db1 where one: "try_fold (insert_grant i) want ?db = Inr db1" by blast
  from insert_grants [OF one] have "permissions db1 = permissions db" by simp
  with Cons.IH [of db1] Cons.prems have "\<exists>db'. try_fold reconcile_role ds db1 = Inr db'" by simp
  with one show ?case by (simp add: x reconcile_role_def)
qed simp

definition rbac_empty :: rbac_db where
  "rbac_empty = \<lparr>permissions = [], roles = [], role_permissions = [], role_holders = []\<rparr>"

definition boot_env :: environment where
  "boot_env = \<lparr>now = 0, today = 739260, uuids = (\<lambda>n. n)\<rparr>"

lemma startup_succeeds: "\<exists>db'. startup boot_env rbac_empty = Inr db'"
proof -
  let ?db = "sync_catalog rbac_empty"
  have "roles ?db = []" by (simp add: sync_roles rbac_empty_def)
  then obtain db1 where up: "try_fold (upsert_system_role boot_env) (enumerate 0 SYSTEM_ROLES) ?db = Inr db1"
    and perms: "permissions db1 = permissions ?db"
    by (simp add: SYSTEM_ROLES_def upsert_system_role_def boot_env_def)
  have wants: "set want \<subseteq> pm_key ` set (permissions db1)" if "(i, want) \<in> set (desired_grants db1)" for i want
  proof -
    from that obtain k where "want = map snd (filter (\<lambda>(k', _). k' = k) system_role_permissions)"
      unfolding desired_grants_def Let_def List.map_filter_def by auto
    then have "set want \<subseteq> {p. (k, p) \<in> set system_role_permissions}" by auto
    also have "\<dots> \<subseteq> pm_key ` set permission_catalog"
      using seeded_in_catalog unfolding system_role_permissions_iff by blast
    finally show ?thesis by (simp add: perms synced_keys)
  qed
  then have "\<forall>(i, want) \<in> set (desired_grants db1). set want \<subseteq> pm_key ` set (permissions db1)" by blast
  from reconcile_succeeds [OF this] up show ?thesis by (auto simp: startup_def seed_system_roles_def)
qed

definition booted :: rbac_db where
  "booted = projr (startup boot_env rbac_empty)"

lemma booted_reachable: "rbac_reachable (booted, Map.empty)"
proof (rule first_start)
  show "roles rbac_empty = []" by (simp add: rbac_empty_def)
  show "startup boot_env rbac_empty = Inr booted"
    using startup_succeeds by (auto simp: booted_def)
qed

theorem builtin_roles_are_fixed_witness:
  "fst (has_permission booted Map.empty 7 ''Viewer'' ''invoice.post'') \<longleftrightarrow> ''invoice.post'' \<in> set (seeded_permissions_for Viewer)"
  using builtin_roles_are_fixed [OF booted_reachable, of 7 Viewer "''invoice.post''"] by simp

text \<open>A token package that knows one token.\<close>

definition sample_claims :: claims where
  "sample_claims = \<lparr>cl_sub = 5, cl_entity_id = 7, cl_role = ''Owner'', cl_token_type = ''access'', cl_iss = ''zavora-erp'',
     cl_jti = None, cl_impersonator_id = None, cl_read_only = False, cl_iat = 0, cl_exp = 900\<rparr>"

definition sample_jwt :: jwt_lib where
  "sample_jwt = \<lparr>encode_jwt = (\<lambda>c k. if c = sample_claims \<and> k = ''first-secret-0123'' then Some ''t'' else None),
     decode_jwt = (\<lambda>tm t k i. if t = ''t'' \<and> k = ''first-secret-0123'' \<and> i = ''zavora-erp'' \<and> tm \<le> 960
       then Some sample_claims else None)\<rparr>"

definition sample_jwt_config :: jwt_config where
  "sample_jwt_config = new_jwt_config ''first-secret-0123'' ''second-secret-012'' 900 604800"

interpretation sample_tokens: jwt_laws sample_jwt
  by unfold_locales (auto simp: sample_jwt_def sample_claims_def split: if_splits)

lemma accounts_route: "required_access ''GET'' ''/api/v1/accounts'' = Some (Perm ''account.read'')"
  by (simp add: required_access_def ROUTE_PERMISSIONS_def ledger_and_sales_routes_def)

lemma owner_reads_accounts: "''account.read'' \<in> set (seeded_permissions_for Owner)"
proof -
  have "resource_row ''account'' ''Accounting'' ''Chart of Accounts'' [''read'', ''create'', ''update''] \<in> set RESOURCES"
    by (simp add: RESOURCES_def)
  from seededI [OF this, of "''read''" Owner] show ?thesis
    by (simp add: resource_row_def permission_key_def role_grants_def)
qed

lemma sample_request_passes:
  "\<exists>ctx cache'. protected_request sample_jwt 10 sample_jwt_config (\<lambda>_. Inr False) booted Map.empty ''GET''
    (Some ''/api/v1/accounts'') (Some ''Bearer t'') = (Inr ctx, cache')"
proof -
  have "bearer_token (Some ''Bearer t'') = Some ''t''" by code_simp
  moreover have "decode_access_token sample_jwt 10 sample_jwt_config ''t'' = Inr sample_claims"
    by code_simp
  moreover have "\<not> list_ex (\<lambda>r. lower r = lower (cl_role sample_claims)) EXTERNAL_PRINCIPAL_ROLES" by code_simp
  ultimately obtain ctx where auth: "require_authenticated sample_jwt 10 sample_jwt_config (\<lambda>_. Inr False) ''GET'' (Some ''Bearer t'') = Inr ctx"
    and ctx: "ax_entity_id ctx = 7" "ax_role_key ctx = ''Owner''"
    by (simp add: require_authenticated_def verify_bearer_def) (simp add: sample_claims_def)
  obtain granted cache' where has: "has_permission booted Map.empty 7 ''Owner'' ''account.read'' = (granted, cache')" by force
  have "fst (has_permission booted Map.empty 7 (role_key Owner) ''account.read'')"
    using rbac_reachable_inv [OF booted_reachable] builtin_resolve [of booted 7 Owner] owner_reads_accounts
    by (simp add: rbac_inv_def has_permission_def effective_def Let_def)
  with has have "granted" by simp
  with auth ctx has accounts_route show ?thesis
    by (simp add: protected_request_def enforce_permissions_def require_permission_def)
qed

theorem handler_reached_only_if_granted_witness:
  "\<exists>c. encode_jwt sample_jwt c (access_secret sample_jwt_config) = Some ''t'' \<and> cl_token_type c = TOKEN_TYPE_ACCESS
    \<and> ''account.read'' \<in> set (resolve_permissions booted (cl_entity_id c) (cl_role c))"
proof -
  have tok: "bearer_token (Some ''Bearer t'') = Some ''t''" by code_simp
  obtain ctx cache' where "protected_request sample_jwt 10 sample_jwt_config (\<lambda>_. Inr False) booted Map.empty ''GET''
    (Some ''/api/v1/accounts'') (Some ''Bearer t'') = (Inr ctx, cache')"
    using sample_request_passes by blast
  from handler_reached_only_if_granted [OF sample_tokens.jwt_laws_axioms booted_reachable this]
  show ?thesis by (auto simp: tok accounts_route)
qed

end
