(* ===== verification/Statements.thy ===== *)
theory Statements
  imports Calendar
begin

text \<open>
  The parsers of bank statements in \<^verbatim>\<open>services/bank.rs\<close>: MT940, OFX and CSV. Strings are byte
  strings, as slices of the code are, and letters are ASCII. Parsing of decimals and of dates by
  a format string are calls of the packages \<open>rust_decimal\<close> and \<open>chrono\<close>, parameters in a record. A
  panic of the code (an index beyond the columns of a row) is the error value \<open>Internal\<close> with a
  message that starts with \<open>panic\<close>.
\<close>

section \<open>Strings\<close>

definition is_ascii_digit :: "char \<Rightarrow> bool" where
  "is_ascii_digit c \<longleftrightarrow> (let n = of_char c :: int in 48 \<le> n \<and> n \<le> 57)"

definition starts_with :: "string \<Rightarrow> string \<Rightarrow> bool" where
  "starts_with p s \<longleftrightarrow> take (length p) s = p"

definition ends_with :: "string \<Rightarrow> string \<Rightarrow> bool" where
  "ends_with p s \<longleftrightarrow> length p \<le> length s \<and> drop (length s - length p) s = p"

fun find_sub :: "string \<Rightarrow> string \<Rightarrow> nat option" where
  "find_sub p [] = (if p = [] then Some 0 else None)"
| "find_sub p (c # s) = (if starts_with p (c # s) then Some 0 else map_option Suc (find_sub p s))"

definition has_sub :: "string \<Rightarrow> string \<Rightarrow> bool" where
  "has_sub p s \<longleftrightarrow> find_sub p s \<noteq> None"

text \<open>\<open>trim_matches\<close> of a character.\<close>

definition trim_char :: "char \<Rightarrow> string \<Rightarrow> string" where
  "trim_char q s = rev (dropWhile (\<lambda>c. c = q) (rev (dropWhile (\<lambda>c. c = q) s)))"

text \<open>\<open>str::lines\<close>: the accumulator holds the current line reversed; a carriage return before the
  line feed goes with it.\<close>

definition strip_cr :: "string \<Rightarrow> string" where
  "strip_cr acc = (if acc \<noteq> [] \<and> hd acc = CHR 13 then tl acc else acc)"

fun str_lines_from :: "string \<Rightarrow> string \<Rightarrow> string list" where
  "str_lines_from acc [] = (if acc = [] then [] else [rev acc])"
| "str_lines_from acc (c # s) =
     (if c = CHR 10
      then rev (strip_cr acc) # str_lines_from [] s
      else str_lines_from (c # acc) s)"

definition str_lines :: "string \<Rightarrow> string list" where
  "str_lines s = str_lines_from [] s"

text \<open>\<open>parse::<u32>\<close> and \<open>parse::<i32>\<close>.\<close>

definition parse_unsigned :: "string \<Rightarrow> nat option" where
  "parse_unsigned s =
     (let ds = (if starts_with ''+'' s then tl s else s) in
      if ds \<noteq> [] \<and> list_all is_ascii_digit ds \<and> read_digits ds < 2 ^ 32 then Some (nat (read_digits ds)) else None)"

definition parse_signed :: "string \<Rightarrow> int option" where
  "parse_signed s =
     (let neg = starts_with ''-'' s; ds = (if neg \<or> starts_with ''+'' s then tl s else s);
          v = (if neg then - read_digits ds else read_digits ds) in
      if ds \<noteq> [] \<and> list_all is_ascii_digit ds \<and> - (2 ^ 31) \<le> v \<and> v < 2 ^ 31 then Some v else None)"

text \<open>The calls of packages: \<open>Decimal::from_str\<close> and \<open>NaiveDate::parse_from_str\<close>.\<close>

record text_lib =
  parse_decimal :: "string \<Rightarrow> decimal option"
  parse_from_str :: "string \<Rightarrow> string \<Rightarrow> naive_date option"

section \<open>Statement lines\<close>

datatype statement_format = Mt940 | Ofx | Csv | ApiFeed

record parsed_line =
  pl_date :: naive_date
  pl_description :: string
  pl_reference :: string
  pl_debit :: "decimal option"
  pl_credit :: "decimal option"
  pl_balance :: "decimal option"

definition detect_format :: "string \<Rightarrow> string \<Rightarrow> statement_format erp_result" where
  "detect_format filename content =
     (let l = lower filename; t = trim content in
      if ends_with ''.mt940'' l \<or> ends_with ''.sta'' l \<or> ends_with ''.940'' l then Inr Mt940
      else if ends_with ''.ofx'' l \<or> ends_with ''.qfx'' l then Inr Ofx
      else if ends_with ''.csv'' l then Inr Csv
      else if starts_with '':20:'' t \<or> has_sub (CHR 10 # '':20:'') t then Inr Mt940
      else if has_sub ''<OFX>'' t \<or> has_sub ''<ofx>'' t \<or> has_sub ''OFXHEADER'' t then Inr Ofx
      else if CHR '','' \<in> set t \<and> CHR 10 \<in> set t then Inr Csv
      else Inl (ValidationFailed (''Unable to determine statement format for file '' @ filename)))"

text \<open>The lines of one signed amount: negative is money out.\<close>

definition signed_line :: "naive_date \<Rightarrow> string \<Rightarrow> string \<Rightarrow> decimal \<Rightarrow> parsed_line" where
  "signed_line d desc ref x =
     \<lparr>pl_date = d, pl_description = desc, pl_reference = ref,
      pl_debit = (if x < 0 then Some (- x) else None), pl_credit = (if x < 0 then None else Some x), pl_balance = None\<rparr>"

section \<open>MT940\<close>

definition parse_mt940_date :: "calendar \<Rightarrow> string \<Rightarrow> naive_date option" where
  "parse_mt940_date C s =
     (if length s \<noteq> 6 then None
      else Option.bind (parse_signed (take 2 s)) (\<lambda>y.
        Option.bind (parse_unsigned (take 2 (drop 2 s))) (\<lambda>m.
        Option.bind (parse_unsigned (take 2 (drop 4 s))) (\<lambda>d.
        from_ymd_opt C (if y < 50 then 2000 + y else 1900 + y) m d))))"

definition is_amount_char :: "char \<Rightarrow> bool" where
  "is_amount_char c \<longleftrightarrow> is_ascii_digit c \<or> c = CHR '','' \<or> c = CHR ''.''"

text \<open>The indicator: a debit or a credit, and what follows.\<close>

definition mt940_indicator :: "string \<Rightarrow> (bool \<times> string) option" where
  "mt940_indicator s =
     (if starts_with ''RD'' s \<or> starts_with ''rd'' s then Some (True, drop 2 s)
      else if starts_with ''RC'' s \<or> starts_with ''rc'' s then Some (False, drop 2 s)
      else if starts_with ''D'' s \<or> starts_with ''d'' s then Some (True, drop 1 s)
      else if starts_with ''C'' s \<or> starts_with ''c'' s then Some (False, drop 1 s)
      else None)"

definition parse_mt940_amount_field :: "string \<Rightarrow> (bool \<times> string) option" where
  "parse_mt940_amount_field s =
     Option.bind (mt940_indicator s) (\<lambda>(is_debit, rest).
       let a = takeWhile is_amount_char rest in if a = [] then None else Some (is_debit, a))"

definition extract_mt940_reference :: "string \<Rightarrow> string" where
  "extract_mt940_reference s =
     trim (dropWhile is_amount_char (case mt940_indicator s of Some (_, rest) \<Rightarrow> rest | None \<Rightarrow> s))"

record mt940_state =
  mt_lines :: "parsed_line list"
  mt_date :: "naive_date option"
  mt_current :: "(decimal option \<times> decimal option) option"
  mt_ref :: string
  mt_pending :: bool

definition mt940_default_date :: "calendar \<Rightarrow> naive_date" where
  "mt940_default_date C = unwrap_or (from_ymd_opt C 2000 1 1) 0"

text \<open>A transaction is written when its description arrives, or without one before the next.\<close>

definition mt940_commit :: "calendar \<Rightarrow> string \<Rightarrow> mt940_state \<Rightarrow> mt940_state" where
  "mt940_commit C desc s =
     (case mt_current s of
        None \<Rightarrow> s
      | Some (d, c) \<Rightarrow> s\<lparr>mt_lines := mt_lines s @
            [\<lparr>pl_date = unwrap_or (mt_date s) (mt940_default_date C), pl_description = desc, pl_reference = mt_ref s,
              pl_debit = d, pl_credit = c, pl_balance = None\<rparr>],
          mt_current := None\<rparr>)"

definition mt940_transaction :: "text_lib \<Rightarrow> calendar \<Rightarrow> string \<Rightarrow> mt940_state \<Rightarrow> mt940_state erp_result" where
  "mt940_transaction T C line s =
     (let field = drop 4 line in
      if length field < 16 then Inl (ValidationFailed (''Invalid MT940 :61: line too short: '' @ line))
      else and_then (ok_or (parse_mt940_date C (take 6 field))
          (ValidationFailed (''Invalid date in MT940 :61: line: '' @ take 6 field))) (\<lambda>d.
        let after_date = (if is_ascii_digit (field ! 6) then drop 10 field else drop 6 field) in
        and_then (ok_or (parse_mt940_amount_field after_date)
          (ValidationFailed (''Invalid MT940 amount in :61: line: '' @ line))) (\<lambda>(is_debit, a).
        and_then (ok_or (parse_decimal T (map (\<lambda>c. if c = CHR '','' then CHR ''.'' else c) a))
          (ValidationFailed (''Invalid MT940 amount value: '' @ a))) (\<lambda>x.
        Inr (s\<lparr>mt_date := Some d, mt_current := Some (if is_debit then (Some x, None) else (None, Some x)),
               mt_ref := extract_mt940_reference after_date, mt_pending := True\<rparr>)))))"

definition mt940_line :: "text_lib \<Rightarrow> calendar \<Rightarrow> string \<Rightarrow> mt940_state \<Rightarrow> mt940_state erp_result" where
  "mt940_line T C raw s =
     (let line = trim raw in
      if starts_with '':61:'' line then mt940_transaction T C line (mt940_commit C [] s)
      else if starts_with '':86:'' line \<and> mt_pending s
      then Inr (case mt_current s of None \<Rightarrow> s | Some _ \<Rightarrow> (mt940_commit C (drop 4 line) s)\<lparr>mt_pending := False\<rparr>)
      else Inr s)"

definition parse_mt940 :: "text_lib \<Rightarrow> calendar \<Rightarrow> string \<Rightarrow> parsed_line list erp_result" where
  "parse_mt940 T C content =
     and_then (try_fold (mt940_line T C) (str_lines content)
         \<lparr>mt_lines = [], mt_date = None, mt_current = None, mt_ref = [], mt_pending = False\<rparr>) (\<lambda>s.
       let ls = mt_lines (mt940_commit C [] s) in
       if ls = [] then Inl (ValidationFailed ''MT940 file contains no valid transaction lines (:61: fields)'') else Inr ls)"

section \<open>OFX\<close>

definition extract_ofx_tag :: "string \<Rightarrow> string \<Rightarrow> string option" where
  "extract_ofx_tag block tag =
     (let search = ''<'' @ upper tag @ ''>'' in
      case find_sub search (upper block) of
        None \<Rightarrow> None
      | Some pos \<Rightarrow>
          (let v = trim (takeWhile (\<lambda>c. \<not> (c = CHR ''<'' \<or> c = CHR 10 \<or> c = CHR 13)) (drop (pos + length search) block)) in
           if v = [] then None else Some v))"

definition parse_ofx_date :: "calendar \<Rightarrow> string \<Rightarrow> naive_date option" where
  "parse_ofx_date C s =
     (if length s < 8 then None
      else Option.bind (parse_signed (take 4 s)) (\<lambda>y.
        Option.bind (parse_unsigned (take 2 (drop 4 s))) (\<lambda>m.
        Option.bind (parse_unsigned (take 2 (drop 6 s))) (\<lambda>d. from_ymd_opt C y m d))))"

definition ofx_line :: "text_lib \<Rightarrow> calendar \<Rightarrow> string \<Rightarrow> parsed_line erp_result" where
  "ofx_line T C block =
     and_then (ok_or (Option.bind (extract_ofx_tag block ''DTPOSTED'') (parse_ofx_date C))
         (ValidationFailed ''OFX transaction missing or invalid DTPOSTED date'')) (\<lambda>d.
     and_then (ok_or (extract_ofx_tag block ''TRNAMT'') (ValidationFailed ''OFX transaction missing TRNAMT field'')) (\<lambda>a.
     and_then (ok_or (parse_decimal T (trim a)) (ValidationFailed (''Invalid OFX amount value: '' @ a))) (\<lambda>x.
     let name = unwrap_or (extract_ofx_tag block ''NAME'') []; memo = unwrap_or (extract_ofx_tag block ''MEMO'') [];
         fitid = unwrap_or (extract_ofx_tag block ''FITID'') []; checknum = unwrap_or (extract_ofx_tag block ''CHECKNUM'') []
     in Inr (signed_line d (if name \<noteq> [] then name else memo) (if fitid \<noteq> [] then fitid else checknum) x))))"

text \<open>The end of the block that starts at a position: its closing tag, else the next block, else the end.\<close>

definition ofx_block_end :: "string \<Rightarrow> nat \<Rightarrow> nat" where
  "ofx_block_end content start =
     (let up = upper content in
      case find_sub ''</STMTTRN>'' (drop start up) of
        Some pos \<Rightarrow> start + pos
      | None \<Rightarrow>
          (case find_sub ''<STMTTRN>'' (drop (start + 9) up) of
             Some pos \<Rightarrow> start + 9 + pos
           | None \<Rightarrow> length content))"

lemma find_sub_le: "find_sub p s = Some n \<Longrightarrow> n + length p \<le> length s"
proof (induction p s arbitrary: n rule: find_sub.induct)
  case (2 p c s)
  then show ?case
    by (auto simp: starts_with_def split: if_splits) (metis length_Cons length_take min.absorb_iff2 min_def nat_le_linear)
qed (auto split: if_splits)

lemma find_sub_at: "find_sub p s = Some n \<Longrightarrow> starts_with p (drop n s)"
  by (induction p s arbitrary: n rule: find_sub.induct) (auto simp: starts_with_def split: if_splits)

lemma ofx_block_end_greater:
  assumes "find_sub ''<STMTTRN>'' (drop off (upper content)) = Some pos"
  shows "off + pos < ofx_block_end content (off + pos)"
proof -
  let ?u = "drop (off + pos) (upper content)"
  have open_tag: "starts_with ''<STMTTRN>'' ?u" using find_sub_at [OF assms] by (simp add: add.commute)
  have len: "off + pos < length content"
    using find_sub_le [OF assms] by (simp add: upper_def)
  have "0 < k" if "find_sub ''</STMTTRN>'' ?u = Some k" for k
  proof (rule ccontr)
    assume "\<not> 0 < k"
    then have "starts_with ''</STMTTRN>'' ?u" using find_sub_at [OF that] by simp
    with open_tag show False by (cases ?u; cases "tl ?u") (auto simp: starts_with_def)
  qed
  with len show ?thesis by (auto simp: ofx_block_end_def Let_def split: option.splits)
qed

function ofx_blocks :: "text_lib \<Rightarrow> calendar \<Rightarrow> string \<Rightarrow> nat \<Rightarrow> parsed_line list \<Rightarrow> parsed_line list erp_result" where
  "ofx_blocks T C content off ls =
     (case find_sub ''<STMTTRN>'' (drop off (upper content)) of
        None \<Rightarrow> Inr ls
      | Some pos \<Rightarrow>
          (let start = off + pos; block_end = ofx_block_end content start in
           case ofx_line T C (take (block_end - start) (drop start content)) of
             Inl err \<Rightarrow> Inl err
           | Inr l \<Rightarrow> ofx_blocks T C content block_end (ls @ [l])))"
  by pat_completeness auto
termination
proof (relation "measure (\<lambda>(T, C, content, off, ls). length content - off)")
  fix T :: text_lib and C :: calendar and content :: string and off pos x xa and ls :: "parsed_line list" and l
  assume pos: "find_sub ''<STMTTRN>'' (drop off (upper content)) = Some pos"
    and defs: "x = off + pos" "xa = ofx_block_end content x"
  have "off < length content" using find_sub_le [OF pos] by (simp add: upper_def)
  with ofx_block_end_greater [OF pos] defs
  show "((T, C, content, xa, ls @ [l]), T, C, content, off, ls) \<in> measure (\<lambda>(T, C, content, off, ls). length content - off)"
    by simp
qed simp

declare ofx_blocks.simps [simp del]

definition parse_ofx :: "text_lib \<Rightarrow> calendar \<Rightarrow> string \<Rightarrow> parsed_line list erp_result" where
  "parse_ofx T C content =
     (let up = upper content in
      if \<not> has_sub ''<STMTTRN>'' up \<and> \<not> has_sub ''<STMTTRNP>'' up
      then Inl (ValidationFailed ''OFX file contains no transaction records (<STMTTRN> elements)'')
      else and_then (ofx_blocks T C content 0 []) (\<lambda>ls.
        if ls = [] then Inl (ValidationFailed ''OFX file contains no parseable transaction records'') else Inr ls))"

section \<open>CSV\<close>

text \<open>\<open>csv_split\<close>: commas outside quotes separate; the quotes stay in the fields.\<close>

fun csv_split_from :: "bool \<Rightarrow> string \<Rightarrow> string \<Rightarrow> string list" where
  "csv_split_from in_quotes acc [] = [rev acc]"
| "csv_split_from in_quotes acc (c # s) =
     (if c = CHR ''\"'' then csv_split_from (\<not> in_quotes) (c # acc) s
      else if c = CHR '','' \<and> \<not> in_quotes then rev acc # csv_split_from in_quotes [] s
      else csv_split_from in_quotes (c # acc) s)"

definition csv_split :: "string \<Rightarrow> string list" where
  "csv_split line = csv_split_from False [] line"

definition parse_csv_date :: "text_lib \<Rightarrow> calendar \<Rightarrow> string \<Rightarrow> naive_date option" where
  "parse_csv_date T C s =
     (let t = trim (trim_char (CHR ''\"'') s) in
      case parse_from_str T t ''%Y-%m-%d'' of Some d \<Rightarrow> Some d | None \<Rightarrow>
      (case parse_from_str T t ''%d/%m/%Y'' of Some d \<Rightarrow> Some d | None \<Rightarrow>
      (case parse_from_str T t ''%m/%d/%Y'' of Some d \<Rightarrow> Some d | None \<Rightarrow>
      (case parse_from_str T t ''%d-%m-%Y'' of Some d \<Rightarrow> Some d | None \<Rightarrow>
         if length t = 8 \<and> list_all is_ascii_digit t
         then from_ymd_opt C (read_digits (take 4 t)) (nat (read_digits (take 2 (drop 4 t)))) (nat (read_digits (take 2 (drop 6 t))))
         else None))))"

definition parse_csv_amount :: "text_lib \<Rightarrow> string \<Rightarrow> decimal option" where
  "parse_csv_amount T s =
     (let t = filter (\<lambda>c. c \<noteq> CHR '' '') (trim (trim_char (CHR ''\"'') s)) in
      if t = [] \<or> t = ''-'' then None else parse_decimal T t)"

text \<open>Debit, credit and balance of a row; the layout is that of the first data row.\<close>

definition csv_amounts ::
    "text_lib \<Rightarrow> nat \<Rightarrow> nat \<Rightarrow> string list \<Rightarrow> (decimal option \<times> decimal option \<times> decimal option) erp_result" where
  "csv_amounts T col_count row cols =
     (let amount = (\<lambda>i. parse_csv_amount T (trim (cols ! i)));
          split = (\<lambda>a b. if a < 0 then (Some (- a), None, b) else (None, Some a, b)) in
      if 5 \<le> col_count
      then (if length cols < 5 then Inl (Internal ''panic: index out of bounds'') else Inr (amount 2, amount 3, amount 4))
      else if col_count = 4
      then (if length cols < 4 then Inl (Internal ''panic: index out of bounds'')
            else (case amount 2 of Some a \<Rightarrow> Inr (split a (amount 3)) | None \<Rightarrow> Inr (None, None, amount 3)))
      else (case amount 2 of
              Some a \<Rightarrow> Inr (split a None)
            | None \<Rightarrow> Inl (ValidationFailed (''Invalid amount '' @ trim (cols ! 2) @ '' in CSV row '' @ show_nat row))))"

definition csv_row :: "text_lib \<Rightarrow> calendar \<Rightarrow> nat \<Rightarrow> nat \<Rightarrow> string \<Rightarrow> parsed_line option erp_result" where
  "csv_row T C col_count row raw =
     (let line = trim raw in
      if line = [] then Inr None
      else (let cols = csv_split line in
        if length cols < 3
        then Inl (ValidationFailed (''CSV row '' @ show_nat row @ '' has '' @ show_nat (length cols)
               @ '' columns, expected at least 3 (date, description, amount)''))
        else and_then (ok_or (parse_csv_date T C (trim (cols ! 0)))
            (ValidationFailed (''Invalid date '' @ trim (cols ! 0) @ '' in CSV row '' @ show_nat row))) (\<lambda>d.
          and_then (csv_amounts T col_count row cols) (\<lambda>(debit, credit, balance).
          if debit = None \<and> credit = None
          then Inl (ValidationFailed (''CSV row '' @ show_nat row @ '' has no valid debit or credit amount''))
          else Inr (Some \<lparr>pl_date = d, pl_description = trim_char (CHR ''\"'') (trim (cols ! 1)), pl_reference = [],
                          pl_debit = debit, pl_credit = credit, pl_balance = balance\<rparr>)))))"

definition csv_header :: "string \<Rightarrow> bool" where
  "csv_header line \<longleftrightarrow> (let h = lower line in
     has_sub ''date'' h \<or> has_sub ''description'' h \<or> has_sub ''amount'' h \<or> has_sub ''balance'' h)"

definition parse_csv :: "text_lib \<Rightarrow> calendar \<Rightarrow> string \<Rightarrow> parsed_line list erp_result" where
  "parse_csv T C content =
     (let all_lines = str_lines content in
      if all_lines = [] then Inl (ValidationFailed ''CSV file is empty'')
      else (let data_start = (if csv_header (hd all_lines) then 1 else 0) in
        if length all_lines \<le> data_start then Inl (ValidationFailed ''CSV file contains no data rows'')
        else (let col_count = length (csv_split (all_lines ! data_start)) in
          and_then (try_map (\<lambda>(i, row). csv_row T C col_count (i + data_start + 1) row) (enumerate 0 (drop data_start all_lines)))
            (\<lambda>rs. let ls = List.map_filter id rs in
               if ls = [] then Inl (ValidationFailed ''CSV file contains no valid transaction rows'') else Inr ls))))"

definition parse_statement :: "text_lib \<Rightarrow> calendar \<Rightarrow> statement_format \<Rightarrow> string \<Rightarrow> parsed_line list erp_result" where
  "parse_statement T C f content =
     (case f of
        Mt940 \<Rightarrow> parse_mt940 T C content
      | Ofx \<Rightarrow> parse_ofx T C content
      | Csv \<Rightarrow> parse_csv T C content
      | ApiFeed \<Rightarrow> Inl (ValidationFailed ''API format is for automated feeds, not file imports''))"

end
