(* ===== verification/Statements_Correct.thy ===== *)
theory Statements_Correct
  imports Statements
begin

text \<open>
  Reading back what a bank writes: a CSV statement in the five-column layout, with quoted
  descriptions, parses to the lines it was printed from, up to the quotes of a description, which the
  parser does not undouble, and the reference, for which the layout has no column. Printing and parsing
  of a date and of a decimal are an interface: the package reads back what it prints.
\<close>

section \<open>Lines\<close>

lemma str_lines_from_plain:
  "CHR 10 \<notin> set s \<Longrightarrow> str_lines_from acc (s @ CHR 10 # r)
    = rev (strip_cr (rev s @ acc)) # str_lines_from [] r"
  by (induction s arbitrary: acc) auto

lemma str_lines_concat:
  assumes "\<forall>s \<in> set ls. CHR 10 \<notin> set s \<and> CHR 13 \<notin> set s"
  shows "str_lines (concat (map (\<lambda>s. s @ [CHR 10]) ls)) = ls"
  using assms
proof (induction ls)
  case (Cons s ls)
  have "str_lines_from [] (s @ CHR 10 # r) = s # str_lines_from [] r" for r
    using Cons.prems str_lines_from_plain [of s "[]" r]
    by (cases s rule: rev_cases) (auto simp: strip_cr_def)
  with Cons show ?case by (simp add: str_lines_def)
qed (simp add: str_lines_def)

section \<open>Trimming\<close>

definition plain_ends :: "string \<Rightarrow> bool" where
  "plain_ends s \<longleftrightarrow> s \<noteq> [] \<and> \<not> is_space (hd s) \<and> \<not> is_space (last s)"

lemma dropWhile_hd: "s = [] \<or> \<not> P (hd s) \<Longrightarrow> dropWhile P s = s"
  by (cases s) auto

lemma trim_plain: "plain_ends s \<Longrightarrow> trim s = s"
  by (simp add: plain_ends_def trim_def dropWhile_hd hd_rev)

lemma trim_Nil [simp]: "trim [] = []"
  by (simp add: trim_def)

lemma dropWhile_none: "q \<notin> set s \<Longrightarrow> dropWhile (\<lambda>c. c = q) s = s"
  by (cases s) auto

lemma trim_char_other: "q \<notin> set s \<Longrightarrow> trim_char q s = s"
  by (simp add: trim_char_def dropWhile_none)

section \<open>Fields\<close>

definition plain_field :: "string \<Rightarrow> bool" where
  "plain_field s \<longleftrightarrow> CHR '','' \<notin> set s \<and> CHR ''\"'' \<notin> set s"

definition in_quotes :: "string \<Rightarrow> string" where
  "in_quotes s = CHR ''\"'' # s @ [CHR ''\"'']"

text \<open>A quote inside a quoted field is written twice.\<close>

fun doubled :: "string \<Rightarrow> string" where
  "doubled [] = []"
| "doubled (c # s) = (if c = CHR ''\"'' then [c, c] else [c]) @ doubled s"

lemma doubled_set [simp]: "set (doubled s) = set s"
  by (induction s) auto

lemma doubled_plain: "CHR ''\"'' \<notin> set s \<Longrightarrow> doubled s = s"
  by (induction s) auto

lemma trim_char_around: "trim_char q (q # s @ [q]) = trim_char q s"
proof -
  have "dropWhile (\<lambda>c. c = q) (s @ [q]) = (if \<forall>c \<in> set s. c = q then [] else dropWhile (\<lambda>c. c = q) s @ [q])"
    by (induction s) auto
  moreover have "dropWhile (\<lambda>c. c = q) s = []" if "\<forall>c \<in> set s. c = q" using that by simp
  ultimately show ?thesis by (cases "\<forall>c \<in> set s. c = q") (auto simp: trim_char_def dest: set_dropWhileD)
qed

lemma csv_split_plain:
  "plain_field s \<Longrightarrow> csv_split_from False acc (s @ CHR '','' # r) = rev (rev s @ acc) # csv_split_from False [] r"
  "plain_field s \<Longrightarrow> csv_split_from False acc s = [rev (rev s @ acc)]"
  by (induction s arbitrary: acc) (auto simp: plain_field_def)

lemma csv_split_inside:
  "csv_split_from True acc (doubled s @ CHR ''\"'' # r) = csv_split_from False (CHR ''\"'' # rev (doubled s) @ acc) r"
  by (induction s arbitrary: acc) auto

lemma csv_split_quoted:
  "csv_split_from False [] (in_quotes (doubled s) @ CHR '','' # r) = in_quotes (doubled s) # csv_split_from False [] r"
  using csv_split_inside [of "[CHR ''\"'']" s "CHR '','' # r"] by (simp add: in_quotes_def)

section \<open>The interface of the packages\<close>

text \<open>Dates and amounts of a domain are printed as plain fields and read back.\<close>

definition number_like :: "string \<Rightarrow> bool" where
  "number_like s \<longleftrightarrow> s \<noteq> [] \<and> s \<noteq> ''-'' \<and> plain_field s \<and> (\<forall>c \<in> set s. \<not> is_space c)"

locale text_laws =
  fixes T :: text_lib and show_d :: "naive_date \<Rightarrow> string" and show_x :: "decimal \<Rightarrow> string"
    and dates :: "naive_date set" and amounts :: "decimal set"
  assumes date_back: "d \<in> dates \<Longrightarrow> parse_from_str T (show_d d) ''%Y-%m-%d'' = Some d"
    and amount_back: "x \<in> amounts \<Longrightarrow> parse_decimal T (show_x x) = Some x"
    and date_chars: "d \<in> dates \<Longrightarrow> number_like (show_d d)"
    and amount_chars: "x \<in> amounts \<Longrightarrow> number_like (show_x x)"
begin

lemma number_like_trim: "number_like s \<Longrightarrow> trim s = s"
  by (rule trim_plain) (auto simp: number_like_def plain_ends_def)

lemma parse_date_back: "d \<in> dates \<Longrightarrow> parse_csv_date T C (trim (show_d d)) = Some d"
  using date_back [of d] date_chars [of d]
  by (simp add: parse_csv_date_def number_like_trim trim_char_other number_like_def plain_field_def)

lemma parse_amount_back: "x \<in> amounts \<Longrightarrow> parse_csv_amount T (trim (show_x x)) = Some x"
proof -
  assume x: "x \<in> amounts"
  have s: "number_like (show_x x)" by (rule amount_chars [OF x])
  then have "\<forall>c \<in> set (show_x x). c \<noteq> CHR '' ''" by (auto simp: number_like_def is_space_def)
  then have "filter (\<lambda>c. c \<noteq> CHR '' '') (show_x x) = show_x x" by (simp add: filter_id_conv)
  moreover have "trim (show_x x) = show_x x" by (rule number_like_trim [OF s])
  moreover have "trim_char (CHR ''\"'') (show_x x) = show_x x"
    using s by (simp add: trim_char_other number_like_def plain_field_def)
  ultimately show ?thesis using s amount_back [OF x] by (simp add: parse_csv_amount_def) (simp add: number_like_def)
qed

end

section \<open>Printing a statement\<close>

definition show_opt :: "(decimal \<Rightarrow> string) \<Rightarrow> decimal option \<Rightarrow> string" where
  "show_opt show_x x = (case x of None \<Rightarrow> [] | Some y \<Rightarrow> show_x y)"

definition csv_line :: "(naive_date \<Rightarrow> string) \<Rightarrow> (decimal \<Rightarrow> string) \<Rightarrow> parsed_line \<Rightarrow> string" where
  "csv_line show_d show_x l = show_d (pl_date l) @ CHR '','' # in_quotes (doubled (pl_description l)) @ CHR '','' # show_opt show_x (pl_debit l)
     @ CHR '','' # show_opt show_x (pl_credit l) @ CHR '','' # show_opt show_x (pl_balance l)"

definition csv_statement :: "(naive_date \<Rightarrow> string) \<Rightarrow> (decimal \<Rightarrow> string) \<Rightarrow> parsed_line list \<Rightarrow> string" where
  "csv_statement show_d show_x ls = concat (map (\<lambda>s. s @ [CHR 10])
     (''date,description,debit,credit,balance'' # map (csv_line show_d show_x) ls))"

definition printable :: "naive_date set \<Rightarrow> decimal set \<Rightarrow> parsed_line \<Rightarrow> bool" where
  "printable dates amounts l \<longleftrightarrow> pl_date l \<in> dates
     \<and> (\<forall>x \<in> set_option (pl_debit l) \<union> set_option (pl_credit l) \<union> set_option (pl_balance l). x \<in> amounts)
     \<and> (pl_debit l \<noteq> None \<or> pl_credit l \<noteq> None)
     \<and> CHR 10 \<notin> set (pl_description l) \<and> CHR 13 \<notin> set (pl_description l)"

text \<open>What the parser makes of a printed line.\<close>

definition read_back :: "parsed_line \<Rightarrow> parsed_line" where
  "read_back l = l\<lparr>pl_description := trim_char (CHR ''\"'') (doubled (pl_description l)), pl_reference := []\<rparr>"

lemma read_back_plain:
  "CHR ''\"'' \<notin> set (pl_description l) \<Longrightarrow> pl_reference l = [] \<Longrightarrow> read_back l = l"
  by (simp add: read_back_def doubled_plain trim_char_other)

context text_laws begin

lemma show_opt_field:
  assumes "\<forall>y \<in> set_option x. y \<in> amounts"
  shows "plain_field (show_opt show_x x)" "\<forall>c \<in> set (show_opt show_x x). \<not> is_space c"
    "parse_csv_amount T (trim (show_opt show_x x)) = x"
  using assms amount_chars parse_amount_back
  by (auto simp: show_opt_def number_like_def plain_field_def parse_csv_amount_def trim_char_def split: option.splits)

lemma csv_line_cols:
  assumes "printable dates amounts l"
  shows "csv_split (csv_line show_d show_x l)
    = [show_d (pl_date l), in_quotes (doubled (pl_description l)), show_opt show_x (pl_debit l), show_opt show_x (pl_credit l),
       show_opt show_x (pl_balance l)]"
proof -
  have "plain_field (show_d (pl_date l))" using assms date_chars by (simp add: printable_def number_like_def)
  moreover have "plain_field (show_opt show_x (pl_debit l))" "plain_field (show_opt show_x (pl_credit l))"
    "plain_field (show_opt show_x (pl_balance l))"
    using assms show_opt_field(1) by (auto simp: printable_def)
  ultimately show ?thesis
    using assms by (simp add: csv_split_def csv_line_def csv_split_plain csv_split_quoted printable_def)
qed

lemma csv_line_plain:
  assumes "printable dates amounts l"
  shows "trim (csv_line show_d show_x l) = csv_line show_d show_x l"
proof (rule trim_plain)
  have d: "number_like (show_d (pl_date l))" using assms date_chars by (simp add: printable_def)
  then have hd: "hd (csv_line show_d show_x l) = hd (show_d (pl_date l))"
    by (simp add: csv_line_def number_like_def)
  have "\<forall>c \<in> set (show_opt show_x (pl_balance l)). \<not> is_space c"
    using assms show_opt_field(2) by (auto simp: printable_def)
  then have "\<not> is_space (last (CHR '','' # show_opt show_x (pl_balance l)))" by (auto simp: is_space_def)
  then have "\<not> is_space (last (csv_line show_d show_x l))" by (simp add: csv_line_def)
  with d hd show "plain_ends (csv_line show_d show_x l)"
    by (simp add: plain_ends_def number_like_def) (simp add: csv_line_def)
qed

lemma csv_row_back:
  assumes "printable dates amounts l"
  shows "csv_row T C 5 row (csv_line show_d show_x l) = Inr (Some (read_back l))"
proof -
  have q: "trim (in_quotes s) = in_quotes s" for s
    by (rule trim_plain) (simp add: in_quotes_def plain_ends_def is_space_def)
  have "csv_line show_d show_x l \<noteq> []" by (simp add: csv_line_def)
  moreover have "pl_date l \<in> dates" "trim_char (CHR ''\"'') (in_quotes (doubled (pl_description l))) = trim_char (CHR ''\"'') (doubled (pl_description l))"
    "pl_debit l \<noteq> None \<or> pl_credit l \<noteq> None"
    using assms by (simp_all add: printable_def in_quotes_def trim_char_around)
  moreover have "parse_csv_amount T (trim (show_opt show_x (pl_debit l))) = pl_debit l"
    "parse_csv_amount T (trim (show_opt show_x (pl_credit l))) = pl_credit l"
    "parse_csv_amount T (trim (show_opt show_x (pl_balance l))) = pl_balance l"
    using assms show_opt_field(3) by (auto simp: printable_def)
  ultimately show ?thesis
    using assms by (simp add: csv_row_def csv_line_plain csv_line_cols csv_amounts_def parse_date_back q Let_def read_back_def
      numeral_2_eq_2 numeral_3_eq_3 eval_nat_numeral)
qed

lemma csv_line_one_line:
  assumes "printable dates amounts l"
  shows "CHR 10 \<notin> set (csv_line show_d show_x l) \<and> CHR 13 \<notin> set (csv_line show_d show_x l)"
proof -
  have space: "is_space (CHR 10)" "is_space (CHR 13)" by (simp_all add: is_space_def)
  have "\<forall>c \<in> set (show_d (pl_date l)). \<not> is_space c"
    using assms date_chars [of "pl_date l"] by (simp add: printable_def number_like_def)
  moreover have "\<forall>c \<in> set (show_opt show_x x). \<not> is_space c" if "x \<in> {pl_debit l, pl_credit l, pl_balance l}" for x
    using assms that show_opt_field(2) by (auto simp: printable_def)
  ultimately show ?thesis using assms space by (auto simp: csv_line_def in_quotes_def printable_def)
qed

lemma rows_back:
  assumes "\<forall>l \<in> set ls. printable dates amounts l"
  shows "try_map (\<lambda>(i, row). csv_row T C 5 (i + k) row) (enumerate n (map (csv_line show_d show_x) ls)) = Inr (map (\<lambda>l. Some (read_back l)) ls)"
  using assms by (induction ls arbitrary: n) (simp_all add: csv_row_back)

lemma csv_back:
  assumes "\<forall>l \<in> set ls. printable dates amounts l" and "ls \<noteq> []"
  shows "parse_csv T C (csv_statement show_d show_x ls) = Inr (map read_back ls)"
proof -
  let ?h = "''date,description,debit,credit,balance''"
  have lines: "str_lines (csv_statement show_d show_x ls) = ?h # map (csv_line show_d show_x) ls"
    unfolding csv_statement_def by (rule str_lines_concat) (use assms(1) csv_line_one_line in auto)
  have header: "csv_header ?h" by code_simp
  have cols: "length (csv_split ((?h # map (csv_line show_d show_x) ls) ! 1)) = 5"
    using assms by (cases ls) (simp_all add: csv_line_cols)
  have "List.map_filter id (map (\<lambda>l. Some (read_back l)) ls) = map read_back ls" by (induction ls) (simp_all add: List.map_filter_simps)
  with lines header cols rows_back [OF assms(1), of C 2 0] assms(2) show ?thesis
    by (simp add: parse_csv_def)
qed

end

section \<open>The property\<close>

text \<open>
  C39: a statement written as CSV in the layout of five columns, its descriptions quoted and quotes in
  them doubled, is read back line by line: dates and amounts as they were, the reference empty (the
  layout has no column for it), and the description, commas included, with its quotes still doubled and
  those at its ends stripped. So lines without quotes and references come back as they were. It holds for
  lines with a debit or a credit and without line breaks in the description, and for packages that
  read back the dates and amounts as they are printed.
\<close>

theorem csv_statement_reads_back:
  assumes "text_laws T show_d show_x dates amounts"
    and "list_all (printable dates amounts) ls" and "ls \<noteq> []"
  shows "parse_statement T C Csv (csv_statement show_d show_x ls)
      = Inr (map (\<lambda>l. l\<lparr>pl_description := trim_char (CHR ''\"'') (doubled (pl_description l)), pl_reference := []\<rparr>) ls)
    \<and> (list_all (\<lambda>l. CHR ''\"'' \<notin> set (pl_description l) \<and> pl_reference l = []) ls \<longrightarrow>
        parse_statement T C Csv (csv_statement show_d show_x ls) = Inr ls)"
proof -
  have parsed: "parse_statement T C Csv (csv_statement show_d show_x ls) = Inr (map read_back ls)"
    using text_laws.csv_back [OF assms(1)] assms(2,3) by (simp add: parse_statement_def list_all_iff)
  have "map read_back ls = ls" if "list_all (\<lambda>l. CHR ''\"'' \<notin> set (pl_description l) \<and> pl_reference l = []) ls"
    using that by (induction ls) (simp_all add: read_back_plain)
  with parsed show ?thesis by (simp add: read_back_def [abs_def])
qed

text \<open>A sample: a package that knows two dates and one amount.\<close>

definition sample_text :: text_lib where
  "sample_text = \<lparr>parse_decimal = (\<lambda>s. if s = ''12.50'' then Some (25 / 2) else None),
     parse_from_str = (\<lambda>s f. if s = ''2025-01-02'' \<and> f = ''%Y-%m-%d'' then Some 739252 else None)\<rparr>"

interpretation sample_texts: text_laws sample_text "\<lambda>_. ''2025-01-02''" "\<lambda>_. ''12.50''" "{739252}" "{25 / 2}"
  by unfold_locales (auto simp: sample_text_def number_like_def plain_field_def is_space_def)

definition csv_sample :: "string \<Rightarrow> parsed_line" where
  "csv_sample s = \<lparr>pl_date = 739252, pl_description = s, pl_reference = [], pl_debit = Some (25 / 2),
     pl_credit = None, pl_balance = None\<rparr>"

theorem csv_statement_reads_back_witness:
  "parse_statement sample_text gregorian Csv
     (csv_statement (\<lambda>_. ''2025-01-02'') (\<lambda>_. ''12.50'') [csv_sample ''Rent, March'']) = Inr [csv_sample ''Rent, March'']
   \<and> parse_statement sample_text gregorian Csv
     (csv_statement (\<lambda>_. ''2025-01-02'') (\<lambda>_. ''12.50'') [csv_sample ''a \"b\"''])
     = Inr [csv_sample ''a \"\"b'']"
proof -
  have p: "list_all (printable {739252} {25 / 2}) [csv_sample s]" if "CHR 10 \<notin> set s \<and> CHR 13 \<notin> set s" for s
    using that by (simp add: printable_def csv_sample_def)
  have "parse_statement sample_text gregorian Csv
      (csv_statement (\<lambda>_. ''2025-01-02'') (\<lambda>_. ''12.50'') [csv_sample ''Rent, March'']) = Inr [csv_sample ''Rent, March'']"
    using csv_statement_reads_back [OF sample_texts.text_laws_axioms p, of "''Rent, March''" gregorian]
    by (simp add: csv_sample_def trim_char_def)
  moreover have "parse_statement sample_text gregorian Csv
      (csv_statement (\<lambda>_. ''2025-01-02'') (\<lambda>_. ''12.50'') [csv_sample ''a \"b\"'']) = Inr [csv_sample ''a \"\"b'']"
    using csv_statement_reads_back [OF sample_texts.text_laws_axioms p, of "''a \"b\"''" gregorian]
    by (simp add: csv_sample_def trim_char_def)
  ultimately show ?thesis ..
qed

text \<open>The layout is that of the first data row: a later row with fewer columns panics.\<close>

lemma short_row_panics:
  "parse_csv \<lparr>parse_decimal = \<lambda>_. Some 1, parse_from_str = \<lambda>_ _. Some 739252\<rparr> C
    (''d,a,1,,1'' @ CHR 10 # ''d,b,1'') = Inl (Internal ''panic: index out of bounds'')"
  by code_simp

end
