(* ===== verification/Fx.thy ===== *)
theory Fx
  imports Payments
begin

text \<open>
  Exchange rates and revaluation: \<^verbatim>\<open>fx/mod.rs\<close> and \<^verbatim>\<open>services/fx.rs\<close>. The feed of the central
  bank (an HTTP call and \<open>f64\<close> arithmetic) is not modelled. Where a query orders by the rate's date
  only, the row inserted last wins among those of one date.
\<close>

section \<open>Rates\<close>

datatype rate_type = Spot | Revaluation | Budget

record exchange_rate =
  ex_id :: uuid
  ex_entity_id :: uuid
  ex_from :: currency_code
  ex_to :: currency_code
  ex_date :: naive_date
  ex_type :: rate_type
  ex_rate :: decimal
  ex_source :: string

record upsert_rate_request =
  ur_from :: currency_code
  ur_to :: currency_code
  ur_date :: naive_date
  ur_type :: rate_type
  ur_rate :: decimal
  ur_source :: string

record fx_db = payments_db +
  exchange_rates :: "exchange_rate list"

definition new_rate :: "environment \<Rightarrow> uuid \<Rightarrow> upsert_rate_request \<Rightarrow> exchange_rate" where
  "new_rate E e req =
     \<lparr>ex_id = uuids E 0, ex_entity_id = e, ex_from = ur_from req, ex_to = ur_to req, ex_date = ur_date req,
      ex_type = ur_type req, ex_rate = ur_rate req, ex_source = ur_source req\<rparr>"

definition same_rate_key :: "exchange_rate \<Rightarrow> exchange_rate \<Rightarrow> bool" where
  "same_rate_key x y \<longleftrightarrow> ex_entity_id x = ex_entity_id y \<and> ex_from x = ex_from y \<and> ex_to x = ex_to y
     \<and> ex_date x = ex_date y \<and> ex_type x = ex_type y"

text \<open>\<open>ON CONFLICT DO UPDATE SET rate, source\<close>; the returned row carries the fresh id in both cases.\<close>

definition upsert_rate :: "environment \<Rightarrow> 'a fx_db_scheme \<Rightarrow> uuid \<Rightarrow> upsert_rate_request \<Rightarrow> exchange_rate \<times> 'a fx_db_scheme" where
  "upsert_rate E db e req =
     (let r = new_rate E e req in
      (r, if list_ex (same_rate_key r) (exchange_rates db)
          then db\<lparr>exchange_rates := map (\<lambda>x. if same_rate_key r x then x\<lparr>ex_rate := ur_rate req, ex_source := ur_source req\<rparr> else x)
                 (exchange_rates db)\<rparr>
          else db\<lparr>exchange_rates := exchange_rates db @ [r]\<rparr>))"

definition latest_rate :: "(exchange_rate \<Rightarrow> bool) \<Rightarrow> exchange_rate list \<Rightarrow> decimal option" where
  "latest_rate P rs = (case rev (sort_key ex_date (filter P rs)) of [] \<Rightarrow> None | r # _ \<Rightarrow> Some (ex_rate r))"

definition rate_pair :: "uuid \<Rightarrow> currency_code \<Rightarrow> currency_code \<Rightarrow> exchange_rate \<Rightarrow> bool" where
  "rate_pair e from_ccy to_ccy r \<longleftrightarrow> ex_entity_id r = e \<and> ex_from r = from_ccy \<and> ex_to r = to_ccy"

definition get_rate :: "'a fx_db_scheme \<Rightarrow> uuid \<Rightarrow> currency_code \<Rightarrow> currency_code \<Rightarrow> naive_date \<Rightarrow> decimal erp_result" where
  "get_rate db e from_ccy to_ccy d =
     ok_or (latest_rate (\<lambda>r. rate_pair e from_ccy to_ccy r \<and> ex_date r \<le> d) (exchange_rates db))
       (FxRateNotFound from_ccy to_ccy d)"

definition rate_month_end :: "calendar \<Rightarrow> naive_date \<Rightarrow> naive_date" where
  "rate_month_end C d =
     (case (if month C d = 12 then from_ymd_opt C (year C d + 1) 1 1
            else from_ymd_opt C (year C d) (month C d + 1) 1) of
        Some x \<Rightarrow> x - 1 | None \<Rightarrow> d)"

definition get_month_rate ::
    "calendar \<Rightarrow> 'a fx_db_scheme \<Rightarrow> uuid \<Rightarrow> currency_code \<Rightarrow> currency_code \<Rightarrow> naive_date \<Rightarrow> decimal erp_result" where
  "get_month_rate C db e from_ccy to_ccy d =
     (let last = rate_month_end C d; first = unwrap_or (from_ymd_opt C (year C d) (month C d) 1) d in
      case latest_rate (\<lambda>r. rate_pair e from_ccy to_ccy r \<and> first \<le> ex_date r \<and> ex_date r \<le> last) (exchange_rates db) of
        Some x \<Rightarrow> Inr x
      | None \<Rightarrow> get_rate db e from_ccy to_ccy last)"

section \<open>Revaluation\<close>

text \<open>\<open>Display\<close> of a date.\<close>

definition show_ymd :: "calendar \<Rightarrow> naive_date \<Rightarrow> string" where
  "show_ymd C d = pad_zero 4 (show_int (year C d)) @ ''-'' @ pad_zero 2 (show_nat (month C d)) @ ''-'' @ pad_zero 2 (show_nat (day C d))"

definition non_monetary :: "posting_setup \<Rightarrow> account_code list" where
  "non_monetary ps = [inventory_asset ps, fixed_asset ps, accumulated_depreciation ps]"

text \<open>A line of the query: of a posted entry up to the date, in a foreign currency, on a monetary
  account of the balance sheet.\<close>

definition foreign_line :: "'a ledger_db_scheme \<Rightarrow> uuid \<Rightarrow> naive_date \<Rightarrow> currency_code \<Rightarrow> account_code list \<Rightarrow> journal_line_row \<Rightarrow> bool" where
  "foreign_line db e d base excluded r \<longleftrightarrow>
     list_ex (\<lambda>x. je_id x = row_entry_id r \<and> je_entity_id x = e \<and> je_status x = EntryPosted \<and> je_date x \<le> d) (journal_entries db)
     \<and> jl_currency (row_line r) \<noteq> base
     \<and> (case find_account db e (jl_account (row_line r)) of
          None \<Rightarrow> False
        | Some a \<Rightarrow> ac_account_type a \<in> {''Asset'', ''Liability'', ''ContraAsset'', ''ContraLiability''})
     \<and> jl_account (row_line r) \<notin> set excluded"

record fcy_balance_row =
  fb_account :: account_code
  fb_account_name :: string
  fb_currency :: currency_code
  balance_fcy :: decimal
  balance_lcy :: decimal

definition fcy_balance :: "'a ledger_db_scheme \<Rightarrow> uuid \<Rightarrow> journal_line_row list \<Rightarrow> account_code \<times> currency_code \<Rightarrow> fcy_balance_row" where
  "fcy_balance db e rs = (\<lambda>(c, ccy).
     let P = (\<lambda>r. jl_account (row_line r) = c \<and> jl_currency (row_line r) = ccy) in
     \<lparr>fb_account = c, fb_account_name = (case find_account db e c of None \<Rightarrow> [] | Some a \<Rightarrow> ac_name a), fb_currency = ccy,
      balance_fcy = sum_where P (\<lambda>r. unwrap_or (jl_debit (row_line r)) 0 - unwrap_or (jl_credit (row_line r)) 0) rs,
      balance_lcy = sum_where P (\<lambda>r. unwrap_or (functional_debit (row_line r)) 0 - unwrap_or (functional_credit (row_line r)) 0) rs\<rparr>)"

definition fcy_balances :: "'a ledger_db_scheme \<Rightarrow> uuid \<Rightarrow> naive_date \<Rightarrow> currency_code \<Rightarrow> account_code list \<Rightarrow> fcy_balance_row list" where
  "fcy_balances db e d base excluded =
     (let rs = filter (foreign_line db e d base excluded) (journal_lines db) in
      filter (\<lambda>b. balance_fcy b \<noteq> 0)
        (map (fcy_balance db e rs) (rev (remdups (rev (map (\<lambda>r. (jl_account (row_line r), jl_currency (row_line r))) rs))))))"

text \<open>The value of a balance at the new rate against its book value.\<close>

definition gain_loss :: "'a fx_db_scheme \<Rightarrow> uuid \<Rightarrow> currency_code \<Rightarrow> naive_date \<Rightarrow> fcy_balance_row \<Rightarrow> (fcy_balance_row \<times> decimal) erp_result" where
  "gain_loss db e base d b =
     and_then (get_rate db e (fb_currency b) base d) (\<lambda>rate. Inr (b, balance_fcy b * rate - balance_lcy b))"

definition reval_lines :: "posting_setup \<Rightarrow> currency_code \<Rightarrow> fcy_balance_row \<times> decimal \<Rightarrow> journal_line_request list" where
  "reval_lines ps base = (\<lambda>(b, g).
     let what = fb_currency b @ '' '' @ fb_account b in
     if g = 0 then []
     else if 0 < g
     then [dr_line base (Some 1) (Some (''FX reval '' @ what)) (fb_account b) g,
           cr_line base (Some 1) (Some (''FX gain on '' @ what)) (unrealised_fx_gain ps) g]
     else [dr_line base (Some 1) (Some (''FX loss on '' @ what)) (unrealised_fx_loss ps) \<bar>g\<bar>,
           cr_line base (Some 1) (Some (''FX reval '' @ what)) (fb_account b) \<bar>g\<bar>])"

definition swap_line :: "journal_line_request \<Rightarrow> journal_line_request" where
  "swap_line l = l\<lparr>rl_debit := rl_credit l, rl_credit := rl_debit l,
     rl_description := map_option (\<lambda>d. ''Reversal: '' @ d) (rl_description l), rl_dimensions := None\<rparr>"

definition reval_entry :: "calendar \<Rightarrow> naive_date \<Rightarrow> journal_line_request list \<Rightarrow> journal_entry_request" where
  "reval_entry C d ls =
     \<lparr>rq_date = d, rq_source = FxRevaluation, rq_source_id = None, rq_reference = ''FXREVAL-'' @ show_ymd C d,
      rq_description = ''FX revaluation as at '' @ show_ymd C d, rq_lines = ls, rq_post_immediately = True\<rparr>"

definition reval_reversal :: "calendar \<Rightarrow> naive_date \<Rightarrow> naive_date \<Rightarrow> journal_line_request list \<Rightarrow> journal_entry_request" where
  "reval_reversal C d d' ls =
     \<lparr>rq_date = d', rq_source = FxRevaluation, rq_source_id = None, rq_reference = ''FXREVAL-REV-'' @ show_ymd C d,
      rq_description = ''Reversal of FX revaluation as at '' @ show_ymd C d, rq_lines = map swap_line ls,
      rq_post_immediately = True\<rparr>"

definition next_period_start :: "naive_date \<Rightarrow> naive_date" where
  "next_period_start d = d + 1"

text \<open>What is read before anything is written: the period and the lines of the entry.\<close>

definition plan_revaluation ::
    "'a fx_db_scheme \<Rightarrow> uuid \<Rightarrow> uuid \<Rightarrow> naive_date \<Rightarrow> (fiscal_period \<times> journal_line_request list) erp_result" where
  "plan_revaluation db e p d =
     (let base = base_currency (configs db e); ps = posting (configs db e) in
      and_then (get_period db e p) (\<lambda>period.
      let balances = fcy_balances db e d base (non_monetary ps) in
      if balances = [] then Inl (ValidationFailed ''No foreign currency balances found for revaluation'')
      else and_then (try_map (gain_loss db e base d) balances) (\<lambda>gs.
        let ls = concat (map (reval_lines ps base) gs) in
        if ls = [] then Inl (ValidationFailed ''No revaluation adjustments needed - all balances are at current rates'')
        else Inr (period, ls))))"

text \<open>Two transactions: the entry stays when the reversal cannot be posted.\<close>

definition run_fx_revaluation ::
    "decimal_lib \<Rightarrow> calendar \<Rightarrow> environment \<Rightarrow> 'a fx_db_scheme \<Rightarrow> uuid \<Rightarrow> uuid \<Rightarrow> naive_date \<Rightarrow> agent_or_user_id
      \<Rightarrow> 'a fx_db_scheme \<times> uuid erp_result" where
  "run_fx_revaluation L C E db e p d by' =
     (case plan_revaluation db e p d of
        Inl err \<Rightarrow> (db, Inl err)
      | Inr (period, ls) \<Rightarrow>
          (case create_and_post L C (evens E) db e (reval_entry C d ls) p by' of
             Inl err \<Rightarrow> (db, Inl err)
           | Inr (entry, db1) \<Rightarrow>
               (let d' = next_period_start (end_date period) in
                case period_for_date db1 e d' of
                  Inl err \<Rightarrow> (db1, Inl err)
                | Inr next_p \<Rightarrow>
                    (case create_and_post L C (odds E) db1 e (reval_reversal C d d' ls) (fp_id next_p) by' of
                       Inl err \<Rightarrow> (db1, Inl err)
                     | Inr (_, db2) \<Rightarrow> (db2, Inr (en_id entry))))))"

end
