(* ===== verification/Bank.thy ===== *)
theory Bank
  imports Fx Statements
begin

text \<open>
  Bank statements and the categorisation queue: \<^verbatim>\<open>services/bank.rs\<close> and
  \<^verbatim>\<open>services/transactions.rs\<close>. The standard library does not specify its \<open>DefaultHasher\<close>, so the two
  hashes are parameters. \<open>DISTINCT ON\<close> without an order takes the first row in the order of the
  tables. The \<open>f32\<close> similarities are quotients of small counts and are modelled as rationals.
\<close>

section \<open>Data\<close>

record imported_transaction =
  it_id :: uuid
  it_entity_id :: uuid
  it_bank_account :: uuid
  it_date :: naive_date
  it_description :: string
  it_reference :: string
  it_debit :: "decimal option"
  it_credit :: "decimal option"
  it_running_bal :: decimal
  it_status :: string
  it_assigned_account :: "account_code option"
  it_merged_into :: "uuid option"
  it_journal_entry_id :: "uuid option"
  it_batch_id :: "uuid option"
  it_created_at :: timestamp
  it_dedup_key :: "string option"

record statement_import =
  si_id :: uuid
  si_entity_id :: uuid
  si_bank_account_id :: uuid
  si_format :: string
  si_filename :: string
  si_line_count :: int
  si_matched_count :: int
  si_unmatched_count :: int
  si_content_hash :: string

record hash_lib =
  content_hash :: "string \<Rightarrow> string"
  line_hash :: "nat \<Rightarrow> parsed_line \<Rightarrow> string"

text \<open>\<open>journal_entries.reconciled\<close> is the set of reconciled entries.\<close>

record bank_db = fx_db +
  imported_transactions :: "imported_transaction list"
  statement_imports :: "statement_import list"
  reconciled_entries :: "uuid list"

datatype category_status = Uncategorised | Suggested | Categorised | PostedLine | Excluded

fun as_db_str :: "category_status \<Rightarrow> string" where
  "as_db_str Uncategorised = ''uncategorised''"
| "as_db_str Suggested = ''suggested''"
| "as_db_str Categorised = ''categorised''"
| "as_db_str PostedLine = ''posted''"
| "as_db_str Excluded = ''excluded''"

definition from_db_str :: "string \<Rightarrow> category_status option" where
  "from_db_str s =
     (let t = lower (trim s) in
      if t \<in> {''uncategorised'', ''uncategorized''} then Some Uncategorised
      else if t = ''suggested'' then Some Suggested
      else if t \<in> {''categorised'', ''categorized''} then Some Categorised
      else if t = ''posted'' then Some PostedLine
      else if t = ''excluded'' then Some Excluded
      else None)"

section \<open>Import\<close>

record import_request =
  ir_entity_id :: uuid
  ir_bank_account_id :: uuid
  ir_filename :: string
  ir_content :: string

record import_result =
  im_import_id :: uuid
  im_format :: statement_format
  im_line_count :: nat

fun format_str :: "statement_format \<Rightarrow> string" where
  "format_str Mt940 = ''mt940''"
| "format_str Ofx = ''ofx''"
| "format_str Csv = ''csv''"
| "format_str ApiFeed = ''api''"

definition new_imported :: "environment \<Rightarrow> hash_lib \<Rightarrow> import_request \<Rightarrow> nat \<Rightarrow> parsed_line \<Rightarrow> imported_transaction" where
  "new_imported E H req k l =
     \<lparr>it_id = uuids E (k + 1), it_entity_id = ir_entity_id req, it_bank_account = ir_bank_account_id req,
      it_date = pl_date l, it_description = pl_description l, it_reference = pl_reference l, it_debit = pl_debit l,
      it_credit = pl_credit l, it_running_bal = unwrap_or (pl_balance l) 0, it_status = ''uncategorised'',
      it_assigned_account = None, it_merged_into = None, it_journal_entry_id = None, it_batch_id = Some (uuids E 0),
      it_created_at = now E, it_dedup_key = Some (line_hash H k l)\<rparr>"

definition same_dedup :: "imported_transaction \<Rightarrow> imported_transaction \<Rightarrow> bool" where
  "same_dedup x y \<longleftrightarrow> it_dedup_key x \<noteq> None \<and> it_entity_id x = it_entity_id y
     \<and> it_bank_account x = it_bank_account y \<and> it_dedup_key x = it_dedup_key y"

text \<open>\<open>ON CONFLICT .. DO NOTHING\<close> on the key of the line; a clash of ids is an error.\<close>

definition insert_imported :: "imported_transaction \<Rightarrow> nat \<times> imported_transaction list \<Rightarrow> (nat \<times> imported_transaction list) erp_result" where
  "insert_imported t = (\<lambda>(n, ts).
     if list_ex (same_dedup t) ts then Inr (n, ts)
     else if it_id t \<in> it_id ` set ts then Inl (Database ''duplicate key value violates unique constraint'')
     else Inr (n + 1, ts @ [t]))"

definition import_statement ::
    "text_lib \<Rightarrow> calendar \<Rightarrow> hash_lib \<Rightarrow> environment \<Rightarrow> 'a bank_db_scheme \<Rightarrow> import_request
      \<Rightarrow> (import_result \<times> 'a bank_db_scheme) erp_result" where
  "import_statement T C H E db req =
     and_then (detect_format (ir_filename req) (ir_content req)) (\<lambda>f.
     and_then (parse_statement T C f (ir_content req)) (\<lambda>ls.
     if ls = [] then Inl (ValidationFailed ''Statement file contains no transaction lines'')
     else if list_ex (\<lambda>i. si_entity_id i = ir_entity_id req \<and> si_bank_account_id i = ir_bank_account_id req
               \<and> si_content_hash i = content_hash H (ir_content req)) (statement_imports db)
     then Inl (ValidationFailed ''This statement file has already been imported for this bank account'')
     else
       (let i = \<lparr>si_id = uuids E 0, si_entity_id = ir_entity_id req, si_bank_account_id = ir_bank_account_id req,
                 si_format = format_str f, si_filename = ir_filename req, si_line_count = int (length ls),
                 si_matched_count = 0, si_unmatched_count = 0, si_content_hash = content_hash H (ir_content req)\<rparr>
        in if si_id i \<in> si_id ` set (statement_imports db)
           then Inl (Database ''duplicate key value violates unique constraint'')
           else and_then (try_fold insert_imported (map (\<lambda>(k, l). new_imported E H req k l) (enumerate 0 ls))
               (0, imported_transactions db)) (\<lambda>(n, ts).
             Inr (\<lparr>im_import_id = si_id i, im_format = f, im_line_count = n\<rparr>,
                  db\<lparr>statement_imports := statement_imports db @ [i], imported_transactions := ts\<rparr>)))))"

section \<open>Similarity of references\<close>

fun generate_trigrams :: "string \<Rightarrow> string list" where
  "generate_trigrams (a # b # c # s) = [a, b, c] # generate_trigrams (b # c # s)"
| "generate_trigrams s = []"

definition fuzzy_reference_similarity :: "string \<Rightarrow> string \<Rightarrow> rat" where
  "fuzzy_reference_similarity a b =
     (if a = [] \<and> b = [] then 1
      else if a = [] \<or> b = [] then 0
      else (let al = lower a; bl = lower b in
        if al = bl then 1
        else (let ta = generate_trigrams al; tb = generate_trigrams bl in
          if ta = [] \<and> tb = []
          then of_nat (length (filter (\<lambda>(x, y). x = y) (zip al bl))) / of_nat (max (length al) (length bl))
          else of_nat (length (filter (\<lambda>t. t \<in> set tb) ta)) / of_nat (max (length ta) (length tb)))))"

section \<open>Matching in three passes\<close>

record match_pair =
  mp_line :: uuid
  mp_entry :: uuid
  mp_amount :: decimal
  mp_date :: naive_date

record near_match =
  nm_line :: uuid
  nm_entry :: uuid
  nm_amount :: decimal
  nm_date_diff :: int
  nm_similarity :: rat

record ai_suggestion =
  as_line :: uuid
  as_account :: account_code
  as_confidence :: rat

record match_report =
  mr_statement :: uuid
  exact_matches :: "match_pair list"
  near_matches :: "near_match list"
  ai_suggestions :: "ai_suggestion list"
  unmatched_ids :: "uuid list"

definition open_lines :: "'a bank_db_scheme \<Rightarrow> uuid \<Rightarrow> uuid \<Rightarrow> imported_transaction list" where
  "open_lines db e s = filter (\<lambda>t. it_batch_id t = Some s \<and> it_entity_id t = e \<and> it_status t = ''uncategorised'')
     (imported_transactions db)"

text \<open>The joins: a posted entry of the tenant with a line that mirrors the bank line. A null amount
  equals nothing.\<close>

definition same_amount :: "decimal option \<Rightarrow> decimal option \<Rightarrow> bool" where
  "same_amount x y \<longleftrightarrow> x \<noteq> None \<and> x = y"

definition entry_mirrors :: "'a bank_db_scheme \<Rightarrow> imported_transaction \<Rightarrow> journal_entry_row \<Rightarrow> bool" where
  "entry_mirrors db t x \<longleftrightarrow> je_entity_id x = it_entity_id t \<and> je_status x = EntryPosted
     \<and> list_ex (\<lambda>r. row_entry_id r = je_id x \<and> (same_amount (functional_debit (row_line r)) (it_credit t)
         \<or> same_amount (functional_credit (row_line r)) (it_debit t))) (journal_lines db)"

definition line_amount :: "imported_transaction \<Rightarrow> decimal" where
  "line_amount t = (case it_debit t of Some x \<Rightarrow> x | None \<Rightarrow> unwrap_or (it_credit t) 0)"

definition exact_entry :: "'a bank_db_scheme \<Rightarrow> imported_transaction \<Rightarrow> journal_entry_row option" where
  "exact_entry db t = List.find (\<lambda>x. entry_mirrors db t x \<and> je_date x = it_date t
     \<and> je_reference x = it_reference t \<and> je_reference x \<noteq> []) (journal_entries db)"

definition exact_pairs :: "'a bank_db_scheme \<Rightarrow> imported_transaction list \<Rightarrow> match_pair list" where
  "exact_pairs db ts = List.map_filter (\<lambda>t. map_option (\<lambda>x.
     \<lparr>mp_line = it_id t, mp_entry = je_id x, mp_amount = line_amount t, mp_date = it_date t\<rparr>) (exact_entry db t)) ts"

definition near_entry :: "'a bank_db_scheme \<Rightarrow> uuid list \<Rightarrow> uuid list \<Rightarrow> imported_transaction \<Rightarrow> journal_entry_row option" where
  "near_entry db lines entries t =
     (if it_id t \<in> set lines then None
      else List.find (\<lambda>x. entry_mirrors db t x \<and> \<bar>je_date x - it_date t\<bar> \<le> 3 \<and> je_id x \<notin> set entries) (journal_entries db))"

definition near_step :: "imported_transaction \<times> journal_entry_row \<Rightarrow> near_match list \<Rightarrow> near_match list" where
  "near_step = (\<lambda>(t, x) ms.
     let s = fuzzy_reference_similarity (it_reference t) (je_reference x) in
     if it_id t \<in> nm_line ` set ms \<or> \<not> 8 / 10 < s then ms
     else ms @ [\<lparr>nm_line = it_id t, nm_entry = je_id x, nm_amount = line_amount t,
                 nm_date_diff = \<bar>je_date x - it_date t\<bar>, nm_similarity = s\<rparr>])"

definition near_pairs :: "'a bank_db_scheme \<Rightarrow> match_pair list \<Rightarrow> imported_transaction list \<Rightarrow> near_match list" where
  "near_pairs db exact ts =
     fold near_step
       (List.map_filter (\<lambda>t. map_option (Pair t) (near_entry db (map mp_line exact) (map mp_entry exact) t)) ts) []"

text \<open>Suggestions from the last two hundred categorised lines: the account of the most similar one.\<close>

definition history :: "'a bank_db_scheme \<Rightarrow> uuid \<Rightarrow> (string \<times> account_code) list" where
  "history db e = take 200 (map (\<lambda>t. (it_description t, the (it_assigned_account t)))
     (rev (sort_key it_created_at (filter (\<lambda>t. it_entity_id t = e \<and> it_status t = ''posted'' \<and> it_assigned_account t \<noteq> None)
        (imported_transactions db)))))"

definition suggest_step :: "string \<Rightarrow> string \<times> account_code
    \<Rightarrow> account_code option \<times> rat \<times> (account_code \<Rightarrow> nat) \<Rightarrow> account_code option \<times> rat \<times> (account_code \<Rightarrow> nat)" where
  "suggest_step desc = (\<lambda>(d, a) (best, sim, counts).
     let s = fuzzy_reference_similarity desc d in
     if 1 / 2 < s
     then (if sim < s then Some a else best, if sim < s then s else sim, counts(a := counts a + 1))
     else (best, sim, counts))"

definition suggest_from_history :: "'a bank_db_scheme \<Rightarrow> imported_transaction \<Rightarrow> ai_suggestion option" where
  "suggest_from_history db t =
     (let (best, sim, counts) = fold (suggest_step (it_description t)) (history db (it_entity_id t)) (None, 0, \<lambda>_. 0) in
      case best of
        None \<Rightarrow> None
      | Some a \<Rightarrow>
          if sim < 1 / 2 then None
          else (let boost = min (of_nat (counts a) / 10) (2 / 10) in
            Some \<lparr>as_line = it_id t, as_account = a,
                  as_confidence = max (min (sim * (7 / 10) + boost + 1 / 10) (9 / 10)) (1 / 2)\<rparr>))"

definition match_bank_lines :: "'a bank_db_scheme \<Rightarrow> uuid \<Rightarrow> uuid \<Rightarrow> match_report" where
  "match_bank_lines db e s =
     (let ts = open_lines db e s; exact = exact_pairs db ts; near = near_pairs db exact ts;
          rest = filter (\<lambda>t. it_id t \<notin> set (map mp_line exact @ map nm_line near)) ts
      in \<lparr>mr_statement = s, exact_matches = exact, near_matches = near,
          ai_suggestions = List.map_filter (suggest_from_history db) rest,
          unmatched_ids = map it_id (filter (\<lambda>t. suggest_from_history db t = None) rest)\<rparr>)"

section \<open>Confirming and posting\<close>

definition update_imported :: "uuid \<Rightarrow> (imported_transaction \<Rightarrow> imported_transaction) \<Rightarrow> 'a bank_db_scheme \<Rightarrow> 'a bank_db_scheme" where
  "update_imported i f db = db\<lparr>imported_transactions := map (\<lambda>t. if it_id t = i then f t else t) (imported_transactions db)\<rparr>"

definition count_match :: "uuid option \<Rightarrow> 'a bank_db_scheme \<Rightarrow> 'a bank_db_scheme" where
  "count_match b db = db\<lparr>statement_imports :=
     map (\<lambda>i. if Some (si_id i) = b then i\<lparr>si_matched_count := si_matched_count i + 1\<rparr> else i) (statement_imports db)\<rparr>"

text \<open>Neither the line nor the entry is looked up by the tenant.\<close>

definition confirm_match :: "'a bank_db_scheme \<Rightarrow> uuid \<Rightarrow> uuid \<Rightarrow> 'a bank_db_scheme" where
  "confirm_match db line_id entry_id =
     (let db1 = db\<lparr>imported_transactions := map (\<lambda>t.
            if it_id t = line_id \<and> it_status t \<in> {''uncategorised'', ''suggested''}
            then t\<lparr>it_journal_entry_id := Some entry_id, it_status := ''posted''\<rparr> else t) (imported_transactions db)\<rparr>;
          db2 = (if list_ex (\<lambda>x. je_id x = entry_id) (journal_entries db1)
                 then db1\<lparr>reconciled_entries := List.insert entry_id (reconciled_entries db1)\<rparr> else db1)
      in count_match (Option.bind (List.find (\<lambda>t. it_id t = line_id) (imported_transactions db2)) it_batch_id) db2)"

definition bank_gl_account :: "'a bank_db_scheme \<Rightarrow> uuid \<Rightarrow> uuid \<Rightarrow> account_code" where
  "bank_gl_account db e b =
     (case List.find (\<lambda>x. ba_id x = b \<and> ba_entity_id x = e) (bank_accounts db) of
        Some x \<Rightarrow> ba_gl_account x | None \<Rightarrow> default_bank (posting (configs db e)))"

text \<open>Money out: debit the account, credit the bank. Money in: debit the bank, credit the account.\<close>

definition bank_lines ::
    "currency_code \<Rightarrow> decimal option \<Rightarrow> string \<Rightarrow> account_code \<Rightarrow> account_code \<Rightarrow> imported_transaction \<Rightarrow> journal_line_request list" where
  "bank_lines ccy fx desc bank contra t =
     (if it_debit t \<noteq> None
      then [dr_line ccy fx (Some desc) contra (line_amount t), cr_line ccy fx (Some desc) bank (line_amount t)]
      else [dr_line ccy fx (Some desc) bank (line_amount t), cr_line ccy fx (Some desc) contra (line_amount t)])"

definition bank_entry :: "imported_transaction \<Rightarrow> string \<Rightarrow> journal_line_request list \<Rightarrow> journal_entry_request" where
  "bank_entry t desc ls =
     \<lparr>rq_date = it_date t, rq_source = Payment, rq_source_id = None, rq_reference = it_reference t,
      rq_description = desc, rq_lines = ls, rq_post_immediately = True\<rparr>"

record post_unmatched_request =
  pu_line :: uuid
  pu_account :: account_code
  pu_description :: string
  pu_posted_by :: agent_or_user_id

text \<open>The line is looked up by its id alone and may already be posted.\<close>

definition post_unmatched ::
    "decimal_lib \<Rightarrow> calendar \<Rightarrow> environment \<Rightarrow> 'a bank_db_scheme \<Rightarrow> uuid \<Rightarrow> post_unmatched_request
      \<Rightarrow> (uuid \<times> 'a bank_db_scheme) erp_result" where
  "post_unmatched L C E db e req =
     and_then (ok_or (List.find (\<lambda>t. it_id t = pu_line req) (imported_transactions db))
         (NotFound ''ImportedTransaction'' (pu_line req))) (\<lambda>t.
     if line_amount t = 0 then Inl (ValidationFailed ''Transaction has no debit or credit amount'')
     else and_then (period_for_date db e (it_date t)) (\<lambda>p.
     and_then (create_and_post L C E db e
         (bank_entry t (pu_description req)
           (bank_lines (base_currency (configs db e)) None (pu_description req)
             (bank_gl_account db e (it_bank_account t)) (pu_account req) t)) (fp_id p) (pu_posted_by req)) (\<lambda>(entry, db1).
     Inr (en_id entry, count_match (it_batch_id t) (update_imported (pu_line req) (\<lambda>x.
       x\<lparr>it_journal_entry_id := Some (en_id entry), it_assigned_account := Some (pu_account req), it_status := ''posted''\<rparr>) db1)))))"

section \<open>The balance of a reconciliation\<close>

record reconciliation_summary =
  rs_bank_account :: uuid
  rs_statement :: uuid
  statement_balance :: decimal
  gl_balance :: decimal
  difference :: decimal
  matched_lines :: nat
  unmatched_lines :: nat
  is_reconciled :: bool

definition batch_lines :: "'a bank_db_scheme \<Rightarrow> uuid \<Rightarrow> imported_transaction list" where
  "batch_lines db s = filter (\<lambda>t. it_batch_id t = Some s) (imported_transactions db)"

definition reconciled_balance :: "'a bank_db_scheme \<Rightarrow> uuid \<Rightarrow> uuid \<Rightarrow> decimal" where
  "reconciled_balance db e b =
     (case List.find (\<lambda>x. ba_id x = b \<and> ba_entity_id x = e) (bank_accounts db) of
        None \<Rightarrow> 0
      | Some x \<Rightarrow> sum_where (\<lambda>r. jl_account (row_line r) = ba_gl_account x
            \<and> list_ex (\<lambda>en. je_id en = row_entry_id r \<and> je_entity_id en = e \<and> je_status en = EntryPosted
                \<and> je_id en \<in> set (reconciled_entries db)) (journal_entries db))
          (\<lambda>r. functional_net (row_line r)) (journal_lines db))"

definition set_counts :: "uuid \<Rightarrow> nat \<Rightarrow> nat \<Rightarrow> 'a bank_db_scheme \<Rightarrow> 'a bank_db_scheme" where
  "set_counts s m u db = db\<lparr>statement_imports := map (\<lambda>i.
     if si_id i = s then i\<lparr>si_matched_count := int m, si_unmatched_count := int u\<rparr> else i) (statement_imports db)\<rparr>"

definition verify_reconciliation_balance ::
    "'a bank_db_scheme \<Rightarrow> uuid \<Rightarrow> uuid \<Rightarrow> (reconciliation_summary \<times> 'a bank_db_scheme) erp_result" where
  "verify_reconciliation_balance db e s =
     and_then (ok_or (List.find (\<lambda>i. si_id i = s \<and> si_entity_id i = e) (statement_imports db)) (NotFound ''StatementImport'' s)) (\<lambda>i.
     let done = filter (\<lambda>t. it_status t = ''posted'') (batch_lines db s);
         sb = sum_list (map (\<lambda>t. unwrap_or (it_credit t) 0) done) - sum_list (map (\<lambda>t. unwrap_or (it_debit t) 0) done);
         gl = reconciled_balance db e (si_bank_account_id i);
         m = length done; u = length (filter (\<lambda>t. it_status t \<noteq> ''posted'') (batch_lines db s));
         db1 = (if sb - gl = 0 \<and> u = 0 then set_counts s m 0 db
                else if sb - gl \<noteq> 0 then set_counts s m u db else db)
     in Inr (\<lparr>rs_bank_account = si_bank_account_id i, rs_statement = s, statement_balance = sb, gl_balance = gl,
              difference = sb - gl, matched_lines = m, unmatched_lines = u, is_reconciled = (sb - gl = 0)\<rparr>, db1))"

section \<open>The categorisation queue\<close>

record categorise_request =
  ct_transaction :: uuid
  ct_account :: account_code
  ct_description :: "string option"
  ct_by :: agent_or_user_id

definition find_imported :: "'a bank_db_scheme \<Rightarrow> uuid \<Rightarrow> uuid \<Rightarrow> imported_transaction erp_result" where
  "find_imported db e i =
     ok_or (List.find (\<lambda>t. it_id t = i \<and> it_entity_id t = e) (imported_transactions db)) (NotFound ''ImportedTransaction'' i)"

definition line_currency :: "'a bank_db_scheme \<Rightarrow> uuid \<Rightarrow> uuid \<Rightarrow> currency_code" where
  "line_currency db e b =
     unwrap_or (map_option (\<lambda>x. trim (ba_currency x)) (List.find (\<lambda>x. ba_id x = b \<and> ba_entity_id x = e) (bank_accounts db)))
       (base_currency (configs db e))"

definition line_rate :: "calendar \<Rightarrow> 'a bank_db_scheme \<Rightarrow> uuid \<Rightarrow> imported_transaction \<Rightarrow> decimal erp_result" where
  "line_rate C db e t =
     (let ccy = line_currency db e (it_bank_account t); base = base_currency (configs db e) in
      if ccy = base then Inr 1 else get_month_rate C db e ccy base (it_date t))"

definition categorise ::
    "decimal_lib \<Rightarrow> calendar \<Rightarrow> environment \<Rightarrow> 'a bank_db_scheme \<Rightarrow> uuid \<Rightarrow> categorise_request \<Rightarrow> 'a bank_db_scheme erp_result" where
  "categorise L C E db e req =
     and_then (find_imported db e (ct_transaction req)) (\<lambda>t.
     if it_journal_entry_id t \<noteq> None then Inl (ValidationFailed ''Transaction is already posted to the ledger.'')
     else if line_amount t = 0 then Inl (ValidationFailed ''Transaction has no debit or credit amount to post.'')
     else and_then (line_rate C db e t) (\<lambda>rate.
     let desc = unwrap_or (non_blank (ct_description req)) (it_description t) in
     and_then (period_for_date db e (it_date t)) (\<lambda>p.
     and_then (create_and_post L C E db e
         (bank_entry t desc (bank_lines (line_currency db e (it_bank_account t)) (if rate = 1 then None else Some rate) desc
           (bank_gl_account db e (it_bank_account t)) (ct_account req) t)) (fp_id p) (ct_by req)) (\<lambda>(entry, db1).
     Inr (db1\<lparr>imported_transactions := map (\<lambda>x.
            if it_id x = ct_transaction req \<and> it_entity_id x = e
            then x\<lparr>it_assigned_account := Some (ct_account req), it_status := ''posted'', it_journal_entry_id := Some (en_id entry)\<rparr>
            else x) (imported_transactions db1)\<rparr>)))))"

record split_part =
  sp_amount :: decimal
  sp_account :: account_code
  sp_description :: string

definition split_child :: "environment \<Rightarrow> uuid \<Rightarrow> imported_transaction \<Rightarrow> nat \<times> split_part \<Rightarrow> imported_transaction" where
  "split_child E e t = (\<lambda>(k, p).
     \<lparr>it_id = uuids E k, it_entity_id = e, it_bank_account = it_bank_account t, it_date = it_date t,
      it_description = sp_description p, it_reference = it_reference t,
      it_debit = (if it_debit t \<noteq> None then Some (sp_amount p) else None),
      it_credit = (if it_debit t \<noteq> None then None else Some (sp_amount p)), it_running_bal = it_running_bal t,
      it_status = ''categorised'', it_assigned_account = Some (sp_account p), it_merged_into = None,
      it_journal_entry_id = None, it_batch_id = it_batch_id t, it_created_at = now E, it_dedup_key = None\<rparr>)"

definition split_transaction ::
    "environment \<Rightarrow> 'a bank_db_scheme \<Rightarrow> uuid \<Rightarrow> uuid \<Rightarrow> split_part list \<Rightarrow> (uuid list \<times> 'a bank_db_scheme) erp_result" where
  "split_transaction E db e i parts =
     and_then (find_imported db e i) (\<lambda>t.
     if sum_list (map sp_amount parts) \<noteq> line_amount t
     then Inl (ValidationFailed ''Split parts total does not match transaction amount'')
     else (let cs = map (split_child E e t) (enumerate 0 parts) in
       Inr (map it_id cs, update_imported i (\<lambda>x. x\<lparr>it_status := ''excluded''\<rparr>)
         (db\<lparr>imported_transactions := imported_transactions db @ cs\<rparr>))))"

definition merge_transactions :: "'a bank_db_scheme \<Rightarrow> uuid \<Rightarrow> uuid \<Rightarrow> uuid list \<Rightarrow> 'a bank_db_scheme" where
  "merge_transactions db e primary dups = db\<lparr>imported_transactions := map (\<lambda>t.
     if it_id t \<in> set dups \<and> it_entity_id t = e
     then t\<lparr>it_merged_into := Some primary, it_status := ''excluded''\<rparr> else t) (imported_transactions db)\<rparr>"

definition get_queue :: "'a bank_db_scheme \<Rightarrow> uuid \<Rightarrow> category_status option \<Rightarrow> nat option \<Rightarrow> nat option \<Rightarrow> imported_transaction list" where
  "get_queue db e status limit offset =
     take (unwrap_or limit 50) (drop (unwrap_or offset 0)
       (rev (sort_key it_date (filter (\<lambda>t. it_entity_id t = e \<and> (status = None \<or> Some (it_status t) = map_option as_db_str status)
          \<and> it_merged_into t = None) (imported_transactions db)))))"

end
