(* ===== verification/Bank_Samples.thy ===== *)
theory Bank_Samples
  imports Bank Samples
begin

text \<open>
  A tenant with a bank account in dollars, a rate, one booked receipt in dollars and one statement
  line still to categorise.
\<close>

definition usd_line :: "uuid \<Rightarrow> account_code \<Rightarrow> decimal option \<Rightarrow> decimal option \<Rightarrow> journal_line" where
  "usd_line i c d k = compute_functional
     \<lparr>jl_id = i, jl_account = c, jl_debit = d, jl_credit = k, jl_currency = ''USD'', jl_fx_rate = 120, functional_debit = None,
      functional_credit = None, jl_description = None, jl_dimensions = []\<rparr>"

definition usd_receipt :: imported_transaction where
  "usd_receipt = \<lparr>it_id = 50, it_entity_id = 1, it_bank_account = 40, it_date = 739256, it_description = ''Royalties'',
     it_reference = ''R-1'', it_debit = None, it_credit = Some 10, it_running_bal = 110, it_status = ''uncategorised'',
     it_assigned_account = None, it_merged_into = None, it_journal_entry_id = None, it_batch_id = Some 60,
     it_created_at = 0, it_dedup_key = Some ''k''\<rparr>"

definition bank_start :: bank_db where
  "bank_start =
     \<lparr>accounts = [sample_account ''1025'' ''Asset'' False, sample_account ''5100'' ''Revenue'' False,
        sample_account ''8100'' ''Revenue'' False, sample_account ''8110'' ''Expense'' False,
        sample_account ''7900'' ''Expense'' False],
      configs = default_config,
      fiscal_periods = [sample_period 1 739252 739282 ''open'', sample_period 2 739283 739310 ''open''],
      journal_counter = (\<lambda>_. Some 2),
      journal_entries = [\<lparr>je_id = 30, je_entity_id = 1, je_number = ''J1'', je_date = 739254, je_period_id = 1,
        je_source = Manual, je_source_id = None, je_reference = ''R-0'', je_description = [], je_status = EntryPosted,
        je_created_by = User 9, je_created_at = 0, je_posted_at = Some 0\<rparr>],
      journal_lines = [line_row 30 1 739254 (usd_line 31 ''1025'' (Some 100) None),
        line_row 30 1 739254 (usd_line 32 ''5100'' None (Some 100))],
      account_period_balances = [],
      inventory_items = [], stock_movements = [], warehouses = [], warehouse_stock = [], warehouse_transfers = [],
      doc_counters = (\<lambda>_. Some (\<lambda>_. 1)), customers = [], vendors = [], products = [],
      general_business_groups = [], general_product_groups = [], vat_business_groups = [], vat_product_groups = [],
      general_posting_matrix = [], vat_posting_matrix = [],
      invoices = [], invoice_lines = [], estimates = [], estimate_lines = [],
      bills = [], bill_lines = [], purchase_orders = [], purchase_order_lines = [], goods_receipts = [],
      goods_receipt_lines = [], approval_limits = [], era_users = [], wht_rates = [],
      payments = [],
      bank_accounts = [\<lparr>ba_id = 40, ba_entity_id = 1, ba_name = ''USD'', ba_currency = ''USD'', ba_gl_account = ''1025''\<rparr>],
      mpesa_transactions = [], paystack_transactions = [],
      exchange_rates = [\<lparr>ex_id = 70, ex_entity_id = 1, ex_from = ''USD'', ex_to = ''KES'', ex_date = 739255,
        ex_type = Spot, ex_rate = 130, ex_source = ''CBK''\<rparr>],
      imported_transactions = [usd_receipt],
      statement_imports = [\<lparr>si_id = 60, si_entity_id = 1, si_bank_account_id = 40, si_format = ''csv'', si_filename = ''f.csv'',
        si_line_count = 1, si_matched_count = 0, si_unmatched_count = 0, si_content_hash = ''h''\<rparr>],
      reconciled_entries = []\<rparr>"

text \<open>Evaluation compares projections of results: a whole state has functions in it.\<close>

lemma not_isl: "\<not> isl r \<Longrightarrow> r = Inr (projr r)"
  by (cases r) simp_all

end
