(* ===== verification/Bank_Properties.thy ===== *)
theory Bank_Properties
  imports Bank_Samples
begin

text \<open>
  The bank feed: an import counts each line of an account once and a file once, the matching report
  covers the open lines of a statement exactly, and categorising a line books it exactly once.
\<close>

section \<open>Import\<close>

definition dedup_key :: "imported_transaction \<Rightarrow> uuid \<times> uuid \<times> string option" where
  "dedup_key t = (it_entity_id t, it_bank_account t, it_dedup_key t)"

definition dedup_ok :: "imported_transaction list \<Rightarrow> bool" where
  "dedup_ok ts \<longleftrightarrow> distinct (map dedup_key (filter (\<lambda>t. it_dedup_key t \<noteq> None) ts))"

lemma insert_imported_ok:
  assumes "insert_imported t (n, ts) = Inr (n', ts')" and "dedup_ok ts"
  shows "dedup_ok ts' \<and> length ts' + n = length ts + n' \<and> (\<exists>us. ts' = ts @ us)"
  using assms by (auto simp: insert_imported_def dedup_ok_def dedup_key_def same_dedup_def list_ex_iff split: if_splits)

lemma insert_all_ok:
  assumes "try_fold insert_imported xs (n, ts) = Inr (n', ts')" and "dedup_ok ts"
  shows "dedup_ok ts' \<and> length ts' + n = length ts + n' \<and> (\<exists>us. ts' = ts @ us)"
  using assms
proof (induction xs arbitrary: n ts)
  case (Cons x xs)
  then obtain n1 ts1 where one: "insert_imported x (n, ts) = Inr (n1, ts1)"
    and rest: "try_fold insert_imported xs (n1, ts1) = Inr (n', ts')"
    by (auto simp: and_then_Inr)
  from insert_imported_ok [OF one Cons.prems(2)] Cons.IH [OF rest] show ?case by auto
qed simp

text \<open>C38: An import keeps the keys of the lines of an account distinct, adds exactly the lines it
  reports, changes none that was there, and makes every later import of the same content for the same
  bank account fail, under whatever file name.\<close>

theorem statement_imports_once:
  assumes "import_statement T C H E db req = Inr (res, db')" and "dedup_ok (imported_transactions db)"
  shows "dedup_ok (imported_transactions db')
    \<and> take (length (imported_transactions db)) (imported_transactions db') = imported_transactions db
    \<and> length (imported_transactions db') = length (imported_transactions db) + im_line_count res
    \<and> isl (import_statement T' C' H E' db' (req\<lparr>ir_filename := other\<rparr>))"
proof -
  from assms(1) obtain f ls n ts where
    ins: "try_fold insert_imported (map (\<lambda>(k, l). new_imported E H req k l) (enumerate 0 ls)) (0, imported_transactions db) = Inr (n, ts)"
    and res: "im_line_count res = n"
    and db': "imported_transactions db' = ts"
    and recorded: "list_ex (\<lambda>i. si_entity_id i = ir_entity_id req \<and> si_bank_account_id i = ir_bank_account_id req
               \<and> si_content_hash i = content_hash H (ir_content req)) (statement_imports db')"
    by (auto simp: import_statement_def and_then_Inr Let_def split: if_splits prod.splits)
  have "isl (import_statement T' C' H E' db' (req\<lparr>ir_filename := other\<rparr>))"
    using recorded by (cases "detect_format other (ir_content req)";
      cases "parse_statement T' C' (projr (detect_format other (ir_content req))) (ir_content req)")
      (simp_all add: import_statement_def)
  with insert_all_ok [OF ins assms(2)] res db' show ?thesis by auto
qed

section \<open>Matching\<close>

definition reported :: "match_report \<Rightarrow> uuid list" where
  "reported r = map mp_line (exact_matches r) @ map nm_line (near_matches r) @ map as_line (ai_suggestions r) @ unmatched_ids r"

definition exact_ok :: "'a bank_db_scheme \<Rightarrow> imported_transaction list \<Rightarrow> match_pair \<Rightarrow> bool" where
  "exact_ok db ts m \<longleftrightarrow> (\<exists>t \<in> set ts. \<exists>x \<in> set (journal_entries db). mp_line m = it_id t \<and> mp_entry m = je_id x
     \<and> entry_mirrors db t x \<and> je_date x = it_date t \<and> je_reference x = it_reference t \<and> mp_amount m = line_amount t)"

lemma map_filter_map: "map f (List.map_filter (\<lambda>t. map_option (g t) (h t)) ts) = map (\<lambda>t. f (g t (the (h t)))) (filter (\<lambda>t. h t \<noteq> None) ts)"
  by (induction ts) (auto simp: List.map_filter_simps split: option.splits)

lemma exact_lines: "map mp_line (exact_pairs db ts) = map it_id (filter (\<lambda>t. exact_entry db t \<noteq> None) ts)"
  by (simp add: exact_pairs_def map_filter_map)

lemma exact_pairs_ok: "list_all (exact_ok db ts) (exact_pairs db ts)"
proof -
  have "exact_ok db ts \<lparr>mp_line = it_id t, mp_entry = je_id x, mp_amount = line_amount t, mp_date = it_date t\<rparr>"
    if "t \<in> set ts" "exact_entry db t = Some x" for t x
    using that find_SomeD [OF that(2) [unfolded exact_entry_def]] by (auto simp: exact_ok_def)
  then show ?thesis by (auto simp: exact_pairs_def list_all_iff List.map_filter_def)
qed

lemma near_step_lines:
  assumes "distinct (map nm_line ms)"
  shows "distinct (map nm_line (near_step (t, x) ms))"
    "nm_line ` set ms \<subseteq> nm_line ` set (near_step (t, x) ms)"
    "nm_line ` set (near_step (t, x) ms) \<subseteq> insert (it_id t) (nm_line ` set ms)"
  using assms by (auto simp: near_step_def Let_def)

lemma near_fold_lines:
  assumes "distinct (map nm_line ms)"
  shows "distinct (map nm_line (fold near_step cs ms))
    \<and> nm_line ` set (fold near_step cs ms) \<subseteq> nm_line ` set ms \<union> (\<lambda>(t, x). it_id t) ` set cs"
  using assms
proof (induction cs arbitrary: ms)
  case (Cons c cs)
  obtain t x where c: "c = (t, x)" by (cases c)
  note step = near_step_lines [OF Cons.prems, of t x]
  have chain: "X \<subseteq> Y \<union> A \<Longrightarrow> Y \<subseteq> insert i Z \<Longrightarrow> X \<subseteq> Z \<union> insert i A" for X Y Z A :: "uuid set" and i by blast
  note ih = Cons.IH [of "near_step c ms", unfolded c, OF step(1)]
  from chain [OF conjunct2 [OF ih] step(3)] conjunct1 [OF ih] show ?case by (simp add: c)
qed simp

lemma near_pairs_lines:
  "distinct (map nm_line (near_pairs db exact ts))"
  "set (map nm_line (near_pairs db exact ts)) \<subseteq> it_id ` set ts - set (map mp_line exact)"
proof -
  let ?cs = "List.map_filter (\<lambda>t. map_option (Pair t) (near_entry db (map mp_line exact) (map mp_entry exact) t)) ts"
  have "(\<lambda>(t, x). it_id t) ` set ?cs \<subseteq> it_id ` set ts - set (map mp_line exact)"
    by (auto simp: List.map_filter_def near_entry_def split: if_splits)
  moreover have fold: "distinct (map nm_line (near_pairs db exact ts))
      \<and> nm_line ` set (near_pairs db exact ts) \<subseteq> (\<lambda>(t, x). it_id t) ` set ?cs"
    using near_fold_lines [of "[]" ?cs] by (simp add: near_pairs_def)
  ultimately show "distinct (map nm_line (near_pairs db exact ts))"
    "set (map nm_line (near_pairs db exact ts)) \<subseteq> it_id ` set ts - set (map mp_line exact)"
    by (simp_all add: subset_trans [OF conjunct2 [OF fold]])
qed

lemma suggested_lines: "map as_line (List.map_filter (suggest_from_history db) ts) = map it_id (filter (\<lambda>t. suggest_from_history db t \<noteq> None) ts)"
proof (induction ts)
  case (Cons t ts)
  have "as_line s = it_id t" if "suggest_from_history db t = Some s" for s
    using that by (auto simp: suggest_from_history_def Let_def split: prod.splits option.splits if_splits)
  with Cons show ?case by (auto simp: List.map_filter_simps split: option.splits)
qed (simp add: List.map_filter_simps)

lemma keyed_filters_apart:
  "distinct (map f xs) \<Longrightarrow> set (map f (filter P xs)) \<inter> set (map f (filter (\<lambda>x. \<not> P x) xs)) = {}"
  by (induction xs) auto

lemma keyed_filters_cover: "set (map f (filter P xs)) \<union> set (map f (filter (\<lambda>x. \<not> P x) xs)) = f ` set xs"
  by (induction xs) auto

lemma parts_cover:
  assumes "distinct a" "distinct b" "distinct c" "distinct d" and "set a \<subseteq> S" "set b \<subseteq> S - set a"
    and "set c \<union> set d = S - set a - set b" "set c \<inter> set d = {}"
  shows "distinct (a @ b @ c @ d) \<and> set (a @ b @ c @ d) = S"
  using assms by auto

text \<open>C37: The report on a statement names every open line of it exactly once, as an exact match, a near
  match, a suggestion or unmatched; and an exact match is a posted entry of the tenant with the date,
  the reference and the mirrored amount of the line.\<close>

theorem match_report_covers_statement:
  assumes "distinct (map it_id (imported_transactions db))"
  shows "distinct (reported (match_bank_lines db e s))
    \<and> set (reported (match_bank_lines db e s)) = it_id ` set (open_lines db e s)
    \<and> list_all (exact_ok db (open_lines db e s)) (exact_matches (match_bank_lines db e s))"
proof -
  let ?ts = "open_lines db e s"
  let ?exact = "exact_pairs db ?ts"
  let ?near = "near_pairs db ?exact ?ts"
  define rest where "rest = filter (\<lambda>t. it_id t \<notin> set (map mp_line ?exact @ map nm_line ?near)) ?ts"
  have ids: "distinct (map it_id ?ts)" using assms by (simp add: open_lines_def distinct_map_filter)
  have reported: "reported (match_bank_lines db e s) = map mp_line ?exact @ map nm_line ?near
      @ map it_id (filter (\<lambda>t. suggest_from_history db t \<noteq> None) rest)
      @ map it_id (filter (\<lambda>t. suggest_from_history db t = None) rest)"
    by (simp add: reported_def match_bank_lines_def Let_def suggested_lines rest_def)
  have exact: "distinct (map mp_line ?exact)" "set (map mp_line ?exact) \<subseteq> it_id ` set ?ts"
    using ids by (auto simp: exact_lines distinct_map_filter)
  have ids_rest: "distinct (map it_id rest)" using ids by (simp add: rest_def distinct_map_filter)
  let ?none = "filter (\<lambda>t. suggest_from_history db t = None) rest"
  let ?some = "filter (\<lambda>t. suggest_from_history db t \<noteq> None) rest"
  have apart: "set (map it_id ?some) \<inter> set (map it_id ?none) = {}"
    by (rule keyed_filters_apart [OF ids_rest, of "\<lambda>t. suggest_from_history db t \<noteq> None", unfolded not_not])
  have "set (map it_id ?some) \<union> set (map it_id ?none) = it_id ` set rest"
    by (rule keyed_filters_cover [of it_id "\<lambda>t. suggest_from_history db t \<noteq> None", unfolded not_not])
  also have "\<dots> = it_id ` set ?ts - set (map mp_line ?exact) - set (map nm_line ?near)"
    by (auto simp: rest_def)
  finally have cover: "set (map it_id ?some) \<union> set (map it_id ?none) = \<dots>" .
  have dist: "distinct (map it_id ?some)" "distinct (map it_id ?none)"
    using ids_rest by (simp_all add: distinct_map_filter)
  have "distinct (reported (match_bank_lines db e s)) \<and> set (reported (match_bank_lines db e s)) = it_id ` set ?ts"
    unfolding reported
    by (rule parts_cover [OF exact(1) near_pairs_lines(1) dist exact(2) near_pairs_lines(2) cover apart])
  with exact_pairs_ok show ?thesis by (simp add: match_bank_lines_def Let_def)
qed

section \<open>Categorising\<close>

text \<open>What a bank line is worth on the bank account, in the currency of the books.\<close>

definition booked_value :: "decimal_lib \<Rightarrow> decimal \<Rightarrow> imported_transaction \<Rightarrow> decimal" where
  "booked_value L rate t = (if it_debit t \<noteq> None then - round_money L (line_amount t * rate) else round_money L (line_amount t * rate))"

lemma bank_lines_totals:
  "request_debits L (bank_lines ccy fx desc bank contra t) = request_credits L (bank_lines ccy fx desc bank contra t)"
  "request_net L (bank_lines ccy fx desc bank contra t) c
    = (if c = bank then booked_value L (unwrap_or fx 1) t else 0) - (if c = contra then booked_value L (unwrap_or fx 1) t else 0)"
  by (auto simp: bank_lines_def booked_value_def)

lemma categoriseD:
  assumes "categorise L C E db e req = Inr db'"
  obtains t rate p and en :: journal_entry and db1 where "find_imported db e (ct_transaction req) = Inr t"
    and "it_journal_entry_id t = None" and "line_rate C db e t = Inr rate"
    and "create_and_post_in_tx L C E db e (bank_entry t (unwrap_or (non_blank (ct_description req)) (it_description t))
         (bank_lines (line_currency db e (it_bank_account t)) (if rate = 1 then None else Some rate)
           (unwrap_or (non_blank (ct_description req)) (it_description t))
           (bank_gl_account db e (it_bank_account t)) (ct_account req) t)) p (ct_by req) = Inr (en, db1)"
    and "db' = db1\<lparr>imported_transactions := map (\<lambda>x.
            if it_id x = ct_transaction req \<and> it_entity_id x = e
            then x\<lparr>it_assigned_account := Some (ct_account req), it_status := ''posted'', it_journal_entry_id := Some (en_id en)\<rparr>
            else x) (imported_transactions db1)\<rparr>"
  using assms by (auto simp: categorise_def and_then_Inr create_and_post_def Let_def split: if_splits prod.splits)

lemma find_map_same: "(\<And>x. P (f x) = P x) \<Longrightarrow> List.find P (map f xs) = map_option f (List.find P xs)"
  by (induction xs) auto

text \<open>C36: Categorising a line of a bank statement books it exactly once: the line had no entry, the bank's
  account takes the amount of the line at the rate of its month and the chosen account the opposite,
  no other account moves, and categorising the line again fails whatever the account.\<close>

theorem categorising_books_once:
  assumes "categorise L C E db e req = Inr db'"
  shows "\<exists>t rate. find_imported db e (ct_transaction req) = Inr t \<and> it_journal_entry_id t = None
    \<and> line_rate C db e t = Inr rate
    \<and> account_net db' e c = account_net db e c
      + (if c = bank_gl_account db e (it_bank_account t) then booked_value L rate t else 0)
      - (if c = ct_account req then booked_value L rate t else 0)
    \<and> categorise L' C' E' db' e (req\<lparr>ct_account := c', ct_description := d'\<rparr>)
      = Inl (ValidationFailed ''Transaction is already posted to the ledger.'')"
proof -
  obtain t rate p and en :: journal_entry and db1 where t: "find_imported db e (ct_transaction req) = Inr t"
    and fresh: "it_journal_entry_id t = None" and rate: "line_rate C db e t = Inr rate"
    and post: "create_and_post_in_tx L C E db e (bank_entry t (unwrap_or (non_blank (ct_description req)) (it_description t))
         (bank_lines (line_currency db e (it_bank_account t)) (if rate = 1 then None else Some rate)
           (unwrap_or (non_blank (ct_description req)) (it_description t))
           (bank_gl_account db e (it_bank_account t)) (ct_account req) t)) p (ct_by req) = Inr (en, db1)"
    and db': "db' = db1\<lparr>imported_transactions := map (\<lambda>x.
            if it_id x = ct_transaction req \<and> it_entity_id x = e
            then x\<lparr>it_assigned_account := Some (ct_account req), it_status := ''posted'', it_journal_entry_id := Some (en_id en)\<rparr>
            else x) (imported_transactions db1)\<rparr>"
    using assms by (rule categoriseD)
  have fx: "unwrap_or (if rate = 1 then None else Some rate) 1 = rate" by simp
  have "account_net db' e c = account_net db1 e c" by (simp add: db' account_net_def)
  then have net: "account_net db' e c = account_net db e c
      + (if c = bank_gl_account db e (it_bank_account t) then booked_value L rate t else 0)
      - (if c = ct_account req then booked_value L rate t else 0)"
    using posting.post_net_exact [OF post, of c] by (simp add: bank_entry_def bank_lines_totals fx)
  have "imported_transactions db1 = imported_transactions db"
    using posting.post_frame(4) [OF post] by (cases db, cases db1) simp
  with t obtain t' where "find_imported db' e (ct_transaction req) = Inr t'" and "it_journal_entry_id t' \<noteq> None"
    by (auto simp: db' find_imported_def ok_or_def find_map_same split: option.splits dest!: find_SomeD)
  then have "categorise L' C' E' db' e (req\<lparr>ct_account := c', ct_description := d'\<rparr>)
      = Inl (ValidationFailed ''Transaction is already posted to the ledger.'')"
    by (auto simp: categorise_def)
  with t fresh rate net show ?thesis by blast
qed

section \<open>The sample tenant\<close>

definition march_csv :: string where
  "march_csv = ''d,Rent,12.50,,'' @ [CHR 10]"

definition one_amount :: text_lib where
  "one_amount = \<lparr>parse_decimal = (\<lambda>s. if s = ''12.50'' then Some (25 / 2) else None),
     parse_from_str = (\<lambda>s f. if s = ''d'' then Some 739257 else None)\<rparr>"

definition plain_hash :: hash_lib where
  "plain_hash = \<lparr>content_hash = (\<lambda>s. s), line_hash = (\<lambda>k l. show_nat k @ pl_description l)\<rparr>"

definition march_import :: import_request where
  "march_import = \<lparr>ir_entity_id = 1, ir_bank_account_id = 40, ir_filename = ''m.csv'', ir_content = march_csv\<rparr>"

definition imported_once :: "(import_result \<times> bank_db) erp_result" where
  "imported_once = import_statement one_amount gregorian plain_hash sample_env bank_start march_import"

theorem statement_imports_once_witness:
  "length (imported_transactions (snd (projr imported_once))) = 2
    \<and> isl (import_statement one_amount gregorian plain_hash sample_env2 (snd (projr imported_once)) march_import)"
proof -
  have done_ok: "\<not> isl imported_once" by code_simp
  have run: "import_statement one_amount gregorian plain_hash sample_env bank_start march_import
      = Inr (fst (projr imported_once), snd (projr imported_once))"
    unfolding imported_once_def [symmetric] prod.collapse by (rule not_isl [OF done_ok])
  have ok: "dedup_ok (imported_transactions bank_start)" by code_simp
  have n: "im_line_count (fst (projr imported_once)) = 1" "length (imported_transactions bank_start) = 1"
    by (code_simp, code_simp)
  have name: "march_import\<lparr>ir_filename := ''m.csv''\<rparr> = march_import" by (simp add: march_import_def)
  from statement_imports_once [OF run ok, where T' = one_amount and C' = gregorian
      and E' = sample_env2 and other = "''m.csv''"] n name
  show ?thesis by simp
qed

theorem match_report_covers_statement_witness:
  "set (reported (match_bank_lines bank_start 1 60)) = {50}"
proof -
  have ids: "distinct (map it_id (imported_transactions bank_start))" by code_simp
  have "it_id ` set (open_lines bank_start 1 60) = {50}" by (simp add: open_lines_def bank_start_def usd_receipt_def)
  with match_report_covers_statement [OF ids, of 1 60] show ?thesis by simp
qed

definition royalties :: categorise_request where
  "royalties = \<lparr>ct_transaction = 50, ct_account = ''5100'', ct_description = None, ct_by = User 9\<rparr>"

definition categorised :: "bank_db erp_result" where
  "categorised = categorise std_decimal gregorian sample_env bank_start 1 royalties"

theorem categorising_books_once_witness:
  "\<exists>t rate. line_rate gregorian bank_start 1 t = Inr rate
    \<and> account_net (projr categorised) 1 ''1025'' = account_net bank_start 1 ''1025'' + booked_value std_decimal rate t
    \<and> isl (categorise std_decimal gregorian sample_env2 (projr categorised) 1 royalties)"
proof -
  have ok: "\<not> isl categorised" by code_simp
  have run: "categorise std_decimal gregorian sample_env bank_start 1 royalties = Inr (projr categorised)"
    unfolding categorised_def [symmetric] by (rule not_isl [OF ok])
  have req: "ct_account royalties = ''5100''" "royalties\<lparr>ct_account := ''5100'', ct_description := None\<rparr> = royalties"
    by (simp_all add: royalties_def)
  have found: "t = usd_receipt" if "find_imported bank_start 1 (ct_transaction royalties) = Inr t" for t
    using that by (simp add: find_imported_def bank_start_def usd_receipt_def royalties_def)
  have gl: "bank_gl_account bank_start 1 (it_bank_account usd_receipt) = ''1025''" by code_simp
  from categorising_books_once [OF run, where c = "''1025''" and L' = std_decimal and C' = gregorian
      and E' = sample_env2 and c' = "''5100''" and d' = None]
  obtain t rate where "find_imported bank_start 1 (ct_transaction royalties) = Inr t" "line_rate gregorian bank_start 1 t = Inr rate"
    and "account_net (projr categorised) 1 ''1025'' = account_net bank_start 1 ''1025''
      + (if ''1025'' = bank_gl_account bank_start 1 (it_bank_account t) then booked_value std_decimal rate t else 0)
      - (if ''1025'' = ct_account royalties then booked_value std_decimal rate t else 0)"
    and "isl (categorise std_decimal gregorian sample_env2 (projr categorised) 1 royalties)"
    by (auto simp: req)
  with found gl req(1) show ?thesis by auto
qed

text \<open>Posting as an unmatched line has no such guard: the line just categorised is booked again.\<close>

lemma post_unmatched_books_again:
  "\<not> isl (post_unmatched std_decimal gregorian sample_env2 (projr categorised) 1
    \<lparr>pu_line = 50, pu_account = ''5100'', pu_description = ''again'', pu_posted_by = User 9\<rparr>)"
  by code_simp

end
