(* ===== verification/Fx_Properties.thy ===== *)
theory Fx_Properties
  imports Fx Bank_Samples
begin

text \<open>
  Revaluation restates every foreign balance at the new rate as at its date, and the entry of the
  next period takes all of it back.
\<close>

section \<open>The books up to a date\<close>

definition net_until :: "'a ledger_db_scheme \<Rightarrow> uuid \<Rightarrow> account_code \<Rightarrow> naive_date \<Rightarrow> decimal" where
  "net_until db e c d = sum_where (\<lambda>r. row_entity_id r = e \<and> on_account c r \<and> row_entry_date r \<le> d)
     (\<lambda>r. line_debit r - line_credit r) (journal_lines db)"

lemma net_until_posted:
  "net_until (posted_state E db e req p by' number n lines) e c d
    = net_until db e c d + (if rq_date req \<le> d then net_of lines c else 0)"
proof -
  have eta: "functional_net = (\<lambda>l. unwrap_or (functional_debit l) 0 - unwrap_or (functional_credit l) 0)"
    by (simp add: fun_eq_iff functional_net_def)
  show ?thesis
    by (cases "rq_date req \<le> d")
      (simp_all add: net_until_def net_of_def sum_where_map comp_def on_account_def eta sum_where_none)
qed

lemma net_until_post:
  assumes "create_and_post_in_tx L C E db e req i by' = Inr (en, db')"
    and "request_debits L (rq_lines req) = request_credits L (rq_lines req)"
  shows "net_until db' e c d = net_until db e c d + (if rq_date req \<le> d then request_net L (rq_lines req) c else 0)"
proof -
  obtain n number p where "db' = posted_state E db e req p by' number n (en_lines en)"
    using posting.post_effect [OF assms(1)] by blast
  then show ?thesis using posting.post_lines [OF assms] by (simp add: net_until_posted net_of_built)
qed

section \<open>The lines of a revaluation\<close>

text \<open>What the entry writes on the account of a balance.\<close>

definition restated :: "decimal_lib \<Rightarrow> decimal \<Rightarrow> decimal" where
  "restated L g = (if g = 0 then 0 else if 0 < g then round_money L g else - round_money L \<bar>g\<bar>)"

lemma reval_lines_even:
  "request_debits L (concat (map (reval_lines ps base) gs)) = request_credits L (concat (map (reval_lines ps base) gs))"
  by (induction gs) (auto simp: reval_lines_def Let_def split: prod.splits)

lemma reval_lines_net:
  "request_net L (concat (map (reval_lines ps base) gs)) c
    = sum_where (\<lambda>(b, g). fb_account b = c) (\<lambda>(b, g). restated L g) gs
      - (if c = unrealised_fx_gain ps then sum_where (\<lambda>(b, g). 0 < g) (\<lambda>(b, g). restated L g) gs else 0)
      - (if c = unrealised_fx_loss ps then sum_where (\<lambda>(b, g). g < 0) (\<lambda>(b, g). restated L g) gs else 0)"
proof (induction gs)
  case (Cons x gs)
  have "request_net L (reval_lines ps base x @ ls) c
      = (case x of (b, g) \<Rightarrow> (if fb_account b = c then restated L g else 0)
          - (if c = unrealised_fx_gain ps \<and> 0 < g then restated L g else 0)
          - (if c = unrealised_fx_loss ps \<and> g < 0 then restated L g else 0)) + request_net L ls c" for ls
    by (cases x) (auto simp: reval_lines_def restated_def Let_def)
  with Cons show ?case by (simp split: prod.splits)
qed simp

lemma swapped_totals:
  "request_debits L (map swap_line ls) = request_credits L ls"
  "request_credits L (map swap_line ls) = request_debits L ls"
  by (simp_all add: request_debits_def request_credits_def swap_line_def comp_def)

lemma reversal_net: "request_net L (map swap_line ls) c = - request_net L ls c"
proof -
  have "filter (\<lambda>l. rl_account l = c) (map swap_line ls) = map swap_line (filter (\<lambda>l. rl_account l = c) ls)"
    by (simp add: filter_map comp_def swap_line_def)
  then show ?thesis by (simp add: request_net_def swapped_totals)
qed

section \<open>The run\<close>

definition closing_rate :: "'a fx_db_scheme \<Rightarrow> uuid \<Rightarrow> naive_date \<Rightarrow> currency_code \<Rightarrow> decimal" where
  "closing_rate db e d ccy = unwrap_or (latest_rate (\<lambda>r. rate_pair e ccy (base_currency (configs db e)) r \<and> ex_date r \<le> d) (exchange_rates db)) 0"

lemma gain_losses:
  assumes "try_map (gain_loss db e (base_currency (configs db e)) d) bs = Inr gs"
  shows "gs = map (\<lambda>b. (b, balance_fcy b * closing_rate db e d (fb_currency b) - balance_lcy b)) bs"
  using assms
proof (induction bs arbitrary: gs)
  case (Cons b bs)
  then obtain g gs' where one: "gain_loss db e (base_currency (configs db e)) d b = Inr g"
    and rest: "try_map (gain_loss db e (base_currency (configs db e)) d) bs = Inr gs'" and gs: "gs = g # gs'"
    by (auto simp: and_then_Inr)
  have "g = (b, balance_fcy b * closing_rate db e d (fb_currency b) - balance_lcy b)"
    using one by (auto simp: gain_loss_def get_rate_def closing_rate_def and_then_Inr ok_or_def unwrap_or_def split: option.splits)
  with Cons.IH [OF rest] gs show ?case by simp
qed simp

lemma run_fx_revaluationD:
  assumes "run_fx_revaluation L C E db e p d by' = (db', Inr j)"
  obtains ls :: "journal_line_request list" and en en' :: journal_entry and i pr db1
  where "find_period db e p = Some pr"
    and "ls = concat (map (reval_lines (posting (configs db e)) (base_currency (configs db e)))
      (map (\<lambda>b. (b, balance_fcy b * closing_rate db e d (fb_currency b) - balance_lcy b))
        (fcy_balances db e d (base_currency (configs db e)) (non_monetary (posting (configs db e))))))"
    and "create_and_post_in_tx L C (evens E) db e (reval_entry C d ls) p by' = Inr (en, db1)"
    and "create_and_post_in_tx L C (odds E) db1 e (reval_reversal C d (end_date pr + 1) ls) i by' = Inr (en', db')"
proof -
  from assms obtain pr ls en db1 where plan: "plan_revaluation db e p d = Inr (pr, ls)"
    and one: "create_and_post L C (evens E) db e (reval_entry C d ls) p by' = Inr (en, db1)"
    by (auto simp: run_fx_revaluation_def split: sum.splits prod.splits)
  with assms obtain q :: fiscal_period and en' where "create_and_post L C (odds E) db1 e (reval_reversal C d (end_date pr + 1) ls) (fp_id q) by' = Inr (en', db')"
    by (auto simp: run_fx_revaluation_def next_period_start_def Let_def split: sum.splits prod.splits)
  moreover from plan obtain gs where "find_period db e p = Some pr"
    and gs: "try_map (gain_loss db e (base_currency (configs db e)) d)
      (fcy_balances db e d (base_currency (configs db e)) (non_monetary (posting (configs db e)))) = Inr gs"
    and "ls = concat (map (reval_lines (posting (configs db e)) (base_currency (configs db e))) gs)"
    by (auto simp: plan_revaluation_def get_period_def and_then_Inr ok_or_def Let_def split: option.splits if_splits)
  ultimately show thesis using that one gain_losses [OF gs] by (simp add: create_and_post_def)
qed

section \<open>The property\<close>

text \<open>The lines of a revaluation in terms of the balances it restates.\<close>

definition unrealised :: "'a fx_db_scheme \<Rightarrow> uuid \<Rightarrow> naive_date \<Rightarrow> fcy_balance_row \<Rightarrow> decimal" where
  "unrealised db e d b = balance_fcy b * closing_rate db e d (fb_currency b) - balance_lcy b"

text \<open>
  C40: a revaluation restates, as at its date, the foreign balances of the tenant: those of the posted
  entries up to that date, by account and currency, on asset and liability accounts (and their
  contra accounts) other than inventory, fixed assets and accumulated depreciation. Each account moves by
  the value of its foreign balances at the closing rate less their book value, each rounded to the cent;
  the account for unrealised gains takes the gains with the opposite sign, the one for unrealised losses
  the losses, and no other account moves. With the entry that opens the next period no account has
  moved at all; should the revaluation be dated after the end of its period, the two cancel by its date
  already.
\<close>

theorem revaluation_restates_and_reverses:
  assumes "run_fx_revaluation L C E db e p d by' = (db', Inr j)" and "find_period db e p = Some pr"
  shows "let ps = posting (configs db e); bs = fcy_balances db e d (base_currency (configs db e)) (non_monetary ps);
      R = (\<lambda>b. restated L (unrealised db e d b)) in
    net_until db' e c d = net_until db e c d
      + (if d \<le> end_date pr
         then sum_where (\<lambda>b. fb_account b = c) R bs
           - (if c = unrealised_fx_gain ps then sum_where (\<lambda>b. 0 < unrealised db e d b) R bs else 0)
           - (if c = unrealised_fx_loss ps then sum_where (\<lambda>b. unrealised db e d b < 0) R bs else 0)
         else 0)
    \<and> account_net db' e c = account_net db e c"
proof -
  obtain ls :: "journal_line_request list" and en en' :: journal_entry and i pr' db1
    where pr': "find_period db e p = Some pr'"
      and ls: "ls = concat (map (reval_lines (posting (configs db e)) (base_currency (configs db e)))
        (map (\<lambda>b. (b, balance_fcy b * closing_rate db e d (fb_currency b) - balance_lcy b))
          (fcy_balances db e d (base_currency (configs db e)) (non_monetary (posting (configs db e))))))"
      and one: "create_and_post_in_tx L C (evens E) db e (reval_entry C d ls) p by' = Inr (en, db1)"
      and two': "create_and_post_in_tx L C (odds E) db1 e (reval_reversal C d (end_date pr' + 1) ls) i by' = Inr (en', db')"
    by (rule run_fx_revaluationD [OF assms(1)])
  have two: "create_and_post_in_tx L C (odds E) db1 e (reval_reversal C d (end_date pr + 1) ls) i by' = Inr (en', db')"
    using two' pr' assms(2) by simp
  have even: "request_debits L ls = request_credits L ls" unfolding ls by (rule reval_lines_even)
  have rq: "rq_lines (reval_entry C d ls) = ls" "rq_date (reval_entry C d ls) = d"
    "rq_lines (reval_reversal C d (end_date pr + 1) ls) = map swap_line ls"
    "rq_date (reval_reversal C d (end_date pr + 1) ls) = end_date pr + 1"
    by (simp_all add: reval_entry_def reval_reversal_def)
  have "net_until db1 e c d = net_until db e c d + request_net L ls c"
    using net_until_post [OF one] even by (simp add: rq)
  moreover have "net_until db' e c d = net_until db1 e c d - (if d \<le> end_date pr then 0 else request_net L ls c)"
    using net_until_post [OF two] even by (simp add: rq swapped_totals reversal_net)
  moreover have "account_net db1 e c = account_net db e c + request_net L ls c"
    using posting.post_net_exact [OF one] even by (simp add: rq)
  moreover have "account_net db' e c = account_net db1 e c - request_net L ls c"
    using posting.post_net_exact [OF two] even by (simp add: rq swapped_totals reversal_net)
  moreover note reval_lines_net [of L "posting (configs db e)" "base_currency (configs db e)"
      "map (\<lambda>b. (b, unrealised db e d b)) (fcy_balances db e d (base_currency (configs db e)) (non_monetary (posting (configs db e))))" c]
  ultimately show ?thesis
    by (simp add: Let_def ls sum_where_map comp_def unrealised_def)
qed

definition revalued :: "bank_db \<times> uuid erp_result" where
  "revalued = run_fx_revaluation std_decimal gregorian sample_env bank_start 1 1 739282 (User 9)"

theorem revaluation_restates_and_reverses_witness:
  "net_until (fst revalued) 1 ''1025'' 739282 = 13000 \<and> account_net (fst revalued) 1 ''1025'' = 12000"
proof -
  have ok: "\<not> isl (snd revalued)" by code_simp
  then have run: "run_fx_revaluation std_decimal gregorian sample_env bank_start 1 1 739282 (User 9)
      = (fst revalued, Inr (projr (snd revalued)))"
    using not_isl [OF ok] by (simp add: revalued_def prod_eq_iff)
  have p: "find_period bank_start 1 1 = Some (sample_period 1 739252 739282 ''open'')"
    by (simp add: bank_start_def find_period_def sample_period_def)
  have d: "(739282 :: int) \<le> end_date (sample_period 1 739252 739282 ''open'')" by (simp add: sample_period_def)
  have c: "''1025'' \<noteq> unrealised_fx_gain (posting (configs bank_start 1))" "''1025'' \<noteq> unrealised_fx_loss (posting (configs bank_start 1))"
    by (code_simp, code_simp)
  have old: "net_until bank_start 1 ''1025'' 739282 = 12000" "account_net bank_start 1 ''1025'' = 12000"
    by (code_simp, code_simp)
  have up: "sum_where (\<lambda>b. fb_account b = ''1025'') (\<lambda>b. restated std_decimal (unrealised bank_start 1 739282 b))
      (fcy_balances bank_start 1 739282 (base_currency (configs bank_start 1)) (non_monetary (posting (configs bank_start 1)))) = 1000"
    by code_simp
  have "net_until (fst revalued) 1 ''1025'' 739282 = net_until bank_start 1 ''1025'' 739282
      + sum_where (\<lambda>b. fb_account b = ''1025'') (\<lambda>b. restated std_decimal (unrealised bank_start 1 739282 b))
        (fcy_balances bank_start 1 739282 (base_currency (configs bank_start 1)) (non_monetary (posting (configs bank_start 1))))"
    "account_net (fst revalued) 1 ''1025'' = account_net bank_start 1 ''1025''"
    using revaluation_restates_and_reverses [OF run p, of "''1025''"] c d
    unfolding Let_def by (simp_all only: if_True if_False simp_thms diff_0_right)
  then show ?thesis by (simp only: old up) simp
qed

end
