(* ===== verification/Spec2Isabelle.thy ===== *)
theory Spec2Isabelle
  imports Chart Settings Posting_Properties Reversal Period_Properties Report_Properties YearEnd_Properties
    Leave_Properties Payroll_Properties Stock_Properties Receivables_Properties Payment_Properties Assets_Properties
    Amortization_Properties Manufacturing_Properties Access_Properties Statements_Correct Bank_Properties Fx_Properties
begin

text \<open>
  Verification of zavora ERP: the services of the crate \<^verbatim>\<open>zavora-erp-core\<close> and the access control of the
  HTTP interface \<^verbatim>\<open>zavora-erp-api\<close>.

  \<^bold>\<open>The program.\<close> The core is a library of services over one relational database. A service
  function opens a transaction, reads rows, decides, writes rows and commits. The books are a
  double-entry journal (\<^verbatim>\<open>ledger/\<close>, \<^verbatim>\<open>services/journal.rs\<close>); every other module (payroll, year end,
  sales, purchases, payments, stock, assets, amortisation, manufacturing, bank, exchange rates) reaches
  them by one function, \<^verbatim>\<open>create_and_post_in_tx\<close>, and every report reads them through one query over
  period snapshots and the lines after the last snapshot. The HTTP interface lets a request reach a
  service only through its authentication layer and the permission its route asks for.

  \<^bold>\<open>How code becomes definitions.\<close> The rows a module owns are a record of lists, one list per table
  in order of insertion; the state of a module extends the state of the modules it calls: from the
  chart over the periods to \<open>ledger_db\<close>, and from there \<open>stock_db\<close>, \<open>masters_db\<close>, \<open>sales_db\<close>, \<open>ap_db\<close>,
  \<open>payments_db\<close>, \<open>fx_db\<close>, \<open>bank_db\<close>, each on top of the one before; beside them \<open>people_db\<close> and \<open>payroll_db\<close>,
  \<open>assets_db\<close>, \<open>amort_db\<close> and \<open>mfg_db\<close>; \<open>rbac_db\<close> stands alone. A service function is a definition of the
  same name that returns \<open>Inl\<close> an \<open>erp_error\<close> or \<open>Inr\<close> a result. A function that runs in one transaction
  returns the new state only in \<open>Inr\<close>, since an error rolls it back; a function that commits more than
  once returns the state beside the result. \<open>Option\<close>, \<open>Decimal\<close>, dates and UUIDs are \<open>option\<close>, \<open>rat\<close>, day
  numbers and \<open>nat\<close>; counters keep their width as words. A value that a column of fixed scale
  rounds is stored through \<open>numeric_column\<close> (Money) or, on payslips, \<open>numeric2\<close>. Triggers and unique
  constraints of the tables that a service can run into are branches of its definition.

  \<^bold>\<open>Parameters.\<close> Code outside the repository is an argument, and its documented laws are locales:
  \<open>decimal_laws\<close> (Money) the rounding of \<^verbatim>\<open>rust_decimal\<close>; \<open>calendar_laws\<close> (Calendar) the year, month and
  day of \<^verbatim>\<open>chrono\<close>, extended by \<open>calendar_days\<close> (Months) over the supported range of days; \<open>numeric_laws\<close>
  (Stock) the division of the database; \<open>json_laws\<close> (Masters) the round trip of stored JSON;
  \<open>jwt_laws\<close> (Access) that a token which verifies was signed with the secret (idealised: it is the
  text the encoder produced for its claims); \<open>text_laws\<close>
  (Statements_Correct) that the packages read back the dates and decimals they print. \<open>hash_lib\<close> is the
  hash of the bank import and has no laws; \<open>environment\<close> is the clock and the source of fresh UUIDs.
  \<open>std_decimal\<close>, \<open>gregorian\<close> and the sample instances of the others are executable and satisfy the laws,
  and the witnesses run on these. The contract of posting is the locale \<open>posting_service\<close> (Posting),
  interpreted on the model of \<^verbatim>\<open>create_and_post_in_tx\<close>; every module that books uses its facts.

  \<^bold>\<open>The theories.\<close>
  \<^item> ERP_Prelude: basic types, \<open>erp_error\<close> (\<^verbatim>\<open>error.rs\<close>), sequencing, sums over selected rows, decimal
    text of counters.
  \<^item> Money: \<^verbatim>\<open>money.rs\<close>, rounding and the tolerance of a rounding adjustment.
  \<^item> Chart: \<^verbatim>\<open>ledger/account.rs\<close>, \<^verbatim>\<open>ledger/coa_template.rs\<close>, \<^verbatim>\<open>services/accounts.rs\<close>, \<^verbatim>\<open>posting/mod.rs\<close>. Codes
    stay unique, seeding creates the whole template and the posting defaults point into it.
  \<^item> Settings: \<^verbatim>\<open>settings/mod.rs\<close>, document numbering and VAT rates.
  \<^item> Calendar, Months, Period: dates, months as intervals of days, \<^verbatim>\<open>period/mod.rs\<close>.
  \<^item> Journal: \<^verbatim>\<open>ledger/journal.rs\<close>, \<^verbatim>\<open>services/journal.rs\<close>, \<^verbatim>\<open>engine.rs\<close>: validation, the period rule, posting
    with rounding line and snapshots, reversal. Journal_Correct: the ledger invariant (posted
    entries balance, every line has its snapshot, snapshots are the sums of lines) and that
    posting keeps it. Posting: the contract of posting; what the clients of the journal use.
    Posting_Succeeds: when posting goes through. Reversal and Posting_Properties: the properties.
  \<^item> Periods, Periods_Correct, Lifecycle, Period_Properties: \<^verbatim>\<open>services/periods.rs\<close> and the ledger as a
    transition system (accounts, periods, posting, reversal), its invariants and the finality of
    the hard close.
  \<^item> Reporting, Reporting_Correct, Report_Properties: \<^verbatim>\<open>services/reporting.rs\<close>, the as-at query equals
    the sum of all lines; trial balance, balance sheet and profit and loss follow from it.
  \<^item> YearEnd, YearEnd_Correct, YearEnd_Properties: \<^verbatim>\<open>services/period_close.rs\<close>.
  \<^item> HR, Leave, Leave_Correct, Leave_Properties: \<^verbatim>\<open>hr/mod.rs\<close>, \<^verbatim>\<open>parties/employee.rs\<close>, \<^verbatim>\<open>services/leave.rs\<close>;
    the balances of every reachable state equal the days of the requests behind them.
  \<^item> Payroll_Compute, Payroll, Payroll_Correct, Payroll_Life, Payroll_Properties: \<^verbatim>\<open>payroll/\<close>,
    \<^verbatim>\<open>services/payroll.rs\<close>, \<^verbatim>\<open>payroll_masters.rs\<close>, \<^verbatim>\<open>payroll_config.rs\<close>; payslips of amounts in cents add
    up, the entry of a run of such payslips balances to the cent and posts, an approved run does not change.
  \<^item> Stock, Stock_Moves, Stock_Correct, Stock_Life, Stock_Properties: \<^verbatim>\<open>inventory/mod.rs\<close>,
    \<^verbatim>\<open>services/inventory.rs\<close>, \<^verbatim>\<open>warehousing.rs\<close>; the quantity of an item, its movements and its
    warehouses agree in every reachable state, and it is never negative.
  \<^item> Masters, Catalog, Invoice_Data, Invoicing, Estimates, Bills, Payments: \<^verbatim>\<open>parties/\<close>,
    \<^verbatim>\<open>services/catalog.rs\<close>, \<^verbatim>\<open>invoicing/\<close>, \<^verbatim>\<open>services/invoicing.rs\<close>, \<^verbatim>\<open>ap/bill.rs\<close>, \<^verbatim>\<open>services/bills.rs\<close>,
    \<^verbatim>\<open>payments/\<close>, \<^verbatim>\<open>services/payments.rs\<close>. Receivables, Receivables_Correct,
    Receivables_Payments, Receivables_Properties: sales and payments of a tenant in
    its base currency as a transition system whose documents and control account agree. Payment_Properties: bills and repeated callbacks.
  \<^item> Assets, Assets_Correct, Assets_Properties: \<^verbatim>\<open>assets/mod.rs\<close>, \<^verbatim>\<open>services/assets.rs\<close>; the depreciation
    run ends, is idempotent within a month and keeps register and ledger together. Amortization,
    Amortization_Properties: \<^verbatim>\<open>amortization/mod.rs\<close>, \<^verbatim>\<open>services/amortization.rs\<close>.
  \<^item> Manufacturing, Manufacturing_Properties: \<^verbatim>\<open>services/manufacturing.rs\<close>; the account for work in
    progress holds the components of the orders whose completion has not been booked.
  \<^item> Fx, Fx_Properties: \<^verbatim>\<open>fx/mod.rs\<close>, \<^verbatim>\<open>services/fx.rs\<close>; revaluation restates the foreign balances and is
    taken back in the next period.
  \<^item> Statements, Statements_Correct: the statement parsers of \<^verbatim>\<open>services/bank.rs\<close> and the round trip of
    the CSV layout. Bank, Bank_Samples, Bank_Properties: \<^verbatim>\<open>services/bank.rs\<close>, \<^verbatim>\<open>transactions.rs\<close>; imports,
    matching and categorisation.
  \<^item> Rbac, Rbac_Correct, Route_Permissions, Access, Access_Properties: \<^verbatim>\<open>rbac/mod.rs\<close>,
    \<^verbatim>\<open>services/rbac.rs\<close>, \<^verbatim>\<open>auth/mod.rs\<close> and the middleware of the API; a built-in role keeps its seeded
    permissions, and a handler runs only for a role that has what its route asks for.
  \<^item> Samples: a small ledger the witnesses post into.

  \<^bold>\<open>Conditions.\<close> A transition system takes the requests as they come; where a result needs more than
  the code checks, the condition is in the statement and named in the text before it: amounts in cents
  without negative deductions (\<open>slip_ok\<close>) for the exact payroll entry, movements entered with
  non-negative costs for the cost of an item, cards in cents (\<open>card_cents\<close>) for depreciation, and a tenant
  that keeps an account for one purpose (\<open>control_reserved\<close>, \<open>wip_reserved\<close>). The receivables are the one
  system whose steps are restricted (\<open>ar_step\<close>, \<open>base_documents\<close>). Lemmas show what the code does outside
  such conditions: \<open>double_application_overpays\<close>, \<open>negative_overhead_leaves_wip\<close>, \<open>installments_overshoot\<close>,
  \<open>short_row_panics\<close>, \<open>post_unmatched_books_again\<close>.

  \<^bold>\<open>Bounds and termination.\<close> Most loops of the code are over a list or a fixed number of months, and
  their definitions are structurally recursive. The others carry a measure: \<open>amortize\<close> (the
  installments left), \<open>count_days\<close> (the days left), \<open>squeeze_dashes\<close> (the length), \<open>free_numbered_key\<close>
  (the keys taken that are not yet passed) and \<open>ofx_blocks\<close> (the text left). The month by month loop of
  the depreciation run ends only where the calendar moves forward, so \<open>depreciate_months\<close> is a partial
  function whose value \<open>None\<close> is not returning, and that it returns is proved for every
  asset and target within \<open>last_day\<close>, day 90000000, the range \<open>calendar_days\<close> speaks about (\<^verbatim>\<open>chrono\<close> ends
  near the year 262000). No definition has fuel. \<^verbatim>\<open>Decimal\<close> overflow (28 digits) is a panic of the
  package and outside the model.

  \<^bold>\<open>Not modelled.\<close> Errors of the database itself, foreign keys, the audit stream, notifications and
  connection handling; the text of messages is kept but for interpolated numbers, dates and ids.
  Point of sale, projects, CRM, billing, the administration of tenants and users, tax filings,
  intercompany and consolidation, tenders, requisitions and purchase orders, and the aging, cash flow
  and party reports. Rendering of documents, clients of external services (payment providers, the
  central bank's feed, OCR, e-mail, the tax authority), the decoding of requests and the conversational
  agent hold no rules of the books; they reach them through the operations modelled here.
\<close>

end
